(* ===== verification/Go_Prelude.thy ===== *)
theory Go_Prelude
  imports Complex_Main "HOL-Library.Sublist" "HOL-Library.Char_ord" "HOL-Library.List_Lexorder"
    "HOL-Library.AList"
begin

text \<open>
  The parts of the Go language and of its standard library that the agent's sources use, and the
  lemmas the component theories share:
  \<^item> errors: an \<open>error\<close> value is a \<open>gerr\<close>, a message and the flag that \<open>steps.IsRefused\<close> reads; a
    function that returns only an error is a \<open>gerr option\<close> (\<open>None\<close> is \<open>nil\<close>), one that returns a
    value or an error a sum;
  \<^item> \<open>andThen\<close>: run a stateful call, return early on its error;
  \<^item> strings are byte lists (\<open>string\<close>), with the functions of \<open>strings\<close> and \<open>strconv\<close> the sources
    call;
  \<^item> a \<open>time.Time\<close> is an \<open>int\<close>: nanoseconds since the Unix epoch; \<open>time.Duration\<close> is an \<open>int\<close>
    with the 64-bit wrap-around and saturation written out where the code computes one;
  \<^item> Go maps that are iterated are association lists (the iteration order is the list order).
\<close>

named_theorems go_simps "equations of the Go library model used to evaluate and to rewrite"
named_theorems go_splits "case splits on results of the model"

section \<open>Errors and early return\<close>

datatype gerr = GErr (is_refused: bool) (err_msg: string)

abbreviation refuse :: "string \<Rightarrow> gerr" where "refuse m \<equiv> GErr True m"
abbreviation failure :: "string \<Rightarrow> gerr" where "failure m \<equiv> GErr False m"

text \<open>\<open>if err := f(); err != nil { return err }; k\<close> for functions that return only an error.\<close>

definition orElse :: "'e option \<Rightarrow> 'e option \<Rightarrow> 'e option" where
  "orElse e k = (case e of Some x \<Rightarrow> Some x | None \<Rightarrow> k)"

lemma orElse_simps [simp]: "orElse (Some x) k = Some x" "orElse None k = k"
  by (simp_all add: orElse_def)

lemma orElse_None_iff [simp]: "orElse e k = None \<longleftrightarrow> e = None \<and> k = None"
  by (cases e) simp_all

text \<open>The same early return in front of a value-or-error result.\<close>

definition guard :: "'e option \<Rightarrow> 'e + 'a \<Rightarrow> 'e + 'a" where
  "guard e k = (case e of Some x \<Rightarrow> Inl x | None \<Rightarrow> k)"

lemma guard_simps [simp]: "guard (Some x) k = Inl x" "guard None k = k"
  by (simp_all add: guard_def)

lemma guard_Inr_iff [simp]: "guard e k = Inr v \<longleftrightarrow> e = None \<and> k = Inr v"
  by (cases e) simp_all

text \<open>A stateful call followed by the early return on its error.\<close>

definition andThen :: "'s \<times> ('e + 'a) \<Rightarrow> ('s \<Rightarrow> 'a \<Rightarrow> 's \<times> ('e + 'b)) \<Rightarrow> 's \<times> ('e + 'b)" where
  "andThen r k = (case r of (s, Inl e) \<Rightarrow> (s, Inl e) | (s, Inr x) \<Rightarrow> k s x)"

lemma andThen_simps [simp]:
  "andThen (s, Inl e) k = (s, Inl e)" "andThen (s, Inr x) k = k s x"
  by (simp_all add: andThen_def)

lemma andThen_split [go_splits]:
  "P (andThen r k) \<longleftrightarrow>
     (\<forall>s e. r = (s, Inl e) \<longrightarrow> P (s, Inl e)) \<and> (\<forall>s x. r = (s, Inr x) \<longrightarrow> P (k s x))"
  by (cases r; cases "snd r") (auto simp: andThen_def)

lemma andThen_Inr_iff:
  "andThen r k = (t, Inr y) \<longleftrightarrow> (\<exists>s x. r = (s, Inr x) \<and> k s x = (t, Inr y))"
  by (cases r; cases "snd r") (auto simp: andThen_def)

text \<open>
  The rule behind every "whatever happens" property of a chain of calls: if the first call
  establishes \<open>Q\<close> of the state it leaves and the continuation keeps \<open>R\<close> from there, then \<open>R\<close>
  holds of the final state, error paths included.
\<close>

lemma andThen_state:
  assumes "Q (fst r)" and "\<And>s. Q s \<Longrightarrow> R s" and "\<And>s x. Q s \<Longrightarrow> R (fst (k s x))"
  shows "R (fst (andThen r k))"
  using assms by (cases r; cases "snd r") (auto simp: andThen_def)

section \<open>Strings\<close>

abbreviation HasPrefix :: "string \<Rightarrow> string \<Rightarrow> bool" where "HasPrefix s p \<equiv> prefix p s"
abbreviation HasSuffix :: "string \<Rightarrow> string \<Rightarrow> bool" where "HasSuffix s p \<equiv> suffix p s"
abbreviation Contains :: "string \<Rightarrow> string \<Rightarrow> bool" where "Contains s p \<equiv> sublist p s"

definition TrimSuffix :: "string \<Rightarrow> string \<Rightarrow> string" where
  "TrimSuffix s p = (if suffix p s then take (length s - length p) s else s)"

definition TrimPrefix :: "string \<Rightarrow> string \<Rightarrow> string" where
  "TrimPrefix s p = (if prefix p s then drop (length p) s else s)"

lemma TrimSuffix_append [simp]: "TrimSuffix (s @ p) p = s"
  by (simp add: TrimSuffix_def suffix_def)

lemma TrimPrefix_append [simp]: "TrimPrefix (p @ s) p = s"
  by (simp add: TrimPrefix_def)

fun Split :: "char \<Rightarrow> string \<Rightarrow> string list" where
  "Split d [] = [[]]"
| "Split d (c # cs) =
     (if c = d then [] # Split d cs
      else (case Split d cs of [] \<Rightarrow> [[c]] | w # ws \<Rightarrow> (c # w) # ws))"

definition isSpace :: "char \<Rightarrow> bool" where
  "isSpace c \<longleftrightarrow> c \<in> {CHR 0x09, CHR 0x0A, CHR 0x0B, CHR 0x0C, CHR 0x0D, CHR '' ''}"

definition TrimSpace :: "string \<Rightarrow> string" where
  "TrimSpace s = rev (dropWhile isSpace (rev (dropWhile isSpace s)))"

text \<open>\<open>strings.Fields\<close>: the maximal runs of non-space bytes.\<close>

function Fields :: "string \<Rightarrow> string list" where
  "Fields s =
     (let t = dropWhile isSpace s in
      if t = [] then []
      else takeWhile (\<lambda>c. \<not> isSpace c) t # Fields (dropWhile (\<lambda>c. \<not> isSpace c) t))"
  by pat_completeness auto

lemma length_dropWhile_nonspace:
  assumes "dropWhile isSpace s \<noteq> []"
  shows "length (dropWhile (\<lambda>c. \<not> isSpace c) (dropWhile isSpace s)) < length s"
proof -
  obtain c cs where t: "dropWhile isSpace s = c # cs"
    using assms by (cases "dropWhile isSpace s") auto
  then have "\<not> isSpace c" by (metis hd_dropWhile list.distinct(1) list.sel(1))
  then have "length (dropWhile (\<lambda>c. \<not> isSpace c) (dropWhile isSpace s)) \<le> length cs"
    unfolding t by (simp add: length_dropWhile_le)
  also have "\<dots> < length (dropWhile isSpace s)" by (simp add: t)
  also have "\<dots> \<le> length s" by (rule length_dropWhile_le)
  finally show ?thesis .
qed

termination Fields
  by (relation "measure length") (auto simp: length_dropWhile_nonspace)

declare Fields.simps [simp del]

fun Join :: "string \<Rightarrow> string list \<Rightarrow> string" where
  "Join sep [] = []"
| "Join sep [w] = w"
| "Join sep (w # ws) = w @ sep @ Join sep ws"

text \<open>\<open>strings.Cut\<close> at a one-byte separator: before, after, found.\<close>

definition Cut :: "string \<Rightarrow> char \<Rightarrow> string \<times> string \<times> bool" where
  "Cut s d = (if d \<in> set s
     then (takeWhile (\<lambda>c. c \<noteq> d) s, tl (dropWhile (\<lambda>c. c \<noteq> d) s), True) else (s, [], False))"

section \<open>Character classes and decimal numbers\<close>

definition isDigit :: "char \<Rightarrow> bool" where
  "isDigit c \<longleftrightarrow> (48::nat) \<le> of_char c \<and> of_char c \<le> (57::nat)"

definition isUpperC :: "char \<Rightarrow> bool" where
  "isUpperC c \<longleftrightarrow> (65::nat) \<le> of_char c \<and> of_char c \<le> (90::nat)"

definition isLowerC :: "char \<Rightarrow> bool" where
  "isLowerC c \<longleftrightarrow> (97::nat) \<le> of_char c \<and> of_char c \<le> (122::nat)"

definition isAlnum :: "char \<Rightarrow> bool" where
  "isAlnum c \<longleftrightarrow> isDigit c \<or> isUpperC c \<or> isLowerC c"

definition ToLowerC :: "char \<Rightarrow> char" where
  "ToLowerC c = (if isUpperC c then char_of (of_char c + (32::nat)) else c)"

text \<open>\<open>strings.ToLower\<close> on ASCII text.\<close>

definition ToLower :: "string \<Rightarrow> string" where
  "ToLower s = map ToLowerC s"

definition digitChar :: "nat \<Rightarrow> char" where
  "digitChar n = char_of (48 + n)"

fun natString :: "nat \<Rightarrow> string" where
  "natString n = (if n < 10 then [digitChar n] else natString (n div 10) @ [digitChar (n mod 10)])"

declare natString.simps [simp del]

text \<open>\<open>strconv.Itoa\<close>, \<open>FormatInt(_, 10)\<close>, \<open>FormatUint(_, 10)\<close> and the verb \<open>%d\<close>.\<close>

definition Itoa :: "int \<Rightarrow> string" where
  "Itoa n = (if n < 0 then CHR ''-'' # natString (nat (- n)) else natString (nat n))"

definition decVal :: "string \<Rightarrow> nat" where
  "decVal s = foldl (\<lambda>a c. a * 10 + (of_char c - 48)) 0 s"

text \<open>
  \<open>strconv.ParseUint(s, 10, bits)\<close> and \<open>strconv.ParseInt(s, 10, bits)\<close>; a syntax or a range error
  is \<open>None\<close>.
\<close>

definition ParseUint :: "nat \<Rightarrow> string \<Rightarrow> int option" where
  "ParseUint bits s =
     (if s \<noteq> [] \<and> list_all isDigit s \<and> decVal s < 2 ^ bits then Some (int (decVal s)) else None)"

definition ParseInt :: "nat \<Rightarrow> string \<Rightarrow> int option" where
  "ParseInt bits s =
     (case s of [] \<Rightarrow> None
      | c # cs \<Rightarrow>
          (let neg = (c = CHR ''-''); ds = (if c = CHR ''-'' \<or> c = CHR ''+'' then cs else s) in
           if ds = [] \<or> \<not> list_all isDigit ds then None
           else if neg then (if decVal ds \<le> 2 ^ (bits - 1) then Some (- int (decVal ds)) else None)
           else (if decVal ds < 2 ^ (bits - 1) then Some (int (decVal ds)) else None)))"

lemma of_char_digitChar [simp]: "n < 10 \<Longrightarrow> (of_char (digitChar n) :: nat) = 48 + n"
  by (simp add: digitChar_def)

lemma isDigit_digitChar [simp]: "n < 10 \<Longrightarrow> isDigit (digitChar n)"
  by (simp add: isDigit_def)

lemma natString_nonempty [simp]: "natString n \<noteq> []"
  by (subst natString.simps) simp

lemma natString_digits: "list_all isDigit (natString n)"
proof (induction n rule: natString.induct)
  case (1 n)
  then show ?case by (cases "n < 10") (simp_all add: natString.simps [of n])
qed

lemma decVal_snoc: "decVal (s @ [c]) = decVal s * 10 + (of_char c - 48)"
  by (simp add: decVal_def)

lemma decVal_natString [simp]: "decVal (natString n) = n"
proof (induction n rule: natString.induct)
  case (1 n)
  show ?case
  proof (cases "n < 10")
    case True
    then show ?thesis by (simp add: natString.simps [of n] decVal_def)
  next
    case False
    then have "decVal (natString n) = decVal (natString (n div 10)) * 10 + n mod 10"
      by (simp add: natString.simps [of n] decVal_snoc)
    with 1 False show ?thesis by simp
  qed
qed

lemma isDigit_not_sign: "isDigit c \<Longrightarrow> c \<noteq> CHR ''-'' \<and> c \<noteq> CHR ''+''"
  by (auto simp: isDigit_def)

text \<open>Printing a number and parsing it back gives the number, within the parser's range.\<close>

lemma ParseUint_natString: "n < 2 ^ bits \<Longrightarrow> ParseUint bits (natString n) = Some (int n)"
  by (simp add: ParseUint_def natString_digits)

lemma ParseInt_natString: "n < 2 ^ (bits - 1) \<Longrightarrow> ParseInt bits (natString n) = Some (int n)"
proof -
  assume n: "n < 2 ^ (bits - 1)"
  obtain c cs where s: "natString n = c # cs" by (cases "natString n") auto
  with natString_digits [of n] have "isDigit c" by simp
  then have "c \<noteq> CHR ''-'' \<and> c \<noteq> CHR ''+''" by (rule isDigit_not_sign)
  with n show ?thesis
    using natString_digits [of n] decVal_natString [of n] by (simp add: ParseInt_def Let_def s)
qed

lemma natString_length_pos: "0 < length (natString n)"
  by simp

lemma natString_length: "n < 10 ^ k \<Longrightarrow> 0 < k \<Longrightarrow> length (natString n) \<le> k"
proof (induction k arbitrary: n)
  case 0
  then show ?case by simp
next
  case (Suc k)
  show ?case
  proof (cases "n < 10")
    case True
    then show ?thesis by (simp add: natString.simps [of n])
  next
    case False
    with Suc.prems have "n div 10 < 10 ^ k" by (simp add: less_mult_imp_div_less mult.commute)
    moreover from False Suc.prems have "0 < k" by (cases k) auto
    ultimately have "length (natString (n div 10)) \<le> k" by (rule Suc.IH)
    with False show ?thesis by (simp add: natString.simps [of n])
  qed
qed

text \<open>The same digits computed on integers, for evaluation.\<close>

function intString :: "int \<Rightarrow> string" where
  "intString n = (if n < 10 then [''0123456789'' ! nat n]
     else intString (n div 10) @ [''0123456789'' ! nat (n mod 10)])"
  by pat_completeness auto
termination by (relation "measure nat") auto

declare intString.simps [simp del]

lemma digitChar_nth: "n < 10 \<Longrightarrow> ''0123456789'' ! n = digitChar n"
proof -
  have "list_all (\<lambda>n. ''0123456789'' ! n = digitChar n) [0..<10]" by code_simp
  then show "n < 10 \<Longrightarrow> ''0123456789'' ! n = digitChar n" by (simp add: list_all_iff del: upt_rec_numeral)
qed

lemma intString_nat: "0 \<le> n \<Longrightarrow> intString n = natString (nat n)"
proof (induction n rule: intString.induct)
  case (1 n)
  show ?case
  proof (cases "n < 10")
    case True
    then show ?thesis using 1 by (simp add: intString.simps [of n] natString.simps [of "nat n"] digitChar_nth)
  next
    case False
    moreover have "nat (n mod 10) < 10" by simp
    ultimately show ?thesis using 1
      by (simp add: intString.simps [of n] natString.simps [of "nat n"] digitChar_nth nat_div_distrib nat_mod_distrib)
  qed
qed

lemma Itoa_code [code]: "Itoa n = (if n < 0 then CHR ''-'' # intString (- n) else intString n)"
  by (simp add: Itoa_def intString_nat)

text \<open>Evaluation of the classes and of numbers on integers, and of \<open>Fields\<close> in one pass.\<close>

lemma isClass_code [code]:
  "isDigit c \<longleftrightarrow> (48::int) \<le> of_char c \<and> of_char c \<le> (57::int)"
  "isUpperC c \<longleftrightarrow> (65::int) \<le> of_char c \<and> of_char c \<le> (90::int)"
  "isLowerC c \<longleftrightarrow> (97::int) \<le> of_char c \<and> of_char c \<le> (122::int)"
proof -
  have "(of_char c :: int) = int (of_char c)" by (simp add: of_char_def)
  then show "isDigit c \<longleftrightarrow> (48::int) \<le> of_char c \<and> of_char c \<le> (57::int)"
    "isUpperC c \<longleftrightarrow> (65::int) \<le> of_char c \<and> of_char c \<le> (90::int)"
    "isLowerC c \<longleftrightarrow> (97::int) \<le> of_char c \<and> of_char c \<le> (122::int)"
    by (auto simp: isDigit_def isUpperC_def isLowerC_def)
qed

definition decInt :: "string \<Rightarrow> int" where
  "decInt s = foldl (\<lambda>a c. a * 10 + (of_char c - 48)) 0 s"

lemma decInt_decVal: "list_all isDigit s \<Longrightarrow> decInt s = int (decVal s)"
proof (induction s rule: rev_induct)
  case (snoc c s)
  have "(of_char c :: int) = int (of_char c)" by (simp add: of_char_def)
  with snoc show ?case by (simp add: decInt_def decVal_def isDigit_def of_nat_diff)
qed (simp add: decInt_def decVal_def)

definition signedDec :: "int \<Rightarrow> bool \<Rightarrow> string \<Rightarrow> int option" where
  "signedDec bound neg ds =
     (if ds = [] \<or> \<not> list_all isDigit ds then None
      else if neg then (if decInt ds \<le> bound then Some (- decInt ds) else None)
      else (if decInt ds < bound then Some (decInt ds) else None))"

lemma ParseInt_code [code]:
  "ParseInt bits s = (case s of [] \<Rightarrow> None
     | c # cs \<Rightarrow> if c = CHR ''-'' then signedDec (2 ^ (bits - 1)) True cs
         else if c = CHR ''+'' then signedDec (2 ^ (bits - 1)) False cs
         else signedDec (2 ^ (bits - 1)) False (c # cs))"
proof -
  have p: "int (decVal ds) \<le> 2 ^ k \<longleftrightarrow> decVal ds \<le> 2 ^ k" "int (decVal ds) < 2 ^ k \<longleftrightarrow> decVal ds < 2 ^ k" for ds k
    by (metis of_nat_le_iff of_nat_numeral of_nat_power, metis of_nat_less_iff of_nat_numeral of_nat_power)
  show ?thesis
    by (cases s) (auto simp: ParseInt_def signedDec_def Let_def decInt_decVal p)
qed

fun fieldsAcc :: "string \<Rightarrow> string \<Rightarrow> string list" where
  "fieldsAcc [] w = (if w = [] then [] else [rev w])"
| "fieldsAcc (c # cs) w =
     (if isSpace c then (if w = [] then fieldsAcc cs [] else rev w # fieldsAcc cs []) else fieldsAcc cs (c # w))"

lemma Fields_space: "isSpace c \<Longrightarrow> Fields (c # cs) = Fields cs"
  by (subst (1 2) Fields.simps) simp

lemma Fields_word:
  assumes "w \<noteq> []" and "list_all (\<lambda>c. \<not> isSpace c) w" and "r = [] \<or> isSpace (hd r)"
  shows "Fields (w @ r) = w # Fields r"
proof -
  obtain c cs where w: "w = c # cs" using assms(1) by (cases w) auto
  then have "dropWhile isSpace (w @ r) = w @ r" using assms(2) by simp
  moreover have "takeWhile (\<lambda>c. \<not> isSpace c) (w @ r) = w" "dropWhile (\<lambda>c. \<not> isSpace c) (w @ r) = r"
    using assms(2,3) by (auto simp: list_all_iff takeWhile_append dropWhile_append takeWhile_eq_Nil_iff
        dropWhile_eq_self_iff)
  ultimately show ?thesis using assms(1) by (subst Fields.simps) (simp add: Let_def)
qed

lemma Fields_Nil [simp]: "Fields [] = []"
  by (subst Fields.simps) simp

lemma fieldsAcc_Fields: "list_all (\<lambda>c. \<not> isSpace c) w \<Longrightarrow> fieldsAcc s w = Fields (rev w @ s)"
proof (induction s w rule: fieldsAcc.induct)
  case (1 w)
  then show ?case using Fields_word [of "rev w" "[]"] by (auto simp: list_all_iff)
next
  case (2 c cs w)
  show ?case
  proof (cases "isSpace c")
    case True
    with 2 Fields_word [of "rev w" "c # cs"] show ?thesis by (auto simp: Fields_space list_all_iff)
  next
    case False
    with 2 show ?thesis by simp
  qed
qed

lemma Fields_code [code]: "Fields s = fieldsAcc s []"
  by (simp add: fieldsAcc_Fields)

section \<open>Time\<close>

type_synonym time = int
type_synonym duration = int

definition second :: duration where "second = 1000000000"

text \<open>\<open>time.Time{}\<close>, the first instant of year 1.\<close>

definition zeroTime :: time where "zeroTime = - 62135596800000000000"

abbreviation IsZero :: "time \<Rightarrow> bool" where "IsZero t \<equiv> t = zeroTime"

text \<open>\<open>t.Unix()\<close> and \<open>time.Unix(n, 0)\<close>.\<close>

definition unixSec :: "time \<Rightarrow> int" where "unixSec t = t div second"
definition fromUnix :: "int \<Rightarrow> time" where "fromUnix n = n * second"

text \<open>A time read back from a column that stores Unix seconds.\<close>

abbreviation stored :: "time \<Rightarrow> time" where "stored t \<equiv> fromUnix (unixSec t)"

lemma stored_le: "stored t \<le> t"
  by (simp add: fromUnix_def unixSec_def second_def mult.commute)

lemma stored_gt: "t < stored t + second"
proof -
  have "t mod second < second" by (simp add: second_def)
  then have "t < second * (t div second) + second"
    using mult_div_mod_eq [of second t] by linarith
  then show ?thesis by (simp add: fromUnix_def unixSec_def mult.commute)
qed

lemma unixSec_fromUnix [simp]: "unixSec (fromUnix n) = n"
  by (simp add: unixSec_def fromUnix_def second_def)

lemma stored_idem: "stored (stored t) = stored t"
  by simp

lemma stored_mono: "a \<le> b \<Longrightarrow> stored a \<le> stored b"
  by (simp add: fromUnix_def unixSec_def second_def zdiv_mono1)

text \<open>Two's-complement wrap-around of an \<open>int64\<close> product, and the saturating \<open>t.Sub(u)\<close>.\<close>

definition wrap64 :: "int \<Rightarrow> int" where
  "wrap64 x = (x + 2 ^ 63) mod 2 ^ 64 - 2 ^ 63"

definition TimeSub :: "time \<Rightarrow> time \<Rightarrow> duration" where
  "TimeSub t u = max (- (2 ^ 63)) (min (2 ^ 63 - 1) (t - u))"

lemma wrap64_id: "- (2 ^ 63) \<le> x \<Longrightarrow> x < 2 ^ 63 \<Longrightarrow> wrap64 x = x"
  by (simp add: wrap64_def)

lemma wrap64_range: "- (2 ^ 63) \<le> wrap64 x \<and> wrap64 x < 2 ^ 63"
  by (simp add: wrap64_def)

lemma TimeSub_mono: "t \<le> t' \<Longrightarrow> TimeSub t u \<le> TimeSub t' u"
  by (auto simp: TimeSub_def max_def min_def)

section \<open>JSON documents\<close>

text \<open>
  JSON text is represented by its syntax tree: what \<open>json.Marshal\<close> writes and \<open>json.Unmarshal\<close> reads,
  after lexing. An object is the list of its members in order.
\<close>

datatype json =
    JNull
  | JBool bool
  | JNum rat
  | JStr string
  | JArr "json list"
  | JObj "(string \<times> json) list"

section \<open>Association lists as maps\<close>

lemma map_of_AList_update [simp]:
  "map_of (AList.update k v al) = (map_of al)(k \<mapsto> v)"
  by (rule ext) (rule AList.update_conv)

lemma distinct_keys_update:
  "distinct (map fst al) \<Longrightarrow> distinct (map fst (AList.update k v al))"
  by (rule AList.distinct_update)

end
