(* ===== verification/Go_Text.thy ===== *)
theory Go_Text
  imports Go_Prelude
begin

text \<open>
  More of the Go library for the parts of the agent that handle text: searching and trimming
  (\<open>strings\<close>), characters of UTF-8 text, the verbs \<open>%.0f\<close>, \<open>%.1f\<close> and \<open>%q\<close>, and the regular expressions
  of \<open>regexp\<close> that the sources only test for a match. Letter case is ASCII letter case. Text is assumed
  to be valid UTF-8, so that a character starts at every byte that does not continue one.
\<close>

section \<open>Characters\<close>

definition isRuneStart :: "char \<Rightarrow> bool" where
  "isRuneStart c \<longleftrightarrow> \<not> ((128::nat) \<le> of_char c \<and> of_char c < (192::nat))"

definition runeCount :: "string \<Rightarrow> nat" where
  "runeCount s = length (filter isRuneStart s)"

text \<open>The largest cut at or before \<open>n\<close> that does not split a character.\<close>

fun cutAt :: "string \<Rightarrow> nat \<Rightarrow> nat" where
  "cutAt s 0 = 0"
| "cutAt s (Suc n) = (if isRuneStart (s ! Suc n) then Suc n else cutAt s n)"

lemma cutAt_le: "cutAt s n \<le> n"
  by (induction n) auto

lemma cutAt_start: "cutAt s n = 0 \<or> isRuneStart (s ! cutAt s n)"
  by (induction n) auto

lemma length_take_cutAt: "length (take (cutAt s n) s) \<le> n"
  using cutAt_le [of s n] by simp

text \<open>The characters of a text, each the list of its bytes; an ASCII byte is a character of its own.\<close>

fun runes :: "string \<Rightarrow> string list" where
  "runes [] = []"
| "runes (c # cs) =
     (case runes cs of [] \<Rightarrow> [[c]]
      | r # rs \<Rightarrow> (case r of d # _ \<Rightarrow> if isRuneStart d \<or> of_char c < (128::nat) then [c] # r # rs else (c # r) # rs
                   | [] \<Rightarrow> [c] # r # rs))"

lemma concat_runes [simp]: "concat (runes s) = s"
  by (induction s) (auto split: list.splits)

section \<open>Searching and trimming\<close>

text \<open>\<open>strings.Index\<close>, \<open>IndexAny\<close>, \<open>LastIndexByte\<close>; \<open>None\<close> is -1.\<close>

fun Index :: "string \<Rightarrow> string \<Rightarrow> nat option" where
  "Index [] p = (if p = [] then Some 0 else None)"
| "Index (c # cs) p = (if prefix p (c # cs) then Some 0 else map_option Suc (Index cs p))"

fun IndexAny :: "string \<Rightarrow> string \<Rightarrow> nat option" where
  "IndexAny [] cs = None"
| "IndexAny (c # s) cs = (if c \<in> set cs then Some 0 else map_option Suc (IndexAny s cs))"

definition LastIndexByte :: "string \<Rightarrow> char \<Rightarrow> nat option" where
  "LastIndexByte s c = map_option (\<lambda>i. length s - 1 - i) (IndexAny (rev s) [c])"

definition TrimRight :: "string \<Rightarrow> string \<Rightarrow> string" where
  "TrimRight s cs = rev (dropWhile (\<lambda>c. c \<in> set cs) (rev s))"

definition Trim :: "string \<Rightarrow> string \<Rightarrow> string" where
  "Trim s cs = TrimRight (dropWhile (\<lambda>c. c \<in> set cs) s) cs"

definition EqualFold :: "string \<Rightarrow> string \<Rightarrow> bool" where
  "EqualFold s t \<longleftrightarrow> ToLower s = ToLower t"

lemma Index_split: "Index s p = Some i \<Longrightarrow> s = take i s @ p @ drop (i + length p) s"
proof (induction s p arbitrary: i rule: Index.induct)
  case (2 c cs p)
  show ?case
  proof (cases "prefix p (c # cs)")
    case True
    with 2 obtain r where "i = 0" "c # cs = p @ r" by (auto simp: prefix_def)
    then show ?thesis by simp
  next
    case False
    with 2 show ?thesis by auto
  qed
qed (simp split: if_splits)

lemma Index_None: "Index s p = None \<longleftrightarrow> \<not> sublist p s"
  by (induction s p rule: Index.induct) (auto simp: sublist_Cons_right)

lemma Trim_sublist: "sublist (Trim s cs) s"
proof -
  have "prefix (Trim s cs) (dropWhile (\<lambda>c. c \<in> set cs) s)"
    using suffix_dropWhile [of "\<lambda>c. c \<in> set cs" "rev (dropWhile (\<lambda>c. c \<in> set cs) s)"]
    by (simp add: Trim_def TrimRight_def suffix_to_prefix)
  moreover have "suffix (dropWhile (\<lambda>c. c \<in> set cs) s) s" by (rule suffix_dropWhile)
  ultimately show ?thesis by (meson prefix_imp_sublist sublist_order.order_trans suffix_imp_sublist)
qed

lemma length_TrimSpace: "length (TrimSpace s) \<le> length s"
  unfolding TrimSpace_def
  using length_dropWhile_le [of isSpace "rev (dropWhile isSpace s)"] length_dropWhile_le [of isSpace s]
  by simp

lemma TrimSpace_set: "set (TrimSpace s) \<subseteq> set s"
  by (auto simp: TrimSpace_def dest!: set_dropWhileD)

section \<open>Formatting\<close>

text \<open>\<open>%.0f\<close> and \<open>%.1f\<close>: the nearest decimal, a tie to the even digit.\<close>

definition roundEven :: "rat \<Rightarrow> int" where
  "roundEven q =
     (let n = \<lfloor>q\<rfloor>; r = q - of_int n in if r < 1 / 2 \<or> r = 1 / 2 \<and> even n then n else n + 1)"

definition signed :: "rat \<Rightarrow> (rat \<Rightarrow> string) \<Rightarrow> string" where
  "signed q f = (if q < 0 then CHR ''-'' # f (- q) else f q)"

definition formatF0 :: "rat \<Rightarrow> string" where
  "formatF0 q = signed q (\<lambda>q. Itoa (roundEven q))"

definition formatF1 :: "rat \<Rightarrow> string" where
  "formatF1 q = signed q (\<lambda>q. let n = roundEven (q * 10) in Itoa (n div 10) @ ''.'' @ Itoa (n mod 10))"

text \<open>\<open>int(x)\<close> of a \<open>float64\<close>: toward zero. \<open>math.Round\<close>: the nearest integer, a tie away from zero.\<close>

definition truncate :: "rat \<Rightarrow> int" where
  "truncate q = (if q < 0 then - \<lfloor>- q\<rfloor> else \<lfloor>q\<rfloor>)"

definition mathRound :: "rat \<Rightarrow> rat" where
  "mathRound q = (if q < 0 then - of_int \<lfloor>- q + 1 / 2\<rfloor> else of_int \<lfloor>q + 1 / 2\<rfloor>)"

text \<open>\<open>%q\<close> (\<open>strconv.Quote\<close>) of valid UTF-8 text whose characters are all printable or ASCII controls.\<close>

definition hexDigit :: "nat \<Rightarrow> char" where
  "hexDigit n = ''0123456789abcdef'' ! n"

definition quoteChar :: "char \<Rightarrow> string" where
  "quoteChar c =
     (if c = CHR 0x22 then [CHR 0x5C, c] else if c = CHR 0x5C then [c, c]
      else if c = CHR 0x07 then [CHR 0x5C, CHR ''a''] else if c = CHR 0x08 then [CHR 0x5C, CHR ''b'']
      else if c = CHR 0x0C then [CHR 0x5C, CHR ''f''] else if c = CHR 0x0A then [CHR 0x5C, CHR ''n'']
      else if c = CHR 0x0D then [CHR 0x5C, CHR ''r''] else if c = CHR 0x09 then [CHR 0x5C, CHR ''t'']
      else if c = CHR 0x0B then [CHR 0x5C, CHR ''v'']
      else if of_char c < (32::nat) \<or> of_char c = (127::nat)
      then [CHR 0x5C, CHR ''x'', hexDigit (of_char c div 16), hexDigit (of_char c mod 16)] else [c])"

definition Quote :: "string \<Rightarrow> string" where
  "Quote s = CHR 0x22 # concat (map quoteChar s) @ [CHR 0x22]"

section \<open>Regular expressions\<close>

text \<open>
  The expressions the sources test with \<open>MatchString\<close>: a character of a class, any number of characters of a
  class, a word boundary, sequence and choice. \<open>rxEnds s r i\<close> are the positions where a match of \<open>r\<close> that
  starts at \<open>i\<close> can end; \<open>MatchString\<close> holds when some position starts a match.
\<close>

datatype rx = RClass "char \<Rightarrow> bool" | RMany "char \<Rightarrow> bool" | RBound | REmpty | RSeq rx rx | RAlt rx rx

definition isWordC :: "char \<Rightarrow> bool" where
  "isWordC c \<longleftrightarrow> isAlnum c \<or> c = CHR ''_''"

definition wordAt :: "string \<Rightarrow> nat \<Rightarrow> bool" where
  "wordAt s i \<longleftrightarrow> i < length s \<and> isWordC (s ! i)"

fun rxEnds :: "string \<Rightarrow> rx \<Rightarrow> nat \<Rightarrow> nat list" where
  "rxEnds s (RClass p) i = (if i < length s \<and> p (s ! i) then [Suc i] else [])"
| "rxEnds s (RMany p) i = [i..<Suc (i + length (takeWhile p (drop i s)))]"
| "rxEnds s RBound i = (if (0 < i \<and> wordAt s (i - 1)) \<noteq> wordAt s i then [i] else [])"
| "rxEnds s REmpty i = [i]"
| "rxEnds s (RSeq r t) i = concat (map (rxEnds s t) (rxEnds s r i))"
| "rxEnds s (RAlt r t) i = rxEnds s r i @ rxEnds s t i"

definition MatchString :: "rx \<Rightarrow> string \<Rightarrow> bool" where
  "MatchString r s = list_ex (\<lambda>i. rxEnds s r i \<noteq> []) [0..<Suc (length s)]"

text \<open>A word in any letter case, a choice of expressions, and the classes \<open>\s*\<close>, \<open>\s+\<close>.\<close>

fun rxSeq :: "rx list \<Rightarrow> rx" where
  "rxSeq [] = REmpty"
| "rxSeq [r] = r"
| "rxSeq (r # rs) = RSeq r (rxSeq rs)"

fun rxAlt :: "rx list \<Rightarrow> rx" where
  "rxAlt [] = RClass (\<lambda>c. False)"
| "rxAlt [r] = r"
| "rxAlt (r # rs) = RAlt r (rxAlt rs)"

definition iword :: "string \<Rightarrow> rx" where
  "iword w = rxSeq (map (\<lambda>x. RClass (\<lambda>c. ToLowerC c = ToLowerC x)) w)"

definition reSpaceC :: "char \<Rightarrow> bool" where
  "reSpaceC c \<longleftrightarrow> c \<in> {CHR 0x09, CHR 0x0A, CHR 0x0C, CHR 0x0D, CHR '' ''}"

definition spaces0 :: rx where "spaces0 = RMany reSpaceC"
definition spaces1 :: rx where "spaces1 = RSeq (RClass reSpaceC) (RMany reSpaceC)"

end
