(* ===== verification/Steps_Catalog.thy ===== *)
theory Steps_Catalog
  imports Go_Text
begin

text \<open>
  The typed catalog of fix steps: \<^verbatim>\<open>internal/steps/{catalog,params,validate,privargs}.go\<close>, the
  \<open>Command\<close> display of \<^verbatim>\<open>runner.go\<close> and the \<open>Def\<close> and \<open>Undo\<close> methods of \<^verbatim>\<open>step.go\<close>. The eighteen
  step types are the constructors of \<open>step\<close>; the methods of the \<open>Step\<close> interface are functions on
  them. The regular expressions are recognisers with the same language.
\<close>

section \<open>Parameters (params.go)\<close>

text \<open>
  A value of Go type \<open>any\<close> as it occurs in step parameters. \<open>float64\<close> values are rationals (the
  code only compares, truncates and converts them). \<open>json.Number\<close> has no constructor: no decoder of
  the sources calls \<open>UseNumber\<close>, so no such value is ever made.
\<close>

datatype pval =
    VString string
  | VInt int
  | VInt64 int
  | VUint64 int
  | VFloat rat
  | VBool bool
  | VNull
  | VArr "pval list"
  | VObj "(string \<times> pval) list"

type_synonym Params = "(string \<times> pval) list"

definition Params_String :: "Params \<Rightarrow> string \<Rightarrow> string" where
  "Params_String p name = (case map_of p name of Some (VString s) \<Rightarrow> s | _ \<Rightarrow> '''')"

definition Params_Int :: "Params \<Rightarrow> string \<Rightarrow> int option" where
  "Params_Int p name =
     (case map_of p name of
        Some (VInt v) \<Rightarrow> Some v
      | Some (VInt64 v) \<Rightarrow> Some v
      | Some (VUint64 v) \<Rightarrow> (if v > 2 ^ 63 - 1 then None else Some v)
      | Some (VFloat v) \<Rightarrow>
          (if v \<noteq> of_int \<lfloor>v\<rfloor> \<or> \<bar>v\<bar> > 2 ^ 53 then None else Some \<lfloor>v\<rfloor>)
      | Some (VString s) \<Rightarrow> ParseInt 64 s
      | _ \<Rightarrow> None)"

definition Params_Uint :: "Params \<Rightarrow> string \<Rightarrow> int option" where
  "Params_Uint p name =
     (case map_of p name of
        Some (VUint64 v) \<Rightarrow> Some v
      | Some (VString s) \<Rightarrow> ParseUint 64 s
      | _ \<Rightarrow> (case Params_Int p name of
                None \<Rightarrow> None
              | Some n \<Rightarrow> if n < 0 then None else Some n))"

text \<open>\<open>clone\<close> copies the map; values are immutable in the model, so the copy is the value itself.\<close>

definition Params_clone :: "Params \<Rightarrow> Params" where
  "Params_clone p = p"

section \<open>Step ids and catalog entries (catalog.go)\<close>

type_synonym ID = string

definition ServiceRestartID :: ID where "ServiceRestartID = ''service.restart''"
definition ServiceStartID :: ID where "ServiceStartID = ''service.start''"
definition ServiceStopID :: ID where "ServiceStopID = ''service.stop''"
definition ServiceReloadID :: ID where "ServiceReloadID = ''service.reload''"
definition ContainerRestartID :: ID where "ContainerRestartID = ''container.restart''"
definition ComposeUpID :: ID where "ComposeUpID = ''compose.up''"
definition PM2RestartID :: ID where "PM2RestartID = ''pm2.restart''"
definition NginxReloadID :: ID where "NginxReloadID = ''nginx.reload''"
definition PHPFPMRestartID :: ID where "PHPFPMRestartID = ''phpfpm.restart''"
definition SupervisorRestartID :: ID where "SupervisorRestartID = ''supervisor.restart''"
definition JournalVacuumID :: ID where "JournalVacuumID = ''disk.journal_vacuum''"
definition DockerPruneID :: ID where "DockerPruneID = ''disk.docker_prune''"
definition AptCleanID :: ID where "AptCleanID = ''disk.apt_clean''"
definition CertRenewID :: ID where "CertRenewID = ''cert.renew''"
definition ProcessStopID :: ID where "ProcessStopID = ''process.stop''"
definition FirewallAllowID :: ID where "FirewallAllowID = ''firewall.allow''"
definition FirewallRemoveID :: ID where "FirewallRemoveID = ''firewall.remove''"
definition CheckHTTPID :: ID where "CheckHTTPID = ''check.http''"

lemmas step_id_defs =
  ServiceRestartID_def ServiceStartID_def ServiceStopID_def ServiceReloadID_def
  ContainerRestartID_def ComposeUpID_def PM2RestartID_def NginxReloadID_def PHPFPMRestartID_def
  SupervisorRestartID_def JournalVacuumID_def DockerPruneID_def AptCleanID_def CertRenewID_def
  ProcessStopID_def FirewallAllowID_def FirewallRemoveID_def CheckHTTPID_def

datatype step =
    ServiceRestart | ServiceStart | ServiceStop | ServiceReload
  | ContainerRestart | ComposeUp | PM2Restart | NginxReload
  | PHPFPMRestart | SupervisorRestart
  | JournalVacuum | DockerPrune | AptClean
  | CertRenew | ProcessStop | FirewallAllow | FirewallRemove | CheckHTTP

text \<open>
  The patterns of \<^verbatim>\<open>catalog.go\<close>: the constructor is the pattern constant, \<open>matchPattern\<close> below its
  language; \<open>NoPattern\<close> is the empty string.
\<close>

datatype pattern = NoPattern | namePattern | certPattern | phpPattern | sizePattern | protoPatten
  | urlPattern

record param =
  p_Name :: string
  p_Type :: string
  p_Pattern :: pattern
  p_Enum :: "string list"
  p_Source :: string
  p_Description :: string

record def =
  d_ID :: ID
  d_Title :: string
  d_Description :: string
  d_Root :: bool
  d_Params :: "param list"
  d_Verify :: string
  d_Undo :: ID

definition nameParam :: "string \<Rightarrow> string \<Rightarrow> string \<Rightarrow> param" where
  "nameParam name source desc =
     \<lparr>p_Name = name, p_Type = ''string'', p_Pattern = namePattern, p_Enum = [], p_Source = source,
      p_Description = desc\<rparr>"

definition portParam :: param where
  "portParam =
     \<lparr>p_Name = ''port'', p_Type = ''integer'', p_Pattern = NoPattern, p_Enum = [],
      p_Source = ''ports'', p_Description = ''port number from 1 to 65535''\<rparr>"

definition protoParam :: param where
  "protoParam =
     \<lparr>p_Name = ''proto'', p_Type = ''string'', p_Pattern = protoPatten,
      p_Enum = [''tcp'', ''udp''], p_Source = ''none'', p_Description = ''tcp or udp''\<rparr>"

definition unitParam :: "param list" where
  "unitParam = [nameParam ''unit'' ''units'' ''systemd unit name'']"

definition firewallParams :: "param list" where
  "firewallParams = [portParam, protoParam]"

text \<open>\<open>Def\<close>: the machine-readable description of every step type.\<close>

primrec Def :: "step \<Rightarrow> def" where
  "Def ServiceRestart = \<lparr>d_ID = ServiceRestartID, d_Title = ''Restart a service'',
     d_Description = ''Restarts a systemd service.'', d_Root = True, d_Params = unitParam,
     d_Verify = ''The service is active and has not restarted for 30 seconds.'', d_Undo = ''''\<rparr>"
| "Def ServiceStart = \<lparr>d_ID = ServiceStartID, d_Title = ''Start a service'',
     d_Description = ''Starts a systemd service that is stopped.'', d_Root = True,
     d_Params = unitParam, d_Verify = ''The service is active.'', d_Undo = ServiceStopID\<rparr>"
| "Def ServiceStop = \<lparr>d_ID = ServiceStopID, d_Title = ''Stop a service'',
     d_Description = ''Stops a systemd service.'', d_Root = True, d_Params = unitParam,
     d_Verify = ''The service is no longer running.'', d_Undo = ServiceStartID\<rparr>"
| "Def ServiceReload = \<lparr>d_ID = ServiceReloadID, d_Title = ''Reload a service'',
     d_Description = ''Asks a systemd service to reload its settings without stopping.'',
     d_Root = True, d_Params = unitParam, d_Verify = ''The service is active.'', d_Undo = ''''\<rparr>"
| "Def ContainerRestart = \<lparr>d_ID = ContainerRestartID, d_Title = ''Restart a container'',
     d_Description = ''Restarts a Docker container.'', d_Root = False,
     d_Params = [nameParam ''container'' ''containers'' ''Docker container name''],
     d_Verify = ''The container is running and has not restarted for 60 seconds.'',
     d_Undo = ''''\<rparr>"
| "Def ComposeUp = \<lparr>d_ID = ComposeUpID, d_Title = ''Start a Compose service'',
     d_Description = ''Starts the existing containers of one Docker Compose service. It does not read or change the Compose files.'',
     d_Root = False,
     d_Params = [nameParam ''project'' ''compose_services'' ''Docker Compose project name'',
       nameParam ''service'' ''compose_services'' ''service name inside the Compose project''],
     d_Verify = ''The service'' @ CHR 0x27 # ''s containers are running and healthy.'', d_Undo = ''''\<rparr>"
| "Def PM2Restart = \<lparr>d_ID = PM2RestartID, d_Title = ''Restart a PM2 app'',
     d_Description = ''Restarts a PM2 app as the user who owns it.'', d_Root = True,
     d_Params = [nameParam ''app'' ''pm2_apps'' ''PM2 app name'',
       nameParam ''user'' ''pm2_apps'' ''login user that owns the PM2 app''],
     d_Verify = ''The app is online and has not restarted for 60 seconds.'', d_Undo = ''''\<rparr>"
| "Def NginxReload = \<lparr>d_ID = NginxReloadID, d_Title = ''Reload nginx'',
     d_Description = ''Tests the nginx settings, then reloads nginx only if the test passes.'',
     d_Root = True, d_Params = [], d_Verify = ''nginx is active and its settings test passes.'',
     d_Undo = ''''\<rparr>"
| "Def PHPFPMRestart = \<lparr>d_ID = PHPFPMRestartID, d_Title = ''Restart PHP-FPM'',
     d_Description = ''Restarts a PHP-FPM service such as php8.3-fpm.'', d_Root = True,
     d_Params = [\<lparr>p_Name = ''unit'', p_Type = ''string'', p_Pattern = phpPattern, p_Enum = [],
       p_Source = ''units'', p_Description = ''PHP-FPM unit name''\<rparr>],
     d_Verify = ''The service is active.'', d_Undo = ''''\<rparr>"
| "Def SupervisorRestart = \<lparr>d_ID = SupervisorRestartID, d_Title = ''Restart a Supervisor program'',
     d_Description = ''Restarts a program managed by Supervisor, such as a queue worker.'',
     d_Root = True,
     d_Params = [nameParam ''program'' ''supervisor_programs'' ''Supervisor program or group name''],
     d_Verify = ''The program shows RUNNING for 30 seconds.'', d_Undo = ''''\<rparr>"
| "Def JournalVacuum = \<lparr>d_ID = JournalVacuumID, d_Title = ''Shrink system logs'',
     d_Description = ''Deletes the oldest systemd journal logs until they fit in the chosen size.'',
     d_Root = True,
     d_Params = [\<lparr>p_Name = ''size'', p_Type = ''string'', p_Pattern = sizePattern,
       p_Enum = [''100M'', ''200M'', ''500M''], p_Source = ''none'',
       p_Description = ''largest size to keep''\<rparr>],
     d_Verify = ''Disk usage is below 85 percent.'', d_Undo = ''''\<rparr>"
| "Def DockerPrune = \<lparr>d_ID = DockerPruneID, d_Title = ''Remove unused Docker data'',
     d_Description = ''Deletes dangling Docker images and unused build cache. Volumes and containers are never touched.'',
     d_Root = False, d_Params = [], d_Verify = ''Disk usage is below 85 percent.'', d_Undo = ''''\<rparr>"
| "Def AptClean = \<lparr>d_ID = AptCleanID, d_Title = ''Clear the package cache'',
     d_Description = ''Runs apt-get clean to delete downloaded package files.'', d_Root = True,
     d_Params = [], d_Verify = ''Disk usage is below 85 percent.'', d_Undo = ''''\<rparr>"
| "Def CertRenew = \<lparr>d_ID = CertRenewID, d_Title = ''Renew a certificate'',
     d_Description = ''Renews a Let'' @ CHR 0x27 # ''s Encrypt certificate with certbot, then reloads nginx if it is installed.'',
     d_Root = True,
     d_Params = [\<lparr>p_Name = ''name'', p_Type = ''string'', p_Pattern = certPattern, p_Enum = [],
       p_Source = ''certs'', p_Description = ''certificate name''\<rparr>],
     d_Verify = ''The new expiry date is more than 30 days away.'', d_Undo = ''''\<rparr>"
| "Def ProcessStop = \<lparr>d_ID = ProcessStopID, d_Title = ''Stop a process'',
     d_Description = ''Sends a polite stop signal to one process, then forces it to end after 10 seconds if it is still running.'',
     d_Root = True,
     d_Params = [\<lparr>p_Name = ''pid'', p_Type = ''integer'', p_Pattern = NoPattern, p_Enum = [],
       p_Source = ''none'', p_Description = ''process number''\<rparr>,
      \<lparr>p_Name = ''start_time'', p_Type = ''integer'', p_Pattern = NoPattern, p_Enum = [],
       p_Source = ''none'', p_Description = ''process start time in clock ticks, from the process list; protects against a reused process number''\<rparr>],
     d_Verify = ''The process is gone.'', d_Undo = ''''\<rparr>"
| "Def FirewallAllow = \<lparr>d_ID = FirewallAllowID, d_Title = ''Open a firewall port'',
     d_Description = ''Adds a firewall rule that allows traffic to one port.'', d_Root = True,
     d_Params = firewallParams, d_Verify = ''The firewall rule is present.'',
     d_Undo = FirewallRemoveID\<rparr>"
| "Def FirewallRemove = \<lparr>d_ID = FirewallRemoveID, d_Title = ''Close a firewall port'',
     d_Description = ''Removes a firewall rule that allows traffic to one port. The SSH port is never closed.'',
     d_Root = True, d_Params = firewallParams, d_Verify = ''The firewall rule is gone.'',
     d_Undo = FirewallAllowID\<rparr>"
| "Def CheckHTTP = \<lparr>d_ID = CheckHTTPID, d_Title = ''Check a web address'',
     d_Description = ''Requests a web address on this server and checks that it answers.'',
     d_Root = False,
     d_Params = [\<lparr>p_Name = ''url'', p_Type = ''string'', p_Pattern = urlPattern, p_Enum = [],
       p_Source = ''urls'', p_Description = ''web address on this server''\<rparr>],
     d_Verify = ''The address answers with a success or redirect status.'', d_Undo = ''''\<rparr>"

text \<open>\<open>Undo\<close>: the step that reverses this one, with a copy of its parameters, if there is one.\<close>

fun Undo :: "step \<Rightarrow> Params \<Rightarrow> (ID \<times> Params) option" where
  "Undo ServiceStart p = Some (ServiceStopID, Params_clone p)"
| "Undo ServiceStop p = Some (ServiceStartID, Params_clone p)"
| "Undo FirewallAllow p = Some (FirewallRemoveID, Params_clone p)"
| "Undo FirewallRemove p = Some (FirewallAllowID, Params_clone p)"
| "Undo _ p = None"

definition Catalog :: "step list" where
  "Catalog =
     [ServiceRestart, ServiceStart, ServiceStop, ServiceReload,
      ContainerRestart, ComposeUp, PM2Restart, NginxReload,
      PHPFPMRestart, SupervisorRestart,
      JournalVacuum, DockerPrune, AptClean,
      CertRenew, ProcessStop, FirewallAllow, FirewallRemove, CheckHTTP]"

fun lookupIn :: "step list \<Rightarrow> ID \<Rightarrow> step option" where
  "lookupIn [] i = None"
| "lookupIn (s # ss) i = (if d_ID (Def s) = i then Some s else lookupIn ss i)"

definition Lookup :: "ID \<Rightarrow> step option" where
  "Lookup i = lookupIn Catalog i"

definition UndoOf :: "ID \<Rightarrow> Params \<Rightarrow> (ID \<times> Params) option" where
  "UndoOf i p = (case Lookup i of None \<Rightarrow> None | Some s \<Rightarrow> Undo s p)"

section \<open>Validators (validate.go)\<close>

definition nameChar :: "char \<Rightarrow> bool" where
  "nameChar c \<longleftrightarrow> isAlnum c \<or> c \<in> set ''@._:-''"

definition certChar :: "char \<Rightarrow> bool" where
  "certChar c \<longleftrightarrow> isAlnum c \<or> c \<in> set ''._-''"

definition userChar :: "char \<Rightarrow> bool" where
  "userChar c \<longleftrightarrow> isAlnum c \<or> c \<in> set ''._-''"

definition nameRe :: "string \<Rightarrow> bool" where
  "nameRe s \<longleftrightarrow> 1 \<le> length s \<and> length s \<le> 128 \<and> list_all nameChar s"

definition certRe :: "string \<Rightarrow> bool" where
  "certRe s \<longleftrightarrow>
     (case s of [] \<Rightarrow> False
      | c # cs \<Rightarrow> isAlnum c \<and> length cs \<le> 127 \<and> list_all certChar cs)"

definition phpRe :: "string \<Rightarrow> bool" where
  "phpRe s \<longleftrightarrow> HasPrefix s ''php'' \<and>
     (let rest = dropWhile (\<lambda>c. isDigit c \<or> c = CHR ''.'') (drop 3 s)
      in rest = ''-fpm'' \<or> rest = ''-fpm.service'')"

definition userRe :: "string \<Rightarrow> bool" where
  "userRe s \<longleftrightarrow>
     (case s of [] \<Rightarrow> False
      | c # cs \<Rightarrow> (isUpperC c \<or> isLowerC c \<or> c = CHR ''_'') \<and> length cs \<le> 31 \<and>
                  list_all userChar cs)"

definition digitRe :: "string \<Rightarrow> bool" where
  "digitRe s \<longleftrightarrow> 1 \<le> length s \<and> length s \<le> 20 \<and> list_all isDigit s"

text \<open>
  \<open>urlPattern\<close>: after the scheme between 1 and 1000 characters that are not white space; a character
  of valid UTF-8 text is a byte that does not continue one.
\<close>

definition urlRe :: "string \<Rightarrow> bool" where
  "urlRe s \<longleftrightarrow>
     (let ok = (\<lambda>r. 1 \<le> runeCount r \<and> runeCount r \<le> 1000 \<and>
        list_all (\<lambda>c. c \<notin> {CHR 0x09, CHR 0x0A, CHR 0x0C, CHR 0x0D, CHR '' ''}) r)
      in (HasPrefix s ''http://'' \<and> ok (drop 7 s)) \<or> (HasPrefix s ''https://'' \<and> ok (drop 8 s)))"

fun matchPattern :: "pattern \<Rightarrow> string \<Rightarrow> bool" where
  "matchPattern NoPattern s = True"
| "matchPattern namePattern s = nameRe s"
| "matchPattern certPattern s = certRe s"
| "matchPattern phpPattern s = phpRe s"
| "matchPattern sizePattern s = (s \<in> {''100M'', ''200M'', ''500M''})"
| "matchPattern protoPatten s = (s \<in> {''tcp'', ''udp''})"
| "matchPattern urlPattern s = urlRe s"

definition ValidateName :: "string \<Rightarrow> string \<Rightarrow> gerr option" where
  "ValidateName what s =
     (if \<not> nameRe s then Some (refuse (''That '' @ what @ '' name is not allowed.''))
      else if HasPrefix s ''-'' then Some (refuse (''That '' @ what @ '' name is not allowed.''))
      else None)"

definition ValidateUser :: "string \<Rightarrow> gerr option" where
  "ValidateUser s = (if \<not> userRe s then Some (refuse ''That user name is not allowed.'') else None)"

definition ValidateCertName :: "string \<Rightarrow> gerr option" where
  "ValidateCertName s =
     (if \<not> certRe s \<or> Contains s ''..'' then Some (refuse ''That certificate name is not allowed.'')
      else None)"

definition ValidatePHPUnit :: "string \<Rightarrow> gerr option" where
  "ValidatePHPUnit s =
     orElse (ValidateName ''service'' s)
       (if \<not> phpRe s then Some (refuse ''That is not a PHP-FPM service.'') else None)"

definition ValidatePort :: "int \<Rightarrow> gerr option" where
  "ValidatePort p =
     (if p < 1 \<or> p > 65535 then Some (refuse ''The port must be between 1 and 65535.'') else None)"

definition ValidateProto :: "string \<Rightarrow> gerr option" where
  "ValidateProto s =
     (if s \<noteq> ''tcp'' \<and> s \<noteq> ''udp'' then Some (refuse ''The protocol must be tcp or udp.'') else None)"

definition ParsePID :: "string \<Rightarrow> gerr + int" where
  "ParsePID s =
     (if \<not> digitRe s then Inl (refuse ''The process number is not valid.'')
      else case ParseInt 32 s of
          None \<Rightarrow> Inl (refuse ''The process number is not valid.'')
        | Some n \<Rightarrow> if n \<le> 1 then Inl (refuse ''That process cannot be stopped.'') else Inr n)"

definition ParseStartTime :: "string \<Rightarrow> gerr + int" where
  "ParseStartTime s =
     (if \<not> digitRe s then Inl (refuse ''The process start time is not valid.'')
      else case ParseUint 64 s of
          None \<Rightarrow> Inl (refuse ''The process start time is not valid.'')
        | Some n \<Rightarrow> if n = 0 then Inl (refuse ''The process start time is not valid.'') else Inr n)"

definition unitSuffixes :: "string list" where
  "unitSuffixes = [''.service'', ''.socket'', ''.target'', ''.timer'', ''.path'', ''.mount'',
     ''.automount'', ''.slice'', ''.scope'', ''.swap'', ''.device'', ''.snapshot'']"

fun unitBaseFrom :: "string list \<Rightarrow> string \<Rightarrow> string" where
  "unitBaseFrom [] name = name"
| "unitBaseFrom (s # ss) name = (if HasSuffix name s then TrimSuffix name s else unitBaseFrom ss name)"

definition unitBase :: "string \<Rightarrow> string" where
  "unitBase name = unitBaseFrom unitSuffixes name"

definition protectedExact :: "string list" where
  "protectedExact = [''ssh'', ''sshd'', ''networking'', ''network'', ''NetworkManager'',
     ''systemd-networkd'', ''systemd-resolved'', ''wpa_supplicant'', ''ufw'', ''firewalld'',
     ''nftables'', ''iptables'', ''ip6tables'', ''netfilter-persistent'', ''rootmote-agent'',
     ''docker'', ''containerd'']"

definition protectedPrefix :: "string list" where
  "protectedPrefix = [''systemd-'', ''dbus'', ''getty@'', ''serial-getty@'', ''ssh@'', ''sshd@'',
     ''sshd-'', ''sshd-session'', ''NetworkManager'', ''ifup@'', ''user@'']"

definition IsServiceName :: "string \<Rightarrow> bool" where
  "IsServiceName name =
     list_all (\<lambda>s. \<not> (s \<noteq> ''.service'' \<and> HasSuffix name s)) unitSuffixes"

definition IsProtectedUnit :: "string \<Rightarrow> bool" where
  "IsProtectedUnit name =
     (let base = unitBase name
      in base \<in> set protectedExact \<or> list_ex (\<lambda>p. HasPrefix base p) protectedPrefix)"

definition CheckUnitAllowed :: "string \<Rightarrow> gerr option" where
  "CheckUnitAllowed name =
     orElse (ValidateName ''service'' name)
       (if \<not> IsServiceName name
        then Some (refuse (name @ '' is not a service. Rootmote only changes services.''))
        else if IsProtectedUnit name
        then Some (refuse (unitBase name @ '' is a protected system service. Rootmote will not change it. You can do it yourself if you are sure.''))
        else None)"

section \<open>Helper arguments (privargs.go) and command display (runner.go)\<close>

definition journalSizes :: "string list" where
  "journalSizes = [''100M'', ''200M'', ''500M'']"

definition PrivArgs :: "ID \<Rightarrow> Params \<Rightarrow> gerr + string list" where
  "PrivArgs i p =
     (if i \<in> {ServiceRestartID, ServiceStartID, ServiceStopID, ServiceReloadID} then
        (let unit = Params_String p ''unit'' in guard (CheckUnitAllowed unit) (Inr [unit]))
      else if i \<in> {NginxReloadID, AptCleanID} then Inr []
      else if i = PHPFPMRestartID then
        (let unit = Params_String p ''unit'' in guard (ValidatePHPUnit unit) (Inr [unit]))
      else if i = SupervisorRestartID then
        (let prog = Params_String p ''program'' in guard (ValidateName ''program'' prog) (Inr [prog]))
      else if i = JournalVacuumID then
        (let size = Params_String p ''size'' in
         if size \<notin> set journalSizes then Inl (refuse ''The size must be 100M, 200M or 500M.'')
         else Inr [size])
      else if i = CertRenewID then
        (let name = Params_String p ''name'' in guard (ValidateCertName name) (Inr [name]))
      else if i = PM2RestartID then
        (let user = Params_String p ''user''; app = Params_String p ''app'' in
         guard (ValidateUser user) (guard (ValidateName ''app'' app) (Inr [user, app])))
      else if i = ProcessStopID then
        (case Params_Int p ''pid'' of
           None \<Rightarrow> Inl (refuse ''The process number is not valid.'')
         | Some pid \<Rightarrow>
             if pid \<le> 1 then Inl (refuse ''The process number is not valid.'')
             else (case Params_Uint p ''start_time'' of
                 None \<Rightarrow> Inl (refuse ''The process start time is not valid.'')
               | Some st \<Rightarrow>
                   if st = 0 then Inl (refuse ''The process start time is not valid.'')
                   else Inr [Itoa pid, Itoa st]))
      else if i \<in> {FirewallAllowID, FirewallRemoveID} then
        (case Params_Int p ''port'' of
           None \<Rightarrow> Inl (refuse ''The port must be between 1 and 65535.'')
         | Some port \<Rightarrow>
             guard (ValidatePort port)
               (let proto = Params_String p ''proto'' in
                guard (ValidateProto proto) (Inr [Itoa port, proto])))
      else Inl (refuse (i @ '' does not run through the privilege helper.'')))"

definition intOrZero :: "int option \<Rightarrow> int" where
  "intOrZero n = (case n of Some k \<Rightarrow> k | None \<Rightarrow> 0)"

text \<open>\<open>Command\<close>: the exact text shown for a step; the verb of a service step is its id after "service.".\<close>

definition Command :: "ID \<Rightarrow> Params \<Rightarrow> string" where
  "Command i p =
     (if i \<in> {ServiceRestartID, ServiceStartID, ServiceStopID, ServiceReloadID} then
        ''systemctl '' @ drop (length ''service.'') i @ '' '' @ Params_String p ''unit''
      else if i = ContainerRestartID then ''docker restart '' @ Params_String p ''container''
      else if i = ComposeUpID then
        ''docker compose -p '' @ Params_String p ''project'' @ '' start '' @ Params_String p ''service''
      else if i = PM2RestartID then
        ''sudo -u '' @ Params_String p ''user'' @ '' pm2 restart '' @ Params_String p ''app''
      else if i = NginxReloadID then ''nginx -t && systemctl reload nginx''
      else if i = PHPFPMRestartID then ''systemctl restart '' @ Params_String p ''unit''
      else if i = SupervisorRestartID then ''supervisorctl restart '' @ Params_String p ''program''
      else if i = JournalVacuumID then ''journalctl --vacuum-size='' @ Params_String p ''size''
      else if i = DockerPruneID then ''docker image prune && docker builder prune''
      else if i = AptCleanID then ''apt-get clean''
      else if i = CertRenewID then ''certbot renew --cert-name '' @ Params_String p ''name''
      else if i = ProcessStopID then ''kill -TERM '' @ Itoa (intOrZero (Params_Int p ''pid''))
      else if i = FirewallAllowID then
        ''ufw allow '' @ Itoa (intOrZero (Params_Int p ''port'')) @ ''/'' @ Params_String p ''proto''
      else if i = FirewallRemoveID then
        ''ufw delete allow '' @ Itoa (intOrZero (Params_Int p ''port'')) @ ''/'' @ Params_String p ''proto''
      else if i = CheckHTTPID then ''curl '' @ Params_String p ''url''
      else i)"


section \<open>The catalog is a bijection between ids and step types\<close>

lemma lookupIn_Some: "lookupIn ss i = Some s \<Longrightarrow> s \<in> set ss \<and> d_ID (Def s) = i"
  by (induction ss) (auto split: if_splits)

lemma Lookup_ID: "Lookup i = Some s \<Longrightarrow> d_ID (Def s) = i"
  by (simp add: Lookup_def lookupIn_Some)

lemma Catalog_complete: "s \<in> set Catalog"
  by (cases s) (simp_all add: Catalog_def)

lemma Catalog_ids_distinct: "distinct (map (\<lambda>s. d_ID (Def s)) Catalog)"
  by code_simp

lemma d_ID_inj: "d_ID (Def s) = d_ID (Def t) \<Longrightarrow> s = t"
  using Catalog_ids_distinct Catalog_complete by (auto simp: distinct_map inj_on_def)

lemma lookupIn_d_ID: "s \<in> set ss \<Longrightarrow> lookupIn ss (d_ID (Def s)) = Some s"
  by (induction ss) (auto dest: d_ID_inj)

lemma Lookup_Def [simp]: "Lookup (d_ID (Def s)) = Some s"
  by (simp add: Lookup_def lookupIn_d_ID Catalog_complete)

lemma Lookup_iff: "Lookup i = Some s \<longleftrightarrow> d_ID (Def s) = i"
  using Lookup_ID Lookup_Def by blast

lemma UndoOf_iff:
  "UndoOf i p = Some (j, q) \<longleftrightarrow>
     (q = p \<and> (i, j) \<in> {(ServiceStartID, ServiceStopID), (ServiceStopID, ServiceStartID),
        (FirewallAllowID, FirewallRemoveID), (FirewallRemoveID, FirewallAllowID)})"
proof (cases "Lookup i")
  case None
  then have "\<And>s. d_ID (Def s) \<noteq> i" using Lookup_iff by force
  from this [of ServiceStart] this [of ServiceStop] this [of FirewallAllow] this [of FirewallRemove]
  show ?thesis using None by (auto simp: UndoOf_def)
next
  case (Some s)
  then have i: "i = d_ID (Def s)" by (simp add: Lookup_iff)
  have u: "UndoOf i p = Undo s p" using Some by (simp add: UndoOf_def)
  show ?thesis
    unfolding u unfolding i by (cases s) (auto simp: step_id_defs Params_clone_def)
qed

text \<open>The catalog document's \<open>undo\<close> field agrees with the \<open>Undo\<close> method of the step.\<close>

lemma Def_undo_agrees:
  "Undo s p = (if d_Undo (Def s) = '''' then None else Some (d_Undo (Def s), p))"
  by (cases s) (simp_all add: step_id_defs Params_clone_def)

section \<open>What the validators guarantee\<close>

definition wordChar :: "char \<Rightarrow> bool" where
  "wordChar c \<longleftrightarrow> c \<noteq> CHR ''/'' \<and> \<not> isSpace c"

lemma wordChar_classes:
  "nameChar c \<Longrightarrow> wordChar c" "certChar c \<Longrightarrow> wordChar c" "userChar c \<Longrightarrow> wordChar c"
  "isAlnum c \<Longrightarrow> wordChar c" "isUpperC c \<Longrightarrow> wordChar c" "isLowerC c \<Longrightarrow> wordChar c"
  by (auto simp: wordChar_def nameChar_def certChar_def userChar_def isAlnum_def isDigit_def
      isUpperC_def isLowerC_def isSpace_def)

lemma dash_classes:
  "isAlnum c \<Longrightarrow> c \<noteq> CHR ''-''" "isUpperC c \<Longrightarrow> c \<noteq> CHR ''-''" "isLowerC c \<Longrightarrow> c \<noteq> CHR ''-''"
  by (auto simp: isAlnum_def isDigit_def isUpperC_def isLowerC_def)

lemma ValidateName_None:
  "ValidateName what s = None \<longleftrightarrow> nameRe s \<and> \<not> HasPrefix s ''-''"
  by (auto simp: ValidateName_def)

lemma CheckUnitAllowed_None:
  "CheckUnitAllowed s = None \<longleftrightarrow>
     nameRe s \<and> \<not> HasPrefix s ''-'' \<and> IsServiceName s \<and> \<not> IsProtectedUnit s"
  by (auto simp: CheckUnitAllowed_def ValidateName_None)

text \<open>
  An accepted name is a single argv word: it is not empty, holds no white space and no path
  separator, and cannot be read as an option.
\<close>

definition safe_word :: "string \<Rightarrow> bool" where
  "safe_word s \<longleftrightarrow> s \<noteq> [] \<and> hd s \<noteq> CHR ''-'' \<and> list_all wordChar s"

lemma list_all_wordChar:
  "list_all nameChar s \<Longrightarrow> list_all wordChar s" "list_all certChar s \<Longrightarrow> list_all wordChar s"
  "list_all userChar s \<Longrightarrow> list_all wordChar s"
  by (simp_all add: list_all_iff wordChar_classes)

lemma ValidateName_safe: "ValidateName what s = None \<Longrightarrow> safe_word s"
  by (cases s) (auto simp: ValidateName_None nameRe_def safe_word_def list_all_wordChar
      wordChar_classes)

lemma ValidateCertName_safe:
  assumes "ValidateCertName s = None" shows "safe_word s \<and> \<not> Contains s ''..''"
proof -
  from assms have c: "certRe s" and d: "\<not> Contains s ''..''"
    by (auto simp: ValidateCertName_def split: if_splits)
  from c have "safe_word s"
    by (cases s) (simp_all add: certRe_def safe_word_def list_all_wordChar wordChar_classes
        dash_classes)
  with d show ?thesis by simp
qed

lemma ValidateUser_safe:
  assumes "ValidateUser s = None" shows "safe_word s"
proof (cases s)
  case Nil
  with assms show ?thesis by (simp add: ValidateUser_def userRe_def split: if_splits)
next
  case (Cons c cs)
  from assms have u: "userRe s" by (simp add: ValidateUser_def split: if_splits)
  then have "isUpperC c \<or> isLowerC c \<or> c = CHR ''_''" by (simp add: userRe_def Cons)
  moreover have "wordChar (CHR ''_'')" by (simp add: wordChar_def isSpace_def)
  ultimately have "wordChar c \<and> c \<noteq> CHR ''-''"
    by (elim disjE) (simp_all add: wordChar_classes dash_classes)
  with u Cons show ?thesis by (simp add: userRe_def safe_word_def list_all_wordChar)
qed

lemma phpRe_form:
  assumes "phpRe s"
  obtains d where "list_all (\<lambda>c. isDigit c \<or> c = CHR ''.'') d"
    and "s = ''php'' @ d @ ''-fpm'' \<or> s = ''php'' @ d @ ''-fpm.service''"
proof -
  let ?P = "\<lambda>c. isDigit c \<or> c = CHR ''.''"
  from assms obtain r where s: "s = ''php'' @ r" by (auto simp: phpRe_def prefix_def)
  have r: "r = takeWhile ?P r @ dropWhile ?P r" by simp
  have t: "s = ''php'' @ takeWhile ?P r @ dropWhile ?P r" using s r by simp
  have dw: "dropWhile ?P r = ''-fpm'' \<or> dropWhile ?P r = ''-fpm.service''"
    using assms by (simp add: phpRe_def s Let_def)
  have "list_all ?P (takeWhile ?P r)"
    by (auto simp: list_all_iff dest: set_takeWhileD)
  moreover have "s = ''php'' @ takeWhile ?P r @ ''-fpm'' \<or> s = ''php'' @ takeWhile ?P r @ ''-fpm.service''"
    using dw t by (elim disjE) (simp_all only: simp_thms)
  ultimately show ?thesis by (rule that)
qed

lemma unitBase_service: "unitBase (s @ ''.service'') = s"
  by (simp add: unitBase_def unitSuffixes_def suffix_def)

lemma unitBase_fpm: "unitBase (s @ ''-fpm'') = s @ ''-fpm''"
  by (simp add: unitBase_def unitSuffixes_def suffix_to_prefix)

lemma php_not_protected:
  assumes "b = ''php'' @ r" shows "b \<notin> set protectedExact \<and> \<not> list_ex (\<lambda>p. HasPrefix b p) protectedPrefix"
  by (simp add: assms protectedExact_def protectedPrefix_def)

lemma IsServiceName_php: "IsServiceName (s @ ''-fpm'')" "IsServiceName (s @ ''-fpm.service'')"
  by (simp_all add: IsServiceName_def unitSuffixes_def suffix_to_prefix)

text \<open>
  \<open>PrivArgs\<close> checks a PHP-FPM unit only with \<open>ValidatePHPUnit\<close>; the helper checks it with
  \<open>CheckUnitAllowed\<close> as well, which never refuses more.
\<close>

lemma ValidatePHPUnit_allowed:
  assumes "ValidatePHPUnit s = None" shows "CheckUnitAllowed s = None"
proof -
  from assms have n: "ValidateName ''service'' s = None" and p: "phpRe s"
    by (auto simp: ValidatePHPUnit_def split: if_splits)
  from p obtain d where d: "s = ''php'' @ d @ ''-fpm'' \<or> s = ''php'' @ d @ ''-fpm.service''"
    by (rule phpRe_form)
  have "unitBase s = ''php'' @ d @ ''-fpm''"
    using d unitBase_fpm [of "''php'' @ d"] unitBase_service [of "''php'' @ d @ ''-fpm''"] by auto
  then have "\<not> IsProtectedUnit s"
    using php_not_protected [of "unitBase s" "d @ ''-fpm''"] by (simp add: IsProtectedUnit_def)
  moreover have "IsServiceName s" using d IsServiceName_php [of "''php'' @ d"] by auto
  ultimately show ?thesis using n by (simp add: CheckUnitAllowed_None ValidateName_None)
qed

end
