(* ===== verification/Runbook_Model.thy ===== *)
theory Runbook_Model
  imports Steps_Catalog "HOL-Library.Monad_Syntax"
begin

text \<open>
  The immutable runbook (\<^verbatim>\<open>internal/runbook/runbook.go\<close>): its types, the JSON document it is stored
  as (the \<^verbatim>\<open>json\<close> tags of the struct: member names, \<open>omitempty\<close>, the zero value for a missing
  member) and the canonical content hash. SHA-256 over JSON text is the parameter \<open>sha\<close>, a function
  on JSON documents; nothing is assumed of it except where a theorem says so. An instant in a
  document is the number of its nanoseconds (RFC 3339 text in the file).
\<close>

section \<open>Types\<close>

definition SchemaVersion :: int where "SchemaVersion = 2"

definition BlockedL3Reason :: string where
  "BlockedL3Reason = ''Destructive L3 remediation requires a maintenance session''"

definition SourceCatalog :: string where "SourceCatalog = ''catalog''"
definition SourceGenerated :: string where "SourceGenerated = ''generated''"

record Step =
  rs_Kind :: ID
  rs_Params :: Params
  rs_Description :: string
  rs_Command :: string
  rs_Verify :: string
  rs_Undoable :: bool

record ManualStep =
  mn_Text :: string
  mn_Command :: string

record RCommand =
  rc_Command :: string
  rc_RunAs :: string
  rc_Description :: string

record VerificationCheck =
  vc_ID :: string
  vc_Kind :: string
  vc_Target :: string
  vc_Description :: string

record Runbook =
  rb_ID :: string
  rb_SchemaVersion :: int
  rb_IncidentID :: string
  rb_DiagnosisID :: string
  rb_ProviderVersion :: string
  rb_ServerID :: string
  rb_Title :: string
  rb_Source :: string
  rb_ReviewCarefully :: bool
  rb_Summary :: string
  rb_RiskExplanation :: string
  rb_Risk :: string
  rb_RunAs :: string
  rb_Steps :: "Step list"
  rb_ManualSteps :: "ManualStep list"
  rb_AffectedFiles :: "string list"
  rb_AffectedServices :: "string list"
  rb_Interruption :: string
  rb_Rollback :: "RCommand list"
  rb_Verification :: "VerificationCheck list"
  rb_ExternalMonitorIDs :: "string list"
  rb_Blocked :: bool
  rb_BlockedReason :: string
  rb_ContentHash :: string
  rb_CreatedAt :: time

section \<open>Writing JSON\<close>

text \<open>A parameter value; the members of a Go map are written in key order.\<close>

fun pvalJson :: "pval \<Rightarrow> json" where
  "pvalJson (VString s) = JStr s"
| "pvalJson (VInt n) = JNum (of_int n)"
| "pvalJson (VInt64 n) = JNum (of_int n)"
| "pvalJson (VUint64 n) = JNum (of_int n)"
| "pvalJson (VFloat r) = JNum r"
| "pvalJson (VBool b) = JBool b"
| "pvalJson VNull = JNull"
| "pvalJson (VArr vs) = JArr (map pvalJson vs)"
| "pvalJson (VObj ms) = JObj (sort_key fst (map (\<lambda>(k, v). (k, pvalJson v)) ms))"

definition paramsJson :: "Params \<Rightarrow> json" where
  "paramsJson p = JObj (sort_key fst (map (\<lambda>(k, v). (k, pvalJson v)) p))"

definition omitStr :: "string \<Rightarrow> string \<Rightarrow> (string \<times> json) list" where
  "omitStr k s = (if s = '''' then [] else [(k, JStr s)])"

definition omitBool :: "string \<Rightarrow> bool \<Rightarrow> (string \<times> json) list" where
  "omitBool k b = (if b then [(k, JBool True)] else [])"

definition omitList :: "string \<Rightarrow> ('a \<Rightarrow> json) \<Rightarrow> 'a list \<Rightarrow> (string \<times> json) list" where
  "omitList k f xs = (if xs = [] then [] else [(k, JArr (map f xs))])"

definition stepJson :: "Step \<Rightarrow> json" where
  "stepJson s = JObj
     ([(''kind'', JStr (rs_Kind s)), (''params'', paramsJson (rs_Params s)),
       (''description'', JStr (rs_Description s))] @
      omitStr ''command'' (rs_Command s) @ omitStr ''verify'' (rs_Verify s) @
      [(''undoable'', JBool (rs_Undoable s))])"

definition manualJson :: "ManualStep \<Rightarrow> json" where
  "manualJson m = JObj ([(''text'', JStr (mn_Text m))] @ omitStr ''command'' (mn_Command m))"

definition rcommandJson :: "RCommand \<Rightarrow> json" where
  "rcommandJson c = JObj [(''command'', JStr (rc_Command c)), (''runAs'', JStr (rc_RunAs c)),
     (''description'', JStr (rc_Description c))]"

definition checkJson :: "VerificationCheck \<Rightarrow> json" where
  "checkJson c = JObj [(''id'', JStr (vc_ID c)), (''kind'', JStr (vc_Kind c)),
     (''target'', JStr (vc_Target c)), (''description'', JStr (vc_Description c))]"

definition runbookMembers :: "Runbook \<Rightarrow> (string \<times> json) list" where
  "runbookMembers rb =
     ([(''id'', JStr (rb_ID rb)), (''schemaVersion'', JNum (of_int (rb_SchemaVersion rb)))] @
      omitStr ''incidentId'' (rb_IncidentID rb) @ omitStr ''diagnosisId'' (rb_DiagnosisID rb) @
      omitStr ''providerVersion'' (rb_ProviderVersion rb) @
      [(''server_id'', JStr (rb_ServerID rb)), (''title'', JStr (rb_Title rb)),
       (''source'', JStr (rb_Source rb)), (''reviewCarefully'', JBool (rb_ReviewCarefully rb)),
       (''summary'', JStr (rb_Summary rb))] @
      omitStr ''riskExplanation'' (rb_RiskExplanation rb) @
      [(''risk'', JStr (rb_Risk rb))] @ omitStr ''runAs'' (rb_RunAs rb) @
      [(''steps'', JArr (map stepJson (rb_Steps rb))),
       (''manualSteps'', JArr (map manualJson (rb_ManualSteps rb)))] @
      omitList ''affectedFiles'' JStr (rb_AffectedFiles rb) @
      omitList ''affectedServices'' JStr (rb_AffectedServices rb) @
      omitStr ''interruption'' (rb_Interruption rb) @
      omitList ''rollback'' rcommandJson (rb_Rollback rb) @
      omitList ''verification'' checkJson (rb_Verification rb) @
      omitList ''externalMonitorIds'' JStr (rb_ExternalMonitorIDs rb) @
      omitBool ''blocked'' (rb_Blocked rb) @ omitStr ''blockedReason'' (rb_BlockedReason rb) @
      omitStr ''contentHash'' (rb_ContentHash rb) @
      [(''created_at'', JNum (of_int (rb_CreatedAt rb)))])"

definition runbookJson :: "Runbook \<Rightarrow> json" where
  "runbookJson rb = JObj (runbookMembers rb)"

section \<open>Reading JSON\<close>

text \<open>
  \<open>json.Unmarshal\<close> into \<open>any\<close>, and into the fields of a struct: a missing or null member leaves the
  zero value, a member of another type is an error (\<open>None\<close>).
\<close>

fun jsonPval :: "json \<Rightarrow> pval" where
  "jsonPval JNull = VNull"
| "jsonPval (JBool b) = VBool b"
| "jsonPval (JNum r) = VFloat r"
| "jsonPval (JStr s) = VString s"
| "jsonPval (JArr xs) = VArr (map jsonPval xs)"
| "jsonPval (JObj ms) = VObj (map (\<lambda>(k, v). (k, jsonPval v)) ms)"

type_synonym members = "(string \<times> json) list"

definition asObj :: "json \<Rightarrow> members option" where
  "asObj j = (case j of JObj ms \<Rightarrow> Some ms | JNull \<Rightarrow> Some [] | _ \<Rightarrow> None)"

definition getStr :: "members \<Rightarrow> string \<Rightarrow> string option" where
  "getStr ms k = (case map_of ms k of None \<Rightarrow> Some '''' | Some JNull \<Rightarrow> Some ''''
     | Some (JStr s) \<Rightarrow> Some s | _ \<Rightarrow> None)"

definition getBool :: "members \<Rightarrow> string \<Rightarrow> bool option" where
  "getBool ms k = (case map_of ms k of None \<Rightarrow> Some False | Some JNull \<Rightarrow> Some False
     | Some (JBool b) \<Rightarrow> Some b | _ \<Rightarrow> None)"

definition getInt :: "members \<Rightarrow> string \<Rightarrow> int \<Rightarrow> int option" where
  "getInt ms k zero = (case map_of ms k of None \<Rightarrow> Some zero | Some JNull \<Rightarrow> Some zero
     | Some (JNum r) \<Rightarrow> (if r = of_int \<lfloor>r\<rfloor> then Some \<lfloor>r\<rfloor> else None) | _ \<Rightarrow> None)"

fun mapOpt :: "('a \<Rightarrow> 'b option) \<Rightarrow> 'a list \<Rightarrow> 'b list option" where
  "mapOpt f [] = Some []"
| "mapOpt f (x # xs) =
     (case f x of None \<Rightarrow> None | Some y \<Rightarrow> (case mapOpt f xs of None \<Rightarrow> None | Some ys \<Rightarrow> Some (y # ys)))"

definition getList :: "members \<Rightarrow> string \<Rightarrow> (json \<Rightarrow> 'b option) \<Rightarrow> 'b list option" where
  "getList ms k f = (case map_of ms k of None \<Rightarrow> Some [] | Some JNull \<Rightarrow> Some []
     | Some (JArr xs) \<Rightarrow> mapOpt f xs | _ \<Rightarrow> None)"

definition jsonStr :: "json \<Rightarrow> string option" where
  "jsonStr j = (case j of JStr s \<Rightarrow> Some s | JNull \<Rightarrow> Some '''' | _ \<Rightarrow> None)"

definition getParams :: "members \<Rightarrow> string \<Rightarrow> Params option" where
  "getParams ms k = (case map_of ms k of None \<Rightarrow> Some [] | Some JNull \<Rightarrow> Some []
     | Some (JObj vs) \<Rightarrow> Some (map (\<lambda>(k, v). (k, jsonPval v)) vs) | _ \<Rightarrow> None)"

definition jsonStep :: "json \<Rightarrow> Step option" where
  "jsonStep j = do {
     ms \<leftarrow> asObj j;
     kind \<leftarrow> getStr ms ''kind''; params \<leftarrow> getParams ms ''params'';
     desc \<leftarrow> getStr ms ''description''; command \<leftarrow> getStr ms ''command'';
     verify \<leftarrow> getStr ms ''verify''; undoable \<leftarrow> getBool ms ''undoable'';
     Some \<lparr>rs_Kind = kind, rs_Params = params, rs_Description = desc, rs_Command = command,
           rs_Verify = verify, rs_Undoable = undoable\<rparr> }"

definition jsonManual :: "json \<Rightarrow> ManualStep option" where
  "jsonManual j = do {
     ms \<leftarrow> asObj j; t \<leftarrow> getStr ms ''text''; c \<leftarrow> getStr ms ''command'';
     Some \<lparr>mn_Text = t, mn_Command = c\<rparr> }"

definition jsonRCommand :: "json \<Rightarrow> RCommand option" where
  "jsonRCommand j = do {
     ms \<leftarrow> asObj j; c \<leftarrow> getStr ms ''command''; r \<leftarrow> getStr ms ''runAs'';
     d \<leftarrow> getStr ms ''description'';
     Some \<lparr>rc_Command = c, rc_RunAs = r, rc_Description = d\<rparr> }"

definition jsonCheck :: "json \<Rightarrow> VerificationCheck option" where
  "jsonCheck j = do {
     ms \<leftarrow> asObj j; i \<leftarrow> getStr ms ''id''; k \<leftarrow> getStr ms ''kind''; t \<leftarrow> getStr ms ''target'';
     d \<leftarrow> getStr ms ''description'';
     Some \<lparr>vc_ID = i, vc_Kind = k, vc_Target = t, vc_Description = d\<rparr> }"

definition jsonRunbook :: "json \<Rightarrow> Runbook option" where
  "jsonRunbook j = do {
     ms \<leftarrow> asObj j;
     i \<leftarrow> getStr ms ''id''; sv \<leftarrow> getInt ms ''schemaVersion'' 0;
     inc \<leftarrow> getStr ms ''incidentId''; dia \<leftarrow> getStr ms ''diagnosisId'';
     prov \<leftarrow> getStr ms ''providerVersion''; srv \<leftarrow> getStr ms ''server_id'';
     title \<leftarrow> getStr ms ''title''; source \<leftarrow> getStr ms ''source'';
     careful \<leftarrow> getBool ms ''reviewCarefully''; summary \<leftarrow> getStr ms ''summary'';
     riskx \<leftarrow> getStr ms ''riskExplanation''; risk \<leftarrow> getStr ms ''risk'';
     runas \<leftarrow> getStr ms ''runAs''; steps \<leftarrow> getList ms ''steps'' jsonStep;
     manual \<leftarrow> getList ms ''manualSteps'' jsonManual;
     files \<leftarrow> getList ms ''affectedFiles'' jsonStr;
     services \<leftarrow> getList ms ''affectedServices'' jsonStr;
     interruption \<leftarrow> getStr ms ''interruption'';
     rollback \<leftarrow> getList ms ''rollback'' jsonRCommand;
     verification \<leftarrow> getList ms ''verification'' jsonCheck;
     monitors \<leftarrow> getList ms ''externalMonitorIds'' jsonStr;
     blocked \<leftarrow> getBool ms ''blocked''; reason \<leftarrow> getStr ms ''blockedReason'';
     hash \<leftarrow> getStr ms ''contentHash''; created \<leftarrow> getInt ms ''created_at'' zeroTime;
     Some \<lparr>rb_ID = i, rb_SchemaVersion = sv, rb_IncidentID = inc, rb_DiagnosisID = dia,
       rb_ProviderVersion = prov, rb_ServerID = srv, rb_Title = title, rb_Source = source,
       rb_ReviewCarefully = careful, rb_Summary = summary, rb_RiskExplanation = riskx,
       rb_Risk = risk, rb_RunAs = runas, rb_Steps = steps, rb_ManualSteps = manual,
       rb_AffectedFiles = files, rb_AffectedServices = services, rb_Interruption = interruption,
       rb_Rollback = rollback, rb_Verification = verification, rb_ExternalMonitorIDs = monitors,
       rb_Blocked = blocked, rb_BlockedReason = reason, rb_ContentHash = hash,
       rb_CreatedAt = created\<rparr> }"

section \<open>The canonical content hash\<close>

text \<open>
  The canonical document after its round trip through a generic map: every object's members are in
  key order. A nil slice is written as null, and appending nothing to a nil slice leaves it nil, so
  an empty list is null, except the steps, which are made with \<open>make\<close>.
\<close>

definition listOrNull :: "('a \<Rightarrow> json) \<Rightarrow> 'a list \<Rightarrow> json" where
  "listOrNull f xs = (if xs = [] then JNull else JArr (map f xs))"

definition sortedCopy :: "string list \<Rightarrow> string list" where
  "sortedCopy ss = sort ss"

definition canonicalStep :: "Step \<Rightarrow> json" where
  "canonicalStep s = JObj
     [(''command'', JStr (rs_Command s)), (''kind'', JStr (rs_Kind s)),
      (''params'', paramsJson (rs_Params s)), (''undoable'', JBool (rs_Undoable s))]"

definition canonicalManual :: "ManualStep \<Rightarrow> json" where
  "canonicalManual m = JObj (omitStr ''command'' (mn_Command m) @ [(''text'', JStr (mn_Text m))])"

definition canonicalCommand :: "RCommand \<Rightarrow> json" where
  "canonicalCommand c = JObj [(''command'', JStr (rc_Command c)),
     (''description'', JStr (rc_Description c)), (''runAs'', JStr (rc_RunAs c))]"

definition canonicalCheck :: "VerificationCheck \<Rightarrow> json" where
  "canonicalCheck c = JObj [(''description'', JStr (vc_Description c)), (''id'', JStr (vc_ID c)),
     (''kind'', JStr (vc_Kind c)), (''target'', JStr (vc_Target c))]"

definition canonicalRunbook :: "Runbook \<Rightarrow> json" where
  "canonicalRunbook rb = JObj
     [(''affectedFiles'', listOrNull JStr (sortedCopy (rb_AffectedFiles rb))),
      (''affectedServices'', listOrNull JStr (sortedCopy (rb_AffectedServices rb))),
      (''diagnosisId'', JStr (rb_DiagnosisID rb)),
      (''externalMonitorIds'', listOrNull JStr (rb_ExternalMonitorIDs rb)),
      (''incidentId'', JStr (rb_IncidentID rb)),
      (''interruption'', JStr (rb_Interruption rb)),
      (''manualSteps'', listOrNull canonicalManual (rb_ManualSteps rb)),
      (''reviewCarefully'', JBool (rb_ReviewCarefully rb)),
      (''risk'', JStr (rb_Risk rb)),
      (''rollback'', listOrNull canonicalCommand (rb_Rollback rb)),
      (''runAs'', JStr (rb_RunAs rb)),
      (''schemaVersion'', JNum (of_int (rb_SchemaVersion rb))),
      (''serverId'', JStr (rb_ServerID rb)),
      (''source'', JStr (rb_Source rb)),
      (''steps'', JArr (map canonicalStep (rb_Steps rb))),
      (''title'', JStr (rb_Title rb)),
      (''verification'', listOrNull canonicalCheck (rb_Verification rb))]"

definition ContentHash :: "(json \<Rightarrow> string) \<Rightarrow> Runbook \<Rightarrow> string" where
  "ContentHash sha rb = sha (canonicalRunbook rb)"


section \<open>A stored runbook reads back as itself\<close>

text \<open>
  Reading a stored document gives the runbook in normal form: every parameter is the value its JSON
  decodes to (numbers become floating point, members are in key order), nothing else changes.
\<close>

definition normParams :: "Params \<Rightarrow> Params" where
  "normParams p =
     map (\<lambda>(k, v). (k, jsonPval v)) (sort_key fst (map (\<lambda>(k, v). (k, pvalJson v)) p))"

definition normStep :: "Step \<Rightarrow> Step" where
  "normStep s = s\<lparr>rs_Params := normParams (rs_Params s)\<rparr>"

definition normRunbook :: "Runbook \<Rightarrow> Runbook" where
  "normRunbook rb = rb\<lparr>rb_Steps := map normStep (rb_Steps rb)\<rparr>"

lemma map_of_omit [simp]:
  "map_of (omitStr k s) k' = (if k' = k \<and> s \<noteq> '''' then Some (JStr s) else None)"
  "map_of (omitBool k b) k' = (if k' = k \<and> b then Some (JBool True) else None)"
  "map_of (omitList k f xs) k' = (if k' = k \<and> xs \<noteq> [] then Some (JArr (map f xs)) else None)"
  by (simp_all add: omitStr_def omitBool_def omitList_def)

lemma mapOpt_map: "(\<And>x. x \<in> set xs \<Longrightarrow> g (f x) = Some (h x)) \<Longrightarrow> mapOpt g (map f xs) = Some (map h xs)"
  by (induction xs) simp_all

lemma jsonStep_stepJson: "jsonStep (stepJson s) = Some (normStep s)"
  by (simp add: stepJson_def jsonStep_def asObj_def getStr_def getBool_def getParams_def
      paramsJson_def normStep_def normParams_def map_add_def)

lemma jsonManual_manualJson: "jsonManual (manualJson m) = Some m"
  by (simp add: manualJson_def jsonManual_def asObj_def getStr_def)

lemma jsonRCommand_rcommandJson: "jsonRCommand (rcommandJson c) = Some c"
  by (simp add: rcommandJson_def jsonRCommand_def asObj_def getStr_def)

lemma jsonCheck_checkJson: "jsonCheck (checkJson c) = Some c"
  by (simp add: checkJson_def jsonCheck_def asObj_def getStr_def)

lemma jsonStr_JStr: "jsonStr (JStr s) = Some s"
  by (simp add: jsonStr_def)

lemmas mapOpt_rules =
  mapOpt_map [of _ jsonStep stepJson normStep, OF jsonStep_stepJson]
  mapOpt_map [of _ jsonManual manualJson "\<lambda>x. x", OF jsonManual_manualJson]
  mapOpt_map [of _ jsonRCommand rcommandJson "\<lambda>x. x", OF jsonRCommand_rcommandJson]
  mapOpt_map [of _ jsonCheck checkJson "\<lambda>x. x", OF jsonCheck_checkJson]
  mapOpt_map [of _ jsonStr JStr "\<lambda>x. x", OF jsonStr_JStr]

lemma getStr_runbookMembers:
  "getStr (runbookMembers rb) ''id'' = Some (rb_ID rb)"
  "getStr (runbookMembers rb) ''incidentId'' = Some (rb_IncidentID rb)"
  "getStr (runbookMembers rb) ''diagnosisId'' = Some (rb_DiagnosisID rb)"
  "getStr (runbookMembers rb) ''providerVersion'' = Some (rb_ProviderVersion rb)"
  "getStr (runbookMembers rb) ''server_id'' = Some (rb_ServerID rb)"
  "getStr (runbookMembers rb) ''title'' = Some (rb_Title rb)"
  "getStr (runbookMembers rb) ''source'' = Some (rb_Source rb)"
  "getStr (runbookMembers rb) ''summary'' = Some (rb_Summary rb)"
  "getStr (runbookMembers rb) ''riskExplanation'' = Some (rb_RiskExplanation rb)"
  "getStr (runbookMembers rb) ''risk'' = Some (rb_Risk rb)"
  "getStr (runbookMembers rb) ''runAs'' = Some (rb_RunAs rb)"
  "getStr (runbookMembers rb) ''interruption'' = Some (rb_Interruption rb)"
  "getStr (runbookMembers rb) ''blockedReason'' = Some (rb_BlockedReason rb)"
  "getStr (runbookMembers rb) ''contentHash'' = Some (rb_ContentHash rb)"
  by (simp_all add: runbookMembers_def getStr_def map_add_def)

lemma getOther_runbookMembers:
  "getInt (runbookMembers rb) ''schemaVersion'' 0 = Some (rb_SchemaVersion rb)"
  "getInt (runbookMembers rb) ''created_at'' zeroTime = Some (rb_CreatedAt rb)"
  "getBool (runbookMembers rb) ''reviewCarefully'' = Some (rb_ReviewCarefully rb)"
  "getBool (runbookMembers rb) ''blocked'' = Some (rb_Blocked rb)"
  by (simp_all add: runbookMembers_def getInt_def getBool_def map_add_def)

lemma getList_runbookMembers:
  "getList (runbookMembers rb) ''steps'' jsonStep = Some (map normStep (rb_Steps rb))"
  "getList (runbookMembers rb) ''manualSteps'' jsonManual = Some (rb_ManualSteps rb)"
  "getList (runbookMembers rb) ''affectedFiles'' jsonStr = Some (rb_AffectedFiles rb)"
  "getList (runbookMembers rb) ''affectedServices'' jsonStr = Some (rb_AffectedServices rb)"
  "getList (runbookMembers rb) ''rollback'' jsonRCommand = Some (rb_Rollback rb)"
  "getList (runbookMembers rb) ''verification'' jsonCheck = Some (rb_Verification rb)"
  "getList (runbookMembers rb) ''externalMonitorIds'' jsonStr = Some (rb_ExternalMonitorIDs rb)"
  by (simp_all add: runbookMembers_def getList_def map_add_def mapOpt_rules)

lemma jsonRunbook_runbookJson: "jsonRunbook (runbookJson rb) = Some (normRunbook rb)"
  by (simp add: runbookJson_def jsonRunbook_def asObj_def getStr_runbookMembers
      getOther_runbookMembers getList_runbookMembers normRunbook_def)

section \<open>The hash is a function of what is executed\<close>

lemma sort_key_sorted: "sorted (map f xs) \<Longrightarrow> sort_key f xs = xs"
  by (rule sort_key_id_if_sorted)

lemma map_snd_fst_comp: "map fst (map (\<lambda>(k, v). (k, f v)) xs) = map fst xs"
  by (simp add: case_prod_beta comp_def)

lemma sort_map_snd:
  "sort_key fst (map (\<lambda>(k, v). (k, f v)) (sort_key fst xs)) = map (\<lambda>(k, v). (k, f v)) (sort_key fst xs)"
  for xs :: "('k :: linorder \<times> 'v) list"
  by (rule sort_key_sorted) (simp only: map_snd_fst_comp sorted_sort_key)

lemma set_sort_map: "(k, v) \<in> set (sort_key fst (map (\<lambda>(k, v). (k, f v)) xs)) \<Longrightarrow>
    \<exists>w. (k, w) \<in> set xs \<and> v = f w"
  by auto

lemma pvalJson_jsonPval: "pvalJson (jsonPval (pvalJson v)) = pvalJson v"
proof (induction v)
  case (VArr vs)
  then show ?case by simp
next
  case (VObj ms)
  let ?S = "sort_key fst (map (\<lambda>(k, v). (k, pvalJson v)) ms)"
  have "(case x of (k, w) \<Rightarrow> (k, pvalJson (jsonPval w))) = x" if x: "x \<in> set ?S" for x
  proof -
    obtain k w where kw: "x = (k, w)" by (cases x)
    with x obtain v where "(k, v) \<in> set ms" and "w = pvalJson v" by auto
    with VObj kw show ?thesis by (auto simp: snds.simps)
  qed
  then have "map (\<lambda>(k, v). (k, pvalJson (jsonPval v))) ?S = ?S" by (intro map_idI) blast
  then have "map (\<lambda>(k, v). (k, pvalJson v)) (map (\<lambda>(k, v). (k, jsonPval v)) ?S) = ?S"
    by (simp add: case_prod_unfold comp_def)
  moreover have "sort_key fst ?S = ?S" by (rule sort_key_sorted) simp
  ultimately show ?case by simp
qed simp_all

lemma paramsJson_norm: "paramsJson (normParams p) = paramsJson p"
  using pvalJson_jsonPval [of "VObj p"] by (simp add: paramsJson_def normParams_def)

lemma canonicalStep_norm: "canonicalStep (normStep s) = canonicalStep s"
  by (simp add: canonicalStep_def normStep_def paramsJson_norm)

lemma canonicalRunbook_norm: "canonicalRunbook (normRunbook rb) = canonicalRunbook rb"
  by (simp add: canonicalRunbook_def normRunbook_def canonicalStep_norm comp_def)

text \<open>The hash recomputed from the stored document is the hash taken when it was written.\<close>

lemma ContentHash_norm [simp]: "ContentHash sha (normRunbook rb) = ContentHash sha rb"
  by (simp add: ContentHash_def canonicalRunbook_norm)

text \<open>
  The fields the hash does not cover: recording a hash, an id, a time or a block decision does not
  change it.
\<close>

lemma ContentHash_lifecycle [simp]:
  "ContentHash sha (rb\<lparr>rb_ContentHash := h\<rparr>) = ContentHash sha rb"
  "ContentHash sha (rb\<lparr>rb_ID := i\<rparr>) = ContentHash sha rb"
  "ContentHash sha (rb\<lparr>rb_CreatedAt := t\<rparr>) = ContentHash sha rb"
  "ContentHash sha (rb\<lparr>rb_Blocked := b\<rparr>) = ContentHash sha rb"
  by (simp_all add: ContentHash_def canonicalRunbook_def)

text \<open>What the hash does cover: the executable part of every step, in order.\<close>

definition stepBody :: "Step \<Rightarrow> ID \<times> json \<times> string \<times> bool" where
  "stepBody s = (rs_Kind s, paramsJson (rs_Params s), rs_Command s, rs_Undoable s)"

lemma canonicalStep_eq: "canonicalStep s = canonicalStep t \<longleftrightarrow> stepBody s = stepBody t"
  by (auto simp: canonicalStep_def stepBody_def)

lemma canonicalRunbook_steps:
  "canonicalRunbook a = canonicalRunbook b \<Longrightarrow> map stepBody (rb_Steps a) = map stepBody (rb_Steps b)"
proof -
  assume "canonicalRunbook a = canonicalRunbook b"
  then have "map canonicalStep (rb_Steps a) = map canonicalStep (rb_Steps b)"
    by (simp add: canonicalRunbook_def)
  then show ?thesis
    by (auto simp: list_eq_iff_nth_eq canonicalStep_eq dest: map_eq_imp_length_eq)
qed

text \<open>Looking a parameter up in the normal form.\<close>

lemma map_of_sort_key:
  assumes "distinct (map fst xs)"
  shows "map_of (sort_key fst xs) = map_of xs"
proof (rule ext)
  fix k
  have i: "inj_on fst (set (sort_key fst xs))" and d: "distinct (sort_key fst xs)"
    using assms by (simp_all add: distinct_map)
  then have "distinct (map fst (sort_key fst xs))" by (simp add: distinct_map)
  with assms have "\<And>v. map_of (sort_key fst xs) k = Some v \<longleftrightarrow> map_of xs k = Some v"
    by (simp add: map_of_eq_Some_iff)
  then show "map_of (sort_key fst xs) k = map_of xs k" by (metis not_Some_eq)
qed

end
