(* ===== verification/State_Store.thy ===== *)
theory State_Store
  imports Go_Prelude
begin

text \<open>
  The agent's SQLite state store (\<^verbatim>\<open>internal/store/store.go\<close>): the tables behind the remediation
  ledger, the audit log, confirmation tokens, monitor state, alert silences and acknowledgements,
  agent settings and incident bindings. A table is the list of its rows, oldest first. Times are
  stored as Unix seconds, so a value that is read back is truncated to the second.

  \<^verbatim>\<open>database/sql\<close> may fail at any call. The field \<open>faults\<close> is the schedule of outcomes of the calls
  to come (\<open>True\<close>: the call fails and changes nothing; an exhausted schedule never fails), so every
  error return of the code is a branch of the model and a theorem for all stores is a theorem for
  all failure schedules. \<open>wallClock\<close> is what \<open>time.Now()\<close> answers.
\<close>

section \<open>Rows\<close>

record AuditEntry =
  ae_ID :: int
  ae_Type :: string
  ae_ProjectID :: string
  ae_SessionID :: string
  ae_Actor :: string
  ae_Summary :: string
  ae_Data :: json
  ae_CreatedAt :: time

record ConfirmationToken =
  ct_Token :: string
  ct_ActionHash :: string
  ct_ProjectID :: string
  ct_CreatedAt :: time
  ct_ExpiresAt :: time
  ct_UsedAt :: "time option"

record MonitorState =
  ms_Key :: string
  ms_State :: string
  ms_ConsecutiveFail :: int
  ms_ConsecutiveOK :: int
  ms_FirstFailureAt :: time
  ms_LastTransitionAt :: time
  ms_UpdatedAt :: time

record RunbookRow =
  rr_ID :: string
  rr_IncidentID :: string
  rr_ContentHash :: string
  rr_Content :: json
  rr_CreatedAt :: time

definition RemediationProposed :: string where "RemediationProposed = ''proposed''"
definition RemediationApproved :: string where "RemediationApproved = ''approved''"
definition RemediationExecuting :: string where "RemediationExecuting = ''executing''"
definition RemediationVerifying :: string where "RemediationVerifying = ''verifying''"
definition RemediationResolved :: string where "RemediationResolved = ''resolved''"
definition RemediationRemediationFailed :: string where
  "RemediationRemediationFailed = ''remediation_failed''"
definition RemediationDeclined :: string where "RemediationDeclined = ''declined''"
definition RemediationBlockedL3 :: string where "RemediationBlockedL3 = ''blocked_l3''"

lemmas status_defs =
  RemediationProposed_def RemediationApproved_def RemediationExecuting_def
  RemediationVerifying_def RemediationResolved_def RemediationRemediationFailed_def
  RemediationDeclined_def RemediationBlockedL3_def

definition remediationStatuses :: "string list" where
  "remediationStatuses =
     [RemediationProposed, RemediationApproved, RemediationExecuting, RemediationVerifying,
      RemediationResolved, RemediationRemediationFailed, RemediationDeclined, RemediationBlockedL3]"

definition RemediationKindExecute :: string where "RemediationKindExecute = ''execute''"
definition RemediationKindRollback :: string where "RemediationKindRollback = ''rollback''"

definition remediationKinds :: "string list" where
  "remediationKinds = [RemediationKindExecute, RemediationKindRollback]"

record RemediationExecution =
  re_ID :: string
  re_IncidentID :: string
  re_RunbookID :: string
  re_RunbookHash :: string
  re_Status :: string
  re_Kind :: string
  re_ParentExecutionID :: string
  re_CreatedAt :: time
  re_UpdatedAt :: time

record RemediationEvent =
  ev_ExecutionID :: string
  ev_Seq :: int
  ev_Type :: string
  ev_Data :: json
  ev_CreatedAt :: time

record AlertSilence =
  as_Key :: string
  as_Rule :: string
  as_Target :: string
  as_Until :: int

record IncidentBinding =
  ib_IncidentID :: string
  ib_MonitorKind :: string
  ib_Target :: string
  ib_Severity :: string
  ib_Summary :: string
  ib_EventID :: string
  ib_CreatedAt :: time

record store =
  audits :: "AuditEntry list"
  tokens :: "ConfirmationToken list"
  runbooks :: "RunbookRow list"
  executions :: "RemediationExecution list"
  events :: "RemediationEvent list"
  silences :: "AlertSilence list"
  acks :: "(string \<times> int) list"
  monitorStates :: "MonitorState list"
  settings :: "(string \<times> string) list"
  bindings :: "IncidentBinding list"
  wallClock :: time
  faults :: "bool list"

datatype store_err =
    ErrNotFound
  | ErrConflict
  | ErrDB
  | ErrInvalidStatus string
  | ErrInvalidKind string

section \<open>Calls to the database\<close>

text \<open>One call: consume an outcome of the schedule; on a fault nothing changes.\<close>

definition dbCall :: "store \<Rightarrow> (store \<Rightarrow> store \<times> (store_err + 'a)) \<Rightarrow> store \<times> (store_err + 'a)" where
  "dbCall s k =
     (case faults s of
        [] \<Rightarrow> k s
      | True # fs \<Rightarrow> (s\<lparr>faults := fs\<rparr>, Inl ErrDB)
      | False # fs \<Rightarrow> k (s\<lparr>faults := fs\<rparr>))"

text \<open>\<open>SELECT ... WHERE key = ?\<close> on a unique key.\<close>

fun findRow :: "('r \<Rightarrow> 'k) \<Rightarrow> 'k \<Rightarrow> 'r list \<Rightarrow> 'r option" where
  "findRow key k [] = None"
| "findRow key k (r # rs) = (if key r = k then Some r else findRow key k rs)"

text \<open>\<open>INSERT ... ON CONFLICT(key) DO UPDATE\<close>: replace the row with this key or append it.\<close>

fun upsertRow :: "('r \<Rightarrow> 'k) \<Rightarrow> 'r \<Rightarrow> 'r list \<Rightarrow> 'r list" where
  "upsertRow key r [] = [r]"
| "upsertRow key r (q # qs) = (if key q = key r then r # qs else q # upsertRow key r qs)"

section \<open>Silences, acknowledgements, monitor state\<close>

definition PutAlertSilence ::
    "store \<Rightarrow> string \<Rightarrow> string \<Rightarrow> string \<Rightarrow> time \<Rightarrow> store \<times> (store_err + unit)" where
  "PutAlertSilence s key rule target until =
     dbCall s (\<lambda>s. (s\<lparr>silences := upsertRow as_Key
        \<lparr>as_Key = key, as_Rule = rule, as_Target = target, as_Until = unixSec until\<rparr> (silences s)\<rparr>,
        Inr ()))"

definition DeleteAlertSilence :: "store \<Rightarrow> string \<Rightarrow> store \<times> (store_err + unit)" where
  "DeleteAlertSilence s key =
     dbCall s (\<lambda>s. (s\<lparr>silences := filter (\<lambda>r. as_Key r \<noteq> key) (silences s)\<rparr>, Inr ()))"

text \<open>
  Expired rows are deleted first, and an error of that statement is dropped; then the rows still in
  effect are read.
\<close>

definition AlertSilencesActive :: "store \<Rightarrow> time \<Rightarrow> store \<times> (store_err + (string \<times> time) list)" where
  "AlertSilencesActive s now =
     (let (s1, _) = dbCall s (\<lambda>s. (s\<lparr>silences := filter (\<lambda>r. \<not> as_Until r \<le> unixSec now) (silences s)\<rparr>,
                                   Inr ())) :: store \<times> (store_err + unit)
      in dbCall s1 (\<lambda>s. (s, Inr (map (\<lambda>r. (as_Key r, fromUnix (as_Until r)))
           (filter (\<lambda>r. as_Until r > unixSec now) (silences s))))))"

definition PutAlertAck :: "store \<Rightarrow> string \<Rightarrow> time \<Rightarrow> store \<times> (store_err + unit)" where
  "PutAlertAck s key firedAt =
     dbCall s (\<lambda>s. (s\<lparr>acks := AList.update key (unixSec firedAt) (acks s)\<rparr>, Inr ()))"

definition AlertAcks :: "store \<Rightarrow> store \<times> (store_err + (string \<times> time) list)" where
  "AlertAcks s = dbCall s (\<lambda>s. (s, Inr (map (\<lambda>(k, t). (k, fromUnix t)) (acks s))))"

text \<open>
  A zero \<open>FirstFailureAt\<close> is stored as NULL and read back as the zero time; the other times lose
  their sub-second part.
\<close>

definition storedState :: "MonitorState \<Rightarrow> MonitorState" where
  "storedState ms = ms\<lparr>
     ms_FirstFailureAt := (if IsZero (ms_FirstFailureAt ms) then zeroTime
                           else stored (ms_FirstFailureAt ms)),
     ms_LastTransitionAt := stored (ms_LastTransitionAt ms),
     ms_UpdatedAt := stored (ms_UpdatedAt ms)\<rparr>"

definition PutMonitorState :: "store \<Rightarrow> MonitorState \<Rightarrow> store \<times> (store_err + unit)" where
  "PutMonitorState s ms =
     dbCall s (\<lambda>s. (s\<lparr>monitorStates := upsertRow ms_Key (storedState ms) (monitorStates s)\<rparr>, Inr ()))"

definition ListMonitorStates :: "store \<Rightarrow> store \<times> (store_err + MonitorState list)" where
  "ListMonitorStates s = dbCall s (\<lambda>s. (s, Inr (monitorStates s)))"

section \<open>Audit log and confirmation tokens\<close>

definition AppendAudit :: "store \<Rightarrow> AuditEntry \<Rightarrow> store \<times> (store_err + AuditEntry)" where
  "AppendAudit s e0 =
     (let e = (if IsZero (ae_CreatedAt e0) then e0\<lparr>ae_CreatedAt := wallClock s\<rparr> else e0) in
      dbCall s (\<lambda>s.
        let e' = e\<lparr>ae_ID := int (length (audits s)) + 1\<rparr> in
        (s\<lparr>audits := audits s @ [e'\<lparr>ae_CreatedAt := stored (ae_CreatedAt e')\<rparr>]\<rparr>, Inr e')))"

text \<open>
  The most recent rows that match: \<open>ORDER BY created_at DESC, id DESC LIMIT ?\<close>, the limit clamped.
\<close>

definition ListAudit ::
    "store \<Rightarrow> string \<Rightarrow> string \<Rightarrow> int \<Rightarrow> store \<times> (store_err + AuditEntry list)" where
  "ListAudit s filterType projectID limit0 =
     (let limit1 = (if limit0 \<le> 0 then 100 else limit0);
          limit = (if limit1 > 500 then 500 else limit1)
      in dbCall s (\<lambda>s. (s, Inr (take (nat limit)
           (rev (sort_key (\<lambda>e. ae_CreatedAt e)
             (filter (\<lambda>e. (filterType = '''' \<or> ae_Type e = filterType) \<and>
                          (projectID = '''' \<or> ae_ProjectID e = projectID)) (audits s))))))))"

definition CreateConfirmationToken :: "store \<Rightarrow> ConfirmationToken \<Rightarrow> store \<times> (store_err + unit)" where
  "CreateConfirmationToken s tok0 =
     (let tok = (if IsZero (ct_CreatedAt tok0) then tok0\<lparr>ct_CreatedAt := wallClock s\<rparr> else tok0) in
      dbCall s (\<lambda>s.
        if findRow ct_Token (ct_Token tok) (tokens s) \<noteq> None then (s, Inl ErrDB)
        else (s\<lparr>tokens := tokens s @ [tok\<lparr>ct_CreatedAt := stored (ct_CreatedAt tok),
                 ct_ExpiresAt := stored (ct_ExpiresAt tok), ct_UsedAt := None\<rparr>]\<rparr>, Inr ())))"

definition GetConfirmationToken :: "store \<Rightarrow> string \<Rightarrow> store \<times> (store_err + ConfirmationToken)" where
  "GetConfirmationToken s token =
     dbCall s (\<lambda>s. case findRow ct_Token token (tokens s) of
        None \<Rightarrow> (s, Inl ErrNotFound) | Some t \<Rightarrow> (s, Inr t))"

definition MarkConfirmationTokenUsed ::
    "store \<Rightarrow> string \<Rightarrow> time \<Rightarrow> store \<times> (store_err + bool)" where
  "MarkConfirmationTokenUsed s token ts =
     dbCall s (\<lambda>s.
       let hit = (\<lambda>t. ct_Token t = token \<and> ct_UsedAt t = None) in
       (s\<lparr>tokens := map (\<lambda>t. if hit t then t\<lparr>ct_UsedAt := Some (stored ts)\<rparr> else t) (tokens s)\<rparr>,
        Inr (length (filter hit (tokens s)) = 1)))"

section \<open>Settings\<close>

definition GetAgentSetting :: "store \<Rightarrow> string \<Rightarrow> store \<times> (store_err + string)" where
  "GetAgentSetting s key =
     dbCall s (\<lambda>s. case map_of (settings s) key of None \<Rightarrow> (s, Inl ErrNotFound) | Some v \<Rightarrow> (s, Inr v))"

definition PutAgentSetting :: "store \<Rightarrow> string \<Rightarrow> string \<Rightarrow> store \<times> (store_err + unit)" where
  "PutAgentSetting s key v =
     dbCall s (\<lambda>s. (s\<lparr>settings := AList.update key v (settings s)\<rparr>, Inr ()))"

section \<open>Runbooks and executions\<close>

definition CreateRunbook :: "store \<Rightarrow> RunbookRow \<Rightarrow> store \<times> (store_err + unit)" where
  "CreateRunbook s rb0 =
     (let rb = (if IsZero (rr_CreatedAt rb0) then rb0\<lparr>rr_CreatedAt := wallClock s\<rparr> else rb0) in
      dbCall s (\<lambda>s.
        if findRow rr_ID (rr_ID rb) (runbooks s) \<noteq> None then (s, Inl ErrConflict)
        else (s\<lparr>runbooks := runbooks s @ [rb\<lparr>rr_CreatedAt := stored (rr_CreatedAt rb)\<rparr>]\<rparr>, Inr ())))"

definition GetRunbook :: "store \<Rightarrow> string \<Rightarrow> store \<times> (store_err + RunbookRow)" where
  "GetRunbook s i =
     dbCall s (\<lambda>s. case findRow rr_ID i (runbooks s) of
        None \<Rightarrow> (s, Inl ErrNotFound) | Some r \<Rightarrow> (s, Inr r))"

definition GetExecution :: "store \<Rightarrow> string \<Rightarrow> store \<times> (store_err + RemediationExecution)" where
  "GetExecution s i =
     dbCall s (\<lambda>s. case findRow re_ID i (executions s) of
        None \<Rightarrow> (s, Inl ErrNotFound) | Some e \<Rightarrow> (s, Inr e))"

text \<open>
  The insert fails on the primary key when the id is in use; then the existing row is read (a
  second call) and compared. The flag tells whether this call inserted the row.
\<close>

definition CreateExecution ::
    "store \<Rightarrow> RemediationExecution \<Rightarrow> store \<times> (store_err + RemediationExecution \<times> bool)" where
  "CreateExecution s e0 =
     (let e1 = (if IsZero (re_CreatedAt e0) then e0\<lparr>re_CreatedAt := wallClock s\<rparr> else e0);
          e2 = (if IsZero (re_UpdatedAt e1) then e1\<lparr>re_UpdatedAt := re_CreatedAt e1\<rparr> else e1);
          e = (if re_Kind e2 = '''' then e2\<lparr>re_Kind := RemediationKindExecute\<rparr> else e2)
      in
      if re_Status e \<notin> set remediationStatuses then (s, Inl (ErrInvalidStatus (re_Status e)))
      else if re_Kind e \<notin> set remediationKinds then (s, Inl (ErrInvalidKind (re_Kind e)))
      else dbCall s (\<lambda>s.
        if findRow re_ID (re_ID e) (executions s) = None
        then (s\<lparr>executions := executions s @ [e\<lparr>re_CreatedAt := stored (re_CreatedAt e),
                 re_UpdatedAt := stored (re_UpdatedAt e)\<rparr>]\<rparr>, Inr (e, True))
        else andThen (GetExecution s (re_ID e)) (\<lambda>s existing.
          if re_IncidentID existing \<noteq> re_IncidentID e \<or> re_RunbookID existing \<noteq> re_RunbookID e \<or>
             re_RunbookHash existing \<noteq> re_RunbookHash e
          then (s, Inl ErrConflict) else (s, Inr (existing, False)))))"

definition TransitionExecution ::
    "store \<Rightarrow> string \<Rightarrow> string \<Rightarrow> string \<Rightarrow> time \<Rightarrow> store \<times> (store_err + unit)" where
  "TransitionExecution s i from to ts =
     (if to \<notin> set remediationStatuses then (s, Inl (ErrInvalidStatus to))
      else dbCall s (\<lambda>s.
        let hit = (\<lambda>e. re_ID e = i \<and> re_Status e = from) in
        if \<not> list_ex hit (executions s) then (s, Inl ErrConflict)
        else (s\<lparr>executions := map (\<lambda>e. if hit e
                 then e\<lparr>re_Status := to, re_UpdatedAt := stored ts\<rparr> else e) (executions s)\<rparr>, Inr ())))"

definition InFlightExecutions :: "store \<Rightarrow> store \<times> (store_err + RemediationExecution list)" where
  "InFlightExecutions s =
     dbCall s (\<lambda>s. (s, Inr (sort_key re_CreatedAt
       (filter (\<lambda>e. re_Status e \<in> {RemediationExecuting, RemediationVerifying}) (executions s)))))"

text \<open>
  One transaction: the next sequence number of the execution, then the insert, which the foreign key
  refuses when there is no such execution.
\<close>

definition nextSeq :: "store \<Rightarrow> string \<Rightarrow> int" where
  "nextSeq s i =
     (case filter (\<lambda>ev. ev_ExecutionID ev = i) (events s) of
        [] \<Rightarrow> 1
      | evs \<Rightarrow> Max (set (map ev_Seq evs)) + 1)"

definition AppendRemediationEvent ::
    "store \<Rightarrow> RemediationEvent \<Rightarrow> store \<times> (store_err + RemediationEvent)" where
  "AppendRemediationEvent s ev0 =
     (let ev1 = (if IsZero (ev_CreatedAt ev0) then ev0\<lparr>ev_CreatedAt := wallClock s\<rparr> else ev0) in
      dbCall s (\<lambda>s.
        let ev = ev1\<lparr>ev_Seq := nextSeq s (ev_ExecutionID ev1)\<rparr> in
        if findRow re_ID (ev_ExecutionID ev) (executions s) = None then (s, Inl ErrDB)
        else (s\<lparr>events := events s @ [ev\<lparr>ev_CreatedAt := stored (ev_CreatedAt ev)\<rparr>]\<rparr>, Inr ev)))"

definition RemediationEventsAfter ::
    "store \<Rightarrow> string \<Rightarrow> int \<Rightarrow> store \<times> (store_err + RemediationEvent list)" where
  "RemediationEventsAfter s i afterSeq =
     dbCall s (\<lambda>s. (s, Inr (sort_key ev_Seq
       (filter (\<lambda>ev. ev_ExecutionID ev = i \<and> ev_Seq ev > afterSeq) (events s)))))"

section \<open>Incident bindings\<close>

definition PutIncidentBinding :: "store \<Rightarrow> IncidentBinding \<Rightarrow> store \<times> (store_err + bool)" where
  "PutIncidentBinding s b0 =
     (let b = (if IsZero (ib_CreatedAt b0) then b0\<lparr>ib_CreatedAt := wallClock s\<rparr> else b0) in
      dbCall s (\<lambda>s.
        if findRow ib_IncidentID (ib_IncidentID b) (bindings s) \<noteq> None then (s, Inr False)
        else (s\<lparr>bindings := bindings s @ [b\<lparr>ib_CreatedAt := stored (ib_CreatedAt b)\<rparr>]\<rparr>, Inr True)))"

definition GetIncidentBinding :: "store \<Rightarrow> string \<Rightarrow> store \<times> (store_err + IncidentBinding)" where
  "GetIncidentBinding s i =
     dbCall s (\<lambda>s. case findRow ib_IncidentID i (bindings s) of
        None \<Rightarrow> (s, Inl ErrNotFound) | Some b \<Rightarrow> (s, Inr b))"

text \<open>Newest first: \<open>ORDER BY created_at DESC, id DESC\<close>.\<close>

definition ExecutionsForIncident ::
    "store \<Rightarrow> string \<Rightarrow> store \<times> (store_err + RemediationExecution list)" where
  "ExecutionsForIncident s i =
     dbCall s (\<lambda>s. (s, Inr (rev (sort_key (\<lambda>e. re_CreatedAt e) (sort_key (\<lambda>e. re_ID e)
       (filter (\<lambda>e. re_IncidentID e = i \<and> re_Kind e = RemediationKindExecute) (executions s)))))))"


section \<open>Rules for database calls and tables\<close>

lemma dbCall_nofault [simp]: "faults s = [] \<Longrightarrow> dbCall s k = k s"
  by (simp add: dbCall_def)

text \<open>Every call either faults, changing nothing but the schedule, or runs its statement.\<close>

lemma dbCallE:
  assumes "dbCall s k = (t, r)"
  obtains (fault) fs where "t = s\<lparr>faults := fs\<rparr>" and "r = Inl ErrDB"
  | (run) fs where "k (s\<lparr>faults := fs\<rparr>) = (t, r)"
proof (cases "faults s")
  case Nil
  have e: "s\<lparr>faults := []\<rparr> = s" using Nil by (cases s) simp
  have "k s = (t, r)" using assms Nil by simp
  then have "k (s\<lparr>faults := []\<rparr>) = (t, r)" by (subst e)
  then show thesis by (rule run)
next
  case (Cons f fs)
  with assms show thesis by (cases f) (auto simp: dbCall_def intro: fault run)
qed

lemma findRow_Some: "findRow key k rs = Some r \<Longrightarrow> r \<in> set rs \<and> key r = k"
  by (induction rs) (auto split: if_splits)

lemma findRow_None: "findRow key k rs = None \<longleftrightarrow> k \<notin> key ` set rs"
  by (induction rs) auto

lemma findRow_append:
  "findRow key k (rs @ qs) = (case findRow key k rs of Some r \<Rightarrow> Some r | None \<Rightarrow> findRow key k qs)"
  by (induction rs) auto

lemma findRow_map:
  "(\<And>r. key (f r) = key r) \<Longrightarrow> findRow key k (map f rs) = map_option f (findRow key k rs)"
  by (induction rs) auto

lemma findRow_unique:
  "distinct (map key rs) \<Longrightarrow> r \<in> set rs \<Longrightarrow> findRow key (key r) rs = Some r"
  by (induction rs) (auto simp: rev_image_eqI)

lemma findRow_upsert:
  "findRow key k (upsertRow key r rs) = (if k = key r then Some r else findRow key k rs)"
  by (induction rs) auto

lemma keys_upsertRow:
  "map key (upsertRow key r rs) = (if key r \<in> key ` set rs then map key rs else map key rs @ [key r])"
  by (induction rs) auto

lemma distinct_upsertRow:
  "distinct (map key rs) \<Longrightarrow> distinct (map key (upsertRow key r rs))"
  by (simp add: keys_upsertRow)

section \<open>The contract of a compare-and-swap register\<close>

text \<open>
  Two tables of the store rest on the same primitive, an UPDATE guarded by the expected old value:
  the status of an execution and the \<open>used_at\<close> column of a token. The interface: reading a register
  and a guarded write that reports whether it changed a row.
\<close>

locale cas_register =
  fixes reg :: "'s \<Rightarrow> 'k \<Rightarrow> 'v option"
    and cas :: "'s \<Rightarrow> 'k \<Rightarrow> 'v \<Rightarrow> 'v \<Rightarrow> 's \<times> bool"
    and ok :: "'s \<Rightarrow> bool"
  assumes cas_win: "ok s \<Longrightarrow> cas s k a b = (t, True) \<Longrightarrow> reg s k = Some a \<and> reg t = (reg s)(k \<mapsto> b)"
    and cas_lose: "ok s \<Longrightarrow> cas s k a b = (t, False) \<Longrightarrow> reg t = reg s"
    and cas_ok: "ok s \<Longrightarrow> ok (fst (cas s k a b))"
begin

text \<open>The outcomes of a sequence of attempts, whoever makes them and however they interleave.\<close>

fun attempts :: "'s \<Rightarrow> ('k \<times> 'v \<times> 'v) list \<Rightarrow> (('k \<times> 'v \<times> 'v) \<times> bool) list" where
  "attempts s [] = []"
| "attempts s ((k, a, b) # as) = (((k, a, b), snd (cas s k a b)) # attempts (fst (cas s k a b)) as)"

fun wins :: "'k \<Rightarrow> 'v \<Rightarrow> 'v \<Rightarrow> (('k \<times> 'v \<times> 'v) \<times> bool) list \<Rightarrow> nat" where
  "wins k a b [] = 0"
| "wins k a b ((x, w) # xs) = (if x = (k, a, b) \<and> w then Suc (wins k a b xs) else wins k a b xs)"

lemma cas_rank:
  assumes "ok s" and "rank a < (rank b :: nat)"
    and "reg s k = Some v"
  shows "\<exists>w. reg (fst (cas s k' a b)) k = Some w \<and> rank v \<le> rank w"
proof (cases "cas s k' a b")
  case (Pair t u)
  then show ?thesis using assms cas_win [of s k' a b t] cas_lose [of s k' a b t]
    by (cases u; cases "k' = k") auto
qed

lemma no_win_above:
  assumes "ok s" and "\<forall>(k, a, b) \<in> set as. rank a < (rank b :: nat)"
    and "reg s k = Some v" and "rank a0 < rank v"
  shows "wins k a0 b0 (attempts s as) = 0"
  using assms
proof (induction as arbitrary: s v)
  case Nil
  then show ?case by simp
next
  case (Cons x as)
  obtain k' a b where x: "x = (k', a, b)" by (cases x)
  obtain t u where c: "cas s k' a b = (t, u)" by (cases "cas s k' a b")
  have r: "rank a < rank b" using Cons.prems(2) x by simp
  obtain w where w: "reg t k = Some w" "rank v \<le> rank w"
    using cas_rank [where rank = rank, OF Cons.prems(1) r Cons.prems(3), of k'] c by auto
  have "ok t" using cas_ok [OF Cons.prems(1), of k' a b] c by simp
  then have "wins k a0 b0 (attempts t as) = 0"
    using Cons.IH [OF _ _ w(1)] Cons.prems w(2) by simp
  moreover have "\<not> (u \<and> (k', a, b) = (k, a0, b0))"
  proof
    assume "u \<and> (k', a, b) = (k, a0, b0)"
    then have "reg s k = Some a0" using cas_win [OF Cons.prems(1), of k a0 b0 t] c by simp
    with Cons.prems(3,4) show False by simp
  qed
  ultimately show ?case by (auto simp: x c)
qed

text \<open>
  If every attempt moves up a rank, each edge of the lifecycle is won at most once: of any number of
  duplicate, retried or racing callers at most one makes the transition.
\<close>

lemma at_most_one_winner:
  assumes "ok s" and "\<forall>(k, a, b) \<in> set as. rank a < (rank b :: nat)"
  shows "wins k a0 b0 (attempts s as) \<le> 1"
  using assms
proof (induction as arbitrary: s)
  case Nil
  then show ?case by simp
next
  case (Cons x as)
  obtain k' a b where x: "x = (k', a, b)" by (cases x)
  obtain t u where c: "cas s k' a b = (t, u)" by (cases "cas s k' a b")
  have okt: "ok t" using cas_ok [OF Cons.prems(1), of k' a b] c by simp
  have rest: "\<forall>(k, a, b) \<in> set as. rank a < rank b" using Cons.prems(2) by simp
  show ?case
  proof (cases "u \<and> (k', a, b) = (k, a0, b0)")
    case True
    then have "reg t k = Some b0" using cas_win [OF Cons.prems(1), of k a0 b0 t] c by simp
    moreover have "rank a0 < rank b0" using True Cons.prems(2) x by auto
    ultimately have "wins k a0 b0 (attempts t as) = 0" by (intro no_win_above [OF okt rest])
    then show ?thesis by (simp add: x c)
  next
    case False
    with Cons.IH [OF okt rest] show ?thesis by (auto simp: x c)
  qed
qed

end

section \<open>Well-formed stores\<close>

text \<open>
  What SQLite's keys and the code keep true: primary keys are unique, statuses and kinds are defined
  ones, events belong to executions and each execution's events are numbered from 1 without gaps.
\<close>

definition eventsOf :: "store \<Rightarrow> string \<Rightarrow> RemediationEvent list" where
  "eventsOf s i = filter (\<lambda>ev. ev_ExecutionID ev = i) (events s)"

definition wf_exec :: "RemediationExecution \<Rightarrow> bool" where
  "wf_exec e \<longleftrightarrow> re_Status e \<in> set remediationStatuses \<and> re_Kind e \<in> set remediationKinds"

definition wf_store :: "store \<Rightarrow> bool" where
  "wf_store s \<longleftrightarrow>
     distinct (map re_ID (executions s)) \<and> distinct (map rr_ID (runbooks s)) \<and>
     distinct (map ct_Token (tokens s)) \<and> distinct (map ms_Key (monitorStates s)) \<and>
     distinct (map ib_IncidentID (bindings s)) \<and>
     (\<forall>e \<in> set (executions s). wf_exec e) \<and>
     (\<forall>ev \<in> set (events s). ev_ExecutionID ev \<in> re_ID ` set (executions s)) \<and>
     (\<forall>i. map ev_Seq (eventsOf s i) = [1..int (length (eventsOf s i))])"

definition emptyStore :: "time \<Rightarrow> store" where
  "emptyStore t = \<lparr>audits = [], tokens = [], runbooks = [], executions = [], events = [],
     silences = [], acks = [], monitorStates = [], settings = [], bindings = [], wallClock = t,
     faults = []\<rparr>"

lemma wf_emptyStore: "wf_store (emptyStore t)"
  by (simp add: wf_store_def emptyStore_def eventsOf_def)

lemma wf_faults [simp]: "wf_store (s\<lparr>faults := fs\<rparr>) = wf_store s"
  by (simp add: wf_store_def eventsOf_def)

lemma eventsOf_faults [simp]: "eventsOf (s\<lparr>faults := fs\<rparr>) i = eventsOf s i"
  by (simp add: eventsOf_def)

text \<open>A call keeps a property of the store when its statement does.\<close>

lemma dbCall_keeps:
  assumes "dbCall s k = (t, r)" and "\<And>fs. P (s\<lparr>faults := fs\<rparr>)"
    and "\<And>fs t r. k (s\<lparr>faults := fs\<rparr>) = (t, r) \<Longrightarrow> P t"
  shows "P t"
  using assms(1) by (cases rule: dbCallE) (auto intro: assms)

definition execOf :: "store \<Rightarrow> string \<Rightarrow> RemediationExecution option" where
  "execOf s i = findRow re_ID i (executions s)"

definition statusOf :: "store \<Rightarrow> string \<Rightarrow> string option" where
  "statusOf s i = map_option re_Status (execOf s i)"

lemma execOf_faults [simp]: "execOf (s\<lparr>faults := fs\<rparr>) = execOf s"
  by (simp add: execOf_def fun_eq_iff)

lemma statusOf_faults [simp]: "statusOf (s\<lparr>faults := fs\<rparr>) = statusOf s"
  by (simp add: statusOf_def fun_eq_iff)

lemma execOf_id: "execOf s i = Some e \<Longrightarrow> re_ID e = i"
  by (auto simp: execOf_def dest: findRow_Some)

section \<open>Executions\<close>

lemma GetExecutionE:
  assumes "GetExecution s i = (t, r)"
  obtains fs where "t = s\<lparr>faults := fs\<rparr>"
    and "r = Inl ErrDB \<or> (execOf s i = None \<and> r = Inl ErrNotFound) \<or> (\<exists>e. execOf s i = Some e \<and> r = Inr e)"
  using assms unfolding GetExecution_def
  by (cases rule: dbCallE) (auto simp: execOf_def split: option.splits)

text \<open>The effect of a successful transition on the table.\<close>

definition moved :: "string \<Rightarrow> string \<Rightarrow> string \<Rightarrow> time \<Rightarrow> RemediationExecution \<Rightarrow> RemediationExecution" where
  "moved i from to ts e =
     (if re_ID e = i \<and> re_Status e = from then e\<lparr>re_Status := to, re_UpdatedAt := stored ts\<rparr> else e)"

lemma moved_id [simp]: "re_ID (moved i a b ts e) = re_ID e"
  by (simp add: moved_def)

lemma re_ID_comp_moved [simp]: "re_ID \<circ> moved i a b ts = re_ID"
  by (simp add: fun_eq_iff)

lemma TransitionExecutionE:
  assumes "TransitionExecution s i a b ts = (t, r)"
  obtains (fail) fs x where "t = s\<lparr>faults := fs\<rparr>" and "r = Inl x"
  | (moved) fs where "t = s\<lparr>faults := fs, executions := map (moved i a b ts) (executions s)\<rparr>"
      and "r = Inr ()" and "b \<in> set remediationStatuses"
      and "\<exists>e \<in> set (executions s). re_ID e = i \<and> re_Status e = a"
proof (cases "b \<in> set remediationStatuses")
  case False
  with assms have "t = s\<lparr>faults := faults s\<rparr>" and "r = Inl (ErrInvalidStatus b)"
    by (auto simp: TransitionExecution_def)
  then show thesis by (rule fail)
next
  case True
  with assms have "dbCall s (\<lambda>s.
        if \<not> list_ex (\<lambda>e. re_ID e = i \<and> re_Status e = a) (executions s) then (s, Inl ErrConflict)
        else (s\<lparr>executions := map (moved i a b ts) (executions s)\<rparr>, Inr ())) = (t, r)"
    by (simp add: TransitionExecution_def Let_def moved_def [abs_def] cong: if_cong)
  then show thesis
  proof (cases rule: dbCallE)
    case (fault fs)
    then show thesis by (rule fail)
  next
    case (run fs)
    show thesis
    proof (cases "list_ex (\<lambda>e. re_ID e = i \<and> re_Status e = a) (executions s)")
      case hit: True
      with run have "t = s\<lparr>faults := fs, executions := map (moved i a b ts) (executions s)\<rparr>"
        and "r = Inr ()" by simp_all
      then show thesis using hit True by (intro moved) (auto simp: list_ex_iff)
    next
      case False
      with run have "t = s\<lparr>faults := fs\<rparr>" and "r = Inl ErrConflict" by simp_all
      then show thesis by (rule fail)
    qed
  qed
qed

lemma execOf_moved:
  assumes "executions t = map (moved i a b ts) (executions s)"
  shows "execOf t j = map_option (moved i a b ts) (execOf s j)"
  by (simp add: execOf_def assms findRow_map)

lemma statusOf_moved:
  assumes wf: "wf_store s" and t: "executions t = map (moved i a b ts) (executions s)"
    and hit: "\<exists>e \<in> set (executions s). re_ID e = i \<and> re_Status e = a"
  shows "statusOf s i = Some a" and "statusOf t = (statusOf s)(i \<mapsto> b)"
proof -
  from hit obtain e where e: "e \<in> set (executions s)" "re_ID e = i" "re_Status e = a" by blast
  with wf have f: "execOf s i = Some e"
    using findRow_unique [of re_ID "executions s" e] by (simp add: wf_store_def execOf_def)
  then show "statusOf s i = Some a" using e by (simp add: statusOf_def)
  show "statusOf t = (statusOf s)(i \<mapsto> b)"
  proof (rule ext)
    fix j
    show "statusOf t j = ((statusOf s)(i \<mapsto> b)) j"
    proof (cases "j = i")
      case True
      then show ?thesis using f e by (simp add: statusOf_def execOf_moved [OF t] moved_def)
    next
      case False
      then show ?thesis
        by (cases "execOf s j") (auto simp: statusOf_def execOf_moved [OF t] moved_def dest: execOf_id)
    qed
  qed
qed

lemma TransitionExecution_wf:
  assumes "TransitionExecution s i a b ts = (t, r)" and "wf_store s"
  shows "wf_store t"
  using assms(1)
proof (cases rule: TransitionExecutionE)
  case (fail fs x)
  with assms(2) show ?thesis by simp
next
  case (moved fs)
  have "\<forall>e \<in> set (map (moved i a b ts) (executions s)). wf_exec e"
    using assms(2) moved(3) by (auto simp: wf_store_def wf_exec_def moved_def)
  with assms(2) moved(1) show ?thesis by (simp add: wf_store_def eventsOf_def image_image)
qed

text \<open>The status column as a register.\<close>

definition statusCas :: "time \<Rightarrow> store \<Rightarrow> string \<Rightarrow> string \<Rightarrow> string \<Rightarrow> store \<times> bool" where
  "statusCas ts s i a b = (let (t, r) = TransitionExecution s i a b ts in (t, \<not> isl r))"

interpretation ledger: cas_register statusOf "statusCas ts" wf_store for ts
proof
  fix s i a b t
  assume wf: "wf_store s" and c: "statusCas ts s i a b = (t, True)"
  then obtain r where "TransitionExecution s i a b ts = (t, r)" "\<not> isl r"
    by (auto simp: statusCas_def split: prod.splits)
  then show "statusOf s i = Some a \<and> statusOf t = (statusOf s)(i \<mapsto> b)"
  proof (cases rule: TransitionExecutionE)
    case (moved fs)
    then have "executions t = map (State_Store.moved i a b ts) (executions s)" by simp
    then show ?thesis using statusOf_moved [OF wf _ moved(4)] by blast
  qed simp
next
  fix s i a b t
  assume "wf_store s" and "statusCas ts s i a b = (t, False)"
  then obtain r where "TransitionExecution s i a b ts = (t, r)" "isl r"
    by (auto simp: statusCas_def split: prod.splits)
  then show "statusOf t = statusOf s" by (cases rule: TransitionExecutionE) auto
next
  fix s i a b
  assume "wf_store s"
  then show "wf_store (fst (statusCas ts s i a b))"
    by (auto simp: statusCas_def split: prod.splits dest: TransitionExecution_wf)
qed


definition execRow :: "time \<Rightarrow> RemediationExecution \<Rightarrow> RemediationExecution" where
  "execRow wall e0 =
     (let e1 = (if IsZero (re_CreatedAt e0) then e0\<lparr>re_CreatedAt := wall\<rparr> else e0);
          e2 = (if IsZero (re_UpdatedAt e1) then e1\<lparr>re_UpdatedAt := re_CreatedAt e1\<rparr> else e1)
      in if re_Kind e2 = '''' then e2\<lparr>re_Kind := RemediationKindExecute\<rparr> else e2)"

lemma execRow_fields [simp]:
  "re_ID (execRow w e) = re_ID e" "re_IncidentID (execRow w e) = re_IncidentID e"
  "re_RunbookID (execRow w e) = re_RunbookID e" "re_RunbookHash (execRow w e) = re_RunbookHash e"
  "re_Status (execRow w e) = re_Status e" "re_ParentExecutionID (execRow w e) = re_ParentExecutionID e"
  "re_Kind (execRow w e) = (if re_Kind e = '''' then RemediationKindExecute else re_Kind e)"
  by (simp_all add: execRow_def Let_def)

definition storedExec :: "RemediationExecution \<Rightarrow> RemediationExecution" where
  "storedExec e = e\<lparr>re_CreatedAt := stored (re_CreatedAt e), re_UpdatedAt := stored (re_UpdatedAt e)\<rparr>"

lemma storedExec_fields [simp]:
  "re_ID (storedExec e) = re_ID e" "re_IncidentID (storedExec e) = re_IncidentID e"
  "re_RunbookID (storedExec e) = re_RunbookID e" "re_RunbookHash (storedExec e) = re_RunbookHash e"
  "re_Status (storedExec e) = re_Status e" "re_Kind (storedExec e) = re_Kind e"
  "re_ParentExecutionID (storedExec e) = re_ParentExecutionID e"
  by (simp_all add: storedExec_def)

lemma CreateExecution_alt:
  "CreateExecution s e0 =
     (let e = execRow (wallClock s) e0 in
      if re_Status e \<notin> set remediationStatuses then (s, Inl (ErrInvalidStatus (re_Status e)))
      else if re_Kind e \<notin> set remediationKinds then (s, Inl (ErrInvalidKind (re_Kind e)))
      else dbCall s (\<lambda>s.
        if findRow re_ID (re_ID e) (executions s) = None
        then (s\<lparr>executions := executions s @ [storedExec e]\<rparr>, Inr (e, True))
        else andThen (GetExecution s (re_ID e)) (\<lambda>s existing.
          if re_IncidentID existing \<noteq> re_IncidentID e \<or> re_RunbookID existing \<noteq> re_RunbookID e \<or>
             re_RunbookHash existing \<noteq> re_RunbookHash e
          then (s, Inl ErrConflict) else (s, Inr (existing, False)))))"
  by (simp only: CreateExecution_def execRow_def storedExec_def Let_def)

text \<open>The three outcomes of \<open>CreateExecution\<close>: an error, a new row, or the row that was there.\<close>

lemma CreateExecutionE:
  assumes "CreateExecution s e0 = (t, r)"
  obtains (fail) fs x where "t = s\<lparr>faults := fs\<rparr>" and "r = Inl x"
  | (new) fs where "execOf s (re_ID e0) = None"
      and "t = s\<lparr>faults := fs, executions := executions s @ [storedExec (execRow (wallClock s) e0)]\<rparr>"
      and "r = Inr (execRow (wallClock s) e0, True)" and "wf_exec (execRow (wallClock s) e0)"
  | (old) fs x where "execOf s (re_ID e0) = Some x" and "t = s\<lparr>faults := fs\<rparr>"
      and "r = Inr (x, False)" and "re_IncidentID x = re_IncidentID e0"
      and "re_RunbookID x = re_RunbookID e0" and "re_RunbookHash x = re_RunbookHash e0"
proof -
  define e where "e = execRow (wallClock s) e0"
  show thesis
  proof (cases "wf_exec e")
    case False
    then have "t = s\<lparr>faults := faults s\<rparr>" and "\<exists>x. r = Inl x"
      using assms by (auto simp: CreateExecution_alt Let_def wf_exec_def e_def split: if_splits)
    then show thesis using fail by blast
  next
    case wf: True
    then have "dbCall s (\<lambda>s.
        if findRow re_ID (re_ID e) (executions s) = None
        then (s\<lparr>executions := executions s @ [storedExec e]\<rparr>, Inr (e, True))
        else andThen (GetExecution s (re_ID e)) (\<lambda>s existing.
          if re_IncidentID existing \<noteq> re_IncidentID e \<or> re_RunbookID existing \<noteq> re_RunbookID e \<or>
             re_RunbookHash existing \<noteq> re_RunbookHash e
          then (s, Inl ErrConflict) else (s, Inr (existing, False)))) = (t, r)"
      using assms unfolding CreateExecution_alt Let_def e_def [symmetric] wf_exec_def by simp
    then show thesis
    proof (cases rule: dbCallE)
      case (fault fs)
      then show thesis by (rule fail)
    next
      case (run fs)
      show thesis
      proof (cases "execOf s (re_ID e0)")
        case None
        with run wf show thesis by (intro new [of fs]) (auto simp: execOf_def e_def)
      next
        case (Some x)
        obtain u v where g: "GetExecution (s\<lparr>faults := fs\<rparr>) (re_ID e0) = (u, v)"
          by (cases "GetExecution (s\<lparr>faults := fs\<rparr>) (re_ID e0)")
        then obtain fs' where u: "u = s\<lparr>faults := fs'\<rparr>" and v: "v = Inl ErrDB \<or> v = Inr x"
          by (cases rule: GetExecutionE) (auto simp: Some)
        from run Some g have "andThen (u, v) (\<lambda>s existing.
          if re_IncidentID existing \<noteq> re_IncidentID e \<or> re_RunbookID existing \<noteq> re_RunbookID e \<or>
             re_RunbookHash existing \<noteq> re_RunbookHash e
          then (s, Inl ErrConflict) else (s, Inr (existing, False))) = (t, r)"
          by (simp add: execOf_def e_def)
        with u v Some show thesis
          by (auto simp: e_def split: if_splits intro: fail old)
      qed
    qed
  qed
qed

lemma CreateExecution_wf:
  assumes "CreateExecution s e0 = (t, r)" and "wf_store s" shows "wf_store t"
  using assms(1)
proof (cases rule: CreateExecutionE)
  case (new fs)
  have "re_ID e0 \<notin> re_ID ` set (executions s)"
    using new(1) by (simp add: execOf_def findRow_None)
  with new assms(2) show ?thesis
    by (auto simp: wf_store_def eventsOf_def wf_exec_def)
qed (use assms in simp_all)

lemma nextSeq_eq:
  assumes "wf_store s" shows "nextSeq s i = int (length (eventsOf s i)) + 1"
proof (cases "eventsOf s i")
  case Nil
  then show ?thesis by (simp add: nextSeq_def eventsOf_def)
next
  case (Cons ev evs)
  have m: "map ev_Seq (eventsOf s i) = [1..int (length (eventsOf s i))]"
    using assms by (simp add: wf_store_def)
  then have "set (map ev_Seq (eventsOf s i)) = {1..int (length (eventsOf s i))}"
    by (metis set_upto)
  moreover have "Max {1..int (length (eventsOf s i))} = int (length (eventsOf s i))"
    using Cons by (intro Max_eqI) auto
  moreover have "nextSeq s i = Max (set (map ev_Seq (eventsOf s i))) + 1"
    using Cons by (simp add: nextSeq_def eventsOf_def)
  ultimately show ?thesis by simp
qed

lemma AppendRemediationEventE:
  assumes "AppendRemediationEvent s ev = (t, r)"
  obtains (fail) fs x where "t = s\<lparr>faults := fs\<rparr>" and "r = Inl x"
  | (logged) fs row x where "t = s\<lparr>faults := fs, events := events s @ [row]\<rparr>"
      and "ev_ExecutionID row = ev_ExecutionID ev" and "ev_Type row = ev_Type ev"
      and "ev_Data row = ev_Data ev" and "ev_Seq row = nextSeq s (ev_ExecutionID ev)"
      and "r = Inr x" and "execOf s (ev_ExecutionID ev) \<noteq> None"
proof -
  define ev1 where "ev1 = (if IsZero (ev_CreatedAt ev) then ev\<lparr>ev_CreatedAt := wallClock s\<rparr> else ev)"
  have f: "ev_ExecutionID ev1 = ev_ExecutionID ev" "ev_Type ev1 = ev_Type ev" "ev_Data ev1 = ev_Data ev"
    by (simp_all add: ev1_def)
  from assms have "dbCall s (\<lambda>s.
        let x = ev1\<lparr>ev_Seq := nextSeq s (ev_ExecutionID ev1)\<rparr> in
        if findRow re_ID (ev_ExecutionID x) (executions s) = None then (s, Inl ErrDB)
        else (s\<lparr>events := events s @ [x\<lparr>ev_CreatedAt := stored (ev_CreatedAt x)\<rparr>]\<rparr>, Inr x)) = (t, r)"
    by (simp only: AppendRemediationEvent_def Let_def ev1_def)
  then show thesis
  proof (cases rule: dbCallE)
    case (fault fs)
    then show thesis by (rule fail)
  next
    case (run fs)
    have n: "nextSeq (s\<lparr>faults := fs\<rparr>) i = nextSeq s i" for i by (simp add: nextSeq_def)
    show thesis
    proof (cases "execOf s (ev_ExecutionID ev)")
      case None
      with run f show thesis by (intro fail [of fs ErrDB]) (auto simp: execOf_def Let_def)
    next
      case (Some x)
      with run f n show thesis
        by (intro logged [where fs = fs and row = "ev1\<lparr>ev_Seq := nextSeq s (ev_ExecutionID ev),
              ev_CreatedAt := stored (ev_CreatedAt ev1)\<rparr>"
            and x = "ev1\<lparr>ev_Seq := nextSeq s (ev_ExecutionID ev)\<rparr>"])
          (auto simp: execOf_def Let_def)
    qed
  qed
qed

lemma eventsOf_append:
  "events t = events s @ [row] \<Longrightarrow>
     eventsOf t i = (if ev_ExecutionID row = i then eventsOf s i @ [row] else eventsOf s i)"
  by (simp add: eventsOf_def)

lemma AppendRemediationEvent_wf:
  assumes "AppendRemediationEvent s ev = (t, r)" and "wf_store s" shows "wf_store t"
  using assms(1)
proof (cases rule: AppendRemediationEventE)
  case (fail fs x)
  with assms(2) show ?thesis by simp
next
  case (logged fs row x)
  have e: "eventsOf t i = (if ev_ExecutionID row = i then eventsOf s i @ [row] else eventsOf s i)" for i
    using logged(1) by (intro eventsOf_append) simp
  have "map ev_Seq (eventsOf t i) = [1..int (length (eventsOf t i))]" for i
  proof (cases "ev_ExecutionID row = i")
    case True
    have "map ev_Seq (eventsOf s i) = [1..int (length (eventsOf s i))]"
      using assms(2) by (simp add: wf_store_def)
    moreover have "ev_Seq row = int (length (eventsOf s i)) + 1"
      using True logged nextSeq_eq [OF assms(2)] by simp
    moreover have "[1..int (length (eventsOf s i)) + 1] =
        [1..int (length (eventsOf s i))] @ [int (length (eventsOf s i)) + 1]"
      using upto_rec2 [of 1 "int (length (eventsOf s i)) + 1"] by simp
    ultimately show ?thesis using True by (simp add: e add.commute)
  next
    case False
    with assms(2) show ?thesis by (simp add: e wf_store_def)
  qed
  moreover have "ev_ExecutionID row \<in> re_ID ` set (executions s)"
    using logged(2,7) findRow_None [of re_ID "ev_ExecutionID ev" "executions s"]
    by (auto simp: execOf_def)
  ultimately show ?thesis using assms(2) logged(1) by (simp add: wf_store_def)
qed

lemma AppendAuditE:
  assumes "AppendAudit s e = (t, r)"
  obtains (fail) fs where "t = s\<lparr>faults := fs\<rparr>" and "r = Inl ErrDB"
  | (logged) fs row x where "t = s\<lparr>faults := fs, audits := audits s @ [row]\<rparr>"
      and "ae_Type row = ae_Type e" and "ae_ProjectID row = ae_ProjectID e" and "ae_Data row = ae_Data e"
      and "r = Inr x"
proof -
  define e1 where "e1 = (if IsZero (ae_CreatedAt e) then e\<lparr>ae_CreatedAt := wallClock s\<rparr> else e)"
  have f: "ae_Type e1 = ae_Type e" "ae_ProjectID e1 = ae_ProjectID e" "ae_Data e1 = ae_Data e"
    by (simp_all add: e1_def)
  from assms have "dbCall s (\<lambda>s.
        let e' = e1\<lparr>ae_ID := int (length (audits s)) + 1\<rparr> in
        (s\<lparr>audits := audits s @ [e'\<lparr>ae_CreatedAt := stored (ae_CreatedAt e')\<rparr>]\<rparr>, Inr e')) = (t, r)"
    by (simp only: AppendAudit_def Let_def e1_def)
  then show thesis
  proof (cases rule: dbCallE)
    case (fault fs)
    then show thesis by (rule fail)
  next
    case (run fs)
    with f show thesis
      by (intro logged [where fs = fs and row = "e1\<lparr>ae_ID := int (length (audits s)) + 1,
            ae_CreatedAt := stored (ae_CreatedAt e1)\<rparr>"
            and x = "e1\<lparr>ae_ID := int (length (audits s)) + 1\<rparr>"])
        (auto simp: Let_def)
  qed
qed

lemma wf_audits [simp]: "wf_store (s\<lparr>audits := x\<rparr>) = wf_store s"
  by (simp add: wf_store_def eventsOf_def)

lemma AppendAudit_wf: "AppendAudit s e = (t, r) \<Longrightarrow> wf_store s \<Longrightarrow> wf_store t"
  by (erule AppendAuditE) simp_all

lemma GetRunbookE:
  assumes "GetRunbook s i = (t, r)"
  obtains fs where "t = s\<lparr>faults := fs\<rparr>"
    and "r = Inl ErrDB \<or> (findRow rr_ID i (runbooks s) = None \<and> r = Inl ErrNotFound) \<or>
         (\<exists>x. findRow rr_ID i (runbooks s) = Some x \<and> r = Inr x)"
  using assms unfolding GetRunbook_def
  by (cases rule: dbCallE) (auto split: option.splits)

lemma CreateRunbookE:
  assumes "CreateRunbook s rb = (t, r)"
  obtains (fail) fs x where "t = s\<lparr>faults := fs\<rparr>" and "r = Inl x"
  | (new) fs row where "t = s\<lparr>faults := fs, runbooks := runbooks s @ [row]\<rparr>" and "r = Inr ()"
      and "findRow rr_ID (rr_ID rb) (runbooks s) = None" and "rr_ID row = rr_ID rb"
      and "rr_ContentHash row = rr_ContentHash rb" and "rr_Content row = rr_Content rb"
proof -
  define e where "e = (if IsZero (rr_CreatedAt rb) then rb\<lparr>rr_CreatedAt := wallClock s\<rparr> else rb)"
  have f: "rr_ID e = rr_ID rb" "rr_ContentHash e = rr_ContentHash rb" "rr_Content e = rr_Content rb"
    by (simp_all add: e_def)
  from assms have "dbCall s (\<lambda>s.
        if findRow rr_ID (rr_ID e) (runbooks s) \<noteq> None then (s, Inl ErrConflict)
        else (s\<lparr>runbooks := runbooks s @ [e\<lparr>rr_CreatedAt := stored (rr_CreatedAt e)\<rparr>]\<rparr>, Inr ())) = (t, r)"
    by (simp only: CreateRunbook_def Let_def e_def)
  then show thesis
  proof (cases rule: dbCallE)
    case (fault fs)
    then show thesis by (rule fail)
  next
    case (run fs)
    show thesis
    proof (cases "findRow rr_ID (rr_ID rb) (runbooks s)")
      case None
      with run f show thesis
        by (intro new [where fs = fs and row = "e\<lparr>rr_CreatedAt := stored (rr_CreatedAt e)\<rparr>"]) auto
    next
      case (Some x)
      with run f show thesis by (intro fail [of fs ErrConflict]) auto
    qed
  qed
qed

lemma CreateRunbook_wf:
  assumes "CreateRunbook s rb = (t, r)" and "wf_store s" shows "wf_store t"
  using assms(1)
proof (cases rule: CreateRunbookE)
  case (new fs row)
  with assms(2) show ?thesis by (simp add: wf_store_def eventsOf_def findRow_None)
qed (use assms in simp)

section \<open>Confirmation tokens\<close>

definition tokenUsed :: "store \<Rightarrow> string \<Rightarrow> bool option" where
  "tokenUsed s k = map_option (\<lambda>t. ct_UsedAt t \<noteq> None) (findRow ct_Token k (tokens s))"

lemma token_hits:
  assumes "distinct (map ct_Token ts)"
  shows "length (filter (\<lambda>t. ct_Token t = k \<and> ct_UsedAt t = None) ts) = 1 \<longleftrightarrow>
     map_option (\<lambda>t. ct_UsedAt t \<noteq> None) (findRow ct_Token k ts) = Some False"
  using assms
proof (induction ts)
  case Nil
  then show ?case by simp
next
  case (Cons t ts)
  then have "ct_Token t = k \<Longrightarrow> filter (\<lambda>t. ct_Token t = k \<and> ct_UsedAt t = None) ts = []"
    by (auto simp: filter_empty_conv rev_image_eqI)
  with Cons show ?case by (cases "ct_Token t = k") auto
qed

text \<open>
  Marking a token used: on a fault nothing changes; otherwise the call reports whether it was this
  call that used the token, and only the token table changes.
\<close>

lemma MarkConfirmationTokenUsedE:
  assumes "MarkConfirmationTokenUsed s k ts = (t, r)" and "wf_store s"
  obtains (fail) fs where "t = s\<lparr>faults := fs\<rparr>" and "r = Inl ErrDB"
  | (ran) fs ts' where "t = s\<lparr>faults := fs, tokens := ts'\<rparr>" and "wf_store t"
      and "r = Inr (tokenUsed s k = Some False)"
      and "tokenUsed t = (if tokenUsed s k = Some False then (tokenUsed s)(k \<mapsto> True) else tokenUsed s)"
proof -
  let ?f = "\<lambda>t :: ConfirmationToken. if ct_Token t = k \<and> ct_UsedAt t = None then t\<lparr>ct_UsedAt := Some (stored ts)\<rparr> else t"
  have d: "distinct (map ct_Token (tokens s))" using assms(2) by (simp add: wf_store_def)
  have key: "ct_Token (?f x) = ct_Token x" for x by simp
  from assms(1) have "dbCall s (\<lambda>s. (s\<lparr>tokens := map ?f (tokens s)\<rparr>,
      Inr (length (filter (\<lambda>t. ct_Token t = k \<and> ct_UsedAt t = None) (tokens s)) = 1))) = (t, r)"
    by (simp add: MarkConfirmationTokenUsed_def Let_def)
  then show thesis
  proof (cases rule: dbCallE)
    case (fault fs)
    then show thesis by (rule fail)
  next
    case (run fs)
    then have t: "t = s\<lparr>faults := fs, tokens := map ?f (tokens s)\<rparr>"
      and r: "r = Inr (tokenUsed s k = Some False)"
      using token_hits [OF d, of k] by (auto simp: tokenUsed_def)
    have "ct_Token \<circ> ?f = ct_Token" by (simp add: fun_eq_iff)
    then have wf: "wf_store t" using assms(2) t by (simp add: wf_store_def eventsOf_def)
    have "tokenUsed t j = (if tokenUsed s k = Some False then (tokenUsed s)(k \<mapsto> True) else tokenUsed s) j" for j
      using findRow_map [of ct_Token ?f j "tokens s", OF key]
      by (cases "findRow ct_Token j (tokens s)") (auto simp: tokenUsed_def t dest: findRow_Some)
    then show thesis using ran [OF t wf r] by blast
  qed
qed

text \<open>The \<open>used_at\<close> column as a register: the only write is from unused to used.\<close>

definition tokenCas :: "time \<Rightarrow> store \<Rightarrow> string \<Rightarrow> bool \<Rightarrow> bool \<Rightarrow> store \<times> bool" where
  "tokenCas ts s k a b =
     (if \<not> a \<and> b then (let (t, r) = MarkConfirmationTokenUsed s k ts in (t, r = Inr True)) else (s, False))"

lemma tokenUsed_faults [simp]: "tokenUsed (s\<lparr>faults := fs\<rparr>) = tokenUsed s"
  by (simp add: tokenUsed_def fun_eq_iff)

interpretation token_reg: cas_register tokenUsed "tokenCas ts" wf_store for ts
proof
  fix s k a b t
  assume wf: "wf_store s" and c: "tokenCas ts s k a b = (t, True)"
  then have ab: "\<not> a" "b" and m: "MarkConfirmationTokenUsed s k ts = (t, Inr True)"
    by (auto simp: tokenCas_def split: if_splits prod.splits)
  from m wf show "tokenUsed s k = Some a \<and> tokenUsed t = (tokenUsed s)(k \<mapsto> b)"
    by (cases rule: MarkConfirmationTokenUsedE) (use ab in auto)
next
  fix s k a b t
  assume wf: "wf_store s" and c: "tokenCas ts s k a b = (t, False)"
  show "tokenUsed t = tokenUsed s"
  proof (cases "\<not> a \<and> b")
    case True
    with c obtain r where m: "MarkConfirmationTokenUsed s k ts = (t, r)" "r \<noteq> Inr True"
      by (auto simp: tokenCas_def split: prod.splits)
    from m(1) wf show ?thesis by (cases rule: MarkConfirmationTokenUsedE) (use m(2) in auto)
  qed (use c in \<open>auto simp: tokenCas_def\<close>)
next
  fix s k a b
  assume wf: "wf_store s"
  show "wf_store (fst (tokenCas ts s k a b))"
  proof (cases "MarkConfirmationTokenUsed s k ts")
    case (Pair t r)
    then have "wf_store t" using wf by (cases rule: MarkConfirmationTokenUsedE) (use wf in auto)
    with Pair wf show ?thesis by (simp add: tokenCas_def)
  qed
qed

end
