(* ===== verification/Review_Tokens.thy ===== *)
theory Review_Tokens
  imports State_Store
begin

text \<open>
  Confirmation tokens (\<^verbatim>\<open>internal/review/review.go\<close>) and the approval validator that binds them to a
  remediation (\<^verbatim>\<open>internal/server/remediation.go\<close>). \<open>sha\<close> is the hexadecimal SHA-256 of a byte string;
  \<open>now\<close> is the clock's answer during the call; the random token string is an argument of \<open>Mint\<close>.
\<close>

datatype review_err = ErrTokenInvalid | ErrTokenExpired | ErrTokenUsed | ErrTokenMismatch
  | ReviewStore store_err

definition NUL :: char where "NUL = CHR 0x00"

definition actionPreimage :: "string \<Rightarrow> string \<Rightarrow> string list \<Rightarrow> string \<Rightarrow> string" where
  "actionPreimage action scope files comment =
     action @ [NUL] @ scope @ [NUL] @ concat (map (\<lambda>f. f @ [NUL]) (sort files)) @ comment"

definition ActionHash ::
    "(string \<Rightarrow> string) \<Rightarrow> string \<Rightarrow> string \<Rightarrow> string list \<Rightarrow> string \<Rightarrow> string" where
  "ActionHash sha action scope files comment = sha (actionPreimage action scope files comment)"

definition TokenTTL :: duration where "TokenTTL = 300 * second"

definition MintConfirmationToken ::
    "(string \<Rightarrow> string) \<Rightarrow> time \<Rightarrow> string \<Rightarrow> store \<Rightarrow> string \<Rightarrow> string \<Rightarrow> string list \<Rightarrow> string \<Rightarrow>
     store \<times> (store_err + ConfirmationToken)" where
  "MintConfirmationToken sha now rand s action scope files comment =
     (let tok = \<lparr>ct_Token = rand, ct_ActionHash = ActionHash sha action scope files comment,
                 ct_ProjectID = scope, ct_CreatedAt = now, ct_ExpiresAt = now + TokenTTL,
                 ct_UsedAt = None\<rparr>
      in andThen (CreateConfirmationToken s tok) (\<lambda>s _. (s, Inr tok)))"

definition ConsumeToken ::
    "(string \<Rightarrow> string) \<Rightarrow> time \<Rightarrow> store \<Rightarrow> string \<Rightarrow> string \<Rightarrow> string \<Rightarrow> string list \<Rightarrow> string \<Rightarrow>
     store \<times> (review_err + unit)" where
  "ConsumeToken sha now s token action scope files comment =
     (if token = '''' then (s, Inl ErrTokenInvalid)
      else case GetConfirmationToken s token of
          (s, Inl e) \<Rightarrow> (s, Inl (if e = ErrNotFound then ErrTokenInvalid else ReviewStore e))
        | (s, Inr row) \<Rightarrow>
            if ct_UsedAt row \<noteq> None then (s, Inl ErrTokenUsed)
            else if \<not> now < ct_ExpiresAt row then (s, Inl ErrTokenExpired)
            else if ct_ActionHash row \<noteq> ActionHash sha action scope files comment
            then (s, Inl ErrTokenMismatch)
            else case MarkConfirmationTokenUsed s token now of
                (s, Inl e) \<Rightarrow> (s, Inl (ReviewStore e))
              | (s, Inr used) \<Rightarrow> if \<not> used then (s, Inl ErrTokenUsed) else (s, Inr ()))"

definition LogAudit :: "time \<Rightarrow> store \<Rightarrow> AuditEntry \<Rightarrow> store \<times> (store_err + AuditEntry)" where
  "LogAudit now s e = AppendAudit s (if IsZero (ae_CreatedAt e) then e\<lparr>ae_CreatedAt := now\<rparr> else e)"

section \<open>The approval validator (server/remediation.go)\<close>

definition remediationExecuteAction :: string where
  "remediationExecuteAction = ''incident.runbook.execute''"

definition remediationRollbackAction :: string where
  "remediationRollbackAction = ''incident.runbook.rollback''"

definition remediationTokenBinding :: "string \<Rightarrow> string \<Rightarrow> string \<Rightarrow> string \<times> string \<times> string list" where
  "remediationTokenBinding kind incidentID contentHash =
     ((if kind = RemediationKindRollback then remediationRollbackAction else remediationExecuteAction),
      ''watchtower:'' @ incidentID, [contentHash])"

datatype approval_err = ApStore store_err | ApReview review_err

definition Validate ::
    "(string \<Rightarrow> string) \<Rightarrow> time \<Rightarrow> store \<Rightarrow> string \<Rightarrow> string \<Rightarrow> string \<Rightarrow>
     store \<times> (approval_err + string)" where
  "Validate sha now s token executionID contentHash =
     (case GetExecution s executionID of
        (s, Inl e) \<Rightarrow> (s, Inl (ApStore e))
      | (s, Inr exec) \<Rightarrow>
          (case remediationTokenBinding (re_Kind exec) (re_IncidentID exec) contentHash of
             (action, project, files) \<Rightarrow>
               (case ConsumeToken sha now s token action project files '''' of
                  (s, Inl e) \<Rightarrow> (s, Inl (ApReview e))
                | (s, Inr _) \<Rightarrow> (s, Inr (sha token)))))"

section \<open>Consuming a token\<close>

definition tokenOf :: "store \<Rightarrow> string \<Rightarrow> ConfirmationToken option" where
  "tokenOf s k = findRow ct_Token k (tokens s)"

lemma tokenOf_faults [simp]: "tokenOf (s\<lparr>faults := fs\<rparr>) = tokenOf s"
  by (simp add: tokenOf_def fun_eq_iff)

lemma tokenUsed_tokenOf: "tokenUsed s k = map_option (\<lambda>t. ct_UsedAt t \<noteq> None) (tokenOf s k)"
  by (simp add: tokenUsed_def tokenOf_def)

lemma GetConfirmationTokenE:
  assumes "GetConfirmationToken s k = (t, r)"
  obtains fs where "t = s\<lparr>faults := fs\<rparr>"
    and "r = Inl ErrDB \<or> (tokenOf s k = None \<and> r = Inl ErrNotFound) \<or> (\<exists>x. tokenOf s k = Some x \<and> r = Inr x)"
  using assms unfolding GetConfirmationToken_def
  by (cases rule: dbCallE) (auto simp: tokenOf_def split: option.splits)

text \<open>The tables other than the tokens are not touched.\<close>

definition same_ledger :: "store \<Rightarrow> store \<Rightarrow> bool" where
  "same_ledger s t \<longleftrightarrow> executions t = executions s \<and> runbooks t = runbooks s \<and>
     events t = events s \<and> audits t = audits s \<and> wallClock t = wallClock s"

lemma same_ledger_refl [simp]: "same_ledger s s" "same_ledger s (s\<lparr>faults := fs\<rparr>)"
  "same_ledger s (s\<lparr>faults := fs, tokens := x\<rparr>)"
  by (simp_all add: same_ledger_def)

lemma ConsumeTokenE:
  assumes "ConsumeToken sha now s k action scope files comment = (t, r)" and "wf_store s"
  obtains (refused) e where "r = Inl e" and "same_ledger s t" and "wf_store t" and "tokenUsed t = tokenUsed s"
  | (consumed) x where "r = Inr ()" and "same_ledger s t" and "wf_store t"
      and "k \<noteq> ''''" and "tokenOf s k = Some x" and "ct_UsedAt x = None" and "now < ct_ExpiresAt x"
      and "ct_ActionHash x = ActionHash sha action scope files comment"
      and "tokenUsed t = (tokenUsed s)(k \<mapsto> True)"
proof (cases "k = ''''")
  case True
  with assms show thesis by (intro refused) (auto simp: ConsumeToken_def)
next
  case k: False
  obtain u v where g: "GetConfirmationToken s k = (u, v)" by (cases "GetConfirmationToken s k")
  then obtain fs where u: "u = s\<lparr>faults := fs\<rparr>"
    and v: "v = Inl ErrDB \<or> (tokenOf s k = None \<and> v = Inl ErrNotFound) \<or> (\<exists>x. tokenOf s k = Some x \<and> v = Inr x)"
    by (rule GetConfirmationTokenE)
  have wfu: "wf_store u" using assms(2) u by simp
  show thesis
  proof (cases v)
    case (Inl e)
    with assms k g u show thesis by (intro refused) (auto simp: ConsumeToken_def)
  next
    case (Inr x)
    with v have x: "tokenOf s k = Some x" by auto
    show thesis
    proof (cases "ct_UsedAt x = None \<and> now < ct_ExpiresAt x \<and>
        ct_ActionHash x = ActionHash sha action scope files comment")
      case False
      with assms k g u Inr have "t = s\<lparr>faults := fs\<rparr>" and "\<exists>e. r = Inl e"
        by (auto simp: ConsumeToken_def split: if_splits)
      with assms(2) show thesis using refused by auto
    next
      case ok: True
      obtain a b where m: "MarkConfirmationTokenUsed u k now = (a, b)"
        by (cases "MarkConfirmationTokenUsed u k now")
      have un: "tokenUsed s k = Some False" using x ok by (simp add: tokenUsed_tokenOf)
      have res: "(t, r) = (case b of Inl e \<Rightarrow> (a, Inl (ReviewStore e))
          | Inr used \<Rightarrow> if \<not> used then (a, Inl ErrTokenUsed) else (a, Inr ()))"
        using assms(1) k g Inr ok m by (auto simp: ConsumeToken_def split: sum.splits if_splits)
      from m wfu show thesis
      proof (cases rule: MarkConfirmationTokenUsedE)
        case (fail fs')
        with res u assms(2) show thesis by (intro refused) auto
      next
        case (ran fs' ts')
        with res u un x ok k show thesis by (intro consumed) auto
      qed
    qed
  qed
qed

text \<open>A used token is refused for ever: the flag is monotone.\<close>

lemma ConsumeToken_used:
  assumes "tokenUsed s k = Some True" and "wf_store s"
  shows "\<exists>e. snd (ConsumeToken sha now s k action scope files comment) = Inl e"
proof (cases "ConsumeToken sha now s k action scope files comment")
  case (Pair t r)
  then show ?thesis using assms(2)
    by (cases rule: ConsumeTokenE) (use assms(1) in \<open>auto simp: Pair tokenUsed_tokenOf\<close>)
qed

text \<open>A request: clock, token, action, scope, files, comment.\<close>

type_synonym consume_req = "time \<times> string \<times> string \<times> string \<times> string list \<times> string"

fun consumeAll :: "(string \<Rightarrow> string) \<Rightarrow> store \<Rightarrow> consume_req list \<Rightarrow> (string \<times> bool) list" where
  "consumeAll sha s [] = []"
| "consumeAll sha s ((now, k, a, sc, fl, c) # qs) =
     (let (t, r) = ConsumeToken sha now s k a sc fl c in (k, \<not> isl r) # consumeAll sha t qs)"

definition accepted :: "string \<Rightarrow> (string \<times> bool) list \<Rightarrow> nat" where
  "accepted k rs = length (filter (\<lambda>r. r = (k, True)) rs)"

lemma accepted_used: "tokenUsed s k = Some True \<Longrightarrow> wf_store s \<Longrightarrow> accepted k (consumeAll sha s qs) = 0"
proof (induction qs arbitrary: s)
  case Nil
  then show ?case by (simp add: accepted_def)
next
  case (Cons q qs)
  obtain now k' a sc fl c where q: "q = (now, k', a, sc, fl, c)" by (cases q) auto
  obtain t r where c: "ConsumeToken sha now s k' a sc fl c = (t, r)"
    by (cases "ConsumeToken sha now s k' a sc fl c")
  have t: "wf_store t \<and> tokenUsed t k = Some True"
    using c Cons.prems(2) by (cases rule: ConsumeTokenE) (use Cons.prems in auto)
  have "k' = k \<Longrightarrow> isl r" using ConsumeToken_used [OF Cons.prems, of sha now a sc fl c] c by auto
  with Cons.IH t show ?case by (auto simp: q c accepted_def)
qed

lemma accepted_le_1: "wf_store s \<Longrightarrow> accepted k (consumeAll sha s qs) \<le> 1"
proof (induction qs arbitrary: s)
  case Nil
  then show ?case by (simp add: accepted_def)
next
  case (Cons q qs)
  obtain now k' a sc fl c where q: "q = (now, k', a, sc, fl, c)" by (cases q) auto
  obtain t r where c: "ConsumeToken sha now s k' a sc fl c = (t, r)"
    by (cases "ConsumeToken sha now s k' a sc fl c")
  from c Cons.prems show ?case
  proof (cases rule: ConsumeTokenE)
    case (refused e)
    with Cons.IH [of t] show ?thesis by (simp add: q c accepted_def)
  next
    case (consumed x)
    show ?thesis
    proof (cases "k' = k")
      case True
      with consumed have "accepted k (consumeAll sha t qs) = 0" by (intro accepted_used) simp_all
      then show ?thesis by (simp add: q c accepted_def)
    next
      case False
      with Cons.IH [of t] consumed(3) show ?thesis by (simp add: q c accepted_def)
    qed
  qed
qed

section \<open>What a token is bound to\<close>

definition nul_free :: "string \<Rightarrow> bool" where "nul_free s \<longleftrightarrow> NUL \<notin> set s"

lemma split_at_NUL:
  assumes "nul_free a" "nul_free b" "a @ NUL # x = b @ NUL # y"
  shows "a = b \<and> x = y"
proof -
  have "takeWhile (\<lambda>c. c \<noteq> NUL) (a @ NUL # x) = a" "takeWhile (\<lambda>c. c \<noteq> NUL) (b @ NUL # y) = b"
    using assms(1,2) by (simp_all add: nul_free_def takeWhile_append)
  with assms(3) show ?thesis by simp
qed

lemma actionPreimage_inj:
  assumes "nul_free a" "nul_free b" "nul_free sa" "nul_free sb" "nul_free f" "nul_free g"
    and "actionPreimage a sa [f] '''' = actionPreimage b sb [g] ''''"
  shows "a = b \<and> sa = sb \<and> f = g"
proof -
  from assms(7) have "a @ NUL # (sa @ NUL # (f @ NUL # [])) = b @ NUL # (sb @ NUL # (g @ NUL # []))"
    by (simp add: actionPreimage_def)
  with split_at_NUL [OF assms(1,2)] have "a = b" and r: "sa @ NUL # (f @ NUL # []) = sb @ NUL # (g @ NUL # [])"
    by blast+
  moreover from r split_at_NUL [OF assms(3,4)] have "sa = sb" and "f @ NUL # [] = g @ NUL # []" by blast+
  moreover from this(2) split_at_NUL [OF assms(5,6)] have "f = g" by blast
  ultimately show ?thesis by simp
qed

end
