(* ===== verification/Remediation.thy ===== *)
theory Remediation
  imports Runbook_Model Review_Tokens
begin

text \<open>
  The remediation manager (\<^verbatim>\<open>internal/remediation/remediation.go\<close>): propose, approve, decline,
  execute, recover and derive a rollback, over the durable store.

  The injected interfaces are the fields of \<open>deps\<close>: the content hash, the approval validator (which
  works on the store), the step executor and the internal verifier (which work on the host, an
  arbitrary state \<open>'w\<close>) and the projector with the live fan-out, whose errors the code drops. The
  clock is read once per operation (\<open>now\<close>). Two fields of the manager record what happened and are
  never read by the operations: \<open>m_ran\<close>, the calls of \<open>ExecuteStep\<close> with whether the step succeeded,
  and \<open>m_approvals\<close>, the approvals the validator granted (execution, content hash, token id).
\<close>

section \<open>Types\<close>

record StepResult =
  sr_Output :: string
  sr_ExitCode :: int

record StepVerification =
  sv_Index :: nat
  sv_Kind :: string
  sv_Passed :: bool
  sv_Detail :: string

record VerificationResult =
  vr_Passed :: bool
  vr_Detail :: string
  vr_Steps :: "StepVerification list"

datatype rem_err =
    RStore store_err
  | RApproval approval_err
  | ErrHashMismatch
  | ErrBlockedL3
  | ErrInvalidState string
  | ErrNoRollbackPlan
  | ErrRollbackUnsupported
  | ErrDecode

record 'w deps =
  d_sha :: "json \<Rightarrow> string"
  d_validate :: "time \<Rightarrow> store \<Rightarrow> string \<Rightarrow> string \<Rightarrow> string \<Rightarrow> store \<times> (approval_err + string)"
  d_exec :: "'w \<Rightarrow> Step \<Rightarrow> 'w \<times> StepResult \<times> string option"
  d_verify :: "'w \<Rightarrow> Runbook \<Rightarrow> 'w \<times> VerificationResult \<times> string option"
  d_project :: "'w \<Rightarrow> RemediationEvent \<Rightarrow> 'w"

record 'w mgr =
  m_store :: store
  m_world :: 'w
  m_ran :: "(string \<times> Step \<times> bool) list"
  m_approvals :: "(string \<times> string \<times> string) list"

text \<open>A store operation run by the manager.\<close>

definition onStore :: "'w mgr \<Rightarrow> (store \<Rightarrow> store \<times> (store_err + 'a)) \<Rightarrow> 'w mgr \<times> (rem_err + 'a)" where
  "onStore m f = (case f (m_store m) of
      (s, Inl e) \<Rightarrow> (m\<lparr>m_store := s\<rparr>, Inl (RStore e))
    | (s, Inr x) \<Rightarrow> (m\<lparr>m_store := s\<rparr>, Inr x))"

section \<open>Audit and events\<close>

definition appendAudit ::
    "time \<Rightarrow> 'w mgr \<Rightarrow> RemediationExecution \<Rightarrow> string \<Rightarrow> json \<Rightarrow> 'w mgr \<times> (rem_err + unit)" where
  "appendAudit now m exec typ data =
     andThen (onStore m (\<lambda>s. AppendAudit s
        \<lparr>ae_ID = 0, ae_Type = typ, ae_ProjectID = re_ID exec, ae_SessionID = re_IncidentID exec,
         ae_Actor = ''remediation'', ae_Summary = typ, ae_Data = data, ae_CreatedAt = now\<rparr>))
       (\<lambda>m _. (m, Inr ()))"

definition appendEvent ::
    "'w deps \<Rightarrow> time \<Rightarrow> 'w mgr \<Rightarrow> string \<Rightarrow> string \<Rightarrow> json \<Rightarrow> 'w mgr \<times> (rem_err + RemediationEvent)" where
  "appendEvent d now m executionID typ data =
     andThen (onStore m (\<lambda>s. AppendRemediationEvent s
        \<lparr>ev_ExecutionID = executionID, ev_Seq = 0, ev_Type = typ, ev_Data = data, ev_CreatedAt = now\<rparr>))
       (\<lambda>m ev. (m\<lparr>m_world := d_project d (m_world m) ev\<rparr>, Inr ev))"

definition maxStepOutputBytes :: int where "maxStepOutputBytes = 32 * 1024"

definition boundOutput :: "string \<Rightarrow> string" where
  "boundOutput s = (if int (length s) \<le> maxStepOutputBytes then s
     else take (nat maxStepOutputBytes) s @ ''...[truncated]'')"

abbreviation JInt :: "int \<Rightarrow> json" where "JInt n \<equiv> JNum (of_int n)"

section \<open>Propose\<close>

definition proposedData :: "Runbook \<Rightarrow> string \<Rightarrow> json" where
  "proposedData rb hash = JObj
     [(''blocked'', JBool (rb_Blocked rb)), (''content_hash'', JStr hash),
      (''diagnosis_id'', JStr (rb_DiagnosisID rb)),
      (''provider_version'', JStr (rb_ProviderVersion rb)), (''risk'', JStr (rb_Risk rb)),
      (''schema_version'', JInt (rb_SchemaVersion rb)), (''steps'', JInt (int (length (rb_Steps rb))))]"

text \<open>Persist the runbook unless a runbook with this id is already there.\<close>

definition ensureRunbook ::
    "time \<Rightarrow> 'w mgr \<Rightarrow> Runbook \<Rightarrow> string \<Rightarrow> string \<Rightarrow> 'w mgr \<times> (rem_err + unit)" where
  "ensureRunbook now m rb incidentID hash =
     (case onStore m (\<lambda>s. GetRunbook s (rb_ID rb)) of
        (m, Inr _) \<Rightarrow> (m, Inr ())
      | (m, Inl e) \<Rightarrow>
          if e = RStore ErrNotFound then
            onStore m (\<lambda>s. CreateRunbook s \<lparr>rr_ID = rb_ID rb, rr_IncidentID = incidentID,
              rr_ContentHash = hash, rr_Content = runbookJson rb, rr_CreatedAt = now\<rparr>)
          else (m, Inl e))"

text \<open>A newly created execution is announced: an audit row and an event, twice when it is blocked.\<close>

definition announceProposed ::
    "'w deps \<Rightarrow> time \<Rightarrow> 'w mgr \<Rightarrow> RemediationExecution \<Rightarrow> Runbook \<Rightarrow> string \<Rightarrow>
     'w mgr \<times> (rem_err + RemediationExecution)" where
  "announceProposed d now m exec rb hash =
     (let proposed = proposedData rb hash in
      andThen (appendAudit now m exec ''remediation.proposed'' proposed) (\<lambda>m _.
      andThen (appendEvent d now m (re_ID exec) ''runbook_proposed'' proposed) (\<lambda>m _.
      if \<not> rb_Blocked rb then (m, Inr exec)
      else
        let blocked = JObj [(''reason'', JStr (rb_BlockedReason rb)), (''risk'', JStr (rb_Risk rb))] in
        andThen (appendAudit now m exec ''remediation.blocked_l3'' blocked) (\<lambda>m _.
        andThen (appendEvent d now m (re_ID exec) ''runbook_blocked'' blocked) (\<lambda>m _.
        (m, Inr exec))))))"

definition propose ::
    "'w deps \<Rightarrow> time \<Rightarrow> 'w mgr \<Rightarrow> string \<Rightarrow> string \<Rightarrow> Runbook \<Rightarrow> string \<Rightarrow> string \<Rightarrow>
     'w mgr \<times> (rem_err + RemediationExecution)" where
  "propose d now m executionID incidentID rb0 kind parentExecutionID =
     (let hash = ContentHash (d_sha d) rb0; rb = rb0\<lparr>rb_ContentHash := hash\<rparr> in
      andThen (ensureRunbook now m rb incidentID hash) (\<lambda>m _.
      let status = (if rb_Blocked rb then RemediationBlockedL3 else RemediationProposed) in
      andThen (onStore m (\<lambda>s. CreateExecution s
         \<lparr>re_ID = executionID, re_IncidentID = incidentID, re_RunbookID = rb_ID rb,
          re_RunbookHash = hash, re_Status = status, re_Kind = kind,
          re_ParentExecutionID = parentExecutionID, re_CreatedAt = now, re_UpdatedAt = now\<rparr>))
        (\<lambda>m (exec, created).
         if \<not> created then (m, Inr exec) else announceProposed d now m exec rb hash)))"

definition Propose ::
    "'w deps \<Rightarrow> time \<Rightarrow> 'w mgr \<Rightarrow> string \<Rightarrow> string \<Rightarrow> Runbook \<Rightarrow>
     'w mgr \<times> (rem_err + RemediationExecution)" where
  "Propose d now m executionID incidentID rb =
     propose d now m executionID incidentID rb RemediationKindExecute ''''"

section \<open>Hash check, approve, decline\<close>

definition decodeRunbook :: "json \<Rightarrow> rem_err + Runbook" where
  "decodeRunbook j = (case jsonRunbook j of None \<Rightarrow> Inl ErrDecode | Some rb \<Rightarrow> Inr rb)"

definition validateHash ::
    "'w deps \<Rightarrow> 'w mgr \<Rightarrow> RemediationExecution \<Rightarrow> string \<Rightarrow> 'w mgr \<times> (rem_err + unit)" where
  "validateHash d m exec requestedHash =
     andThen (onStore m (\<lambda>s. GetRunbook s (re_RunbookID exec))) (\<lambda>m rbRow.
     andThen (m, decodeRunbook (rr_Content rbRow)) (\<lambda>m decoded.
     let recomputed = ContentHash (d_sha d) decoded in
     if requestedHash = '''' \<or> requestedHash \<noteq> re_RunbookHash exec \<or>
        requestedHash \<noteq> rr_ContentHash rbRow \<or> requestedHash \<noteq> recomputed
     then (m, Inl ErrHashMismatch) else (m, Inr ())))"

text \<open>After the hash check: consult the validator, then move from proposed to approved.\<close>

definition grantApproval ::
    "'w deps \<Rightarrow> time \<Rightarrow> 'w mgr \<Rightarrow> RemediationExecution \<Rightarrow> string \<Rightarrow> string \<Rightarrow> string \<Rightarrow>
     'w mgr \<times> (rem_err + RemediationExecution)" where
  "grantApproval d now m exec executionID requestedHash token =
     (case d_validate d now (m_store m) token executionID requestedHash of
        (s, Inl e) \<Rightarrow> (m\<lparr>m_store := s\<rparr>, Inl (RApproval e))
      | (s, Inr tokenID) \<Rightarrow>
          let m = m\<lparr>m_store := s, m_approvals := m_approvals m @ [(executionID, requestedHash, tokenID)]\<rparr> in
          andThen (onStore m (\<lambda>s. TransitionExecution s executionID RemediationProposed RemediationApproved now))
            (\<lambda>m _.
          let exec = exec\<lparr>re_Status := RemediationApproved, re_UpdatedAt := now\<rparr>;
              approved = JObj [(''token_id'', JStr tokenID)] in
          andThen (appendAudit now m exec ''remediation.approved'' approved) (\<lambda>m _.
          andThen (appendEvent d now m executionID ''runbook_approved'' approved) (\<lambda>m _.
          (m, Inr exec)))))"

definition Approve ::
    "'w deps \<Rightarrow> time \<Rightarrow> 'w mgr \<Rightarrow> string \<Rightarrow> string \<Rightarrow> string \<Rightarrow>
     'w mgr \<times> (rem_err + RemediationExecution)" where
  "Approve d now m executionID requestedHash token =
     andThen (onStore m (\<lambda>s. GetExecution s executionID)) (\<lambda>m exec.
     if re_Status exec = RemediationBlockedL3 then (m, Inl ErrBlockedL3)
     else if re_Status exec \<noteq> RemediationProposed then (m, Inl (ErrInvalidState (re_Status exec)))
     else
       andThen (validateHash d m exec requestedHash) (\<lambda>m _.
       grantApproval d now m exec executionID requestedHash token))"

definition Decline ::
    "'w deps \<Rightarrow> time \<Rightarrow> 'w mgr \<Rightarrow> string \<Rightarrow> string \<Rightarrow> 'w mgr \<times> (rem_err + RemediationExecution)" where
  "Decline d now m executionID reason =
     andThen (onStore m (\<lambda>s. GetExecution s executionID)) (\<lambda>m exec.
     if re_Status exec \<noteq> RemediationProposed then (m, Inl (ErrInvalidState (re_Status exec)))
     else
       andThen (onStore m (\<lambda>s. TransitionExecution s executionID RemediationProposed RemediationDeclined now))
         (\<lambda>m _.
       let exec = exec\<lparr>re_Status := RemediationDeclined, re_UpdatedAt := now\<rparr>;
           declined = JObj [(''reason'', JStr reason)] in
       andThen (appendAudit now m exec ''remediation.declined'' declined) (\<lambda>m _.
       andThen (appendEvent d now m executionID ''runbook_declined'' declined) (\<lambda>m _.
       (m, Inr exec)))))"

section \<open>Execute\<close>

definition stepResultJson :: "nat \<Rightarrow> Step \<Rightarrow> StepResult \<Rightarrow> string option \<Rightarrow> json" where
  "stepResultJson i step res execErr = JObj
     ((case execErr of None \<Rightarrow> [] | Some e \<Rightarrow> [(''error'', JStr e)]) @
      [(''exit_code'', JInt (sr_ExitCode res)), (''index'', JInt (int i)),
       (''kind'', JStr (rs_Kind step)), (''output'', JStr (boundOutput (sr_Output res)))])"

definition stepOk :: "StepResult \<Rightarrow> string option \<Rightarrow> bool" where
  "stepOk res execErr \<longleftrightarrow> \<not> (execErr \<noteq> None \<or> sr_ExitCode res \<noteq> 0)"

text \<open>
  The step loop from step \<open>i\<close> on. \<open>Some exec\<close>: a step failed and the execution was closed;
  \<open>None\<close>: every step exited zero.
\<close>

fun runSteps ::
    "'w deps \<Rightarrow> time \<Rightarrow> RemediationExecution \<Rightarrow> nat \<Rightarrow> Step list \<Rightarrow> 'w mgr \<Rightarrow>
     'w mgr \<times> (rem_err + RemediationExecution option)" where
  "runSteps d now exec i [] m = (m, Inr None)"
| "runSteps d now exec i (step # rest) m =
     (case d_exec d (m_world m) step of (w, res, execErr) \<Rightarrow>
      let m = m\<lparr>m_world := w, m_ran := m_ran m @ [(re_ID exec, step, stepOk res execErr)]\<rparr>;
          data = stepResultJson i step res execErr in
      andThen (appendEvent d now m (re_ID exec) ''step_result'' data) (\<lambda>m _.
      andThen (appendAudit now m exec ''remediation.step.result'' data) (\<lambda>m _.
      if \<not> stepOk res execErr then
        andThen (onStore m (\<lambda>s. TransitionExecution s (re_ID exec) RemediationExecuting
                                   RemediationRemediationFailed now)) (\<lambda>m _.
        let exec = exec\<lparr>re_Status := RemediationRemediationFailed, re_UpdatedAt := now\<rparr>;
            failed = JObj [(''failed_step'', JInt (int i))] in
        andThen (appendAudit now m exec ''remediation.failed'' failed) (\<lambda>m _.
        andThen (appendEvent d now m (re_ID exec) ''remediation_failed'' failed) (\<lambda>m _.
        (m, Inr (Some exec)))))
      else runSteps d now exec (Suc i) rest m)))"

definition stepVerificationJson :: "StepVerification \<Rightarrow> json" where
  "stepVerificationJson sv = JObj
     [(''detail'', JStr (sv_Detail sv)), (''index'', JInt (int (sv_Index sv))),
      (''kind'', JStr (sv_Kind sv)), (''passed'', JBool (sv_Passed sv))]"

fun appendVerifications ::
    "'w deps \<Rightarrow> time \<Rightarrow> string \<Rightarrow> StepVerification list \<Rightarrow> 'w mgr \<Rightarrow> 'w mgr \<times> (rem_err + unit)" where
  "appendVerifications d now executionID [] m = (m, Inr ())"
| "appendVerifications d now executionID (sv # svs) m =
     andThen (appendEvent d now m executionID ''step_verification'' (stepVerificationJson sv))
       (\<lambda>m _. appendVerifications d now executionID svs m)"

text \<open>After every step exited zero: move to verifying, run the verifier once, record its result.\<close>

definition finishExecute ::
    "'w deps \<Rightarrow> time \<Rightarrow> 'w mgr \<Rightarrow> RemediationExecution \<Rightarrow> Runbook \<Rightarrow>
     'w mgr \<times> (rem_err + RemediationExecution)" where
  "finishExecute d now m exec0 rb =
     andThen (onStore m (\<lambda>s. TransitionExecution s (re_ID exec0) RemediationExecuting RemediationVerifying now))
       (\<lambda>m _.
     let exec = exec0\<lparr>re_Status := RemediationVerifying, re_UpdatedAt := now\<rparr>;
         verifying = JObj [(''monitor_ids'', listOrNull JStr (rb_ExternalMonitorIDs rb))] in
     andThen (appendAudit now m exec ''remediation.verifying'' JNull) (\<lambda>m _.
     andThen (appendEvent d now m (re_ID exec0) ''verification_started'' verifying) (\<lambda>m _.
     case d_verify d (m_world m) rb of (w, result, verr) \<Rightarrow>
     let m = m\<lparr>m_world := w\<rparr>;
         verifyData = JObj ([(''detail'', JStr (vr_Detail result))] @
           (case verr of None \<Rightarrow> [] | Some e \<Rightarrow> [(''error'', JStr e)]) @
           [(''passed'', JBool (vr_Passed result))]) in
     andThen (appendVerifications d now (re_ID exec0) (vr_Steps result) m) (\<lambda>m _.
     andThen (appendEvent d now m (re_ID exec0) ''internal_verification'' verifyData) (\<lambda>m _.
     (m, Inr exec))))))"

text \<open>After the transition to executing was won.\<close>

definition runApproved ::
    "'w deps \<Rightarrow> time \<Rightarrow> 'w mgr \<Rightarrow> RemediationExecution \<Rightarrow> Runbook \<Rightarrow>
     'w mgr \<times> (rem_err + RemediationExecution)" where
  "runApproved d now m exec rb =
     (let started = JObj [(''steps'', JInt (int (length (rb_Steps rb))))] in
      andThen (appendAudit now m exec ''remediation.execute.started'' started) (\<lambda>m _.
      andThen (appendEvent d now m (re_ID exec) ''execution_started'' started) (\<lambda>m _.
      andThen (runSteps d now exec 0 (rb_Steps rb) m) (\<lambda>m closed.
      case closed of Some exec \<Rightarrow> (m, Inr exec) | None \<Rightarrow> finishExecute d now m exec rb))))"

text \<open>An approved execution: load the runbook, then win or lose the transition to executing.\<close>

definition startApproved ::
    "'w deps \<Rightarrow> time \<Rightarrow> 'w mgr \<Rightarrow> RemediationExecution \<Rightarrow> 'w mgr \<times> (rem_err + RemediationExecution)" where
  "startApproved d now m exec =
     andThen (onStore m (\<lambda>s. GetRunbook s (re_RunbookID exec))) (\<lambda>m rbRow.
     andThen (m, decodeRunbook (rr_Content rbRow)) (\<lambda>m rb.
     case onStore m (\<lambda>s. TransitionExecution s (re_ID exec) RemediationApproved RemediationExecuting now) of
       (m, Inl e) \<Rightarrow>
         if e \<noteq> RStore ErrConflict then (m, Inl e)
         else onStore m (\<lambda>s. GetExecution s (re_ID exec))
     | (m, Inr _) \<Rightarrow>
         runApproved d now m (exec\<lparr>re_Status := RemediationExecuting, re_UpdatedAt := now\<rparr>) rb))"

definition Execute ::
    "'w deps \<Rightarrow> time \<Rightarrow> 'w mgr \<Rightarrow> string \<Rightarrow> string \<Rightarrow> 'w mgr \<times> (rem_err + RemediationExecution)" where
  "Execute d now m executionID requestedHash =
     andThen (onStore m (\<lambda>s. GetExecution s executionID)) (\<lambda>m exec.
     andThen (validateHash d m exec requestedHash) (\<lambda>m _.
     if re_Status exec \<in> {RemediationExecuting, RemediationVerifying, RemediationResolved,
                            RemediationRemediationFailed} then (m, Inr exec)
     else if re_Status exec \<noteq> RemediationApproved then (m, Inl (ErrInvalidState (re_Status exec)))
     else startApproved d now m exec))"

section \<open>Recovery after a restart\<close>

text \<open>The loop over the in-flight executions; an error ends it, with what was recovered so far.\<close>

definition recoverOne ::
    "'w deps \<Rightarrow> time \<Rightarrow> RemediationExecution \<Rightarrow> 'w mgr \<Rightarrow> 'w mgr \<times> (rem_err + RemediationExecution)" where
  "recoverOne d now exec m =
     andThen (onStore m (\<lambda>s. TransitionExecution s (re_ID exec) (re_Status exec)
                                RemediationRemediationFailed now)) (\<lambda>m _.
     let exec = exec\<lparr>re_Status := RemediationRemediationFailed, re_UpdatedAt := now\<rparr> in
     andThen (appendAudit now m exec ''remediation.failed''
        (JObj [(''reason'', JStr ''interrupted at restart'')])) (\<lambda>m _.
     andThen (appendEvent d now m (re_ID exec) ''remediation_failed''
        (JObj [(''reason'', JStr ''interrupted'')])) (\<lambda>m _.
     (m, Inr exec))))"

fun recoverLoop ::
    "'w deps \<Rightarrow> time \<Rightarrow> RemediationExecution list \<Rightarrow> RemediationExecution list \<Rightarrow> 'w mgr \<Rightarrow>
     'w mgr \<times> RemediationExecution list \<times> rem_err option" where
  "recoverLoop d now recovered [] m = (m, recovered, None)"
| "recoverLoop d now recovered (exec # rest) m =
     (case recoverOne d now exec m of
        (m, Inl e) \<Rightarrow> (m, recovered, Some e)
      | (m, Inr exec) \<Rightarrow> recoverLoop d now (recovered @ [exec]) rest m)"

definition RecoverInterrupted ::
    "'w deps \<Rightarrow> time \<Rightarrow> 'w mgr \<Rightarrow> 'w mgr \<times> RemediationExecution list \<times> rem_err option" where
  "RecoverInterrupted d now m =
     (case onStore m InFlightExecutions of
        (m, Inl e) \<Rightarrow> (m, [], Some e)
      | (m, Inr inFlight) \<Rightarrow> recoverLoop d now [] inFlight m)"

section \<open>Reading back\<close>

definition loadRunbook :: "'w mgr \<Rightarrow> string \<Rightarrow> 'w mgr \<times> (rem_err + Runbook)" where
  "loadRunbook m runbookID =
     andThen (onStore m (\<lambda>s. GetRunbook s runbookID)) (\<lambda>m row. (m, decodeRunbook (rr_Content row)))"

section \<open>Rollback\<close>

definition rollbackIDSuffix :: string where "rollbackIDSuffix = ''-rollback''"

definition RollbackExecutionID :: "string \<Rightarrow> string" where
  "RollbackExecutionID parentExecutionID = parentExecutionID @ rollbackIDSuffix"

text \<open>The part of a \<open>step_result\<close> event that says whether the step succeeded: index, exit code, error.\<close>

definition stepResultData :: "json \<Rightarrow> (int \<times> int \<times> string) option" where
  "stepResultData j = do {
     ms \<leftarrow> asObj j; i \<leftarrow> getInt ms ''index'' 0; x \<leftarrow> getInt ms ''exit_code'' 0; e \<leftarrow> getStr ms ''error'';
     Some (i, x, e) }"

fun pickSuccessful :: "Step list \<Rightarrow> RemediationEvent list \<Rightarrow> rem_err + Step list" where
  "pickSuccessful list [] = Inr []"
| "pickSuccessful list (ev # evs) =
     (if ev_Type ev \<noteq> ''step_result'' then pickSuccessful list evs
      else case stepResultData (ev_Data ev) of
          None \<Rightarrow> Inl ErrDecode
        | Some (i, x, e) \<Rightarrow>
            if e \<noteq> '''' \<or> x \<noteq> 0 then pickSuccessful list evs
            else if i < 0 \<or> i \<ge> int (length list) then pickSuccessful list evs
            else (case pickSuccessful list evs of
                Inl e \<Rightarrow> Inl e | Inr out \<Rightarrow> Inr (list ! nat i # out)))"

definition successfulSteps :: "'w mgr \<Rightarrow> string \<Rightarrow> Step list \<Rightarrow> 'w mgr \<times> (rem_err + Step list)" where
  "successfulSteps m executionID list =
     andThen (onStore m (\<lambda>s. RemediationEventsAfter s executionID 0)) (\<lambda>m evs.
     (m, pickSuccessful list evs))"

definition verifyText :: "ID \<Rightarrow> string" where
  "verifyText i = (case Lookup i of Some s \<Rightarrow> d_Verify (Def s) | None \<Rightarrow> '''')"

definition undoable :: "ID \<Rightarrow> Params \<Rightarrow> bool" where
  "undoable i p = (UndoOf i p \<noteq> None)"

text \<open>
  The loop runs from the last step to the first: an undo is appended, a step without one is put in
  front of the irreversible list. \<open>invertFrom\<close> takes the steps last first.
\<close>

fun invertFrom :: "Step list \<Rightarrow> Step list \<Rightarrow> Step list \<Rightarrow> Step list \<times> Step list" where
  "invertFrom [] inverted irreversible = (inverted, irreversible)"
| "invertFrom (step # rest) inverted irreversible =
     (case UndoOf (rs_Kind step) (rs_Params step) of
        None \<Rightarrow> invertFrom rest inverted (step # irreversible)
      | Some (undoID, params) \<Rightarrow>
          invertFrom rest
            (inverted @ [\<lparr>rs_Kind = undoID, rs_Params = params,
               rs_Description = ''Revert: '' @ rs_Description step,
               rs_Command = Command undoID params, rs_Verify = verifyText undoID,
               rs_Undoable = undoable undoID params\<rparr>])
            irreversible)"

definition invertSteps :: "Step list \<Rightarrow> Step list \<times> Step list" where
  "invertSteps list = invertFrom (rev list) [] []"

definition rollbackForcesL3 :: "Step list \<Rightarrow> bool" where
  "rollbackForcesL3 list =
     list_ex (\<lambda>step. rs_Kind step = FirewallRemoveID \<and> Params_Int (rs_Params step) ''port'' = Some 22) list"

definition rollbackRunbook :: "Runbook \<Rightarrow> Step list \<Rightarrow> Step list \<Rightarrow> Runbook" where
  "rollbackRunbook parentRb inverted irreversible =
     \<lparr>rb_ID = rb_ID parentRb @ rollbackIDSuffix, rb_SchemaVersion = rb_SchemaVersion parentRb,
      rb_IncidentID = rb_IncidentID parentRb, rb_DiagnosisID = '''', rb_ProviderVersion = '''',
      rb_ServerID = '''', rb_Title = ''Undo: '' @ rb_Title parentRb, rb_Source = rb_Source parentRb,
      rb_ReviewCarefully = False, rb_Summary = ''Rollback of '' @ rb_ID parentRb,
      rb_RiskExplanation = '''', rb_Risk = rb_Risk parentRb, rb_RunAs = rb_RunAs parentRb,
      rb_Steps = inverted,
      rb_ManualSteps = map (\<lambda>step. \<lparr>mn_Text = ''This step cannot be undone: '' @ rs_Description step,
                                   mn_Command = ''''\<rparr>) irreversible,
      rb_AffectedFiles = [], rb_AffectedServices = [], rb_Interruption = '''', rb_Rollback = [],
      rb_Verification = [], rb_ExternalMonitorIDs = [],
      rb_Blocked = rollbackForcesL3 inverted,
      rb_BlockedReason = (if rollbackForcesL3 inverted then BlockedL3Reason else ''''),
      rb_ContentHash = '''', rb_CreatedAt = zeroTime\<rparr>"

definition DeriveRollback ::
    "'w deps \<Rightarrow> time \<Rightarrow> 'w mgr \<Rightarrow> string \<Rightarrow> 'w mgr \<times> (rem_err + RemediationExecution)" where
  "DeriveRollback d now m parentExecutionID =
     andThen (onStore m (\<lambda>s. GetExecution s parentExecutionID)) (\<lambda>m parent.
     if re_Status parent \<notin> {RemediationVerifying, RemediationResolved, RemediationRemediationFailed}
     then (m, Inl (ErrInvalidState (re_Status parent)))
     else
       andThen (loadRunbook m (re_RunbookID parent)) (\<lambda>m parentRb.
       if rb_Rollback parentRb = [] then (m, Inl ErrNoRollbackPlan)
       else
         andThen (successfulSteps m parentExecutionID (rb_Steps parentRb)) (\<lambda>m successful.
         if successful = [] then (m, Inl ErrNoRollbackPlan)
         else
           let (inverted, irreversible) = invertSteps successful in
           if inverted = [] then (m, Inl ErrRollbackUnsupported)
           else propose d now m (RollbackExecutionID parentExecutionID) (re_IncidentID parent)
                  (rollbackRunbook parentRb inverted irreversible) RemediationKindRollback
                  parentExecutionID)))"

end
