(* ===== verification/Remediation_Safety.thy ===== *)
theory Remediation_Safety
  imports Remediation
begin

text \<open>
  Safety of the remediation manager. The abstract specification is the step relation \<open>tick\<close> over the
  part of the state that matters, the \<open>core\<close>: execution rows, runbook rows, the log of executed steps
  and the log of granted approvals. Every operation of the manager is a chain of ticks (a
  refinement, for every schedule of database failures, every host and every approval validator that
  leaves the ledger alone), so an invariant of \<open>tick\<close> is an invariant of the code, also at the point
  where an operation fails half way or the process stops.
\<close>

section \<open>The abstract machine\<close>

definition core ::
    "'w mgr \<Rightarrow> RemediationExecution list \<times> RunbookRow list \<times> (string \<times> Step \<times> bool) list \<times>
       (string \<times> string \<times> string) list" where
  "core m = (executions (m_store m), runbooks (m_store m), m_ran m, m_approvals m)"

definition becomes ::
    "'w mgr \<Rightarrow> RemediationExecution list \<Rightarrow> RunbookRow list \<Rightarrow> (string \<times> Step \<times> bool) list \<Rightarrow>
     (string \<times> string \<times> string) list \<Rightarrow> 'w mgr \<Rightarrow> bool" where
  "becomes m es rs rl ap m' \<longleftrightarrow>
     core m' = (es, rs, rl, ap) \<and> (wf_store (m_store m) \<longrightarrow> wf_store (m_store m'))"

definition quiet :: "'w mgr \<Rightarrow> 'w mgr \<Rightarrow> bool" where
  "quiet m m' \<longleftrightarrow> core m' = core m \<and> (wf_store (m_store m) \<longrightarrow> wf_store (m_store m'))"

definition ranOf :: "'w mgr \<Rightarrow> string \<Rightarrow> (Step \<times> bool) list" where
  "ranOf m i = map snd (filter (\<lambda>r. fst r = i) (m_ran m))"

abbreviation executionOf :: "'w mgr \<Rightarrow> string \<Rightarrow> RemediationExecution option" where
  "executionOf m i \<equiv> execOf (m_store m) i"

text \<open>The stored runbook of an execution whose content is the content the execution was proposed with.\<close>

definition verified :: "'w deps \<Rightarrow> 'w mgr \<Rightarrow> RemediationExecution \<Rightarrow> Runbook \<Rightarrow> bool" where
  "verified d m e rb \<longleftrightarrow> (\<exists>row.
     findRow rr_ID (re_RunbookID e) (runbooks (m_store m)) = Some row \<and>
     rr_ContentHash row = re_RunbookHash e \<and> jsonRunbook (rr_Content row) = Some rb \<and>
     ContentHash (d_sha d) rb = re_RunbookHash e)"

text \<open>The edges of the lifecycle.\<close>

definition edges :: "(string \<times> string) list" where
  "edges = [(RemediationProposed, RemediationApproved), (RemediationProposed, RemediationDeclined),
     (RemediationApproved, RemediationExecuting), (RemediationExecuting, RemediationVerifying),
     (RemediationExecuting, RemediationRemediationFailed),
     (RemediationVerifying, RemediationRemediationFailed)]"

abbreviation allOk :: "Step list \<Rightarrow> (Step \<times> bool) list" where
  "allOk ss \<equiv> map (\<lambda>s. (s, True)) ss"

inductive tick :: "'w deps \<Rightarrow> 'w mgr \<Rightarrow> 'w mgr \<Rightarrow> bool" for d where
  tick_quiet: "quiet m m' \<Longrightarrow> tick d m m'"
| tick_runbook: "becomes m (executions s) (runbooks s @ [row]) (m_ran m) (m_approvals m) m' \<Longrightarrow>
     s = m_store m \<Longrightarrow> findRow rr_ID (rr_ID row) (runbooks s) = None \<Longrightarrow> tick d m m'"
| tick_create: "becomes m (executions s @ [e]) (runbooks s) (m_ran m) (m_approvals m) m' \<Longrightarrow>
     s = m_store m \<Longrightarrow> execOf s (re_ID e) = None \<Longrightarrow>
     re_Status e \<in> {RemediationProposed, RemediationBlockedL3} \<Longrightarrow> tick d m m'"
| tick_grant: "becomes m (executions s) (runbooks s) (m_ran m) (m_approvals m @ [(i, h, tok)]) m' \<Longrightarrow>
     s = m_store m \<Longrightarrow> execOf s i = Some e \<Longrightarrow> re_Status e = RemediationProposed \<Longrightarrow>
     verified d m e rb \<Longrightarrow> h = re_RunbookHash e \<Longrightarrow> tick d m m'"
| tick_move: "becomes m (map (moved i a b ts) (executions s)) (runbooks s) (m_ran m) (m_approvals m) m' \<Longrightarrow>
     s = m_store m \<Longrightarrow> (a, b) \<in> set edges \<Longrightarrow> execOf s i = Some e \<Longrightarrow> re_Status e = a \<Longrightarrow>
     (b = RemediationApproved \<Longrightarrow> \<exists>tok. (i, re_RunbookHash e, tok) \<in> set (m_approvals m)) \<Longrightarrow>
     (b = RemediationVerifying \<Longrightarrow> \<exists>rb. verified d m e rb \<and> ranOf m i = allOk (rb_Steps rb)) \<Longrightarrow>
     tick d m m'"
| tick_run: "becomes m (executions s) (runbooks s) (m_ran m @ [(i, step, ok)]) (m_approvals m) m' \<Longrightarrow>
     s = m_store m \<Longrightarrow> execOf s i = Some e \<Longrightarrow> re_Status e = RemediationExecuting \<Longrightarrow>
     verified d m e rb \<Longrightarrow> rb_Steps rb = pre @ step # post \<Longrightarrow> ranOf m i = allOk pre \<Longrightarrow> tick d m m'"

section \<open>Its invariant\<close>

definition unstarted :: "string list" where
  "unstarted = [RemediationProposed, RemediationDeclined, RemediationBlockedL3]"

definition okExec :: "'w deps \<Rightarrow> 'w mgr \<Rightarrow> RemediationExecution \<Rightarrow> bool" where
  "okExec d m e \<longleftrightarrow>
     (re_Status e \<in> set unstarted \<or> re_Status e = RemediationApproved \<longrightarrow> ranOf m (re_ID e) = []) \<and>
     (re_Status e \<notin> set unstarted \<longrightarrow>
        (\<exists>tok. (re_ID e, re_RunbookHash e, tok) \<in> set (m_approvals m))) \<and>
     re_Status e \<noteq> RemediationResolved \<and>
     (ranOf m (re_ID e) \<noteq> [] \<longrightarrow> (\<exists>rb. verified d m e rb \<and>
        prefix (map fst (ranOf m (re_ID e))) (rb_Steps rb) \<and> list_all snd (butlast (ranOf m (re_ID e))))) \<and>
     (re_Status e = RemediationVerifying \<longrightarrow>
        (\<exists>rb. verified d m e rb \<and> ranOf m (re_ID e) = allOk (rb_Steps rb)))"

definition Inv :: "'w deps \<Rightarrow> 'w mgr \<Rightarrow> bool" where
  "Inv d m \<longleftrightarrow> wf_store (m_store m) \<and>
     (\<forall>i. case executionOf m i of None \<Rightarrow> ranOf m i = [] | Some e \<Rightarrow> okExec d m e)"

lemma core_eqD:
  assumes "core m' = (es, rs, rl, ap)"
  shows "executions (m_store m') = es" "runbooks (m_store m') = rs" "m_ran m' = rl" "m_approvals m' = ap"
  using assms by (simp_all add: core_def)

lemma status_distinct:
  "distinct [RemediationProposed, RemediationApproved, RemediationExecuting, RemediationVerifying,
     RemediationResolved, RemediationRemediationFailed, RemediationDeclined, RemediationBlockedL3]"
  by (simp add: status_defs)

lemmas becomesD = becomes_def core_def

lemma okExec_mono:
  assumes "okExec d m e" and "ranOf m' (re_ID e) = ranOf m (re_ID e)"
    and "set (m_approvals m) \<subseteq> set (m_approvals m')" and "\<And>rb. verified d m e rb \<Longrightarrow> verified d m' e rb"
  shows "okExec d m' e"
  using assms unfolding okExec_def by (auto; blast)

lemma verified_runbooks:
  "findRow rr_ID (re_RunbookID e) (runbooks (m_store m)) = findRow rr_ID (re_RunbookID e) (runbooks (m_store m'))
   \<Longrightarrow> verified d m e rb = verified d m' e rb"
  by (simp add: verified_def)

lemma verified_append:
  "verified d m e rb \<Longrightarrow> runbooks (m_store m') = runbooks (m_store m) @ rs \<Longrightarrow> verified d m' e rb"
  by (auto simp: verified_def findRow_append)

lemma verified_fields:
  "re_RunbookID e' = re_RunbookID e \<Longrightarrow> re_RunbookHash e' = re_RunbookHash e \<Longrightarrow>
   verified d m e' rb = verified d m e rb"
  by (simp add: verified_def)

lemma InvI:
  assumes "wf_store (m_store m)" and "\<And>i. executionOf m i = None \<Longrightarrow> ranOf m i = []"
    and "\<And>i e. executionOf m i = Some e \<Longrightarrow> re_ID e = i \<Longrightarrow> okExec d m e"
  shows "Inv d m"
  using assms execOf_id by (auto simp: Inv_def split: option.splits)

lemma InvD:
  assumes "Inv d m"
  shows "wf_store (m_store m)" and "executionOf m i = None \<Longrightarrow> ranOf m i = []"
    and "executionOf m i = Some e \<Longrightarrow> okExec d m e"
  using assms by (auto simp: Inv_def dest: spec [of _ i])

text \<open>Ticks that leave the executions alone.\<close>

lemma Inv_frame:
  assumes "Inv d m" and "wf_store (m_store m')" and "executions (m_store m') = executions (m_store m)"
    and "m_ran m' = m_ran m" and "set (m_approvals m) \<subseteq> set (m_approvals m')"
    and "\<And>e rb. verified d m e rb \<Longrightarrow> verified d m' e rb"
  shows "Inv d m'"
proof (rule InvI [OF assms(2)])
  have x: "executionOf m' i = executionOf m i" for i using assms(3) by (simp add: execOf_def)
  have r: "ranOf m' i = ranOf m i" for i using assms(4) by (simp add: ranOf_def)
  show "ranOf m' i = []" if "executionOf m' i = None" for i
    using that InvD(2) [OF assms(1)] x r by simp
  show "okExec d m' e" if "executionOf m' i = Some e" for i e
    using okExec_mono [OF InvD(3) [OF assms(1)] _ assms(5,6)] that x r by simp
qed

lemma edge_facts:
  assumes "(a, b) \<in> set edges"
  shows "b \<in> set unstarted \<or> b = RemediationApproved \<longrightarrow> a \<in> set unstarted"
    and "b \<notin> set unstarted \<longrightarrow> b = RemediationApproved \<or> a \<notin> set unstarted"
    and "b \<noteq> RemediationResolved"
  using assms by (auto simp: edges_def unstarted_def status_defs)

lemma okExec_moved:
  assumes ok: "okExec d m e" and e: "re_Status e = a" "re_ID e = i" and ab: "(a, b) \<in> set edges"
    and ap: "b = RemediationApproved \<Longrightarrow> \<exists>tok. (i, re_RunbookHash e, tok) \<in> set (m_approvals m)"
    and vf: "b = RemediationVerifying \<Longrightarrow> \<exists>rb. verified d m e rb \<and> ranOf m i = allOk (rb_Steps rb)"
  shows "okExec d m (moved i a b ts e)"
proof -
  have "verified d m (moved i a b ts e) rb = verified d m e rb" for rb
    by (rule verified_fields) (simp_all add: moved_def)
  moreover have "re_RunbookHash (moved i a b ts e) = re_RunbookHash e" "re_Status (moved i a b ts e) = b"
    using e by (simp_all add: moved_def)
  ultimately show ?thesis
    using ok e ap vf edge_facts [OF ab] unfolding okExec_def moved_id by simp blast
qed

lemma ranOf_snoc:
  "m_ran m' = m_ran m @ [(i, step, ok)] \<Longrightarrow>
     ranOf m' j = (if j = i then ranOf m j @ [(step, ok)] else ranOf m j)"
  by (auto simp: ranOf_def)

lemma okExec_ran:
  assumes e: "okExec d m e" "re_Status e = RemediationExecuting" and v: "verified d m' e rb"
    and r: "ranOf m' (re_ID e) = allOk pre @ [(step, ok)]" and s: "rb_Steps rb = pre @ step # post"
    and ap: "m_approvals m' = m_approvals m"
  shows "okExec d m' e"
proof -
  have "map fst (allOk pre @ [(step, ok)]) = pre @ [step]" by (simp add: comp_def)
  moreover have "list_all snd (allOk pre)" by (simp add: list_all_iff)
  ultimately show ?thesis using assms status_distinct
    by (auto simp: okExec_def unstarted_def intro!: exI [of _ rb])
qed

theorem Inv_tick:
  assumes "tick d m m'" and "Inv d m" shows "Inv d m'"
  using assms(1)
proof cases
  case tick_quiet
  then show ?thesis using assms(2) InvD(1) [OF assms(2)]
    by (intro Inv_frame [OF assms(2)]) (auto simp: quiet_def core_def verified_def)
next
  case (tick_runbook s row)
  then show ?thesis using InvD(1) [OF assms(2)]
    by (intro Inv_frame [OF assms(2)]) (auto simp: becomesD intro: verified_append)
next
  case (tick_grant s i h tok e rb)
  then show ?thesis using InvD(1) [OF assms(2)]
    by (intro Inv_frame [OF assms(2)]) (auto simp: becomesD verified_def)
next
  case (tick_create s e)
  have x: "executionOf m' j = (if j = re_ID e then Some e else executionOf m j)" for j
    using tick_create by (auto simp: becomesD execOf_def findRow_append split: option.splits)
  have r: "ranOf m' j = ranOf m j" for j using tick_create by (simp add: becomesD ranOf_def)
  show ?thesis
  proof (rule InvI)
    show "wf_store (m_store m')" using tick_create InvD(1) [OF assms(2)] by (simp add: becomesD)
    show "ranOf m' i = []" if "executionOf m' i = None" for i
      using that x r InvD(2) [OF assms(2)] by (simp split: if_splits)
    show "okExec d m' y" if y: "executionOf m' i = Some y" "re_ID y = i" for i y
    proof (cases "i = re_ID e")
      case True
      with x y have "y = e" by simp
      with tick_create r InvD(2) [OF assms(2), of "re_ID e"] show ?thesis
        using status_distinct by (auto simp: okExec_def unstarted_def)
    next
      case False
      with x y have "executionOf m i = Some y" by simp
      then show ?thesis using tick_create(1,2) r
        by (intro okExec_mono [OF InvD(3) [OF assms(2)]]) (auto simp: becomesD verified_def)
    qed
  qed
next
  case (tick_move i a b ts s e)
  have x: "executionOf m' j = map_option (moved i a b ts) (executionOf m j)" for j
    using tick_move by (intro execOf_moved) (simp add: becomesD)
  have r: "ranOf m' j = ranOf m j" for j using tick_move by (simp add: becomesD ranOf_def)
  have fr: "okExec d m y \<Longrightarrow> okExec d m' y" for y
    using tick_move(1,2) r by (intro okExec_mono [of d m y m']) (auto simp: becomesD verified_def)
  have ei: "re_ID e = i" using tick_move execOf_id by blast
  show ?thesis
  proof (rule InvI)
    show "wf_store (m_store m')" using tick_move InvD(1) [OF assms(2)] by (simp add: becomesD)
    show "ranOf m' j = []" if "executionOf m' j = None" for j
      using that x r InvD(2) [OF assms(2)] by simp
    show "okExec d m' y" if y: "executionOf m' j = Some y" for j y
    proof -
      from y x obtain z where z: "executionOf m j = Some z" "y = moved i a b ts z" by auto
      have ok: "okExec d m z" using InvD(3) [OF assms(2) z(1)] .
      show ?thesis
      proof (cases "j = i")
        case True
        with z tick_move have "z = e" by simp
        with z ok tick_move ei show ?thesis by (auto intro!: fr okExec_moved)
      next
        case False
        with z execOf_id have "y = z" by (auto simp: moved_def)
        with ok fr show ?thesis by simp
      qed
    qed
  qed
next
  case (tick_run s i step ok e rb pre post)
  have x: "executionOf m' j = executionOf m j" for j using tick_run by (simp add: becomesD execOf_def)
  have r: "ranOf m' j = (if j = i then ranOf m j @ [(step, ok)] else ranOf m j)" for j
    using tick_run by (intro ranOf_snoc) (simp add: becomesD)
  have vf: "verified d m' y rb' = verified d m y rb'" for y rb'
    using tick_run by (simp add: becomesD verified_def)
  have ap: "m_approvals m' = m_approvals m" using tick_run by (simp add: becomesD)
  have ei: "re_ID e = i" using tick_run execOf_id by blast
  show ?thesis
  proof (rule InvI)
    show "wf_store (m_store m')" using tick_run InvD(1) [OF assms(2)] by (simp add: becomesD)
    show "ranOf m' j = []" if "executionOf m' j = None" for j
      using that x r InvD(2) [OF assms(2)] tick_run by auto
    show "okExec d m' y" if y: "executionOf m' j = Some y" "re_ID y = j" for j y
    proof (cases "j = i")
      case True
      with y x tick_run have "y = e" by simp
      moreover have "okExec d m' e" using InvD(3) [OF assms(2)] tick_run vf r ap ei
        by (intro okExec_ran [of d m e m' rb pre step ok post]) auto
      ultimately show ?thesis by simp
    next
      case False
      with y x have "executionOf m j = Some y" by simp
      then show ?thesis using r ap vf False y
        by (intro okExec_mono [OF InvD(3) [OF assms(2)]]) auto
    qed
  qed
qed

lemma Inv_ticks: "(tick d)\<^sup>*\<^sup>* m m' \<Longrightarrow> Inv d m \<Longrightarrow> Inv d m'"
  by (induction rule: rtranclp_induct) (auto intro: Inv_tick)

lemma ticks_wf: "(tick d)\<^sup>*\<^sup>* m m' \<Longrightarrow> wf_store (m_store m) \<Longrightarrow> wf_store (m_store m')"
proof (induction rule: rtranclp_induct)
  case (step m' m'')
  from step(2) show ?case by cases (use step in \<open>auto simp: quiet_def becomes_def\<close>)
qed

section \<open>Operations as chains of ticks\<close>

lemma quiet_refl [simp, intro]: "quiet m m"
  by (simp add: quiet_def)

lemma quiet_trans: "quiet m m' \<Longrightarrow> quiet m' m'' \<Longrightarrow> quiet m m''"
  by (simp add: quiet_def)

lemma quiet_world [simp]: "quiet m (m'\<lparr>m_world := w\<rparr>) = quiet m m'" "quiet (m\<lparr>m_world := w\<rparr>) m' = quiet m m'"
  by (simp_all add: quiet_def core_def)

lemma quiet_keeps:
  assumes "quiet m m'"
  shows "executionOf m' i = executionOf m i" "verified d m' e rb = verified d m e rb"
    "ranOf m' i = ranOf m i" "m_approvals m' = m_approvals m"
    "wf_store (m_store m) \<Longrightarrow> wf_store (m_store m')"
  using assms by (simp_all add: quiet_def core_def execOf_def verified_def ranOf_def)

lemma andThen_quiet:
  assumes "quiet m (fst r)" and "\<And>s x. r = (s, Inr x) \<Longrightarrow> quiet s (fst (k s x))"
  shows "quiet m (fst (andThen r k))"
  using assms by (cases r; cases "snd r") (auto intro: quiet_trans)

lemma andThen_ticks:
  assumes "(tick d)\<^sup>*\<^sup>* m (fst r)" and "\<And>s x. r = (s, Inr x) \<Longrightarrow> (tick d)\<^sup>*\<^sup>* s (fst (k s x))"
  shows "(tick d)\<^sup>*\<^sup>* m (fst (andThen r k))"
  using assms by (cases r; cases "snd r") (auto intro: rtranclp_trans)

lemma ticks_ifI:
  "(b \<Longrightarrow> (tick d)\<^sup>*\<^sup>* m (fst x)) \<Longrightarrow> (\<not> b \<Longrightarrow> (tick d)\<^sup>*\<^sup>* m (fst y)) \<Longrightarrow>
   (tick d)\<^sup>*\<^sup>* m (fst (if b then x else y))"
  by simp

lemma quiet_ticks: "quiet m m' \<Longrightarrow> (tick d)\<^sup>*\<^sup>* m m'"
  by (auto intro: tick_quiet)

lemma onStore_fst: "fst (onStore m f) = m\<lparr>m_store := fst (f (m_store m))\<rparr>"
  by (auto simp: onStore_def split: prod.splits sum.splits)

lemma onStore_Inr: "onStore m f = (m', Inr x) \<longleftrightarrow> (\<exists>t. f (m_store m) = (t, Inr x) \<and> m' = m\<lparr>m_store := t\<rparr>)"
  by (auto simp: onStore_def split: prod.splits sum.splits)

lemma onStore_Inl: "onStore m f = (m', Inl e) \<longleftrightarrow> (\<exists>t x. f (m_store m) = (t, Inl x) \<and> e = RStore x \<and> m' = m\<lparr>m_store := t\<rparr>)"
  by (auto simp: onStore_def split: prod.splits sum.splits)

lemma quiet_storeI:
  assumes "executions t = executions (m_store m)" "runbooks t = runbooks (m_store m)"
    and "wf_store (m_store m) \<Longrightarrow> wf_store t"
  shows "quiet m (m\<lparr>m_store := t\<rparr>)"
  using assms by (simp add: quiet_def core_def)

lemma onStore_quiet:
  assumes "\<And>t r. f (m_store m) = (t, r) \<Longrightarrow> executions t = executions (m_store m) \<and>
      runbooks t = runbooks (m_store m) \<and> (wf_store (m_store m) \<longrightarrow> wf_store t)"
  shows "quiet m (fst (onStore m f))"
  using assms [of "fst (f (m_store m))" "snd (f (m_store m))"]
  by (auto simp: onStore_fst intro: quiet_storeI)

lemma get_execution_quiet: "quiet m (fst (onStore m (\<lambda>s. GetExecution s i)))"
  by (rule onStore_quiet) (erule GetExecutionE, simp)

lemma get_execution_Inr:
  "onStore m (\<lambda>s. GetExecution s i) = (m', Inr e) \<Longrightarrow> quiet m m' \<and> executionOf m i = Some e"
  using get_execution_quiet [of m i]
  by (auto simp: onStore_Inr elim!: GetExecutionE intro: quiet_storeI)

lemma get_runbook_quiet: "quiet m (fst (onStore m (\<lambda>s. GetRunbook s i)))"
  by (rule onStore_quiet) (erule GetRunbookE, simp)

lemma get_runbook_Inr:
  "onStore m (\<lambda>s. GetRunbook s i) = (m', Inr row) \<Longrightarrow>
     quiet m m' \<and> findRow rr_ID i (runbooks (m_store m)) = Some row"
  by (auto simp: onStore_Inr elim!: GetRunbookE intro: quiet_storeI)

lemma appendAudit_quiet: "quiet m (fst (appendAudit now m e typ data))"
proof -
  have "quiet m (fst (onStore m (\<lambda>s. AppendAudit s a)))" for a
    by (rule onStore_quiet) (erule AppendAuditE, simp_all)
  then show ?thesis unfolding appendAudit_def by (rule andThen_quiet) simp
qed

lemma appendEvent_quiet: "quiet m (fst (appendEvent d now m i typ data))"
proof -
  have "quiet m (fst (onStore m (\<lambda>s. AppendRemediationEvent s a)))" for a
  proof (rule onStore_quiet)
    fix t r assume a: "AppendRemediationEvent (m_store m) a = (t, r)"
    then show "executions t = executions (m_store m) \<and> runbooks t = runbooks (m_store m) \<and>
        (wf_store (m_store m) \<longrightarrow> wf_store t)"
      using AppendRemediationEvent_wf [OF a] by (cases rule: AppendRemediationEventE) auto
  qed
  then show ?thesis unfolding appendEvent_def by (rule andThen_quiet) simp
qed

text \<open>Audit row, then event, then return: the tail of most operations.\<close>

lemma record_quiet:
  "quiet m (fst (andThen (appendAudit now m e typ data) (\<lambda>m _.
     andThen (appendEvent d now m i typ' data') (\<lambda>m _. (m, r)))))"
  by (intro andThen_quiet appendAudit_quiet appendEvent_quiet) simp

lemma validateHash_quiet: "quiet m (fst (validateHash d m e h))"
  unfolding validateHash_def by (intro andThen_quiet get_runbook_quiet) (auto simp: Let_def)

lemma validateHash_Inr:
  assumes "validateHash d m e h = (m', Inr u)"
  shows "quiet m m' \<and> h = re_RunbookHash e \<and> (\<exists>rb. verified d m e rb)"
  using assms validateHash_quiet [of m d e h] unfolding validateHash_def verified_def
  by (auto simp: andThen_Inr_iff Let_def decodeRunbook_def split: if_splits option.splits dest!: get_runbook_Inr)

lemma verified_unique: "verified d m e rb \<Longrightarrow> verified d m e rb' \<Longrightarrow> rb = rb'"
  by (auto simp: verified_def)

text \<open>A guarded status change.\<close>

lemma transition_cases:
  assumes "onStore m (\<lambda>s. TransitionExecution s i a b now) = (m', r)" and wf: "wf_store (m_store m)"
  obtains (fail) x where "quiet m m'" and "r = Inl (RStore x)"
  | (won) e where "r = Inr ()" and "executionOf m i = Some e" and "re_Status e = a"
      and "becomes m (map (moved i a b now) (executions (m_store m))) (runbooks (m_store m)) (m_ran m)
             (m_approvals m) m'"
proof -
  obtain t x where f: "TransitionExecution (m_store m) i a b now = (t, x)"
    by (cases "TransitionExecution (m_store m) i a b now")
  have wft: "wf_store t" using TransitionExecution_wf [OF f wf] .
  from f show thesis
  proof (cases rule: TransitionExecutionE)
    case (fail fs y)
    with assms f show thesis by (intro that(1) [of y]) (auto simp: onStore_def intro!: quiet_storeI)
  next
    case (moved fs)
    then obtain e where e: "e \<in> set (executions (m_store m))" "re_ID e = i" "re_Status e = a" by blast
    then have "executionOf m i = Some e"
      using findRow_unique [of re_ID "executions (m_store m)" e] wf by (simp add: execOf_def wf_store_def)
    with moved e assms f wft show thesis
      by (intro that(2) [of e]) (auto simp: onStore_def becomesD)
  qed
qed

lemma transition_ticks:
  assumes wf: "wf_store (m_store m)" and ab: "(a, b) \<in> set edges"
    and ap: "\<And>e. executionOf m i = Some e \<Longrightarrow> re_Status e = a \<Longrightarrow> b = RemediationApproved \<Longrightarrow>
       \<exists>tok. (i, re_RunbookHash e, tok) \<in> set (m_approvals m)"
    and vf: "\<And>e. executionOf m i = Some e \<Longrightarrow> re_Status e = a \<Longrightarrow> b = RemediationVerifying \<Longrightarrow>
       \<exists>rb. verified d m e rb \<and> ranOf m i = allOk (rb_Steps rb)"
  shows "(tick d)\<^sup>*\<^sup>* m (fst (onStore m (\<lambda>s. TransitionExecution s i a b now)))"
proof -
  obtain m' r where f: "onStore m (\<lambda>s. TransitionExecution s i a b now) = (m', r)"
    by (cases "onStore m (\<lambda>s. TransitionExecution s i a b now)")
  then show ?thesis using wf
  proof (cases rule: transition_cases)
    case (fail x)
    with f show ?thesis by (simp add: quiet_ticks)
  next
    case (won e)
    then have "tick d m m'" using ab ap vf by (intro tick_move) auto
    with f show ?thesis by simp
  qed
qed

text \<open>A status change followed by its audit row and its event.\<close>

lemma transition_record_ticks:
  assumes "wf_store (m_store m)" and "(a, b) \<in> set edges"
    and "\<And>e. executionOf m i = Some e \<Longrightarrow> re_Status e = a \<Longrightarrow> b = RemediationApproved \<Longrightarrow>
       \<exists>tok. (i, re_RunbookHash e, tok) \<in> set (m_approvals m)"
    and "b \<noteq> RemediationVerifying"
  shows "(tick d)\<^sup>*\<^sup>* m (fst (andThen (onStore m (\<lambda>s. TransitionExecution s i a b now)) (\<lambda>m _.
     andThen (appendAudit now m x typ data) (\<lambda>m _.
     andThen (appendEvent d now m j typ' data') (\<lambda>m _. (m, r))))))"
  using assms by (intro andThen_ticks transition_ticks quiet_ticks record_quiet) auto

lemma becomes_wf: "becomes m es rs rl ap m' \<Longrightarrow> wf_store (m_store m) \<Longrightarrow> wf_store (m_store m')"
  by (simp add: becomes_def)

lemma tick_create_ticks:
  assumes "re_Status e \<in> {RemediationProposed, RemediationBlockedL3}"
  shows "(tick d)\<^sup>*\<^sup>* m (fst (onStore m (\<lambda>s. CreateExecution s e)))"
proof -
  obtain t r where f: "CreateExecution (m_store m) e = (t, r)" by (cases "CreateExecution (m_store m) e")
  let ?m = "m\<lparr>m_store := t\<rparr>"
  have "tick d m ?m" using f
  proof (cases rule: CreateExecutionE)
    case (new fs)
    then show ?thesis using assms CreateExecution_wf [OF f]
      by (intro tick_create [where e = "storedExec (execRow (wallClock (m_store m)) e)"]) (auto simp: becomesD)
  qed (auto intro!: tick_quiet quiet_storeI)
  then show ?thesis by (simp add: onStore_fst f)
qed

lemma ensureRunbook_ticks: "(tick d)\<^sup>*\<^sup>* m (fst (ensureRunbook now m rb inc h))"
proof -
  obtain m1 r where g: "onStore m (\<lambda>s. GetRunbook s (rb_ID rb)) = (m1, r)"
    by (cases "onStore m (\<lambda>s. GetRunbook s (rb_ID rb))")
  have q: "quiet m m1" using get_runbook_quiet [of m "rb_ID rb"] g by simp
  have c: "(tick d)\<^sup>*\<^sup>* m1 (fst (onStore m1 (\<lambda>s. CreateRunbook s row)))" for row
  proof -
    obtain t x where f: "CreateRunbook (m_store m1) row = (t, x)" by (cases "CreateRunbook (m_store m1) row")
    let ?m = "m1\<lparr>m_store := t\<rparr>"
    have "tick d m1 ?m" using f
    proof (cases rule: CreateRunbookE)
      case (fail fs x)
      then show ?thesis by (auto intro!: tick_quiet quiet_storeI)
    next
      case (new fs row')
      then show ?thesis using CreateRunbook_wf [OF f]
        by (intro tick_runbook [where row = row']) (auto simp: becomesD)
    qed
    then show ?thesis by (simp add: onStore_fst f)
  qed
  have "(tick d)\<^sup>*\<^sup>* m1 (fst (ensureRunbook now m rb inc h))"
    using c by (auto simp: ensureRunbook_def g split: sum.splits)
  with quiet_ticks [OF q] show ?thesis by (rule rtranclp_trans)
qed

lemma announceProposed_quiet: "quiet m (fst (announceProposed d now m e rb h))"
  unfolding announceProposed_def Let_def
  by (auto intro!: andThen_quiet appendAudit_quiet appendEvent_quiet)

lemma propose_ticks: "(tick d)\<^sup>*\<^sup>* m (fst (propose d now m i inc rb kind par))"
  unfolding propose_def Let_def
  by (intro andThen_ticks ensureRunbook_ticks tick_create_ticks)
    (auto simp: case_prod_unfold intro!: quiet_ticks announceProposed_quiet)

text \<open>The step loop: it appends to the log the next steps of the verified runbook.\<close>

lemma runSteps_ticks:
  assumes "wf_store (m_store m)" and "executionOf m (re_ID exec) = Some e"
    and "re_Status e = RemediationExecuting" and "verified d m e rb"
    and "rb_Steps rb = pre @ steps" and "ranOf m (re_ID exec) = allOk pre"
  shows "(tick d)\<^sup>*\<^sup>* m (fst (runSteps d now exec n steps m)) \<and>
    (\<forall>m'. runSteps d now exec n steps m = (m', Inr None) \<longrightarrow> wf_store (m_store m') \<and>
       executionOf m' (re_ID exec) = Some e \<and> verified d m' e rb \<and>
       ranOf m' (re_ID exec) = allOk (rb_Steps rb))"
  using assms
proof (induction steps arbitrary: m n pre)
  case Nil
  then show ?case by simp
next
  case (Cons step rest)
  obtain w res err where x: "d_exec d (m_world m) step = (w, res, err)"
    by (cases "d_exec d (m_world m) step") auto
  define m1 where "m1 = m\<lparr>m_world := w, m_ran := m_ran m @ [(re_ID exec, step, stepOk res err)]\<rparr>"
  define data where "data = stepResultJson n step res err"
  have t1: "tick d m m1" using Cons.prems
    by (intro tick_run [where e = e and rb = rb and pre = pre and step = step and post = rest and
          i = "re_ID exec" and ok = "stepOk res err"]) (auto simp: m1_def becomesD)
  have r1: "ranOf m1 (re_ID exec) = allOk pre @ [(step, stepOk res err)]"
    using Cons.prems(6) ranOf_snoc [of m1 m "re_ID exec" step "stepOk res err"] by (simp add: m1_def)
  obtain m2 a where a: "appendEvent d now m1 (re_ID exec) ''step_result'' data = (m2, a)"
    by (cases "appendEvent d now m1 (re_ID exec) ''step_result'' data")
  have q2: "quiet m1 m2" using appendEvent_quiet [of m1 d now "re_ID exec" "''step_result''" data] a by simp
  obtain m3 b where b: "appendAudit now m2 exec ''remediation.step.result'' data = (m3, b)"
    by (cases "appendAudit now m2 exec ''remediation.step.result'' data")
  have q3: "quiet m1 m3" using appendAudit_quiet [of m2 now exec "''remediation.step.result''" data] b q2
    by (auto intro: quiet_trans)
  have wf3: "wf_store (m_store m3)" using quiet_keeps(5) [OF q3] Cons.prems(1) by (simp add: m1_def)
  have e3: "executionOf m3 (re_ID exec) = Some e" using quiet_keeps(1) [OF q3] Cons.prems(2) by (simp add: m1_def)
  have v3: "verified d m3 e rb" using quiet_keeps(2) [OF q3] Cons.prems(4) by (simp add: m1_def verified_def)
  have r3: "ranOf m3 (re_ID exec) = allOk pre @ [(step, stepOk res err)]" using quiet_keeps(3) [OF q3] r1 by simp
  have k3: "(tick d)\<^sup>*\<^sup>* m m3" and k2: "(tick d)\<^sup>*\<^sup>* m m2"
    using t1 quiet_ticks [OF q3] quiet_ticks [OF q2] by (meson converse_rtranclp_into_rtranclp)+
  have unf: "runSteps d now exec n (step # rest) m =
      andThen (m2, a) (\<lambda>_ _. andThen (m3, b) (\<lambda>_ _.
        if \<not> stepOk res err then snd_fail m3 else runSteps d now exec (Suc n) rest m3))"
    if "snd_fail = (\<lambda>m. andThen (onStore m (\<lambda>s. TransitionExecution s (re_ID exec) RemediationExecuting
                                   RemediationRemediationFailed now)) (\<lambda>m _.
        let exec = exec\<lparr>re_Status := RemediationRemediationFailed, re_UpdatedAt := now\<rparr>;
            failed = JObj [(''failed_step'', JInt (int n))] in
        andThen (appendAudit now m exec ''remediation.failed'' failed) (\<lambda>m _.
        andThen (appendEvent d now m (re_ID exec) ''remediation_failed'' failed) (\<lambda>m _.
        (m, Inr (Some exec))))))" for snd_fail
    using a b by (simp add: x that Let_def m1_def [symmetric] data_def [symmetric] andThen_def split: sum.splits)
  have failed: "(tick d)\<^sup>*\<^sup>* m3 (fst (andThen (onStore m3 (\<lambda>s. TransitionExecution s (re_ID exec)
      RemediationExecuting RemediationRemediationFailed now)) (\<lambda>m _. andThen (appendAudit now m x ty da) (\<lambda>m _.
      andThen (appendEvent d now m j ty' da') (\<lambda>m _. (m, r))))))" for x ty da j ty' da' r
    using wf3 by (intro transition_record_ticks) (auto simp: edges_def status_defs)
  show ?case
  proof (cases "isl a \<or> isl b")
    case True
    then show ?thesis using k2 k3 unf [OF refl] by (cases a; cases b) auto
  next
    case ab: False
    show ?thesis
    proof (cases "stepOk res err")
      case False
      have "(tick d)\<^sup>*\<^sup>* m3 (fst (runSteps d now exec n (step # rest) m))"
        using ab False unf [OF refl] by (cases a; cases b) (simp_all add: Let_def failed)
      moreover have "snd (runSteps d now exec n (step # rest) m) \<noteq> Inr None"
        using ab False unf [OF refl] by (cases a; cases b) (auto simp: Let_def andThen_def split: prod.splits sum.splits)
      ultimately show ?thesis using k3 by (auto intro: rtranclp_trans)
    next
      case True
      have e: "runSteps d now exec n (step # rest) m = runSteps d now exec (Suc n) rest m3"
        using ab True unf [OF refl] by (cases a; cases b) auto
      have "rb_Steps rb = (pre @ [step]) @ rest" using Cons.prems(5) by simp
      from Cons.IH [OF wf3 e3 Cons.prems(3) v3 this, of "Suc n"] True r3 k3 show ?thesis
        unfolding e by (auto intro: rtranclp_trans)
    qed
  qed
qed

lemma appendVerifications_quiet: "quiet m (fst (appendVerifications d now i svs m))"
  by (induction svs arbitrary: m) (auto intro!: andThen_quiet appendEvent_quiet)

lemma finishExecute_ticks:
  assumes "wf_store (m_store m)" and "executionOf m (re_ID exec) = Some e" and "verified d m e rb"
    and "ranOf m (re_ID exec) = allOk (rb_Steps rb)"
  shows "(tick d)\<^sup>*\<^sup>* m (fst (finishExecute d now m exec rb))"
proof -
  have q: "quiet m (fst (andThen (appendAudit now m x t JNull) (\<lambda>m _.
     andThen (appendEvent d now m i u dat) (\<lambda>m _.
     case d_verify d (m_world m) rb of (w, result, verr) \<Rightarrow>
     andThen (appendVerifications d now i (vr_Steps result) (m\<lparr>m_world := w\<rparr>)) (\<lambda>m _.
     andThen (appendEvent d now m i v (f result verr)) (\<lambda>m _. (m, Inr y)))))))" for m x t i u dat v f y
    by (intro andThen_quiet appendAudit_quiet appendEvent_quiet)
      (auto split: prod.splits intro!: andThen_quiet appendEvent_quiet appendVerifications_quiet
        intro: quiet_trans [OF _ appendVerifications_quiet])
  show ?thesis unfolding finishExecute_def Let_def
  proof (rule andThen_ticks)
    show "(tick d)\<^sup>*\<^sup>* m (fst (onStore m (\<lambda>s. TransitionExecution s (re_ID exec) RemediationExecuting
        RemediationVerifying now)))"
      using assms by (intro transition_ticks) (auto simp: edges_def status_defs)
  qed (rule quiet_ticks [OF q])
qed

text \<open>
  The contract between the manager and the approval validator it is given: the validator may spend
  tokens but leaves executions, runbooks, events and audit rows alone.
\<close>

locale manager =
  fixes d :: "'w deps"
  assumes validate_frame:
    "wf_store s \<Longrightarrow> d_validate d now s tok i h = (t, r) \<Longrightarrow> same_ledger s t \<and> wf_store t"
begin

lemma grantApproval_ticks:
  assumes wf: "wf_store (m_store m)" and e: "executionOf m i = Some e" "re_Status e = RemediationProposed"
    and rb: "verified d m e rb" and h: "h = re_RunbookHash e"
  shows "(tick d)\<^sup>*\<^sup>* m (fst (grantApproval d now m e i h tok))"
proof -
  obtain s r where va: "d_validate d now (m_store m) tok i h = (s, r)"
    by (cases "d_validate d now (m_store m) tok i h")
  have fr: "same_ledger (m_store m) s" "wf_store s" using validate_frame [OF wf va] by auto
  show ?thesis
  proof (cases r)
    case (Inl x)
    then show ?thesis using fr by (simp add: grantApproval_def va quiet_ticks quiet_storeI same_ledger_def)
  next
    case (Inr tokenID)
    let ?m = "m\<lparr>m_store := s, m_approvals := m_approvals m @ [(i, h, tokenID)]\<rparr>"
    have x: "executionOf ?m i = Some e" using e fr by (simp add: execOf_def same_ledger_def)
    have "tick d m ?m" using e rb h fr
      by (intro tick_grant [where e = e and rb = rb]) (auto simp: becomesD same_ledger_def)
    moreover have "(tick d)\<^sup>*\<^sup>* ?m (fst (grantApproval d now m e i h tok))"
      unfolding grantApproval_def va Inr Let_def prod.case sum.case using fr x h
      by (intro transition_record_ticks) (auto simp: edges_def status_defs)
    ultimately show ?thesis by (rule converse_rtranclp_into_rtranclp)
  qed
qed

lemma Approve_ticks:
  assumes inv: "Inv d m" shows "(tick d)\<^sup>*\<^sup>* m (fst (Approve d now m i h tok))"
  unfolding Approve_def
proof (rule andThen_ticks [OF quiet_ticks [OF get_execution_quiet]])
  fix m1 e
  assume "onStore m (\<lambda>s. GetExecution s i) = (m1, Inr e)"
  then have q1: "quiet m m1" and e: "executionOf m i = Some e" using get_execution_Inr by blast+
  have "(tick d)\<^sup>*\<^sup>* m1 (fst (andThen (validateHash d m1 e h) (\<lambda>m _. grantApproval d now m e i h tok)))"
    if st: "re_Status e = RemediationProposed"
  proof (rule andThen_ticks [OF quiet_ticks [OF validateHash_quiet]])
    fix m2 u
    assume v: "validateHash d m1 e h = (m2, Inr u)"
    obtain rb where "quiet m1 m2" and "verified d m1 e rb" and h: "h = re_RunbookHash e"
      using validateHash_Inr [OF v] by blast
    moreover from this have q: "quiet m m2" using q1 quiet_trans by blast
    ultimately show "(tick d)\<^sup>*\<^sup>* m2 (fst (grantApproval d now m2 e i h tok))"
      using quiet_keeps [of m1 m2] quiet_keeps [OF q] InvD(1) [OF inv] e st
      by (intro grantApproval_ticks [where rb = rb]) auto
  qed
  then show "(tick d)\<^sup>*\<^sup>* m1 (fst (if re_Status e = RemediationBlockedL3 then (m1, Inl ErrBlockedL3)
     else if re_Status e \<noteq> RemediationProposed then (m1, Inl (ErrInvalidState (re_Status e)))
     else andThen (validateHash d m1 e h) (\<lambda>m _. grantApproval d now m e i h tok)))" by simp
qed

lemma Decline_ticks:
  assumes "Inv d m" shows "(tick d)\<^sup>*\<^sup>* m (fst (Decline d now m i reason))"
  unfolding Decline_def
proof (rule andThen_ticks)
  show "(tick d)\<^sup>*\<^sup>* m (fst (onStore m (\<lambda>s. GetExecution s i)))"
    by (rule quiet_ticks [OF get_execution_quiet])
next
  fix m1 e
  assume "onStore m (\<lambda>s. GetExecution s i) = (m1, Inr e)"
  then have "wf_store (m_store m1)" using get_execution_Inr quiet_keeps(5) InvD(1) [OF assms] by blast
  then have "(tick d)\<^sup>*\<^sup>* m1 (fst (andThen (onStore m1 (\<lambda>s. TransitionExecution s i RemediationProposed
      RemediationDeclined now)) (\<lambda>m _. andThen (appendAudit now m x ty da) (\<lambda>m _.
      andThen (appendEvent d now m i ty' da) (\<lambda>m _. (m, r))))))" for x ty da ty' and r :: "rem_err + RemediationExecution"
    by (intro transition_record_ticks) (auto simp: edges_def status_defs)
  then show "(tick d)\<^sup>*\<^sup>* m1 (fst (if re_Status e \<noteq> RemediationProposed then (m1, Inl (ErrInvalidState (re_Status e)))
     else
       andThen (onStore m1 (\<lambda>s. TransitionExecution s i RemediationProposed RemediationDeclined now))
         (\<lambda>m _.
       let exec = e\<lparr>re_Status := RemediationDeclined, re_UpdatedAt := now\<rparr>;
           declined = JObj [(''reason'', JStr reason)] in
       andThen (appendAudit now m exec ''remediation.declined'' declined) (\<lambda>m _.
       andThen (appendEvent d now m i ''runbook_declined'' declined) (\<lambda>m _.
       (m, Inr exec))))))"
    by (simp add: Let_def)
qed

end

lemma runApproved_ticks:
  assumes inv: "Inv d m" and e: "executionOf m i = Some e" "re_Status e = RemediationApproved"
    and rb: "verified d m e rb" and idx: "re_ID exec = i"
    and won: "becomes m (map (moved i RemediationApproved RemediationExecuting now) (executions (m_store m)))
        (runbooks (m_store m)) (m_ran m) (m_approvals m) m1"
  shows "(tick d)\<^sup>*\<^sup>* m (fst (runApproved d now m1 exec rb))"
proof -
  let ?e = "moved i RemediationApproved RemediationExecuting now e"
  have t1: "tick d m m1" using won e by (intro tick_move) (auto simp: edges_def status_defs)
  have ie: "re_ID e = i" using e(1) execOf_id by blast
  have x1: "executionOf m1 i = Some ?e" using won e(1) execOf_moved [of "m_store m1"] by (simp add: becomesD)
  have st: "re_Status ?e = RemediationExecuting" using e ie by (simp add: moved_def)
  have v1: "verified d m1 ?e rb"
    using rb won verified_fields [of ?e e d m1 rb] by (simp add: becomesD moved_def verified_def)
  have "ranOf m i = []" using InvD(3) [OF inv e(1)] e(2) ie by (simp add: okExec_def)
  then have r1: "ranOf m1 i = allOk []" using won by (simp add: becomesD ranOf_def)
  have wf1: "wf_store (m_store m1)" using becomes_wf [OF won InvD(1) [OF inv]] .
  have k: "(tick d)\<^sup>*\<^sup>* m3 (fst (andThen (runSteps d now exec 0 (rb_Steps rb) m3) (\<lambda>m closed.
           case closed of Some exec \<Rightarrow> (m, Inr exec) | None \<Rightarrow> finishExecute d now m exec rb)))"
    if q: "quiet m1 m3" for m3
  proof -
    have s: "executionOf m3 (re_ID exec) = Some ?e" "verified d m3 ?e rb" "ranOf m3 (re_ID exec) = allOk []"
      "wf_store (m_store m3)"
      using quiet_keeps [OF q] x1 v1 r1 wf1 idx by auto
    note rs = runSteps_ticks [OF s(4) s(1) st s(2) _ s(3), of "rb_Steps rb" now 0, simplified]
    show ?thesis
    proof (rule andThen_ticks)
      fix m4 c
      assume c: "runSteps d now exec 0 (rb_Steps rb) m3 = (m4, Inr c)"
      show "(tick d)\<^sup>*\<^sup>* m4 (fst (case c of None \<Rightarrow> finishExecute d now m4 exec rb | Some exec \<Rightarrow> (m4, Inr exec)))"
        using rs c by (cases c) (auto intro: finishExecute_ticks)
    qed (use rs in blast)
  qed
  have "(tick d)\<^sup>*\<^sup>* m1 (fst (runApproved d now m1 exec rb))" unfolding runApproved_def Let_def
  proof (intro andThen_ticks [OF quiet_ticks [OF appendAudit_quiet]] andThen_ticks [OF quiet_ticks [OF appendEvent_quiet]] k)
    fix m2 u m3 v ty ty' da
    assume "appendAudit now m1 exec ty da = (m2, Inr u)" "appendEvent d now m2 (re_ID exec) ty' da = (m3, Inr v)"
    then show "quiet m1 m3"
      using appendAudit_quiet [of m1 now exec ty da] appendEvent_quiet [of m2 d now "re_ID exec" ty' da]
      by (auto intro: quiet_trans)
  qed
  with t1 show ?thesis by (rule converse_rtranclp_into_rtranclp)
qed

lemma startApproved_ticks:
  assumes inv: "Inv d m" and e: "executionOf m (re_ID e) = Some e" and st: "re_Status e = RemediationApproved"
    and rb: "verified d m e rb"
  shows "(tick d)\<^sup>*\<^sup>* m (fst (startApproved d now m e))"
  unfolding startApproved_def
proof (rule andThen_ticks [OF quiet_ticks [OF get_runbook_quiet]])
  fix m1 row
  assume "onStore m (\<lambda>s. GetRunbook s (re_RunbookID e)) = (m1, Inr row)"
  then have q: "quiet m m1" and row: "findRow rr_ID (re_RunbookID e) (runbooks (m_store m)) = Some row"
    using get_runbook_Inr by blast+
  have inv1: "Inv d m1" using Inv_ticks [OF quiet_ticks [OF q] inv] .
  have e1: "executionOf m1 (re_ID e) = Some e" and v1: "verified d m1 e rb"
    using e rb quiet_keeps [OF q] by auto
  have dec: "decodeRunbook (rr_Content row) = Inr rb"
    using rb row by (auto simp: verified_def decodeRunbook_def)
  obtain m2 r where t: "onStore m1 (\<lambda>s. TransitionExecution s (re_ID e) RemediationApproved RemediationExecuting now) = (m2, r)"
    by (cases "onStore m1 (\<lambda>s. TransitionExecution s (re_ID e) RemediationApproved RemediationExecuting now)")
  have "(tick d)\<^sup>*\<^sup>* m1 (fst (case (m2, r) of
       (m, Inl x) \<Rightarrow> if x \<noteq> RStore ErrConflict then (m, Inl x) else onStore m (\<lambda>s. GetExecution s (re_ID e))
     | (m, Inr _) \<Rightarrow> runApproved d now m (e\<lparr>re_Status := RemediationExecuting, re_UpdatedAt := now\<rparr>) rb))"
    using t InvD(1) [OF inv1]
  proof (cases rule: transition_cases)
    case (fail x)
    then show ?thesis using quiet_trans [OF fail(1) get_execution_quiet [of m2 "re_ID e"]]
      by (simp add: quiet_ticks)
  next
    case (won e')
    then show ?thesis by (simp add: runApproved_ticks [OF inv1 e1 st v1])
  qed
  then show "(tick d)\<^sup>*\<^sup>* m1 (fst (andThen (m1, decodeRunbook (rr_Content row)) (\<lambda>m rb.
     case onStore m (\<lambda>s. TransitionExecution s (re_ID e) RemediationApproved RemediationExecuting now) of
       (m, Inl e') \<Rightarrow> if e' \<noteq> RStore ErrConflict then (m, Inl e') else onStore m (\<lambda>s. GetExecution s (re_ID e))
     | (m, Inr _) \<Rightarrow> runApproved d now m (e\<lparr>re_Status := RemediationExecuting, re_UpdatedAt := now\<rparr>) rb)))"
    by (simp add: dec t)
qed

lemma Execute_ticks:
  assumes inv: "Inv d m" shows "(tick d)\<^sup>*\<^sup>* m (fst (Execute d now m i h))"
  unfolding Execute_def
proof (rule andThen_ticks [OF quiet_ticks [OF get_execution_quiet]],
    rule andThen_ticks [OF quiet_ticks [OF validateHash_quiet]])
  fix m1 e m2 u
  assume g: "onStore m (\<lambda>s. GetExecution s i) = (m1, Inr e)" and v: "validateHash d m1 e h = (m2, Inr u)"
  have e: "executionOf m i = Some e" and q1: "quiet m m1" using get_execution_Inr [OF g] by blast+
  obtain rb where q2: "quiet m1 m2" and rb: "verified d m1 e rb" using validateHash_Inr [OF v] by blast
  have q: "quiet m m2" using q1 q2 quiet_trans by blast
  have "(tick d)\<^sup>*\<^sup>* m2 (fst (startApproved d now m2 e))" if "re_Status e = RemediationApproved"
    using that e rb quiet_keeps [OF q] quiet_keeps [OF q2] execOf_id [OF e]
    by (intro startApproved_ticks [OF Inv_ticks [OF quiet_ticks [OF q] inv]]) auto
  then show "(tick d)\<^sup>*\<^sup>* m2 (fst (if re_Status e \<in> {RemediationExecuting, RemediationVerifying, RemediationResolved,
                            RemediationRemediationFailed} then (m2, Inr e)
     else if re_Status e \<noteq> RemediationApproved then (m2, Inl (ErrInvalidState (re_Status e)))
     else startApproved d now m2 e))" by simp
qed

lemma recoverLoop_ticks:
  assumes "wf_store (m_store m)" and "\<forall>e \<in> set es. re_Status e \<in> {RemediationExecuting, RemediationVerifying}"
  shows "(tick d)\<^sup>*\<^sup>* m (fst (recoverLoop d now rec es m))"
  using assms
proof (induction es arbitrary: m rec)
  case Nil
  then show ?case by simp
next
  case (Cons e es)
  have o: "(tick d)\<^sup>*\<^sup>* m (fst (recoverOne d now e m))" unfolding recoverOne_def Let_def
    using Cons.prems by (intro transition_record_ticks) (auto simp: edges_def status_defs)
  obtain m1 r where r: "recoverOne d now e m = (m1, r)" by (cases "recoverOne d now e m")
  show ?case
  proof (cases r)
    case (Inl x)
    with o r show ?thesis by simp
  next
    case (Inr x)
    have "wf_store (m_store m1)" using ticks_wf [OF o Cons.prems(1)] r by simp
    with Cons have "(tick d)\<^sup>*\<^sup>* m1 (fst (recoverLoop d now (rec @ [x]) es m1))" by simp
    with o r Inr show ?thesis by (auto intro: rtranclp_trans)
  qed
qed

lemma in_flight_Inr:
  assumes "onStore m InFlightExecutions = (m', Inr es)"
  shows "quiet m m'" and "es = sort_key re_CreatedAt (filter (\<lambda>e. re_Status e \<in>
      {RemediationExecuting, RemediationVerifying}) (executions (m_store m)))"
  using assms
  by (auto simp: onStore_Inr InFlightExecutions_def elim!: dbCallE intro!: quiet_storeI)

lemma in_flight_quiet: "quiet m (fst (onStore m InFlightExecutions))"
  by (rule onStore_quiet) (auto simp: InFlightExecutions_def elim!: dbCallE)

lemma RecoverInterrupted_ticks:
  assumes "wf_store (m_store m)" shows "(tick d)\<^sup>*\<^sup>* m (fst (RecoverInterrupted d now m))"
proof -
  obtain m1 r where g: "onStore m InFlightExecutions = (m1, r)" by (cases "onStore m InFlightExecutions")
  have q: "quiet m m1" using in_flight_quiet [of m] g by simp
  show ?thesis
  proof (cases r)
    case (Inl x)
    with g q show ?thesis by (simp add: RecoverInterrupted_def quiet_ticks)
  next
    case (Inr es)
    have "\<forall>e \<in> set es. re_Status e \<in> {RemediationExecuting, RemediationVerifying}"
      using in_flight_Inr(2) [OF g [unfolded Inr]] by auto
    with recoverLoop_ticks [of m1 es d now "[]"] quiet_keeps(5) [OF q assms] quiet_ticks [OF q, of d] g Inr
    show ?thesis by (simp add: RecoverInterrupted_def)
  qed
qed

lemma DeriveRollback_ticks: "(tick d)\<^sup>*\<^sup>* m (fst (DeriveRollback d now m i))"
proof -
  have lr: "quiet m (fst (loadRunbook m j))" for m :: "'a mgr" and j
    unfolding loadRunbook_def by (intro andThen_quiet get_runbook_quiet) simp
  have "quiet m (fst (onStore m (\<lambda>s. RemediationEventsAfter s j n)))" for m :: "'a mgr" and j n
    by (rule onStore_quiet) (auto simp: RemediationEventsAfter_def elim!: dbCallE)
  then have ss: "quiet m (fst (successfulSteps m j l))" for m :: "'a mgr" and j l
    unfolding successfulSteps_def by (intro andThen_quiet) simp_all
  show ?thesis unfolding DeriveRollback_def Let_def case_prod_unfold
    by (intro andThen_ticks [OF quiet_ticks [OF get_execution_quiet]] andThen_ticks [OF quiet_ticks [OF lr]]
        andThen_ticks [OF quiet_ticks [OF ss]] ticks_ifI propose_ticks) simp_all
qed

section \<open>Reachable states\<close>

datatype op =
    OpPropose time string string Runbook
  | OpApprove time string string string
  | OpDecline time string string
  | OpExecute time string string
  | OpRecover time
  | OpRollback time string

fun applyOp :: "'w deps \<Rightarrow> op \<Rightarrow> 'w mgr \<Rightarrow> 'w mgr" where
  "applyOp d (OpPropose now i inc rb) m = fst (Propose d now m i inc rb)"
| "applyOp d (OpApprove now i h tok) m = fst (Approve d now m i h tok)"
| "applyOp d (OpDecline now i reason) m = fst (Decline d now m i reason)"
| "applyOp d (OpExecute now i h) m = fst (Execute d now m i h)"
| "applyOp d (OpRecover now) m = fst (RecoverInterrupted d now m)"
| "applyOp d (OpRollback now i) m = fst (DeriveRollback d now m i)"

text \<open>
  A run starts on an empty ledger. Between two operations the environment may do anything that
  leaves the ledger alone: mint tokens, schedule other database failures, change the host.
\<close>

inductive reachable :: "'w deps \<Rightarrow> 'w mgr \<Rightarrow> bool" for d where
  start: "executions (m_store m) = [] \<Longrightarrow> wf_store (m_store m) \<Longrightarrow> m_ran m = [] \<Longrightarrow> m_approvals m = [] \<Longrightarrow>
    reachable d m"
| step: "reachable d m \<Longrightarrow> reachable d (applyOp d oper m)"
| env: "reachable d m \<Longrightarrow> quiet m m' \<Longrightarrow> reachable d m'"

context manager
begin

lemma applyOp_ticks: "Inv d m \<Longrightarrow> (tick d)\<^sup>*\<^sup>* m (applyOp d oper m)"
  by (cases oper) (auto simp: Propose_def intro: propose_ticks Approve_ticks Decline_ticks Execute_ticks
      RecoverInterrupted_ticks DeriveRollback_ticks InvD(1))

lemma reachable_Inv: "reachable d m \<Longrightarrow> Inv d m"
proof (induction rule: reachable.induct)
  case (start m)
  then show ?case by (intro InvI) (auto simp: execOf_def ranOf_def)
next
  case (step m oper)
  then show ?case using Inv_ticks [OF applyOp_ticks] by blast
next
  case (env m m')
  then show ?case using Inv_ticks [OF quiet_ticks] by blast
qed

end

text \<open>The server's wiring: the manager with the token-consuming validator.\<close>

definition serverDeps :: "(string \<Rightarrow> string) \<Rightarrow> 'w deps \<Rightarrow> 'w deps" where
  "serverDeps sha d = d\<lparr>d_validate := Validate sha\<rparr>"

lemma Validate_frame:
  assumes "wf_store s" and "Validate sha now s tok i h = (t, r)"
  shows "same_ledger s t \<and> wf_store t"
proof -
  obtain u v where g: "GetExecution s i = (u, v)" by (cases "GetExecution s i")
  then obtain fs where u: "u = s\<lparr>faults := fs\<rparr>" by (rule GetExecutionE)
  show ?thesis
  proof (cases v)
    case (Inl x)
    with assms g u show ?thesis by (auto simp: Validate_def)
  next
    case (Inr e)
    obtain a p f where b: "remediationTokenBinding (re_Kind e) (re_IncidentID e) h = (a, p, f)"
      by (cases "remediationTokenBinding (re_Kind e) (re_IncidentID e) h")
    obtain c y where c: "ConsumeToken sha now u tok a p f '''' = (c, y)"
      by (cases "ConsumeToken sha now u tok a p f ''''")
    have "t = c" using assms(2) g Inr b c by (auto simp: Validate_def split: sum.splits)
    moreover have "wf_store u" using assms(1) u by simp
    with c have "same_ledger u c \<and> wf_store c" by (cases rule: ConsumeTokenE) auto
    ultimately show ?thesis using u by (simp add: same_ledger_def)
  qed
qed

interpretation agent: manager "serverDeps sha d" for sha :: "string \<Rightarrow> string" and d :: "'w deps"
  by unfold_locales (simp add: serverDeps_def Validate_frame)

end
