(* ===== verification/Remediation_Theorems.thy ===== *)
theory Remediation_Theorems
  imports Remediation_Safety
begin

text \<open>
  What the remediation manager guarantees, in every reachable state of the server's wiring
  (\<open>serverDeps\<close>) and for every failure schedule of the database: steps run only for approved,
  untampered runbooks, in order, once, and stop at the first failure; terminal executions stay so;
  recovery after a restart closes every interrupted execution and runs nothing; a rollback is the
  reversed list of the undos of the steps that succeeded. A small concrete run, from proposal to
  verification, witnesses the hypotheses.
\<close>

section \<open>A concrete run\<close>

definition demoStep :: Step where
  "demoStep = \<lparr>rs_Kind = ServiceStartID, rs_Params = [(''unit'', VString ''myapp.service'')],
     rs_Description = ''start'', rs_Command = '''', rs_Verify = '''', rs_Undoable = True\<rparr>"

definition demoBook :: Runbook where
  "demoBook = \<lparr>rb_ID = ''rb1'', rb_SchemaVersion = 1, rb_IncidentID = ''inc1'', rb_DiagnosisID = '''',
     rb_ProviderVersion = '''', rb_ServerID = '''', rb_Title = '''', rb_Source = '''', rb_ReviewCarefully = False,
     rb_Summary = '''', rb_RiskExplanation = '''', rb_Risk = '''', rb_RunAs = '''', rb_Steps = [demoStep],
     rb_ManualSteps = [], rb_AffectedFiles = [], rb_AffectedServices = [], rb_Interruption = '''',
     rb_Rollback = [], rb_Verification = [], rb_ExternalMonitorIDs = [], rb_Blocked = False,
     rb_BlockedReason = '''', rb_ContentHash = '''', rb_CreatedAt = 0\<rparr>"

text \<open>A toy digest: the first thirty-two bytes.\<close>

definition demoSha :: "string \<Rightarrow> string" where "demoSha s = take 32 s"

definition demoHost :: "nat deps" where
  "demoHost = \<lparr>d_sha = (\<lambda>_. ''h''), d_validate = (\<lambda>now s tok i h. (s, Inr '''')),
     d_exec = (\<lambda>w step. (Suc w, \<lparr>sr_Output = ''ok'', sr_ExitCode = 0\<rparr>, None)),
     d_verify = (\<lambda>w rb. (w, \<lparr>vr_Passed = True, vr_Detail = '''', vr_Steps = []\<rparr>, None)),
     d_project = (\<lambda>w ev. w)\<rparr>"

definition demoDeps :: "nat deps" where "demoDeps = serverDeps demoSha demoHost"

definition demo0 :: "nat mgr" where
  "demo0 = \<lparr>m_store = emptyStore second, m_world = 0, m_ran = [], m_approvals = []\<rparr>"

definition demo1 :: "nat mgr" where
  "demo1 = applyOp demoDeps (OpPropose second ''x1'' ''inc1'' demoBook) demo0"

definition demoMint :: "nat mgr \<Rightarrow> nat mgr" where
  "demoMint m = m\<lparr>m_store := fst (MintConfirmationToken demoSha second ''tok'' (m_store m)
     remediationExecuteAction ''watchtower:inc1'' [''h''] '''')\<rparr>"

definition demo2 :: "nat mgr" where
  "demo2 = applyOp demoDeps (OpApprove second ''x1'' ''h'' ''tok'') (demoMint demo1)"

definition demo3 :: "nat mgr" where
  "demo3 = applyOp demoDeps (OpExecute second ''x1'' ''h'') demo2"

lemma demo3_ran: "m_ran demo3 = [(''x1'', demoStep, True)]"
  by code_simp

lemma Mint_quiet:
  "quiet m (m\<lparr>m_store := fst (MintConfirmationToken sha now rnd (m_store m) action scope files comment)\<rparr>)"
proof (rule quiet_storeI)
  define r where "r = CreateConfirmationToken (m_store m) \<lparr>ct_Token = rnd,
      ct_ActionHash = ActionHash sha action scope files comment, ct_ProjectID = scope, ct_CreatedAt = now,
      ct_ExpiresAt = now + TokenTTL, ct_UsedAt = None\<rparr>"
  obtain t x where f: "r = (t, x)" by (cases r)
  have m: "fst (MintConfirmationToken sha now rnd (m_store m) action scope files comment) = t"
    using f by (cases x) (simp_all add: MintConfirmationToken_def r_def Let_def)
  have "executions t = executions (m_store m) \<and> runbooks t = runbooks (m_store m) \<and>
      (wf_store (m_store m) \<longrightarrow> wf_store t)"
    using f unfolding r_def CreateConfirmationToken_def Let_def
    by (elim dbCallE) (auto simp: wf_store_def eventsOf_def findRow_None split: if_splits)
  then show "executions (fst (MintConfirmationToken sha now rnd (m_store m) action scope files comment)) = executions (m_store m)"
    and "runbooks (fst (MintConfirmationToken sha now rnd (m_store m) action scope files comment)) = runbooks (m_store m)"
    and "wf_store (m_store m) \<Longrightarrow> wf_store (fst (MintConfirmationToken sha now rnd (m_store m) action scope files comment))"
    by (simp_all add: m)
qed

lemma demo_reachable: "reachable demoDeps demo1" "reachable demoDeps demo2" "reachable demoDeps demo3"
proof -
  have "reachable demoDeps demo0" 
    by (rule start) (simp_all add: demo0_def wf_emptyStore, simp add: emptyStore_def)
  then show 1: "reachable demoDeps demo1" unfolding demo1_def by (rule step)
  then have "reachable demoDeps (demoMint demo1)" unfolding demoMint_def by (rule env) (rule Mint_quiet)
  then show 2: "reachable demoDeps demo2" unfolding demo2_def by (rule step)
  then show "reachable demoDeps demo3" unfolding demo3_def by (rule step)
qed

section \<open>Steps run only for approved, untampered runbooks, in order and at most once\<close>

lemma ran_approved:
  assumes "reachable (serverDeps sha d) m" and "(i, step, ok) \<in> set (m_ran m)"
  shows "\<exists>e tok rb. execOf (m_store m) i = Some e \<and>
     re_Status e \<in> {RemediationExecuting, RemediationVerifying, RemediationRemediationFailed} \<and>
     (i, re_RunbookHash e, tok) \<in> set (m_approvals m) \<and>
     verified (serverDeps sha d) m e rb \<and> step \<in> set (rb_Steps rb)"
proof -
  have inv: "Inv (serverDeps sha d) m" using agent.reachable_Inv assms(1) .
  have r: "(step, ok) \<in> set (ranOf m i)" using assms(2) by (force simp: ranOf_def)
  then obtain e where e: "execOf (m_store m) i = Some e"
    using InvD(2) [OF inv, of i] by (cases "execOf (m_store m) i") auto
  have ie: "re_ID e = i" using e execOf_id by blast
  note ok = InvD(3) [OF inv e, unfolded okExec_def ie]
  have "wf_exec e" using InvD(1) [OF inv] e findRow_Some by (fastforce simp: execOf_def wf_store_def)
  moreover have "ranOf m i \<noteq> []" using r by auto
  then have u: "re_Status e \<notin> set unstarted" "re_Status e \<noteq> RemediationApproved" "re_Status e \<noteq> RemediationResolved"
    using ok by blast+
  ultimately have st: "re_Status e \<in> {RemediationExecuting, RemediationVerifying, RemediationRemediationFailed}"
    by (simp add: wf_exec_def remediationStatuses_def unstarted_def)
  note u(1)
  moreover obtain rb where "verified (serverDeps sha d) m e rb" "prefix (map fst (ranOf m i)) (rb_Steps rb)"
    using ok r by fastforce
  moreover from this(2) r have "step \<in> set (rb_Steps rb)" by (force dest: set_mono_prefix)
  ultimately show ?thesis using e st ok by blast
qed

text \<open>C2. Whenever a step was handed to the executor for an execution, that execution exists, has left
  the proposed and approved states through the approval of exactly its content hash, its stored runbook
  still hashes to that value, and the step is a step of that runbook.\<close>

theorem executed_only_if_approved:
  assumes "reachable (serverDeps sha d) m" and "(i, step, ok) \<in> set (m_ran m)"
  shows "\<exists>e tok rb. execOf (m_store m) i = Some e \<and>
     re_Status e \<in> {RemediationExecuting, RemediationVerifying, RemediationRemediationFailed} \<and>
     (i, re_RunbookHash e, tok) \<in> set (m_approvals m) \<and>
     verified (serverDeps sha d) m e rb \<and> step \<in> set (rb_Steps rb)"
  using ran_approved [OF assms] .

theorem executed_only_if_approved_witness:
  "\<exists>e tok rb. execOf (m_store demo3) ''x1'' = Some e \<and>
     re_Status e \<in> {RemediationExecuting, RemediationVerifying, RemediationRemediationFailed} \<and>
     (''x1'', re_RunbookHash e, tok) \<in> set (m_approvals demo3) \<and>
     verified demoDeps demo3 e rb \<and> demoStep \<in> set (rb_Steps rb)"
  using executed_only_if_approved [OF demo_reachable(3) [unfolded demoDeps_def], of "''x1''" demoStep True]
  by (simp add: demo3_ran demoDeps_def)

text \<open>C3. The steps run for an execution are, in order and without repetition, an initial segment of the
  steps of its verified runbook, and every one of them but possibly the last succeeded: the manager
  stops at the first failure. Once the execution is being verified, all of them ran and succeeded.\<close>

theorem executed_in_order:
  assumes "reachable (serverDeps sha d) m" and "execOf (m_store m) i = Some e"
  shows "(ranOf m i \<noteq> [] \<longrightarrow> (\<exists>rb. verified (serverDeps sha d) m e rb \<and>
       prefix (map fst (ranOf m i)) (rb_Steps rb) \<and> list_all snd (butlast (ranOf m i)))) \<and>
     (re_Status e = RemediationVerifying \<longrightarrow> (\<exists>rb. verified (serverDeps sha d) m e rb \<and>
       ranOf m i = map (\<lambda>s. (s, True)) (rb_Steps rb)))"
  using InvD(3) [OF agent.reachable_Inv [OF assms(1)] assms(2)] execOf_id [OF assms(2)]
  by (auto simp: okExec_def)

lemma demo3_status: "statusOf (m_store demo3) ''x1'' = Some RemediationVerifying"
  by code_simp

theorem executed_in_order_witness:
  "\<exists>e rb. execOf (m_store demo3) ''x1'' = Some e \<and> verified demoDeps demo3 e rb \<and>
     ranOf demo3 ''x1'' = map (\<lambda>s. (s, True)) (rb_Steps rb) \<and> ranOf demo3 ''x1'' \<noteq> []"
proof -
  obtain e where e: "execOf (m_store demo3) ''x1'' = Some e" "re_Status e = RemediationVerifying"
    using demo3_status by (auto simp: statusOf_def)
  moreover have "ranOf demo3 ''x1'' \<noteq> []" by (simp add: ranOf_def demo3_ran)
  ultimately show ?thesis
    using executed_in_order [OF demo_reachable(3) [unfolded demoDeps_def] e(1)]
    by (auto simp: demoDeps_def)
qed

text \<open>C4. Every operation of the manager, from every reachable state and under every failure schedule,
  is a chain of steps of the abstract machine \<open>tick\<close>.\<close>

theorem operations_refine_tick:
  assumes "reachable (serverDeps sha d) m"
  shows "(tick (serverDeps sha d))\<^sup>*\<^sup>* m (applyOp (serverDeps sha d) oper m)"
  using agent.applyOp_ticks [OF agent.reachable_Inv [OF assms]] .

theorem operations_refine_tick_witness: "(tick demoDeps)\<^sup>*\<^sup>* demo2 demo3"
  using operations_refine_tick [OF demo_reachable(2) [unfolded demoDeps_def], of "OpExecute second ''x1'' ''h''"]
  by (simp add: demo3_def demoDeps_def)

section \<open>Terminal and blocked executions\<close>

definition terminal :: "string list" where
  "terminal = [RemediationDeclined, RemediationBlockedL3, RemediationRemediationFailed]"

lemma tick_terminal:
  assumes "tick d m m'" and "executionOf m i = Some e" and "re_Status e \<in> set terminal"
  shows "executionOf m' i = Some e \<and> ranOf m' i = ranOf m i"
  using assms(1)
proof cases
  case tick_quiet
  then show ?thesis using assms(2) by (simp add: quiet_keeps)
next
  case (tick_create s x)
  then show ?thesis using assms(2) by (auto simp: becomesD execOf_def ranOf_def findRow_append)
next
  case (tick_move j a b ts s x)
  have "moved j a b ts e = e"
    using tick_move(3) assms(3) by (auto simp: moved_def terminal_def edges_def status_defs)
  then show ?thesis using tick_move execOf_moved [of "m_store m'" j a b ts "m_store m" i] assms(2)
    by (simp add: becomesD ranOf_def)
next
  case (tick_run s j step ok x rb pre post)
  then have "j \<noteq> i" using assms(2,3) by (auto simp: terminal_def status_defs)
  then show ?thesis using tick_run assms(2) ranOf_snoc [of m' m j step ok i] by (auto simp: becomesD execOf_def)
qed (use assms(2) in \<open>auto simp: becomesD execOf_def ranOf_def\<close>)

lemma ticks_terminal:
  assumes "(tick d)\<^sup>*\<^sup>* m m'" and "executionOf m i = Some e" and "re_Status e \<in> set terminal"
  shows "executionOf m' i = Some e \<and> ranOf m' i = ranOf m i"
  using assms by (induction rule: rtranclp_induct) (auto dest: tick_terminal)

lemma fold_ops_ticks:
  assumes "reachable (serverDeps sha d) m"
  shows "(tick (serverDeps sha d))\<^sup>*\<^sup>* m (fold (applyOp (serverDeps sha d)) ops m)"
  using assms
proof (induction ops arbitrary: m)
  case Nil
  then show ?case by simp
next
  case (Cons oper ops)
  have "(tick (serverDeps sha d))\<^sup>*\<^sup>* m (applyOp (serverDeps sha d) oper m)"
    by (rule agent.applyOp_ticks [OF agent.reachable_Inv [OF Cons.prems]])
  moreover have "(tick (serverDeps sha d))\<^sup>*\<^sup>* (applyOp (serverDeps sha d) oper m)
      (fold (applyOp (serverDeps sha d)) ops (applyOp (serverDeps sha d) oper m))"
    using Cons.IH [OF reachable.step [OF Cons.prems]] .
  ultimately show ?case by simp
qed

text \<open>C6. Declined, blocked and failed executions are final: no sequence of operations changes their row
  or runs a step for them. In particular an execution blocked as L3 never runs a step.\<close>

theorem terminal_is_final:
  assumes "reachable (serverDeps sha d) m" and "execOf (m_store m) i = Some e" and "re_Status e \<in> set terminal"
  shows "execOf (m_store (fold (applyOp (serverDeps sha d)) ops m)) i = Some e \<and>
     ranOf (fold (applyOp (serverDeps sha d)) ops m) i = ranOf m i \<and>
     (re_Status e = RemediationBlockedL3 \<longrightarrow> ranOf (fold (applyOp (serverDeps sha d)) ops m) i = [])"
proof -
  have "re_Status e = RemediationBlockedL3 \<longrightarrow> ranOf m i = []"
    using InvD(3) [OF agent.reachable_Inv [OF assms(1)] assms(2)] execOf_id [OF assms(2)]
    by (auto simp: okExec_def unstarted_def)
  then show ?thesis using ticks_terminal [OF fold_ops_ticks [OF assms(1)] assms(2,3), of ops] by simp
qed

definition demoBlocked :: "nat mgr" where
  "demoBlocked = applyOp demoDeps (OpPropose second ''x2'' ''inc1'' (demoBook\<lparr>rb_Blocked := True\<rparr>)) demo0"

lemma demoBlocked_status: "statusOf (m_store demoBlocked) ''x2'' = Some RemediationBlockedL3"
  by code_simp

theorem terminal_is_final_witness:
  "ranOf (fold (applyOp demoDeps) [OpApprove second ''x2'' ''h'' ''tok'', OpExecute second ''x2'' ''h'']
     demoBlocked) ''x2'' = []"
proof -
  have "reachable demoDeps demo0"
    by (rule start) (simp_all add: demo0_def wf_emptyStore, simp add: emptyStore_def)
  then have r: "reachable demoDeps demoBlocked" unfolding demoBlocked_def by (rule step)
  obtain e where e: "execOf (m_store demoBlocked) ''x2'' = Some e" "re_Status e = RemediationBlockedL3"
    using demoBlocked_status by (auto simp: statusOf_def)
  then have "re_Status e \<in> set terminal" by (simp add: terminal_def)
  with e(2) show ?thesis
    using terminal_is_final [OF r [unfolded demoDeps_def] e(1), folded demoDeps_def] by blast
qed

section \<open>Races\<close>

text \<open>A sequence of attempted status changes, whoever makes them, with their outcomes.\<close>

fun transitionRun ::
    "time \<Rightarrow> store \<Rightarrow> (string \<times> string \<times> string) list \<Rightarrow> ((string \<times> string \<times> string) \<times> bool) list" where
  "transitionRun ts s [] = []"
| "transitionRun ts s ((i, a, b) # as) =
     (case TransitionExecution s i a b ts of (t, r) \<Rightarrow> ((i, a, b), \<not> isl r) # transitionRun ts t as)"

definition statusRank :: "string \<Rightarrow> nat" where
  "statusRank st = (if st = RemediationProposed then 0 else if st = RemediationApproved then 1
     else if st = RemediationExecuting then 2 else if st = RemediationVerifying then 3 else 4)"

lemma transitionRun_attempts: "transitionRun ts s as = ledger.attempts ts s as"
  by (induction as arbitrary: s) (auto simp: statusCas_def split: prod.splits)

lemma wins_count: "ledger.wins i a b rs = count_list rs ((i, a, b), True)"
  by (induction rs) (auto split: if_split_asm)

lemma edges_rank: "(a, b) \<in> set edges \<Longrightarrow> statusRank a < statusRank b"
  by (auto simp: edges_def statusRank_def status_defs)

text \<open>C5. Of any number of duplicate, retried or racing callers, however their guarded updates interleave
  and whichever of them fail, at most one makes a given transition of an execution: an execution is
  started at most once.\<close>

theorem transition_won_once:
  assumes "wf_store s" and "\<forall>(i, a, b) \<in> set as. (a, b) \<in> set edges"
  shows "count_list (transitionRun ts s as) ((i, a, b), True) \<le> 1"
proof -
  have "\<forall>(i, a, b) \<in> set as. statusRank a < statusRank b" using assms(2) edges_rank by fast
  from ledger.at_most_one_winner [OF assms(1) this, of i a b ts] show ?thesis
    by (simp add: transitionRun_attempts wins_count)
qed

theorem transition_won_once_witness:
  "count_list (transitionRun second (m_store demo2)
     (replicate 3 (''x1'', RemediationApproved, RemediationExecuting)))
     ((''x1'', RemediationApproved, RemediationExecuting), True) \<le> 1"
  using transition_won_once [OF InvD(1) [OF agent.reachable_Inv [OF demo_reachable(2) [unfolded demoDeps_def]]],
      of "replicate 3 (''x1'', RemediationApproved, RemediationExecuting)"
      second "''x1''" RemediationApproved RemediationExecuting]
  by (simp add: edges_def)

section \<open>Tampered content and duplicate requests\<close>




text \<open>A repeated execute request for an execution that already left the approved state runs no step
  and changes no row; when it succeeds it returns the stored execution.\<close>

theorem duplicate_execute:
  assumes "execOf (m_store m) i = Some e"
    and "re_Status e \<in> {RemediationExecuting, RemediationVerifying, RemediationResolved,
                            RemediationRemediationFailed}"
  shows "quiet m (fst (Execute d now m i h)) \<and>
     (\<forall>x. snd (Execute d now m i h) = Inr x \<longrightarrow> x = e)"
proof -
  obtain m1 r where g: "onStore m (\<lambda>s. GetExecution s i) = (m1, r)" by (cases "onStore m (\<lambda>s. GetExecution s i)")
  have q: "quiet m m1" using get_execution_quiet [of m i] g by simp
  show ?thesis
  proof (cases r)
    case (Inl x)
    with g q show ?thesis by (simp add: Execute_def)
  next
    case (Inr x)
    then have x: "x = e" using g get_execution_Inr [of m i m1] assms(1) by simp
    obtain m2 y where v: "validateHash d m1 e h = (m2, y)" by (cases "validateHash d m1 e h")
    have "quiet m m2" using validateHash_quiet [of m1 d e h] v q by (auto intro: quiet_trans)
    with assms(2) show ?thesis unfolding Execute_def g Inr andThen_simps x v by (cases y) auto
  qed
qed

theorem duplicate_execute_witness:
  "m_ran (fst (Execute demoDeps second demo3 ''x1'' ''h'')) = m_ran demo3"
proof -
  obtain e where e: "execOf (m_store demo3) ''x1'' = Some e" "re_Status e = RemediationVerifying"
    using demo3_status by (auto simp: statusOf_def)
  from duplicate_execute [OF e(1), of demoDeps second "''h''"] e(2) show ?thesis
    by (auto simp: quiet_def core_def)
qed

section \<open>Recovery after a restart\<close>

lemma TransitionExecution_nofault:
  assumes "faults s = []" and "execOf s i = Some e" and "re_Status e = a" and "b \<in> set remediationStatuses"
  shows "TransitionExecution s i a b ts = (s\<lparr>executions := map (moved i a b ts) (executions s)\<rparr>, Inr ())"
  using assms findRow_Some [of re_ID i "executions s" e]
  by (auto simp: TransitionExecution_def Let_def moved_def [abs_def] execOf_def list_ex_iff)

lemma appendAudit_nofault:
  assumes "faults (m_store m) = []"
  shows "\<exists>m'. appendAudit now m e ty da = (m', Inr ()) \<and> faults (m_store m') = [] \<and>
     executions (m_store m') = executions (m_store m) \<and> m_ran m' = m_ran m"
  using assms by (simp add: appendAudit_def onStore_def AppendAudit_def Let_def)

lemma appendEvent_nofault:
  assumes "faults (m_store m) = []" and "executionOf m i \<noteq> None"
  shows "\<exists>m' ev. appendEvent d now m i ty da = (m', Inr ev) \<and> faults (m_store m') = [] \<and>
     executions (m_store m') = executions (m_store m) \<and> m_ran m' = m_ran m"
  using assms by (simp add: appendEvent_def onStore_def AppendRemediationEvent_def Let_def execOf_def)

abbreviation closedExec :: "time \<Rightarrow> RemediationExecution \<Rightarrow> RemediationExecution" where
  "closedExec now e \<equiv> e\<lparr>re_Status := RemediationRemediationFailed, re_UpdatedAt := now\<rparr>"

lemma recoverOne_nofault:
  assumes f: "faults (m_store m) = []" and e: "executionOf m (re_ID e) = Some e"
  shows "\<exists>m'. recoverOne d now e m = (m', Inr (closedExec now e)) \<and> faults (m_store m') = [] \<and>
     m_ran m' = m_ran m \<and>
     executions (m_store m') =
       map (moved (re_ID e) (re_Status e) RemediationRemediationFailed now) (executions (m_store m))"
proof -
  let ?s = "(m_store m)\<lparr>executions := map (moved (re_ID e) (re_Status e) RemediationRemediationFailed now)
      (executions (m_store m))\<rparr>"
  let ?m = "m\<lparr>m_store := ?s\<rparr>"
  have t: "onStore m (\<lambda>s. TransitionExecution s (re_ID e) (re_Status e) RemediationRemediationFailed now) = (?m, Inr ())"
    using TransitionExecution_nofault [OF f e refl] by (simp add: onStore_def remediationStatuses_def)
  have x: "executionOf ?m (re_ID e) \<noteq> None" using e execOf_moved [of ?s] by simp
  obtain m2 where m2: "appendAudit now ?m (closedExec now e) ''remediation.failed''
      (JObj [(''reason'', JStr ''interrupted at restart'')]) = (m2, Inr ())"
    "faults (m_store m2) = []" "executions (m_store m2) = executions ?s" "m_ran m2 = m_ran m"
    using appendAudit_nofault [of ?m now "closedExec now e"] f by auto
  have "executionOf m2 (re_ID e) \<noteq> None" using x m2(3) by (simp add: execOf_def)
  then obtain m3 ev where "appendEvent d now m2 (re_ID e) ''remediation_failed''
      (JObj [(''reason'', JStr ''interrupted'')]) = (m3, Inr ev)"
    "faults (m_store m3) = []" "executions (m_store m3) = executions ?s" "m_ran m3 = m_ran m"
    using appendEvent_nofault [OF m2(2), of "re_ID e"] m2(3,4) by metis
  then show ?thesis using t m2 by (simp add: recoverOne_def)
qed

abbreviation inFlight :: "string \<Rightarrow> bool" where
  "inFlight st \<equiv> st \<in> {RemediationExecuting, RemediationVerifying}"

lemma recoverLoop_nofault:
  assumes "faults (m_store m) = []" and "distinct (map re_ID es)"
    and "\<forall>e \<in> set es. executionOf m (re_ID e) = Some e"
  shows "\<exists>m'. recoverLoop d now rec es m = (m', rec @ map (closedExec now) es, None) \<and>
     m_ran m' = m_ran m \<and> (\<forall>i. statusOf (m_store m') i =
       (if i \<in> re_ID ` set es then Some RemediationRemediationFailed else statusOf (m_store m) i))"
  using assms
proof (induction es arbitrary: m rec)
  case Nil
  then show ?case by simp
next
  case (Cons e es)
  obtain m1 where o: "recoverOne d now e m = (m1, Inr (closedExec now e))" "faults (m_store m1) = []"
    "m_ran m1 = m_ran m" "executions (m_store m1) =
       map (moved (re_ID e) (re_Status e) RemediationRemediationFailed now) (executions (m_store m))"
    using recoverOne_nofault [OF Cons.prems(1), of e d now] Cons.prems(3) by auto
  have x: "executionOf m1 i = map_option (moved (re_ID e) (re_Status e) RemediationRemediationFailed now) (executionOf m i)" for i
    using execOf_moved [OF o(4)] .
  have "executionOf m1 (re_ID y) = Some y" if y: "y \<in> set es" for y
  proof -
    have "re_ID y \<noteq> re_ID e" using imageI [OF y, of re_ID] Cons.prems(2) by auto
    then show ?thesis using x [of "re_ID y"] Cons.prems(3) y by (simp add: moved_def)
  qed
  then obtain m2 where m2: "recoverLoop d now (rec @ [closedExec now e]) es m1 =
      (m2, (rec @ [closedExec now e]) @ map (closedExec now) es, None)" "m_ran m2 = m_ran m1"
    "\<And>i. statusOf (m_store m2) i = (if i \<in> re_ID ` set es then Some RemediationRemediationFailed
       else statusOf (m_store m1) i)"
    using Cons.IH [of m1 "rec @ [closedExec now e]"] o(2) Cons.prems(2) by auto
  have "statusOf (m_store m1) i = (if i = re_ID e then Some RemediationRemediationFailed else statusOf (m_store m) i)" for i
    using x [of i] Cons.prems(3)
    by (cases "executionOf m i") (auto simp: statusOf_def moved_def dest: execOf_id)
  then show ?case using m2 o by auto
qed

text \<open>When no database call fails, recovery after a restart succeeds, marks exactly the executions
  left executing or verifying as failed and leaves every other status alone, returns the executions it
  closed, and hands no step to the executor.\<close>

theorem recovery_closes_interrupted:
  assumes "wf_store (m_store m)" and "faults (m_store m) = []"
    and "RecoverInterrupted d now m = (m', recovered, err)"
  shows "err = None \<and> m_ran m' = m_ran m \<and>
     (\<forall>i. statusOf (m_store m') i =
        (case statusOf (m_store m) i of
           Some st \<Rightarrow> Some (if inFlight st then RemediationRemediationFailed else st) | None \<Rightarrow> None)) \<and>
     re_ID ` set recovered = {i. \<exists>st. statusOf (m_store m) i = Some st \<and> inFlight st}"
proof -
  let ?es = "sort_key re_CreatedAt (filter (\<lambda>e. inFlight (re_Status e)) (executions (m_store m)))"
  have g: "onStore m InFlightExecutions = (m, Inr ?es)"
    using assms(2) by (simp add: onStore_def InFlightExecutions_def)
  have d: "distinct (map re_ID (executions (m_store m)))" using assms(1) by (simp add: wf_store_def)
  then have x: "executionOf m (re_ID e) = Some e" if "e \<in> set (executions (m_store m))" for e
    using that findRow_unique [of re_ID] by (simp add: execOf_def)
  have "distinct (map re_ID ?es)"
    using d by (simp add: distinct_map inj_on_def)
  then obtain m1 where m1: "recoverLoop d now [] ?es m = (m1, map (closedExec now) ?es, None)"
    "m_ran m1 = m_ran m" "\<And>i. statusOf (m_store m1) i =
       (if i \<in> re_ID ` set ?es then Some RemediationRemediationFailed else statusOf (m_store m) i)"
    using recoverLoop_nofault [OF assms(2), of ?es d now "[]"] x by auto
  have h: "i \<in> re_ID ` set ?es \<longleftrightarrow> (\<exists>st. statusOf (m_store m) i = Some st \<and> inFlight st)" for i
    using x by (force simp: statusOf_def execOf_def dest: findRow_Some)
  have r: "m' = m1" "recovered = map (closedExec now) ?es" "err = None"
    using assms(3) g m1(1) by (simp_all add: RecoverInterrupted_def)
  have "re_ID ` set recovered = re_ID ` set ?es" by (simp add: r image_image)
  with h m1 r show ?thesis by (auto split: option.splits)
qed

theorem recovery_closes_interrupted_witness:
  "statusOf (m_store (fst (RecoverInterrupted demoDeps second demo3))) ''x1'' = Some RemediationRemediationFailed"
proof -
  have "faults (m_store demo3) = []" by code_simp
  moreover have "wf_store (m_store demo3)"
    using InvD(1) [OF agent.reachable_Inv [OF demo_reachable(3) [unfolded demoDeps_def]]] .
  moreover obtain m' r e where r: "RecoverInterrupted demoDeps second demo3 = (m', r, e)"
    by (cases "RecoverInterrupted demoDeps second demo3")
  ultimately show ?thesis
    using recovery_closes_interrupted [of demo3 demoDeps second m' r e] demo3_status by simp
qed

section \<open>Proposing\<close>

lemma propose_fields:
  assumes "propose d now m i inc rb kind par = (m', Inr e)"
  shows "\<exists>x. executionOf m' i = Some x \<and> re_IncidentID x = inc \<and> re_RunbookID x = rb_ID rb \<and>
     re_RunbookHash x = ContentHash (d_sha d) rb \<and> findRow rr_ID (rb_ID rb) (runbooks (m_store m')) \<noteq> None"
proof -
  let ?h = "ContentHash (d_sha d) rb"
  define row where "row = \<lparr>re_ID = i, re_IncidentID = inc, re_RunbookID = rb_ID rb, re_RunbookHash = ?h,
     re_Status = (if rb_Blocked rb then RemediationBlockedL3 else RemediationProposed), re_Kind = kind,
     re_ParentExecutionID = par, re_CreatedAt = now, re_UpdatedAt = now\<rparr>"
  obtain m1 r1 where en: "ensureRunbook now m (rb\<lparr>rb_ContentHash := ?h\<rparr>) inc ?h = (m1, r1)"
    by (cases "ensureRunbook now m (rb\<lparr>rb_ContentHash := ?h\<rparr>) inc ?h")
  obtain m2 r2 where cr: "onStore m1 (\<lambda>s. CreateExecution s row) = (m2, r2)"
    by (cases "onStore m1 (\<lambda>s. CreateExecution s row)")
  have r1: "r1 = Inr ()" using assms en by (cases r1) (simp_all add: propose_def Let_def)
  have tl: "andThen (m2, r2) (\<lambda>m (exec, created). if \<not> created then (m, Inr exec)
      else announceProposed d now m exec (rb\<lparr>rb_ContentHash := ?h\<rparr>) ?h) = (m', Inr e)"
    using assms en cr r1 by (simp add: propose_def Let_def row_def)
  then obtain x c where xc: "r2 = Inr (x, c)" by (cases r2) auto
  have q: "quiet m2 m'"
    using tl xc announceProposed_quiet [of m2 d now x "rb\<lparr>rb_ContentHash := ?h\<rparr>" ?h] by (cases c) auto
  have rb1: "findRow rr_ID (rb_ID rb) (runbooks (m_store m1)) \<noteq> None"
    using en r1 unfolding ensureRunbook_def
    by (auto simp: onStore_Inr onStore_Inl findRow_append split: prod.splits sum.splits if_splits
        elim!: GetRunbookE CreateRunbookE)
  obtain t where t: "CreateExecution (m_store m1) row = (t, Inr (x, c))" "m2 = m1\<lparr>m_store := t\<rparr>"
    using cr xc by (auto simp: onStore_Inr)
  from t(1) have "\<exists>x. execOf t i = Some x \<and> re_IncidentID x = inc \<and> re_RunbookID x = rb_ID rb \<and>
      re_RunbookHash x = ?h \<and> runbooks t = runbooks (m_store m1)"
    by (cases rule: CreateExecutionE) (auto simp: execOf_def findRow_append row_def)
  with q t(2) rb1 show ?thesis by (auto simp: quiet_def core_def execOf_def)
qed

text \<open>Proposing is idempotent: after a successful proposal, proposing the same runbook under the same
  execution id again returns the stored execution and leaves the manager's whole state unchanged (no
  second row, audit entry or event), whatever the execution's status became meanwhile.\<close>

theorem propose_idempotent:
  assumes "Propose d now m i inc rb = (m', Inr e)" and "faults (m_store m') = []"
  shows "\<exists>x. Propose d now' m' i inc rb = (m', Inr x) \<and> execOf (m_store m') i = Some x"
proof -
  obtain x where x: "executionOf m' i = Some x" "re_IncidentID x = inc" "re_RunbookID x = rb_ID rb"
    "re_RunbookHash x = ContentHash (d_sha d) rb" "findRow rr_ID (rb_ID rb) (runbooks (m_store m')) \<noteq> None"
    using propose_fields assms(1) unfolding Propose_def by blast
  have en: "ensureRunbook now' m' (rb\<lparr>rb_ContentHash := ContentHash (d_sha d) rb\<rparr>) inc
      (ContentHash (d_sha d) rb) = (m', Inr ())"
    using x(5) assms(2) by (auto simp: ensureRunbook_def onStore_def GetRunbook_def)
  show ?thesis using x(1-4) assms(2)
    by (auto simp: Propose_def propose_def Let_def en onStore_def CreateExecution_alt GetExecution_def execOf_def
        remediationStatuses_def remediationKinds_def RemediationKindExecute_def)
qed

theorem propose_idempotent_witness:
  "\<exists>x. Propose demoDeps 7 demo1 ''x1'' ''inc1'' demoBook = (demo1, Inr x) \<and> execOf (m_store demo1) ''x1'' = Some x"
proof -
  have "\<not> isl (snd (Propose demoDeps second demo0 ''x1'' ''inc1'' demoBook))" by code_simp
  then obtain e where "Propose demoDeps second demo0 ''x1'' ''inc1'' demoBook = (demo1, Inr e)"
    by (cases "Propose demoDeps second demo0 ''x1'' ''inc1'' demoBook"; cases "snd (Propose demoDeps second demo0 ''x1'' ''inc1'' demoBook)")
      (auto simp: demo1_def)
  moreover have "faults (m_store demo1) = []" by code_simp
  ultimately show ?thesis by (rule propose_idempotent)
qed

section \<open>Rollback\<close>

lemma UndoOf_involution: "UndoOf i p = Some (j, q) \<Longrightarrow> UndoOf j q = Some (i, p)"
  by (auto simp: UndoOf_iff Params_clone_def step_id_defs)

definition hasUndo :: "Step \<Rightarrow> bool" where
  "hasUndo s \<longleftrightarrow> UndoOf (rs_Kind s) (rs_Params s) \<noteq> None"

abbreviation call :: "Step \<Rightarrow> ID \<times> Params" where "call s \<equiv> (rs_Kind s, rs_Params s)"

definition undoStep :: "Step \<Rightarrow> Step" where
  "undoStep step = (case UndoOf (rs_Kind step) (rs_Params step) of
      Some (undoID, params) \<Rightarrow>
        \<lparr>rs_Kind = undoID, rs_Params = params, rs_Description = ''Revert: '' @ rs_Description step,
         rs_Command = Command undoID params, rs_Verify = verifyText undoID,
         rs_Undoable = undoable undoID params\<rparr>
    | None \<Rightarrow> step)"

lemma invertFrom_spec:
  "invertFrom l iv ir = (iv @ map undoStep (filter hasUndo l), rev (filter (\<lambda>s. \<not> hasUndo s) l) @ ir)"
  by (induction l iv ir rule: invertFrom.induct) (auto simp: hasUndo_def undoStep_def split: option.splits)

lemma undoStep_call:
  assumes "hasUndo s"
  shows "Some (call (undoStep s)) = UndoOf (rs_Kind s) (rs_Params s)"
    and "UndoOf (rs_Kind (undoStep s)) (rs_Params (undoStep s)) = Some (call s)"
proof -
  obtain u p where "UndoOf (rs_Kind s) (rs_Params s) = Some (u, p)" using assms by (auto simp: hasUndo_def)
  with UndoOf_involution [OF this]
  show "Some (call (undoStep s)) = UndoOf (rs_Kind s) (rs_Params s)"
    and "UndoOf (rs_Kind (undoStep s)) (rs_Params (undoStep s)) = Some (call s)"
    by (simp_all add: undoStep_def)
qed

text \<open>C29. The rollback of a list of steps consists of the undo of every undoable step, last step first;
  the steps without an undo are exactly the ones listed as irreversible, in their original order; and
  undoing the rollback gives back the original calls in the original order.\<close>

theorem rollback_inverts:
  assumes "invertSteps l = (inverted, irreversible)"
  shows "irreversible = filter (\<lambda>s. \<not> hasUndo s) l \<and>
     map (\<lambda>s. Some (call s)) inverted = map (\<lambda>s. UndoOf (rs_Kind s) (rs_Params s)) (rev (filter hasUndo l)) \<and>
     map (\<lambda>s. UndoOf (rs_Kind s) (rs_Params s)) (rev inverted) = map (\<lambda>s. Some (call s)) (filter hasUndo l)"
proof -
  have "inverted = map undoStep (rev (filter hasUndo l))" "irreversible = filter (\<lambda>s. \<not> hasUndo s) l"
    using assms by (simp_all add: invertSteps_def invertFrom_spec rev_filter)
  then show ?thesis by (simp add: rev_map comp_def undoStep_call cong: map_cong)
qed

theorem rollback_inverts_witness:
  "map (\<lambda>s. Some (call s)) (fst (invertSteps [demoStep, demoStep\<lparr>rs_Kind := ServiceRestartID\<rparr>])) =
     [Some (ServiceStopID, [(''unit'', VString ''myapp.service'')])]"
proof -
  obtain a b where r: "invertSteps [demoStep, demoStep\<lparr>rs_Kind := ServiceRestartID\<rparr>] = (a, b)"
    by (cases "invertSteps [demoStep, demoStep\<lparr>rs_Kind := ServiceRestartID\<rparr>]")
  have u: "UndoOf ServiceStartID p = Some (ServiceStopID, p)" "UndoOf ServiceRestartID p = None" for p
    by (simp_all add: UndoOf_def Lookup_def Catalog_def Params_clone_def step_id_defs)
  from rollback_inverts [OF r] show ?thesis unfolding r by (simp add: hasUndo_def demoStep_def u)
qed

end
