(* ===== verification/Approval_Theorems.thy ===== *)
theory Approval_Theorems
  imports Review_Tokens Runbook_Model "HOL-Library.Multiset"
begin

text \<open>
  What an approval guarantees (\<^verbatim>\<open>internal/review/review.go\<close>, \<^verbatim>\<open>internal/server/remediation.go\<close>,
  \<^verbatim>\<open>internal/runbook/runbook.go\<close>): a confirmation token is accepted at most once, only while it is fresh
  and only for the action, incident and content it was minted for; and the content hash it carries
  stands for the executable part of the runbook and survives the runbook's storage.
\<close>

section \<open>A token is used once\<close>

definition demoToken :: ConfirmationToken where
  "demoToken = \<lparr>ct_Token = ''tok'', ct_ActionHash = ActionHash (take 64) ''act'' ''scope'' [''b'', ''a''] '''',
     ct_ProjectID = ''scope'', ct_CreatedAt = second, ct_ExpiresAt = 301 * second, ct_UsedAt = None\<rparr>"

definition tokenStore :: store where
  "tokenStore = (emptyStore second)\<lparr>tokens := [demoToken]\<rparr>"

lemma wf_tokenStore: "wf_store tokenStore"
  by (simp add: tokenStore_def emptyStore_def wf_store_def eventsOf_def)

text \<open>C8. A confirmation token is accepted at most once, however many requests present it, for whatever
  actions, at whatever times, and whichever database calls fail.\<close>

theorem token_single_use: "wf_store s \<Longrightarrow> accepted k (consumeAll sha s qs) \<le> 1"
  by (rule accepted_le_1)

theorem token_single_use_witness:
  "wf_store tokenStore \<and>
   map snd (consumeAll (take 64) tokenStore
     [(second, ''tok'', ''act'', ''scope'', [''a'', ''b''], ''''),
      (second, ''tok'', ''act'', ''scope'', [''a'', ''b''], '''')]) = [True, False] \<and>
   accepted ''tok'' (consumeAll (take 64) tokenStore
     [(second, ''tok'', ''act'', ''scope'', [''a'', ''b''], ''''),
      (second, ''tok'', ''act'', ''scope'', [''a'', ''b''], '''')]) \<le> 1"
proof (intro conjI)
  show "map snd (consumeAll (take 64) tokenStore
     [(second, ''tok'', ''act'', ''scope'', [''a'', ''b''], ''''),
      (second, ''tok'', ''act'', ''scope'', [''a'', ''b''], '''')]) = [True, False]" by code_simp
qed (rule wf_tokenStore, rule token_single_use [OF wf_tokenStore])

section \<open>A minted token is accepted\<close>

lemma sort_perm: "mset xs = mset ys \<Longrightarrow> sort xs = sort ys" for xs ys :: "'a :: linorder list"
  by (metis mset_sort properties_for_sort sorted_sort)

lemma Mint_tokenOf:
  assumes "MintConfirmationToken sha now k s action scope files comment = (t, Inr tok)" and "wf_store s"
  shows "distinct (map ct_Token (tokens t)) \<and> tokenOf t k = Some
     \<lparr>ct_Token = k, ct_ActionHash = ActionHash sha action scope files comment,
      ct_ProjectID = scope, ct_CreatedAt = stored (if IsZero now then wallClock s else now),
      ct_ExpiresAt = stored (now + TokenTTL), ct_UsedAt = None\<rparr>"
proof -
  let ?tok = "\<lparr>ct_Token = k, ct_ActionHash = ActionHash sha action scope files comment,
      ct_ProjectID = scope, ct_CreatedAt = now, ct_ExpiresAt = now + TokenTTL, ct_UsedAt = None\<rparr>"
  obtain r where "CreateConfirmationToken s ?tok = (t, r)" and r: "\<not> isl r"
    using assms by (auto simp: MintConfirmationToken_def Let_def andThen_def split: prod.splits sum.splits)
  then show ?thesis unfolding CreateConfirmationToken_def Let_def
  proof (cases rule: dbCallE)
    case (fault fs)
    with r show ?thesis by simp
  next
    case (run fs)
    with r have n: "findRow ct_Token k (tokens s) = None" by (auto split: if_splits)
    with assms(2) have "distinct (map ct_Token (tokens s)) \<and> k \<notin> ct_Token ` set (tokens s)"
      by (simp add: wf_store_def findRow_None)
    with run r n show ?thesis
      by (cases "IsZero now") (auto simp: tokenOf_def findRow_append split: if_splits)
  qed
qed

text \<open>A minted token can be consumed: presented before its expiry, with the same action, scope and
  comment and the same files in any order, it is accepted when the database answers.\<close>

theorem minted_token_accepted:
  assumes "MintConfirmationToken sha now k s action scope files comment = (t, Inr tok)"
    and "wf_store s" and "k \<noteq> ''''" and "faults t = []" and "later < stored (now + TokenTTL)"
    and "mset files' = mset files"
  shows "snd (ConsumeToken sha later t k action scope files' comment) = Inr ()"
proof -
  have a: "ActionHash sha action scope files' comment = ActionHash sha action scope files comment"
    using sort_perm [OF assms(6)] by (simp add: ActionHash_def actionPreimage_def)
  obtain x where x: "findRow ct_Token k (tokens t) = Some x" "ct_UsedAt x = None"
      "later < ct_ExpiresAt x" "ct_ActionHash x = ActionHash sha action scope files comment"
    using Mint_tokenOf [OF assms(1,2)] assms(5) by (auto simp: tokenOf_def)
  have "length (filter (\<lambda>t. ct_Token t = k \<and> ct_UsedAt t = None) (tokens t)) = 1"
    using Mint_tokenOf [OF assms(1,2)] x token_hits [of "tokens t" k] by simp
  with x show ?thesis using assms(3,4) a
    by (simp add: ConsumeToken_def GetConfirmationToken_def MarkConfirmationTokenUsed_def dbCall_def)
qed

theorem minted_token_accepted_witness:
  "\<exists>t tok. MintConfirmationToken (take 64) second ''tok'' (emptyStore second) ''act'' ''scope'' [''b'', ''a''] ''''
       = (t, Inr tok) \<and>
     snd (ConsumeToken (take 64) (300 * second) t ''tok'' ''act'' ''scope'' [''a'', ''b''] '''') = Inr ()"
proof -
  let ?m = "MintConfirmationToken (take 64) second ''tok'' (emptyStore second) ''act'' ''scope'' [''b'', ''a''] ''''"
  have ok: "\<not> isl (snd ?m)" and f: "faults (fst ?m) = []" by code_simp+
  obtain t r where m: "?m = (t, r)" by (cases ?m)
  with ok obtain tok where tok: "?m = (t, Inr tok)" by (cases r) auto
  have "300 * second < stored (second + TokenTTL)" by code_simp
  with minted_token_accepted [OF tok wf_emptyStore, where files' = "[''a'', ''b'']"] f m tok show ?thesis by auto
qed

section \<open>An approval is for one content of one incident\<close>

lemma ValidateE:
  assumes "Validate sha now s token executionID contentHash = (t, Inr tid)" and "wf_store s"
  obtains e x where "execOf s executionID = Some e" and "tid = sha token" and "tokenOf s token = Some x"
    and "ct_UsedAt x = None" and "now < ct_ExpiresAt x" and "tokenUsed t = (tokenUsed s)(token \<mapsto> True)"
    and "ct_ActionHash x = (case remediationTokenBinding (re_Kind e) (re_IncidentID e) contentHash of
        (action, project, files) \<Rightarrow> ActionHash sha action project files '''')"
proof -
  obtain u v where g: "GetExecution s executionID = (u, v)" by (cases "GetExecution s executionID")
  then obtain fs where u: "u = s\<lparr>faults := fs\<rparr>"
    and v: "v = Inl ErrDB \<or> (execOf s executionID = None \<and> v = Inl ErrNotFound) \<or>
      (\<exists>e. execOf s executionID = Some e \<and> v = Inr e)"
    by (rule GetExecutionE)
  from assms(1) g v obtain e where e: "execOf s executionID = Some e" "v = Inr e"
    by (auto simp: Validate_def)
  obtain action project files where b: "remediationTokenBinding (re_Kind e) (re_IncidentID e) contentHash
      = (action, project, files)" by (metis prod_cases3)
  obtain t' r where c: "ConsumeToken sha now u token action project files '''' = (t', r)"
    by (cases "ConsumeToken sha now u token action project files ''''")
  have res: "t' = t \<and> r = Inr () \<and> tid = sha token"
    using assms(1) g e b c by (cases r) (auto simp: Validate_def)
  have wfu: "wf_store u" using assms(2) u by simp
  from c wfu show thesis
  proof (cases rule: ConsumeTokenE)
    case (refused e')
    with res show thesis by simp
  next
    case (consumed x)
    with res u e b show thesis by (intro that [of e x]) auto
  qed
qed

text \<open>The validator accepts an approval only with a fresh, unused token whose action hash is the one of
  the execution's own kind, its own incident and the approved content hash; accepting uses the token up.\<close>

theorem approval_needs_matching_token:
  assumes "Validate sha now s token executionID contentHash = (t, Inr tid)" and "wf_store s"
  shows "\<exists>e x. execOf s executionID = Some e \<and> tokenOf s token = Some x \<and> ct_UsedAt x = None \<and>
     now < ct_ExpiresAt x \<and>
     ct_ActionHash x = ActionHash sha
       (if re_Kind e = RemediationKindRollback then remediationRollbackAction else remediationExecuteAction)
       (''watchtower:'' @ re_IncidentID e) [contentHash] '''' \<and>
     tokenUsed s token = Some False \<and> tokenUsed t token = Some True"
proof -
  obtain e x where ex: "execOf s executionID = Some e" "tokenOf s token = Some x" "ct_UsedAt x = None"
    "now < ct_ExpiresAt x" "tokenUsed t = (tokenUsed s)(token \<mapsto> True)"
    "ct_ActionHash x = (case remediationTokenBinding (re_Kind e) (re_IncidentID e) contentHash of
        (action, project, files) \<Rightarrow> ActionHash sha action project files '''')"
    using assms by (rule ValidateE)
  then show ?thesis by (intro exI [of _ e] exI [of _ x]) (simp add: remediationTokenBinding_def tokenUsed_tokenOf)
qed

definition approvalExec :: RemediationExecution where
  "approvalExec = \<lparr>re_ID = ''x1'', re_IncidentID = ''inc1'', re_RunbookID = ''rb1'', re_RunbookHash = ''h'',
     re_Status = RemediationProposed, re_Kind = RemediationKindExecute, re_ParentExecutionID = '''',
     re_CreatedAt = second, re_UpdatedAt = second\<rparr>"

definition approvalToken :: ConfirmationToken where
  "approvalToken = \<lparr>ct_Token = ''tok'',
     ct_ActionHash = ActionHash (take 64) remediationExecuteAction ''watchtower:inc1'' [''h''] '''',
     ct_ProjectID = ''watchtower:inc1'', ct_CreatedAt = second, ct_ExpiresAt = 301 * second, ct_UsedAt = None\<rparr>"

definition approvalStore :: store where
  "approvalStore = (emptyStore second)\<lparr>executions := [approvalExec], tokens := [approvalToken]\<rparr>"

lemma wf_approvalStore: "wf_store approvalStore"
  by (simp add: approvalStore_def emptyStore_def wf_store_def eventsOf_def wf_exec_def approvalExec_def
      remediationStatuses_def remediationKinds_def)

lemma approvalStore_accepts:
  "Validate (take 64) (2 * second) approvalStore ''tok'' ''x1'' ''h'' =
     (fst (Validate (take 64) (2 * second) approvalStore ''tok'' ''x1'' ''h''), Inr ''tok'')"
proof -
  have "snd (Validate (take 64) (2 * second) approvalStore ''tok'' ''x1'' ''h'') = Inr ''tok''" by code_simp
  then show ?thesis by (metis prod.collapse)
qed

theorem approval_needs_matching_token_witness:
  "\<exists>e x. execOf approvalStore ''x1'' = Some e \<and> tokenOf approvalStore ''tok'' = Some x \<and> ct_UsedAt x = None \<and>
     2 * second < ct_ExpiresAt x \<and>
     ct_ActionHash x = ActionHash (take 64)
       (if re_Kind e = RemediationKindRollback then remediationRollbackAction else remediationExecuteAction)
       (''watchtower:'' @ re_IncidentID e) [''h''] '''' \<and>
     tokenUsed approvalStore ''tok'' = Some False \<and>
     tokenUsed (fst (Validate (take 64) (2 * second) approvalStore ''tok'' ''x1'' ''h'')) ''tok'' = Some True"
  by (rule approval_needs_matching_token [OF approvalStore_accepts wf_approvalStore])

text \<open>A token minted for one approval authorises no other: if the validator accepts, for some execution and
  content hash, a token whose stored action hash was computed for a rollback or execute of incident
  \<open>incident\<close> with content \<open>h\<close>, then the execution is of that kind and that incident and the content
  hash is \<open>h\<close>. (The digest must not collide on the two strings compared, and ids and hashes hold no
  NUL byte.)\<close>

theorem token_bound_to_content:
  assumes "Validate sha now s token executionID contentHash = (t, Inr tid)" and "wf_store s"
    and "tokenOf s token = Some x" and "execOf s executionID = Some e"
    and "ct_ActionHash x = ActionHash sha (if rollback then remediationRollbackAction else remediationExecuteAction)
        (''watchtower:'' @ incident) [h] ''''"
    and "\<And>p q. sha p = sha q \<Longrightarrow> p \<in> P \<Longrightarrow> q \<in> P \<Longrightarrow> p = q"
    and "P = {actionPreimage a (''watchtower:'' @ i) [c] '''' | a i c.
        a \<in> {remediationRollbackAction, remediationExecuteAction} \<and> i \<in> {incident, re_IncidentID e} \<and> c \<in> {h, contentHash}}"
    and "nul_free incident" "nul_free h" "nul_free (re_IncidentID e)" "nul_free contentHash"
  shows "(re_Kind e = RemediationKindRollback) = rollback \<and> re_IncidentID e = incident \<and> contentHash = h"
proof -
  let ?a = "\<lambda>b. if b then remediationRollbackAction else remediationExecuteAction"
  have nf: "nul_free (?a b)" "nul_free (''watchtower:'' @ i) = nul_free i" for b i
    by (simp_all add: nul_free_def remediationRollbackAction_def remediationExecuteAction_def NUL_def)
  have inj: "?a b = ?a c \<Longrightarrow> b = c" for b c
    by (cases b; cases c) (simp_all add: remediationRollbackAction_def remediationExecuteAction_def)
  obtain e' x' where "execOf s executionID = Some e'" "tokenOf s token = Some x'"
    "ct_ActionHash x' = (case remediationTokenBinding (re_Kind e') (re_IncidentID e') contentHash of
        (action, project, files) \<Rightarrow> ActionHash sha action project files '''')"
    using assms(1,2) by (rule ValidateE)
  with assms(3-5) have "sha (actionPreimage (?a (re_Kind e = RemediationKindRollback)) (''watchtower:'' @ re_IncidentID e) [contentHash] '''')
      = sha (actionPreimage (?a rollback) (''watchtower:'' @ incident) [h] '''')"
    by (simp add: remediationTokenBinding_def ActionHash_def)
  then have "actionPreimage (?a (re_Kind e = RemediationKindRollback)) (''watchtower:'' @ re_IncidentID e) [contentHash] ''''
      = actionPreimage (?a rollback) (''watchtower:'' @ incident) [h] ''''"
    by (rule assms(6)) (unfold assms(7), force+)
  then have "?a (re_Kind e = RemediationKindRollback) = ?a rollback \<and>
      ''watchtower:'' @ re_IncidentID e = ''watchtower:'' @ incident \<and> contentHash = h"
    using assms(8-11) nf by (intro actionPreimage_inj) simp_all
  then show ?thesis using inj by auto
qed

theorem token_bound_to_content_witness:
  "(re_Kind approvalExec = RemediationKindRollback) = False \<and> re_IncidentID approvalExec = ''inc1'' \<and> ''h'' = ''h''"
proof (rule token_bound_to_content [OF approvalStore_accepts wf_approvalStore, where x = approvalToken])
  show "tokenOf approvalStore ''tok'' = Some approvalToken" "execOf approvalStore ''x1'' = Some approvalExec"
    by code_simp+
  show "ct_ActionHash approvalToken = ActionHash (take 64)
      (if False then remediationRollbackAction else remediationExecuteAction) (''watchtower:'' @ ''inc1'') [''h''] ''''"
    by code_simp
  show "nul_free ''inc1''" "nul_free ''h''" "nul_free (re_IncidentID approvalExec)" "nul_free ''h''" by code_simp+
  fix p q
  assume "take 64 p = take 64 q"
    and "p \<in> {actionPreimage a (''watchtower:'' @ i) [c] '''' | a i c.
        a \<in> {remediationRollbackAction, remediationExecuteAction} \<and> i \<in> {''inc1'', re_IncidentID approvalExec} \<and> c \<in> {''h'', ''h''}}"
    and "q \<in> {actionPreimage a (''watchtower:'' @ i) [c] '''' | a i c.
        a \<in> {remediationRollbackAction, remediationExecuteAction} \<and> i \<in> {''inc1'', re_IncidentID approvalExec} \<and> c \<in> {''h'', ''h''}}"
  then show "p = q"
    by (auto simp: actionPreimage_def approvalExec_def remediationRollbackAction_def remediationExecuteAction_def)
qed (rule refl)

section \<open>The content hash\<close>


text \<open>The content hash stands for what will be executed: unless the digest collides on the two canonical
  documents, runbooks with the same content hash have the same steps (kinds, parameters, commands and
  undo flags, in order).\<close>

theorem hash_covers_steps:
  assumes "ContentHash sha a = ContentHash sha b"
    and "inj_on sha {canonicalRunbook a, canonicalRunbook b}"
  shows "map stepBody (rb_Steps a) = map stepBody (rb_Steps b)"
proof (rule canonicalRunbook_steps)
  show "canonicalRunbook a = canonicalRunbook b"
    using assms(2) assms(1) [unfolded ContentHash_def] by (rule inj_onD) simp_all
qed

definition hashedBook :: "string \<Rightarrow> string \<Rightarrow> Runbook" where
  "hashedBook i descr = \<lparr>rb_ID = i, rb_SchemaVersion = 1, rb_IncidentID = ''inc1'', rb_DiagnosisID = '''',
     rb_ProviderVersion = '''', rb_ServerID = '''', rb_Title = '''', rb_Source = '''', rb_ReviewCarefully = False,
     rb_Summary = '''', rb_RiskExplanation = '''', rb_Risk = '''', rb_RunAs = '''',
     rb_Steps = [\<lparr>rs_Kind = ServiceStartID, rs_Params = [(''unit'', VString ''myapp.service'')],
       rs_Description = descr, rs_Command = '''', rs_Verify = '''', rs_Undoable = True\<rparr>],
     rb_ManualSteps = [], rb_AffectedFiles = [], rb_AffectedServices = [], rb_Interruption = '''',
     rb_Rollback = [], rb_Verification = [], rb_ExternalMonitorIDs = [], rb_Blocked = False,
     rb_BlockedReason = '''', rb_ContentHash = '''', rb_CreatedAt = 0\<rparr>"

theorem hash_covers_steps_witness:
  "ContentHash (\<lambda>j. case j of JObj _ \<Rightarrow> ''o'' | _ \<Rightarrow> ''x'') (hashedBook ''a'' ''start'') =
     ContentHash (\<lambda>j. case j of JObj _ \<Rightarrow> ''o'' | _ \<Rightarrow> ''x'') (hashedBook ''b'' ''start'') \<and>
   map stepBody (rb_Steps (hashedBook ''a'' ''start'')) = map stepBody (rb_Steps (hashedBook ''b'' ''start''))"
proof -
  have c: "canonicalRunbook (hashedBook ''a'' ''start'') = canonicalRunbook (hashedBook ''b'' ''start'')"
    by (simp add: canonicalRunbook_def hashedBook_def)
  then have h: "ContentHash sha (hashedBook ''a'' ''start'') = ContentHash sha (hashedBook ''b'' ''start'')" for sha
    by (simp add: ContentHash_def)
  from c have "inj_on sha {canonicalRunbook (hashedBook ''a'' ''start''), canonicalRunbook (hashedBook ''b'' ''start'')}"
    for sha :: "json \<Rightarrow> string" by simp
  from hash_covers_steps [OF h this] h show ?thesis by blast
qed

end
