(* ===== verification/Monitor_Machine.thy ===== *)
theory Monitor_Machine
  imports State_Store
begin

text \<open>
  The monitor state machine (\<^verbatim>\<open>internal/monitor/statemachine.go\<close>, \<^verbatim>\<open>types.go\<close>, \<^verbatim>\<open>definitions.go\<close> and
  \<open>thresholds\<close> of \<^verbatim>\<open>params.go\<close>): the definitions of monitors, their resolution from synced and built-in
  ones, and one observation step of a (kind, target) node.

  A node is the persisted row \<open>MonitorState\<close>; its counters are \<open>int\<close>, as Go's 64-bit counters cannot
  overflow at one step per tick. Threshold values are rationals (the code only compares the floats).
\<close>

section \<open>States, kinds, definitions\<close>

type_synonym Kind = string

definition StateUnknown :: string where "StateUnknown = ''unknown''"
definition StateHealthy :: string where "StateHealthy = ''healthy''"
definition StatePending :: string where "StatePending = ''pending''"
definition StateFiring :: string where "StateFiring = ''firing''"
definition StateAcknowledged :: string where "StateAcknowledged = ''acknowledged''"
definition StateRecovering :: string where "StateRecovering = ''recovering''"
definition StateResolved :: string where "StateResolved = ''resolved''"
definition StateMuted :: string where "StateMuted = ''muted''"

lemmas state_defs = StateUnknown_def StateHealthy_def StatePending_def StateFiring_def
  StateAcknowledged_def StateRecovering_def StateResolved_def StateMuted_def

definition inEpisode :: "string \<Rightarrow> bool" where
  "inEpisode s \<longleftrightarrow> s \<in> {StatePending, StateFiring, StateRecovering, StateAcknowledged}"

definition KindDiskCapacity :: Kind where "KindDiskCapacity = ''disk_capacity''"
definition KindInodeCapacity :: Kind where "KindInodeCapacity = ''inode_capacity''"
definition KindMemoryPressure :: Kind where "KindMemoryPressure = ''memory_pressure''"
definition KindDockerContainer :: Kind where "KindDockerContainer = ''docker_container''"
definition KindSystemdUnit :: Kind where "KindSystemdUnit = ''systemd_unit''"
definition KindCPUPressure :: Kind where "KindCPUPressure = ''cpu_pressure''"
definition KindLoadPerCore :: Kind where "KindLoadPerCore = ''load_per_core''"
definition KindDiskFillRate :: Kind where "KindDiskFillRate = ''disk_fill_rate''"
definition KindCertExpiry :: Kind where "KindCertExpiry = ''cert_expiry''"
definition KindSystemdTimerFailed :: Kind where "KindSystemdTimerFailed = ''systemd_timer_failed''"
definition KindJobFreshness :: Kind where "KindJobFreshness = ''job_freshness''"
definition KindPortListening :: Kind where "KindPortListening = ''port_listening''"
definition KindProcessRunning :: Kind where "KindProcessRunning = ''process_running''"
definition KindRebootDetected :: Kind where "KindRebootDetected = ''reboot_detected''"
definition KindLogErrorSpike :: Kind where "KindLogErrorSpike = ''log_error_spike''"

lemmas kind_defs = KindDiskCapacity_def KindInodeCapacity_def KindMemoryPressure_def
  KindDockerContainer_def KindSystemdUnit_def KindCPUPressure_def KindLoadPerCore_def
  KindDiskFillRate_def KindCertExpiry_def KindSystemdTimerFailed_def KindJobFreshness_def
  KindPortListening_def KindProcessRunning_def KindRebootDetected_def KindLogErrorSpike_def

definition wildcardTarget :: string where "wildcardTarget = ''*''"

record Definition =
  md_ID :: string
  md_ServerID :: string
  md_Kind :: Kind
  md_Target :: string
  md_Enabled :: bool
  md_Severity :: string
  md_EvaluationLocation :: string
  md_FailureThreshold :: int
  md_RecoveryThreshold :: int
  md_CooldownSeconds :: int
  md_FiringThreshold :: rat
  md_RecoveryValue :: rat
  md_Params :: "(string \<times> string) list"

definition zeroDefinition :: Definition where
  "zeroDefinition = \<lparr>md_ID = '''', md_ServerID = '''', md_Kind = '''', md_Target = '''', md_Enabled = False,
     md_Severity = '''', md_EvaluationLocation = '''', md_FailureThreshold = 0, md_RecoveryThreshold = 0,
     md_CooldownSeconds = 0, md_FiringThreshold = 0, md_RecoveryValue = 0, md_Params = []\<rparr>"

definition failureThreshold :: "Definition \<Rightarrow> int" where
  "failureThreshold d = (if md_FailureThreshold d > 0 then md_FailureThreshold d else 3)"

definition recoveryThreshold :: "Definition \<Rightarrow> int" where
  "recoveryThreshold d = (if md_RecoveryThreshold d > 0 then md_RecoveryThreshold d else 3)"

definition cooldownSeconds :: "Definition \<Rightarrow> int" where
  "cooldownSeconds d = (if md_CooldownSeconds d > 0 then md_CooldownSeconds d else 300)"

definition builtin :: "Kind \<Rightarrow> string \<Rightarrow> string \<Rightarrow> int \<Rightarrow> int \<Rightarrow> int \<Rightarrow> rat \<Rightarrow> rat \<Rightarrow> Definition" where
  "builtin kind target severity ft rt cd fire recov =
     zeroDefinition\<lparr>md_Kind := kind, md_Target := target, md_Enabled := True, md_Severity := severity,
       md_EvaluationLocation := ''agent'', md_FailureThreshold := ft, md_RecoveryThreshold := rt,
       md_CooldownSeconds := cd, md_FiringThreshold := fire, md_RecoveryValue := recov\<rparr>"

definition DefaultDefinitions :: "Definition list" where
  "DefaultDefinitions =
     [builtin KindDiskCapacity ''/'' ''critical'' 3 3 300 90 85,
      builtin KindDiskCapacity wildcardTarget ''critical'' 3 3 300 90 85,
      builtin KindInodeCapacity ''/'' ''warning'' 3 3 300 90 85,
      builtin KindMemoryPressure '''' ''critical'' 3 3 300 90 80,
      builtin KindDockerContainer wildcardTarget ''critical'' 2 3 300 0 0,
      builtin KindSystemdUnit wildcardTarget ''critical'' 2 3 300 0 0,
      builtin KindCPUPressure '''' ''warning'' 10 6 600 95 80,
      builtin KindLoadPerCore '''' ''warning'' 10 6 600 2 (3/2),
      builtin KindDiskFillRate ''/'' ''warning'' 3 3 1800 24 36,
      builtin KindSystemdTimerFailed wildcardTarget ''warning'' 2 2 300 0 0,
      builtin KindRebootDetected '''' ''warning'' 1 1 300 0 0]"

definition key :: "Kind \<Rightarrow> string \<Rightarrow> string" where
  "key kind target = kind @ '':'' @ target"

text \<open>The firing and recovery values an evaluator compares against (\<^verbatim>\<open>params.go\<close>).\<close>

definition thresholds :: "Definition \<Rightarrow> rat \<Rightarrow> rat \<Rightarrow> bool \<Rightarrow> rat \<times> rat" where
  "thresholds d defFire defRecover higherIsWorse =
     (let fire = (if md_FiringThreshold d \<le> 0 then defFire else md_FiringThreshold d);
          rec0 = (if md_RecoveryValue d \<le> 0 then defRecover else md_RecoveryValue d);
          rec1 = (if higherIsWorse \<and> rec0 > fire then fire else rec0);
          rec2 = (if \<not> higherIsWorse \<and> rec1 < fire then fire else rec1)
      in (fire, rec2))"

section \<open>Resolution of definitions (definitions.go)\<close>

record DefinitionSet =
  ds_defaults :: "(string \<times> Definition) list"
  ds_synced :: "(string \<times> Definition) list"

definition indexDefs :: "Definition list \<Rightarrow> (string \<times> Definition) list" where
  "indexDefs defs = fold (\<lambda>d m. AList.update (key (md_Kind d) (md_Target d)) d m) defs []"

definition NewDefinitionSet :: "Definition list \<Rightarrow> DefinitionSet" where
  "NewDefinitionSet defaults = \<lparr>ds_defaults = indexDefs defaults, ds_synced = []\<rparr>"

definition SetSynced :: "DefinitionSet \<Rightarrow> Definition list \<Rightarrow> DefinitionSet" where
  "SetSynced ds defs = ds\<lparr>ds_synced := indexDefs defs\<rparr>"

definition Resolve :: "DefinitionSet \<Rightarrow> Kind \<Rightarrow> string \<Rightarrow> Definition \<times> bool" where
  "Resolve ds kind target =
     (case map_of (ds_synced ds) (key kind target) of
        Some def \<Rightarrow> (def, md_Enabled def)
      | None \<Rightarrow>
     (case map_of (ds_synced ds) (key kind wildcardTarget) of
        Some def \<Rightarrow> (def\<lparr>md_Target := target\<rparr>, md_Enabled def)
      | None \<Rightarrow>
     (case map_of (ds_defaults ds) (key kind target) of
        Some def \<Rightarrow> (def, md_Enabled def)
      | None \<Rightarrow>
     (case map_of (ds_defaults ds) (key kind wildcardTarget) of
        Some def \<Rightarrow> (def\<lparr>md_Target := target\<rparr>, md_Enabled def)
      | None \<Rightarrow> (zeroDefinition, False)))))"

text \<open>The targets with a definition of their own; the order follows the two maps' iteration order.\<close>

definition addTarget :: "Kind \<Rightarrow> Definition \<Rightarrow> string list \<Rightarrow> string list" where
  "addTarget kind def out =
     (if md_Kind def \<noteq> kind \<or> md_Target def = wildcardTarget \<or> md_Target def \<in> set out then out
      else out @ [md_Target def])"

definition Targets :: "DefinitionSet \<Rightarrow> Kind \<Rightarrow> string list" where
  "Targets ds kind =
     fold (addTarget kind) (map snd (ds_synced ds)) (fold (addTarget kind) (map snd (ds_defaults ds)) [])"

section \<open>One observation (statemachine.go)\<close>

type_synonym transition = "string \<times> string"

definition resetTo :: "MonitorState \<Rightarrow> string \<Rightarrow> time \<Rightarrow> MonitorState" where
  "resetTo rt s now =
     (let rt = rt\<lparr>ms_State := s, ms_ConsecutiveFail := 0, ms_ConsecutiveOK := 0, ms_LastTransitionAt := now\<rparr>
      in if s = StateHealthy then rt\<lparr>ms_FirstFailureAt := zeroTime\<rparr> else rt)"

definition stepHealthy ::
    "MonitorState \<Rightarrow> bool \<Rightarrow> time \<Rightarrow> Definition \<Rightarrow> MonitorState \<times> transition option" where
  "stepHealthy rt failing now def =
     (if \<not> failing then
        (if ms_State rt \<noteq> StateHealthy then (resetTo rt StateHealthy now, None) else (rt, None))
      else
        let rt = rt\<lparr>ms_State := StatePending, ms_ConsecutiveFail := 1, ms_ConsecutiveOK := 0,
                    ms_FirstFailureAt := now, ms_LastTransitionAt := now\<rparr> in
        if ms_ConsecutiveFail rt \<ge> failureThreshold def
        then (rt\<lparr>ms_State := StateFiring\<rparr>, Some (StatePending, StateFiring))
        else (rt, None))"

definition stepPending ::
    "MonitorState \<Rightarrow> bool \<Rightarrow> time \<Rightarrow> Definition \<Rightarrow> MonitorState \<times> transition option" where
  "stepPending rt failing now def =
     (if \<not> failing then (resetTo rt StateHealthy now, None)
      else
        let rt = rt\<lparr>ms_ConsecutiveFail := ms_ConsecutiveFail rt + 1\<rparr> in
        if ms_ConsecutiveFail rt \<ge> failureThreshold def
        then (rt\<lparr>ms_State := StateFiring, ms_LastTransitionAt := now\<rparr>, Some (StatePending, StateFiring))
        else (rt, None))"

definition stepFiring :: "MonitorState \<Rightarrow> bool \<Rightarrow> time \<Rightarrow> MonitorState \<times> transition option" where
  "stepFiring rt failing now =
     (if failing
      then (rt\<lparr>ms_ConsecutiveFail := ms_ConsecutiveFail rt + 1, ms_ConsecutiveOK := 0\<rparr>, None)
      else (rt\<lparr>ms_State := StateRecovering, ms_ConsecutiveOK := 1, ms_LastTransitionAt := now\<rparr>, None))"

definition stepRecovering ::
    "MonitorState \<Rightarrow> bool \<Rightarrow> time \<Rightarrow> Definition \<Rightarrow> MonitorState \<times> transition option" where
  "stepRecovering rt failing now def =
     (if failing
      then (rt\<lparr>ms_State := StateFiring, ms_ConsecutiveOK := 0, ms_LastTransitionAt := now\<rparr>, None)
      else
        let rt = rt\<lparr>ms_ConsecutiveOK := ms_ConsecutiveOK rt + 1\<rparr> in
        if ms_ConsecutiveOK rt \<ge> recoveryThreshold def
        then (rt\<lparr>ms_State := StateResolved, ms_LastTransitionAt := now\<rparr>, Some (StateRecovering, StateResolved))
        else (rt, None))"

definition stepState ::
    "MonitorState \<Rightarrow> bool \<Rightarrow> time \<Rightarrow> Definition \<Rightarrow> MonitorState \<times> transition option" where
  "stepState rt0 failing now def =
     (let cooldown = wrap64 (cooldownSeconds def * second) in
      if ms_State rt0 = StateResolved \<and> TimeSub now (ms_LastTransitionAt rt0) < cooldown then (rt0, None)
      else
        let rt = (if ms_State rt0 = StateResolved then resetTo rt0 StateHealthy now else rt0) in
        if ms_State rt = StateFiring then stepFiring rt failing now
        else if ms_State rt = StateRecovering then stepRecovering rt failing now def
        else if ms_State rt = StatePending then stepPending rt failing now def
        else stepHealthy rt failing now def)"

section \<open>Runs of observations\<close>

type_synonym obs = "bool \<times> time"

fun feed :: "Definition \<Rightarrow> MonitorState \<Rightarrow> obs list \<Rightarrow> MonitorState \<times> transition option list" where
  "feed def rt [] = (rt, [])"
| "feed def rt ((failing, now) # os) =
     (case stepState rt failing now def of (rt1, tr) \<Rightarrow>
      case feed def rt1 os of (rt2, trs) \<Rightarrow> (rt2, tr # trs))"

lemma feed_append:
  "feed def rt (xs @ ys) =
     (case feed def rt xs of (rt1, t1) \<Rightarrow> case feed def rt1 ys of (rt2, t2) \<Rightarrow> (rt2, t1 @ t2))"
  by (induction xs arbitrary: rt) (auto split: prod.splits)

lemma length_feed: "feed def rt os = (rt', trs) \<Longrightarrow> length trs = length os"
  by (induction os arbitrary: rt trs) (auto split: prod.splits)

lemmas step_defs = stepState_def stepHealthy_def stepPending_def stepFiring_def stepRecovering_def
  resetTo_def Let_def

lemma thresholds_pos: "1 \<le> failureThreshold d" "1 \<le> recoveryThreshold d"
  by (auto simp: failureThreshold_def recoveryThreshold_def)

text \<open>The counters are the lengths of the current runs (the newest observation first).\<close>

definition tracks :: "Definition \<Rightarrow> bool list \<Rightarrow> MonitorState \<Rightarrow> bool" where
  "tracks def h rt \<longleftrightarrow>
     (ms_State rt = StatePending \<longrightarrow> (\<exists>k. ms_ConsecutiveFail rt = int k \<and> 1 \<le> k \<and> k \<le> length h \<and> list_all id (take k h))) \<and>
     (ms_State rt = StateRecovering \<longrightarrow> (\<exists>k. ms_ConsecutiveOK rt = int k \<and> 1 \<le> k \<and> k \<le> length h \<and> list_all Not (take k h)))"

lemma list_all_take_mono: "list_all P (take n h) \<Longrightarrow> m \<le> n \<Longrightarrow> list_all P (take m h)"
  by (auto simp: list_all_length)

text \<open>Which of the five branches a step takes.\<close>

lemma stepStateE:
  assumes "stepState rt f now def = (rt', tr)"
  obtains (hold) "ms_State rt = StateResolved" "TimeSub now (ms_LastTransitionAt rt) < wrap64 (cooldownSeconds def * second)"
      "rt' = rt" "tr = None"
  | (cooled) "ms_State rt = StateResolved" "wrap64 (cooldownSeconds def * second) \<le> TimeSub now (ms_LastTransitionAt rt)"
      "stepHealthy (resetTo rt StateHealthy now) f now def = (rt', tr)"
  | (firing) "ms_State rt = StateFiring" "stepFiring rt f now = (rt', tr)"
  | (recovering) "ms_State rt = StateRecovering" "stepRecovering rt f now def = (rt', tr)"
  | (pending) "ms_State rt = StatePending" "stepPending rt f now def = (rt', tr)"
  | (healthy) "ms_State rt \<notin> {StateResolved, StateFiring, StateRecovering, StatePending}"
      "stepHealthy rt f now def = (rt', tr)"
proof (cases "ms_State rt = StateResolved")
  case res: True
  have h: "ms_State (resetTo rt StateHealthy now) = StateHealthy" by (simp add: resetTo_def)
  show thesis
  proof (cases "TimeSub now (ms_LastTransitionAt rt) < wrap64 (cooldownSeconds def * second)")
    case True
    with res assms show thesis by (intro hold) (simp_all add: stepState_def Let_def)
  next
    case False
    with res assms h have "stepHealthy (resetTo rt StateHealthy now) f now def = (rt', tr)"
      by (simp add: stepState_def Let_def) (simp add: state_defs)
    with False res show thesis by (intro cooled) simp_all
  qed
next
  case nres: False
  then have st: "stepState rt f now def =
     (if ms_State rt = StateFiring then stepFiring rt f now
      else if ms_State rt = StateRecovering then stepRecovering rt f now def
      else if ms_State rt = StatePending then stepPending rt f now def
      else stepHealthy rt f now def)" by (simp add: stepState_def Let_def)
  show thesis
  proof (cases "ms_State rt \<in> {StateFiring, StateRecovering, StatePending}")
    case False
    with nres st assms show thesis by (intro healthy) simp_all
  next
    case True
    then show thesis
      using assms unfolding st
      by (elim insertE; simp add: state_defs firing recovering pending split: if_splits)
  qed
qed

lemma tracks_step:
  assumes "tracks def h rt" and "stepState rt f now def = (rt', tr)"
  shows "tracks def (f # h) rt' \<and>
    (\<forall>a. tr = Some (a, StateFiring) \<longrightarrow> nat (failureThreshold def) \<le> Suc (length h) \<and>
       list_all id (take (nat (failureThreshold def)) (f # h))) \<and>
    (\<forall>a. tr = Some (a, StateResolved) \<longrightarrow> nat (recoveryThreshold def) \<le> Suc (length h) \<and>
       list_all Not (take (nat (recoveryThreshold def)) (f # h)))"
proof -
  have hl: ?thesis if "stepHealthy x f now def = (rt', tr)" for x
    using that thresholds_pos [of def]
    by (auto simp: stepHealthy_def resetTo_def Let_def state_defs tracks_def take_Cons'
        split: if_splits intro!: exI [of _ 1])
  from assms(2) show ?thesis
  proof (cases rule: stepStateE)
    case hold
    then show ?thesis by (simp add: state_defs tracks_def)
  next
    case cooled
    then show ?thesis using hl by blast
  next
    case healthy
    then show ?thesis using hl by blast
  next
    case pending
    then obtain k where k: "ms_ConsecutiveFail rt = int k" "1 \<le> k" "k \<le> length h" "list_all id (take k h)"
      using assms(1) by (auto simp: tracks_def)
    show ?thesis
    proof (cases f)
      case False
      with pending show ?thesis by (auto simp: stepPending_def resetTo_def state_defs tracks_def Let_def)
    next
      case True
      then have a: "list_all id (take (Suc k) (f # h))" using k by simp
      show ?thesis
      proof (cases "failureThreshold def \<le> int k + 1")
        case th: True
        then have "nat (failureThreshold def) \<le> Suc k" by linarith
        with a have "list_all id (take (nat (failureThreshold def)) (f # h))" by (rule list_all_take_mono)
        with True th pending k show ?thesis
          by (auto simp: stepPending_def state_defs tracks_def Let_def)
      next
        case False
        with True pending k a show ?thesis
          by (auto simp: stepPending_def state_defs tracks_def Let_def intro!: exI [of _ "Suc k"])
      qed
    qed
  next
    case firing
    then show ?thesis by (auto simp: stepFiring_def state_defs tracks_def split: if_splits intro!: exI [of _ 1])
  next
    case recovering
    then obtain k where k: "ms_ConsecutiveOK rt = int k" "1 \<le> k" "k \<le> length h" "list_all Not (take k h)"
      using assms(1) by (auto simp: tracks_def state_defs)
    show ?thesis
    proof (cases f)
      case True
      with recovering show ?thesis by (auto simp: stepRecovering_def state_defs tracks_def Let_def)
    next
      case False
      then have a: "list_all Not (take (Suc k) (f # h))" using k by simp
      show ?thesis
      proof (cases "recoveryThreshold def \<le> int k + 1")
        case th: True
        then have "nat (recoveryThreshold def) \<le> Suc k" by linarith
        with a have "list_all Not (take (nat (recoveryThreshold def)) (f # h))" by (rule list_all_take_mono)
        with False th recovering k show ?thesis
          by (auto simp: stepRecovering_def state_defs tracks_def Let_def)
      next
        case th: False
        with False recovering k a show ?thesis
          by (auto simp: stepRecovering_def state_defs tracks_def Let_def intro!: exI [of _ "Suc k"])
      qed
    qed
  qed
qed

lemma tracks_feed:
  "tracks def h rt \<Longrightarrow> feed def rt os = (rt', trs) \<Longrightarrow> tracks def (rev (map fst os) @ h) rt'"
proof (induction os arbitrary: rt h trs)
  case Nil
  then show ?case by simp
next
  case (Cons x os)
  obtain f now where x: "x = (f, now)" by (cases x)
  obtain rt1 tr where s: "stepState rt f now def = (rt1, tr)" by (cases "stepState rt f now def")
  obtain trs' where "feed def rt1 os = (rt', trs')" using Cons.prems(2) s x by (auto split: prod.splits)
  with Cons.IH tracks_step [OF Cons.prems(1) s] show ?case by (fastforce simp: x)
qed

lemma list_all_take_rev:
  "n \<le> length xs \<Longrightarrow> list_all P (take n (rev xs)) = list_all P (drop (length xs - n) xs)"
  by (simp add: take_rev list_all_iff)

text \<open>C21. A monitor that is not already failing fires only when the observation at hand and the ones
  before it make a run of at least the failure threshold failing observations; in particular, with a
  threshold above one, a single transient failure never pages.\<close>

theorem fires_only_after_threshold:
  assumes "ms_State rt \<notin> {StatePending, StateRecovering}"
    and "feed def rt os = (rt', trs)" and "stepState rt' f now def = (rt'', Some (a, StateFiring))"
  shows "nat (failureThreshold def) \<le> length (os @ [(f, now)]) \<and>
     list_all fst (drop (length (os @ [(f, now)]) - nat (failureThreshold def)) (os @ [(f, now)]))"
proof -
  have "tracks def [] rt" using assms(1) by (simp add: tracks_def)
  from tracks_feed [OF this assms(2)] have "tracks def (rev (map fst os)) rt'" by simp
  from tracks_step [OF this assms(3)] have n: "nat (failureThreshold def) \<le> Suc (length os)"
    and l: "list_all id (take (nat (failureThreshold def)) (rev (map fst (os @ [(f, now)]))))"
    by (auto simp del: take_Cons')
  then have "list_all id (drop (length (os @ [(f, now)]) - nat (failureThreshold def)) (map fst (os @ [(f, now)])))"
    by (subst (asm) list_all_take_rev) simp_all
  then have "list_all fst (drop (length (os @ [(f, now)]) - nat (failureThreshold def)) (os @ [(f, now)]))"
    unfolding drop_map list.pred_map by (simp only: comp_def id_apply)
  with n show ?thesis by simp
qed

definition demoState :: MonitorState where
  "demoState = \<lparr>ms_Key = ''disk_capacity:/'', ms_State = StateHealthy, ms_ConsecutiveFail = 0, ms_ConsecutiveOK = 0,
     ms_FirstFailureAt = zeroTime, ms_LastTransitionAt = 0, ms_UpdatedAt = 0\<rparr>"

definition demoDef :: Definition where
  "demoDef = builtin KindDiskCapacity ''/'' ''critical'' 2 1 60 90 85"

theorem fires_only_after_threshold_witness:
  "list_all fst (drop 0 [(True, 30 * second), (True, 60 * second)])"
proof -
  obtain rt' trs where f: "feed demoDef demoState [(True, 30 * second)] = (rt', trs)"
    by (cases "feed demoDef demoState [(True, 30 * second)]")
  have "snd (stepState (fst (feed demoDef demoState [(True, 30 * second)])) True (60 * second) demoDef) =
      Some (StatePending, StateFiring)" by code_simp
  then obtain rt'' where s: "stepState rt' True (60 * second) demoDef = (rt'', Some (StatePending, StateFiring))"
    using f by (cases "stepState rt' True (60 * second) demoDef") auto
  have "nat (failureThreshold demoDef) = 2" by (simp add: failureThreshold_def demoDef_def builtin_def)
  with fires_only_after_threshold [OF _ f s] show ?thesis by (simp add: demoState_def state_defs)
qed

text \<open>Whether the node is inside an announced episode.\<close>

definition announced :: "MonitorState \<Rightarrow> bool" where
  "announced rt \<longleftrightarrow> ms_State rt \<in> {StateFiring, StateRecovering}"

fun alternates :: "bool \<Rightarrow> transition list \<Rightarrow> bool" where
  "alternates b [] = True"
| "alternates b (t # ts) = (snd t = (if b then StateResolved else StateFiring) \<and> alternates (\<not> b) ts)"

definition emitted :: "Definition \<Rightarrow> MonitorState \<Rightarrow> obs list \<Rightarrow> transition list" where
  "emitted def rt os = map the (filter (\<lambda>t. t \<noteq> None) (snd (feed def rt os)))"

lemma step_announced:
  assumes "stepState rt f now def = (rt', tr)"
  shows "(tr = None \<and> announced rt' = announced rt) \<or>
    (\<exists>a. tr = Some (a, StateFiring) \<and> \<not> announced rt \<and> announced rt') \<or>
    (\<exists>a. tr = Some (a, StateResolved) \<and> announced rt \<and> \<not> announced rt')"
  using assms
proof (cases rule: stepStateE)
  case cooled
  then show ?thesis by (auto simp: stepHealthy_def resetTo_def Let_def announced_def state_defs split: if_splits)
next
  case healthy
  then show ?thesis by (auto simp: stepHealthy_def resetTo_def Let_def announced_def state_defs split: if_splits)
next
  case pending
  then show ?thesis by (auto simp: stepPending_def resetTo_def Let_def announced_def state_defs split: if_splits)
next
  case firing
  then show ?thesis by (auto simp: stepFiring_def announced_def state_defs split: if_splits)
next
  case recovering
  then show ?thesis by (auto simp: stepRecovering_def Let_def announced_def state_defs split: if_splits)
qed simp

text \<open>The events of one monitor alternate between firing and resolved, whatever is observed and
  whenever: no page is repeated without a recovery in between, and no recovery is announced for an
  episode that was not.\<close>

theorem events_alternate: "alternates (announced rt) (emitted def rt os)"
proof (induction os arbitrary: rt)
  case Nil
  then show ?case by (simp add: emitted_def)
next
  case (Cons x os)
  obtain f now where x: "x = (f, now)" by (cases x)
  obtain rt1 tr where s: "stepState rt f now def = (rt1, tr)" by (cases "stepState rt f now def")
  have "emitted def rt (x # os) = (case tr of None \<Rightarrow> [] | Some t \<Rightarrow> [t]) @ emitted def rt1 os"
    by (auto simp: emitted_def x s split: prod.splits option.splits)
  with step_announced [OF s] Cons.IH [of rt1] show ?case by (auto simp: state_defs)
qed

text \<open>After a resolved event the monitor is frozen for its whole cooldown: it neither changes state
  nor emits, whatever is observed.\<close>

theorem cooldown_suppresses:
  assumes "ms_State rt = StateResolved"
    and "\<forall>(f, now) \<in> set os. TimeSub now (ms_LastTransitionAt rt) < wrap64 (cooldownSeconds def * second)"
  shows "feed def rt os = (rt, replicate (length os) None)"
  using assms(2)
proof (induction os)
  case (Cons x os)
  obtain f now where x: "x = (f, now)" by (cases x)
  have "stepState rt f now def = (rt, None)" using assms(1) Cons.prems by (simp add: x stepState_def)
  with Cons show ?case by (simp add: x)
qed simp

theorem cooldown_suppresses_witness:
  "feed demoDef (demoState\<lparr>ms_State := StateResolved\<rparr>) [(True, 30 * second), (True, 59 * second)] =
     (demoState\<lparr>ms_State := StateResolved\<rparr>, [None, None])"
proof -
  have "TimeSub (30 * second) 0 < wrap64 (cooldownSeconds demoDef * second)"
    "TimeSub (59 * second) 0 < wrap64 (cooldownSeconds demoDef * second)"
    by (simp_all add: TimeSub_def wrap64_def second_def cooldownSeconds_def demoDef_def builtin_def)
  with cooldown_suppresses [of "demoState\<lparr>ms_State := StateResolved\<rparr>" "[(True, 30 * second), (True, 59 * second)]" demoDef]
  show ?thesis by (simp add: demoState_def eval_nat_numeral)
qed

lemma pending_run:
  assumes "ms_State rt = StatePending" and "ms_ConsecutiveFail rt = failureThreshold def - int (length os)"
    and "os \<noteq> []" and "list_all fst os"
  shows "\<exists>rt'. feed def rt os = (rt', replicate (length os - 1) None @ [Some (StatePending, StateFiring)]) \<and>
     ms_State rt' = StateFiring \<and> ms_FirstFailureAt rt' = ms_FirstFailureAt rt"
  using assms
proof (induction os arbitrary: rt)
  case (Cons x os)
  obtain now where x: "x = (True, now)" using Cons.prems(4) by (cases x) auto
  have st: "stepState rt True now def = stepPending rt True now def"
    using Cons.prems(1) by (simp add: stepState_def state_defs)
  show ?case
  proof (cases "os = []")
    case True
    with Cons.prems show ?thesis by (simp add: x st stepPending_def)
  next
    case False
    let ?rt = "rt\<lparr>ms_ConsecutiveFail := ms_ConsecutiveFail rt + 1\<rparr>"
    have s: "stepState rt True now def = (?rt, None)"
      using False Cons.prems by (cases os) (simp_all add: st stepPending_def)
    obtain rt' where "feed def ?rt os = (rt', replicate (length os - 1) None @ [Some (StatePending, StateFiring)])"
      "ms_State rt' = StateFiring" "ms_FirstFailureAt rt' = ms_FirstFailureAt rt"
      using Cons.IH [of ?rt] Cons.prems False by auto
    with False show ?thesis by (cases os) (simp_all add: x s)
  qed
qed simp

text \<open>A healthy monitor fires: after exactly the failure threshold of consecutive failing
  observations it emits one firing event, with the last of them, and records the time of the first one
  as the start of the episode.\<close>

theorem fires_at_threshold:
  assumes "ms_State rt \<notin> {StateResolved, StateFiring, StateRecovering, StatePending}"
    and "length os = nat (failureThreshold def)" and "list_all fst os"
  shows "\<exists>rt'. feed def rt os = (rt', replicate (length os - 1) None @ [Some (StatePending, StateFiring)]) \<and>
     ms_State rt' = StateFiring \<and> ms_FirstFailureAt rt' = snd (hd os)"
proof -
  obtain now xs where os: "os = (True, now) # xs"
    using assms(2,3) thresholds_pos(1) [of def] by (cases os) auto
  have st: "stepState rt True now def = stepHealthy rt True now def"
    using assms(1) by (simp add: stepState_def)
  let ?rt = "rt\<lparr>ms_State := StatePending, ms_ConsecutiveFail := 1, ms_ConsecutiveOK := 0,
                    ms_FirstFailureAt := now, ms_LastTransitionAt := now\<rparr>"
  show ?thesis
  proof (cases "xs = []")
    case True
    with os assms(2) have "failureThreshold def = 1" by simp
    with True os show ?thesis by (simp add: st stepHealthy_def)
  next
    case False
    have t: "failureThreshold def = int (length xs) + 1" using assms(2) os thresholds_pos(1) [of def] by simp
    with False have s: "stepState rt True now def = (?rt, None)" by (cases xs) (simp_all add: st stepHealthy_def)
    obtain rt' where "feed def ?rt xs = (rt', replicate (length xs - 1) None @ [Some (StatePending, StateFiring)])"
      "ms_State rt' = StateFiring" "ms_FirstFailureAt rt' = now"
      using pending_run [of ?rt def xs] t False assms(3) os by auto
    with False show ?thesis by (cases xs) (simp_all add: os s)
  qed
qed

theorem fires_at_threshold_witness:
  "snd (feed demoDef demoState [(True, 30 * second), (True, 60 * second)]) = [None, Some (StatePending, StateFiring)]"
  using fires_at_threshold [of demoState "[(True, 30 * second), (True, 60 * second)]" demoDef]
  by (auto simp: demoState_def failureThreshold_def demoDef_def builtin_def state_defs)

lemma recovering_run:
  assumes "ms_State rt = StateRecovering" and "ms_ConsecutiveOK rt + int (length os) = max 2 (recoveryThreshold def)"
    and "1 \<le> ms_ConsecutiveOK rt" and "os \<noteq> []" and "list_all (\<lambda>x. \<not> fst x) os"
  shows "\<exists>rt'. feed def rt os = (rt', replicate (length os - 1) None @ [Some (StateRecovering, StateResolved)]) \<and>
     ms_State rt' = StateResolved"
  using assms
proof (induction os arbitrary: rt)
  case (Cons x os)
  obtain now where x: "x = (False, now)" using Cons.prems(5) by (cases x) auto
  have st: "stepState rt False now def = stepRecovering rt False now def"
    using Cons.prems(1) by (simp add: stepState_def state_defs)
  show ?case
  proof (cases "os = []")
    case True
    with Cons.prems show ?thesis by (simp add: x st stepRecovering_def)
  next
    case False
    let ?rt = "rt\<lparr>ms_ConsecutiveOK := ms_ConsecutiveOK rt + 1\<rparr>"
    have "ms_ConsecutiveOK rt + 1 < recoveryThreshold def"
      using False Cons.prems(2,3) by (cases os) auto
    then have s: "stepState rt False now def = (?rt, None)" by (simp add: st stepRecovering_def)
    have "\<exists>rt'. feed def ?rt os = (rt', replicate (length os - 1) None @ [Some (StateRecovering, StateResolved)]) \<and>
        ms_State rt' = StateResolved"
      using Cons.IH [of ?rt] Cons.prems False by auto
    with False show ?thesis by (cases os) (auto simp: x s)
  qed
qed simp

text \<open>C34. A firing monitor resolves: after consecutive passing observations, as many as the recovery
  threshold but never fewer than two, it emits one resolved event. A recovery threshold of one
  therefore takes two passing observations.\<close>

theorem resolves_at_threshold:
  assumes "ms_State rt = StateFiring" and "int (length os) = max 2 (recoveryThreshold def)"
    and "list_all (\<lambda>x. \<not> fst x) os"
  shows "\<exists>rt'. feed def rt os = (rt', replicate (length os - 1) None @ [Some (StateRecovering, StateResolved)]) \<and>
     ms_State rt' = StateResolved"
proof -
  obtain now xs where os: "os = (False, now) # xs" using assms(2,3) by (cases os) auto
  have xs: "xs \<noteq> []" using assms(2) os by auto
  let ?rt = "rt\<lparr>ms_State := StateRecovering, ms_ConsecutiveOK := 1, ms_LastTransitionAt := now\<rparr>"
  have s: "stepState rt False now def = (?rt, None)" using assms(1) by (simp add: stepState_def stepFiring_def state_defs)
  have "\<exists>rt'. feed def ?rt xs = (rt', replicate (length xs - 1) None @ [Some (StateRecovering, StateResolved)]) \<and>
      ms_State rt' = StateResolved"
    using recovering_run [of ?rt xs def] assms(2,3) os xs by auto
  with xs show ?thesis by (cases xs) (auto simp: os s)
qed

theorem resolves_at_threshold_witness:
  "snd (feed (builtin KindRebootDetected '''' ''warning'' 1 1 300 0 0) (demoState\<lparr>ms_State := StateFiring\<rparr>)
     [(False, 30 * second), (False, 60 * second)]) = [None, Some (StateRecovering, StateResolved)]"
  using resolves_at_threshold [of "demoState\<lparr>ms_State := StateFiring\<rparr>" "[(False, 30 * second), (False, 60 * second)]"
      "builtin KindRebootDetected '''' ''warning'' 1 1 300 0 0"]
  by (auto simp: demoState_def recoveryThreshold_def builtin_def)

end
