(* ===== verification/Relay_Client.thy ===== *)
theory Relay_Client
  imports Go_Prelude
begin

text \<open>
  The outbound relay client (\<^verbatim>\<open>internal/watchtower/watchtower.go\<close>): credentials and their file, the
  signed envelope, enrolment, heartbeat and the sequence number every request reserves before it is
  sent.

  Files: a file operation consumes an outcome of the schedule \<open>wt_io\<close>; a write may also be torn, which
  leaves a file that does not parse. The network: a request consumes an answer of \<open>wt_net\<close>; an
  exhausted schedule gives no answer. \<open>wt_rand\<close> are the answers of \<open>crypto/rand\<close>. \<open>wt_sent\<close> records
  every request handed to the transport. The locks of the code make each of \<open>reserveSeq\<close>, the queue
  operations and the two sections of a flush atomic; what happens between them is left to the
  interleavings. \<open>sha\<close> is the hexadecimal digest of a JSON document's bytes, \<open>hmac\<close> the hexadecimal MAC
  under a decoded key.
\<close>

section \<open>State\<close>

record Creds =
  cr_RelayURL :: string
  cr_AgentID :: string
  cr_ServerID :: string
  cr_Secret :: string
  cr_Seq :: int

datatype 'a dfile = Absent | Garbage | Holds 'a

datatype io = IoOk | IoFail | IoTorn

datatype answer = NoAnswer | Answer (an_status: int) (an_body: json)

datatype werr = ErrNotEnrolled | WIO | WRand | WSecret | WNet | WStatus int | WDecode | WArg

record envelope =
  en_AgentID :: string
  en_ServerID :: string
  en_Seq :: int
  en_Timestamp :: string
  en_Nonce :: string
  en_PayloadHash :: string
  en_Payload :: json
  en_Signature :: string

text \<open>Times on the wire are RFC 3339 texts of whole seconds: \<open>RSec n\<close> is the text of second \<open>n\<close>.\<close>

datatype rfc3339 = REmpty | RSec int | RBad string

record monitorEventWire =
  mw_EventID :: string
  mw_MonitorID :: string
  mw_MonitorKind :: string
  mw_Target :: string
  mw_FromState :: string
  mw_ToState :: string
  mw_Severity :: string
  mw_FirstFailureAt :: rfc3339
  mw_OccurredAt :: rfc3339
  mw_Summary :: string
  mw_Attributes :: "(string \<times> string) list"

record MonitorEvent =
  me_EventID :: string
  me_MonitorID :: string
  me_MonitorKind :: string
  me_Target :: string
  me_FromState :: string
  me_ToState :: string
  me_Severity :: string
  me_FirstFailureAt :: time
  me_OccurredAt :: time
  me_Summary :: string
  me_Attributes :: "(string \<times> string) list"

record wt =
  wt_credFile :: "Creds dfile"
  wt_creds :: "Creds option"
  wt_queue :: "monitorEventWire list dfile"
  wt_io :: "io list"
  wt_rand :: "string option list"
  wt_net :: "answer list"
  wt_clock :: time
  wt_sent :: "(string \<times> envelope) list"
  wt_opened :: "(MonitorEvent \<times> string) list"

definition ioStep :: "wt \<Rightarrow> wt \<times> io" where
  "ioStep c = (case wt_io c of [] \<Rightarrow> (c, IoOk) | x # xs \<Rightarrow> (c\<lparr>wt_io := xs\<rparr>, x))"

text \<open>\<open>os.MkdirAll\<close>, \<open>os.Chmod\<close> and \<open>os.ReadFile\<close> succeed or fail; a torn outcome is a failure for them.\<close>

definition ioCall :: "wt \<Rightarrow> wt \<times> (werr + unit)" where
  "ioCall c = (case ioStep c of (c, IoOk) \<Rightarrow> (c, Inr ()) | (c, _) \<Rightarrow> (c, Inl WIO))"

text \<open>\<open>os.WriteFile\<close> truncates the file before it writes it.\<close>

definition writeFile :: "('a dfile \<Rightarrow> wt \<Rightarrow> wt) \<Rightarrow> 'a \<Rightarrow> wt \<Rightarrow> wt \<times> (werr + unit)" where
  "writeFile put x c = (case ioStep c of
      (c, IoOk) \<Rightarrow> (put (Holds x) c, Inr ())
    | (c, IoFail) \<Rightarrow> (c, Inl WIO)
    | (c, IoTorn) \<Rightarrow> (put Garbage c, Inl WIO))"

definition randHex :: "wt \<Rightarrow> wt \<times> (werr + string)" where
  "randHex c = (case wt_rand c of
      [] \<Rightarrow> (c, Inl WRand) | None # xs \<Rightarrow> (c\<lparr>wt_rand := xs\<rparr>, Inl WRand)
    | Some h # xs \<Rightarrow> (c\<lparr>wt_rand := xs\<rparr>, Inr h))"

section \<open>Credentials\<close>

definition LoadCreds :: "wt \<Rightarrow> wt \<times> (werr + Creds option)" where
  "LoadCreds c =
     andThen (ioCall c) (\<lambda>c _.
     case wt_credFile c of
       Absent \<Rightarrow> (c, Inr None)
     | Garbage \<Rightarrow> (c, Inl WDecode)
     | Holds cr \<Rightarrow> andThen (ioCall c) (\<lambda>c _. (c, Inr (Some cr))))"

definition saveCreds :: "wt \<Rightarrow> Creds \<Rightarrow> wt \<times> (werr + unit)" where
  "saveCreds c cr =
     andThen (ioCall c) (\<lambda>c _.
     andThen (writeFile (\<lambda>f c. c\<lparr>wt_credFile := f\<rparr>) cr c) (\<lambda>c _. ioCall c))"

text \<open>A fresh client after a restart: what is in memory comes from the file.\<close>

definition NewClient :: "wt \<Rightarrow> wt \<times> (werr + unit)" where
  "NewClient c = andThen (LoadCreds c) (\<lambda>c cr. (c\<lparr>wt_creds := cr\<rparr>, Inr ()))"

section \<open>Envelopes\<close>

definition isHexDigit :: "char \<Rightarrow> bool" where
  "isHexDigit c \<longleftrightarrow> isDigit c \<or> c \<in> set ''abcdefABCDEF''"

definition hexOk :: "string \<Rightarrow> bool" where
  "hexOk s \<longleftrightarrow> even (length s) \<and> list_all isHexDigit s"

definition newline :: char where "newline = CHR 0x0A"

definition SigningString :: "string \<Rightarrow> string \<Rightarrow> int \<Rightarrow> string \<Rightarrow> string \<Rightarrow> string \<Rightarrow> string" where
  "SigningString agentID serverID seq timestamp nonce payloadHash =
     Join [newline] [agentID, serverID, Itoa seq, timestamp, nonce, payloadHash]"

definition Sign :: "(string \<Rightarrow> string \<Rightarrow> string) \<Rightarrow> string \<Rightarrow> string \<Rightarrow> werr + string" where
  "Sign hmac secret signingString = (if hexOk secret then Inr (hmac secret signingString) else Inl WSecret)"

text \<open>
  \<open>t.UTC().Format(time.RFC3339)\<close>: the civil date of a day number (days since the epoch, years counted
  from March) and the time of day.
\<close>

definition pad :: "nat \<Rightarrow> int \<Rightarrow> string" where
  "pad w n = (let s = Itoa n in replicate (w - length s) CHR ''0'' @ s)"

definition civil :: "int \<Rightarrow> int \<times> int \<times> int" where
  "civil days =
     (let z = days + 719468; era = z div 146097; doe = z mod 146097;
          yoe = (doe - doe div 1460 + doe div 36524 - doe div 146096) div 365;
          doy = doe - (365 * yoe + yoe div 4 - yoe div 100); mp = (5 * doy + 2) div 153;
          d = doy - (153 * mp + 2) div 5 + 1; mo = (if mp < 10 then mp + 3 else mp - 9);
          y = yoe + era * 400 + (if mo \<le> 2 then 1 else 0)
      in (y, mo, d))"

definition formatRFC3339 :: "time \<Rightarrow> string" where
  "formatRFC3339 t =
     (let s = unixSec t; sod = s mod 86400 in
      case civil (s div 86400) of (y, mo, d) \<Rightarrow>
        pad 4 y @ ''-'' @ pad 2 mo @ ''-'' @ pad 2 d @ ''T'' @ pad 2 (sod div 3600) @ '':'' @
        pad 2 (sod mod 3600 div 60) @ '':'' @ pad 2 (sod mod 60) @ ''Z'')"

section \<open>Requests\<close>

text \<open>
  The locked section at the start of every request: the next sequence number is written to the
  credential file and only then taken.
\<close>

definition reserveSeq :: "wt \<Rightarrow> wt \<times> (werr + Creds)" where
  "reserveSeq c =
     (case wt_creds c of
        None \<Rightarrow> (c, Inl ErrNotEnrolled)
      | Some cr \<Rightarrow>
          let next = cr\<lparr>cr_Seq := cr_Seq cr + 1\<rparr> in
          andThen (saveCreds c next) (\<lambda>c _. (c\<lparr>wt_creds := Some next\<rparr>, Inr next)))"

definition buildEnvelope ::
    "(json \<Rightarrow> string) \<Rightarrow> (string \<Rightarrow> string \<Rightarrow> string) \<Rightarrow> wt \<Rightarrow> Creds \<Rightarrow> json \<Rightarrow> wt \<times> (werr + envelope)" where
  "buildEnvelope sha hmac c creds payload =
     andThen (randHex c) (\<lambda>c nonce.
     let timestamp = formatRFC3339 (wt_clock c); payloadHash = sha payload;
         signingString = SigningString (cr_AgentID creds) (cr_ServerID creds) (cr_Seq creds) timestamp nonce payloadHash
     in andThen (c, Sign hmac (cr_Secret creds) signingString) (\<lambda>c sig.
        (c, Inr \<lparr>en_AgentID = cr_AgentID creds, en_ServerID = cr_ServerID creds, en_Seq = cr_Seq creds,
                 en_Timestamp = timestamp, en_Nonce = nonce, en_PayloadHash = payloadHash,
                 en_Payload = payload, en_Signature = sig\<rparr>)))"

text \<open>\<open>http.Do\<close>: the answer's body, or the error of a missing answer or a status other than 200.\<close>

definition transmit :: "wt \<Rightarrow> string \<Rightarrow> envelope \<Rightarrow> wt \<times> (werr + json)" where
  "transmit c url env =
     (let c = c\<lparr>wt_sent := wt_sent c @ [(url, env)]\<rparr> in
      case wt_net c of
        [] \<Rightarrow> (c, Inl WNet)
      | a # as \<Rightarrow>
          let c = c\<lparr>wt_net := as\<rparr> in
          (case a of NoAnswer \<Rightarrow> (c, Inl WNet)
           | Answer st body \<Rightarrow> if st \<noteq> 200 then (c, Inl (WStatus st)) else (c, Inr body)))"

definition post ::
    "(json \<Rightarrow> string) \<Rightarrow> (string \<Rightarrow> string \<Rightarrow> string) \<Rightarrow> wt \<Rightarrow> string \<Rightarrow> json \<Rightarrow> wt \<times> (werr + json)" where
  "post sha hmac c path payload =
     andThen (reserveSeq c) (\<lambda>c creds.
     andThen (buildEnvelope sha hmac c creds payload) (\<lambda>c env.
     transmit c (cr_RelayURL creds @ path) env))"

definition Heartbeat ::
    "(json \<Rightarrow> string) \<Rightarrow> (string \<Rightarrow> string \<Rightarrow> string) \<Rightarrow> string \<Rightarrow> wt \<Rightarrow> wt \<times> (werr + unit)" where
  "Heartbeat sha hmac agentVersion c =
     andThen (post sha hmac c ''/v1/agents/heartbeat''
        (JObj [(''kind'', JStr ''heartbeat''), (''agentVersion'', JStr agentVersion)])) (\<lambda>c _. (c, Inr ()))"

section \<open>Enrolment\<close>

definition trimRightSlash :: "string \<Rightarrow> string" where
  "trimRightSlash s = rev (dropWhile (\<lambda>c. c = CHR ''/'') (rev s))"

text \<open>A string member of the relay's answer; a missing one decodes to the empty string.\<close>

definition strField :: "(string \<times> json) list \<Rightarrow> string \<Rightarrow> string option" where
  "strField ms k = (case map_of ms k of None \<Rightarrow> Some '''' | Some (JStr s) \<Rightarrow> Some s | Some JNull \<Rightarrow> Some '''' | _ \<Rightarrow> None)"

definition decodeRegister :: "json \<Rightarrow> (string \<times> string \<times> string) option" where
  "decodeRegister j = (case j of
      JObj ms \<Rightarrow> (case (strField ms ''agentId'', strField ms ''serverId'', strField ms ''secret'') of
          (Some a, Some s, Some k) \<Rightarrow> Some (a, s, k) | _ \<Rightarrow> None)
    | JNull \<Rightarrow> Some ('''', '''', '''') | _ \<Rightarrow> None)"

text \<open>The registration request carries no envelope; its answer is the next one of the schedule.\<close>

definition Enroll :: "wt \<Rightarrow> string \<Rightarrow> string \<Rightarrow> wt \<times> (werr + Creds)" where
  "Enroll c relayURL0 enrollmentCode =
     (let relayURL = trimRightSlash relayURL0 in
      if relayURL = '''' then (c, Inl WArg)
      else if enrollmentCode = '''' then (c, Inl WArg)
      else case wt_net c of
          [] \<Rightarrow> (c, Inl WNet)
        | a # as \<Rightarrow>
            let c = c\<lparr>wt_net := as\<rparr> in
            (case a of NoAnswer \<Rightarrow> (c, Inl WNet)
             | Answer st body \<Rightarrow>
                 if st \<noteq> 200 then (c, Inl (WStatus st))
                 else case decodeRegister body of
                     None \<Rightarrow> (c, Inl WDecode)
                   | Some (agentID, serverID, secret) \<Rightarrow>
                       if agentID = '''' \<or> serverID = '''' \<or> secret = '''' then (c, Inl WDecode)
                       else
                         let creds = \<lparr>cr_RelayURL = relayURL, cr_AgentID = agentID, cr_ServerID = serverID,
                                      cr_Secret = secret, cr_Seq = 0\<rparr> in
                         andThen (saveCreds c creds) (\<lambda>c _. (c\<lparr>wt_creds := Some creds\<rparr>, Inr creds))))"

section \<open>Sequence numbers are never reused\<close>

text \<open>
  The requests of several goroutines interleave: each reserves a number under the lock and sends later.
  A restart loses what was reserved and not sent.
\<close>

datatype cstep = CReserve | CSend nat string json | CRestart

fun clientStep ::
    "(json \<Rightarrow> string) \<Rightarrow> (string \<Rightarrow> string \<Rightarrow> string) \<Rightarrow> cstep \<Rightarrow> wt \<times> Creds list \<Rightarrow> wt \<times> Creds list" where
  "clientStep sha hmac CReserve (c, pend) =
     (case reserveSeq c of (c, Inr cr) \<Rightarrow> (c, pend @ [cr]) | (c, Inl _) \<Rightarrow> (c, pend))"
| "clientStep sha hmac (CSend i path payload) (c, pend) =
     (if i < length pend then
        (fst (andThen (buildEnvelope sha hmac c (pend ! i) payload) (\<lambda>c env.
           transmit c (cr_RelayURL (pend ! i) @ path) env)), take i pend @ drop (Suc i) pend)
      else (c, pend))"
| "clientStep sha hmac CRestart (c, pend) = (fst (NewClient (c\<lparr>wt_creds := None\<rparr>)), [])"

definition usedSeqs :: "wt \<times> Creds list \<Rightarrow> int list" where
  "usedSeqs s = map (en_Seq \<circ> snd) (wt_sent (fst s)) @ map cr_Seq (snd s)"

definition seqInv :: "wt \<times> Creds list \<Rightarrow> bool" where
  "seqInv s \<longleftrightarrow> distinct (usedSeqs s) \<and>
     (\<forall>n \<in> set (usedSeqs s). (\<forall>m. wt_creds (fst s) = Some m \<longrightarrow> n \<le> cr_Seq m) \<and>
        (\<forall>f. wt_credFile (fst s) = Holds f \<longrightarrow> n \<le> cr_Seq f))"

lemma ioStep_keeps:
  assumes "ioStep c = (c', x)"
  shows "wt_creds c' = wt_creds c" "wt_credFile c' = wt_credFile c" "wt_sent c' = wt_sent c"
    "wt_queue c' = wt_queue c" "wt_rand c' = wt_rand c" "wt_net c' = wt_net c" "wt_opened c' = wt_opened c"
  using assms by (auto simp: ioStep_def split: list.splits)

lemma ioCallE:
  assumes "ioCall c = (c', r)"
  obtains x where "ioStep c = (c', x)"
  using assms by (auto simp: ioCall_def split: prod.splits io.splits)

lemma saveCreds_cases:
  assumes "saveCreds c cr = (c', r)"
  shows "wt_creds c' = wt_creds c \<and> wt_sent c' = wt_sent c \<and>
    (wt_credFile c' = wt_credFile c \<or> wt_credFile c' = Garbage \<or> wt_credFile c' = Holds cr) \<and>
    (r = Inr () \<longrightarrow> wt_credFile c' = Holds cr)"
proof -
  obtain c1 r1 where 1: "ioCall c = (c1, r1)" by (cases "ioCall c")
  obtain c2 r2 where 2: "writeFile (\<lambda>f c. c\<lparr>wt_credFile := f\<rparr>) cr c1 = (c2, r2)"
    by (cases "writeFile (\<lambda>f c. c\<lparr>wt_credFile := f\<rparr>) cr c1")
  obtain c3 r3 where 3: "ioCall c2 = (c3, r3)" by (cases "ioCall c2")
  have k1: "wt_creds c1 = wt_creds c \<and> wt_sent c1 = wt_sent c \<and> wt_credFile c1 = wt_credFile c"
    using 1 by (auto elim!: ioCallE dest: ioStep_keeps)
  have k3: "wt_creds c3 = wt_creds c2 \<and> wt_sent c3 = wt_sent c2 \<and> wt_credFile c3 = wt_credFile c2"
    using 3 by (auto elim!: ioCallE dest: ioStep_keeps)
  have k2: "wt_creds c2 = wt_creds c1 \<and> wt_sent c2 = wt_sent c1 \<and>
      (case r2 of Inr _ \<Rightarrow> wt_credFile c2 = Holds cr | Inl _ \<Rightarrow> wt_credFile c2 \<in> {wt_credFile c1, Garbage})"
    using 2 by (auto simp: writeFile_def split: prod.splits io.splits dest: ioStep_keeps)
  show ?thesis using assms k1 k2 k3
    by (cases r1; cases r2) (auto simp: saveCreds_def 1 2 3)
qed

lemma reserveSeq_cases:
  assumes "reserveSeq c = (c', r)"
  shows "wt_sent c' = wt_sent c \<and>
    (case r of
       Inl _ \<Rightarrow> wt_creds c' = wt_creds c \<and> (wt_credFile c' = wt_credFile c \<or> wt_credFile c' = Garbage \<or>
           (\<exists>m. wt_creds c = Some m \<and> wt_credFile c' = Holds (m\<lparr>cr_Seq := cr_Seq m + 1\<rparr>)))
     | Inr n \<Rightarrow> \<exists>m. wt_creds c = Some m \<and> n = m\<lparr>cr_Seq := cr_Seq m + 1\<rparr> \<and>
           wt_creds c' = Some n \<and> wt_credFile c' = Holds n)"
proof (cases "wt_creds c")
  case None
  then show ?thesis using assms by (auto simp: reserveSeq_def)
next
  case (Some m)
  let ?n = "m\<lparr>cr_Seq := cr_Seq m + 1\<rparr>"
  obtain c1 r1 where s: "saveCreds c ?n = (c1, r1)" by (cases "saveCreds c ?n")
  from saveCreds_cases [OF s] show ?thesis
    using assms Some s by (cases r1) (auto simp: reserveSeq_def Let_def)
qed

lemma randHex_keeps:
  "randHex c = (c', r) \<Longrightarrow> wt_creds c' = wt_creds c \<and> wt_credFile c' = wt_credFile c \<and> wt_sent c' = wt_sent c \<and>
     wt_queue c' = wt_queue c \<and> wt_opened c' = wt_opened c"
  by (auto simp: randHex_def split: list.splits option.splits)

lemma buildEnvelope_cases:
  assumes "buildEnvelope sha hmac c cr payload = (c', r)"
  shows "wt_creds c' = wt_creds c \<and> wt_credFile c' = wt_credFile c \<and> wt_sent c' = wt_sent c \<and>
    wt_queue c' = wt_queue c \<and> wt_opened c' = wt_opened c \<and> (\<forall>e. r = Inr e \<longrightarrow> en_Seq e = cr_Seq cr)"
proof -
  obtain c1 r1 where 1: "randHex c = (c1, r1)" by (cases "randHex c")
  from randHex_keeps [OF 1] show ?thesis using assms
    by (cases r1) (auto simp: buildEnvelope_def 1 Let_def Sign_def split: if_splits)
qed

lemma transmit_cases:
  assumes "transmit c url e = (c', r)"
  shows "wt_creds c' = wt_creds c \<and> wt_credFile c' = wt_credFile c \<and> wt_sent c' = wt_sent c @ [(url, e)] \<and>
    wt_queue c' = wt_queue c \<and> wt_opened c' = wt_opened c"
  using assms by (auto simp: transmit_def Let_def split: list.splits answer.splits if_splits)

lemma send_cases:
  assumes "andThen (buildEnvelope sha hmac c cr payload) (\<lambda>c env. transmit c url env) = (c', r)"
  shows "wt_creds c' = wt_creds c \<and> wt_credFile c' = wt_credFile c \<and> wt_queue c' = wt_queue c \<and>
    wt_opened c' = wt_opened c \<and>
    (wt_sent c' = wt_sent c \<or> (\<exists>e. wt_sent c' = wt_sent c @ [(url, e)] \<and> en_Seq e = cr_Seq cr))"
proof -
  obtain c1 r1 where 1: "buildEnvelope sha hmac c cr payload = (c1, r1)"
    by (cases "buildEnvelope sha hmac c cr payload")
  from buildEnvelope_cases [OF 1] show ?thesis
    using assms by (cases r1) (auto simp: 1 dest!: transmit_cases)
qed

lemma NewClient_cases:
  assumes "NewClient c = (c', r)" and "wt_creds c = None"
  shows "wt_sent c' = wt_sent c \<and> wt_credFile c' = wt_credFile c \<and>
    (wt_creds c' = None \<or> (\<exists>f. wt_credFile c = Holds f \<and> wt_creds c' = Some f))"
proof -
  obtain c1 r1 where 1: "ioCall c = (c1, r1)" by (cases "ioCall c")
  obtain c2 r2 where 2: "ioCall c1 = (c2, r2)" by (cases "ioCall c1")
  have k: "wt_creds c1 = wt_creds c \<and> wt_sent c1 = wt_sent c \<and> wt_credFile c1 = wt_credFile c"
    "wt_creds c2 = wt_creds c1 \<and> wt_sent c2 = wt_sent c1 \<and> wt_credFile c2 = wt_credFile c1"
    using 1 2 by (auto elim!: ioCallE dest: ioStep_keeps)
  show ?thesis using assms k
    by (cases r1; cases r2; cases "wt_credFile c") (auto simp: NewClient_def LoadCreds_def 1 2)
qed

lemma seqInv_step:
  assumes "seqInv s" shows "seqInv (clientStep sha hmac x s)"
proof (cases s)
  case (Pair c pend)
  show ?thesis
  proof (cases x)
    case CReserve
    obtain c' r where r: "reserveSeq c = (c', r)" by (cases "reserveSeq c")
    have b: "n \<le> cr_Seq m" if "n \<in> set (usedSeqs s)" "wt_creds c = Some m" for n m
      using assms that by (simp add: seqInv_def Pair)
    show ?thesis
    proof (cases r)
      case (Inl e)
      have "usedSeqs (c', pend) = usedSeqs s" using reserveSeq_cases [OF r] by (simp add: usedSeqs_def Pair)
      then show ?thesis using reserveSeq_cases [OF r] assms Inl b
        by (fastforce simp: Pair CReserve r seqInv_def)
    next
      case (Inr n)
      obtain m where m: "wt_creds c = Some m" "n = m\<lparr>cr_Seq := cr_Seq m + 1\<rparr>" "wt_creds c' = Some n"
        "wt_credFile c' = Holds n" "wt_sent c' = wt_sent c"
        using reserveSeq_cases [OF r] Inr by auto
      have u: "usedSeqs (c', pend @ [n]) = usedSeqs s @ [cr_Seq m + 1]" using m by (simp add: usedSeqs_def Pair)
      have "cr_Seq m + 1 \<notin> set (usedSeqs s)" using b m(1) by fastforce
      then show ?thesis using assms b m u by (fastforce simp: Pair CReserve r Inr seqInv_def)
    qed
  next
    case (CSend i path payload)
    show ?thesis
    proof (cases "i < length pend")
      case True
      obtain c' r where r: "andThen (buildEnvelope sha hmac c (pend ! i) payload) (\<lambda>c env.
           transmit c (cr_RelayURL (pend ! i) @ path) env) = (c', r)"
        by (cases "andThen (buildEnvelope sha hmac c (pend ! i) payload) (\<lambda>c env.
           transmit c (cr_RelayURL (pend ! i) @ path) env)")
      have p: "pend = take i pend @ pend ! i # drop (Suc i) pend" using True by (rule id_take_nth_drop)
      then have m: "map cr_Seq pend = map cr_Seq (take i pend) @ cr_Seq (pend ! i) # map cr_Seq (drop (Suc i) pend)"
        by (metis list.simps(9) map_append)
      define A B S x where "A = map cr_Seq (take i pend)" and "B = map cr_Seq (drop (Suc i) pend)"
        and "S = map (en_Seq \<circ> snd) (wt_sent c)" and "x = cr_Seq (pend ! i)"
      have d: "distinct (S @ A @ x # B)"
        using assms m by (simp add: seqInv_def usedSeqs_def Pair A_def B_def S_def x_def)
      have o: "set (usedSeqs (c, pend)) = set (S @ A @ x # B)"
        by (simp only: usedSeqs_def fst_conv snd_conv m A_def B_def S_def x_def)
      have "usedSeqs (c', take i pend @ drop (Suc i) pend) \<in> {S @ A @ B, (S @ [x]) @ A @ B}"
        using send_cases [OF r] by (auto simp: usedSeqs_def A_def B_def S_def x_def)
      with d o have "distinct (usedSeqs (c', take i pend @ drop (Suc i) pend))"
        and u: "set (usedSeqs (c', take i pend @ drop (Suc i) pend)) \<subseteq> set (usedSeqs (c, pend))"
        by auto
      with u assms send_cases [OF r] True show ?thesis
        by (auto simp: Pair CSend r seqInv_def)
    qed (use assms in \<open>simp add: Pair CSend\<close>)
  next
    case CRestart
    obtain c' r where r: "NewClient (c\<lparr>wt_creds := None\<rparr>) = (c', r)" by (cases "NewClient (c\<lparr>wt_creds := None\<rparr>)")
    note n = NewClient_cases [OF r]
    have "distinct (usedSeqs (c', []))" and u: "set (usedSeqs (c', [])) \<subseteq> set (usedSeqs s)"
      using n assms by (auto simp: usedSeqs_def seqInv_def Pair)
    then show ?thesis using n assms by (auto simp: Pair CRestart r seqInv_def)
  qed
qed

text \<open>C35. No sequence number is ever sent twice: for every interleaving of requests, every failure of the
  credential file's writes (torn ones included), every lost answer and any number of restarts, the
  numbers of all requests handed to the transport are distinct.\<close>

theorem sequence_never_reused:
  assumes "wt_sent c = []"
  shows "distinct (map (en_Seq \<circ> snd) (wt_sent (fst (fold (clientStep sha hmac) steps (c, [])))))"
proof -
  have "seqInv (fold (clientStep sha hmac) steps s)" if "seqInv s" for s
    using that
  proof (induction steps arbitrary: s)
    case (Cons x xs)
    from Cons.IH [OF seqInv_step [OF Cons.prems]] show ?case by simp
  qed simp
  moreover have "seqInv (c, [])" using assms by (simp add: seqInv_def usedSeqs_def)
  ultimately have "seqInv (fold (clientStep sha hmac) steps (c, []))" by blast
  then have "distinct (usedSeqs (fold (clientStep sha hmac) steps (c, [])))" by (simp only: seqInv_def)
  then show ?thesis by (simp only: usedSeqs_def distinct_append)
qed

definition demoClient :: wt where
  "demoClient = (let cr = \<lparr>cr_RelayURL = ''r'', cr_AgentID = ''a'', cr_ServerID = ''s'', cr_Secret = ''00'', cr_Seq = 4\<rparr> in
     \<lparr>wt_credFile = Holds cr, wt_creds = Some cr, wt_queue = Absent, wt_io = [],
      wt_rand = [Some ''n1'', Some ''n2'', Some ''n3''], wt_net = [NoAnswer, Answer 200 JNull, Answer 200 JNull],
      wt_clock = 0, wt_sent = [], wt_opened = []\<rparr>)"

theorem sequence_never_reused_witness:
  "distinct (map (en_Seq \<circ> snd) (wt_sent (fst (fold (clientStep (\<lambda>_. ''h'') (\<lambda>_ _. ''m''))
     [CReserve, CReserve, CSend 1 ''/x'' JNull, CRestart, CReserve, CSend 0 ''/x'' JNull] (demoClient, [])))))"
  by (rule sequence_never_reused) (simp add: demoClient_def Let_def)

end
