(* ===== verification/Event_Queue.thy ===== *)
theory Event_Queue
  imports Relay_Client
begin

text \<open>
  The offline queue of monitor events and the relay's monitor endpoints
  (\<^verbatim>\<open>internal/watchtower/monitor_events.go\<close>): conversion to and from the wire, event ids, the condensed
  batch, enqueue and flush, monitor sync.

  \<open>EnqueueMonitorEvent\<close> runs under the queue lock and is one step. \<open>FlushQueue\<close> holds the lock twice,
  around \<open>flushBegin\<close> and \<open>flushEnd\<close>, and sends without it; enqueues and other flushes may run between.
\<close>

section \<open>Events on the wire\<close>

definition toMonitorEventWire :: "MonitorEvent \<Rightarrow> monitorEventWire" where
  "toMonitorEventWire e =
     \<lparr>mw_EventID = me_EventID e, mw_MonitorID = me_MonitorID e, mw_MonitorKind = me_MonitorKind e,
      mw_Target = me_Target e, mw_FromState = me_FromState e, mw_ToState = me_ToState e,
      mw_Severity = me_Severity e, mw_FirstFailureAt = RSec (unixSec (me_FirstFailureAt e)),
      mw_OccurredAt = RSec (unixSec (me_OccurredAt e)), mw_Summary = me_Summary e,
      mw_Attributes = me_Attributes e\<rparr>"

definition parseRFC3339 :: "rfc3339 \<Rightarrow> werr + time" where
  "parseRFC3339 r = (case r of RSec n \<Rightarrow> Inr (fromUnix n) | _ \<Rightarrow> Inl WDecode)"

text \<open>An error of the parser is ignored when the text is empty; the time is then the zero time.\<close>

definition parseOptional :: "rfc3339 \<Rightarrow> werr + time" where
  "parseOptional r = (case parseRFC3339 r of
      Inr t \<Rightarrow> Inr t | Inl e \<Rightarrow> if r = REmpty then Inr zeroTime else Inl e)"

definition fromMonitorEventWire :: "monitorEventWire \<Rightarrow> werr + MonitorEvent" where
  "fromMonitorEventWire w =
     (case parseOptional (mw_FirstFailureAt w) of
        Inl e \<Rightarrow> Inl e
      | Inr firstFailureAt \<Rightarrow>
     (case parseOptional (mw_OccurredAt w) of
        Inl e \<Rightarrow> Inl e
      | Inr occurredAt \<Rightarrow>
          Inr \<lparr>me_EventID = mw_EventID w, me_MonitorID = mw_MonitorID w, me_MonitorKind = mw_MonitorKind w,
               me_Target = mw_Target w, me_FromState = mw_FromState w, me_ToState = mw_ToState w,
               me_Severity = mw_Severity w, me_FirstFailureAt = firstFailureAt, me_OccurredAt = occurredAt,
               me_Summary = mw_Summary w, me_Attributes = mw_Attributes w\<rparr>))"

definition NewMonitorEventID :: "wt \<Rightarrow> wt \<times> (werr + string)" where
  "NewMonitorEventID c = andThen (randHex c) (\<lambda>c h. (c, Inr (''mevt_'' @ h)))"

section \<open>The queue file\<close>

fun fromWireAll :: "monitorEventWire list \<Rightarrow> werr + MonitorEvent list" where
  "fromWireAll [] = Inr []"
| "fromWireAll (w # ws) =
     (case fromMonitorEventWire w of Inl e \<Rightarrow> Inl e
      | Inr ev \<Rightarrow> (case fromWireAll ws of Inl e \<Rightarrow> Inl e | Inr evs \<Rightarrow> Inr (ev # evs)))"

definition loadMonitorQueue :: "wt \<Rightarrow> wt \<times> (werr + MonitorEvent list)" where
  "loadMonitorQueue c =
     andThen (ioCall c) (\<lambda>c _.
     case wt_queue c of
       Absent \<Rightarrow> (c, Inr [])
     | Garbage \<Rightarrow> (c, Inl WDecode)
     | Holds ws \<Rightarrow> (c, fromWireAll ws))"

definition saveMonitorQueue :: "wt \<Rightarrow> MonitorEvent list \<Rightarrow> wt \<times> (werr + unit)" where
  "saveMonitorQueue c events =
     andThen (ioCall c) (\<lambda>c _.
     andThen (writeFile (\<lambda>f c. c\<lparr>wt_queue := f\<rparr>) (map toMonitorEventWire events) c) (\<lambda>c _. ioCall c))"

text \<open>The events without an id get one; the flag tells whether there was any.\<close>

fun ensureMonitorEventIDs :: "wt \<Rightarrow> MonitorEvent list \<Rightarrow> wt \<times> (werr + MonitorEvent list \<times> bool)" where
  "ensureMonitorEventIDs c [] = (c, Inr ([], False))"
| "ensureMonitorEventIDs c (ev # evs) =
     (if me_EventID ev \<noteq> '''' then
        andThen (ensureMonitorEventIDs c evs) (\<lambda>c (evs, changed). (c, Inr (ev # evs, changed)))
      else
        andThen (NewMonitorEventID c) (\<lambda>c i.
        andThen (ensureMonitorEventIDs c evs) (\<lambda>c (evs, _). (c, Inr (ev\<lparr>me_EventID := i\<rparr> # evs, True)))))"

definition EnqueueMonitorEvent :: "wt \<Rightarrow> MonitorEvent \<Rightarrow> wt \<times> (werr + unit)" where
  "EnqueueMonitorEvent c ev =
     andThen (loadMonitorQueue c) (\<lambda>c events.
     andThen (ensureMonitorEventIDs c (events @ [ev])) (\<lambda>c (events, _). saveMonitorQueue c events))"

section \<open>Condensing\<close>

definition monitorEventKey :: "MonitorEvent \<Rightarrow> string" where
  "monitorEventKey e = me_MonitorKind e @ '':'' @ me_Target e"

text \<open>Indices are \<open>None\<close> where the code has -1.\<close>

record history =
  hi_firing :: "nat option"
  hi_resolved :: "nat option"
  hi_earliest :: time

definition noHistory :: history where
  "noHistory = \<lparr>hi_firing = None, hi_resolved = None, hi_earliest = zeroTime\<rparr>"

definition earlier :: "history \<Rightarrow> MonitorEvent \<Rightarrow> time" where
  "earlier h ev =
     (if IsZero (hi_earliest h) \<or> (\<not> IsZero (me_FirstFailureAt ev) \<and> me_FirstFailureAt ev < hi_earliest h)
      then me_FirstFailureAt ev else hi_earliest h)"

definition updHistory :: "nat \<Rightarrow> MonitorEvent \<Rightarrow> history \<Rightarrow> history" where
  "updHistory i ev h =
     (if me_ToState ev = ''firing'' then
        \<lparr>hi_firing = Some i, hi_resolved = None, hi_earliest = me_FirstFailureAt ev\<rparr>
      else if me_ToState ev = ''resolved'' then h\<lparr>hi_resolved := Some i, hi_earliest := earlier h ev\<rparr>
      else h\<lparr>hi_earliest := earlier h ev\<rparr>)"

fun histories :: "nat \<Rightarrow> MonitorEvent list \<Rightarrow> (string \<times> history) list \<Rightarrow> (string \<times> history) list" where
  "histories i [] hs = hs"
| "histories i (ev # evs) hs =
     (let k = monitorEventKey ev;
          h = (case map_of hs k of None \<Rightarrow> noHistory | Some h \<Rightarrow> h)
      in histories (Suc i) evs (AList.update k (updHistory i ev h) hs))"

definition selectFrom :: "MonitorEvent list \<Rightarrow> history \<Rightarrow> (nat \<times> MonitorEvent) list" where
  "selectFrom events h =
     (case hi_firing h of None \<Rightarrow> [] | Some i \<Rightarrow> [(i, (events ! i)\<lparr>me_FirstFailureAt := hi_earliest h\<rparr>)]) @
     (case hi_resolved h of None \<Rightarrow> [] | Some i \<Rightarrow> [(i, (events ! i)\<lparr>me_FirstFailureAt := hi_earliest h\<rparr>)])"

definition condenseMonitorEvents :: "MonitorEvent list \<Rightarrow> MonitorEvent list" where
  "condenseMonitorEvents events =
     (let selected = concat (map (\<lambda>(k, h). selectFrom events h) (histories 0 events []))
      in List.map_filter (\<lambda>i. map_of selected i) [0..<length events])"

section \<open>Sending and flushing\<close>

definition rfcJson :: "rfc3339 \<Rightarrow> json" where
  "rfcJson r = (case r of REmpty \<Rightarrow> JStr '''' | RSec n \<Rightarrow> JStr (formatRFC3339 (fromUnix n)) | RBad s \<Rightarrow> JStr s)"

definition wireJson :: "monitorEventWire \<Rightarrow> json" where
  "wireJson w = JObj ([(''eventId'', JStr (mw_EventID w)), (''monitorId'', JStr (mw_MonitorID w)),
     (''monitorKind'', JStr (mw_MonitorKind w)), (''target'', JStr (mw_Target w)),
     (''fromState'', JStr (mw_FromState w)), (''toState'', JStr (mw_ToState w)),
     (''severity'', JStr (mw_Severity w)), (''firstFailureAt'', rfcJson (mw_FirstFailureAt w)),
     (''occurredAt'', rfcJson (mw_OccurredAt w)), (''summary'', JStr (mw_Summary w))] @
     (if mw_Attributes w = [] then []
      else [(''attributes'', JObj (map (\<lambda>(k, v). (k, JStr v)) (sort_key fst (mw_Attributes w))))]))"

text \<open>The incidents the relay names in its answer; an answer that does not decode names none.\<close>

definition answerIncident :: "json \<Rightarrow> (string \<times> string) option" where
  "answerIncident j = (case j of
      JObj ms \<Rightarrow> (case (strField ms ''eventId'', strField ms ''incidentId'') of
          (Some e, Some i) \<Rightarrow> Some (e, i) | _ \<Rightarrow> None)
    | JNull \<Rightarrow> Some ('''', '''') | _ \<Rightarrow> None)"

definition answerIncidents :: "json \<Rightarrow> (string \<times> string) list" where
  "answerIncidents j = (case j of
      JObj ms \<Rightarrow> (case map_of ms ''incidents'' of
          Some (JArr xs) \<Rightarrow>
            (if list_all (\<lambda>x. answerIncident x \<noteq> None) xs then map (the \<circ> answerIncident) xs else [])
        | _ \<Rightarrow> [])
    | _ \<Rightarrow> [])"

definition reportOpenedIncidents :: "wt \<Rightarrow> MonitorEvent list \<Rightarrow> json \<Rightarrow> wt" where
  "reportOpenedIncidents c events body =
     (let byID = rev (map (\<lambda>e. (me_EventID e, e)) events) in
      c\<lparr>wt_opened := wt_opened c @ List.map_filter (\<lambda>(eventID, incidentID).
          case map_of byID eventID of
            Some ev \<Rightarrow> if incidentID \<noteq> '''' then Some (ev, incidentID) else None
          | None \<Rightarrow> None) (answerIncidents body)\<rparr>)"

definition SendMonitorEvents ::
    "(json \<Rightarrow> string) \<Rightarrow> (string \<Rightarrow> string \<Rightarrow> string) \<Rightarrow> wt \<Rightarrow> MonitorEvent list \<Rightarrow> wt \<times> (werr + unit)" where
  "SendMonitorEvents sha hmac c events =
     (if events = [] then (c, Inr ())
      else andThen (post sha hmac c ''/v1/monitor-events/batch''
              (JObj [(''kind'', JStr ''monitor_events''),
                     (''events'', JArr (map (wireJson \<circ> toMonitorEventWire) events))])) (\<lambda>c body.
           (reportOpenedIncidents c events body, Inr ())))"

text \<open>The first locked section of a flush: how many events were seen and the batch to send.\<close>

definition flushBegin :: "wt \<Rightarrow> wt \<times> (werr + (nat \<times> MonitorEvent list) option)" where
  "flushBegin c =
     andThen (loadMonitorQueue c) (\<lambda>c events.
     if length events = 0 then (c, Inr None)
     else
       andThen (ensureMonitorEventIDs c events) (\<lambda>c (events', changed).
       andThen (if changed then saveMonitorQueue c events' else (c, Inr ())) (\<lambda>c _.
       (c, Inr (Some (length events, condenseMonitorEvents events'))))))"

text \<open>The second one: drop as many events as were seen.\<close>

definition flushEnd :: "wt \<Rightarrow> nat \<Rightarrow> wt \<times> (werr + unit)" where
  "flushEnd c n =
     andThen (loadMonitorQueue c) (\<lambda>c remaining.
     saveMonitorQueue c (if length remaining \<le> n then [] else drop n remaining))"

definition FlushQueue ::
    "(json \<Rightarrow> string) \<Rightarrow> (string \<Rightarrow> string \<Rightarrow> string) \<Rightarrow> wt \<Rightarrow> wt \<times> (werr + unit)" where
  "FlushQueue sha hmac c =
     andThen (flushBegin c) (\<lambda>c r.
     case r of None \<Rightarrow> (c, Inr ())
     | Some (n, batch) \<Rightarrow> andThen (SendMonitorEvents sha hmac c batch) (\<lambda>c _. flushEnd c n))"

text \<open>One tick of the background loop: heartbeat, then drain the queue.\<close>

definition RunTick ::
    "(json \<Rightarrow> string) \<Rightarrow> (string \<Rightarrow> string \<Rightarrow> string) \<Rightarrow> string \<Rightarrow> wt \<Rightarrow> wt" where
  "RunTick sha hmac agentVersion c =
     (if wt_creds c = None then c
      else case Heartbeat sha hmac agentVersion c of
          (c, Inl _) \<Rightarrow> c
        | (c, Inr _) \<Rightarrow> fst (FlushQueue sha hmac c))"

section \<open>What a condensed batch contains\<close>

lemma histories_append:
  "histories i (xs @ ys) hs = histories (i + length xs) ys (histories i xs hs)"
  by (induction xs arbitrary: i hs) (auto simp: Let_def)

lemma histories_snoc:
  "histories 0 (es @ [e]) [] =
     (let hs = histories 0 es []; k = monitorEventKey e;
          h = (case map_of hs k of None \<Rightarrow> noHistory | Some h \<Rightarrow> h)
      in AList.update k (updHistory (length es) e h) hs)"
  by (simp add: histories_append Let_def)

abbreviation lifecycle :: "MonitorEvent \<Rightarrow> bool" where
  "lifecycle e \<equiv> me_ToState e \<in> {''firing'', ''resolved''}"

text \<open>
  What the history of a monitor records of the events so far: the latest firing one and the latest
  resolved one after it.
\<close>

definition histOk :: "MonitorEvent list \<Rightarrow> string \<Rightarrow> history \<Rightarrow> bool" where
  "histOk es k h \<longleftrightarrow>
     (case hi_firing h of
        None \<Rightarrow> \<forall>j < length es. monitorEventKey (es ! j) = k \<longrightarrow> me_ToState (es ! j) \<noteq> ''firing''
      | Some f \<Rightarrow> f < length es \<and> monitorEventKey (es ! f) = k \<and> me_ToState (es ! f) = ''firing'' \<and>
          (\<forall>j < length es. f < j \<and> monitorEventKey (es ! j) = k \<longrightarrow> me_ToState (es ! j) \<noteq> ''firing'')) \<and>
     (case hi_resolved h of
        None \<Rightarrow> \<forall>j < length es. monitorEventKey (es ! j) = k \<and> me_ToState (es ! j) = ''resolved'' \<longrightarrow>
          (\<exists>f. hi_firing h = Some f \<and> j < f)
      | Some r \<Rightarrow> r < length es \<and> monitorEventKey (es ! r) = k \<and> me_ToState (es ! r) = ''resolved'' \<and>
          (\<forall>j < length es. r < j \<and> monitorEventKey (es ! j) = k \<longrightarrow> \<not> lifecycle (es ! j)))"

lemma histOk_noHistory: "(\<forall>e \<in> set es. monitorEventKey e \<noteq> k) \<Longrightarrow> histOk es k noHistory"
  by (auto simp: histOk_def noHistory_def)

lemma all_less_Suc: "(\<forall>j < Suc n. P j) \<longleftrightarrow> (\<forall>j < n. P j) \<and> P n"
  by (auto simp: less_Suc_eq)

lemma histOk_snoc_other:
  "histOk es k h \<Longrightarrow> monitorEventKey e \<noteq> k \<Longrightarrow> histOk (es @ [e]) k h"
  by (auto simp: histOk_def nth_append all_less_Suc split: option.splits)

lemma histOk_snoc_same:
  assumes "histOk es k h" and "monitorEventKey e = k"
  shows "histOk (es @ [e]) k (updHistory (length es) e h)"
proof (cases "lifecycle e")
  case False
  then show ?thesis using assms
    by (auto simp: histOk_def updHistory_def nth_append all_less_Suc split: option.splits)
next
  case True
  then show ?thesis using assms
    by (cases "hi_firing h"; cases "hi_resolved h")
      (auto simp: histOk_def updHistory_def nth_append all_less_Suc split: if_splits)
qed

lemma histories_ok:
  "(\<forall>h. map_of (histories 0 es []) k = Some h \<longrightarrow> histOk es k h) \<and>
   (map_of (histories 0 es []) k = None \<longrightarrow> (\<forall>e \<in> set es. monitorEventKey e \<noteq> k)) \<and>
   distinct (map fst (histories 0 es []))"
proof (induction es arbitrary: k rule: rev_induct)
  case Nil
  then show ?case by simp
next
  case (snoc e es)
  let ?hs = "histories 0 es []"
  show ?case
  proof (cases "monitorEventKey e = k")
    case True
    have "histOk es k (case map_of ?hs k of None \<Rightarrow> noHistory | Some h \<Rightarrow> h)"
      using snoc.IH [of k] histOk_noHistory by (auto split: option.splits)
    from histOk_snoc_same [OF this True] snoc.IH [of k] True show ?thesis
      by (auto simp: histories_snoc Let_def distinct_keys_update)
  next
    case False
    with snoc.IH [of k] histOk_snoc_other [of es k _ e] show ?thesis
      by (auto simp: histories_snoc Let_def distinct_keys_update)
  qed
qed

text \<open>The entries of the selection map.\<close>

definition selection :: "MonitorEvent list \<Rightarrow> (nat \<times> MonitorEvent) list" where
  "selection events = concat (map (\<lambda>(k, h). selectFrom events h) (histories 0 events []))"

lemma selection_set:
  "(i, ev) \<in> set (selection events) \<longleftrightarrow> (\<exists>k h. map_of (histories 0 events []) k = Some h \<and>
     (hi_firing h = Some i \<or> hi_resolved h = Some i) \<and> ev = (events ! i)\<lparr>me_FirstFailureAt := hi_earliest h\<rparr>)"
proof -
  have m: "(k, h) \<in> set (histories 0 events []) \<longleftrightarrow> map_of (histories 0 events []) k = Some h" for k h
    using histories_ok [of events] by (simp add: map_of_eq_Some_iff)
  show ?thesis
    by (auto simp: selection_def selectFrom_def m split: option.splits) (metis m)+
qed

lemma selection_key:
  assumes "map_of (histories 0 events []) k = Some h" and "hi_firing h = Some i \<or> hi_resolved h = Some i"
  shows "i < length events \<and> monitorEventKey (events ! i) = k"
proof -
  have "histOk events k h" using histories_ok assms(1) by blast
  with assms(2) show ?thesis by (auto simp: histOk_def)
qed

lemma selection_map_of:
  "map_of (selection events) i = Some ev \<longleftrightarrow> (i, ev) \<in> set (selection events)"
proof
  assume a: "(i, ev) \<in> set (selection events)"
  then obtain ev' where e: "map_of (selection events) i = Some ev'" by (metis weak_map_of_SomeI)
  then have "(i, ev') \<in> set (selection events)" by (rule map_of_SomeD)
  then obtain k h where k: "map_of (histories 0 events []) k = Some h" "hi_firing h = Some i \<or> hi_resolved h = Some i"
    "ev' = (events ! i)\<lparr>me_FirstFailureAt := hi_earliest h\<rparr>" unfolding selection_set by blast
  obtain k' h' where k': "map_of (histories 0 events []) k' = Some h'" "hi_firing h' = Some i \<or> hi_resolved h' = Some i"
    "ev = (events ! i)\<lparr>me_FirstFailureAt := hi_earliest h'\<rparr>" using a unfolding selection_set by blast
  have "k = k'" using selection_key [OF k(1,2)] selection_key [OF k'(1,2)] by simp
  with k k' have "ev' = ev" by simp
  with e show "map_of (selection events) i = Some ev" by simp
qed (rule map_of_SomeD)

lemma condense_set:
  "ev \<in> set (condenseMonitorEvents events) \<longleftrightarrow> (\<exists>i. (i, ev) \<in> set (selection events))"
proof -
  have "ev \<in> set (condenseMonitorEvents events) \<longleftrightarrow>
      (\<exists>i < length events. map_of (selection events) i = Some ev)"
    by (auto simp: condenseMonitorEvents_def Let_def selection_def [symmetric] List.map_filter_def image_iff)
  then show ?thesis unfolding selection_map_of using selection_set selection_key by blast
qed

lemma length_map_filter_le:
  assumes "distinct xs" and "\<And>i ev. i \<in> set xs \<Longrightarrow> f i = Some ev \<Longrightarrow> P ev \<Longrightarrow> i \<in> A" and "finite A"
  shows "length (filter P (List.map_filter f xs)) \<le> card A"
proof -
  have "length (filter P (List.map_filter f xs)) = length (filter (\<lambda>i. \<exists>ev. f i = Some ev \<and> P ev) xs)"
    by (induction xs) (auto simp: List.map_filter_simps split: option.splits)
  also have "\<dots> = card (set (filter (\<lambda>i. \<exists>ev. f i = Some ev \<and> P ev) xs))"
    using distinct_card [OF distinct_filter [OF assms(1)]] by (rule sym)
  also have "\<dots> \<le> card A" using assms(2,3) by (intro card_mono) auto
  finally show ?thesis .
qed

text \<open>A condensed batch has at most two events of any monitor.\<close>

theorem condense_at_most_two:
  "length (filter (\<lambda>e. monitorEventKey e = k) (condenseMonitorEvents events)) \<le> 2"
proof -
  let ?A = "case map_of (histories 0 events []) k of None \<Rightarrow> {} | Some h \<Rightarrow> {i. hi_firing h = Some i \<or> hi_resolved h = Some i}"
  have c: "finite ?A \<and> card ?A \<le> 2"
  proof (cases "map_of (histories 0 events []) k")
    case (Some h)
    have "?A = set_option (hi_firing h) \<union> set_option (hi_resolved h)" using Some by (auto simp: elem_set)
    moreover have "card (set_option x) \<le> 1" for x :: "nat option" by (cases x) simp_all
    then have "card (set_option (hi_firing h) \<union> set_option (hi_resolved h)) \<le> 1 + 1"
      by (intro order_trans [OF card_Un_le add_mono])
    ultimately show ?thesis by simp
  qed simp
  have "length (filter (\<lambda>e. monitorEventKey e = k)
      (List.map_filter (\<lambda>i. map_of (selection events) i) [0..<length events])) \<le> card ?A"
  proof (rule length_map_filter_le)
    fix i ev
    assume "map_of (selection events) i = Some ev" and k: "monitorEventKey ev = k"
    then obtain k' h where h: "map_of (histories 0 events []) k' = Some h" "hi_firing h = Some i \<or> hi_resolved h = Some i"
      "ev = (events ! i)\<lparr>me_FirstFailureAt := hi_earliest h\<rparr>"
      unfolding selection_map_of selection_set by blast
    have "k' = k" using selection_key [OF h(1,2)] k h(3) by (simp add: monitorEventKey_def)
    with h show "i \<in> ?A" by simp
  qed (use c in simp_all)
  with c show ?thesis by (simp add: condenseMonitorEvents_def Let_def selection_def)
qed

text \<open>Nothing the relay needs is condensed away: the latest firing or resolved event of every monitor
  is in the batch, and when it is a resolved one, so is the firing event it closes.\<close>

theorem condense_keeps_latest:
  assumes "i < length events" and "lifecycle (events ! i)"
    and "\<And>j. i < j \<Longrightarrow> j < length events \<Longrightarrow> monitorEventKey (events ! j) = monitorEventKey (events ! i) \<Longrightarrow>
      \<not> lifecycle (events ! j)"
  shows "(\<exists>t. (events ! i)\<lparr>me_FirstFailureAt := t\<rparr> \<in> set (condenseMonitorEvents events)) \<and>
     (\<forall>f < i. me_ToState (events ! i) = ''resolved'' \<and> me_ToState (events ! f) = ''firing'' \<and>
        monitorEventKey (events ! f) = monitorEventKey (events ! i) \<and>
        (\<forall>j. f < j \<and> j < i \<and> monitorEventKey (events ! j) = monitorEventKey (events ! i) \<longrightarrow>
           me_ToState (events ! j) \<noteq> ''firing'') \<longrightarrow>
        (\<exists>t. (events ! f)\<lparr>me_FirstFailureAt := t\<rparr> \<in> set (condenseMonitorEvents events)))"
proof -
  let ?k = "monitorEventKey (events ! i)"
  have "events ! i \<in> set events" using assms(1) by simp
  then obtain h where h: "map_of (histories 0 events []) ?k = Some h"
    using histories_ok [of events ?k] by (cases "map_of (histories 0 events []) ?k") auto
  have ok: "histOk events ?k h" using histories_ok h by blast
  have sel: "\<exists>t. (events ! j)\<lparr>me_FirstFailureAt := t\<rparr> \<in> set (condenseMonitorEvents events)"
    if "hi_firing h = Some j \<or> hi_resolved h = Some j" for j
    using that h unfolding condense_set selection_set by blast
  have f: "hi_firing h = Some f" if "f < length events" "me_ToState (events ! f) = ''firing''"
    "monitorEventKey (events ! f) = ?k"
    "\<forall>j. f < j \<and> j < length events \<and> monitorEventKey (events ! j) = ?k \<longrightarrow> me_ToState (events ! j) \<noteq> ''firing''" for f
    using ok that by (cases "hi_firing h") (auto simp: histOk_def, metis linorder_neqE_nat)
  have r: "hi_resolved h = Some i" if res: "me_ToState (events ! i) = ''resolved''"
  proof (cases "hi_resolved h")
    case None
    then obtain g where "hi_firing h = Some g" "i < g" using ok assms(1) res by (auto simp: histOk_def)
    with ok assms(3) [of g] show ?thesis by (auto simp: histOk_def)
  next
    case (Some j)
    with ok assms(1,3) res show ?thesis by (auto simp: histOk_def, metis linorder_neqE_nat insertCI)
  qed
  show ?thesis
  proof (intro conjI allI impI)
    show "\<exists>t. (events ! i)\<lparr>me_FirstFailureAt := t\<rparr> \<in> set (condenseMonitorEvents events)"
    proof (cases "me_ToState (events ! i) = ''resolved''")
      case True
      then show ?thesis using r sel by blast
    next
      case False
      then have "hi_firing h = Some i" using assms by (intro f) auto
      then show ?thesis using sel by blast
    qed
  next
    fix g
    assume g: "g < i" "me_ToState (events ! i) = ''resolved'' \<and> me_ToState (events ! g) = ''firing'' \<and>
        monitorEventKey (events ! g) = ?k \<and>
        (\<forall>j. g < j \<and> j < i \<and> monitorEventKey (events ! j) = ?k \<longrightarrow> me_ToState (events ! j) \<noteq> ''firing'')"
    have "me_ToState (events ! j) \<noteq> ''firing''" if "g < j" "j < length events" "monitorEventKey (events ! j) = ?k" for j
      using that g(2) assms(3) [of j] by (cases "j < i"; cases "j = i") auto
    then have "hi_firing h = Some g" using g assms(1) by (intro f) auto
    then show "\<exists>t. (events ! g)\<lparr>me_FirstFailureAt := t\<rparr> \<in> set (condenseMonitorEvents events)" using sel by blast
  qed
qed

definition demoEvent :: "string \<Rightarrow> string \<Rightarrow> MonitorEvent" where
  "demoEvent i st = \<lparr>me_EventID = i, me_MonitorID = '''', me_MonitorKind = ''disk_capacity'', me_Target = ''/'',
     me_FromState = '''', me_ToState = st, me_Severity = '''', me_FirstFailureAt = 0, me_OccurredAt = 0,
     me_Summary = '''', me_Attributes = []\<rparr>"

theorem condense_keeps_latest_witness:
  "\<exists>t. (demoEvent ''a'' ''firing'')\<lparr>me_FirstFailureAt := t\<rparr> \<in>
     set (condenseMonitorEvents [demoEvent ''a'' ''firing'', demoEvent ''b'' ''resolved''])"
proof -
  let ?es = "[demoEvent ''a'' ''firing'', demoEvent ''b'' ''resolved'']"
  have "\<not> lifecycle (?es ! j)" if "1 < j" "j < length ?es" for j using that by simp
  from condense_keeps_latest [of 1 ?es] this show ?thesis
    by (auto simp: demoEvent_def monitorEventKey_def)
qed

section \<open>The queue keeps what was put into it\<close>

text \<open>The events in the queue file, as a load would read them; \<open>None\<close> when the file does not parse.\<close>

definition queued :: "wt \<Rightarrow> MonitorEvent list option" where
  "queued c = (case wt_queue c of Absent \<Rightarrow> Some [] | Garbage \<Rightarrow> None
     | Holds ws \<Rightarrow> (case fromWireAll ws of Inl _ \<Rightarrow> None | Inr evs \<Rightarrow> Some evs))"

text \<open>An event as it comes back from the file: its times lose their sub-second part.\<close>

definition wired :: "MonitorEvent \<Rightarrow> MonitorEvent" where
  "wired e = e\<lparr>me_FirstFailureAt := stored (me_FirstFailureAt e), me_OccurredAt := stored (me_OccurredAt e)\<rparr>"

lemma wire_roundtrip: "fromMonitorEventWire (toMonitorEventWire e) = Inr (wired e)"
  by (simp add: fromMonitorEventWire_def toMonitorEventWire_def parseOptional_def parseRFC3339_def wired_def)

lemma wire_roundtrip_all: "fromWireAll (map toMonitorEventWire es) = Inr (map wired es)"
  by (induction es) (simp_all add: wire_roundtrip)

lemma stored_zero: "stored zeroTime = zeroTime"
  by (simp add: zeroTime_def fromUnix_def unixSec_def second_def)

lemma wired_from: "fromMonitorEventWire w = Inr e \<Longrightarrow> wired e = e"
  by (auto simp: fromMonitorEventWire_def parseOptional_def parseRFC3339_def wired_def stored_zero
      split: sum.splits rfc3339.splits if_splits)

lemma wired_from_all: "fromWireAll ws = Inr es \<Longrightarrow> map wired es = es"
  by (induction ws arbitrary: es) (auto split: sum.splits dest: wired_from)

lemma queued_wired: "queued c = Some es \<Longrightarrow> map wired es = es"
  by (auto simp: queued_def split: dfile.splits sum.splits dest: wired_from_all)

lemma loadMonitorQueue_cases:
  assumes "loadMonitorQueue c = (c', r)"
  shows "wt_queue c' = wt_queue c" and "\<And>evs. r = Inr evs \<Longrightarrow> queued c = Some evs"
proof -
  obtain c1 r1 where 1: "ioCall c = (c1, r1)" by (cases "ioCall c")
  have q: "wt_queue c1 = wt_queue c" using 1 by (auto elim!: ioCallE dest: ioStep_keeps)
  show "wt_queue c' = wt_queue c" "\<And>evs. r = Inr evs \<Longrightarrow> queued c = Some evs"
    using assms q by (cases r1; auto simp: loadMonitorQueue_def 1 queued_def split: dfile.splits)+
qed

lemma saveMonitorQueue_cases:
  assumes "saveMonitorQueue c events = (c', r)"
  shows "wt_queue c' \<in> {wt_queue c, Garbage, Holds (map toMonitorEventWire events)}"
    and "r = Inr () \<Longrightarrow> queued c' = Some (map wired events)"
proof -
  obtain c1 r1 where 1: "ioCall c = (c1, r1)" by (cases "ioCall c")
  obtain c2 r2 where 2: "writeFile (\<lambda>f c. c\<lparr>wt_queue := f\<rparr>) (map toMonitorEventWire events) c1 = (c2, r2)"
    by (cases "writeFile (\<lambda>f c. c\<lparr>wt_queue := f\<rparr>) (map toMonitorEventWire events) c1")
  obtain c3 r3 where 3: "ioCall c2 = (c3, r3)" by (cases "ioCall c2")
  have k1: "wt_queue c1 = wt_queue c" using 1 by (auto elim!: ioCallE dest: ioStep_keeps)
  have k3: "wt_queue c3 = wt_queue c2" using 3 by (auto elim!: ioCallE dest: ioStep_keeps)
  have k2: "case r2 of Inr _ \<Rightarrow> wt_queue c2 = Holds (map toMonitorEventWire events)
      | Inl _ \<Rightarrow> wt_queue c2 \<in> {wt_queue c1, Garbage}"
    using 2 by (auto simp: writeFile_def split: prod.splits io.splits dest: ioStep_keeps)
  show "wt_queue c' \<in> {wt_queue c, Garbage, Holds (map toMonitorEventWire events)}"
    using assms k1 k2 k3 by (cases r1; cases r2) (auto simp: saveMonitorQueue_def 1 2 3)
  show "queued c' = Some (map wired events)" if "r = Inr ()"
    using assms that k2 k3
    by (cases r1; cases r2) (auto simp: saveMonitorQueue_def 1 2 3 queued_def wire_roundtrip_all)
qed

text \<open>The same event but for an id filled in where there was none.\<close>

definition withID :: "MonitorEvent \<Rightarrow> MonitorEvent \<Rightarrow> bool" where
  "withID e e' \<longleftrightarrow> (me_EventID e \<noteq> '''' \<and> e' = e) \<or>
     (me_EventID e = '''' \<and> (\<exists>i. i \<noteq> '''' \<and> e' = e\<lparr>me_EventID := i\<rparr>))"

lemma ensureIDs_cases:
  assumes "ensureMonitorEventIDs c evs = (c', r)"
  shows "wt_queue c' = wt_queue c \<and> (\<forall>evs' b. r = Inr (evs', b) \<longrightarrow> list_all2 withID evs evs' \<and> (\<not> b \<longrightarrow> evs' = evs))"
  using assms
proof (induction evs arbitrary: c c' r)
  case Nil
  then show ?case by auto
next
  case (Cons ev evs)
  show ?case
  proof (cases "me_EventID ev = ''''")
    case False
    obtain c1 r1 where 1: "ensureMonitorEventIDs c evs = (c1, r1)" by (cases "ensureMonitorEventIDs c evs")
    from Cons.IH [OF 1] Cons.prems False show ?thesis
      by (cases r1) (auto simp: 1 withID_def)
  next
    case True
    obtain c1 r1 where 1: "randHex c = (c1, r1)" by (cases "randHex c")
    obtain c2 r2 where 2: "ensureMonitorEventIDs c1 evs = (c2, r2)" by (cases "ensureMonitorEventIDs c1 evs")
    from Cons.IH [OF 2] randHex_keeps [OF 1] Cons.prems True show ?thesis
      by (cases r1; cases r2) (auto simp: 1 2 NewMonitorEventID_def withID_def)
  qed
qed

lemma wired_withID: "withID e e' \<Longrightarrow> withID (wired e) (wired e')"
  by (auto simp: withID_def wired_def)

lemma enqueue_extends:
  assumes "EnqueueMonitorEvent c e = (c', Inr u)" and "queued c = Some evs"
  shows "\<exists>evs'. queued c' = Some evs' \<and> list_all2 withID (evs @ [wired e]) evs'"
proof -
  obtain c1 r1 where 1: "loadMonitorQueue c = (c1, r1)" by (cases "loadMonitorQueue c")
  then have r1: "r1 = Inr evs" using assms loadMonitorQueue_cases(2) [OF 1]
    by (cases r1) (auto simp: EnqueueMonitorEvent_def)
  obtain c2 r2 where 2: "ensureMonitorEventIDs c1 (evs @ [e]) = (c2, r2)"
    by (cases "ensureMonitorEventIDs c1 (evs @ [e])")
  then obtain evs2 b where r2: "r2 = Inr (evs2, b)"
    using assms 1 r1 by (cases r2) (auto simp: EnqueueMonitorEvent_def)
  have s: "saveMonitorQueue c2 evs2 = (c', Inr ())" using assms 1 2 r1 r2 by (simp add: EnqueueMonitorEvent_def)
  have "list_all2 withID (evs @ [e]) evs2" using ensureIDs_cases [OF 2] r2 by simp
  then have "list_all2 withID (map wired (evs @ [e])) (map wired evs2)"
    by (simp add: list.rel_map list_all2_mono wired_withID del: map_append)
  then show ?thesis using saveMonitorQueue_cases(2) [OF s] queued_wired [OF assms(2)] by auto
qed

text \<open>A successful enqueue is durable and only adds: reading the file back, now or after a restart, gives
  the events that were there, in order, followed by the new one; the only change is that events without
  an id have one now.\<close>

theorem enqueue_appends:
  assumes "EnqueueMonitorEvent c ev = (c', Inr ())"
  shows "\<exists>evs evs'. queued c = Some evs \<and> queued c' = Some evs' \<and> list_all2 withID (evs @ [wired ev]) evs'"
proof -
  obtain c1 r1 where 1: "loadMonitorQueue c = (c1, r1)" by (cases "loadMonitorQueue c")
  then obtain evs where "r1 = Inr evs" using assms by (cases r1) (auto simp: EnqueueMonitorEvent_def)
  then have "queued c = Some evs" using loadMonitorQueue_cases(2) [OF 1] by simp
  with enqueue_extends [OF assms this] show ?thesis by blast
qed

theorem enqueue_appends_witness:
  "queued (fst (EnqueueMonitorEvent demoClient (demoEvent ''a'' ''firing''))) = Some [demoEvent ''a'' ''firing'']"
proof -
  obtain c' where c: "EnqueueMonitorEvent demoClient (demoEvent ''a'' ''firing'') = (c', Inr ())"
    by (simp add: EnqueueMonitorEvent_def loadMonitorQueue_def ioCall_def ioStep_def demoClient_def Let_def
        demoEvent_def saveMonitorQueue_def writeFile_def)
  have w: "wired (demoEvent ''a'' ''firing'') = demoEvent ''a'' ''firing''"
    by (simp add: wired_def demoEvent_def fromUnix_def unixSec_def)
  have "queued demoClient = Some []" by (simp add: queued_def demoClient_def Let_def)
  with enqueue_appends [OF c] c w show ?thesis by (auto simp: withID_def demoEvent_def list_all2_Cons1)
qed

section \<open>Flushing\<close>

lemma reserve_queue: "reserveSeq c = (c', r) \<Longrightarrow> wt_queue c' = wt_queue c"
proof -
  have io: "ioCall x = (y, z) \<Longrightarrow> wt_queue y = wt_queue x" for x y z
    by (auto elim!: ioCallE dest: ioStep_keeps)
  have wr: "writeFile (\<lambda>f c. c\<lparr>wt_credFile := f\<rparr>) cr x = (y, z) \<Longrightarrow> wt_queue y = wt_queue x" for cr x y z
    by (auto simp: writeFile_def split: prod.splits io.splits dest: ioStep_keeps)
  have "saveCreds x cr = (y, z) \<Longrightarrow> wt_queue y = wt_queue x" for x cr y z
    unfolding saveCreds_def andThen_def by (auto split: prod.splits sum.splits dest!: io wr)
  then show "reserveSeq c = (c', r) \<Longrightarrow> wt_queue c' = wt_queue c"
    unfolding reserveSeq_def Let_def andThen_def by (auto split: option.splits prod.splits sum.splits)
qed

lemma post_queue: "post sha hmac c path payload = (c', r) \<Longrightarrow> wt_queue c' = wt_queue c"
proof -
  assume p: "post sha hmac c path payload = (c', r)"
  obtain c1 r1 where 1: "reserveSeq c = (c1, r1)" by (cases "reserveSeq c")
  show ?thesis
  proof (cases r1)
    case (Inl e)
    with p 1 reserve_queue [OF 1] show ?thesis by (simp add: post_def)
  next
    case (Inr cr)
    with p 1 have "andThen (buildEnvelope sha hmac c1 cr payload) (\<lambda>c env. transmit c (cr_RelayURL cr @ path) env) = (c', r)"
      by (simp add: post_def)
    from send_cases [OF this] reserve_queue [OF 1] show ?thesis by simp
  qed
qed

lemma send_queue: "SendMonitorEvents sha hmac c evs = (c', r) \<Longrightarrow> wt_queue c' = wt_queue c"
  by (auto simp: SendMonitorEvents_def reportOpenedIncidents_def Let_def andThen_def
      split: if_splits prod.splits sum.splits dest!: post_queue)

lemma queued_cong: "wt_queue c' = wt_queue c \<Longrightarrow> queued c' = queued c"
  by (simp add: queued_def)

lemma flushBegin_cases:
  assumes "flushBegin c = (c', Inr (Some (n, batch)))"
  shows "\<exists>evs evs'. queued c = Some evs \<and> n = length evs \<and> list_all2 withID evs evs' \<and>
     batch = condenseMonitorEvents evs' \<and> queued c' = Some (map wired evs')"
proof -
  obtain c1 r1 where 1: "loadMonitorQueue c = (c1, r1)" by (cases "loadMonitorQueue c")
  then obtain evs where r1: "r1 = Inr evs" using assms by (cases r1) (auto simp: flushBegin_def)
  have ne: "evs \<noteq> []" using assms 1 r1 by (auto simp: flushBegin_def)
  obtain c2 r2 where 2: "ensureMonitorEventIDs c1 evs = (c2, r2)" by (cases "ensureMonitorEventIDs c1 evs")
  then obtain evs2 b where r2: "r2 = Inr (evs2, b)" using assms 1 r1 ne by (cases r2) (auto simp: flushBegin_def)
  have q: "queued c = Some evs" using loadMonitorQueue_cases(2) [OF 1] r1 by simp
  have w: "list_all2 withID evs evs2" "\<not> b \<Longrightarrow> evs2 = evs" using ensureIDs_cases [OF 2] r2 by auto
  obtain c3 r3 where 3: "(if b then saveMonitorQueue c2 evs2 else (c2, Inr ())) = (c3, r3)"
    by (cases "if b then saveMonitorQueue c2 evs2 else (c2, Inr ())")
  have end_: "r3 = Inr ()" "c' = c3" "n = length evs" "batch = condenseMonitorEvents evs2"
    using assms 1 2 3 r1 r2 ne by (cases r3; simp add: flushBegin_def)+
  have "queued c3 = Some (map wired evs2)"
  proof (cases b)
    case True
    then show ?thesis using 3 end_(1) saveMonitorQueue_cases(2) by auto
  next
    case False
    then have "wt_queue c3 = wt_queue c"
      using 3 ensureIDs_cases [OF 2] loadMonitorQueue_cases(1) [OF 1] by simp
    with False w q queued_wired [OF q] show ?thesis using queued_cong [of c3 c] by simp
  qed
  with q w end_ show ?thesis by blast
qed

lemma flushEnd_cases:
  assumes "flushEnd c n = (c', Inr ())"
  shows "\<exists>evs. queued c = Some evs \<and> queued c' = Some (drop n evs)"
proof -
  obtain c1 r1 where 1: "loadMonitorQueue c = (c1, r1)" by (cases "loadMonitorQueue c")
  then obtain evs where r1: "r1 = Inr evs" using assms by (cases r1) (auto simp: flushEnd_def)
  have q: "queued c = Some evs" using loadMonitorQueue_cases(2) [OF 1] r1 by simp
  have "saveMonitorQueue c1 (drop n evs) = (c', Inr ())"
    using assms 1 r1 by (auto simp: flushEnd_def split: if_splits)
  from saveMonitorQueue_cases(2) [OF this] queued_wired [OF q] q show ?thesis by (auto simp flip: drop_map)
qed

text \<open>Enqueues, all of them successful.\<close>

fun enqueueAll :: "wt \<Rightarrow> MonitorEvent list \<Rightarrow> wt option" where
  "enqueueAll c [] = Some c"
| "enqueueAll c (e # es) = (case EnqueueMonitorEvent c e of (c', Inr _) \<Rightarrow> enqueueAll c' es | (c', Inl _) \<Rightarrow> None)"

lemma withID_trans: "withID a b \<Longrightarrow> withID b c \<Longrightarrow> withID a c"
  by (auto simp: withID_def)

lemma list_all2_withID_trans: "list_all2 withID xs ys \<Longrightarrow> list_all2 withID ys zs \<Longrightarrow> list_all2 withID xs zs"
  by (rule list_all2_trans [of withID withID withID]) (auto intro: withID_trans)

lemma withID_refl: "withID e e \<longleftrightarrow> me_EventID e \<noteq> ''''"
proof -
  have "me_EventID (e\<lparr>me_EventID := i\<rparr>) = i" for i by simp
  then show ?thesis unfolding withID_def by metis
qed

lemma enqueueAll_extends:
  assumes "enqueueAll c es = Some c'" and "queued c = Some evs" and "list_all (\<lambda>e. me_EventID e \<noteq> '''') evs"
  shows "\<exists>new. queued c' = Some (evs @ new) \<and> list_all2 withID (map wired es) new"
  using assms
proof (induction es arbitrary: c evs)
  case Nil
  then show ?case by simp
next
  case (Cons e es)
  then obtain c1 u where c1: "EnqueueMonitorEvent c e = (c1, Inr u)" and r: "enqueueAll c1 es = Some c'"
    by (auto split: prod.splits sum.splits)
  obtain evs1 where e1: "queued c1 = Some evs1" "list_all2 withID (evs @ [wired e]) evs1"
    using enqueue_extends [OF c1 Cons.prems(2)] by blast
  then obtain a b where ab: "evs1 = a @ [b]" "list_all2 withID evs a" "withID (wired e) b"
    by (auto simp: list_all2_append1 list_all2_Cons1)
  have "a = evs" using ab(2) Cons.prems(3)
    by (induction evs a rule: list_all2_induct) (auto simp: withID_def)
  moreover have "me_EventID b \<noteq> ''''" using ab(3) by (auto simp: withID_def)
  ultimately have "\<exists>new. queued c' = Some (evs1 @ new) \<and> list_all2 withID (map wired es) new"
    using Cons.IH [OF r e1(1)] Cons.prems(3) ab(1) by simp
  with ab \<open>a = evs\<close> show ?case by auto
qed

text \<open>A flush clears exactly what it sent: if it succeeds while other goroutines enqueue events (before,
  during or after the send), then the batch was the condensed form of the events present at its start,
  and afterwards the queue holds exactly the events enqueued meanwhile, in order.\<close>

theorem flush_spares_concurrent_enqueues:
  assumes "flushBegin c = (c1, Inr (Some (n, batch)))" and "enqueueAll c1 es = Some c2"
    and "SendMonitorEvents sha hmac c2 batch = (c3, Inr ())" and "flushEnd c3 n = (c4, Inr ())"
  shows "\<exists>evs evs' new. queued c = Some evs \<and> list_all2 withID evs evs' \<and> batch = condenseMonitorEvents evs' \<and>
     queued c4 = Some new \<and> list_all2 withID (map wired es) new"
proof -
  obtain evs evs' where b: "queued c = Some evs" "n = length evs" "list_all2 withID evs evs'"
    "batch = condenseMonitorEvents evs'" "queued c1 = Some (map wired evs')"
    using flushBegin_cases [OF assms(1)] by blast
  have "list_all (\<lambda>e. me_EventID e \<noteq> '''') (map wired evs')"
    using b(3) by (induction evs evs' rule: list_all2_induct) (auto simp: withID_def wired_def)
  then obtain new where n: "queued c2 = Some (map wired evs' @ new)" "list_all2 withID (map wired es) new"
    using enqueueAll_extends [OF assms(2) b(5)] by blast
  have "queued c3 = queued c2" using send_queue [OF assms(3)] by (rule queued_cong)
  with flushEnd_cases [OF assms(4)] n(1) have "queued c4 = Some new"
    using b(2,3) by (auto dest: list_all2_lengthD)
  with b n show ?thesis by blast
qed

text \<open>A flush whose send fails loses nothing: the queue still holds the same events in the same order.\<close>

theorem failed_flush_keeps_queue:
  assumes "flushBegin c = (c1, Inr (Some (n, batch)))" and "SendMonitorEvents sha hmac c1 batch = (c2, Inl e)"
  shows "FlushQueue sha hmac c = (c2, Inl e) \<and>
     (\<exists>evs evs'. queued c = Some evs \<and> queued c2 = Some evs' \<and> list_all2 withID evs evs')"
proof -
  obtain evs evs' where b: "queued c = Some evs" "list_all2 withID evs evs'" "queued c1 = Some (map wired evs')"
    using flushBegin_cases [OF assms(1)] by blast
  have "list_all2 withID (map wired evs) (map wired evs')"
    using b(2) by (simp add: list.rel_map list_all2_mono wired_withID)
  moreover have "queued c2 = queued c1" using send_queue [OF assms(2)] by (rule queued_cong)
  ultimately show ?thesis using b assms queued_wired [OF b(1)] by (auto simp: FlushQueue_def)
qed

section \<open>Two flushes at once\<close>

abbreviation demoHash :: "json \<Rightarrow> string" where "demoHash \<equiv> \<lambda>_. ''h''"
abbreviation demoMac :: "string \<Rightarrow> string \<Rightarrow> string" where "demoMac \<equiv> \<lambda>_ _. ''m''"

definition demoQueue :: wt where
  "demoQueue = fst (EnqueueMonitorEvent (demoClient\<lparr>wt_net := [Answer 200 JNull, Answer 200 JNull]\<rparr>) (demoEvent ''a'' ''firing''))"

definition demoFlush1 :: wt where "demoFlush1 = fst (flushBegin demoQueue)"

lemma demoFlush1_eq: "flushBegin demoQueue = (demoFlush1, Inr (Some (1, [demoEvent ''a'' ''firing''])))"
proof -
  have "snd (flushBegin demoQueue) = Inr (Some (1, [demoEvent ''a'' ''firing'']))" by code_simp
  then show ?thesis by (simp add: demoFlush1_def prod_eq_iff)
qed

theorem flush_spares_concurrent_enqueues_witness:
  "\<exists>c2 c3 c4 new. enqueueAll demoFlush1 [demoEvent ''b'' ''resolved''] = Some c2 \<and>
     SendMonitorEvents demoHash demoMac c2 [demoEvent ''a'' ''firing''] = (c3, Inr ()) \<and>
     flushEnd c3 1 = (c4, Inr ()) \<and> queued c4 = Some new \<and> length new = 1"
proof -
  define c2 where "c2 = fst (EnqueueMonitorEvent demoFlush1 (demoEvent ''b'' ''resolved''))"
  define c3 where "c3 = fst (SendMonitorEvents demoHash demoMac c2 [demoEvent ''a'' ''firing''])"
  have r: "snd (EnqueueMonitorEvent demoFlush1 (demoEvent ''b'' ''resolved'')) = Inr () \<and>
    snd (SendMonitorEvents demoHash demoMac (fst (EnqueueMonitorEvent demoFlush1 (demoEvent ''b'' ''resolved'')))
      [demoEvent ''a'' ''firing'']) = Inr () \<and>
    snd (flushEnd (fst (SendMonitorEvents demoHash demoMac (fst (EnqueueMonitorEvent demoFlush1 (demoEvent ''b'' ''resolved'')))
      [demoEvent ''a'' ''firing''])) 1) = Inr ()" by code_simp
  then have 2: "enqueueAll demoFlush1 [demoEvent ''b'' ''resolved''] = Some c2"
    by (cases "EnqueueMonitorEvent demoFlush1 (demoEvent ''b'' ''resolved'')") (simp add: c2_def)
  from r have 3: "SendMonitorEvents demoHash demoMac c2 [demoEvent ''a'' ''firing''] = (c3, Inr ())"
    by (simp add: c3_def c2_def prod_eq_iff)
  from r obtain c4 where 4: "flushEnd c3 1 = (c4, Inr ())"
    by (cases "flushEnd c3 1") (auto simp: c3_def c2_def)
  from flush_spares_concurrent_enqueues [OF demoFlush1_eq 2 3 4] 2 3 4 show ?thesis
    by (auto dest: list_all2_lengthD)
qed

theorem failed_flush_keeps_queue_witness:
  "\<exists>c2 e. FlushQueue demoHash demoMac (demoQueue\<lparr>wt_net := []\<rparr>) = (c2, Inl e)"
proof -
  let ?q = "demoQueue\<lparr>wt_net := []\<rparr>"
  have r: "snd (flushBegin ?q) = Inr (Some (1, [demoEvent ''a'' ''firing''])) \<and>
    snd (SendMonitorEvents demoHash demoMac (fst (flushBegin ?q)) [demoEvent ''a'' ''firing'']) = Inl WNet"
    by code_simp
  from r failed_flush_keeps_queue [of ?q "fst (flushBegin ?q)" 1 "[demoEvent ''a'' ''firing'']" demoHash demoMac
      "fst (SendMonitorEvents demoHash demoMac (fst (flushBegin ?q)) [demoEvent ''a'' ''firing''])" WNet]
  show ?thesis by (auto simp: prod_eq_iff)
qed



end
