(* ===== verification/Monitor_Manager.thy ===== *)
theory Monitor_Manager
  imports Monitor_Machine Event_Queue
begin

text \<open>
  The monitor engine (\<^verbatim>\<open>internal/monitor/manager.go\<close>, \<^verbatim>\<open>silence.go\<close>): it feeds the observations of every
  evaluator through the state machine, queues and flushes the events of a transition, persists the
  nodes, retires targets that are no longer reported, and applies synced definitions.

  The engine's state is its store, its relay client, its definitions and the cache of nodes (Go's map,
  an association list). \<open>now\<close> is the clock's answer during the call. An evaluator is a function of the
  engine's state: it may consult \<open>WasFailing\<close>; what it reads of the host is its own. Errors the code only
  logs are dropped.
\<close>

record mon =
  mo_store :: store
  mo_client :: wt
  mo_defs :: DefinitionSet
  mo_states :: "(string \<times> MonitorState) list"

record Observation =
  ob_Target :: string
  ob_Failing :: bool
  ob_Severity :: string
  ob_Summary :: string
  ob_Attributes :: "(string \<times> string) list"
  ob_Hold :: bool

section \<open>Construction and definitions\<close>

definition loadStates :: "MonitorState list \<Rightarrow> (string \<times> MonitorState) list" where
  "loadStates rows = fold (\<lambda>s m. AList.update (ms_Key s) s m) rows []"

text \<open>The part of \<open>New\<close> that restores the runtime state; a failed read starts with no nodes.\<close>

definition New :: "store \<Rightarrow> wt \<Rightarrow> mon" where
  "New st c =
     (case ListMonitorStates st of
        (st, Inr rows) \<Rightarrow> \<lparr>mo_store = st, mo_client = c, mo_defs = NewDefinitionSet DefaultDefinitions,
                           mo_states = loadStates rows\<rparr>
      | (st, Inl _) \<Rightarrow> \<lparr>mo_store = st, mo_client = c, mo_defs = NewDefinitionSet DefaultDefinitions,
                        mo_states = []\<rparr>)"

definition putState :: "mon \<Rightarrow> MonitorState \<Rightarrow> mon" where
  "putState m rt = m\<lparr>mo_store := fst (PutMonitorState (mo_store m) rt)\<rparr>"

definition blankState :: "string \<Rightarrow> string \<Rightarrow> time \<Rightarrow> time \<Rightarrow> MonitorState" where
  "blankState k st lastAt upd = \<lparr>ms_Key = k, ms_State = st, ms_ConsecutiveFail = 0, ms_ConsecutiveOK = 0,
     ms_FirstFailureAt = zeroTime, ms_LastTransitionAt = lastAt, ms_UpdatedAt = upd\<rparr>"

text \<open>The nodes a disabled definition mutes, in the order the code records them.\<close>

definition mutedKeys :: "(string \<times> MonitorState) list \<Rightarrow> Definition \<Rightarrow> string list" where
  "mutedKeys states def =
     (if md_Enabled def then []
      else if md_Target def \<noteq> wildcardTarget then [key (md_Kind def) (md_Target def)]
      else filter (\<lambda>k. HasPrefix k (md_Kind def @ '':'')) (map fst states))"

fun muteAll :: "time \<Rightarrow> Definition list \<Rightarrow> (string \<times> MonitorState) list \<Rightarrow>
    (string \<times> MonitorState) list \<times> MonitorState list" where
  "muteAll now [] states = (states, [])"
| "muteAll now (def # defs) states =
     (let rts = map (\<lambda>k. blankState k StateMuted now now) (mutedKeys states def);
          states' = fold (\<lambda>rt m. AList.update (ms_Key rt) rt m) rts states
      in case muteAll now defs states' of (s, upd) \<Rightarrow> (s, rts @ upd))"

definition SetSyncedDefinitions :: "time \<Rightarrow> mon \<Rightarrow> Definition list \<Rightarrow> mon" where
  "SetSyncedDefinitions now m defs =
     (case muteAll now defs (mo_states m) of (states, updates) \<Rightarrow>
        fold (\<lambda>rt m. putState m rt) updates
          (m\<lparr>mo_defs := SetSynced (mo_defs m) defs, mo_states := states\<rparr>))"

record MonitorDef =
  mf_ID :: string
  mf_ServerID :: string
  mf_Kind :: string
  mf_Target :: string
  mf_Enabled :: bool
  mf_Severity :: string
  mf_EvaluationLocation :: string
  mf_FailureThreshold :: int
  mf_RecoveryThreshold :: int
  mf_CooldownSeconds :: int
  mf_FiringThreshold :: rat
  mf_RecoveryValue :: rat
  mf_Params :: "(string \<times> string) list"

definition DefinitionsFromSync :: "MonitorDef list \<Rightarrow> Definition list" where
  "DefinitionsFromSync defs =
     map (\<lambda>d. \<lparr>md_ID = mf_ID d, md_ServerID = '''', md_Kind = mf_Kind d, md_Target = mf_Target d,
        md_Enabled = mf_Enabled d, md_Severity = mf_Severity d,
        md_EvaluationLocation = mf_EvaluationLocation d, md_FailureThreshold = mf_FailureThreshold d,
        md_RecoveryThreshold = mf_RecoveryThreshold d, md_CooldownSeconds = mf_CooldownSeconds d,
        md_FiringThreshold = mf_FiringThreshold d, md_RecoveryValue = mf_RecoveryValue d,
        md_Params = mf_Params d\<rparr>)
       (filter (\<lambda>d. \<not> (mf_EvaluationLocation d \<noteq> '''' \<and> mf_EvaluationLocation d \<noteq> ''agent'')) defs)"

definition WasFailing :: "mon \<Rightarrow> Kind \<Rightarrow> string \<Rightarrow> bool" where
  "WasFailing m kind target =
     (case map_of (mo_states m) (key kind target) of None \<Rightarrow> False | Some rt \<Rightarrow> inEpisode (ms_State rt))"

section \<open>Silences (silence.go)\<close>

definition Silence :: "time \<Rightarrow> mon \<Rightarrow> string \<Rightarrow> string \<Rightarrow> duration \<Rightarrow> mon \<times> (store_err + time)" where
  "Silence now m rule target d =
     (let k = rule @ '':'' @ target in
      if d \<le> 0 then
        (case DeleteAlertSilence (mo_store m) k of
           (s, Inl e) \<Rightarrow> (m\<lparr>mo_store := s\<rparr>, Inl e) | (s, Inr _) \<Rightarrow> (m\<lparr>mo_store := s\<rparr>, Inr zeroTime))
      else
        let until = now + d in
        (case PutAlertSilence (mo_store m) k rule target until of
           (s, Inl e) \<Rightarrow> (m\<lparr>mo_store := s\<rparr>, Inl e) | (s, Inr _) \<Rightarrow> (m\<lparr>mo_store := s\<rparr>, Inr until)))"

definition Ack :: "mon \<Rightarrow> string \<Rightarrow> time \<Rightarrow> mon \<times> (store_err + unit)" where
  "Ack m k firedAt = (case PutAlertAck (mo_store m) k firedAt of (s, r) \<Rightarrow> (m\<lparr>mo_store := s\<rparr>, r))"

definition isSilenced :: "mon \<Rightarrow> string \<Rightarrow> time \<Rightarrow> mon \<times> bool" where
  "isSilenced m k now =
     (case AlertSilencesActive (mo_store m) now of
        (s, Inl _) \<Rightarrow> (m\<lparr>mo_store := s\<rparr>, False)
      | (s, Inr silenced) \<Rightarrow> (m\<lparr>mo_store := s\<rparr>, map_of silenced k \<noteq> None))"

section \<open>One observation\<close>

definition firstNonEmptyStr :: "string list \<Rightarrow> string" where
  "firstNonEmptyStr vals = (case filter (\<lambda>v. v \<noteq> []) vals of [] \<Rightarrow> [] | v # _ \<Rightarrow> v)"

definition transitionEvent ::
    "string \<Rightarrow> Kind \<Rightarrow> Observation \<Rightarrow> Definition \<Rightarrow> MonitorState \<Rightarrow> transition \<Rightarrow> time \<Rightarrow> MonitorEvent" where
  "transitionEvent eventID kind obs def newRt tr now =
     \<lparr>me_EventID = eventID, me_MonitorID = '''', me_MonitorKind = kind, me_Target = ob_Target obs,
      me_FromState = fst tr, me_ToState = snd tr,
      me_Severity = firstNonEmptyStr [ob_Severity obs, md_Severity def],
      me_FirstFailureAt = ms_FirstFailureAt newRt, me_OccurredAt = now, me_Summary = ob_Summary obs,
      me_Attributes = ob_Attributes obs\<rparr>"

text \<open>Mint an id and queue the event of a transition; the flag tells whether it is in the queue.\<close>

definition queueTransition ::
    "mon \<Rightarrow> Kind \<Rightarrow> Observation \<Rightarrow> Definition \<Rightarrow> MonitorState \<Rightarrow> transition \<Rightarrow> time \<Rightarrow> mon \<times> bool" where
  "queueTransition m kind obs def newRt tr now =
     (case NewMonitorEventID (mo_client m) of
        (c, Inl _) \<Rightarrow> (m\<lparr>mo_client := c\<rparr>, False)
      | (c, Inr eventID) \<Rightarrow>
          (case EnqueueMonitorEvent c (transitionEvent eventID kind obs def newRt tr now) of
             (c, Inl _) \<Rightarrow> (m\<lparr>mo_client := c\<rparr>, False)
           | (c, Inr _) \<Rightarrow> (m\<lparr>mo_client := c\<rparr>, True)))"

definition commitState :: "mon \<Rightarrow> string \<Rightarrow> MonitorState \<Rightarrow> mon" where
  "commitState m k newRt = putState (m\<lparr>mo_states := AList.update k newRt (mo_states m)\<rparr>) newRt"

definition flush :: "(json \<Rightarrow> string) \<Rightarrow> (string \<Rightarrow> string \<Rightarrow> string) \<Rightarrow> mon \<Rightarrow> mon" where
  "flush sha hmac m = m\<lparr>mo_client := fst (FlushQueue sha hmac (mo_client m))\<rparr>"

text \<open>The node an enabled monitor steps from: a missing or muted one starts healthy.\<close>

definition startState :: "mon \<Rightarrow> string \<Rightarrow> time \<Rightarrow> MonitorState" where
  "startState m k now =
     (case map_of (mo_states m) k of
        None \<Rightarrow> blankState k StateHealthy now zeroTime
      | Some rt \<Rightarrow> if ms_State rt = StateMuted then blankState k StateHealthy now zeroTime else rt)"

definition process ::
    "(json \<Rightarrow> string) \<Rightarrow> (string \<Rightarrow> string \<Rightarrow> string) \<Rightarrow> time \<Rightarrow> mon \<Rightarrow> Kind \<Rightarrow> Observation \<Rightarrow> mon" where
  "process sha hmac now m kind obs =
     (let k = key kind (ob_Target obs) in
      case Resolve (mo_defs m) kind (ob_Target obs) of (def, enabled) \<Rightarrow>
      if \<not> enabled then
        (if map_option ms_State (map_of (mo_states m) k) \<noteq> Some StateMuted
         then commitState m k (blankState k StateMuted now now) else m)
      else
        (case stepState (startState m k now) (ob_Failing obs) now def of (rt1, tr) \<Rightarrow>
         let newRt = rt1\<lparr>ms_UpdatedAt := now\<rparr> in
         case tr of
           None \<Rightarrow> commitState m k newRt
         | Some t \<Rightarrow>
             (case isSilenced m k now of (m, silenced) \<Rightarrow>
              if silenced then commitState m k newRt
              else (case queueTransition m kind obs def newRt t now of (m, queuedOk) \<Rightarrow>
                    if \<not> queuedOk then m
                    else flush sha hmac (commitState m k newRt)))))"

section \<open>One tick\<close>

definition retireSummary :: "string \<Rightarrow> string" where
  "retireSummary label = label @ '' is no longer reported; closing its alert''"

definition goneTargets :: "mon \<Rightarrow> Kind \<Rightarrow> string list \<Rightarrow> string list" where
  "goneTargets m kind reported =
     sort (filter (\<lambda>target. target \<notin> set reported)
       (map (\<lambda>(k, rt). TrimPrefix k (kind @ '':''))
         (filter (\<lambda>(k, rt). HasPrefix k (kind @ '':'') \<and> inEpisode (ms_State rt)) (mo_states m))))"

definition goneObservation :: "Kind \<Rightarrow> string \<Rightarrow> Observation" where
  "goneObservation kind target =
     \<lparr>ob_Target = target, ob_Failing = False, ob_Severity = '''',
      ob_Summary = retireSummary (if target = '''' then kind else target),
      ob_Attributes = [(''reason'', ''target_gone'')], ob_Hold = False\<rparr>"

definition retireAbsent ::
    "(json \<Rightarrow> string) \<Rightarrow> (string \<Rightarrow> string \<Rightarrow> string) \<Rightarrow> time \<Rightarrow> mon \<Rightarrow> Kind \<Rightarrow> string list \<Rightarrow> mon" where
  "retireAbsent sha hmac now m kind reported =
     fold (\<lambda>target m. process sha hmac now m kind (goneObservation kind target)) (goneTargets m kind reported) m"

text \<open>An evaluator: its kind and its answer (\<open>None\<close>: it returned an error).\<close>

type_synonym evaluator = "Kind \<times> (mon \<Rightarrow> Observation list option)"

definition runEvaluator ::
    "(json \<Rightarrow> string) \<Rightarrow> (string \<Rightarrow> string \<Rightarrow> string) \<Rightarrow> time \<Rightarrow> evaluator \<Rightarrow> mon \<Rightarrow> mon" where
  "runEvaluator sha hmac now ev m =
     (case snd ev m of
        None \<Rightarrow> m
      | Some obs \<Rightarrow>
          retireAbsent sha hmac now
            (fold (\<lambda>ob m. if ob_Hold ob then m else process sha hmac now m (fst ev) ob) obs m)
            (fst ev) (map ob_Target obs))"

definition Evaluate ::
    "(json \<Rightarrow> string) \<Rightarrow> (string \<Rightarrow> string \<Rightarrow> string) \<Rightarrow> time \<Rightarrow> evaluator list \<Rightarrow> mon \<Rightarrow> mon" where
  "Evaluate sha hmac now evaluators m = fold (\<lambda>ev m. runEvaluator sha hmac now ev m) evaluators m"

section \<open>What one observation does\<close>

lemma PutMonitorState_cases:
  "monitorStates (fst (PutMonitorState s rt)) = monitorStates s \<or>
   monitorStates (fst (PutMonitorState s rt)) = upsertRow ms_Key (storedState rt) (monitorStates s)"
  by (cases "PutMonitorState s rt") (auto simp: PutMonitorState_def elim!: dbCallE)

lemma putState_simps [simp]:
  "mo_states (putState m rt) = mo_states m" "mo_client (putState m rt) = mo_client m"
  "mo_defs (putState m rt) = mo_defs m"
  by (simp_all add: putState_def)

lemma commitState_simps [simp]:
  "mo_states (commitState m k rt) = AList.update k rt (mo_states m)"
  "mo_client (commitState m k rt) = mo_client m" "mo_defs (commitState m k rt) = mo_defs m"
  by (simp_all add: commitState_def)

lemma isSilenced_simps:
  "isSilenced m k now = (m', b) \<Longrightarrow> mo_states m' = mo_states m \<and> mo_client m' = mo_client m \<and> mo_defs m' = mo_defs m"
  by (auto simp: isSilenced_def split: prod.splits sum.splits)

lemma flush_simps [simp]:
  "mo_states (flush sha hmac m) = mo_states m" "mo_defs (flush sha hmac m) = mo_defs m"
  "mo_store (flush sha hmac m) = mo_store m"
  by (simp_all add: flush_def)

lemma queueTransition_simps:
  "queueTransition m kind obs def rt t now = (m', b) \<Longrightarrow>
     mo_states m' = mo_states m \<and> mo_defs m' = mo_defs m \<and> mo_store m' = mo_store m"
  by (auto simp: queueTransition_def split: prod.splits sum.splits)



text \<open>
  A disabled monitor never pages: an observation of it only mutes its node; the queue and the relay
  are not touched.
\<close>

theorem disabled_monitor_is_muted:
  assumes "snd (Resolve (mo_defs m) kind (ob_Target obs)) = False"
  shows "mo_client (process sha hmac now m kind obs) = mo_client m \<and>
     map_option ms_State (map_of (mo_states (process sha hmac now m kind obs)) (key kind (ob_Target obs))) = Some StateMuted"
  using assms by (cases "Resolve (mo_defs m) kind (ob_Target obs)")
    (auto simp: process_def Let_def blankState_def)

text \<open>A silenced monitor still advances but is not announced: the node takes the transition and the
  queue and the relay are not touched.\<close>

theorem silenced_monitor_advances_quietly:
  assumes "Resolve (mo_defs m) kind (ob_Target obs) = (def, True)"
    and "stepState (startState m (key kind (ob_Target obs)) now) (ob_Failing obs) now def = (rt, Some t)"
    and "isSilenced m (key kind (ob_Target obs)) now = (m1, True)"
  shows "mo_client (process sha hmac now m kind obs) = mo_client m \<and>
     map_of (mo_states (process sha hmac now m kind obs)) (key kind (ob_Target obs)) = Some (rt\<lparr>ms_UpdatedAt := now\<rparr>)"
  using assms isSilenced_simps [OF assms(3)] by (simp add: process_def Let_def)

section \<open>Only the observed node changes\<close>

lemma process_states:
  "(\<exists>rt. mo_states (process sha hmac now m kind obs) = AList.update (key kind (ob_Target obs)) rt (mo_states m)) \<or>
   mo_states (process sha hmac now m kind obs) = mo_states m"
proof -
  obtain def en where r: "Resolve (mo_defs m) kind (ob_Target obs) = (def, en)"
    by (cases "Resolve (mo_defs m) kind (ob_Target obs)")
  let ?k = "key kind (ob_Target obs)"
  obtain rt tr where s: "stepState (startState m ?k now) (ob_Failing obs) now def = (rt, tr)"
    by (cases "stepState (startState m ?k now) (ob_Failing obs) now def")
  obtain m1 b where i: "isSilenced m ?k now = (m1, b)" by (cases "isSilenced m ?k now")
  show ?thesis
  proof (cases tr)
    case None
    then show ?thesis by (cases en) (auto simp: process_def Let_def r s)
  next
    case (Some t)
    obtain m2 q where t: "queueTransition m1 kind obs def (rt\<lparr>ms_UpdatedAt := now\<rparr>) t now = (m2, q)"
      by (cases "queueTransition m1 kind obs def (rt\<lparr>ms_UpdatedAt := now\<rparr>) t now")
    show ?thesis using isSilenced_simps [OF i] queueTransition_simps [OF t] Some
      by (cases en; cases b; cases q) (auto simp: process_def Let_def r s i t)
  qed
qed

lemma process_other:
  "k \<noteq> key kind (ob_Target obs) \<Longrightarrow>
     map_of (mo_states (process sha hmac now m kind obs)) k = map_of (mo_states m) k"
  using process_states [of sha hmac now m kind obs] by (auto simp: map_of_AList_update)

lemma key_target: "HasPrefix k (kind @ '':'') \<Longrightarrow> key kind (TrimPrefix k (kind @ '':'')) = k"
  by (auto simp: key_def TrimPrefix_def prefix_def)

text \<open>
  Retiring absent targets touches only nodes of its own kind that are inside an episode and were
  neither observed nor held this tick; every other node keeps its value.
\<close>

theorem retire_touches_only_absent:
  assumes "\<not> (HasPrefix k (kind @ '':'') \<and> TrimPrefix k (kind @ '':'') \<notin> set reported \<and>
      (\<exists>rt. (k, rt) \<in> set (mo_states m) \<and> inEpisode (ms_State rt)))"
  shows "map_of (mo_states (retireAbsent sha hmac now m kind reported)) k = map_of (mo_states m) k"
proof -
  have "\<forall>t \<in> set (goneTargets m kind reported). key kind t \<noteq> k"
  proof
    fix t
    assume "t \<in> set (goneTargets m kind reported)"
    then obtain k' rt where k': "(k', rt) \<in> set (mo_states m)" "HasPrefix k' (kind @ '':'')" "inEpisode (ms_State rt)"
      "t = TrimPrefix k' (kind @ '':'')" "t \<notin> set reported"
      by (auto simp: goneTargets_def)
    have "key kind t = k'" using key_target [OF k'(2)] k'(4) by simp
    with k' assms show "key kind t \<noteq> k" by auto
  qed
  then have "map_of (mo_states (fold (\<lambda>target m. process sha hmac now m kind (goneObservation kind target))
      ts m')) k = map_of (mo_states m') k" if "set ts \<subseteq> set (goneTargets m kind reported)" for ts m'
    using that
  proof (induction ts arbitrary: m')
    case (Cons t ts)
    then have "key kind (ob_Target (goneObservation kind t)) \<noteq> k" by (auto simp: goneObservation_def)
    then have "map_of (mo_states (process sha hmac now m' kind (goneObservation kind t))) k = map_of (mo_states m') k"
      by (intro process_other) simp
    with Cons show ?case by simp
  qed simp
  then show ?thesis by (simp add: retireAbsent_def)
qed

section \<open>A restart restores every node\<close>

lemma loadStates_map_of:
  assumes "distinct (map ms_Key rows)"
  shows "map_of (loadStates rows) k = findRow ms_Key k rows"
proof -
  have "map_of (fold (\<lambda>s m. AList.update (ms_Key s) s m) rows m0) k =
      (case findRow ms_Key k rows of Some r \<Rightarrow> Some r | None \<Rightarrow> map_of m0 k)" for m0
    using assms
  proof (induction rows arbitrary: m0)
    case (Cons r rows)
    have "findRow ms_Key (ms_Key r) rows = None" using Cons.prems by (simp add: findRow_None)
    with Cons show ?case by (auto split: option.splits)
  qed simp
  then show ?thesis by (simp add: loadStates_def split: option.splits)
qed

lemma stepState_key: "stepState rt f now def = (rt', tr) \<Longrightarrow> ms_Key rt' = ms_Key rt"
  by (erule stepStateE) (auto simp: stepHealthy_def stepPending_def stepFiring_def stepRecovering_def resetTo_def
      Let_def split: if_splits)

definition keyed :: "mon \<Rightarrow> bool" where
  "keyed m \<longleftrightarrow> (\<forall>k rt. map_of (mo_states m) k = Some rt \<longrightarrow> ms_Key rt = k)"

text \<open>The cache and the table agree, up to the precision of the table, and no call is due to fail.\<close>

definition persisted :: "mon \<Rightarrow> bool" where
  "persisted m \<longleftrightarrow> faults (mo_store m) = [] \<and> distinct (map ms_Key (monitorStates (mo_store m))) \<and> keyed m \<and>
     (\<forall>k. findRow ms_Key k (monitorStates (mo_store m)) = map_option storedState (map_of (mo_states m) k))"

lemma storedState_key [simp]: "ms_Key (storedState rt) = ms_Key rt"
  by (simp add: storedState_def)

lemma persisted_commit:
  assumes "persisted m" and "ms_Key rt = k"
  shows "persisted (commitState m k rt)"
  using assms
  by (auto simp: persisted_def keyed_def commitState_def putState_def PutMonitorState_def findRow_upsert
      distinct_upsertRow)

lemma persisted_cong:
  assumes "mo_states m' = mo_states m" "monitorStates (mo_store m') = monitorStates (mo_store m)"
    "faults (mo_store m') = faults (mo_store m)"
  shows "persisted m' = persisted m"
  using assms by (simp add: persisted_def keyed_def)

lemma persisted_silenced:
  assumes "isSilenced m k now = (m', b)" and "persisted m" shows "persisted m'"
proof -
  have "faults (mo_store m) = []" using assms(2) by (simp add: persisted_def)
  then have "persisted m' = persisted m"
    using assms(1) by (intro persisted_cong) (auto simp: isSilenced_def AlertSilencesActive_def Let_def)
  with assms(2) show ?thesis by simp
qed

lemma startState_key: "keyed m \<Longrightarrow> ms_Key (startState m k now) = k"
  by (auto simp: startState_def blankState_def keyed_def split: option.splits)

lemma persisted_process:
  assumes "persisted m" shows "persisted (process sha hmac now m kind obs)"
proof -
  let ?k = "key kind (ob_Target obs)"
  obtain def en where r: "Resolve (mo_defs m) kind (ob_Target obs) = (def, en)"
    by (cases "Resolve (mo_defs m) kind (ob_Target obs)")
  obtain rt tr where s: "stepState (startState m ?k now) (ob_Failing obs) now def = (rt, tr)"
    by (cases "stepState (startState m ?k now) (ob_Failing obs) now def")
  have k: "ms_Key rt = ?k" using stepState_key [OF s] startState_key assms by (simp add: persisted_def)
  show ?thesis
  proof (cases en)
    case False
    then show ?thesis using assms by (auto simp: process_def Let_def r blankState_def intro: persisted_commit)
  next
    case True
    show ?thesis
    proof (cases tr)
      case None
      then show ?thesis using True assms k by (auto simp: process_def Let_def r s intro: persisted_commit)
    next
      case (Some t)
      obtain m1 b where i: "isSilenced m ?k now = (m1, b)" by (cases "isSilenced m ?k now")
      obtain m2 q where t: "queueTransition m1 kind obs def (rt\<lparr>ms_UpdatedAt := now\<rparr>) t now = (m2, q)"
        by (cases "queueTransition m1 kind obs def (rt\<lparr>ms_UpdatedAt := now\<rparr>) t now")
      have p1: "persisted m1" using persisted_silenced [OF i assms] .
      have p2: "persisted m2" using p1 queueTransition_simps [OF t] persisted_cong [of m2 m1] by simp
      have fl: "persisted (flush sha hmac x) = persisted x" for x by (rule persisted_cong) simp_all
      show ?thesis
        by (cases b; cases q) (simp_all add: process_def Let_def r s i t True Some k p1 p2 fl persisted_commit)
    qed
  qed
qed

text \<open>
  An episode survives a restart: after any sequence of observations on a fresh engine, with no database
  failure, an engine built anew from the store has the same nodes as the old one, each time being
  truncated to the second.
\<close>

theorem restart_restores_nodes:
  assumes "mo_states m = []" and "monitorStates (mo_store m) = []" and "faults (mo_store m) = []"
    and "m' = fold (\<lambda>(now, kind, obs) m. process sha hmac now m kind obs) steps m"
  shows "map_of (mo_states (New (mo_store m') c)) k = map_option storedState (map_of (mo_states m') k)"
proof -
  have "persisted (fold (\<lambda>(now, kind, obs) m. process sha hmac now m kind obs) steps m)" if "persisted m" for m
    using that
  proof (induction steps arbitrary: m)
    case (Cons x steps)
    obtain now kind obs where x: "x = (now, kind, obs)" by (cases x)
    from Cons.IH [OF persisted_process [OF Cons.prems]] show ?case by (simp add: x)
  qed simp
  moreover have "persisted m" using assms(1-3) by (simp add: persisted_def keyed_def)
  ultimately have p: "persisted m'" using assms(4) by blast
  then have "mo_states (New (mo_store m') c) = loadStates (monitorStates (mo_store m'))"
    by (simp add: New_def ListMonitorStates_def persisted_def)
  with p show ?thesis by (simp add: persisted_def loadStates_map_of)
qed

section \<open>A concrete engine\<close>

definition demoMon :: mon where
  "demoMon = New (emptyStore second) demoClient"

definition demoObs :: "bool \<Rightarrow> Observation" where
  "demoObs f = \<lparr>ob_Target = '''', ob_Failing = f, ob_Severity = '''', ob_Summary = ''rebooted'', ob_Attributes = [],
     ob_Hold = False\<rparr>"

lemma demoMon_fields:
  "mo_states demoMon = []" "mo_store demoMon = emptyStore second" "mo_client demoMon = demoClient"
  "mo_defs demoMon = NewDefinitionSet DefaultDefinitions"
  by (simp_all add: demoMon_def New_def ListMonitorStates_def emptyStore_def loadStates_def)

lemma demoMon_resolve:
  "Resolve (mo_defs demoMon) KindRebootDetected '''' = (builtin KindRebootDetected '''' ''warning'' 1 1 300 0 0, True)"
  by (simp add: demoMon_fields) code_simp

lemma demoMon_step:
  "\<exists>rt. stepState (startState demoMon (key KindRebootDetected '''') second) True second
     (builtin KindRebootDetected '''' ''warning'' 1 1 300 0 0) = (rt, Some (StatePending, StateFiring))"
  by (simp add: startState_def demoMon_fields stepState_def stepHealthy_def blankState_def state_defs Let_def
      failureThreshold_def builtin_def)


theorem disabled_monitor_is_muted_witness:
  "mo_client (process demoHash demoMac second demoMon KindCertExpiry (demoObs True)) = demoClient"
proof -
  have "snd (Resolve (mo_defs demoMon) KindCertExpiry '''') = False" by (simp add: demoMon_fields) code_simp
  with disabled_monitor_is_muted [of demoMon KindCertExpiry "demoObs True" demoHash demoMac second] show ?thesis
    by (simp add: demoObs_def demoMon_fields)
qed

definition demoSilenced :: mon where
  "demoSilenced = fst (Silence second demoMon KindRebootDetected '''' (60 * second))"

theorem silenced_monitor_advances_quietly_witness:
  "mo_client (process demoHash demoMac second demoSilenced KindRebootDetected (demoObs True)) = demoClient"
proof -
  have f: "mo_states demoSilenced = []" "mo_defs demoSilenced = mo_defs demoMon" "mo_client demoSilenced = demoClient"
    by (simp_all add: demoSilenced_def Silence_def PutAlertSilence_def emptyStore_def demoMon_fields second_def)
  then have "startState demoSilenced = startState demoMon" by (simp add: startState_def demoMon_fields fun_eq_iff)
  then obtain rt where s: "stepState (startState demoSilenced (key KindRebootDetected '''') second) True second
     (builtin KindRebootDetected '''' ''warning'' 1 1 300 0 0) = (rt, Some (StatePending, StateFiring))"
    using demoMon_step by auto
  obtain m1 b where i: "isSilenced demoSilenced (key KindRebootDetected '''') second = (m1, b)"
    by (cases "isSilenced demoSilenced (key KindRebootDetected '''') second")
  have "snd (isSilenced demoSilenced (key KindRebootDetected '''') second) = True"
    by (simp add: isSilenced_def demoSilenced_def Silence_def PutAlertSilence_def AlertSilencesActive_def emptyStore_def
        demoMon_fields second_def unixSec_def key_def)
  with i silenced_monitor_advances_quietly [of demoSilenced KindRebootDetected "demoObs True" _ second rt _ m1 demoHash demoMac]
    demoMon_resolve s f show ?thesis by (simp add: demoObs_def)
qed

theorem retire_touches_only_absent_witness:
  "map_of (mo_states (retireAbsent demoHash demoMac second demoMon KindDiskCapacity [])) ''cpu_pressure:'' = None"
proof -
  have "\<not> HasPrefix ''cpu_pressure:'' (KindDiskCapacity @ '':'')" by (simp add: kind_defs)
  with retire_touches_only_absent [of KindDiskCapacity "''cpu_pressure:''" "[]" demoMon demoHash demoMac second]
  show ?thesis by (simp add: demoMon_fields)
qed

theorem restart_restores_nodes_witness:
  "map_of (mo_states (New (mo_store (process demoHash demoMac second demoMon KindCertExpiry (demoObs True))) demoClient))
     (key KindCertExpiry '''') =
   map_option storedState (map_of (mo_states (process demoHash demoMac second demoMon KindCertExpiry (demoObs True)))
     (key KindCertExpiry ''''))"
  using restart_restores_nodes [of demoMon _ demoHash demoMac "[(second, KindCertExpiry, demoObs True)]"]
  by (simp add: demoMon_fields emptyStore_def)

end
