(* ===== verification/Firewall.thy ===== *)
theory Firewall
  imports Go_Prelude
begin

text \<open>
  The firewall manager (\<^verbatim>\<open>internal/firewall/firewall.go\<close>) and its backends (\<^verbatim>\<open>internal/firewall/backends.go\<close>):
  detection of ufw or firewalld, rules and listening sockets parsed from the output of the host's
  commands, the SSH ports that must stay open, and the anti-lockout guard in front of every edit.

  The host is a record of functions over a world \<open>'w\<close>: running a command may change the world and
  answers with its output and an error; files and directories are read from the current world. A run-time
  panic is the value \<open>None\<close> (\<open>FPanic\<close> as an error): \<open>parseSS\<close> slices \<open>fields[6:]\<close> of a line that is only
  known to have five fields. White space is ASCII white space.
\<close>

section \<open>Data (firewall.go)\<close>

definition BackendUFW :: string where "BackendUFW = ''ufw''"
definition BackendFirewalld :: string where "BackendFirewalld = ''firewalld''"
definition BackendNone :: string where "BackendNone = ''none''"
definition ActionAllow :: string where "ActionAllow = ''allow''"
definition ActionDeny :: string where "ActionDeny = ''deny''"
definition ProtoTCP :: string where "ProtoTCP = ''tcp''"
definition ProtoUDP :: string where "ProtoUDP = ''udp''"
definition ProtoAny :: string where "ProtoAny = ''any''"

lemmas fw_consts = BackendUFW_def BackendFirewalld_def BackendNone_def ActionAllow_def ActionDeny_def
  ProtoTCP_def ProtoUDP_def ProtoAny_def

record Rule =
  fr_Action :: string
  fr_Protocol :: string
  fr_Port :: int
  fr_Source :: string
  fr_Comment :: string

record Socket =
  sk_Protocol :: string
  sk_Address :: string
  sk_Port :: int
  sk_Process :: string
  sk_PID :: int

datatype ferr = AntiLockoutError Rule "int list" string | ErrReadOnly string | ErrUnsupportedAction
  | FErr string | FPanic

record FwStatus =
  st_Backend :: string
  st_Available :: bool
  st_UnavailableReason :: string
  st_UnavailableMessage :: string
  st_Rules :: "Rule list"
  st_Sockets :: "Socket list"
  st_SSHPorts :: "int list"

text \<open>The interfaces: a backend, a socket reader (\<open>None\<close>: panic) and a resolver of the SSH ports.\<close>

record 'w Backend =
  bk_Kind :: string
  bk_Available :: "'w \<Rightarrow> 'w \<times> string option"
  bk_Rules :: "'w \<Rightarrow> 'w \<times> (string + Rule list)"
  bk_Add :: "'w \<Rightarrow> Rule \<Rightarrow> 'w \<times> string option"
  bk_Remove :: "'w \<Rightarrow> Rule \<Rightarrow> 'w \<times> string option"

type_synonym 'w SocketReader = "'w \<Rightarrow> 'w \<times> (string + Socket list) option"
type_synonym 'w SSHResolver = "'w \<Rightarrow> 'w \<times> int list option"

record 'w Manager =
  fm_backends :: "'w Backend list"
  fm_sockets :: "'w SocketReader"
  fm_ssh :: "'w SSHResolver"

section \<open>The manager (firewall.go)\<close>

definition portIn :: "int \<Rightarrow> int list \<Rightarrow> bool" where
  "portIn port ports = list_ex (\<lambda>p. p = port) ports"

definition validate :: "Rule \<Rightarrow> ferr option" where
  "validate r =
     (if fr_Action r \<noteq> ActionAllow \<and> fr_Action r \<noteq> ActionDeny then Some ErrUnsupportedAction
      else if fr_Protocol r \<noteq> ProtoTCP \<and> fr_Protocol r \<noteq> ProtoUDP \<and> fr_Protocol r \<noteq> ProtoAny
      then Some (FErr (''firewall: unsupported protocol '' @ [CHR 0x22] @ fr_Protocol r @ [CHR 0x22]))
      else if fr_Port r \<le> 0 \<or> fr_Port r > 65535
      then Some (FErr (''firewall: port '' @ Itoa (fr_Port r) @ '' out of range''))
      else None)"

fun detectFrom :: "'w Backend list \<Rightarrow> string list \<Rightarrow> 'w \<Rightarrow> 'w \<times> 'w Backend option \<times> string" where
  "detectFrom [] msgs w =
     (w, None, if msgs \<noteq> [] then Join ''; '' msgs else ''no ufw or firewalld backend present'')"
| "detectFrom (b # bs) msgs w =
     (case bk_Available b w of
        (w, None) \<Rightarrow> (w, Some b, '''')
      | (w, Some err) \<Rightarrow> detectFrom bs (msgs @ [bk_Kind b @ '': '' @ err]) w)"

definition detect :: "'w Manager \<Rightarrow> 'w \<Rightarrow> 'w \<times> 'w Backend option \<times> string" where
  "detect m w = detectFrom (fm_backends m) [] w"

definition isSSHProcess :: "string \<Rightarrow> bool" where
  "isSSHProcess name \<longleftrightarrow> name \<in> {''sshd'', ''sshd-session'', ''sshd-auth''}"

text \<open>The ports in order of first occurrence, each once.\<close>

definition addPort :: "int list \<Rightarrow> int \<Rightarrow> int list" where
  "addPort out p = (if p \<in> set out then out else out @ [p])"

definition sshPortsFromSockets :: "Socket list \<Rightarrow> int list" where
  "sshPortsFromSockets sockets = foldl addPort [] (map sk_Port (filter (\<lambda>s. isSSHProcess (sk_Process s)) sockets))"

definition listOr :: "string + 'a list \<Rightarrow> 'a list" where
  "listOr r = (case r of Inl _ \<Rightarrow> [] | Inr xs \<Rightarrow> xs)"

definition statusFrom :: "'w Manager \<Rightarrow> string + Socket list \<Rightarrow> int list \<Rightarrow> 'w \<Rightarrow> 'w \<times> (ferr + FwStatus)" where
  "statusFrom m socks ports w =
     (case detect m w of
        (w, None, reason) \<Rightarrow>
          (w, Inr \<lparr>st_Backend = BackendNone, st_Available = False, st_UnavailableReason = ''no_backend'',
             st_UnavailableMessage = (case socks of Inr _ \<Rightarrow> reason
                | Inl e \<Rightarrow> TrimSpace (reason @ ''; sockets: '' @ e)),
             st_Rules = [], st_Sockets = listOr socks, st_SSHPorts = ports\<rparr>)
      | (w, Some b, _) \<Rightarrow>
          (case bk_Rules b w of
             (w, Inl e) \<Rightarrow> (w, Inl (FErr e))
           | (w, Inr rules) \<Rightarrow>
               (w, Inr \<lparr>st_Backend = bk_Kind b, st_Available = True, st_UnavailableReason = [],
                  st_UnavailableMessage = [], st_Rules = rules, st_Sockets = listOr socks,
                  st_SSHPorts = ports\<rparr>)))"

definition Status :: "'w Manager \<Rightarrow> 'w \<Rightarrow> 'w \<times> (ferr + FwStatus)" where
  "Status m w =
     (case fm_sockets m w of
        (w, None) \<Rightarrow> (w, Inl FPanic)
      | (w, Some socks) \<Rightarrow>
          (let sshPorts = sshPortsFromSockets (listOr socks) in
           case (if sshPorts = [] then fm_ssh m w else (w, Some sshPorts)) of
             (w, None) \<Rightarrow> (w, Inl FPanic)
           | (w, Some ports) \<Rightarrow> statusFrom m socks (sort ports) w))"

text \<open>The guarded edits: \<open>None\<close> is success.\<close>

definition RuleAdd :: "'w Manager \<Rightarrow> 'w \<Rightarrow> Rule \<Rightarrow> 'w \<times> ferr option" where
  "RuleAdd m w rule =
     (case validate rule of Some e \<Rightarrow> (w, Some e)
      | None \<Rightarrow>
         (case detect m w of
            (w, None, reason) \<Rightarrow> (w, Some (ErrReadOnly reason))
          | (w, Some b, _) \<Rightarrow>
             (case fm_ssh m w of
                (w, None) \<Rightarrow> (w, Some FPanic)
              | (w, Some sshPorts) \<Rightarrow>
                  if fr_Action rule = ActionDeny \<and> portIn (fr_Port rule) sshPorts
                  then (w, Some (AntiLockoutError rule sshPorts ''would deny the active SSH port''))
                  else (case bk_Add b w rule of (w, e) \<Rightarrow> (w, map_option FErr e)))))"

definition RuleRemove :: "'w Manager \<Rightarrow> 'w \<Rightarrow> Rule \<Rightarrow> 'w \<times> ferr option" where
  "RuleRemove m w rule =
     (case validate rule of Some e \<Rightarrow> (w, Some e)
      | None \<Rightarrow>
         (case detect m w of
            (w, None, reason) \<Rightarrow> (w, Some (ErrReadOnly reason))
          | (w, Some b, _) \<Rightarrow>
             (case fm_ssh m w of
                (w, None) \<Rightarrow> (w, Some FPanic)
              | (w, Some sshPorts) \<Rightarrow>
                  if fr_Action rule = ActionAllow \<and> portIn (fr_Port rule) sshPorts
                  then (w, Some (AntiLockoutError rule sshPorts
                         ''would remove the rule allowing the active SSH port''))
                  else (case bk_Remove b w rule of (w, e) \<Rightarrow> (w, map_option FErr e)))))"

definition IsSSHRule :: "'w Manager \<Rightarrow> 'w \<Rightarrow> Rule \<Rightarrow> 'w \<times> bool option" where
  "IsSSHRule m w rule = (case fm_ssh m w of (w, ports) \<Rightarrow> (w, map_option (portIn (fr_Port rule)) ports))"

section \<open>Text helpers\<close>

text \<open>
  \<open>bufio.Scanner\<close> over lines: a final empty line is no token, a trailing carriage return is dropped, and the
  scan ends at the first line that does not fit the 64 KiB buffer.
\<close>

definition dropFinalEmpty :: "string list \<Rightarrow> string list" where
  "dropFinalEmpty ls = (if last ls = [] then butlast ls else ls)"

definition scanLines :: "string \<Rightarrow> string list" where
  "scanLines raw =
     map (\<lambda>l. TrimSuffix l [CHR 0x0D])
       (takeWhile (\<lambda>l. int (length l) < 65536) (dropFinalEmpty (Split (CHR 0x0A) raw)))"

definition ToUpperC :: "char \<Rightarrow> char" where
  "ToUpperC c = (if isLowerC c then char_of (of_char c - (32::nat)) else c)"

definition ToUpper :: "string \<Rightarrow> string" where "ToUpper s = map ToUpperC s"

abbreviation Atoi :: "string \<Rightarrow> int option" where "Atoi s \<equiv> ParseInt 64 s"

text \<open>\<open>strings.Index\<close>, \<open>strings.LastIndex\<close>, and the text around the last occurrence of a byte.\<close>

fun Index :: "string \<Rightarrow> string \<Rightarrow> nat option" where
  "Index [] sub = (if sub = [] then Some 0 else None)"
| "Index (c # cs) sub = (if prefix sub (c # cs) then Some 0 else map_option Suc (Index cs sub))"

fun LastIndex :: "string \<Rightarrow> string \<Rightarrow> nat option" where
  "LastIndex [] sub = (if sub = [] then Some 0 else None)"
| "LastIndex (c # cs) sub =
     (case LastIndex cs sub of Some i \<Rightarrow> Some (Suc i) | None \<Rightarrow> if prefix sub (c # cs) then Some 0 else None)"

definition cutLast :: "char \<Rightarrow> string \<Rightarrow> (string \<times> string) option" where
  "cutLast d s = (if d \<in> set s
     then Some (rev (tl (dropWhile (\<lambda>c. c \<noteq> d) (rev s))), rev (takeWhile (\<lambda>c. c \<noteq> d) (rev s))) else None)"

section \<open>Parsers (backends.go)\<close>

definition splitPortProto :: "string \<Rightarrow> (int \<times> string) option" where
  "splitPortProto tok =
     (let slash = (CHR ''/'' \<in> set tok \<and> hd tok \<noteq> CHR ''/'');
          suf = ToLower (tl (dropWhile (\<lambda>c. c \<noteq> CHR ''/'') tok));
          proto = (if slash \<and> suf = ''tcp'' then ProtoTCP else if slash \<and> suf = ''udp'' then ProtoUDP else ProtoAny);
          num = (if slash then takeWhile (\<lambda>c. c \<noteq> CHR ''/'') tok else tok)
      in case Atoi num of None \<Rightarrow> None | Some port \<Rightarrow> if port \<le> 0 then None else Some (port, proto))"

definition parseUFWLine :: "string \<Rightarrow> Rule option" where
  "parseUFWLine text =
     (let line = TrimSpace text in
      if line = '''' \<or> HasPrefix line ''Status:'' \<or> HasPrefix line ''To'' \<or> HasPrefix line ''--'' then None
      else
        let line = (if HasPrefix line ''['' \<and> CHR '']'' \<in> set line
                    then TrimSpace (tl (dropWhile (\<lambda>c. c \<noteq> CHR '']'') line)) else line)
        in case Fields line of
             f0 # f1 # _ \<Rightarrow>
               (case splitPortProto f0 of None \<Rightarrow> None
                | Some (port, proto) \<Rightarrow>
                    (let verb = ToUpper f1 in
                     if verb = ''ALLOW''
                     then Some \<lparr>fr_Action = ActionAllow, fr_Protocol = proto, fr_Port = port, fr_Source = '''', fr_Comment = ''''\<rparr>
                     else if verb = ''DENY'' \<or> verb = ''REJECT''
                     then Some \<lparr>fr_Action = ActionDeny, fr_Protocol = proto, fr_Port = port, fr_Source = '''', fr_Comment = ''''\<rparr>
                     else None))
           | _ \<Rightarrow> None)"

definition parseUFWRules :: "string \<Rightarrow> Rule list" where
  "parseUFWRules raw = List.map_filter parseUFWLine (scanLines raw)"

definition splitAddrPort :: "string \<Rightarrow> (string \<times> int) option" where
  "splitAddrPort tok =
     (case cutLast (CHR '':'') tok of None \<Rightarrow> None
      | Some (addr, p) \<Rightarrow>
          (case Atoi p of None \<Rightarrow> None | Some port \<Rightarrow> if port \<le> 0 then None else Some (addr, port)))"

text \<open>A run of digits as \<open>strconv.Atoi\<close> reads it when its error is ignored: saturated, 0 when empty.\<close>

definition atoiSat :: "string \<Rightarrow> int" where
  "atoiSat ds = min (2 ^ 63 - 1) (decInt ds)"

definition ssUser :: "string \<Rightarrow> string \<times> int" where
  "ssUser rest =
     (if CHR 0x22 \<notin> set rest then ('''', 0)
      else (takeWhile (\<lambda>c. c \<noteq> CHR 0x22) rest,
            case Index rest ''pid='' of None \<Rightarrow> 0
            | Some k \<Rightarrow> atoiSat (takeWhile isDigit (drop (k + 4) rest))))"

definition parseSSProcess :: "string \<Rightarrow> string \<times> int" where
  "parseSSProcess tok =
     (case Index tok ''((\"'' of None \<Rightarrow> ('''', 0) | Some i \<Rightarrow> ssUser (drop (i + 3) tok))"

text \<open>One line of \<open>ss -tulnpH\<close>: \<open>None\<close> is the panic, \<open>Some None\<close> a skipped line.\<close>

definition ssSocket :: "string \<Rightarrow> (string \<times> int) option \<Rightarrow> string list \<Rightarrow> Socket option option" where
  "ssSocket proto local tail =
     (if proto \<noteq> ProtoTCP \<and> proto \<noteq> ProtoUDP then Some None
      else case local of None \<Rightarrow> Some None
        | Some (addr, port) \<Rightarrow>
            (case tail of [] \<Rightarrow> None
             | _ # users \<Rightarrow>
                 (case parseSSProcess (Join '' '' users) of (process, pid) \<Rightarrow>
                    Some (Some \<lparr>sk_Protocol = proto, sk_Address = addr, sk_Port = port, sk_Process = process,
                      sk_PID = pid\<rparr>))))"

fun ssFields :: "string list \<Rightarrow> Socket option option" where
  "ssFields (f0 # f1 # f2 # f3 # f4 # tail) = ssSocket (ToLower f0) (splitAddrPort f4) tail"
| "ssFields _ = Some None"

definition parseSSLine :: "string \<Rightarrow> Socket option option" where
  "parseSSLine text =
     (if TrimSpace text = '''' then Some None else ssFields (Fields (TrimSpace text)))"

fun parseSSLines :: "string list \<Rightarrow> Socket list option" where
  "parseSSLines [] = Some []"
| "parseSSLines (l # ls) =
     (case parseSSLine l of None \<Rightarrow> None
      | Some s \<Rightarrow> (case parseSSLines ls of None \<Rightarrow> None
          | Some out \<Rightarrow> Some (case s of None \<Rightarrow> out | Some sock \<Rightarrow> sock # out)))"

definition parseSS :: "string \<Rightarrow> Socket list option" where
  "parseSS raw = parseSSLines (scanLines raw)"

text \<open>\<open>:(digits)\<close> followed by white space, an opening parenthesis or the end, leftmost match.\<close>

fun lsofPort :: "string \<Rightarrow> string option" where
  "lsofPort [] = None"
| "lsofPort (c # cs) =
     (let ds = takeWhile isDigit cs; rest = dropWhile isDigit cs in
      if c = CHR '':'' \<and> ds \<noteq> [] \<and>
         (rest = [] \<or> hd rest \<in> {CHR 0x09, CHR 0x0A, CHR 0x0C, CHR 0x0D, CHR '' '', CHR ''(''})
      then Some ds else lsofPort cs)"

definition lsofAddress :: "string \<Rightarrow> string \<Rightarrow> string" where
  "lsofAddress name ds =
     (case LastIndex name ('':'' @ ds) of
        Some (Suc i) \<Rightarrow>
          (let a = TrimPrefix (TrimPrefix (TrimSpace (take (Suc i) name)) ''TCP '') ''UDP ''
           in if a = '''' then ''*'' else a)
      | _ \<Rightarrow> ''*'')"

definition parseLsofLine :: "string \<Rightarrow> string \<Rightarrow> Socket option" where
  "parseLsofLine defaultProto text =
     (let line = TrimSpace text in
      if line = '''' \<or> HasPrefix line ''COMMAND '' then None
      else
        let fields = Fields line in
        if length fields < 9 then None
        else case Atoi (fields ! 1) of None \<Rightarrow> None
          | Some pid \<Rightarrow>
             (case dropWhile (\<lambda>f. f \<noteq> ''TCP'' \<and> f \<noteq> ''UDP'') fields of
                tag # n # ns \<Rightarrow>
                  (let name = Join '' '' (n # ns); proto = (if tag = ''TCP'' then ProtoTCP else ProtoUDP) in
                   case lsofPort name of None \<Rightarrow> None
                   | Some ds \<Rightarrow>
                       (case Atoi ds of None \<Rightarrow> None
                        | Some port \<Rightarrow>
                            if port \<le> 0 then None
                            else Some \<lparr>sk_Protocol = proto, sk_Address = lsofAddress name ds, sk_Port = port,
                              sk_Process = fields ! 0, sk_PID = pid\<rparr>))
              | _ \<Rightarrow> None))"

definition parseLsof :: "string \<Rightarrow> string \<Rightarrow> Socket list" where
  "parseLsof raw defaultProto = List.map_filter (parseLsofLine defaultProto) (scanLines raw)"

definition socketKey :: "Socket \<Rightarrow> string" where
  "socketKey s = sk_Protocol s @ ''/'' @ sk_Address s @ ''/'' @ Itoa (sk_Port s) @ ''/'' @ sk_Process s @ ''/'' @ Itoa (sk_PID s)"

fun dedupeFrom :: "string list \<Rightarrow> Socket list \<Rightarrow> Socket list" where
  "dedupeFrom seen [] = []"
| "dedupeFrom seen (s # ss) =
     (if socketKey s \<in> set seen then dedupeFrom seen ss else s # dedupeFrom (socketKey s # seen) ss)"

definition dedupeSockets :: "Socket list \<Rightarrow> Socket list" where
  "dedupeSockets sockets = dedupeFrom [] sockets"

definition splitDarwinNetstatAddr :: "string \<Rightarrow> (string \<times> int) option" where
  "splitDarwinNetstatAddr tok =
     (case cutLast (CHR ''.'') tok of None \<Rightarrow> None
      | Some (addr, p) \<Rightarrow>
          if p = [] then None
          else (case Atoi p of None \<Rightarrow> None
            | Some port \<Rightarrow> if port \<le> 0 then None else Some (if addr = '''' then ''*'' else addr, port)))"

fun parseDarwinNetstatProcess :: "string list \<Rightarrow> string \<times> int" where
  "parseDarwinNetstatProcess [] = ('''', 0)"
| "parseDarwinNetstatProcess (f # fs) =
     (case cutLast (CHR '':'') f of None \<Rightarrow> parseDarwinNetstatProcess fs
      | Some (name, p) \<Rightarrow>
          if name = [] \<or> p = [] then parseDarwinNetstatProcess fs
          else (case Atoi p of None \<Rightarrow> parseDarwinNetstatProcess fs
            | Some pid \<Rightarrow> if pid \<le> 0 then parseDarwinNetstatProcess fs else (name, pid)))"

definition parseNetstatLine :: "string \<Rightarrow> Socket option" where
  "parseNetstatLine text =
     (let line = TrimSpace text in
      if line = '''' \<or> HasPrefix line ''Active '' \<or> HasPrefix line ''Proto '' then None
      else
        let fields = Fields line in
        if length fields < 6 \<or> \<not> HasPrefix (fields ! 0) ''tcp'' then None
        else case dropWhile (\<lambda>f. f \<noteq> ''LISTEN'') fields of [] \<Rightarrow> None
          | _ # after \<Rightarrow>
             (case splitDarwinNetstatAddr (fields ! 3) of None \<Rightarrow> None
              | Some (addr, port) \<Rightarrow>
                  (case parseDarwinNetstatProcess after of (process, pid) \<Rightarrow>
                     Some \<lparr>sk_Protocol = ProtoTCP, sk_Address = addr, sk_Port = port, sk_Process = process,
                       sk_PID = pid\<rparr>)))"

definition parseNetstatDarwin :: "string \<Rightarrow> Socket list" where
  "parseNetstatDarwin raw = List.map_filter parseNetstatLine (scanLines raw)"

definition parseListenLine :: "string \<Rightarrow> int option" where
  "parseListenLine text =
     (let line = TrimSpace text in
      if \<not> HasPrefix line ''Listen='' then None
      else case Fields (TrimPrefix line ''Listen='') of [] \<Rightarrow> None
        | f # _ \<Rightarrow> if HasPrefix f ''/'' then None else map_option snd (splitAddrPort f))"

definition parseListenPorts :: "string \<Rightarrow> int list" where
  "parseListenPorts raw = List.map_filter parseListenLine (Split (CHR 0x0A) raw)"

section \<open>The host and the backends (backends.go)\<close>

text \<open>
  \<open>fh_run h w argv\<close> is \<open>exec.CommandContext(name, args...).CombinedOutput()\<close>: the world after it, the
  output and the error, if any. \<open>fh_look\<close> is the error of \<open>exec.LookPath\<close>; directory entries are pairs of a
  name and \<open>IsDir\<close>.
\<close>

record 'w fwhost =
  fh_run :: "'w \<Rightarrow> string list \<Rightarrow> 'w \<times> string \<times> string option"
  fh_look :: "'w \<Rightarrow> string \<Rightarrow> string option"
  fh_ReadFile :: "'w \<Rightarrow> string \<Rightarrow> string option"
  fh_ReadDir :: "'w \<Rightarrow> string \<Rightarrow> (string \<times> bool) list option"

text \<open>Run a command for its effect; the error is prefixed.\<close>

definition runFor :: "'w fwhost \<Rightarrow> 'w \<Rightarrow> string list \<Rightarrow> string \<Rightarrow> 'w \<times> string option" where
  "runFor h w argv what =
     (case fh_run h w argv of (w, _, err) \<Rightarrow> (w, map_option (\<lambda>e. what @ '': '' @ e) err))"

definition ufwAvailable :: "'w fwhost \<Rightarrow> 'w \<Rightarrow> 'w \<times> string option" where
  "ufwAvailable h w =
     (case fh_look h w ''ufw'' of
        Some e \<Rightarrow> (w, Some (''ufw not installed: '' @ e))
      | None \<Rightarrow> runFor h w [''ufw'', ''status''] ''ufw status'')"

definition ufwRules :: "'w fwhost \<Rightarrow> 'w \<Rightarrow> 'w \<times> (string + Rule list)" where
  "ufwRules h w =
     (case fh_run h w [''ufw'', ''status'', ''numbered''] of
        (w, _, Some e) \<Rightarrow> (w, Inl (''ufw status: '' @ e))
      | (w, out, None) \<Rightarrow> (w, Inr (parseUFWRules out)))"

definition ufwPort :: "Rule \<Rightarrow> string" where
  "ufwPort r = (if fr_Protocol r = ProtoTCP \<or> fr_Protocol r = ProtoUDP
     then Itoa (fr_Port r) @ ''/'' @ fr_Protocol r else Itoa (fr_Port r))"

definition ufwAdd :: "'w fwhost \<Rightarrow> 'w \<Rightarrow> Rule \<Rightarrow> 'w \<times> string option" where
  "ufwAdd h w r = runFor h w [''ufw'', fr_Action r, ufwPort r] ''ufw add''"

definition ufwRemove :: "'w fwhost \<Rightarrow> 'w \<Rightarrow> Rule \<Rightarrow> 'w \<times> string option" where
  "ufwRemove h w r = runFor h w [''ufw'', ''delete'', fr_Action r, ufwPort r] ''ufw delete''"

definition UFWBackend :: "'w fwhost \<Rightarrow> 'w Backend" where
  "UFWBackend h = \<lparr>bk_Kind = BackendUFW, bk_Available = ufwAvailable h, bk_Rules = ufwRules h,
     bk_Add = ufwAdd h, bk_Remove = ufwRemove h\<rparr>"

text \<open>firewalld; \<open>zone\<close> is the configured zone, empty for the default.\<close>

definition fwZone :: "string \<Rightarrow> string" where
  "fwZone zone = (if zone = '''' then ''public'' else zone)"

definition firewalldAvailable :: "'w fwhost \<Rightarrow> 'w \<Rightarrow> 'w \<times> string option" where
  "firewalldAvailable h w =
     (case fh_look h w ''firewall-cmd'' of
        Some e \<Rightarrow> (w, Some (''firewall-cmd not installed: '' @ e))
      | None \<Rightarrow>
          (case fh_run h w [''firewall-cmd'', ''--state''] of
             (w, _, Some e) \<Rightarrow> (w, Some (''firewalld not running: '' @ e))
           | (w, out, None) \<Rightarrow> (w, if Contains out ''running'' then None else Some ''firewalld not running'')))"

definition firewalldRules :: "'w fwhost \<Rightarrow> string \<Rightarrow> 'w \<Rightarrow> 'w \<times> (string + Rule list)" where
  "firewalldRules h zone w =
     (case fh_run h w [''firewall-cmd'', ''--zone='' @ fwZone zone, ''--list-ports''] of
        (w, _, Some e) \<Rightarrow> (w, Inl (''firewalld list-ports: '' @ e))
      | (w, out, None) \<Rightarrow>
          (w, Inr (map (\<lambda>(port, proto). \<lparr>fr_Action = ActionAllow, fr_Protocol = proto, fr_Port = port,
                      fr_Source = '''', fr_Comment = ''''\<rparr>)
                    (List.map_filter splitPortProto (Fields out)))))"

definition firewalldPort :: "Rule \<Rightarrow> string" where
  "firewalldPort r =
     (let proto = ToLower (fr_Protocol r) in
      Itoa (fr_Port r) @ ''/'' @ (if proto = ProtoAny then ''tcp'' else proto))"

definition firewalldAdd :: "'w fwhost \<Rightarrow> string \<Rightarrow> 'w \<Rightarrow> Rule \<Rightarrow> 'w \<times> string option" where
  "firewalldAdd h zone w r =
     (if fr_Action r \<noteq> ActionAllow
      then (w, Some ''firewalld: deny rules are implicit; use allow rules only'')
      else
        (case runFor h w [''firewall-cmd'', ''--zone='' @ fwZone zone, ''--add-port='' @ firewalldPort r]
                ''firewalld add-port'' of
           (w, Some e) \<Rightarrow> (w, Some e)
         | (w, None) \<Rightarrow> runFor h w [''firewall-cmd'', ''--zone='' @ fwZone zone,
               ''--add-port='' @ firewalldPort r, ''--permanent''] ''firewalld add-port --permanent''))"

definition firewalldRemove :: "'w fwhost \<Rightarrow> string \<Rightarrow> 'w \<Rightarrow> Rule \<Rightarrow> 'w \<times> string option" where
  "firewalldRemove h zone w r =
     (case runFor h w [''firewall-cmd'', ''--zone='' @ fwZone zone, ''--remove-port='' @ firewalldPort r]
             ''firewalld remove-port'' of
        (w, Some e) \<Rightarrow> (w, Some e)
      | (w, None) \<Rightarrow> runFor h w [''firewall-cmd'', ''--zone='' @ fwZone zone,
            ''--remove-port='' @ firewalldPort r, ''--permanent''] ''firewalld remove-port --permanent'')"

definition FirewalldBackend :: "'w fwhost \<Rightarrow> string \<Rightarrow> 'w Backend" where
  "FirewalldBackend h zone = \<lparr>bk_Kind = BackendFirewalld, bk_Available = firewalldAvailable h,
     bk_Rules = firewalldRules h zone, bk_Add = firewalldAdd h zone, bk_Remove = firewalldRemove h zone\<rparr>"

section \<open>Socket readers and SSH resolvers (backends.go)\<close>

definition ssListening :: "'w fwhost \<Rightarrow> 'w SocketReader" where
  "ssListening h w =
     (case fh_run h w [''ss'', ''-tulnpH''] of
        (w, _, Some e) \<Rightarrow> (w, Some (Inl (''ss: '' @ e)))
      | (w, out, None) \<Rightarrow> (w, map_option Inr (parseSS out)))"

definition lsofListening :: "'w fwhost \<Rightarrow> 'w SocketReader" where
  "lsofListening h w =
     (case fh_run h w [''lsof'', ''-nP'', ''-iTCP'', ''-sTCP:LISTEN''] of
        (w, _, Some e) \<Rightarrow> (w, Some (Inl (''lsof: tcp: '' @ e)))
      | (w, out, None) \<Rightarrow> (w, Some (Inr (dedupeSockets (parseLsof out ProtoTCP)))))"

definition netstatListening :: "'w fwhost \<Rightarrow> 'w SocketReader" where
  "netstatListening h w =
     (case fh_run h w [''netstat'', ''-anv'', ''-p'', ''tcp''] of
        (w, _, Some e) \<Rightarrow> (w, Some (Inl (''netstat: '' @ e)))
      | (w, out, None) \<Rightarrow> (w, Some (Inr (dedupeSockets (parseNetstatDarwin out)))))"

definition SSHFromSockets :: "'w SocketReader option \<Rightarrow> 'w SSHResolver" where
  "SSHFromSockets reader w =
     (case reader of None \<Rightarrow> (w, Some [22])
      | Some listening \<Rightarrow>
          (case listening w of
             (w, None) \<Rightarrow> (w, None)
           | (w, Some (Inl _)) \<Rightarrow> (w, Some [22])
           | (w, Some (Inr sockets)) \<Rightarrow>
               (let out = sshPortsFromSockets sockets in
                (w, Some (if sockets = [] \<or> out = [] then [22] else out)))))"

definition activatedSSHPorts :: "'w fwhost \<Rightarrow> 'w \<Rightarrow> 'w \<times> int list" where
  "activatedSSHPorts h w =
     (case fh_run h w [''systemctl'', ''show'', ''--property=Listen'', ''ssh.socket'', ''sshd.socket''] of
        (w, _, Some _) \<Rightarrow> (w, []) | (w, out, None) \<Rightarrow> (w, parseListenPorts out))"

definition establishedLine :: "string \<Rightarrow> Socket option" where
  "establishedLine text =
     (let f = Fields text in
      if length f < 5 then None
      else case splitAddrPort (f ! 2) of None \<Rightarrow> None
        | Some (_, port) \<Rightarrow>
            (case parseSSProcess (last f) of (name, _) \<Rightarrow>
               if isSSHProcess name
               then Some \<lparr>sk_Protocol = ProtoTCP, sk_Address = '''', sk_Port = port, sk_Process = name, sk_PID = 0\<rparr>
               else None))"

definition establishedSSHD :: "'w fwhost \<Rightarrow> 'w \<Rightarrow> 'w \<times> Socket list" where
  "establishedSSHD h w =
     (case fh_run h w [''ss'', ''-tnpH'', ''state'', ''established''] of
        (w, _, Some _) \<Rightarrow> (w, []) | (w, out, None) \<Rightarrow> (w, List.map_filter establishedLine (scanLines out)))"

definition portLine :: "string \<Rightarrow> int option" where
  "portLine text =
     (case Fields text of f0 # f1 # _ \<Rightarrow> if ToLower f0 = ''port'' then Atoi f1 else None | _ \<Rightarrow> None)"

definition sshdConfigPorts :: "'w fwhost \<Rightarrow> 'w \<Rightarrow> int list" where
  "sshdConfigPorts h w =
     (let files = ''/etc/ssh/sshd_config'' #
        (case fh_ReadDir h w ''/etc/ssh/sshd_config.d'' of None \<Rightarrow> []
         | Some entries \<Rightarrow> map (\<lambda>(name, _). ''/etc/ssh/sshd_config.d/'' @ name)
             (filter (\<lambda>(name, dir). \<not> dir \<and> HasSuffix name ''.conf'') entries))
      in concat (map (\<lambda>f. case fh_ReadFile h w f of None \<Rightarrow> []
           | Some raw \<Rightarrow> List.map_filter portLine (scanLines raw)) files))"

text \<open>\<open>add\<close> of \<open>SSHFromHost.SSHPorts\<close>: only valid port numbers, each once.\<close>

definition addValidPort :: "int list \<Rightarrow> int \<Rightarrow> int list" where
  "addValidPort out p = (if 0 < p \<and> p \<le> 65535 \<and> p \<notin> set out then out @ [p] else out)"

definition sshPortList :: "Socket list \<Rightarrow> int list \<Rightarrow> Socket list \<Rightarrow> int list \<Rightarrow> int list" where
  "sshPortList sockets activated established config =
     (let out = foldl addValidPort []
        (map sk_Port (filter (\<lambda>s. isSSHProcess (sk_Process s)) sockets) @ activated @
         map sk_Port established @ config)
      in if out = [] then [22] else sort out)"

definition SSHFromHost :: "'w fwhost \<Rightarrow> 'w SocketReader option \<Rightarrow> 'w SSHResolver" where
  "SSHFromHost h reader w =
     (case (case reader of None \<Rightarrow> (w, Some (Inr [])) | Some listening \<Rightarrow> listening w) of
        (w, None) \<Rightarrow> (w, None)
      | (w, Some socks) \<Rightarrow>
          (case activatedSSHPorts h w of (w, activated) \<Rightarrow>
           case establishedSSHD h w of (w, established) \<Rightarrow>
             (w, Some (sshPortList (listOr socks) activated established (sshdConfigPorts h w)))))"

text \<open>The production manager (\<open>OSHost.Firewall\<close> in \<^verbatim>\<open>internal/steps/helper_host.go\<close>).\<close>

definition FirewallOf :: "'w fwhost \<Rightarrow> 'w Manager" where
  "FirewallOf h = \<lparr>fm_backends = [UFWBackend h, FirewalldBackend h ''''], fm_sockets = ssListening h,
     fm_ssh = SSHFromHost h (Some (ssListening h))\<rparr>"

end
