(* ===== verification/Firewall_Safety.thy ===== *)
theory Firewall_Safety
  imports Firewall
begin

text \<open>
  What the firewall manager guarantees. The commands it runs are recorded (\<open>logged\<close>); a command is
  \<open>editing\<close> when it changes rules. Detecting a backend, reading rules and sockets and resolving the SSH ports
  run no editing command, an edit of an SSH port that would close it runs none either, and every other
  edit runs exactly the commands of one backend for the requested port. The interface contracts are the
  locales \<open>fw_backend\<close> and \<open>fw_manager\<close>; ufw, firewalld and the production manager are interpretations.
\<close>

section \<open>The command log\<close>

definition logged :: "'w fwhost \<Rightarrow> ('w \<times> string list list) fwhost" where
  "logged h = \<lparr>
     fh_run = (\<lambda>(w, cmds) argv. case fh_run h w argv of (w, out, e) \<Rightarrow> ((w, cmds @ [argv]), out, e)),
     fh_look = (\<lambda>(w, _). fh_look h w),
     fh_ReadFile = (\<lambda>(w, _). fh_ReadFile h w),
     fh_ReadDir = (\<lambda>(w, _). fh_ReadDir h w)\<rparr>"

definition editing :: "string list \<Rightarrow> bool" where
  "editing argv \<longleftrightarrow>
     (case argv of [] \<Rightarrow> False
      | name # args \<Rightarrow>
          name = ''ufw'' \<and> args \<noteq> [] \<and> hd args \<in> {''allow'', ''deny'', ''reject'', ''limit'', ''delete'', ''insert'', ''route'',
            ''enable'', ''disable'', ''reset'', ''reload'', ''default''} \<or>
          name = ''firewall-cmd'' \<and> list_ex (\<lambda>a. HasPrefix a ''--add-'' \<or> HasPrefix a ''--remove-'' \<or>
            HasPrefix a ''--set-'' \<or> a = ''--reload'' \<or> a = ''--complete-reload'') args)"

definition edits :: "string list list \<Rightarrow> string list list" where "edits cmds = filter editing cmds"

definition readsOnly :: "('w \<times> string list list) \<Rightarrow> ('w \<times> string list list) \<Rightarrow> bool" where
  "readsOnly v w \<longleftrightarrow> edits (snd w) = edits (snd v)"

lemma edits_append [simp]: "edits (a @ b) = edits a @ edits b"
  by (simp add: edits_def)

lemma edits_Nil [simp]: "edits [] = []"
  by (simp add: edits_def)

lemma edits_Cons [simp]: "edits (c # cs) = (if editing c then c # edits cs else edits cs)"
  by (simp add: edits_def)

section \<open>The interfaces\<close>

locale fw_reads =
  fixes reads :: "'w \<Rightarrow> 'w \<Rightarrow> bool"
  assumes reads_refl [simp]: "reads w w"
    and reads_trans [trans]: "reads u v \<Longrightarrow> reads v w \<Longrightarrow> reads u w"

locale fw_backend = fw_reads reads for reads :: "'w \<Rightarrow> 'w \<Rightarrow> bool" +
  fixes b :: "'w Backend"
  assumes available_reads: "reads w (fst (bk_Available b w))"
    and rules_reads: "reads w (fst (bk_Rules b w))"

locale fw_manager = fw_reads reads for reads :: "'w \<Rightarrow> 'w \<Rightarrow> bool" +
  fixes m :: "'w Manager"
  assumes backends: "b \<in> set (fm_backends m) \<Longrightarrow> fw_backend reads b"
    and sockets_reads: "reads w (fst (fm_sockets m w))"
    and ssh_reads: "reads w (fst (fm_ssh m w))"
begin

lemma detectFrom_reads:
  "set bs \<subseteq> set (fm_backends m) \<Longrightarrow> reads w (fst (detectFrom bs msgs w))"
proof (induction bs arbitrary: msgs w)
  case Nil
  then show ?case by simp
next
  case (Cons b bs)
  obtain w' r where a: "bk_Available b w = (w', r)" by (cases "bk_Available b w")
  have "reads w w'"
    using fw_backend.available_reads [OF backends, of b w] Cons.prems a by simp
  moreover have "reads w' (fst (detectFrom bs msgs' w'))" for msgs'
    using Cons by simp
  ultimately show ?case by (cases r) (auto simp: a intro: reads_trans)
qed

lemma detect_reads: "reads w (fst (detect m w))"
  by (simp add: detect_def detectFrom_reads)

lemma detect_reads': "detect m w = (w', x) \<Longrightarrow> reads w w'"
  using detect_reads [of w] by simp

lemma ssh_reads': "fm_ssh m w = (w', x) \<Longrightarrow> reads w w'"
  using ssh_reads [of w] by simp

lemma detect_backend: "detect m w = (w', Some b, x) \<Longrightarrow> b \<in> set (fm_backends m)"
proof -
  have "detectFrom bs ms v = (v', Some b, x) \<Longrightarrow> b \<in> set bs" for bs ms v v'
    by (induction bs arbitrary: ms v) (auto split: prod.splits option.splits)
  then show "detect m w = (w', Some b, x) \<Longrightarrow> b \<in> set (fm_backends m)" by (auto simp: detect_def)
qed

text \<open>A snapshot changes nothing.\<close>

lemma statusFrom_reads: "reads w (fst (statusFrom m socks ports w))"
proof -
  obtain w1 o1 msg where d: "detect m w = (w1, o1, msg)" by (cases "detect m w") auto
  show ?thesis
  proof (cases o1)
    case None
    with detect_reads' [OF d] d show ?thesis by (simp add: statusFrom_def)
  next
    case (Some b)
    then have b: "b \<in> set (fm_backends m)" using d detect_backend by blast
    obtain w2 x where r: "bk_Rules b w1 = (w2, x)" by (cases "bk_Rules b w1")
    then have "reads w w2"
      using reads_trans [OF detect_reads' [OF d] fw_backend.rules_reads [OF backends [OF b], of w1]] by simp
    with d Some r show ?thesis by (cases x) (simp_all add: statusFrom_def)
  qed
qed

lemma Status_reads: "reads w (fst (Status m w))"
proof -
  obtain w1 s where s: "fm_sockets m w = (w1, s)" by (cases "fm_sockets m w")
  then have 1: "reads w w1" using sockets_reads [of w] by simp
  show ?thesis
  proof (cases s)
    case None
    with 1 s show ?thesis by (simp add: Status_def)
  next
    case (Some socks)
    obtain w2 p where p: "fm_ssh m w1 = (w2, p)" by (cases "fm_ssh m w1")
    have 2: "reads w w2" using reads_trans [OF 1 ssh_reads' [OF p]] .
    show ?thesis
    proof (cases "sshPortsFromSockets (listOr socks) = []")
      case True
      with s Some p 2 reads_trans [OF 2 statusFrom_reads] show ?thesis
        by (cases p) (simp_all add: Status_def)
    next
      case False
      with s Some reads_trans [OF 1 statusFrom_reads] show ?thesis by (simp add: Status_def Let_def)
    qed
  qed
qed

text \<open>
  The guard: the state an edit leaves is either reached by reading alone, or it is the backend's own
  edit, made from a state reached by reading, of a rule that is valid and does not close an SSH port.
\<close>

lemma RuleRemove_cases:
  assumes "RuleRemove m w r = (w', e)"
  obtains (refused) "reads w w'" and "e \<noteq> None"
  | (changed) w1 b ports where "reads w w1" and "b \<in> set (fm_backends m)" and "validate r = None"
      and "w' = fst (bk_Remove b w1 r)" and "e = map_option FErr (snd (bk_Remove b w1 r))"
      and "snd (fm_ssh m (fst (detect m w))) = Some ports"
      and "\<not> (fr_Action r = ActionAllow \<and> fr_Port r \<in> set ports)"
proof (cases "validate r")
  case (Some x)
  with assms have "w' = w" "e = Some x" by (simp_all add: RuleRemove_def)
  with refused show thesis by simp
next
  case v: None
  obtain w1 o1 msg where d: "detect m w = (w1, o1, msg)" by (cases "detect m w") auto
  obtain w2 p where s: "fm_ssh m w1 = (w2, p)" by (cases "fm_ssh m w1")
  have 1: "reads w w1" and 2: "reads w w2"
    using detect_reads' [OF d] reads_trans [OF detect_reads' [OF d] ssh_reads' [OF s]] by auto
  show thesis
  proof (cases "\<exists>b ports. o1 = Some b \<and> p = Some ports \<and> \<not> (fr_Action r = ActionAllow \<and> fr_Port r \<in> set ports)")
    case True
    then obtain b ports where b: "o1 = Some b" "p = Some ports"
      "\<not> (fr_Action r = ActionAllow \<and> fr_Port r \<in> set ports)" by blast
    have "(w', e) = (fst (bk_Remove b w2 r), map_option FErr (snd (bk_Remove b w2 r)))"
      using assms v d s b by (auto simp: RuleRemove_def portIn_def list_ex_iff split: prod.splits)
    with 2 v d s b show thesis by (intro changed [of w2 b ports]) (auto simp: detect_backend)
  next
    case False
    then have "reads w w' \<and> e \<noteq> None"
      using assms v d s 1 2 by (auto simp: RuleRemove_def portIn_def list_ex_iff split: option.splits if_splits)
    then show thesis using refused by blast
  qed
qed

lemma RuleAdd_cases:
  assumes "RuleAdd m w r = (w', e)"
  obtains (refused) "reads w w'" and "e \<noteq> None"
  | (changed) w1 b ports where "reads w w1" and "b \<in> set (fm_backends m)" and "validate r = None"
      and "w' = fst (bk_Add b w1 r)" and "e = map_option FErr (snd (bk_Add b w1 r))"
      and "snd (fm_ssh m (fst (detect m w))) = Some ports"
      and "\<not> (fr_Action r = ActionDeny \<and> fr_Port r \<in> set ports)"
proof (cases "validate r")
  case (Some x)
  with assms have "w' = w" "e = Some x" by (simp_all add: RuleAdd_def)
  with refused show thesis by simp
next
  case v: None
  obtain w1 o1 msg where d: "detect m w = (w1, o1, msg)" by (cases "detect m w") auto
  obtain w2 p where s: "fm_ssh m w1 = (w2, p)" by (cases "fm_ssh m w1")
  have 1: "reads w w1" and 2: "reads w w2"
    using detect_reads' [OF d] reads_trans [OF detect_reads' [OF d] ssh_reads' [OF s]] by auto
  show thesis
  proof (cases "\<exists>b ports. o1 = Some b \<and> p = Some ports \<and> \<not> (fr_Action r = ActionDeny \<and> fr_Port r \<in> set ports)")
    case True
    then obtain b ports where b: "o1 = Some b" "p = Some ports"
      "\<not> (fr_Action r = ActionDeny \<and> fr_Port r \<in> set ports)" by blast
    have "(w', e) = (fst (bk_Add b w2 r), map_option FErr (snd (bk_Add b w2 r)))"
      using assms v d s b by (auto simp: RuleAdd_def portIn_def list_ex_iff split: prod.splits)
    with 2 v d s b show thesis by (intro changed [of w2 b ports]) (auto simp: detect_backend)
  next
    case False
    then have "reads w w' \<and> e \<noteq> None"
      using assms v d s 1 2 by (auto simp: RuleAdd_def portIn_def list_ex_iff split: option.splits if_splits)
    then show thesis using refused by blast
  qed
qed

end

section \<open>The interfaces on the code's definitions\<close>

lemma run_logged [simp]:
  "fh_run (logged h) (w, cmds) argv =
     ((fst (fh_run h w argv), cmds @ [argv]), snd (fh_run h w argv))"
  by (simp add: logged_def split: prod.splits)

lemma look_logged [simp]: "fh_look (logged h) (w, cmds) n = fh_look h w n"
  by (simp add: logged_def)

lemma readsOnly_run: "\<not> editing argv \<Longrightarrow> readsOnly v (fst (fh_run (logged h) v argv))"
  by (cases v) (simp add: readsOnly_def)

lemma editing_ufw [simp]:
  "\<not> editing [''ufw'', ''status'']" "\<not> editing [''ufw'', ''status'', ''numbered'']"
  by (simp_all add: editing_def)

lemma editing_firewalld [simp]:
  "\<not> editing [''firewall-cmd'', ''--state'']" "\<not> editing [''firewall-cmd'', ''--zone='' @ z, ''--list-ports'']"
  by (simp_all add: editing_def)

lemma editing_other [simp]:
  "\<not> editing (''ss'' # args)" "\<not> editing (''systemctl'' # args)"
  by (simp_all add: editing_def)

interpretation cmds: fw_reads readsOnly
  by unfold_locales (simp_all add: readsOnly_def)

lemma fst_runFor: "fst (runFor h w argv what) = fst (fh_run h w argv)"
  by (simp add: runFor_def split: prod.splits)

interpretation ufw: fw_backend readsOnly "UFWBackend (logged h)" for h :: "'w fwhost"
proof
  fix w :: "'w \<times> string list list"
  show "readsOnly w (fst (bk_Available (UFWBackend (logged h)) w))"
    using readsOnly_run [OF editing_ufw(1), of w h]
    by (cases w) (auto simp: UFWBackend_def ufwAvailable_def fst_runFor split: option.splits)
  show "readsOnly w (fst (bk_Rules (UFWBackend (logged h)) w))"
    using readsOnly_run [OF editing_ufw(2), of w h]
    by (auto simp: UFWBackend_def ufwRules_def split: prod.splits option.splits)
qed

interpretation firewalld: fw_backend readsOnly "FirewalldBackend (logged h) zone" for h :: "'w fwhost" and zone
proof
  fix w :: "'w \<times> string list list"
  show "readsOnly w (fst (bk_Available (FirewalldBackend (logged h) zone) w))"
    using readsOnly_run [OF editing_firewalld(1), of w h]
    by (cases w) (auto simp: FirewalldBackend_def firewalldAvailable_def split: prod.splits option.splits)
  show "readsOnly w (fst (bk_Rules (FirewalldBackend (logged h) zone) w))"
    using readsOnly_run [OF editing_firewalld(2), of w h "fwZone zone"]
    by (auto simp: FirewalldBackend_def firewalldRules_def split: prod.splits option.splits)
qed

lemma ss_reads: "readsOnly w (fst (ssListening (logged h) w))"
  using readsOnly_run [OF editing_other(1), of w h "[''-tulnpH'']"]
  by (auto simp: ssListening_def split: prod.splits option.splits)

lemma activated_reads: "readsOnly w (fst (activatedSSHPorts (logged h) w))"
  using readsOnly_run [OF editing_other(2), of w h "[''show'', ''--property=Listen'', ''ssh.socket'', ''sshd.socket'']"]
  by (auto simp: activatedSSHPorts_def split: prod.splits option.splits)

lemma established_reads: "readsOnly w (fst (establishedSSHD (logged h) w))"
  using readsOnly_run [OF editing_other(1), of w h "[''-tnpH'', ''state'', ''established'']"]
  by (auto simp: establishedSSHD_def split: prod.splits option.splits)

lemma SSHFromHost_reads: "readsOnly w (fst (SSHFromHost (logged h) (Some (ssListening (logged h))) w))"
proof -
  obtain w1 s where s: "ssListening (logged h) w = (w1, s)" by (cases "ssListening (logged h) w")
  obtain w2 a where a: "activatedSSHPorts (logged h) w1 = (w2, a)" by (cases "activatedSSHPorts (logged h) w1")
  obtain w3 e where e: "establishedSSHD (logged h) w2 = (w3, e)" by (cases "establishedSSHD (logged h) w2")
  have 1: "readsOnly w w1" and "readsOnly w1 w2" and "readsOnly w2 w3"
    using ss_reads [of w h] activated_reads [of w1 h] established_reads [of w2 h] s a e by simp_all
  then have 3: "readsOnly w w3" by (simp add: readsOnly_def)
  show ?thesis
  proof (cases s)
    case None
    with 1 s show ?thesis by (simp add: SSHFromHost_def)
  next
    case (Some x)
    with 3 s a e show ?thesis by (simp add: SSHFromHost_def Let_def)
  qed
qed

interpretation host: fw_manager readsOnly "FirewallOf (logged h)" for h :: "'w fwhost"
proof (intro fw_manager.intro fw_manager_axioms.intro)
  show "fw_reads (readsOnly :: 'w \<times> string list list \<Rightarrow> _)" by (rule cmds.fw_reads_axioms)
next
  fix b :: "('w \<times> string list list) Backend"
  assume "b \<in> set (fm_backends (FirewallOf (logged h)))"
  then show "fw_backend readsOnly b"
    using ufw.fw_backend_axioms [of h] firewalld.fw_backend_axioms [of h "''''"]
    by (auto simp: FirewallOf_def)
next
  fix w :: "'w \<times> string list list"
  show "readsOnly w (fst (fm_sockets (FirewallOf (logged h)) w))"
    by (simp add: FirewallOf_def ss_reads)
next
  fix w :: "'w \<times> string list list"
  show "readsOnly w (fst (fm_ssh (FirewallOf (logged h)) w))"
    by (simp add: FirewallOf_def SSHFromHost_reads)
qed

section \<open>The SSH ports\<close>

lemma set_addValidPort: "set (foldl addValidPort acc ps) = set acc \<union> {p \<in> set ps. 0 < p \<and> p \<le> 65535}"
  by (induction ps arbitrary: acc) (auto simp: addValidPort_def)

lemma distinct_addValidPort: "distinct acc \<Longrightarrow> distinct (foldl addValidPort acc ps)"
  by (induction ps arbitrary: acc) (simp_all add: addValidPort_def)

lemma set_sshPortList:
  assumes "known = {p. 0 < p \<and> p \<le> 65535 \<and>
        (p \<in> sk_Port ` {s \<in> set sockets. isSSHProcess (sk_Process s)} \<or> p \<in> set activated \<or>
         p \<in> sk_Port ` set established \<or> p \<in> set config)}"
  shows "set (sshPortList sockets activated established config) = (if known = {} then {22} else known) \<and>
    sorted (sshPortList sockets activated established config) \<and>
    distinct (sshPortList sockets activated established config)"
proof -
  define out where "out = foldl addValidPort []
      (map sk_Port (filter (\<lambda>s. isSSHProcess (sk_Process s)) sockets) @ activated @ map sk_Port established @ config)"
  have p: "sshPortList sockets activated established config = (if out = [] then [22] else sort out)"
    unfolding sshPortList_def out_def Let_def ..
  have k: "set out = known" unfolding out_def set_addValidPort assms by auto
  have "distinct out" unfolding out_def by (rule distinct_addValidPort) simp
  moreover have "out = [] \<longleftrightarrow> known = {}" using k by auto
  ultimately show ?thesis using k unfolding p by simp
qed

text \<open>The ports that must stay open are exactly the valid ones among those where sshd listens, those of the
  activated ssh sockets, those of live SSH connections and those configured for sshd, in order and
  without repetition; when none is known, port 22 is protected. The list is never empty.\<close>

theorem ssh_ports_resolved:
  assumes "SSHFromHost h (Some reader) w = (w', Some ports)" and "reader w = (w1, Some socks)"
    and "activatedSSHPorts h w1 = (w2, activated)" and "establishedSSHD h w2 = (w3, established)"
    and "known = {p. 0 < p \<and> p \<le> 65535 \<and>
        (p \<in> sk_Port ` {s \<in> set (listOr socks). isSSHProcess (sk_Process s)} \<or> p \<in> set activated \<or>
         p \<in> sk_Port ` set established \<or> p \<in> set (sshdConfigPorts h w3))}"
  shows "set ports = (if known = {} then {22} else known) \<and> sorted ports \<and> distinct ports"
proof -
  have "ports = sshPortList (listOr socks) activated established (sshdConfigPorts h w3)"
    using assms(1-4) by (auto simp: SSHFromHost_def)
  with set_sshPortList [OF assms(5)] show ?thesis by simp
qed


section \<open>The commands an edit runs\<close>

definition ufwDelete :: "Rule \<Rightarrow> string list" where
  "ufwDelete r = [''ufw'', ''delete'', fr_Action r, ufwPort r]"

definition ufwInsert :: "Rule \<Rightarrow> string list" where
  "ufwInsert r = [''ufw'', fr_Action r, ufwPort r]"

definition fwdEdit :: "string \<Rightarrow> Rule \<Rightarrow> string list" where
  "fwdEdit verb r = [''firewall-cmd'', ''--zone=public'', verb @ firewalldPort r]"

definition editsOf :: "string list \<Rightarrow> string list \<Rightarrow> string list list \<Rightarrow> ferr option \<Rightarrow> bool" where
  "editsOf ufw fwd cmds e \<longleftrightarrow>
     edits cmds = [] \<and> e \<noteq> None \<or> edits cmds = [ufw] \<or>
     edits cmds = [fwd] \<and> e \<noteq> None \<or> edits cmds = [fwd, fwd @ [''--permanent'']]"

lemma editing_edits:
  "editing (ufwDelete r)" "validate r = None \<Longrightarrow> editing (ufwInsert r)"
  "editing [''firewall-cmd'', z, ''--add-port='' @ p]" "editing [''firewall-cmd'', z, ''--add-port='' @ p, q]"
  "editing [''firewall-cmd'', z, ''--remove-port='' @ p]" "editing [''firewall-cmd'', z, ''--remove-port='' @ p, q]"
  by (auto simp: editing_def ufwDelete_def ufwInsert_def validate_def fw_consts split: if_splits)

lemma runFor_logged:
  "runFor (logged h) (w, cmds) argv what =
     ((fst (fh_run h w argv), cmds @ [argv]), map_option (\<lambda>e. what @ '': '' @ e) (snd (snd (fh_run h w argv))))"
  by (simp add: runFor_def split: prod.splits)

lemma firewalld_edit:
  assumes "x = (case runFor (logged h) (w, cmds) c1 a of (v, Some e) \<Rightarrow> (v, Some e) | (v, None) \<Rightarrow> runFor (logged h) v c2 b)"
    and "editing c1" "editing c2" "edits cmds = []" "c1 = fwd" "c2 = fwd @ [''--permanent'']"
  shows "editsOf ufw fwd (snd (fst x)) (map_option FErr (snd x))"
  using assms by (cases "snd (snd (fh_run h w c1))") (simp_all add: runFor_logged editsOf_def)

lemma backend_remove:
  assumes "b \<in> set (fm_backends (FirewallOf (logged h)))" and "edits cmds = []"
  shows "editsOf (ufwDelete r) (fwdEdit ''--remove-port='' r) (snd (fst (bk_Remove b (w, cmds) r)))
    (map_option FErr (snd (bk_Remove b (w, cmds) r)))"
proof -
  from assms(1) consider "b = UFWBackend (logged h)" | "b = FirewalldBackend (logged h) ''''"
    by (auto simp: FirewallOf_def)
  then show ?thesis
  proof cases
    case 1
    then show ?thesis using assms(2) editing_edits(1) [of r]
      by (simp add: UFWBackend_def ufwRemove_def runFor_logged editsOf_def ufwDelete_def)
  next
    case 2
    then have "bk_Remove b (w, cmds) r = firewalldRemove (logged h) '''' (w, cmds) r"
      by (simp add: FirewalldBackend_def)
    then show ?thesis unfolding firewalldRemove_def
      by (rule firewalld_edit) (simp_all add: fwdEdit_def fwZone_def editing_def assms(2))
  qed
qed

lemma backend_add:
  assumes "b \<in> set (fm_backends (FirewallOf (logged h)))" and "edits cmds = []" and "validate r = None"
  shows "editsOf (ufwInsert r) (fwdEdit ''--add-port='' r) (snd (fst (bk_Add b (w, cmds) r)))
    (map_option FErr (snd (bk_Add b (w, cmds) r)))"
proof -
  from assms(1) consider "b = UFWBackend (logged h)" | "b = FirewalldBackend (logged h) ''''"
    by (auto simp: FirewallOf_def)
  then show ?thesis
  proof cases
    case 1
    then show ?thesis using assms(2) editing_edits(2) [OF assms(3)]
      by (simp add: UFWBackend_def ufwAdd_def runFor_logged editsOf_def ufwInsert_def)
  next
    case f: 2
    show ?thesis
    proof (cases "fr_Action r = ActionAllow")
      case True
      have "bk_Add b (w, cmds) r = firewalldAdd (logged h) [] (w, cmds) r"
        using f by (simp add: FirewalldBackend_def)
      also have "\<dots> = (case runFor (logged h) (w, cmds)
            [''firewall-cmd'', ''--zone='' @ fwZone [], ''--add-port='' @ firewalldPort r] ''firewalld add-port'' of
           (w, Some e) \<Rightarrow> (w, Some e)
         | (w, None) \<Rightarrow> runFor (logged h) w [''firewall-cmd'', ''--zone='' @ fwZone [],
               ''--add-port='' @ firewalldPort r, ''--permanent''] ''firewalld add-port --permanent'')"
        unfolding firewalldAdd_def True by (rule if_not_P) simp
      finally show ?thesis
        by (rule firewalld_edit) (simp_all add: fwdEdit_def fwZone_def editing_def assms(2))
    qed (use f assms(2) in \<open>simp add: FirewalldBackend_def firewalldAdd_def editsOf_def\<close>)
  qed
qed


text \<open>Every edit runs exactly the commands of one backend for the requested rule: at most one ufw command, or
  the firewalld change of the running rules followed by the same change of the saved rules; nothing
  else is ever changed, and success means the backend's whole edit was made.\<close>

theorem edits_are_exact:
  assumes "RuleRemove (FirewallOf (logged h)) (w, []) r = ((w1, removal), e1)"
    and "RuleAdd (FirewallOf (logged h)) (w, []) r = ((w2, addition), e2)"
  shows "editsOf (ufwDelete r) (fwdEdit ''--remove-port='' r) removal e1 \<and>
    editsOf (ufwInsert r) (fwdEdit ''--add-port='' r) addition e2"
proof (rule conjI)
  from assms(1) show "editsOf (ufwDelete r) (fwdEdit ''--remove-port='' r) removal e1"
  proof (cases rule: host.RuleRemove_cases)
    case refused
    then show ?thesis by (simp add: readsOnly_def editsOf_def)
  next
    case (changed v b ports)
    moreover from changed(4) have "removal = snd (fst (bk_Remove b v r))" by (metis snd_conv)
    ultimately show ?thesis
      using backend_remove [of b h "snd v" r "fst v"] by (simp add: readsOnly_def)
  qed
  from assms(2) show "editsOf (ufwInsert r) (fwdEdit ''--add-port='' r) addition e2"
  proof (cases rule: host.RuleAdd_cases)
    case refused
    then show ?thesis by (simp add: readsOnly_def editsOf_def)
  next
    case (changed v b ports)
    moreover from changed(4) have "addition = snd (fst (bk_Add b v r))" by (metis snd_conv)
    ultimately show ?thesis
      using backend_add [of b h "snd v" r "fst v"] by (simp add: readsOnly_def)
  qed
qed


section \<open>A concrete host\<close>

text \<open>A host with ufw where sshd listens on port 2222; the world counts the commands.\<close>

definition demoSS :: string where
  "demoSS = ''tcp   LISTEN 0      128     0.0.0.0:2222    0.0.0.0:*    users:((\"sshd\",pid=812,fd=3))'' @ [CHR 0x0A] @
     ''udp   UNCONN 0      0       127.0.0.53:53   0.0.0.0:*'' @ [CHR 0x0A]"

definition demoFwHost :: "nat fwhost" where
  "demoFwHost = \<lparr>
     fh_run = (\<lambda>n argv. (Suc n, if argv = [''ss'', ''-tulnpH''] then demoSS else [], None)),
     fh_look = (\<lambda>_ n. None), fh_ReadFile = (\<lambda>_ _. None), fh_ReadDir = (\<lambda>_ _. None)\<rparr>"

definition demoRule :: "string \<Rightarrow> int \<Rightarrow> Rule" where
  "demoRule act port = \<lparr>fr_Action = act, fr_Protocol = ProtoTCP, fr_Port = port, fr_Source = '''', fr_Comment = ''''\<rparr>"

definition demoSocket :: Socket where
  "demoSocket = \<lparr>sk_Protocol = ''tcp'', sk_Address = ''0.0.0.0'', sk_Port = 2222, sk_Process = ''sshd'', sk_PID = 812\<rparr>"

lemma demoSS_parse: "map_option (map sk_Port) (parseSS demoSS) = Some [2222, 53]" "map_option hd (parseSS demoSS) = Some demoSocket"
  by code_simp+


theorem ssh_ports_resolved_witness:
  "SSHFromHost demoFwHost (Some (ssListening demoFwHost)) 0 = (3, Some [2222]) \<and>
   set [2222::int] = {p. 0 < p \<and> p \<le> 65535 \<and> p \<in> {2222}}"
proof -
  obtain socks where p: "parseSS demoSS = Some socks" using demoSS_parse by auto
  have s: "snd (SSHFromHost demoFwHost (Some (ssListening demoFwHost)) 0) = Some [2222]"
    and f: "fst (SSHFromHost demoFwHost (Some (ssListening demoFwHost)) 0) = 3" by code_simp+
  have r: "SSHFromHost demoFwHost (Some (ssListening demoFwHost)) 0 = (3, Some [2222])"
    using s f by (simp add: prod_eq_iff)
  have l: "ssListening demoFwHost 0 = (1, Some (Inr socks))"
    using p by (simp add: ssListening_def demoFwHost_def)
  have a: "activatedSSHPorts demoFwHost 1 = (2, [])" and e: "establishedSSHD demoFwHost 2 = (3, [])"
    by code_simp+
  have "sorted [2222::int] \<and> distinct [2222::int]"
    using ssh_ports_resolved [OF r l a e refl] by blast
  with r show ?thesis by auto
qed

theorem edits_are_exact_witness:
  "editsOf (ufwDelete (demoRule ActionAllow 80)) (fwdEdit ''--remove-port='' (demoRule ActionAllow 80))
     [[''ufw'', ''status''], [''ss'', ''-tulnpH''],
      [''systemctl'', ''show'', ''--property=Listen'', ''ssh.socket'', ''sshd.socket''],
      [''ss'', ''-tnpH'', ''state'', ''established''], [''ufw'', ''delete'', ''allow'', ''80/tcp'']] None"
proof -
  let ?f = "FirewallOf (logged demoFwHost)" and ?r = "demoRule ActionAllow 80"
  have "snd (fst (RuleRemove ?f (0, []) ?r)) = [[''ufw'', ''status''], [''ss'', ''-tulnpH''],
      [''systemctl'', ''show'', ''--property=Listen'', ''ssh.socket'', ''sshd.socket''],
      [''ss'', ''-tnpH'', ''state'', ''established''], [''ufw'', ''delete'', ''allow'', ''80/tcp'']]
      \<and> snd (RuleRemove ?f (0, []) ?r) = None" by code_simp
  moreover have "RuleRemove ?f (0, []) ?r = ((fst (fst (RuleRemove ?f (0, []) ?r)), snd (fst (RuleRemove ?f (0, []) ?r))),
      snd (RuleRemove ?f (0, []) ?r))"
    and "RuleAdd ?f (0, []) ?r = ((fst (fst (RuleAdd ?f (0, []) ?r)), snd (fst (RuleAdd ?f (0, []) ?r))),
      snd (RuleAdd ?f (0, []) ?r))" by simp_all
  note edits_are_exact [OF this]
  ultimately show ?thesis by simp
qed


text \<open>A line of \<open>ss\<close> output with exactly five fields (no peer address) makes the parser panic: it checks for five
  fields and then slices from the seventh.\<close>

theorem five_field_line_panics:
  "parseSS ''tcp LISTEN 0 128 0.0.0.0:22'' = None \<and> parseSS ''tcp LISTEN 0 128 0.0.0.0:22 0.0.0.0:*'' \<noteq> None"
  by code_simp

section \<open>Reading rules back\<close>

text \<open>The output of \<open>ufw status numbered\<close>, as the comment of \<open>parseUFWRules\<close> gives it.\<close>

definition ufwStatusLine :: "nat \<Rightarrow> Rule \<Rightarrow> string" where
  "ufwStatusLine n r =
     ''['' @ (if n < 10 then '' '' else []) @ natString n @ ''] '' @ ufwPort r @
     (if fr_Action r = ActionAllow then ''   ALLOW IN    Anywhere'' else ''   DENY IN     Anywhere'')"

definition ufwStatusLines :: "Rule list \<Rightarrow> string list" where
  "ufwStatusLines rules =
     [''Status: active'', [], ''     To                         Action      From'',
      ''     --                         ------      ----''] @
     map (\<lambda>(n, r). ufwStatusLine n r) (zip [1..<Suc (length rules)] rules)"

definition ufwStatusText :: "Rule list \<Rightarrow> string" where
  "ufwStatusText rules = concat (map (\<lambda>l. l @ [CHR 0x0A]) (ufwStatusLines rules))"

lemma Split_word: "d \<notin> set w \<Longrightarrow> Split d (w @ d # r) = w # Split d r"
  by (induction w) auto

lemma Split_lines: "\<forall>l \<in> set ls. d \<notin> set l \<Longrightarrow> Split d (concat (map (\<lambda>l. l @ [d]) ls)) = ls @ [[]]"
  by (induction ls) (auto simp: Split_word)

lemma scanLines_lines:
  assumes "\<forall>l \<in> set ls. CHR 0x0A \<notin> set l \<and> int (length l) < 65536 \<and> \<not> suffix [CHR 0x0D] l"
  shows "scanLines (concat (map (\<lambda>l. l @ [CHR 0x0A]) ls)) = ls"
proof -
  have tw: "takeWhile (\<lambda>l. int (length l) < 65536) ls = ls" using assms by (simp add: takeWhile_eq_all_conv)
  have tr: "map (\<lambda>l. TrimSuffix l [CHR 0x0D]) ls = ls" using assms by (simp add: map_idI TrimSuffix_def)
  have "Split (CHR 0x0A) (concat (map (\<lambda>l. l @ [CHR 0x0A]) ls)) = ls @ [[]]"
    using assms by (intro Split_lines) blast
  then show ?thesis unfolding scanLines_def dropFinalEmpty_def by (simp only: last_snoc butlast_snoc simp_thms if_True tw tr)
qed

lemma TrimSpace_id:
  assumes "s \<noteq> []" "\<not> isSpace (hd s)" "\<not> isSpace (last s)" shows "TrimSpace s = s"
proof -
  have "dropWhile isSpace s = s" using assms(1,2) by (cases s) simp_all
  moreover have "dropWhile isSpace (rev s) = rev s"
    using assms(1,3) by (cases "rev s") (auto simp: hd_rev [symmetric])
  ultimately show ?thesis by (simp add: TrimSpace_def)
qed

lemma TrimSpace_Cons: "isSpace c \<Longrightarrow> TrimSpace (c # s) = TrimSpace s"
  by (simp add: TrimSpace_def)

lemma digit_plain: "isDigit c \<Longrightarrow> \<not> isSpace c \<and> c \<noteq> CHR ''/'' \<and> c \<noteq> CHR '']'' \<and> c \<noteq> CHR 0x0A"
  by (auto simp: isDigit_def isSpace_def)

lemma natString_plain:
  "c \<in> set (natString n) \<Longrightarrow> \<not> isSpace c \<and> c \<noteq> CHR ''/'' \<and> c \<noteq> CHR '']'' \<and> c \<noteq> CHR 0x0A"
  using natString_digits [of n] digit_plain by (auto simp: list_all_iff)

lemma ufwPort_form:
  assumes "validate r = None"
  obtains n suf where "fr_Port r = int n" "0 < n" "n < 65536" "ufwPort r = natString n @ suf"
    "(suf, fr_Protocol r) \<in> {(''/tcp'', ''tcp''), (''/udp'', ''udp''), ([], ''any'')}"
proof -
  from assms have v: "0 < fr_Port r" "fr_Port r \<le> 65535"
    "fr_Protocol r \<in> {''tcp'', ''udp'', ''any''}"
    by (auto simp: validate_def fw_consts split: if_splits)
  then show thesis
    by (intro that [of "nat (fr_Port r)" "if fr_Protocol r = ''any'' then [] else ''/'' @ fr_Protocol r"])
      (auto simp: ufwPort_def fw_consts Itoa_def)
qed

lemma splitPortProto_port:
  assumes "0 < n" "n < 65536" and "(suf, proto) \<in> {(''/tcp'', ''tcp''), (''/udp'', ''udp''), ([], ''any'')}"
  shows "splitPortProto (natString n @ suf) = Some (int n, proto)"
proof -
  have "Atoi (natString n) = Some (int n)" using assms(2) by (intro ParseInt_natString) simp
  moreover have "hd (natString n) \<noteq> CHR ''/''" using natString_plain [of "hd (natString n)" n] by simp
  moreover have "takeWhile (\<lambda>c. c \<noteq> CHR ''/'') (natString n @ CHR ''/'' # xs) = natString n"
    "dropWhile (\<lambda>c. c \<noteq> CHR ''/'') (natString n @ CHR ''/'' # xs) = CHR ''/'' # xs" for xs
    using natString_plain [of _ n] by (auto simp: takeWhile_append dropWhile_append)
  moreover have "CHR ''/'' \<notin> set (natString n)" using natString_plain by blast
  moreover have "ToLower ''tcp'' = ''tcp''" "ToLower ''udp'' = ''udp''" by code_simp+
  ultimately show ?thesis using assms(1,3) by (auto simp: splitPortProto_def fw_consts)
qed

lemma ufwStatus_tail:
  "Fields ''   ALLOW IN    Anywhere'' = [''ALLOW'', ''IN'', ''Anywhere'']"
  "Fields ''   DENY IN     Anywhere'' = [''DENY'', ''IN'', ''Anywhere'']"
  "ToUpper ''ALLOW'' = ''ALLOW''" "ToUpper ''DENY'' = ''DENY''"
  by code_simp+

lemma ufwStatusLine_parse:
  assumes "validate r = None" and "fr_Source r = ''''" and "fr_Comment r = ''''"
  shows "parseUFWLine (ufwStatusLine n r) = Some r"
proof -
  obtain k suf where k: "fr_Port r = int k" "0 < k" "k < 65536" "ufwPort r = natString k @ suf"
    "(suf, fr_Protocol r) \<in> {(''/tcp'', ''tcp''), (''/udp'', ''udp''), ([], ''any'')}"
    using assms(1) by (rule ufwPort_form)
  define verb where "verb = (if fr_Action r = ActionAllow then ''ALLOW'' else ''DENY'')"
  define tail where "tail = (if fr_Action r = ActionAllow then ''   ALLOW IN    Anywhere'' else ''   DENY IN     Anywhere'')"
  define num where "num = (if n < 10 then '' '' else []) @ natString n"
  have num: "CHR '']'' \<notin> set num" using natString_plain by (auto simp: num_def)
  have line: "ufwStatusLine n r = CHR ''['' # num @ CHR '']'' # CHR '' '' # ufwPort r @ tail"
    by (simp add: ufwStatusLine_def num_def tail_def)
  have last: "last (xs @ tail) = CHR ''e''" "xs @ tail \<noteq> []" for xs by (simp_all add: tail_def)
  have sp: "isSpace (CHR '' '')" "\<not> isSpace (CHR ''['')" "\<not> isSpace (CHR ''e'')" by code_simp+
  have t1: "TrimSpace (ufwStatusLine n r) = ufwStatusLine n r"
    using last [of "CHR ''['' # num @ CHR '']'' # CHR '' '' # ufwPort r"] sp
    by (intro TrimSpace_id) (simp_all add: line)
  have dw: "tl (dropWhile (\<lambda>c. c \<noteq> CHR '']'') (ufwStatusLine n r)) = CHR '' '' # ufwPort r @ tail"
    using num by (simp add: line dropWhile_append)
  have plain: "list_all (\<lambda>c. \<not> isSpace c) (ufwPort r)"
    using k(4,5) natString_plain [of _ k] by (auto simp: list_all_iff isSpace_def)
  have ne: "ufwPort r \<noteq> []" by (simp add: k(4))
  then have h: "\<not> isSpace (hd (ufwPort r @ tail))" using plain by (cases "ufwPort r") simp_all
  have t2: "TrimSpace (CHR '' '' # ufwPort r @ tail) = ufwPort r @ tail"
    using h last [of "ufwPort r"] sp by (simp add: TrimSpace_Cons TrimSpace_id)
  have "Fields (ufwPort r @ tail) = ufwPort r # Fields tail"
    using ne plain sp by (intro Fields_word) (simp_all add: tail_def)
  then have f: "Fields (ufwPort r @ tail) = [ufwPort r, verb, ''IN'', ''Anywhere'']"
    using ufwStatus_tail by (simp add: tail_def verb_def)
  have s: "splitPortProto (ufwPort r) = Some (fr_Port r, fr_Protocol r)"
    using splitPortProto_port [OF k(2,3,5)] by (simp add: k(1,4))
  have a: "fr_Action r = ActionAllow \<or> fr_Action r = ActionDeny"
    using assms(1) by (auto simp: validate_def split: if_splits)
  have rebuild: "r = \<lparr>fr_Action = fr_Action r, fr_Protocol = fr_Protocol r, fr_Port = fr_Port r,
      fr_Source = [], fr_Comment = []\<rparr>" using assms(2,3) by (cases r) simp
  have nonblank: "ufwStatusLine n r \<noteq> []" "\<not> prefix ''Status:'' (ufwStatusLine n r)" "\<not> prefix ''To'' (ufwStatusLine n r)"
    "\<not> prefix ''--'' (ufwStatusLine n r)" "prefix ''['' (ufwStatusLine n r)" "CHR '']'' \<in> set (ufwStatusLine n r)"
    by (simp_all add: line)
  have u: "ToUpper verb = verb" using ufwStatus_tail by (simp add: verb_def)
  have "parseUFWLine (ufwStatusLine n r) = (if verb = ''ALLOW''
      then Some \<lparr>fr_Action = ActionAllow, fr_Protocol = fr_Protocol r, fr_Port = fr_Port r, fr_Source = [], fr_Comment = []\<rparr>
      else Some \<lparr>fr_Action = ActionDeny, fr_Protocol = fr_Protocol r, fr_Port = fr_Port r, fr_Source = [], fr_Comment = []\<rparr>)"
    unfolding parseUFWLine_def Let_def t1 dw t2
    using nonblank by (simp add: dw t2 f s u) (simp add: verb_def)
  then show ?thesis using a rebuild by (auto simp: verb_def fw_consts)
qed

lemma ufwStatusLine_scan:
  assumes "validate r = None" and "n < 10 ^ 9"
  shows "CHR 0x0A \<notin> set (ufwStatusLine n r) \<and> int (length (ufwStatusLine n r)) < 65536 \<and>
    \<not> suffix [CHR 0x0D] (ufwStatusLine n r)"
proof -
  obtain k suf where k: "k < 65536" "ufwPort r = natString k @ suf" "suf \<in> {''/tcp'', ''/udp'', []}"
    using assms(1) by (rule ufwPort_form) auto
  have "length (natString n) \<le> 9" "length (natString k) \<le> 5"
    using natString_length [of n 9] natString_length [of k 5] assms(2) k(1) by simp_all
  moreover have "CHR 0x0A \<notin> set (natString n) \<union> set (natString k)" using natString_plain by blast
  ultimately show ?thesis using k(2,3) by (auto simp: ufwStatusLine_def suffix_def append_eq_append_conv2)
qed

text \<open>Rules read back: parsing what \<open>ufw status numbered\<close> prints for a list of valid rules gives those rules,
  in order.\<close>

theorem ufw_rules_roundtrip:
  assumes "list_all (\<lambda>r. validate r = None \<and> fr_Source r = '''' \<and> fr_Comment r = '''') rules"
    and "length rules < 10 ^ 9 - 1"
  shows "parseUFWRules (ufwStatusText rules) = rules"
proof -
  let ?z = "zip [1..<Suc (length rules)] rules"
  have z: "validate r = None \<and> fr_Source r = '''' \<and> fr_Comment r = '''' \<and> n < 10 ^ 9" if "(n, r) \<in> set ?z" for n r
  proof -
    have "n \<in> set [1..<Suc (length rules)]" "r \<in> set rules"
      using that by (auto dest: set_zip_leftD set_zip_rightD simp del: upt_Suc)
    then show ?thesis using assms by (auto simp: list_all_iff simp del: upt_Suc)
  qed
  have h: "list_all (\<lambda>l. CHR 0x0A \<notin> set l \<and> int (length l) < 65536 \<and> \<not> suffix [CHR 0x0D] l)
      [''Status: active'', [], ''     To                         Action      From'',
      ''     --                         ------      ----'']" by code_simp
  have "scanLines (ufwStatusText rules) = ufwStatusLines rules" unfolding ufwStatusText_def
  proof (rule scanLines_lines)
    show "\<forall>l \<in> set (ufwStatusLines rules). CHR 0x0A \<notin> set l \<and> int (length l) < 65536 \<and> \<not> suffix [CHR 0x0D] l"
      using h ufwStatusLine_scan z unfolding ufwStatusLines_def list_all_iff by fastforce
  qed
  moreover have "parseUFWLine ''Status: active'' = None" "parseUFWLine [] = None"
    "parseUFWLine ''     To                         Action      From'' = None"
    "parseUFWLine ''     --                         ------      ----'' = None" by code_simp+
  moreover have "List.map_filter parseUFWLine (map (\<lambda>(n, r). ufwStatusLine n r) ?z) = map snd ?z"
  proof -
    have "List.map_filter parseUFWLine (map (\<lambda>(n, r). ufwStatusLine n r) zs) = map snd zs"
      if "\<forall>(n, r) \<in> set zs. parseUFWLine (ufwStatusLine n r) = Some r" for zs
      using that by (induction zs) auto
    then show ?thesis using z ufwStatusLine_parse by fastforce
  qed
  ultimately show ?thesis by (simp add: parseUFWRules_def ufwStatusLines_def del: upt_Suc)
qed

theorem ufw_rules_roundtrip_witness:
  "parseUFWRules (ufwStatusText [demoRule ActionAllow 22, demoRule ActionDeny 8080]) =
     [demoRule ActionAllow 22, demoRule ActionDeny 8080]"
  by (rule ufw_rules_roundtrip) (simp_all add: demoRule_def validate_def fw_consts)

end
