(* ===== verification/Priv_Helper.thy ===== *)
theory Priv_Helper
  imports Steps_Catalog Firewall
begin

text \<open>
  The privilege helper (\<^verbatim>\<open>internal/steps/helper.go\<close>, \<^verbatim>\<open>helper_weberrors.go\<close>): the root half of every step,
  run as \<open>rootmote-agent priv <action> <args...>\<close>. The host it touches is a record of functions over a
  world \<open>'w\<close> that extends the firewall's host: commands, signals and sleeping may change the world, every
  other call reads the current one. What an action prints is a list of texts and JSON documents; its
  result is success, an error, or a run-time panic. The standard library's JSON text decoder and X.509
  parser are fields of the host.
\<close>

section \<open>The host (helper.go)\<close>

record UserInfo =
  ui_Name :: string
  ui_UID :: int
  ui_GID :: int
  ui_Home :: string
  ui_Shell :: string

datatype fmode = RegularFile | Directory | Symlink | OtherFile

text \<open>\<open>fi_writable\<close> is \<open>Perm() & 0o022 != 0\<close>.\<close>

record FileInfo =
  fi_Mode :: fmode
  fi_writable :: bool

datatype sig = SIGTERM | SIGKILL

type_synonym handle = nat

text \<open>What an action prints.\<close>

datatype outp = Text string | JSON json

record 'w Host = "'w fwhost" +
  hs_ReadTail :: "'w \<Rightarrow> string \<Rightarrow> int \<Rightarrow> string option"
  hs_Stat :: "'w \<Rightarrow> string \<Rightarrow> FileInfo option"
  hs_Lstat :: "'w \<Rightarrow> string \<Rightarrow> FileInfo option"
  hs_FileUID :: "'w \<Rightarrow> string \<Rightarrow> int option"
  hs_LookupUser :: "'w \<Rightarrow> string \<Rightarrow> UserInfo option"
  hs_Self :: int
  hs_PIDs :: "'w \<Rightarrow> int list"
  hs_ParentPID :: "'w \<Rightarrow> int \<Rightarrow> int"
  hs_Comm :: "'w \<Rightarrow> int \<Rightarrow> string"
  hs_StartTime :: "'w \<Rightarrow> int \<Rightarrow> int option"
  hs_OpenProcess :: "'w \<Rightarrow> int \<Rightarrow> handle option"
  hs_Signal :: "'w \<Rightarrow> handle \<Rightarrow> sig \<Rightarrow> 'w \<times> string option"
  hs_Sleep :: "'w \<Rightarrow> duration \<Rightarrow> 'w"
  hs_Cancelled :: "'w \<Rightarrow> bool"
  hs_Chdir :: "'w \<Rightarrow> string \<Rightarrow> 'w \<times> string option"
  hs_Firewall :: "'w Manager option"
  hs_InHostNS :: "'w \<Rightarrow> bool"
  hs_RunInHostNS :: "'w \<Rightarrow> string list \<Rightarrow> 'w \<times> outp list \<times> string \<times> int"
  hs_decodeJSON :: "string \<Rightarrow> json option"
  hs_certNotAfter :: "string \<Rightarrow> string option"

datatype herr = HOk | HErr gerr | HPanic

type_synonym 'w act = "'w \<times> outp list \<times> herr"

text \<open>Early return on an error of a step that prints nothing.\<close>

definition thenDo :: "'w \<times> (gerr + 'a) \<Rightarrow> ('w \<Rightarrow> 'a \<Rightarrow> 'w act) \<Rightarrow> 'w act" where
  "thenDo r k = (case r of (w, Inl e) \<Rightarrow> (w, [], HErr e) | (w, Inr x) \<Rightarrow> k w x)"

definition require :: "gerr option \<Rightarrow> 'w \<Rightarrow> 'w act \<Rightarrow> 'w act" where
  "require e w k = (case e of Some x \<Rightarrow> (w, [], HErr x) | None \<Rightarrow> k)"

lemma thenDo_simps [simp]:
  "thenDo (w, Inl e) k = (w, [], HErr e)" "thenDo (w, Inr x) k = k w x"
  by (simp_all add: thenDo_def)

lemma require_simps [simp]: "require (Some e) w k = (w, [], HErr e)" "require None w k = k"
  by (simp_all add: require_def)

section \<open>Texts and paths\<close>

definition newlineText :: "string \<Rightarrow> outp" where "newlineText s = Text (s @ [CHR 0x0A])"

definition oneLine :: "string \<Rightarrow> string" where
  "oneLine s =
     (let s = TrimSpace s; s = (if length s > 800 then drop (length s - 800) s else s)
      in Join '' '' (Fields s))"

definition wantArgs :: "string list \<Rightarrow> nat \<Rightarrow> gerr option" where
  "wantArgs args n =
     (if length args \<noteq> n then Some (refuse ''The wrong number of arguments was given.'') else None)"

text \<open>\<open>path.Clean\<close>, \<open>path.Join\<close> and \<open>path.Dir\<close> of the standard library.\<close>

fun cleanParts :: "bool \<Rightarrow> string list \<Rightarrow> string list \<Rightarrow> string list" where
  "cleanParts rooted [] acc = rev acc"
| "cleanParts rooted (e # es) acc =
     (if e = [] \<or> e = ''.'' then cleanParts rooted es acc
      else if e = ''..'' then
        (case acc of [] \<Rightarrow> cleanParts rooted es (if rooted then [] else [''..''])
         | a # as \<Rightarrow> cleanParts rooted es (if a = ''..'' then ''..'' # acc else as))
      else cleanParts rooted es (e # acc))"

definition pathText :: "bool \<Rightarrow> string list \<Rightarrow> string" where
  "pathText rooted parts =
     (if rooted then ''/'' @ Join ''/'' parts else if parts = [] then ''.'' else Join ''/'' parts)"

definition pathClean :: "string \<Rightarrow> string" where
  "pathClean p = (if p = [] then ''.'' else pathText (HasPrefix p ''/'') (cleanParts (HasPrefix p ''/'') (Split (CHR ''/'') p) []))"

definition pathJoin :: "string list \<Rightarrow> string" where
  "pathJoin elems = (case filter (\<lambda>e. e \<noteq> []) elems of [] \<Rightarrow> [] | es \<Rightarrow> pathClean (Join ''/'' es))"

definition pathDir :: "string \<Rightarrow> string" where
  "pathDir p = pathClean (case cutLast (CHR ''/'') p of None \<Rightarrow> [] | Some (d, _) \<Rightarrow> d @ ''/'')"

section \<open>Running commands\<close>

definition run :: "('w, 'z) Host_scheme \<Rightarrow> 'w \<Rightarrow> string list \<Rightarrow> 'w \<times> (gerr + string)" where
  "run h w argv =
     (case fh_run h w argv of
        (w, out, None) \<Rightarrow> (w, Inr out)
      | (w, out, Some err) \<Rightarrow>
          (w, Inl (failure (hd argv @ '' '' @ hd (tl argv) @ '' failed: '' @
             (if TrimSpace out = [] then err else TrimSpace out)))))"

section \<open>Services\<close>

text \<open>The last \<open>Id\<close> and \<open>LoadState\<close> lines of \<open>systemctl show\<close>.\<close>

definition factOf :: "string \<Rightarrow> string list \<Rightarrow> string" where
  "factOf k ls = foldl (\<lambda>acc l. case Cut (TrimSpace l) (CHR ''='') of (a, v, ok) \<Rightarrow> if ok \<and> a = k then v else acc) [] ls"

definition unitFacts :: "('w, 'z) Host_scheme \<Rightarrow> 'w \<Rightarrow> string \<Rightarrow> 'w \<times> (gerr + string \<times> string)" where
  "unitFacts h w unit =
     (case fh_run h w [''systemctl'', ''show'', ''--property=Id,LoadState'', unit] of
        (w, _, Some _) \<Rightarrow> (w, Inl (refuse (''There is no service called '' @ unit @ '' on this server.'')))
      | (w, out, None) \<Rightarrow>
          (w, Inr (factOf ''Id'' (Split (CHR 0x0A) out), factOf ''LoadState'' (Split (CHR 0x0A) out))))"

definition checkUnit :: "('w, 'z) Host_scheme \<Rightarrow> 'w \<Rightarrow> string \<Rightarrow> 'w \<times> gerr option" where
  "checkUnit h w unit =
     (case CheckUnitAllowed unit of Some e \<Rightarrow> (w, Some e)
      | None \<Rightarrow>
         (case unitFacts h w unit of
            (w, Inl e) \<Rightarrow> (w, Some e)
          | (w, Inr (i, load)) \<Rightarrow>
              (w, if load \<noteq> ''loaded'' then Some (refuse (''There is no service called '' @ unit @ '' on this server.''))
                  else if \<not> HasSuffix i ''.service''
                  then Some (refuse (unit @ '' is not a service. Rootmote only changes services.''))
                  else CheckUnitAllowed i)))"

definition serviceAction :: "string \<Rightarrow> ('w, 'z) Host_scheme \<Rightarrow> 'w \<Rightarrow> string list \<Rightarrow> 'w act" where
  "serviceAction verb h w args =
     require (wantArgs args 1) w
       (case checkUnit h w (hd args) of
          (w, Some e) \<Rightarrow> (w, [], HErr e)
        | (w, None) \<Rightarrow>
            thenDo (run h w [''systemctl'', verb, hd args])
              (\<lambda>w _. (w, [newlineText (verb @ '' '' @ hd args @ '' done.'')], HOk)))"

definition phpfpmRestart :: "('w, 'z) Host_scheme \<Rightarrow> 'w \<Rightarrow> string list \<Rightarrow> 'w act" where
  "phpfpmRestart h w args =
     require (wantArgs args 1) w
       (require (ValidatePHPUnit (hd args)) w (serviceAction ''restart'' h w args))"

section \<open>nginx\<close>

definition notInstalled :: "string \<Rightarrow> gerr" where
  "notInstalled what = refuse (what @ '' is not installed on this server.'')"

definition nginxTest :: "('w, 'z) Host_scheme \<Rightarrow> 'w \<Rightarrow> string list \<Rightarrow> 'w act" where
  "nginxTest h w args =
     require (wantArgs args 0) w
       (if fh_look h w ''nginx'' \<noteq> None then (w, [], HErr (notInstalled ''nginx''))
        else (case fh_run h w [''nginx'', ''-t''] of
            (w, o1, Some _) \<Rightarrow> (w, [], HErr (failure (''The nginx settings test failed: '' @ oneLine o1)))
          | (w, _, None) \<Rightarrow> (w, [newlineText ''nginx settings test passed.''], HOk)))"

definition reloadNginx :: "('w, 'z) Host_scheme \<Rightarrow> 'w \<Rightarrow> 'w act" where
  "reloadNginx h w =
     (if fh_look h w ''nginx'' \<noteq> None then (w, [], HErr (notInstalled ''nginx''))
      else (case unitFacts h w ''nginx.service'' of
          (w, Inl _) \<Rightarrow> (w, [], HErr (notInstalled ''nginx''))
        | (w, Inr (i, load)) \<Rightarrow>
            if load \<noteq> ''loaded'' \<or> i = [] then (w, [], HErr (notInstalled ''nginx''))
            else (case fh_run h w [''nginx'', ''-t''] of
                (w, o1, Some _) \<Rightarrow> (w, [], HErr (failure
                   (''The nginx settings test failed, so nginx was not reloaded: '' @ oneLine o1)))
              | (w, _, None) \<Rightarrow>
                  thenDo (run h w [''systemctl'', ''reload'', ''nginx''])
                    (\<lambda>w _. (w, [newlineText ''nginx settings test passed and nginx was reloaded.''], HOk)))))"

definition nginxReload :: "('w, 'z) Host_scheme \<Rightarrow> 'w \<Rightarrow> string list \<Rightarrow> 'w act" where
  "nginxReload h w args = require (wantArgs args 0) w (reloadNginx h w)"

section \<open>Supervisor\<close>

type_synonym supervisorProgram = "string \<times> string"

definition supervisorConfigs :: "string list" where
  "supervisorConfigs = [''/etc/supervisor/supervisord.conf'', ''/etc/supervisord.conf'', ''/etc/supervisord/supervisord.conf'']"

fun supervisorConfigFrom :: "('w, 'z) Host_scheme \<Rightarrow> 'w \<Rightarrow> string list \<Rightarrow> gerr + string" where
  "supervisorConfigFrom h w [] = Inl (refuse ''Rootmote could not find the Supervisor settings file.'')"
| "supervisorConfigFrom h w (c # cs) =
     (case hs_Stat h w c of None \<Rightarrow> supervisorConfigFrom h w cs
      | Some fi \<Rightarrow>
          if fi_Mode fi \<noteq> RegularFile then supervisorConfigFrom h w cs
          else if hs_FileUID h w c \<noteq> Some 0 \<or> fi_writable fi
          then Inl (refuse (''The Supervisor settings file '' @ c @ '' is not owned by root, so Rootmote will not use it.''))
          else Inr c)"

definition supervisorConfig :: "('w, 'z) Host_scheme \<Rightarrow> 'w \<Rightarrow> gerr + string" where
  "supervisorConfig h w = supervisorConfigFrom h w supervisorConfigs"

definition isUpper :: "string \<Rightarrow> bool" where
  "isUpper s \<longleftrightarrow> list_all isUpperC s \<and> s \<noteq> []"

definition supervisorLine :: "string \<Rightarrow> supervisorProgram option" where
  "supervisorLine l =
     (case Fields l of f0 # f1 # _ \<Rightarrow> if isUpper f1 then Some (f0, f1) else None | _ \<Rightarrow> None)"

definition parseSupervisorStatus :: "string \<Rightarrow> supervisorProgram list" where
  "parseSupervisorStatus s = List.map_filter supervisorLine (Split (CHR 0x0A) s)"

definition supervisorPrograms :: "('w, 'z) Host_scheme \<Rightarrow> 'w \<Rightarrow> 'w \<times> (gerr + supervisorProgram list)" where
  "supervisorPrograms h w =
     (if fh_look h w ''supervisorctl'' \<noteq> None then (w, Inl (notInstalled ''Supervisor''))
      else (case supervisorConfig h w of Inl e \<Rightarrow> (w, Inl e)
        | Inr conf \<Rightarrow>
            (case fh_run h w [''supervisorctl'', ''-c'', conf, ''status''] of (w, out, _) \<Rightarrow>
               (let list = parseSupervisorStatus out; low = ToLower out in
                if list = [] \<and> TrimSpace out \<noteq> [] \<and> \<not> Contains out ''no such'' \<and>
                   (Contains low ''refused'' \<or> Contains low ''error'' \<or> Contains low ''no such file'')
                then (w, Inl (failure (''Could not talk to Supervisor: '' @ oneLine out)))
                else (w, Inr list)))))"

definition programJson :: "supervisorProgram \<Rightarrow> json" where
  "programJson p = JObj [(''name'', JStr (fst p)), (''state'', JStr (snd p))]"

definition supervisorStatus :: "('w, 'z) Host_scheme \<Rightarrow> 'w \<Rightarrow> string list \<Rightarrow> 'w act" where
  "supervisorStatus h w args =
     require (wantArgs args 0) w
       (thenDo (supervisorPrograms h w) (\<lambda>w list. (w, [JSON (JArr (map programJson list))], HOk)))"

definition MatchSupervisor :: "supervisorProgram list \<Rightarrow> string \<Rightarrow> supervisorProgram list" where
  "MatchSupervisor list program = filter (\<lambda>s. fst s = program \<or> HasPrefix (fst s) (program @ '':'')) list"

definition supervisorRestart :: "('w, 'z) Host_scheme \<Rightarrow> 'w \<Rightarrow> string list \<Rightarrow> 'w act" where
  "supervisorRestart h w args =
     require (wantArgs args 1) w
       (require (ValidateName ''program'' (hd args)) w
         (thenDo (supervisorPrograms h w) (\<lambda>w list.
            if MatchSupervisor list (hd args) = []
            then (w, [], HErr (refuse (''There is no Supervisor program called '' @ hd args @ ''.'')))
            else thenDo (w, supervisorConfig h w) (\<lambda>w conf.
              thenDo (run h w [''supervisorctl'', ''-c'', conf, ''restart'', hd args]) (\<lambda>w out.
                (w, [Text out], HOk))))))"

section \<open>Disk\<close>

definition journalVacuum :: "('w, 'z) Host_scheme \<Rightarrow> 'w \<Rightarrow> string list \<Rightarrow> 'w act" where
  "journalVacuum h w args =
     require (wantArgs args 1) w
       (if hd args \<notin> set journalSizes then (w, [], HErr (refuse ''The size must be 100M, 200M or 500M.''))
        else thenDo (run h w [''journalctl'', ''--vacuum-size='' @ hd args]) (\<lambda>w out. (w, [Text out], HOk)))"

definition aptClean :: "('w, 'z) Host_scheme \<Rightarrow> 'w \<Rightarrow> string list \<Rightarrow> 'w act" where
  "aptClean h w args =
     require (wantArgs args 0) w
       (if fh_look h w ''apt-get'' \<noteq> None then (w, [], HErr (refuse ''This server does not use apt.''))
        else thenDo (run h w [''apt-get'', ''clean''])
               (\<lambda>w _. (w, [newlineText ''The package cache was cleared.''], HOk)))"

section \<open>Certificates\<close>

definition LetsEncryptLive :: string where "LetsEncryptLive = ''/etc/letsencrypt/live''"
definition LetsEncryptRenewal :: string where "LetsEncryptRenewal = ''/etc/letsencrypt/renewal''"

definition certbotArgv :: "string \<Rightarrow> bool \<Rightarrow> string list" where
  "certbotArgv name dry = [''certbot'', ''renew'', ''--cert-name'', name] @ (if dry then [''--dry-run''] else [])"

text \<open>After a successful renewal nginx is reloaded when it is a loaded unit.\<close>

definition reloadAfterRenew :: "('w, 'z) Host_scheme \<Rightarrow> 'w \<Rightarrow> outp list \<Rightarrow> 'w act" where
  "reloadAfterRenew h w printed =
     (case unitFacts h w ''nginx.service'' of
        (w, Inl _) \<Rightarrow> (w, printed, HOk)
      | (w, Inr (_, load)) \<Rightarrow>
          if load = ''loaded'' then (case reloadNginx h w of (w, out, e) \<Rightarrow> (w, printed @ out, e))
          else (w, printed, HOk))"

definition renewCert :: "('w, 'z) Host_scheme \<Rightarrow> 'w \<Rightarrow> string \<Rightarrow> bool \<Rightarrow> 'w act" where
  "renewCert h w name dry =
     require (ValidateCertName name) w
      (if map_option fi_Mode (hs_Lstat h w (pathJoin [LetsEncryptLive, name])) \<noteq> Some Directory
       then (w, [], HErr (refuse (''There is no certificate called '' @ name @ '' on this server.'')))
       else if hs_Stat h w (pathJoin [LetsEncryptRenewal, name @ ''.conf'']) = None
       then (w, [], HErr (refuse (''The certificate '' @ name @
              '' has no renewal settings, so certbot cannot renew it. It was probably not issued by certbot.'')))
       else if fh_look h w ''certbot'' \<noteq> None then (w, [], HErr (notInstalled ''certbot''))
       else (case fh_run h w (certbotArgv name dry) of
           (w, out, Some _) \<Rightarrow> (w, [], HErr (failure (''certbot failed: '' @ oneLine out)))
         | (w, out, None) \<Rightarrow>
             if dry then (w, [newlineText (oneLine out)], HOk)
             else reloadAfterRenew h w [newlineText (oneLine out)]))"

definition certRenew :: "('w, 'z) Host_scheme \<Rightarrow> 'w \<Rightarrow> string list \<Rightarrow> 'w act" where
  "certRenew h w args =
     (case args of
        [name] \<Rightarrow> renewCert h w name False
      | [name, flag] \<Rightarrow>
          if flag = ''--dry-run'' then renewCert h w name True
          else (w, [], HErr (refuse ''The wrong number of arguments was given.''))
      | _ \<Rightarrow> (w, [], HErr (refuse ''The wrong number of arguments was given.'')))"

definition certEntries :: "('w, 'z) Host_scheme \<Rightarrow> 'w \<Rightarrow> (string \<times> string) list" where
  "certEntries h w =
     (case fh_ReadDir h w LetsEncryptLive of None \<Rightarrow> []
      | Some entries \<Rightarrow>
          List.map_filter (\<lambda>(name, dir).
            if \<not> dir \<or> ValidateCertName name \<noteq> None then None
            else (case fh_ReadFile h w (pathJoin [LetsEncryptLive, name, ''fullchain.pem'']) of None \<Rightarrow> None
              | Some raw \<Rightarrow> map_option (\<lambda>t. (name, t)) (hs_certNotAfter h raw))) entries)"

definition certsList :: "('w, 'z) Host_scheme \<Rightarrow> 'w \<Rightarrow> string list \<Rightarrow> 'w act" where
  "certsList h w args =
     require (wantArgs args 0) w
       (w, [JSON (JArr (map (\<lambda>(n, t). JObj [(''name'', JStr n), (''expiresAt'', JStr t)])
                   (sort_key fst (certEntries h w))))], HOk)"

section \<open>PM2\<close>

definition pm2User :: "('w, 'z) Host_scheme \<Rightarrow> 'w \<Rightarrow> string \<Rightarrow> gerr + UserInfo" where
  "pm2User h w name =
     guard (ValidateUser name)
      (case hs_LookupUser h w name of
         None \<Rightarrow> Inl (refuse (''There is no user called '' @ name @ ''.''))
       | Some u \<Rightarrow>
           if ui_UID u = 0 \<or> \<not> HasPrefix (ui_Home u) ''/'' then Inl (refuse ''PM2 steps do not run as root.'')
           else if HasSuffix (ui_Shell u) ''nologin'' \<or> HasSuffix (ui_Shell u) ''false''
           then Inl (refuse (name @ '' is not a login user.''))
           else Inr u)"

definition pm2Home :: "('w, 'z) Host_scheme \<Rightarrow> 'w \<Rightarrow> UserInfo \<Rightarrow> string \<times> bool" where
  "pm2Home h w u =
     (let home = pathJoin [ui_Home u, ''.pm2''] in
      (home, map_option fi_Mode (hs_Stat h w home) = Some Directory \<and> hs_FileUID h w home = Some (ui_UID u)))"

definition pm2Candidates :: "('w, 'z) Host_scheme \<Rightarrow> 'w \<Rightarrow> UserInfo \<Rightarrow> string list" where
  "pm2Candidates h w u =
     [''/usr/local/bin/pm2'', ''/usr/bin/pm2'', pathJoin [ui_Home u, ''.local/bin/pm2''],
      pathJoin [ui_Home u, ''.npm-global/bin/pm2''], pathJoin [ui_Home u, ''.volta/bin/pm2''],
      pathJoin [ui_Home u, ''.yarn/bin/pm2'']] @
     (case fh_ReadDir h w (pathJoin [ui_Home u, ''.nvm/versions/node'']) of None \<Rightarrow> []
      | Some vs \<Rightarrow> map (\<lambda>n. pathJoin [ui_Home u, ''.nvm/versions/node'', n, ''bin/pm2''])
          (rev (sort (map fst vs))))"

definition findPM2 :: "('w, 'z) Host_scheme \<Rightarrow> 'w \<Rightarrow> UserInfo \<Rightarrow> gerr + string" where
  "findPM2 h w u =
     (case find (\<lambda>c. case hs_Stat h w c of None \<Rightarrow> False | Some fi \<Rightarrow> fi_Mode fi \<noteq> Directory) (pm2Candidates h w u) of
        None \<Rightarrow> Inl (refuse (''PM2 is not installed for user '' @ ui_Name u @ ''.''))
      | Some c \<Rightarrow> Inr c)"

definition PM2Argv :: "UserInfo \<Rightarrow> string \<Rightarrow> string list \<Rightarrow> string list" where
  "PM2Argv u pm2 args =
     [''setpriv'', ''--reuid='' @ Itoa (ui_UID u), ''--regid='' @ Itoa (ui_GID u), ''--init-groups'', ''--'',
      ''/usr/bin/env'', ''HOME='' @ ui_Home u, ''USER='' @ ui_Name u, ''LOGNAME='' @ ui_Name u,
      ''PATH='' @ pathDir pm2 @ '':/usr/local/bin:/usr/bin:/bin'', pm2] @ args"

text \<open>An app: name, status, restarts. Members are matched to fields ignoring case; \<open>null\<close> leaves a field alone.\<close>

type_synonym pm2App = "string \<times> string \<times> int"

definition isField :: "string \<Rightarrow> string \<Rightarrow> bool" where "isField k f \<longleftrightarrow> ToLower k = f"

fun decodeEnv :: "(string \<times> json) list \<Rightarrow> pm2App \<Rightarrow> pm2App option" where
  "decodeEnv [] app = Some app"
| "decodeEnv ((k, v) # ms) (n, st, r) =
     (if isField k ''status'' then
        (case v of JStr s \<Rightarrow> decodeEnv ms (n, s, r) | JNull \<Rightarrow> decodeEnv ms (n, st, r) | _ \<Rightarrow> None)
      else if isField k ''restart_time'' then
        (case v of
           JNum q \<Rightarrow> if of_int \<lfloor>q\<rfloor> = q \<and> - (2 ^ 63) \<le> \<lfloor>q\<rfloor> \<and> \<lfloor>q\<rfloor> < 2 ^ 63 then decodeEnv ms (n, st, \<lfloor>q\<rfloor>) else None
         | JNull \<Rightarrow> decodeEnv ms (n, st, r) | _ \<Rightarrow> None)
      else decodeEnv ms (n, st, r))"

fun decodeMembers :: "(string \<times> json) list \<Rightarrow> pm2App \<Rightarrow> pm2App option" where
  "decodeMembers [] app = Some app"
| "decodeMembers ((k, v) # ms) (n, st, r) =
     (if isField k ''name'' then
        (case v of JStr s \<Rightarrow> decodeMembers ms (s, st, r) | JNull \<Rightarrow> decodeMembers ms (n, st, r) | _ \<Rightarrow> None)
      else if isField k ''pm2_env'' then
        (case v of
           JObj es \<Rightarrow> (case decodeEnv es (n, st, r) of None \<Rightarrow> None | Some app \<Rightarrow> decodeMembers ms app)
         | JNull \<Rightarrow> decodeMembers ms (n, st, r) | _ \<Rightarrow> None)
      else decodeMembers ms (n, st, r))"

definition decodeApp :: "json \<Rightarrow> pm2App option" where
  "decodeApp j = (case j of JObj ms \<Rightarrow> decodeMembers ms ([], [], 0) | JNull \<Rightarrow> Some ([], [], 0) | _ \<Rightarrow> None)"

fun decodeApps :: "json list \<Rightarrow> pm2App list option" where
  "decodeApps [] = Some []"
| "decodeApps (j # js) =
     (case decodeApp j of None \<Rightarrow> None
      | Some a \<Rightarrow> (case decodeApps js of None \<Rightarrow> None | Some as \<Rightarrow> Some (a # as)))"

definition decodeList :: "json option \<Rightarrow> pm2App list option" where
  "decodeList j = (case j of Some (JArr js) \<Rightarrow> decodeApps js | _ \<Rightarrow> None)"

fun parsePM2JList :: "(string \<Rightarrow> json option) \<Rightarrow> string \<Rightarrow> gerr + pm2App list" where
  "parsePM2JList dec [] = Inl (failure ''Could not read the PM2 app list.'')"
| "parsePM2JList dec (c # cs) =
     (if c \<noteq> CHR ''['' then parsePM2JList dec cs
      else case decodeList (dec (c # cs)) of None \<Rightarrow> parsePM2JList dec cs | Some apps \<Rightarrow> Inr apps)"

definition pm2Apps :: "('w, 'z) Host_scheme \<Rightarrow> 'w \<Rightarrow> UserInfo \<Rightarrow> 'w \<times> (gerr + pm2App list)" where
  "pm2Apps h w u =
     (case findPM2 h w u of Inl e \<Rightarrow> (w, Inl e)
      | Inr pm2 \<Rightarrow>
          (case fh_run h w (PM2Argv u pm2 [''jlist'']) of
             (w, out, Some _) \<Rightarrow> (w, Inl (failure (''pm2 jlist failed: '' @ oneLine out)))
           | (w, out, None) \<Rightarrow> (w, parsePM2JList (hs_decodeJSON h) out)))"

definition appJson :: "pm2App \<Rightarrow> json" where
  "appJson a = JObj [(''app'', JStr (fst a)), (''status'', JStr (fst (snd a))), (''restarts'', JNum (of_int (snd (snd a))))]"

definition pm2ListAction :: "('w, 'z) Host_scheme \<Rightarrow> 'w \<Rightarrow> string list \<Rightarrow> 'w act" where
  "pm2ListAction h w args =
     require (wantArgs args 1) w
      (thenDo (w, pm2User h w (hd args)) (\<lambda>w u.
         if \<not> snd (pm2Home h w u) then (w, [newlineText ''[]''], HOk)
         else thenDo (pm2Apps h w u) (\<lambda>w apps. (w, [JSON (JArr (map appJson apps))], HOk))))"

definition restartApp :: "('w, 'z) Host_scheme \<Rightarrow> 'w \<Rightarrow> UserInfo \<Rightarrow> string \<Rightarrow> 'w act" where
  "restartApp h w u app =
     thenDo (w, findPM2 h w u) (\<lambda>w pm2.
       (case fh_run h w (PM2Argv u pm2 [''restart'', app]) of
          (w, out, Some _) \<Rightarrow> (w, [], HErr (failure (''pm2 restart failed: '' @ oneLine out)))
        | (w, _, None) \<Rightarrow> (w, [newlineText (''Restarted '' @ app @ ''.'')], HOk)))"

definition restartListed :: "('w, 'z) Host_scheme \<Rightarrow> 'w \<Rightarrow> UserInfo \<Rightarrow> string \<Rightarrow> 'w act" where
  "restartListed h w u app =
     thenDo (pm2Apps h w u) (\<lambda>w apps.
       if app \<notin> fst ` set apps
       then (w, [], HErr (refuse (''There is no PM2 app called '' @ app @ '' for user '' @ ui_Name u @ ''.'')))
       else restartApp h w u app)"

definition pm2Restart :: "('w, 'z) Host_scheme \<Rightarrow> 'w \<Rightarrow> string list \<Rightarrow> 'w act" where
  "pm2Restart h w args =
     require (wantArgs args 2) w
      (thenDo (w, pm2User h w (hd args)) (\<lambda>w u.
         require (ValidateName ''app'' (hd (tl args))) w
          (if \<not> snd (pm2Home h w u) then (w, [], HErr (refuse (''User '' @ ui_Name u @ '' has no PM2 apps.'')))
           else restartListed h w u (hd (tl args)))))"

section \<open>Processes\<close>

definition protectedComms :: "(string \<times> string) list" where
  "protectedComms = [(''sshd'', ''the SSH daemon''), (''sshd-session'', ''an SSH session''),
     (''rootmote-agent'', ''the Rootmote agent''), (''dockerd'', ''the Docker daemon''),
     (''containerd'', ''the container runtime''), (''dbus-daemon'', ''the system message bus''),
     (''systemd'', ''the init system'')]"

text \<open>
  The walk over the helper's ancestors, at most 64 of them: \<open>None\<close> when it meets \<open>pid\<close>, otherwise the
  topmost ancestor named rootmote-agent (0: none).
\<close>

fun ancestorWalk :: "nat \<Rightarrow> ('w, 'z) Host_scheme \<Rightarrow> 'w \<Rightarrow> int \<Rightarrow> int \<Rightarrow> int \<Rightarrow> int option" where
  "ancestorWalk 0 h w pid p agentRoot = Some agentRoot"
| "ancestorWalk (Suc n) h w pid p agentRoot =
     (if p \<le> 1 then Some agentRoot
      else if p = pid then None
      else ancestorWalk n h w pid (hs_ParentPID h w p) (if hs_Comm h w p = ''rootmote-agent'' then p else agentRoot))"

definition childrenOf :: "('w, 'z) Host_scheme \<Rightarrow> 'w \<Rightarrow> int \<Rightarrow> int list" where
  "childrenOf h w p = filter (\<lambda>c. hs_ParentPID h w c = p) (hs_PIDs h w)"

text \<open>The queue search below the agent: \<open>None\<close> would be a search that does not end.\<close>

partial_function (option) searchTree :: "(int \<Rightarrow> int list) \<Rightarrow> int \<Rightarrow> int list \<Rightarrow> bool option" where
  [code]: "searchTree children pid queue =
     (case queue of [] \<Rightarrow> Some False
      | cur # rest \<Rightarrow> if cur = pid then Some True else searchTree children pid (rest @ children cur))"

text \<open>Why a process may not be stopped, the empty text when it may; \<open>None\<close>: the search does not end.\<close>

definition protectedPID :: "('w, 'z) Host_scheme \<Rightarrow> 'w \<Rightarrow> int \<Rightarrow> string option" where
  "protectedPID h w pid =
     (if pid \<le> 1 \<or> pid = hs_Self h then Some ''that process''
      else if pid = 2 \<or> hs_ParentPID h w pid = 2 then Some ''a kernel thread''
      else case map_of protectedComms (hs_Comm h w pid) of
          Some why \<Rightarrow> Some why
        | None \<Rightarrow>
            if HasPrefix (hs_Comm h w pid) ''systemd-'' then Some ''a core system service''
            else if HasPrefix (hs_Comm h w pid) ''sshd'' then Some ''the SSH daemon''
            else (case ancestorWalk 64 h w pid (hs_Self h) 0 of
                None \<Rightarrow> Some ''part of the Rootmote agent''
              | Some agentRoot \<Rightarrow>
                  if agentRoot = 0 then Some []
                  else map_option (\<lambda>found. if found then ''part of the Rootmote agent'' else [])
                         (searchTree (childrenOf h w) pid [agentRoot])))"

definition gone :: "('w, 'z) Host_scheme \<Rightarrow> 'w \<Rightarrow> int \<Rightarrow> int \<Rightarrow> bool" where
  "gone h w pid start \<longleftrightarrow> hs_StartTime h w pid \<noteq> Some start"

definition pollInterval :: duration where "pollInterval = 250000000"

text \<open>\<open>wait(total)\<close>: \<open>n\<close> polls of 250 ms, then a last look; a cancelled context ends it early.\<close>

fun waitGone :: "nat \<Rightarrow> ('w, 'z) Host_scheme \<Rightarrow> 'w \<Rightarrow> int \<Rightarrow> int \<Rightarrow> 'w \<times> bool" where
  "waitGone 0 h w pid start = (w, gone h w pid start)"
| "waitGone (Suc n) h w pid start =
     (if gone h w pid start then (w, True)
      else let w = hs_Sleep h w pollInterval in
        if hs_Cancelled h w then (w, gone h w pid start) else waitGone n h w pid start)"

definition processText :: "int \<Rightarrow> string \<Rightarrow> string" where
  "processText pid s = ''Process '' @ Itoa pid @ '' '' @ s"

definition afterForce :: "('w, 'z) Host_scheme \<Rightarrow> 'w \<Rightarrow> int \<Rightarrow> int \<Rightarrow> 'w act" where
  "afterForce h w pid start =
     (case waitGone 12 h w pid start of (w, ended) \<Rightarrow>
        if ended then (w, [newlineText (processText pid ''was forced to end.'')], HOk)
        else (w, [], HErr (failure (processText pid ''is still running after it was forced to end.''))))"

definition forceStop :: "('w, 'z) Host_scheme \<Rightarrow> 'w \<Rightarrow> handle \<Rightarrow> int \<Rightarrow> int \<Rightarrow> 'w act" where
  "forceStop h w proc pid start =
     (if gone h w pid start then afterForce h w pid start
      else (case hs_Signal h w proc SIGKILL of (w, err) \<Rightarrow>
          if err \<noteq> None \<and> \<not> gone h w pid start
          then (w, [], HErr (failure (''Could not force process '' @ Itoa pid @ '' to end: '' @ the err)))
          else afterForce h w pid start))"

definition politeStop :: "('w, 'z) Host_scheme \<Rightarrow> 'w \<Rightarrow> handle \<Rightarrow> int \<Rightarrow> int \<Rightarrow> 'w act" where
  "politeStop h w proc pid start =
     (case hs_Signal h w proc SIGTERM of (w, err) \<Rightarrow>
        if err \<noteq> None \<and> \<not> gone h w pid start
        then (w, [], HErr (failure (''Could not stop process '' @ Itoa pid @ '': '' @ the err)))
        else (case waitGone 40 h w pid start of (w, ended) \<Rightarrow>
            if ended then (w, [newlineText (processText pid ''stopped.'')], HOk)
            else forceStop h w proc pid start))"

text \<open>\<open>None\<close>: the helper hangs in the search below the agent.\<close>

definition stopPinned :: "('w, 'z) Host_scheme \<Rightarrow> 'w \<Rightarrow> int \<Rightarrow> int \<Rightarrow> 'w act option" where
  "stopPinned h w pid start =
     (case hs_OpenProcess h w pid of
        None \<Rightarrow> Some (w, [], HErr (refuse (processText pid ''is not running.'')))
      | Some proc \<Rightarrow>
          (case hs_StartTime h w pid of
             None \<Rightarrow> Some (w, [], HErr (refuse (processText pid ''is not running.'')))
           | Some ticks \<Rightarrow>
               if ticks \<noteq> start
               then Some (w, [], HErr (refuse (processText pid ''is no longer the same program, so it was not stopped.'')))
               else (case protectedPID h w pid of
                   None \<Rightarrow> None
                 | Some why \<Rightarrow>
                     if why \<noteq> []
                     then Some (w, [], HErr (refuse (processText pid (''is '' @ why @ ''. Rootmote will not stop it.''))))
                     else Some (politeStop h w proc pid start))))"

definition processStop :: "('w, 'z) Host_scheme \<Rightarrow> 'w \<Rightarrow> string list \<Rightarrow> 'w act option" where
  "processStop h w args =
     (case wantArgs args 2 of Some e \<Rightarrow> Some (w, [], HErr e)
      | None \<Rightarrow>
         (case ParsePID (hd args) of Inl e \<Rightarrow> Some (w, [], HErr e)
          | Inr pid \<Rightarrow>
             (case ParseStartTime (hd (tl args)) of Inl e \<Rightarrow> Some (w, [], HErr e)
              | Inr start \<Rightarrow> stopPinned h w pid start)))"

section \<open>Firewall\<close>

definition mapFirewallErr :: "ferr \<Rightarrow> herr" where
  "mapFirewallErr e =
     (case e of
        AntiLockoutError _ _ _ \<Rightarrow> HErr (refuse ''That port is used for SSH. Rootmote will not close it, because you could lose access to this server.'')
      | ErrReadOnly _ \<Rightarrow> HErr (refuse ''No firewall (ufw or firewalld) is active on this server.'')
      | ErrUnsupportedAction \<Rightarrow> HErr (refuse ''That firewall change is not allowed.'')
      | FErr m \<Rightarrow> HErr (failure m)
      | FPanic \<Rightarrow> HPanic)"

definition changePort :: "bool \<Rightarrow> ('w, 'z) Host_scheme \<Rightarrow> 'w \<Rightarrow> int \<Rightarrow> string \<Rightarrow> 'w act" where
  "changePort allow h w port proto =
     (case hs_Firewall h of
        None \<Rightarrow> (w, [], HErr (refuse ''No firewall (ufw or firewalld) is available on this server.''))
      | Some m \<Rightarrow>
          (case (if allow then RuleAdd m else RuleRemove m) w
              \<lparr>fr_Action = ActionAllow, fr_Protocol = proto, fr_Port = port, fr_Source = [], fr_Comment = []\<rparr> of
             (w, Some e) \<Rightarrow> (w, [], mapFirewallErr e)
           | (w, None) \<Rightarrow>
               (w, [newlineText (''Port '' @ Itoa port @ ''/'' @ proto @
                     (if allow then '' is now open.'' else '' is now closed.''))], HOk)))"

definition firewallChange :: "bool \<Rightarrow> ('w, 'z) Host_scheme \<Rightarrow> 'w \<Rightarrow> string list \<Rightarrow> 'w act" where
  "firewallChange allow h w args =
     require (wantArgs args 2) w
      (case ParseInt 32 (hd args) of
         None \<Rightarrow> (w, [], HErr (refuse ''The port must be between 1 and 65535.''))
       | Some port \<Rightarrow>
           if \<not> digitRe (hd args) then (w, [], HErr (refuse ''The port must be between 1 and 65535.''))
           else require (ValidatePort port) w
             (require (ValidateProto (hd (tl args))) w (changePort allow h w port (hd (tl args)))))"

definition allowedPorts :: "Rule list \<Rightarrow> (int \<times> string) list" where
  "allowedPorts rules =
     concat (map (\<lambda>r. if fr_Protocol r = ProtoTCP \<or> fr_Protocol r = ProtoUDP then [(fr_Port r, fr_Protocol r)]
                      else [(fr_Port r, ''tcp''), (fr_Port r, ''udp'')])
       (filter (\<lambda>r. fr_Action r = ActionAllow) rules))"

definition firewallRules :: "('w, 'z) Host_scheme \<Rightarrow> 'w \<Rightarrow> string list \<Rightarrow> 'w act" where
  "firewallRules h w args =
     require (wantArgs args 0) w
      (case hs_Firewall h of
         None \<Rightarrow> (w, [], HErr (refuse ''No firewall (ufw or firewalld) is available on this server.''))
       | Some m \<Rightarrow>
           (case Status m w of
              (w, Inl (FErr e)) \<Rightarrow> (w, [], HErr (failure e))
            | (w, Inl _) \<Rightarrow> (w, [], HPanic)
            | (w, Inr st) \<Rightarrow>
                if \<not> st_Available st
                then (w, [], HErr (refuse ''No firewall (ufw or firewalld) is active on this server.''))
                else (w, [JSON (JArr (map (\<lambda>(p, t). JObj [(''port'', JNum (of_int p)), (''proto'', JStr t)])
                        (allowedPorts (st_Rules st))))], HOk)))"

section \<open>Web server error logs (helper\_weberrors.go)\<close>

definition webErrorLines :: nat where "webErrorLines = 200"
definition webErrorBytes :: int where "webErrorBytes = 64 * 1024"
definition webLogRoot :: string where "webLogRoot = ''/var/log''"

definition webLogDefaults :: "string list" where
  "webLogDefaults = [''/var/log/nginx/error.log'', ''/var/log/apache2/error.log'', ''/var/log/httpd/error_log'']"

definition webMainConfigs :: "string list" where
  "webMainConfigs = [''/etc/nginx/nginx.conf'', ''/etc/apache2/apache2.conf'', ''/etc/httpd/conf/httpd.conf'']"

text \<open>
  The two directive patterns: at a line start, white space, the keyword, white space, then a quoted text or
  a word. \<open>reSpace\<close> is the pattern class of white space; \<open>stop\<close> is the class that ends an unquoted word.
\<close>

definition reSpace :: "char \<Rightarrow> bool" where
  "reSpace c \<longleftrightarrow> c \<in> {CHR 0x09, CHR 0x0A, CHR 0x0C, CHR 0x0D, CHR '' ''}"

definition quoted :: "char \<Rightarrow> string \<Rightarrow> (string \<times> string) option" where
  "quoted q s =
     (case s of [] \<Rightarrow> None
      | c # cs \<Rightarrow>
          (let body = takeWhile (\<lambda>c. c \<noteq> q) cs; rest = dropWhile (\<lambda>c. c \<noteq> q) cs in
           if c = q \<and> body \<noteq> [] \<and> rest \<noteq> [] then Some (q # body @ [q], tl rest) else None))"

definition unquoted :: "(char \<Rightarrow> bool) \<Rightarrow> string \<Rightarrow> (string \<times> string) option" where
  "unquoted stop s = (if takeWhile (\<lambda>c. \<not> stop c) s = [] then None
     else Some (takeWhile (\<lambda>c. \<not> stop c) s, dropWhile (\<lambda>c. \<not> stop c) s))"

definition capture :: "(char \<Rightarrow> bool) \<Rightarrow> string \<Rightarrow> (string \<times> string) option" where
  "capture stop s =
     (let t = dropWhile reSpace s in
      if t = s then None
      else case quoted (CHR 0x22) t of Some r \<Rightarrow> Some r
        | None \<Rightarrow> (case quoted (CHR 0x27) t of Some r \<Rightarrow> Some r | None \<Rightarrow> unquoted stop t))"

lemma quoted_shorter: "quoted q s = Some (tok, rest) \<Longrightarrow> length rest < length s"
proof (cases s)
  case (Cons c cs)
  have "length (dropWhile (\<lambda>c. c \<noteq> q) cs) \<le> length cs" by (rule length_dropWhile_le)
  moreover assume "quoted q s = Some (tok, rest)"
  ultimately show ?thesis by (auto simp: Cons quoted_def Let_def split: if_splits)
qed (simp add: quoted_def)

lemma capture_shorter: "capture stop s = Some (tok, rest) \<Longrightarrow> length rest < length s"
proof -
  assume c: "capture stop s = Some (tok, rest)"
  let ?t = "dropWhile reSpace s"
  from c have n: "?t \<noteq> s" by (auto simp: capture_def Let_def split: if_splits)
  have "length ?t \<le> length s" by (rule length_dropWhile_le)
  moreover have "length ?t \<noteq> length s"
    using n suffix_dropWhile [of reSpace s] by (metis suffix_length_less less_irrefl suffix_order.less_le)
  moreover from c n have "length rest \<le> length ?t"
    by (auto simp: capture_def Let_def unquoted_def length_dropWhile_le dest: quoted_shorter split: option.splits if_splits)
  ultimately show ?thesis by linarith
qed

function findDirective :: "(string \<Rightarrow> bool) \<Rightarrow> nat \<Rightarrow> (char \<Rightarrow> bool) \<Rightarrow> bool \<Rightarrow> string \<Rightarrow> string list" where
  "findDirective isKey n stop bol [] = []"
| "findDirective isKey n stop bol (c # cs) =
     (case (if bol \<and> isKey (take n (c # cs)) then capture stop (drop n (c # cs)) else None) of
        Some (tok, rest) \<Rightarrow> tok # findDirective isKey n stop False rest
      | None \<Rightarrow> findDirective isKey n stop (c = CHR 0x0A \<or> bol \<and> reSpace c) cs)"
  by pat_completeness auto
termination
proof (relation "measure (\<lambda>(_, _, _, _, s). length s)", goal_cases)
  case (3 isKey n stop bol c cs x tok rest)
  then have "capture stop (drop n (c # cs)) = Some (tok, rest)" by (auto split: if_splits)
  then have "length rest < length (drop n (c # cs))" by (rule capture_shorter)
  then show ?case by simp
qed auto

definition nginxErrorLog :: "string \<Rightarrow> string list" where
  "nginxErrorLog raw = findDirective (\<lambda>k. k = ''error_log'') 9 (\<lambda>c. reSpace c \<or> c = CHR '';'') True raw"

definition apacheErrorLog :: "string \<Rightarrow> string list" where
  "apacheErrorLog raw = findDirective (\<lambda>k. ToLower k = ''errorlog'') 8 reSpace True raw"

definition trimQuotes :: "string \<Rightarrow> string" where
  "trimQuotes s = (let q = (\<lambda>c. c = CHR 0x22 \<or> c = CHR 0x27) in rev (dropWhile q (rev (dropWhile q s))))"

function ReplaceAll :: "string \<Rightarrow> string \<Rightarrow> string \<Rightarrow> string" where
  "ReplaceAll s old new =
     (if s = [] \<or> old = [] then s
      else if prefix old s then new @ ReplaceAll (drop (length old) s) old new
      else hd s # ReplaceAll (tl s) old new)"
  by pat_completeness auto
termination
  by (relation "measure (\<lambda>(s, _, _). length s)") (auto simp: neq_Nil_conv)

declare ReplaceAll.simps [simp del]

definition addLogPath :: "string list \<Rightarrow> string \<Rightarrow> string list" where
  "addLogPath paths p =
     (let p = pathClean p in
      if p \<notin> set paths \<and> HasPrefix p (webLogRoot @ ''/'') then paths @ [p] else paths)"

definition webLogPaths :: "('w, 'z) Host_scheme \<Rightarrow> 'w \<Rightarrow> string list" where
  "webLogPaths h w =
     foldl addLogPath []
      (filter (\<lambda>p. HasPrefix p ''/'')
         (map (\<lambda>m. ReplaceAll (trimQuotes m) ''${APACHE_LOG_DIR}'' ''/var/log/apache2'')
           (concat (map (\<lambda>conf. case fh_ReadFile h w conf of None \<Rightarrow> []
              | Some raw \<Rightarrow> nginxErrorLog raw @ apacheErrorLog raw) webMainConfigs))) @
       webLogDefaults)"

fun plainFrom :: "('w, 'z) Host_scheme \<Rightarrow> 'w \<Rightarrow> string \<Rightarrow> string list \<Rightarrow> bool" where
  "plainFrom h w cur [] = False"
| "plainFrom h w cur (part # parts) =
     (case hs_Lstat h w (cur @ ''/'' @ part) of None \<Rightarrow> False
      | Some fi \<Rightarrow>
          if fi_Mode fi = Symlink then False
          else if parts = [] then fi_Mode fi = RegularFile
          else if fi_Mode fi \<noteq> Directory then False
          else plainFrom h w (cur @ ''/'' @ part) parts)"

definition plainLogPath :: "('w, 'z) Host_scheme \<Rightarrow> 'w \<Rightarrow> string \<Rightarrow> bool" where
  "plainLogPath h w p = plainFrom h w webLogRoot (Split (CHR ''/'') (TrimPrefix p (webLogRoot @ ''/'')))"

definition trimNewlines :: "string \<Rightarrow> string" where
  "trimNewlines s = rev (dropWhile (\<lambda>c. c = CHR 0x0A) (rev s))"

definition lastLines :: "string \<Rightarrow> nat \<Rightarrow> string" where
  "lastLines s n =
     (let ls = Split (CHR 0x0A) (trimNewlines s) in
      Join [CHR 0x0A] (if length ls > n then drop (length ls - n) ls else ls))"

text \<open>The first line of a block that was cut by the byte limit is dropped.\<close>

definition dropCutLine :: "int \<Rightarrow> string \<Rightarrow> string" where
  "dropCutLine budget data =
     (if int (length data) \<ge> budget \<and> CHR 0x0A \<in> set data
      then tl (dropWhile (\<lambda>c. c \<noteq> CHR 0x0A) data) else data)"

fun collectLogs :: "('w, 'z) Host_scheme \<Rightarrow> 'w \<Rightarrow> int \<Rightarrow> string list \<Rightarrow> (string \<times> string) list" where
  "collectLogs h w budget [] = []"
| "collectLogs h w budget (p # ps) =
     (if budget \<le> 0 then []
      else if \<not> plainLogPath h w p then collectLogs h w budget ps
      else case hs_ReadTail h w p budget of None \<Rightarrow> collectLogs h w budget ps
        | Some data \<Rightarrow>
            (let text = lastLines (dropCutLine budget data) webErrorLines in
             if text = [] then collectLogs h w budget ps
             else (p, text) # collectLogs h w (budget - int (length text)) ps))"

definition webErrors :: "('w, 'z) Host_scheme \<Rightarrow> 'w \<Rightarrow> string list \<Rightarrow> 'w act" where
  "webErrors h w args =
     require (wantArgs args 0) w
      (w, [JSON (JArr (map (\<lambda>(p, t). JObj [(''path'', JStr p), (''text'', JStr t)])
            (collectLogs h w webErrorBytes (webLogPaths h w))))], HOk)"

section \<open>The entry point\<close>

definition ExitOK :: int where "ExitOK = 0"
definition ExitFailed :: int where "ExitFailed = 1"
definition ExitRefused :: int where "ExitRefused = 2"

text \<open>The actions: the flag tells whether the action needs the host's mount namespace.\<close>

definition privActions :: "('w, 'z) Host_scheme \<Rightarrow> (string \<times> bool \<times> ('w \<Rightarrow> string list \<Rightarrow> 'w act option)) list" where
  "privActions h =
     [(''service.restart'', False, \<lambda>w a. Some (serviceAction ''restart'' h w a)),
      (''service.start'', False, \<lambda>w a. Some (serviceAction ''start'' h w a)),
      (''service.stop'', False, \<lambda>w a. Some (serviceAction ''stop'' h w a)),
      (''service.reload'', False, \<lambda>w a. Some (serviceAction ''reload'' h w a)),
      (''phpfpm.restart'', False, \<lambda>w a. Some (phpfpmRestart h w a)),
      (''nginx.reload'', True, \<lambda>w a. Some (nginxReload h w a)),
      (''nginx-test'', True, \<lambda>w a. Some (nginxTest h w a)),
      (''supervisor.restart'', False, \<lambda>w a. Some (supervisorRestart h w a)),
      (''supervisor-status'', False, \<lambda>w a. Some (supervisorStatus h w a)),
      (''disk.journal_vacuum'', True, \<lambda>w a. Some (journalVacuum h w a)),
      (''disk.apt_clean'', True, \<lambda>w a. Some (aptClean h w a)),
      (''cert.renew'', True, \<lambda>w a. Some (certRenew h w a)),
      (''certs-list'', False, \<lambda>w a. Some (certsList h w a)),
      (''web-errors'', False, \<lambda>w a. Some (webErrors h w a)),
      (''pm2.restart'', True, \<lambda>w a. Some (pm2Restart h w a)),
      (''pm2-list'', True, \<lambda>w a. Some (pm2ListAction h w a)),
      (''process.stop'', False, \<lambda>w a. processStop h w a),
      (''firewall.allow'', True, \<lambda>w a. Some (firewallChange True h w a)),
      (''firewall.remove'', True, \<lambda>w a. Some (firewallChange False h w a)),
      (''firewall-rules'', True, \<lambda>w a. Some (firewallRules h w a))]"

definition PrivActionNames :: "('w, 'z) Host_scheme \<Rightarrow> string list" where
  "PrivActionNames h = sort (map fst (privActions h))"

text \<open>World, stdout, stderr and exit code; a panic ends the process with the runtime's code 2.\<close>

definition exitOf :: "'w act \<Rightarrow> 'w \<times> outp list \<times> string \<times> int" where
  "exitOf r = (case r of (w, out, e) \<Rightarrow> (case e of
      HOk \<Rightarrow> (w, out, [], ExitOK)
    | HErr g \<Rightarrow> (w, out, oneLine (err_msg g), if is_refused g then ExitRefused else ExitFailed)
    | HPanic \<Rightarrow> (w, out, ''panic'', 2)))"

definition RunPriv :: "('w, 'z) Host_scheme \<Rightarrow> 'w \<Rightarrow> string list \<Rightarrow> ('w \<times> outp list \<times> string \<times> int) option" where
  "RunPriv h w args =
     (case hs_Chdir h w ''/'' of
        (w, Some _) \<Rightarrow> Some (w, [], ''Could not leave the caller'' @ [CHR 0x27] @ ''s folder.'', ExitFailed)
      | (w, None) \<Rightarrow>
         (case args of
            [] \<Rightarrow> Some (w, [], ''No action was given.'', ExitRefused)
          | name # rest \<Rightarrow>
             (case map_of (privActions h) name of
                None \<Rightarrow> Some (w, [], ''That action is not allowed.'', ExitRefused)
              | Some (hostNS, action) \<Rightarrow>
                  if hostNS \<and> \<not> hs_InHostNS h w then Some (hs_RunInHostNS h w args)
                  else map_option exitOf (action w rest))))"

end
