(* ===== verification/Priv_Safety.thy ===== *)
theory Priv_Safety
  imports Priv_Helper Firewall_Safety
begin

text \<open>
  What the privilege helper can do to a host, for every argument list a caller may pass: the commands it
  runs are of a fixed list of shapes (\<open>permitted\<close>), its arguments being validated names; the signals it
  sends go to one pinned, checked, unprotected process; the log text it prints is bounded and comes from
  plain files below /var/log. The contract between the actions and the host is the locale \<open>guarded_host\<close>,
  interpreted on the host that records its commands.
\<close>

section \<open>Permitted commands\<close>

inductive permitted :: "string list \<Rightarrow> bool" where
  show_unit: "CheckUnitAllowed u = None \<or> u = ''nginx.service'' \<Longrightarrow>
    permitted [''systemctl'', ''show'', ''--property=Id,LoadState'', u]"
| change_unit: "verb \<in> {''restart'', ''start'', ''stop'', ''reload''} \<Longrightarrow> CheckUnitAllowed u = None \<Longrightarrow>
    permitted [''systemctl'', verb, u]"
| nginx_test: "permitted [''nginx'', ''-t'']"
| nginx_reload: "permitted [''systemctl'', ''reload'', ''nginx'']"
| supervisor_status: "conf \<in> set supervisorConfigs \<Longrightarrow> permitted [''supervisorctl'', ''-c'', conf, ''status'']"
| supervisor_restart: "conf \<in> set supervisorConfigs \<Longrightarrow> ValidateName ''program'' p = None \<Longrightarrow>
    permitted [''supervisorctl'', ''-c'', conf, ''restart'', p]"
| vacuum: "z \<in> set journalSizes \<Longrightarrow> permitted [''journalctl'', ''--vacuum-size='' @ z]"
| apt_clean: "permitted [''apt-get'', ''clean'']"
| certbot: "ValidateCertName n = None \<Longrightarrow> permitted (certbotArgv n dry)"
| pm2_list: "ui_UID u \<noteq> 0 \<Longrightarrow> permitted (PM2Argv u pm2 [''jlist''])"
| pm2_restart: "ui_UID u \<noteq> 0 \<Longrightarrow> ValidateName ''app'' app = None \<Longrightarrow> permitted (PM2Argv u pm2 [''restart'', app])"
| firewall_read: "\<not> editing c \<Longrightarrow> c \<noteq> [] \<Longrightarrow> hd c \<in> {''ufw'', ''firewall-cmd'', ''ss''} \<Longrightarrow> permitted c"
| ssh_sockets: "permitted [''systemctl'', ''show'', ''--property=Listen'', ''ssh.socket'', ''sshd.socket'']"
| firewall_edit: "validate r = None \<Longrightarrow> fr_Action r = ActionAllow \<Longrightarrow> fr_Protocol r \<in> {''tcp'', ''udp''} \<Longrightarrow>
    c \<in> {ufwInsert r, ufwDelete r, fwdEdit ''--add-port='' r, fwdEdit ''--add-port='' r @ [''--permanent''],
      fwdEdit ''--remove-port='' r, fwdEdit ''--remove-port='' r @ [''--permanent'']} \<Longrightarrow> permitted c"

lemmas permitted_intros = permitted.intros(1-13)

text \<open>A rule a caller of the helper can ask for.\<close>

definition callerRule :: "Rule \<Rightarrow> bool" where
  "callerRule r \<longleftrightarrow> validate r = None \<and> fr_Action r = ActionAllow \<and> fr_Protocol r \<in> {''tcp'', ''udp''}"

section \<open>The contract of the host\<close>

text \<open>
  \<open>obeys v w\<close>: the world \<open>w\<close> is reached from \<open>v\<close> by permitted commands only. A host obeys it when every
  permitted command does, and when changing the directory, signals and sleeping run no command.
\<close>

locale guarded_host =
  fixes h :: "'w Host" and obeys :: "'w \<Rightarrow> 'w \<Rightarrow> bool"
  assumes obeys_refl [simp]: "obeys w w"
    and obeys_trans: "obeys u v \<Longrightarrow> obeys v w \<Longrightarrow> obeys u w"
    and run_obeys: "permitted c \<Longrightarrow> obeys w (fst (fh_run h w c))"
    and chdir_obeys: "obeys w (fst (hs_Chdir h w d))"
    and signal_obeys: "obeys w (fst (hs_Signal h w p s))"
    and sleep_obeys: "obeys w (hs_Sleep h w t)"
    and reexec_obeys: "obeys w (fst (hs_RunInHostNS h w a))"
    and add_obeys: "hs_Firewall h = Some m \<Longrightarrow> callerRule r \<Longrightarrow> obeys w (fst (RuleAdd m w r))"
    and remove_obeys: "hs_Firewall h = Some m \<Longrightarrow> callerRule r \<Longrightarrow> obeys w (fst (RuleRemove m w r))"
    and status_obeys: "hs_Firewall h = Some m \<Longrightarrow> obeys w (fst (Status m w))"
begin

lemma run_step: "fh_run h w c = (w', x) \<Longrightarrow> permitted c \<Longrightarrow> obeys v w \<Longrightarrow> obeys v w'"
  using run_obeys [of c w] obeys_trans by fastforce

lemma require_obeys: "(e = None \<Longrightarrow> obeys v (fst k)) \<Longrightarrow> obeys v w \<Longrightarrow> obeys v (fst (require e w k))"
  by (cases e) simp_all

lemma thenDo_obeys:
  assumes "obeys v (fst r)" and "\<And>w x. r = (w, Inr x) \<Longrightarrow> obeys v w \<Longrightarrow> obeys v (fst (k w x))"
  shows "obeys v (fst (thenDo r k))"
  using assms by (cases r; cases "snd r") auto

lemma run_cmd: "permitted c \<Longrightarrow> obeys v w \<Longrightarrow> obeys v (fst (run h w c))"
  by (auto simp: run_def split: prod.splits option.splits intro: run_step)

lemma unitFacts_obeys:
  "CheckUnitAllowed u = None \<or> u = ''nginx.service'' \<Longrightarrow> obeys v w \<Longrightarrow> obeys v (fst (unitFacts h w u))"
  by (auto simp: unitFacts_def split: prod.splits option.splits intro: run_step [OF _ show_unit])

lemma checkUnit_obeys: "obeys v w \<Longrightarrow> obeys v (fst (checkUnit h w u))"
proof (cases "CheckUnitAllowed u")
  case None
  assume "obeys v w"
  with None have "obeys v (fst (unitFacts h w u))" by (intro unitFacts_obeys) simp_all
  then show ?thesis using None by (auto simp: checkUnit_def split: prod.splits sum.splits)
qed (simp add: checkUnit_def)

lemma checkUnit_allowed: "snd (checkUnit h w u) = None \<Longrightarrow> CheckUnitAllowed u = None"
  by (simp add: checkUnit_def split: option.splits)

lemma serviceAction_obeys:
  assumes "verb \<in> {''restart'', ''start'', ''stop'', ''reload''}" and "obeys v w"
  shows "obeys v (fst (serviceAction verb h w args))"
  unfolding serviceAction_def
proof (rule require_obeys)
  obtain w1 e where c: "checkUnit h w (hd args) = (w1, e)" by (cases "checkUnit h w (hd args)")
  have 1: "obeys v w1" using checkUnit_obeys [OF assms(2), of "hd args"] c by simp
  show "obeys v (fst (case checkUnit h w (hd args) of (w, Some e) \<Rightarrow> (w, [], HErr e)
      | (w, None) \<Rightarrow> thenDo (run h w [''systemctl'', verb, hd args])
          (\<lambda>w _. (w, [newlineText (verb @ '' '' @ hd args @ '' done.'')], HOk))))"
  proof (cases e)
    case None
    then have "permitted [''systemctl'', verb, hd args]"
      using checkUnit_allowed [of w "hd args"] c assms(1) by (intro change_unit) simp_all
    then have "obeys v (fst (run h w1 [''systemctl'', verb, hd args]))" using 1 by (rule run_cmd)
    then show ?thesis by (simp add: c None thenDo_obeys)
  qed (simp add: c 1)
qed (rule assms(2))

lemma phpfpmRestart_obeys: "obeys v w \<Longrightarrow> obeys v (fst (phpfpmRestart h w args))"
  unfolding phpfpmRestart_def by (intro require_obeys serviceAction_obeys) simp_all

lemma nginxTest_obeys: "obeys v w \<Longrightarrow> obeys v (fst (nginxTest h w args))"
  unfolding nginxTest_def
  by (rule require_obeys) (auto split: prod.splits option.splits intro: run_step [OF _ nginx_test])

lemma reloadNginx_obeys: "obeys v w \<Longrightarrow> obeys v (fst (reloadNginx h w))"
proof -
  assume v: "obeys v w"
  obtain w1 r where u: "unitFacts h w ''nginx.service'' = (w1, r)" by (cases "unitFacts h w ''nginx.service''")
  have 1: "obeys v w1" using unitFacts_obeys [OF disjI2 [OF refl] v] u by simp
  obtain w2 o2 e2 where t: "fh_run h w1 [''nginx'', ''-t''] = (w2, o2, e2)" by (cases "fh_run h w1 [''nginx'', ''-t'']") auto
  have 2: "obeys v w2" using t nginx_test 1 by (rule run_step)
  have "obeys v (fst (run h w2 [''systemctl'', ''reload'', ''nginx'']))" using nginx_reload 2 by (rule run_cmd)
  then have "obeys v (fst (thenDo (run h w2 [''systemctl'', ''reload'', ''nginx'']) (\<lambda>w _. (w, x, HOk))))" for x
    by (rule thenDo_obeys) simp
  with v 1 2 show ?thesis by (auto simp: reloadNginx_def u t split: sum.splits option.splits)
qed

lemma nginxReload_obeys: "obeys v w \<Longrightarrow> obeys v (fst (nginxReload h w args))"
  unfolding nginxReload_def by (intro require_obeys reloadNginx_obeys)

end

section \<open>Every action keeps the contract\<close>

lemma supervisorConfigFrom_mem: "supervisorConfigFrom h w cs = Inr c \<Longrightarrow> c \<in> set cs"
  by (induction h w cs rule: supervisorConfigFrom.induct) (auto split: option.splits if_splits)

lemma supervisorConfig_mem: "supervisorConfig h w = Inr c \<Longrightarrow> c \<in> set supervisorConfigs"
  by (simp add: supervisorConfig_def supervisorConfigFrom_mem)

lemma pm2User_uid: "pm2User h w n = Inr u \<Longrightarrow> ui_UID u \<noteq> 0"
  by (auto simp: pm2User_def split: option.splits if_splits)

lemma callerRule_port:
  "ValidatePort port = None \<Longrightarrow> ValidateProto proto = None \<Longrightarrow>
   callerRule \<lparr>fr_Action = ActionAllow, fr_Protocol = proto, fr_Port = port, fr_Source = [], fr_Comment = []\<rparr>"
  by (auto simp: callerRule_def validate_def ValidatePort_def ValidateProto_def fw_consts split: if_splits)

context guarded_host
begin

lemma supervisorPrograms_obeys: "obeys v w \<Longrightarrow> obeys v (fst (supervisorPrograms h w))"
  by (auto simp: supervisorPrograms_def Let_def split: sum.splits prod.splits
      intro: run_step [OF _ supervisor_status] dest: supervisorConfig_mem)

lemma supervisorStatus_obeys: "obeys v w \<Longrightarrow> obeys v (fst (supervisorStatus h w args))"
  unfolding supervisorStatus_def by (intro require_obeys thenDo_obeys supervisorPrograms_obeys) simp_all

lemma supervisorRestart_obeys: "obeys v w \<Longrightarrow> obeys v (fst (supervisorRestart h w args))"
  unfolding supervisorRestart_def
proof (intro require_obeys thenDo_obeys supervisorPrograms_obeys)
  fix w' list
  assume n: "ValidateName ''program'' (hd args) = None" and w': "obeys v w'"
  show "obeys v (fst (if MatchSupervisor list (hd args) = []
      then (w', [], HErr (refuse (''There is no Supervisor program called '' @ hd args @ ''.'')))
      else thenDo (w', supervisorConfig h w') (\<lambda>w conf.
        thenDo (run h w [''supervisorctl'', ''-c'', conf, ''restart'', hd args]) (\<lambda>w out. (w, [Text out], HOk)))))"
  proof (cases "supervisorConfig h w'")
    case (Inl e)
    with w' show ?thesis by simp
  next
    case (Inr conf)
    then have "permitted [''supervisorctl'', ''-c'', conf, ''restart'', hd args]"
      using n supervisorConfig_mem by (intro supervisor_restart) auto
    then have "obeys v (fst (run h w' [''supervisorctl'', ''-c'', conf, ''restart'', hd args]))"
      using w' by (rule run_cmd)
    then show ?thesis using w' by (simp add: Inr thenDo_obeys)
  qed
qed

lemma journalVacuum_obeys: "obeys v w \<Longrightarrow> obeys v (fst (journalVacuum h w args))"
  using run_cmd [OF vacuum, of "hd args" v w] unfolding journalVacuum_def
  by (intro require_obeys) (auto intro: thenDo_obeys)

lemma aptClean_obeys: "obeys v w \<Longrightarrow> obeys v (fst (aptClean h w args))"
  unfolding aptClean_def
  by (rule require_obeys) (auto intro!: thenDo_obeys run_cmd apt_clean)

lemma reloadAfterRenew_obeys: "obeys v w \<Longrightarrow> obeys v (fst (reloadAfterRenew h w out))"
proof -
  assume v: "obeys v w"
  obtain w1 r where u: "unitFacts h w ''nginx.service'' = (w1, r)" by (cases "unitFacts h w ''nginx.service''")
  have 1: "obeys v w1" using unitFacts_obeys [OF disjI2 [OF refl] v] u by simp
  have "obeys v (fst (reloadNginx h w1))" using 1 by (rule reloadNginx_obeys)
  with 1 show ?thesis by (auto simp: reloadAfterRenew_def u split: sum.splits prod.splits)
qed

lemma renewCert_obeys: "obeys v w \<Longrightarrow> obeys v (fst (renewCert h w name dry))"
  unfolding renewCert_def
proof (rule require_obeys)
  assume n: "ValidateCertName name = None" and v: "obeys v w"
  obtain w1 o1 e1 where c: "fh_run h w (certbotArgv name dry) = (w1, o1, e1)"
    by (cases "fh_run h w (certbotArgv name dry)") auto
  have 1: "obeys v w1" using c certbot [OF n] v by (rule run_step)
  with v reloadAfterRenew_obeys [OF 1]
  show "obeys v (fst (if map_option fi_Mode (hs_Lstat h w (pathJoin [LetsEncryptLive, name])) \<noteq> Some Directory
       then (w, [], HErr (refuse (''There is no certificate called '' @ name @ '' on this server.'')))
       else if hs_Stat h w (pathJoin [LetsEncryptRenewal, name @ ''.conf'']) = None
       then (w, [], HErr (refuse (''The certificate '' @ name @
              '' has no renewal settings, so certbot cannot renew it. It was probably not issued by certbot.'')))
       else if fh_look h w ''certbot'' \<noteq> None then (w, [], HErr (notInstalled ''certbot''))
       else (case fh_run h w (certbotArgv name dry) of
           (w, out, Some _) \<Rightarrow> (w, [], HErr (failure (''certbot failed: '' @ oneLine out)))
         | (w, out, None) \<Rightarrow>
             if dry then (w, [newlineText (oneLine out)], HOk)
             else reloadAfterRenew h w [newlineText (oneLine out)])))"
    by (auto simp: c split: option.splits)
qed

lemma certRenew_obeys: "obeys v w \<Longrightarrow> obeys v (fst (certRenew h w args))"
  by (auto simp: certRenew_def renewCert_obeys split: list.splits)

lemma pm2Apps_obeys: "ui_UID u \<noteq> 0 \<Longrightarrow> obeys v w \<Longrightarrow> obeys v (fst (pm2Apps h w u))"
  by (auto simp: pm2Apps_def split: sum.splits prod.splits option.splits intro: run_step [OF _ pm2_list])

lemma pm2ListAction_obeys: "obeys v w \<Longrightarrow> obeys v (fst (pm2ListAction h w args))"
  unfolding pm2ListAction_def
  by (intro require_obeys thenDo_obeys) (auto intro!: thenDo_obeys pm2Apps_obeys dest: pm2User_uid)

lemma restartApp_obeys:
  assumes "ui_UID u \<noteq> 0" "ValidateName ''app'' app = None" "obeys v w"
  shows "obeys v (fst (restartApp h w u app))"
  unfolding restartApp_def
  by (rule thenDo_obeys) (use assms in \<open>auto split: prod.splits option.splits intro: run_step [OF _ pm2_restart]\<close>)

lemma restartListed_obeys:
  assumes "ui_UID u \<noteq> 0" "ValidateName ''app'' app = None" "obeys v w"
  shows "obeys v (fst (restartListed h w u app))"
  unfolding restartListed_def
  by (intro thenDo_obeys pm2Apps_obeys assms) (simp add: restartApp_obeys assms(1,2))

lemma pm2Restart_obeys: "obeys v w \<Longrightarrow> obeys v (fst (pm2Restart h w args))"
  unfolding pm2Restart_def
  by (intro require_obeys thenDo_obeys) (auto simp: restartListed_obeys dest: pm2User_uid)

lemma waitGone_obeys: "obeys v w \<Longrightarrow> obeys v (fst (waitGone n h w pid start))"
proof (induction n arbitrary: w)
  case (Suc n)
  have "obeys v (hs_Sleep h w pollInterval)" using Suc.prems sleep_obeys obeys_trans by blast
  with Suc show ?case by (simp add: Let_def)
qed simp

lemma signal_step: "hs_Signal h w p s = (w', e) \<Longrightarrow> obeys v w \<Longrightarrow> obeys v w'"
  using signal_obeys [of w p s] obeys_trans by fastforce

lemma afterForce_obeys: "obeys v w \<Longrightarrow> obeys v (fst (afterForce h w pid start))"
  using waitGone_obeys [of v w 12 pid start]
  by (cases "waitGone 12 h w pid start") (simp add: afterForce_def)

lemma forceStop_obeys: "obeys v w \<Longrightarrow> obeys v (fst (forceStop h w proc pid start))"
proof -
  assume v: "obeys v w"
  obtain w1 e where s: "hs_Signal h w proc SIGKILL = (w1, e)" by (cases "hs_Signal h w proc SIGKILL")
  have 1: "obeys v w1" using s v by (rule signal_step)
  show ?thesis using 1 afterForce_obeys [OF v] afterForce_obeys [OF 1] by (simp add: forceStop_def s)
qed

lemma politeStop_obeys: "obeys v w \<Longrightarrow> obeys v (fst (politeStop h w proc pid start))"
proof -
  assume v: "obeys v w"
  obtain w1 e where s: "hs_Signal h w proc SIGTERM = (w1, e)" by (cases "hs_Signal h w proc SIGTERM")
  have 1: "obeys v w1" using s v by (rule signal_step)
  obtain w2 b where g: "waitGone 40 h w1 pid start = (w2, b)" by (cases "waitGone 40 h w1 pid start")
  have 2: "obeys v w2" using waitGone_obeys [OF 1, of 40 pid start] g by simp
  show ?thesis using 1 2 forceStop_obeys [OF 2] by (simp add: politeStop_def s g)
qed

lemma processStop_obeys: "processStop h w args = Some r \<Longrightarrow> obeys v w \<Longrightarrow> obeys v (fst r)"
  using politeStop_obeys
  by (auto simp: processStop_def stopPinned_def split: option.splits sum.splits if_splits)

lemma firewallChange_obeys: "obeys v w \<Longrightarrow> obeys v (fst (firewallChange allow h w args))"
proof -
  assume v: "obeys v w"
  have "obeys v (fst (changePort allow h w port proto))"
    if "ValidatePort port = None" "ValidateProto proto = None" for port proto
    using v obeys_trans [OF v add_obeys [OF _ callerRule_port [OF that]]]
      obeys_trans [OF v remove_obeys [OF _ callerRule_port [OF that]]]
    by (fastforce simp: changePort_def split: option.splits prod.splits)
  then show ?thesis unfolding firewallChange_def using v
    by (intro require_obeys) (auto intro!: require_obeys split: option.splits)
qed

lemma firewallRules_obeys: "obeys v w \<Longrightarrow> obeys v (fst (firewallRules h w args))"
  unfolding firewallRules_def
proof (rule require_obeys)
  assume v: "obeys v w"
  have "obeys v (fst (Status m w))" if "hs_Firewall h = Some m" for m
    using obeys_trans [OF v status_obeys [OF that]] .
  then show "obeys v (fst (case hs_Firewall h of
         None \<Rightarrow> (w, [], HErr (refuse ''No firewall (ufw or firewalld) is available on this server.''))
       | Some m \<Rightarrow>
           (case Status m w of
              (w, Inl (FErr e)) \<Rightarrow> (w, [], HErr (failure e))
            | (w, Inl _) \<Rightarrow> (w, [], HPanic)
            | (w, Inr st) \<Rightarrow>
                if \<not> st_Available st
                then (w, [], HErr (refuse ''No firewall (ufw or firewalld) is active on this server.''))
                else (w, [JSON (JArr (map (\<lambda>(p, t). JObj [(''port'', JNum (of_int p)), (''proto'', JStr t)])
                        (allowedPorts (st_Rules st))))], HOk))))"
    using v by (fastforce split: option.splits prod.splits sum.splits ferr.splits)
qed

lemma reads_obey: "obeys v w \<Longrightarrow> obeys v (fst (certsList h w args))" "obeys v w \<Longrightarrow> obeys v (fst (webErrors h w args))"
  unfolding certsList_def webErrors_def by (auto intro!: require_obeys)

lemmas action_obeys = serviceAction_obeys phpfpmRestart_obeys nginxTest_obeys nginxReload_obeys
  supervisorRestart_obeys supervisorStatus_obeys journalVacuum_obeys aptClean_obeys certRenew_obeys
  pm2Restart_obeys pm2ListAction_obeys firewallChange_obeys firewallRules_obeys reads_obey

end

lemma fst_exitOf: "fst (exitOf r) = fst r"
  by (simp add: exitOf_def split: prod.splits herr.splits)

context guarded_host
begin

lemma privAction_obeys:
  assumes "map_of (privActions h) name = Some (ns, action)" and "action w args = Some r"
  shows "obeys w (fst r)"
proof -
  have "(name, ns, action) \<in> set (privActions h)" using assms(1) by (rule map_of_SomeD)
  then have "action = processStop h \<or> obeys w (fst (the (action w args)))"
    unfolding privActions_def
    by (simp only: set_simps insert_iff empty_iff prod.inject simp_thms)
      (elim disjE, simp_all add: action_obeys)
  then show ?thesis
  proof
    assume "action = processStop h"
    with assms(2) processStop_obeys [OF _ obeys_refl] show ?thesis by blast
  qed (use assms(2) in simp)
qed

theorem RunPriv_obeys: "RunPriv h w args = Some r \<Longrightarrow> obeys w (fst r)"
proof -
  assume r: "RunPriv h w args = Some r"
  obtain w1 e where c: "hs_Chdir h w ''/'' = (w1, e)" by (cases "hs_Chdir h w ''/''")
  have 1: "obeys w w1" using chdir_obeys [of w "''/''"] c by simp
  have x: "obeys w (fst (hs_RunInHostNS h w1 args))" using obeys_trans [OF 1 reexec_obeys] .
  from r 1 show ?thesis
  proof (cases "e = None \<and> args \<noteq> [] \<and> map_of (privActions h) (hd args) \<noteq> None")
    case True
    then obtain ns action where a: "map_of (privActions h) (hd args) = Some (ns, action)" by auto
    from True obtain n as where args: "args = n # as" by (cases args) auto
    show ?thesis
    proof (cases "ns \<and> \<not> hs_InHostNS h w1")
      case True
      with r c a args \<open>e = None \<and> _\<close> have "r = hs_RunInHostNS h w1 args" by (simp add: RunPriv_def)
      with x show ?thesis by simp
    next
      case False
      with r c a args \<open>e = None \<and> _\<close> obtain q where "action w1 as = Some q" "fst r = fst q"
        by (auto simp: RunPriv_def fst_exitOf)
      with privAction_obeys [OF a] 1 obeys_trans show ?thesis by metis
    qed
  qed (auto simp: RunPriv_def c split: list.splits option.splits)
qed

end

section \<open>The host that records its commands\<close>

definition privLogged :: "'w Host \<Rightarrow> ('w \<times> string list list) Host" where
  "privLogged h = fwhost.extend (logged (fwhost.truncate h)) \<lparr>
     hs_ReadTail = (\<lambda>(w, _). hs_ReadTail h w), hs_Stat = (\<lambda>(w, _). hs_Stat h w),
     hs_Lstat = (\<lambda>(w, _). hs_Lstat h w), hs_FileUID = (\<lambda>(w, _). hs_FileUID h w),
     hs_LookupUser = (\<lambda>(w, _). hs_LookupUser h w), hs_Self = hs_Self h,
     hs_PIDs = (\<lambda>(w, _). hs_PIDs h w), hs_ParentPID = (\<lambda>(w, _). hs_ParentPID h w),
     hs_Comm = (\<lambda>(w, _). hs_Comm h w), hs_StartTime = (\<lambda>(w, _). hs_StartTime h w),
     hs_OpenProcess = (\<lambda>(w, _). hs_OpenProcess h w),
     hs_Signal = (\<lambda>(w, cmds) p s. case hs_Signal h w p s of (w, e) \<Rightarrow> ((w, cmds), e)),
     hs_Sleep = (\<lambda>(w, cmds) d. (hs_Sleep h w d, cmds)), hs_Cancelled = (\<lambda>(w, _). hs_Cancelled h w),
     hs_Chdir = (\<lambda>(w, cmds) d. case hs_Chdir h w d of (w, e) \<Rightarrow> ((w, cmds), e)),
     hs_Firewall = Some (FirewallOf (logged (fwhost.truncate h))),
     hs_InHostNS = (\<lambda>(w, _). hs_InHostNS h w),
     hs_RunInHostNS = (\<lambda>(w, cmds) a. case hs_RunInHostNS h w a of (w, x) \<Rightarrow> ((w, cmds), x)),
     hs_decodeJSON = hs_decodeJSON h, hs_certNotAfter = hs_certNotAfter h\<rparr>"

definition obeysLog :: "'w \<times> string list list \<Rightarrow> 'w \<times> string list list \<Rightarrow> bool" where
  "obeysLog v w \<longleftrightarrow> (\<exists>cs. snd w = snd v @ cs \<and> (\<forall>c \<in> set cs. permitted c))"

lemma obeysLog_refl: "obeysLog w w"
  by (simp add: obeysLog_def)

lemma obeysLog_trans: "obeysLog u v \<Longrightarrow> obeysLog v w \<Longrightarrow> obeysLog u w"
  by (fastforce simp: obeysLog_def)

lemma obeysLog_run: "permitted c \<Longrightarrow> obeysLog v (fst (fh_run (logged h) v c))"
  by (cases v) (simp add: obeysLog_def)

lemma permitted_reads:
  "permitted [''ufw'', ''status'']" "permitted [''ufw'', ''status'', ''numbered'']"
  "permitted [''firewall-cmd'', ''--state'']" "permitted [''firewall-cmd'', ''--zone='' @ z, ''--list-ports'']"
  "permitted (''ss'' # args)"
proof -
  show "permitted [''ufw'', ''status'']" by (rule firewall_read) simp_all
  show "permitted [''ufw'', ''status'', ''numbered'']" by (rule firewall_read) simp_all
  show "permitted [''firewall-cmd'', ''--state'']" by (rule firewall_read) simp_all
  show "permitted [''firewall-cmd'', ''--zone='' @ z, ''--list-ports'']" by (rule firewall_read [OF editing_firewalld(2)]) simp_all
  show "permitted (''ss'' # args)" by (rule firewall_read) simp_all
qed

lemma obeysLog_step: "fh_run (logged h) v c = (w, x) \<Longrightarrow> permitted c \<Longrightarrow> obeysLog v w"
  using obeysLog_run [of c v h] by simp

interpretation pcmds: fw_reads obeysLog
  by unfold_locales (rule obeysLog_refl, rule obeysLog_trans)

interpretation pufw: fw_backend obeysLog "UFWBackend (logged h)" for h :: "'w fwhost"
proof
  fix w :: "'w \<times> string list list"
  show "obeysLog w (fst (bk_Available (UFWBackend (logged h)) w))"
    using obeysLog_run [OF permitted_reads(1), of w h]
    by (cases w) (auto simp: UFWBackend_def ufwAvailable_def fst_runFor obeysLog_refl split: option.splits)
  show "obeysLog w (fst (bk_Rules (UFWBackend (logged h)) w))"
    using obeysLog_run [OF permitted_reads(2), of w h]
    by (auto simp: UFWBackend_def ufwRules_def split: prod.splits option.splits)
qed

interpretation pfirewalld: fw_backend obeysLog "FirewalldBackend (logged h) zone" for h :: "'w fwhost" and zone
proof
  fix w :: "'w \<times> string list list"
  show "obeysLog w (fst (bk_Available (FirewalldBackend (logged h) zone) w))"
    using obeysLog_run [OF permitted_reads(3), of w h]
    by (cases w) (auto simp: FirewalldBackend_def firewalldAvailable_def obeysLog_refl split: prod.splits option.splits)
  show "obeysLog w (fst (bk_Rules (FirewalldBackend (logged h) zone) w))"
    using obeysLog_run [OF permitted_reads(4), of w h "fwZone zone"]
    by (auto simp: FirewalldBackend_def firewalldRules_def split: prod.splits option.splits)
qed

lemma ss_obeys: "obeysLog w (fst (ssListening (logged h) w))"
  using obeysLog_run [OF permitted_reads(5), of w h "[''-tulnpH'']"]
  by (auto simp: ssListening_def split: prod.splits option.splits)

lemma SSHFromHost_obeys: "obeysLog w (fst (SSHFromHost (logged h) (Some (ssListening (logged h))) w))"
proof -
  obtain w1 s where s: "ssListening (logged h) w = (w1, s)" by (cases "ssListening (logged h) w")
  obtain w2 a where a: "activatedSSHPorts (logged h) w1 = (w2, a)" by (cases "activatedSSHPorts (logged h) w1")
  obtain w3 e where e: "establishedSSHD (logged h) w2 = (w3, e)" by (cases "establishedSSHD (logged h) w2")
  have 1: "obeysLog w w1" using ss_obeys [of w h] s by simp
  have 2: "obeysLog w1 w2"
    using obeysLog_run [OF ssh_sockets, of w1 h] a by (auto simp: activatedSSHPorts_def split: prod.splits option.splits)
  have 3: "obeysLog w2 w3"
    using obeysLog_run [OF permitted_reads(5), of w2 h "[''-tnpH'', ''state'', ''established'']"] e
    by (auto simp: establishedSSHD_def split: prod.splits option.splits)
  have "obeysLog w w3" using 1 2 3 obeysLog_trans by blast
  with 1 s a e show ?thesis by (cases s) (simp_all add: SSHFromHost_def)
qed

interpretation phost: fw_manager obeysLog "FirewallOf (logged h)" for h :: "'w fwhost"
proof (intro fw_manager.intro fw_manager_axioms.intro)
  show "fw_reads (obeysLog :: 'w \<times> string list list \<Rightarrow> _)" by (rule pcmds.fw_reads_axioms)
next
  fix b :: "('w \<times> string list list) Backend"
  assume "b \<in> set (fm_backends (FirewallOf (logged h)))"
  then show "fw_backend obeysLog b"
    using pufw.fw_backend_axioms [of h] pfirewalld.fw_backend_axioms [of h "''''"]
    by (auto simp: FirewallOf_def)
next
  fix w :: "'w \<times> string list list"
  show "obeysLog w (fst (fm_sockets (FirewallOf (logged h)) w))"
    by (simp add: FirewallOf_def ss_obeys)
next
  fix w :: "'w \<times> string list list"
  show "obeysLog w (fst (fm_ssh (FirewallOf (logged h)) w))"
    by (simp add: FirewallOf_def SSHFromHost_obeys)
qed

text \<open>One backend edit: its commands are permitted when the rule is one a caller can ask for.\<close>

lemma runFor_obeys: "permitted c \<Longrightarrow> runFor (logged h) v c what = (w, e) \<Longrightarrow> obeysLog v w"
  using obeysLog_run [of c v h] by (metis fst_conv fst_runFor)

lemma two_runs:
  assumes "permitted c1" "permitted c2"
  shows "obeysLog v (fst (case runFor (logged h) v c1 a of (w, Some e) \<Rightarrow> (w, Some e) | (w, None) \<Rightarrow> runFor (logged h) w c2 b))"
proof -
  obtain w1 e1 where 1: "runFor (logged h) v c1 a = (w1, e1)" by (cases "runFor (logged h) v c1 a")
  obtain w2 e2 where 2: "runFor (logged h) w1 c2 b = (w2, e2)" by (cases "runFor (logged h) w1 c2 b")
  have 3: "obeysLog v w1" using runFor_obeys [OF assms(1) 1] .
  have "obeysLog v w2" using obeysLog_trans [OF 3 runFor_obeys [OF assms(2) 2]] .
  with 3 show ?thesis by (cases e1) (simp_all add: 1 2)
qed

lemma backend_edits_obey:
  assumes "b \<in> set (fm_backends (FirewallOf (logged h)))" and "callerRule r"
  shows "obeysLog v (fst (bk_Add b v r)) \<and> obeysLog v (fst (bk_Remove b v r))"
proof -
  have p: "c \<in> {ufwInsert r, ufwDelete r, fwdEdit ''--add-port='' r, fwdEdit ''--add-port='' r @ [''--permanent''],
      fwdEdit ''--remove-port='' r, fwdEdit ''--remove-port='' r @ [''--permanent'']} \<Longrightarrow> permitted c" for c
    using assms(2) firewall_edit unfolding callerRule_def by blast
  from assms(1) consider "b = UFWBackend (logged h)" | "b = FirewalldBackend (logged h) ''''"
    by (auto simp: FirewallOf_def)
  then show ?thesis
  proof cases
    case 1
    then show ?thesis
      using obeysLog_run [OF p, of "ufwInsert r" v h] obeysLog_run [OF p, of "ufwDelete r" v h]
      by (simp add: UFWBackend_def ufwAdd_def ufwRemove_def fst_runFor ufwInsert_def ufwDelete_def)
  next
    case 2
    have a: "fr_Action r = ActionAllow" using assms(2) by (simp add: callerRule_def)
    have z: "''--zone='' @ fwZone '''' = ''--zone=public''" by (simp add: fwZone_def)
    have "bk_Remove b v r = firewalldRemove (logged h) '''' v r" "bk_Add b v r = firewalldAdd (logged h) '''' v r"
      using 2 by (simp_all add: FirewalldBackend_def)
    moreover have "obeysLog v (fst (firewalldRemove (logged h) '''' v r))"
      unfolding firewalldRemove_def z by (intro two_runs p) (simp_all add: fwdEdit_def)
    moreover have "obeysLog v (fst (firewalldAdd (logged h) '''' v r))"
    proof -
      have "obeysLog v (fst (case runFor (logged h) v [''firewall-cmd'', ''--zone='' @ fwZone '''', ''--add-port='' @ firewalldPort r]
            ''firewalld add-port'' of (w, Some e) \<Rightarrow> (w, Some e)
          | (w, None) \<Rightarrow> runFor (logged h) w [''firewall-cmd'', ''--zone='' @ fwZone '''', ''--add-port='' @ firewalldPort r,
              ''--permanent''] ''firewalld add-port --permanent''))"
        unfolding z by (intro two_runs p) (simp_all add: fwdEdit_def)
      then show ?thesis unfolding firewalldAdd_def a by (simp only: if_False simp_thms not_True_eq_False)
    qed
    ultimately show ?thesis by simp
  qed
qed

lemma manager_edits_obey:
  assumes "callerRule r"
  shows "obeysLog w (fst (RuleAdd (FirewallOf (logged h)) w r))"
    and "obeysLog w (fst (RuleRemove (FirewallOf (logged h)) w r))"
proof -
  obtain v e where a: "RuleAdd (FirewallOf (logged h)) w r = (v, e)" by (cases "RuleAdd (FirewallOf (logged h)) w r")
  have "obeysLog w v"
    using a
  proof (cases rule: phost.RuleAdd_cases)
    case (changed w1 b ports)
    with obeysLog_trans [OF changed(1)] backend_edits_obey [OF changed(2) assms, of w1] show ?thesis by simp
  qed
  with a show "obeysLog w (fst (RuleAdd (FirewallOf (logged h)) w r))" by simp
  obtain v e where a: "RuleRemove (FirewallOf (logged h)) w r = (v, e)" by (cases "RuleRemove (FirewallOf (logged h)) w r")
  have "obeysLog w v"
    using a
  proof (cases rule: phost.RuleRemove_cases)
    case (changed w1 b ports)
    with obeysLog_trans [OF changed(1)] backend_edits_obey [OF changed(2) assms, of w1] show ?thesis by simp
  qed
  with a show "obeysLog w (fst (RuleRemove (FirewallOf (logged h)) w r))" by simp
qed

lemma privLogged_simps [simp]:
  "fh_run (privLogged h) (w, cmds) argv = ((fst (fh_run h w argv), cmds @ [argv]), snd (fh_run h w argv))"
  "hs_Signal (privLogged h) (w, cmds) p s = ((fst (hs_Signal h w p s), cmds), snd (hs_Signal h w p s))"
  "hs_Chdir (privLogged h) (w, cmds) d = ((fst (hs_Chdir h w d), cmds), snd (hs_Chdir h w d))"
  "hs_Sleep (privLogged h) (w, cmds) t = (hs_Sleep h w t, cmds)"
  "hs_RunInHostNS (privLogged h) (w, cmds) a = ((fst (hs_RunInHostNS h w a), cmds), snd (hs_RunInHostNS h w a))"
  "hs_Firewall (privLogged h) = Some (FirewallOf (logged (fwhost.truncate h)))"
  by (simp_all add: privLogged_def logged_def fwhost.defs split: prod.splits)

interpretation priv: guarded_host "privLogged h" obeysLog for h :: "'w Host"
proof
  fix w :: "'w \<times> string list list" and c and m and r
  show "obeysLog w (fst (fh_run (privLogged h) w c))" if "permitted c"
    using that by (cases w) (simp add: obeysLog_def)
  show "obeysLog w (fst (RuleAdd m w r))" if "hs_Firewall (privLogged h) = Some m" "callerRule r"
    using that manager_edits_obey(1) [of r w "fwhost.truncate h"] by auto
  show "obeysLog w (fst (RuleRemove m w r))" if "hs_Firewall (privLogged h) = Some m" "callerRule r"
    using that manager_edits_obey(2) [of r w "fwhost.truncate h"] by auto
  show "obeysLog w (fst (Status m w))" if "hs_Firewall (privLogged h) = Some m"
    using that phost.Status_reads [of w "fwhost.truncate h"] by auto
qed (auto simp: obeysLog_refl obeysLog_def elim: obeysLog_trans)

end
