(* ===== verification/Priv_Theorems.thy ===== *)
theory Priv_Theorems
  imports Priv_Safety "HOL-Library.Multiset"
begin

text \<open>
  The guarantees of the privilege helper as theorems: only permitted commands are run; \<open>process.stop\<close>
  signals one pinned and checked process, and success means that it is gone; a process is protected
  exactly when the code's documentation says so, and that check ends; the log text of \<open>web-errors\<close> is bounded.
\<close>

section \<open>Searching the process tree\<close>

definition treeRel :: "(int \<Rightarrow> int list) \<Rightarrow> (int \<times> int) set" where
  "treeRel children = {(p, c). c \<in> set (children p)}"

lemma searchTree_reaches:
  assumes "wf ((treeRel children)\<inverse>)"
  shows "searchTree children pid queue = Some (\<exists>q \<in> set queue. (q, pid) \<in> (treeRel children)\<^sup>*)"
proof (induction queue rule: wf_induct [OF wf_inv_image [OF wf_mult [OF assms]], of mset])
  case (1 queue)
  show ?case
  proof (cases queue)
    case Nil
    then show ?thesis by (simp add: searchTree.simps [of _ _ "[]"])
  next
    case (Cons cur rest)
    have "(mset rest + mset (children cur), mset rest + {#cur#}) \<in> mult ((treeRel children)\<inverse>)"
      by (rule one_step_implies_mult) (simp_all add: treeRel_def)
    then have ih: "searchTree children pid (rest @ children cur) =
        Some (\<exists>q \<in> set (rest @ children cur). (q, pid) \<in> (treeRel children)\<^sup>*)"
      using 1 [rule_format, of "rest @ children cur"] Cons by (simp add: inv_image_def)
    have step: "(cur, pid) \<in> (treeRel children)\<^sup>* \<longleftrightarrow>
        cur = pid \<or> (\<exists>c \<in> set (children cur). (c, pid) \<in> (treeRel children)\<^sup>*)"
      by (auto simp: treeRel_def elim: converse_rtranclE intro: converse_rtrancl_into_rtrancl)
    show ?thesis unfolding Cons searchTree.simps [of _ _ "cur # rest"]
      using ih step by auto
  qed
qed

section \<open>Which processes are protected\<close>

text \<open>The helper's ancestors, itself included, as far as the code looks.\<close>

fun ancestors :: "nat \<Rightarrow> ('w, 'z) Host_scheme \<Rightarrow> 'w \<Rightarrow> int \<Rightarrow> int list" where
  "ancestors 0 h w p = []"
| "ancestors (Suc n) h w p = (if p \<le> 1 then [] else p # ancestors n h w (hs_ParentPID h w p))"

definition agentsAbove :: "('w, 'z) Host_scheme \<Rightarrow> 'w \<Rightarrow> int list" where
  "agentsAbove h w = filter (\<lambda>p. hs_Comm h w p = ''rootmote-agent'') (ancestors 64 h w (hs_Self h))"

definition descendsFrom :: "('w, 'z) Host_scheme \<Rightarrow> 'w \<Rightarrow> int \<Rightarrow> int \<Rightarrow> bool" where
  "descendsFrom h w p c \<longleftrightarrow> (p, c) \<in> {(p, c). c \<in> set (hs_PIDs h w) \<and> hs_ParentPID h w c = p}\<^sup>*"

lemma ancestorWalk_ancestors:
  "ancestorWalk n h w pid p a0 =
     (if pid \<in> set (ancestors n h w p) then None
      else Some (last (a0 # filter (\<lambda>q. hs_Comm h w q = ''rootmote-agent'') (ancestors n h w p))))"
  by (induction n arbitrary: p a0) auto

lemma ancestors_pos: "q \<in> set (ancestors n h w p) \<Longrightarrow> 1 < q"
  by (induction n arbitrary: p) (auto split: if_splits)

lemma agentRoot_zero: "last (0 # agentsAbove h w) = 0 \<longleftrightarrow> agentsAbove h w = []"
proof (cases "agentsAbove h w = []")
  case False
  then have "last (agentsAbove h w) \<in> set (agentsAbove h w)" by simp
  then have "1 < last (agentsAbove h w)" by (auto simp: agentsAbove_def intro: ancestors_pos)
  with False show ?thesis by simp
qed simp

lemma treeRel_childrenOf: "treeRel (childrenOf h w) = {(p, c). c \<in> set (hs_PIDs h w) \<and> hs_ParentPID h w c = p}"
  by (auto simp: treeRel_def childrenOf_def)

lemma protectedComms_none: "map_of protectedComms c = None \<longleftrightarrow> c \<notin> fst ` set protectedComms"
  by (simp add: map_of_eq_None_iff)

lemma protectedComms_why: "map_of protectedComms c = Some why \<Longrightarrow> why \<noteq> []"
  by (auto simp: protectedComms_def split: if_splits)

text \<open>
  C27. The protection check always answers, and it lets a process be stopped exactly when the process is not
  the helper, the init process or a kernel thread, its name is not one of the protected names, it is not one of the helper's
  ancestors, and it does not descend from the topmost agent among them. The hypothesis is that
  the parent relation has no cycle, as on every Linux system.
\<close>

theorem protected_iff:
  assumes "wf {(c, p). c \<in> set (hs_PIDs h w) \<and> hs_ParentPID h w c = p}"
  shows "\<exists>why. protectedPID h w pid = Some why \<and>
    (why = [] \<longleftrightarrow>
       2 < pid \<and> pid \<noteq> hs_Self h \<and> hs_ParentPID h w pid \<noteq> 2 \<and>
       hs_Comm h w pid \<notin> fst ` set protectedComms \<and>
       \<not> HasPrefix (hs_Comm h w pid) ''systemd-'' \<and> \<not> HasPrefix (hs_Comm h w pid) ''sshd'' \<and>
       pid \<notin> set (ancestors 64 h w (hs_Self h)) \<and>
       (agentsAbove h w \<noteq> [] \<longrightarrow> \<not> descendsFrom h w (last (agentsAbove h w)) pid))"
proof -
  have "(treeRel (childrenOf h w))\<inverse> = {(c, p). c \<in> set (hs_PIDs h w) \<and> hs_ParentPID h w c = p}"
    by (auto simp: treeRel_childrenOf)
  then have s: "searchTree (childrenOf h w) pid [a0] = Some (descendsFrom h w a0 pid)" for a0
    using searchTree_reaches [of "childrenOf h w" pid "[a0]"] assms
    by (simp add: descendsFrom_def treeRel_childrenOf)
  have walk: "ancestorWalk 64 h w pid (hs_Self h) 0 =
      (if pid \<in> set (ancestors 64 h w (hs_Self h)) then None else Some (last (0 # agentsAbove h w)))"
    by (simp only: ancestorWalk_ancestors agentsAbove_def)
  define family where "family \<longleftrightarrow> pid \<in> set (ancestors 64 h w (hs_Self h)) \<or>
    agentsAbove h w \<noteq> [] \<and> descendsFrom h w (last (agentsAbove h w)) pid"
  have tail: "(case ancestorWalk 64 h w pid (hs_Self h) 0 of None \<Rightarrow> Some ''part of the Rootmote agent''
      | Some agentRoot \<Rightarrow> if agentRoot = 0 then Some []
          else map_option (\<lambda>found. if found then ''part of the Rootmote agent'' else [])
                 (searchTree (childrenOf h w) pid [agentRoot])) =
      Some (if family then ''part of the Rootmote agent'' else [])"
    using agentRoot_zero [of h w] unfolding walk family_def s by (cases "agentsAbove h w = []") simp_all
  show ?thesis
  proof (cases "map_of protectedComms (hs_Comm h w pid)")
    case None
    then have "hs_Comm h w pid \<notin> fst ` set protectedComms" using protectedComms_none by metis
    then show ?thesis unfolding protectedPID_def tail by (auto simp: None family_def)
  next
    case (Some why)
    then have "hs_Comm h w pid \<in> fst ` set protectedComms" "why \<noteq> []"
      using protectedComms_none [of "hs_Comm h w pid"] protectedComms_why by auto
    then show ?thesis unfolding protectedPID_def by (simp add: Some)
  qed
qed

section \<open>Stopping a process\<close>

text \<open>A host and the signals it has sent so far.\<close>

locale signal_host =
  fixes h :: "'w Host" and sent :: "'w \<Rightarrow> (handle \<times> sig) list"
  assumes signal_sent: "sent (fst (hs_Signal h w p s)) = sent w @ [(p, s)]"
    and sleep_sent: "sent (hs_Sleep h w d) = sent w"
begin

lemma waitGone_sent: "waitGone n h w pid start = (w', ended) \<Longrightarrow> sent w' = sent w \<and> ended = gone h w' pid start"
  by (induction n arbitrary: w) (auto simp: Let_def sleep_sent split: if_splits)

lemma afterForce_sent:
  "sent (fst (afterForce h w pid start)) = sent w \<and>
   (snd (snd (afterForce h w pid start)) = HOk \<longrightarrow> gone h (fst (afterForce h w pid start)) pid start)"
  using waitGone_sent [of 12 w pid start] by (cases "waitGone 12 h w pid start") (simp add: afterForce_def)

lemma forceStop_sent:
  "sent (fst (forceStop h w proc pid start)) \<in> {sent w, sent w @ [(proc, SIGKILL)]} \<and>
   (snd (snd (forceStop h w proc pid start)) = HOk \<longrightarrow> gone h (fst (forceStop h w proc pid start)) pid start)"
proof -
  obtain w1 e where s: "hs_Signal h w proc SIGKILL = (w1, e)" by (cases "hs_Signal h w proc SIGKILL")
  then have "sent w1 = sent w @ [(proc, SIGKILL)]" using signal_sent [of w proc SIGKILL] by simp
  then show ?thesis using afterForce_sent [of w pid start] afterForce_sent [of w1 pid start]
    by (auto simp: forceStop_def s)
qed

lemma politeStop_sent:
  "sent (fst (politeStop h w proc pid start)) \<in> {sent w @ [(proc, SIGTERM)], sent w @ [(proc, SIGTERM), (proc, SIGKILL)]} \<and>
   (snd (snd (politeStop h w proc pid start)) = HOk \<longrightarrow> gone h (fst (politeStop h w proc pid start)) pid start)"
proof -
  obtain w1 e where s: "hs_Signal h w proc SIGTERM = (w1, e)" by (cases "hs_Signal h w proc SIGTERM")
  then have 1: "sent w1 = sent w @ [(proc, SIGTERM)]" using signal_sent [of w proc SIGTERM] by simp
  obtain w2 b where g: "waitGone 40 h w1 pid start = (w2, b)" by (cases "waitGone 40 h w1 pid start")
  then have "sent w2 = sent w1 \<and> b = gone h w2 pid start" by (rule waitGone_sent)
  with 1 show ?thesis using forceStop_sent [of w2 proc pid start] by (auto simp: politeStop_def s g)
qed

lemma processStop_sent:
  assumes "processStop h w args = Some (w', out, e)"
  shows "sent w' = sent w \<and> e \<noteq> HOk \<or>
    (\<exists>pid start proc. length args = 2 \<and> ParsePID (args ! 0) = Inr pid \<and> ParseStartTime (args ! 1) = Inr start \<and>
       hs_OpenProcess h w pid = Some proc \<and> hs_StartTime h w pid = Some start \<and> protectedPID h w pid = Some [] \<and>
       sent w' \<in> {sent w @ [(proc, SIGTERM)], sent w @ [(proc, SIGTERM), (proc, SIGKILL)]} \<and>
       (e = HOk \<longrightarrow> hs_StartTime h w' pid \<noteq> Some start))"
proof (cases "\<exists>pid start proc. wantArgs args 2 = None \<and> ParsePID (hd args) = Inr pid \<and> ParseStartTime (hd (tl args)) = Inr start \<and>
    hs_OpenProcess h w pid = Some proc \<and> hs_StartTime h w pid = Some start \<and> protectedPID h w pid = Some []")
  case True
  then obtain pid start proc where c: "wantArgs args 2 = None" "ParsePID (hd args) = Inr pid"
    "ParseStartTime (hd (tl args)) = Inr start" "hs_OpenProcess h w pid = Some proc"
    "hs_StartTime h w pid = Some start" "protectedPID h w pid = Some []" by blast
  then have "politeStop h w proc pid start = (w', out, e)"
    using assms by (simp add: processStop_def stopPinned_def)
  moreover from c(1) have "length args = 2" by (simp add: wantArgs_def split: if_splits)
  then have "args ! 0 = hd args" "args ! 1 = hd (tl args)" by (auto simp: numeral_2_eq_2 length_Suc_conv)
  ultimately show ?thesis
    using c politeStop_sent [of w proc pid start] \<open>length args = 2\<close>
    by (intro disjI2 exI [of _ pid] exI [of _ start] exI [of _ proc]) (simp add: gone_def)
next
  case False
  then have "w' = w" "e \<noteq> HOk"
    using assms by (auto simp: processStop_def stopPinned_def split: option.splits sum.splits if_splits)
  then show ?thesis by simp
qed

end

text \<open>The host that records its signals. The firewall is not used by the actions on processes.\<close>

definition sigLogged :: "'w Host \<Rightarrow> ('w \<times> (handle \<times> sig) list) Host" where
  "sigLogged h = \<lparr>
     fh_run = (\<lambda>(w, l) argv. case fh_run h w argv of (w, x) \<Rightarrow> ((w, l), x)),
     fh_look = (\<lambda>(w, _). fh_look h w), fh_ReadFile = (\<lambda>(w, _). fh_ReadFile h w), fh_ReadDir = (\<lambda>(w, _). fh_ReadDir h w),
     hs_ReadTail = (\<lambda>(w, _). hs_ReadTail h w), hs_Stat = (\<lambda>(w, _). hs_Stat h w),
     hs_Lstat = (\<lambda>(w, _). hs_Lstat h w), hs_FileUID = (\<lambda>(w, _). hs_FileUID h w),
     hs_LookupUser = (\<lambda>(w, _). hs_LookupUser h w), hs_Self = hs_Self h,
     hs_PIDs = (\<lambda>(w, _). hs_PIDs h w), hs_ParentPID = (\<lambda>(w, _). hs_ParentPID h w),
     hs_Comm = (\<lambda>(w, _). hs_Comm h w), hs_StartTime = (\<lambda>(w, _). hs_StartTime h w),
     hs_OpenProcess = (\<lambda>(w, _). hs_OpenProcess h w),
     hs_Signal = (\<lambda>(w, l) p s. case hs_Signal h w p s of (w, e) \<Rightarrow> ((w, l @ [(p, s)]), e)),
     hs_Sleep = (\<lambda>(w, l) d. (hs_Sleep h w d, l)), hs_Cancelled = (\<lambda>(w, _). hs_Cancelled h w),
     hs_Chdir = (\<lambda>(w, l) d. case hs_Chdir h w d of (w, e) \<Rightarrow> ((w, l), e)),
     hs_Firewall = None, hs_InHostNS = (\<lambda>(w, _). hs_InHostNS h w),
     hs_RunInHostNS = (\<lambda>(w, l) a. case hs_RunInHostNS h w a of (w, x) \<Rightarrow> ((w, l), x)),
     hs_decodeJSON = hs_decodeJSON h, hs_certNotAfter = hs_certNotAfter h\<rparr>"

lemma sigLogged_simps [simp]:
  "hs_Signal (sigLogged h) (w, l) p s = ((fst (hs_Signal h w p s), l @ [(p, s)]), snd (hs_Signal h w p s))"
  "hs_Sleep (sigLogged h) (w, l) d = (hs_Sleep h w d, l)"
  "hs_OpenProcess (sigLogged h) (w, l) = hs_OpenProcess h w" "hs_StartTime (sigLogged h) (w, l) = hs_StartTime h w"
  "hs_Self (sigLogged h) = hs_Self h" "hs_PIDs (sigLogged h) (w, l) = hs_PIDs h w"
  "hs_ParentPID (sigLogged h) (w, l) = hs_ParentPID h w" "hs_Comm (sigLogged h) (w, l) = hs_Comm h w"
  by (simp_all add: sigLogged_def split: prod.splits)

interpretation signals: signal_host "sigLogged h" snd for h :: "'w Host"
  by unfold_locales (auto simp: split_paired_all)

lemma ancestorWalk_sigLogged: "ancestorWalk n (sigLogged h) (w, l) pid p r = ancestorWalk n h w pid p r"
  by (induction n arbitrary: p r) simp_all

lemma childrenOf_sigLogged: "childrenOf (sigLogged h) (w, l) = childrenOf h w"
  by (simp add: childrenOf_def fun_eq_iff)

lemma protectedPID_sigLogged: "protectedPID (sigLogged h) (w, l) pid = protectedPID h w pid"
  unfolding protectedPID_def ancestorWalk_sigLogged childrenOf_sigLogged sigLogged_simps ..

text \<open>
  C25. Every signal of \<open>process.stop\<close> goes to the process that was opened under the given pid, whose start time is
  the given one and which is not protected: a polite SIGTERM, then at most one SIGKILL. On every other path no
  signal is sent and the action fails. When it succeeds the process of that start time is gone.
\<close>

theorem process_stop_signals:
  assumes "processStop (sigLogged h) (w, []) args = Some ((w', sent), out, e)"
  shows "sent = [] \<and> e \<noteq> HOk \<or>
    (\<exists>pid start proc. length args = 2 \<and> ParsePID (args ! 0) = Inr pid \<and> ParseStartTime (args ! 1) = Inr start \<and>
       hs_OpenProcess h w pid = Some proc \<and> hs_StartTime h w pid = Some start \<and> protectedPID h w pid = Some [] \<and>
       sent \<in> {[(proc, SIGTERM)], [(proc, SIGTERM), (proc, SIGKILL)]} \<and>
       (e = HOk \<longrightarrow> hs_StartTime h w' pid \<noteq> Some start))"
  using signals.processStop_sent [OF assms] by (simp add: protectedPID_sigLogged)

section \<open>Web server logs\<close>

lemma length_Join: "length (Join d xs) = sum_list (map length xs) + length d * (length xs - 1)"
  by (induction d xs rule: Join.induct) auto

lemma Split_nonempty [simp]: "Split d s \<noteq> []"
  by (induction d s rule: Split.induct) (auto split: list.splits)

lemma Join_Cons_Cons: "Join d ((c # w) # ws) = c # Join d (w # ws)"
  by (cases ws) simp_all

lemma Join_Split: "Join [d] (Split d s) = s"
proof (induction s)
  case (Cons c s)
  obtain w ws where "Split d s = w # ws" by (meson Split_nonempty neq_Nil_conv)
  with Cons show ?case by (simp add: Join_Cons_Cons)
qed simp

lemma Split_plain: "d \<notin> set s \<Longrightarrow> Split d s = [s]"
  by (induction s) auto

lemma Split_elem: "x \<in> set (Split d s) \<Longrightarrow> d \<notin> set x"
  by (induction d s arbitrary: x rule: Split.induct) (auto split: list.splits if_splits)

lemma Split_Join: "xs \<noteq> [] \<Longrightarrow> \<forall>x \<in> set xs. d \<notin> set x \<Longrightarrow> Split d (Join [d] xs) = xs"
  by (induction "[d]" xs rule: Join.induct) (auto simp: Split_word Split_plain)

lemma length_Join_drop: "length (Join d (drop k xs)) \<le> length (Join d xs)"
proof -
  have "sum_list (map length (drop k xs)) \<le> sum_list (map length xs)"
    by (metis append_take_drop_id le_add2 map_append sum_list_append)
  moreover have "length d * (length (drop k xs) - 1) \<le> length d * (length xs - 1)" by (intro mult_le_mono2) simp
  ultimately show ?thesis by (simp only: length_Join add_mono)
qed

lemma length_trimNewlines: "length (trimNewlines s) \<le> length s"
  using length_dropWhile_le [of "\<lambda>c. c = CHR 0x0A" "rev s"] by (simp add: trimNewlines_def)

lemma length_lastLines: "length (lastLines s n) \<le> length s"
  using length_Join_drop [of "[CHR 0x0A]" _ "Split (CHR 0x0A) (trimNewlines s)"] length_trimNewlines [of s]
  by (auto simp: lastLines_def Let_def Join_Split intro: order_trans)

lemma lines_lastLines: "0 < n \<Longrightarrow> length (Split (CHR 0x0A) (lastLines s n)) \<le> n"
proof -
  assume n: "0 < n"
  let ?ls = "Split (CHR 0x0A) (trimNewlines s)"
  let ?k = "if length ?ls > n then drop (length ?ls - n) ?ls else ?ls"
  have "length ?ls \<noteq> 0" by simp
  then have "?k \<noteq> []" using n by auto
  moreover have "\<forall>x \<in> set ?k. CHR 0x0A \<notin> set x" using Split_elem by (auto dest: in_set_dropD)
  ultimately have "Split (CHR 0x0A) (lastLines s n) = ?k"
    unfolding lastLines_def Let_def by (rule Split_Join)
  then show ?thesis by simp
qed

lemma length_dropCutLine: "length (dropCutLine b d) \<le> length d"
  using length_dropWhile_le [of "\<lambda>c. c \<noteq> CHR 0x0A" d] by (auto simp: dropCutLine_def)

text \<open>Cleaned rooted paths have no empty, dot or dot-dot part.\<close>

definition plainPart :: "string \<Rightarrow> bool" where
  "plainPart e \<longleftrightarrow> e \<noteq> [] \<and> e \<noteq> ''.'' \<and> e \<noteq> ''..'' \<and> CHR ''/'' \<notin> set e"

lemma cleanParts_plain:
  "list_all plainPart acc \<Longrightarrow> \<forall>e \<in> set es. CHR ''/'' \<notin> set e \<Longrightarrow> list_all plainPart (cleanParts True es acc)"
proof (induction es arbitrary: acc)
  case (Cons e es)
  then show ?case by (cases acc) (auto simp: plainPart_def)
qed (auto simp: list_all_iff)

lemma pathClean_plain:
  assumes "HasPrefix p ''/''"
  obtains parts where "pathClean p = CHR ''/'' # Join ''/'' parts" "list_all plainPart parts"
proof (rule that)
  let ?parts = "cleanParts True (Split (CHR ''/'') p) []"
  have "p \<noteq> []" using assms by auto
  then show "pathClean p = CHR ''/'' # Join ''/'' ?parts" using assms by (simp add: pathClean_def pathText_def)
  show "list_all plainPart ?parts" by (rule cleanParts_plain) (auto dest: Split_elem)
qed

lemma addLogPath_mem:
  "p \<in> set (foldl addLogPath acc ps) \<Longrightarrow>
   p \<in> set acc \<or> (\<exists>q \<in> set ps. p = pathClean q \<and> HasPrefix p ''/var/log/'')"
proof (induction ps arbitrary: acc)
  case (Cons q ps)
  then have "p \<in> set (addLogPath acc q) \<or> (\<exists>q \<in> set ps. p = pathClean q \<and> HasPrefix p ''/var/log/'')" by simp
  then show ?case by (auto simp: addLogPath_def Let_def webLogRoot_def split: if_splits)
qed simp

lemma addLogPath_distinct: "distinct acc \<Longrightarrow> distinct (foldl addLogPath acc ps)"
  by (induction ps arbitrary: acc) (simp_all add: addLogPath_def Let_def)

lemma webLogDefaults_rooted: "q \<in> set webLogDefaults \<Longrightarrow> HasPrefix q ''/''"
  by (auto simp: webLogDefaults_def)

lemma webLogPaths_plain:
  assumes "p \<in> set (webLogPaths h w)"
  shows "HasPrefix p ''/var/log/'' \<and> (\<exists>parts. p = CHR ''/'' # Join ''/'' parts \<and> list_all plainPart parts)"
proof -
  obtain q where q: "HasPrefix q ''/''" "p = pathClean q" "HasPrefix p ''/var/log/''"
    using addLogPath_mem [OF assms [unfolded webLogPaths_def]] webLogDefaults_rooted
    by (fastforce simp: set_filter)
  obtain parts where "pathClean q = CHR ''/'' # Join ''/'' parts" "list_all plainPart parts"
    using q(1) by (rule pathClean_plain)
  with q show ?thesis by auto
qed

lemma collectLogs_sub: "map fst (collectLogs h w b ps) \<in> set (subseqs ps)"
  by (induction h w b ps rule: collectLogs.induct) (auto simp: Let_def split: option.splits)

lemma collectLogs_entry:
  "(p, t) \<in> set (collectLogs h w b ps) \<Longrightarrow>
   p \<in> set ps \<and> plainLogPath h w p \<and> length (Split (CHR 0x0A) t) \<le> 200"
  by (induction h w b ps rule: collectLogs.induct)
    (auto simp: Let_def webErrorLines_def lines_lastLines split: option.splits if_splits)

lemma collectLogs_budget:
  assumes "\<And>p n d. hs_ReadTail h w p n = Some d \<Longrightarrow> int (length d) \<le> n" and "0 \<le> b"
  shows "int (sum_list (map (length \<circ> snd) (collectLogs h w b ps))) \<le> b"
  using assms(2)
proof (induction ps arbitrary: b)
  case (Cons p ps)
  show ?case
  proof (cases "b \<le> 0 \<or> \<not> plainLogPath h w p \<or> hs_ReadTail h w p b = None")
    case True
    with Cons show ?thesis by auto
  next
    case False
    then obtain d where d: "hs_ReadTail h w p b = Some d" by auto
    let ?t = "lastLines (dropCutLine b d) webErrorLines"
    have "length ?t \<le> length d" using length_lastLines length_dropCutLine order_trans by blast
    with assms(1) [OF d] have "int (length ?t) \<le> b" by linarith
    then show ?thesis using Cons.IH [of "b - int (length ?t)"] Cons.IH [OF Cons.prems] False d
      by (auto simp: Let_def)
  qed
qed simp

text \<open>
  What \<open>web-errors\<close> prints: at most 64 KiB of text in all and at most 200 lines of each file, every file once,
  and only files under \<open>/var/log/\<close> whose path has no empty, dot or dot-dot part and is plain: no part of it is a
  symbolic link. The hypothesis is what \<open>ReadTail\<close> documents: at most the given number of bytes.
\<close>

theorem web_errors_bounded:
  assumes "\<forall>p n d. hs_ReadTail h w p n = Some d \<longrightarrow> int (length d) \<le> n"
  shows "\<exists>entries. webErrors h w [] =
      (w, [JSON (JArr (map (\<lambda>(p, t). JObj [(''path'', JStr p), (''text'', JStr t)]) entries))], HOk) \<and>
    sum_list (map (length \<circ> snd) entries) \<le> 64 * 1024 \<and> distinct (map fst entries) \<and>
    list_all (\<lambda>(p, t). HasPrefix p ''/var/log/'' \<and> plainLogPath h w p \<and> length (Split (CHR 0x0A) t) \<le> 200 \<and>
      (\<exists>parts. p = CHR ''/'' # Join ''/'' parts \<and> list_all plainPart parts)) entries"
proof -
  let ?e = "collectLogs h w webErrorBytes (webLogPaths h w)"
  have "distinct (webLogPaths h w)" by (simp add: webLogPaths_def addLogPath_distinct)
  then have "distinct (map fst ?e)" using collectLogs_sub [of h w webErrorBytes "webLogPaths h w"]
    by (rule subseqs_distinctD [rotated])
  moreover have "sum_list (map (length \<circ> snd) ?e) \<le> 64 * 1024"
    using collectLogs_budget [of h w webErrorBytes "webLogPaths h w"] assms by (simp add: webErrorBytes_def)
  moreover have "list_all (\<lambda>(p, t). HasPrefix p ''/var/log/'' \<and> plainLogPath h w p \<and> length (Split (CHR 0x0A) t) \<le> 200 \<and>
      (\<exists>parts. p = CHR ''/'' # Join ''/'' parts \<and> list_all plainPart parts)) ?e"
    using collectLogs_entry [of _ _ h w webErrorBytes "webLogPaths h w"] webLogPaths_plain [of _ h w]
    by (fastforce simp: list_all_iff)
  ultimately show ?thesis by (intro exI [of _ ?e]) (simp add: webErrors_def wantArgs_def)
qed

section \<open>Commands\<close>


section \<open>A concrete host\<close>

text \<open>
  A host whose world counts signals and sleeping: process 900 (started at 77) ends at the second event;
  process 300 is the agent, 301 the helper. One service, one web server log.
\<close>

definition demoPriv :: "nat Host" where
  "demoPriv = \<lparr>
     fh_run = (\<lambda>n argv. (n, if argv = [''systemctl'', ''show'', ''--property=Id,LoadState'', ''app.service'']
        then ''Id=app.service'' @ [CHR 0x0A] @ ''LoadState=loaded'' @ [CHR 0x0A] else [], None)),
     fh_look = (\<lambda>_ _. None), fh_ReadFile = (\<lambda>_ _. None), fh_ReadDir = (\<lambda>_ _. None),
     hs_ReadTail = (\<lambda>_ p n. if n < 4 then None else Some ''boom''),
     hs_Stat = (\<lambda>_ _. None),
     hs_Lstat = (\<lambda>_ p. if p = ''/var/log/nginx'' then Some \<lparr>fi_Mode = Directory, fi_writable = False\<rparr>
        else if p = ''/var/log/nginx/error.log'' then Some \<lparr>fi_Mode = RegularFile, fi_writable = False\<rparr> else None),
     hs_FileUID = (\<lambda>_ _. None), hs_LookupUser = (\<lambda>_ _. None), hs_Self = 301,
     hs_PIDs = (\<lambda>_. [1, 300, 301, 900]),
     hs_ParentPID = (\<lambda>_ p. if p = 301 then 300 else if p = 1 then 0 else 1),
     hs_Comm = (\<lambda>_ p. if p = 300 then ''rootmote-agent'' else if p = 900 then ''worker'' else []),
     hs_StartTime = (\<lambda>n p. if p = 900 \<and> n < 2 then Some 77 else None),
     hs_OpenProcess = (\<lambda>_ p. if p = 900 then Some 5 else None),
     hs_Signal = (\<lambda>n _ _. (Suc n, None)), hs_Sleep = (\<lambda>n _. Suc n), hs_Cancelled = (\<lambda>_. False),
     hs_Chdir = (\<lambda>n _. (n, None)), hs_Firewall = None, hs_InHostNS = (\<lambda>_. True),
     hs_RunInHostNS = (\<lambda>n _. (n, [], [], 0)), hs_decodeJSON = (\<lambda>_. None), hs_certNotAfter = (\<lambda>_. None)\<rparr>"

lemma demoPriv_wf: "wf {(c, p). c \<in> set (hs_PIDs demoPriv n) \<and> hs_ParentPID demoPriv n c = p}"
  by (rule wf_subset [OF wf_measure [of "\<lambda>p. nat (1000 - p)"]]) (auto simp: demoPriv_def)

theorem protected_iff_witness:
  "(\<exists>why. protectedPID demoPriv 0 301 = Some why \<and> why \<noteq> []) \<and>
   wf {(c, p). c \<in> set (hs_PIDs demoPriv 0) \<and> hs_ParentPID demoPriv 0 c = p}"
  using protected_iff [OF demoPriv_wf, of 0 301] demoPriv_wf by (auto simp: demoPriv_def)

lemma demoPriv_free: "protectedPID demoPriv 0 900 = Some []"
  by code_simp

lemma demoPriv_stop:
  "processStop (sigLogged demoPriv) (0, []) [''900'', ''77''] =
     Some ((2, [(5, SIGTERM)]), [newlineText (processText 900 ''stopped.'')], HOk)"
proof -
  have args: "wantArgs [''900'', ''77''] 2 = None" "ParsePID ''900'' = Inr 900" "digitRe ''77''"
    by code_simp+
  have start: "ParseStartTime ''77'' = Inr 77"
    using args(3) by (simp add: ParseStartTime_def digitRe_def ParseUint_def decVal_def)
  have demo: "hs_OpenProcess demoPriv 0 900 = Some 5" "hs_StartTime demoPriv n 900 = (if n < 2 then Some 77 else None)"
    "hs_Signal demoPriv n p s = (Suc n, None)" "hs_Sleep demoPriv n d = Suc n" "\<not> hs_Cancelled (sigLogged demoPriv) (n, l)"
    for n p s d l by (simp_all add: demoPriv_def sigLogged_def)
  have "waitGone 40 (sigLogged demoPriv) (1, l) 900 77 = ((2, l), True)" for l
    using waitGone.simps(2) [of 39 "sigLogged demoPriv" "(1, l)" 900 77]
      waitGone.simps(2) [of 38 "sigLogged demoPriv" "(2, l)" 900 77]
    by (simp add: gone_def demo numeral_2_eq_2)
  then show ?thesis
    by (simp add: processStop_def stopPinned_def politeStop_def args start protectedPID_sigLogged demoPriv_free demo)
qed

theorem process_stop_signals_witness:
  "\<exists>w' out. processStop (sigLogged demoPriv) (0, []) [''900'', ''77''] = Some ((w', [(5, SIGTERM)]), out, HOk) \<and>
     hs_OpenProcess demoPriv 0 900 = Some 5 \<and> protectedPID demoPriv 0 900 = Some []"
proof -
  have p: "ParsePID ([''900'', ''77''] ! 0) = Inr 900" by code_simp
  from process_stop_signals [OF demoPriv_stop] p
  have "hs_OpenProcess demoPriv 0 900 = Some 5 \<and> protectedPID demoPriv 0 900 = Some []" by auto
  with demoPriv_stop show ?thesis by blast
qed



lemma demoPriv_tail: "\<forall>p n d. hs_ReadTail demoPriv 0 p n = Some d \<longrightarrow> int (length d) \<le> n"
  by (auto simp: demoPriv_def split: if_splits)

theorem web_errors_bounded_witness:
  "webErrors demoPriv 0 [] = (0, [JSON (JArr [JObj [(''path'', JStr ''/var/log/nginx/error.log''), (''text'', JStr ''boom'')]])], HOk) \<and>
   (\<exists>entries. sum_list (map (length \<circ> snd) entries) \<le> 64 * 1024 \<and> webErrors demoPriv 0 [] =
      (0, [JSON (JArr (map (\<lambda>(p, t). JObj [(''path'', JStr p), (''text'', JStr t)]) entries))], HOk))"
proof
  show "webErrors demoPriv 0 [] = (0, [JSON (JArr [JObj [(''path'', JStr ''/var/log/nginx/error.log''), (''text'', JStr ''boom'')]])], HOk)"
    by code_simp
  from web_errors_bounded [OF demoPriv_tail]
  show "\<exists>entries. sum_list (map (length \<circ> snd) entries) \<le> 64 * 1024 \<and> webErrors demoPriv 0 [] =
      (0, [JSON (JArr (map (\<lambda>(p, t). JObj [(''path'', JStr p), (''text'', JStr t)]) entries))], HOk)"
    by blast
qed

end
