(* ===== verification/Step_Runner.thy ===== *)
theory Step_Runner
  imports Priv_Helper "HOL-Library.Word"
begin

text \<open>
  The agent side of every step: \<^verbatim>\<open>internal/steps/{step,env,disk,runner,priv_client}.go\<close>. \<open>Env\<close> is the
  record of what the steps use (services, Docker, the privilege helper, processes, web requests, disk
  usage, time), as functions over a world \<open>'w\<close>; a nil member is \<open>None\<close>. A method that returns only an
  error is a computation with result \<open>gerr + unit\<close>; \<open>Run\<close> returns its text and an error, both. The last
  section is the command that reaches the helper and the helper as its process.

  \<open>float64\<close> percentages and days are rationals. The text decoder of \<open>encoding/json\<close> and \<open>url.Parse\<close> are
  fields of the environment.
\<close>

section \<open>The environment (env.go)\<close>

record UnitStatus =
  us_LoadState :: string
  us_ActiveState :: string
  us_SubState :: string
  us_NRestarts :: int

record 'w Units =
  un_Action :: "'w \<Rightarrow> string \<Rightarrow> string \<Rightarrow> 'w \<times> (gerr + unit)"
  un_Status :: "'w \<Rightarrow> string \<Rightarrow> 'w \<times> (gerr + UnitStatus)"

record ContainerInfo =
  ci_ID :: string
  ci_Name :: string
  ci_State :: string
  ci_Health :: string
  ci_RestartCount :: int
  ci_ComposeProject :: string
  ci_ComposeService :: string
  ci_Labels :: "(string \<times> string) list"

record 'w Docker =
  dk_Containers :: "'w \<Rightarrow> 'w \<times> (gerr + ContainerInfo list)"
  dk_Restart :: "'w \<Rightarrow> string \<Rightarrow> 'w \<times> (gerr + unit)"
  dk_Start :: "'w \<Rightarrow> string \<Rightarrow> 'w \<times> (gerr + unit)"
  dk_PruneDangling :: "'w \<Rightarrow> 'w \<times> (gerr + int)"
  dk_RootDir :: "'w \<Rightarrow> 'w \<times> (gerr + string)"

text \<open>One helper action: its standard output and its error.\<close>

type_synonym 'w PrivCaller = "'w \<Rightarrow> string \<Rightarrow> string list \<Rightarrow> 'w \<times> string \<times> gerr option"

text \<open>What \<open>url.Parse\<close> says: the scheme, the host name and whether there is user information.\<close>

record urlParts =
  up_Scheme :: string
  up_Hostname :: string
  up_User :: bool

record 'w Env =
  ev_Priv :: "'w PrivCaller option"
  ev_Units :: "'w Units option"
  ev_Docker :: "'w Docker option"
  ev_Procs :: "('w \<Rightarrow> int \<Rightarrow> int option) option"
  ev_HTTP :: "('w \<Rightarrow> string \<Rightarrow> 'w \<times> (gerr + int)) option"
  ev_AllowedURL :: "('w \<Rightarrow> string \<Rightarrow> bool) option"
  ev_DiskPercentAt :: "('w \<Rightarrow> string \<Rightarrow> 'w \<times> (gerr + rat)) option"
  ev_Now :: "'w \<Rightarrow> time"
  ev_Sleep :: "'w \<Rightarrow> duration \<Rightarrow> 'w"
  ev_CtxErr :: "'w \<Rightarrow> gerr option"
  ev_ServiceStable :: duration
  ev_ContainerStable :: duration
  ev_PM2Stable :: duration
  ev_SupervisorStable :: duration
  ev_decodeJSON :: "string \<Rightarrow> json option"
  ev_parseURL :: "string \<Rightarrow> urlParts option"

definition DiskThresholdPercent :: rat where "DiskThresholdPercent = 85"
definition CertMinDays :: rat where "CertMinDays = 30"

definition orDefault :: "duration \<Rightarrow> duration \<Rightarrow> duration" where
  "orDefault d def = (if d > 0 then d else def)"

definition serviceStable :: "'w Env \<Rightarrow> duration" where
  "serviceStable e = orDefault (ev_ServiceStable e) (30 * second)"
definition containerStable :: "'w Env \<Rightarrow> duration" where
  "containerStable e = orDefault (ev_ContainerStable e) (60 * second)"
definition pm2Stable :: "'w Env \<Rightarrow> duration" where
  "pm2Stable e = orDefault (ev_PM2Stable e) (60 * second)"
definition supervisorStable :: "'w Env \<Rightarrow> duration" where
  "supervisorStable e = orDefault (ev_SupervisorStable e) (30 * second)"

text \<open>\<open>sleep\<close>, then the check of the context that follows it everywhere.\<close>

definition sleepCheck :: "'w Env \<Rightarrow> 'w \<Rightarrow> duration \<Rightarrow> 'w \<times> (gerr + unit)" where
  "sleepCheck e w d =
     (case ev_CtxErr e (ev_Sleep e w d) of
        Some err \<Rightarrow> (ev_Sleep e w d, Inl err) | None \<Rightarrow> (ev_Sleep e w d, Inr ()))"

definition fromErr :: "gerr option \<Rightarrow> gerr + unit" where
  "fromErr x = (case x of Some err \<Rightarrow> Inl err | None \<Rightarrow> Inr ())"

definition toRun :: "'w \<times> (gerr + string) \<Rightarrow> 'w \<times> string \<times> gerr option" where
  "toRun r = (case r of (w, Inl err) \<Rightarrow> (w, [], Some err) | (w, Inr out) \<Rightarrow> (w, out, None))"

definition errNoUnits :: gerr where
  "errNoUnits = failure (''This server'' @ CHR 0x27 # ''s service manager is not available.'')"
definition errNoPriv :: gerr where "errNoPriv = failure ''The privilege helper is not available.''"
definition errNoDocker :: gerr where "errNoDocker = failure ''Docker is not available on this server.''"

section \<open>Calling the helper and decoding its answers\<close>

definition callPriv :: "'w Env \<Rightarrow> 'w \<Rightarrow> ID \<Rightarrow> Params \<Rightarrow> 'w \<times> string \<times> gerr option" where
  "callPriv e w i p =
     (case PrivArgs i p of Inl err \<Rightarrow> (w, [], Some err)
      | Inr args \<Rightarrow>
          (case ev_Priv e of None \<Rightarrow> (w, [], Some errNoPriv)
           | Some call \<Rightarrow> (case call w i args of (w, out, err) \<Rightarrow> (w, TrimSpace out, err))))"

text \<open>A read action: its output, or its error.\<close>

definition readPriv :: "'w Env \<Rightarrow> 'w \<Rightarrow> string \<Rightarrow> string list \<Rightarrow> 'w \<times> (gerr + string)" where
  "readPriv e w action args =
     (case ev_Priv e of None \<Rightarrow> (w, Inl errNoPriv)
      | Some call \<Rightarrow>
          (case call w action args of (w, out, Some err) \<Rightarrow> (w, Inl err) | (w, out, None) \<Rightarrow> (w, Inr out)))"

text \<open>
  \<open>json.Unmarshal\<close> into a list of structs: members are matched to fields ignoring case, the last one wins,
  \<open>null\<close> leaves a field alone; a value of another type is an error.
\<close>

fun fieldStr :: "string \<Rightarrow> (string \<times> json) list \<Rightarrow> string \<Rightarrow> string option" where
  "fieldStr f [] s = Some s"
| "fieldStr f ((k, v) # ms) s =
     (if \<not> isField k f then fieldStr f ms s
      else (case v of JStr t \<Rightarrow> fieldStr f ms t | JNull \<Rightarrow> fieldStr f ms s | _ \<Rightarrow> None))"

fun fieldInt :: "string \<Rightarrow> (string \<times> json) list \<Rightarrow> int \<Rightarrow> int option" where
  "fieldInt f [] n = Some n"
| "fieldInt f ((k, v) # ms) n =
     (if \<not> isField k f then fieldInt f ms n
      else (case v of
          JNum q \<Rightarrow> if of_int \<lfloor>q\<rfloor> = q \<and> - (2 ^ 63) \<le> \<lfloor>q\<rfloor> \<and> \<lfloor>q\<rfloor> < 2 ^ 63 then fieldInt f ms \<lfloor>q\<rfloor> else None
        | JNull \<Rightarrow> fieldInt f ms n | _ \<Rightarrow> None))"

fun unmarshalAll :: "((string \<times> json) list \<Rightarrow> 'a option) \<Rightarrow> json list \<Rightarrow> 'a list option" where
  "unmarshalAll dec [] = Some []"
| "unmarshalAll dec (j # js) =
     (case (case j of JObj ms \<Rightarrow> dec ms | JNull \<Rightarrow> dec [] | _ \<Rightarrow> None) of None \<Rightarrow> None
      | Some x \<Rightarrow> map_option (Cons x) (unmarshalAll dec js))"

definition unmarshalList :: "((string \<times> json) list \<Rightarrow> 'a option) \<Rightarrow> json option \<Rightarrow> 'a list option" where
  "unmarshalList dec j =
     (case j of Some (JArr js) \<Rightarrow> unmarshalAll dec js | Some JNull \<Rightarrow> Some [] | _ \<Rightarrow> None)"

definition readList ::
    "'w Env \<Rightarrow> 'w \<Rightarrow> string \<Rightarrow> string list \<Rightarrow> ((string \<times> json) list \<Rightarrow> 'a option) \<Rightarrow> string \<Rightarrow> 'w \<times> (gerr + 'a list)" where
  "readList e w action args dec msg =
     andThen (readPriv e w action args) (\<lambda>w out.
       (w, case unmarshalList dec (ev_decodeJSON e out) of None \<Rightarrow> Inl (failure msg) | Some xs \<Rightarrow> Inr xs))"

section \<open>Services (step.go)\<close>

definition noService :: "string \<Rightarrow> gerr" where
  "noService unit = refuse (''There is no service called '' @ unit @ '' on this server.'')"

definition validateUnitExists :: "'w Env \<Rightarrow> 'w \<Rightarrow> Params \<Rightarrow> 'w \<times> (gerr + unit)" where
  "validateUnitExists e w p =
     andThen (w, fromErr (CheckUnitAllowed (Params_String p ''unit''))) (\<lambda>w _.
       (case ev_Units e of None \<Rightarrow> (w, Inl errNoUnits)
        | Some u \<Rightarrow>
            (case un_Status u w (Params_String p ''unit'') of
               (w, Inl _) \<Rightarrow> (w, Inl (noService (Params_String p ''unit'')))
             | (w, Inr st) \<Rightarrow>
                 (w, if us_LoadState st \<noteq> ''loaded'' then Inl (noService (Params_String p ''unit'')) else Inr ()))))"

definition runUnitAction :: "'w Env \<Rightarrow> 'w \<Rightarrow> Params \<Rightarrow> string \<Rightarrow> 'w \<times> string \<times> gerr option" where
  "runUnitAction e w p verb =
     toRun (andThen (w, fromErr (CheckUnitAllowed (Params_String p ''unit''))) (\<lambda>w _.
       (case ev_Units e of None \<Rightarrow> (w, Inl errNoUnits)
        | Some u \<Rightarrow>
            andThen (un_Action u w (Params_String p ''unit'') verb) (\<lambda>w _.
              (w, Inr (verb @ '' '' @ Params_String p ''unit'' @ '' done.''))))))"

definition verifyActive :: "'w Env \<Rightarrow> 'w \<Rightarrow> string \<Rightarrow> 'w \<times> (gerr + UnitStatus)" where
  "verifyActive e w unit =
     (case ev_Units e of None \<Rightarrow> (w, Inl errNoUnits)
      | Some u \<Rightarrow>
          andThen (un_Status u w unit) (\<lambda>w st.
            (w, if us_ActiveState st \<noteq> ''active''
                then Inl (failure (unit @ '' is '' @ us_ActiveState st @ '', not active.'')) else Inr st)))"

definition verifyActiveStable :: "'w Env \<Rightarrow> 'w \<Rightarrow> string \<Rightarrow> duration \<Rightarrow> 'w \<times> (gerr + unit)" where
  "verifyActiveStable e w unit d =
     andThen (verifyActive e w unit) (\<lambda>w first.
     andThen (sleepCheck e w d) (\<lambda>w _.
     andThen (verifyActive e w unit) (\<lambda>w later.
       (w, if us_NRestarts later \<noteq> us_NRestarts first then Inl (failure (unit @ '' keeps restarting.'')) else Inr ()))))"

definition ServiceRestart_Verify :: "'w Env \<Rightarrow> 'w \<Rightarrow> Params \<Rightarrow> 'w \<times> (gerr + unit)" where
  "ServiceRestart_Verify e w p = verifyActiveStable e w (Params_String p ''unit'') (serviceStable e)"

definition ServiceStart_Verify :: "'w Env \<Rightarrow> 'w \<Rightarrow> Params \<Rightarrow> 'w \<times> (gerr + unit)" where
  "ServiceStart_Verify e w p = andThen (verifyActive e w (Params_String p ''unit'')) (\<lambda>w _. (w, Inr ()))"

definition ServiceStop_Verify :: "'w Env \<Rightarrow> 'w \<Rightarrow> Params \<Rightarrow> 'w \<times> (gerr + unit)" where
  "ServiceStop_Verify e w p =
     (case ev_Units e of None \<Rightarrow> (w, Inl errNoUnits)
      | Some u \<Rightarrow>
          andThen (un_Status u w (Params_String p ''unit'')) (\<lambda>w st.
            (w, if us_ActiveState st = ''active'' \<or> us_ActiveState st = ''activating''
                then Inl (failure (Params_String p ''unit'' @ '' is still running.'')) else Inr ())))"

section \<open>Docker (step.go)\<close>

definition listContainers :: "'w Env \<Rightarrow> 'w \<Rightarrow> 'w \<times> (gerr + ContainerInfo list)" where
  "listContainers e w = (case ev_Docker e of None \<Rightarrow> (w, Inl errNoDocker) | Some d \<Rightarrow> dk_Containers d w)"

definition findContainer :: "'w Env \<Rightarrow> 'w \<Rightarrow> string \<Rightarrow> 'w \<times> (gerr + ContainerInfo)" where
  "findContainer e w name =
     andThen (listContainers e w) (\<lambda>w list.
       (w, case find (\<lambda>c. ci_Name c = name \<or> ci_ID c = name) list of
             None \<Rightarrow> Inl (refuse (''There is no container called '' @ name @ ''.'')) | Some c \<Rightarrow> Inr c))"

definition ContainerRestart_Validate :: "'w Env \<Rightarrow> 'w \<Rightarrow> Params \<Rightarrow> 'w \<times> (gerr + unit)" where
  "ContainerRestart_Validate e w p =
     andThen (w, fromErr (ValidateName ''container'' (Params_String p ''container''))) (\<lambda>w _.
     andThen (findContainer e w (Params_String p ''container'')) (\<lambda>w _. (w, Inr ())))"

text \<open>A container is found only through Docker, so Docker is there when it is restarted.\<close>

definition restartFound :: "'w Env \<Rightarrow> 'w \<Rightarrow> string \<Rightarrow> 'w \<times> (gerr + unit)" where
  "restartFound e w i = (case ev_Docker e of None \<Rightarrow> (w, Inl errNoDocker) | Some d \<Rightarrow> dk_Restart d w i)"

definition ContainerRestart_Run :: "'w Env \<Rightarrow> 'w \<Rightarrow> Params \<Rightarrow> 'w \<times> string \<times> gerr option" where
  "ContainerRestart_Run e w p =
     toRun (andThen (findContainer e w (Params_String p ''container'')) (\<lambda>w c.
            andThen (restartFound e w (ci_ID c)) (\<lambda>w _.
              (w, Inr (''Restarted container '' @ ci_Name c @ ''.'')))))"

definition ContainerRestart_Verify :: "'w Env \<Rightarrow> 'w \<Rightarrow> Params \<Rightarrow> 'w \<times> (gerr + unit)" where
  "ContainerRestart_Verify e w p =
     andThen (findContainer e w (Params_String p ''container'')) (\<lambda>w first.
     if ci_State first \<noteq> ''running''
     then (w, Inl (failure (ci_Name first @ '' is '' @ ci_State first @ '', not running.'')))
     else
       andThen (sleepCheck e w (containerStable e)) (\<lambda>w _.
       andThen (findContainer e w (Params_String p ''container'')) (\<lambda>w later.
         (w, if ci_State later \<noteq> ''running''
             then Inl (failure (ci_Name later @ '' stopped again ('' @ ci_State later @ '').''))
             else if ci_RestartCount later \<noteq> ci_RestartCount first
             then Inl (failure (ci_Name later @ '' keeps restarting.'')) else Inr ()))))"

definition labelComposeDir :: string where "labelComposeDir = ''com.docker.compose.project.working_dir''"
definition labelComposeHash :: string where "labelComposeHash = ''com.docker.compose.config-hash''"
definition labelComposeOneoff :: string where "labelComposeOneoff = ''com.docker.compose.oneoff''"

definition label :: "ContainerInfo \<Rightarrow> string \<Rightarrow> string" where
  "label c k = (case map_of (ci_Labels c) k of None \<Rightarrow> [] | Some v \<Rightarrow> v)"

definition composeContainers :: "'w Env \<Rightarrow> 'w \<Rightarrow> string \<Rightarrow> string \<Rightarrow> 'w \<times> (gerr + ContainerInfo list)" where
  "composeContainers e w project service =
     andThen (listContainers e w) (\<lambda>w list.
       (w, Inr (filter (\<lambda>c. ci_ComposeProject c = project \<and> ci_ComposeService c = service \<and>
                     ToLower (label c labelComposeOneoff) \<noteq> ''true'') list)))"

definition sameCompose :: "ContainerInfo list \<Rightarrow> gerr + ContainerInfo list" where
  "sameCompose cs =
     (case cs of
        [] \<Rightarrow> Inl (refuse ''This service has no containers to start. Run docker compose up for this project yourself.'')
      | c0 # rest \<Rightarrow>
          if label c0 labelComposeHash = [] \<or> label c0 labelComposeDir = []
          then Inl (refuse ''These containers do not say which Compose configuration made them, so Rootmote will not start them.'')
          else if list_ex (\<lambda>c. label c labelComposeHash \<noteq> label c0 labelComposeHash \<or>
                  label c labelComposeDir \<noteq> label c0 labelComposeDir) rest
          then Inl (refuse ''The containers of this service come from different Compose configurations, so Rootmote will not start them.'')
          else Inr cs)"

definition composeTargets :: "'w Env \<Rightarrow> 'w \<Rightarrow> string \<Rightarrow> string \<Rightarrow> 'w \<times> (gerr + ContainerInfo list)" where
  "composeTargets e w project service =
     andThen (w, fromErr (ValidateName ''project'' project)) (\<lambda>w _.
     andThen (w, fromErr (ValidateName ''service'' service)) (\<lambda>w _.
     andThen (composeContainers e w project service) (\<lambda>w cs. (w, sameCompose cs))))"

definition ComposeUp_Validate :: "'w Env \<Rightarrow> 'w \<Rightarrow> Params \<Rightarrow> 'w \<times> (gerr + unit)" where
  "ComposeUp_Validate e w p =
     andThen (composeTargets e w (Params_String p ''project'') (Params_String p ''service'')) (\<lambda>w _. (w, Inr ()))"

definition startOne :: "'w Docker \<Rightarrow> 'w \<Rightarrow> ContainerInfo \<Rightarrow> 'w \<times> (gerr + unit)" where
  "startOne d w c =
     (if ci_State c = ''running'' \<and> ci_Health c \<noteq> ''unhealthy'' then (w, Inr ())
      else if ci_State c \<in> {''exited'', ''created'', ''dead''} then dk_Start d w (ci_ID c)
      else dk_Restart d w (ci_ID c))"

fun startAll :: "'w Docker \<Rightarrow> 'w \<Rightarrow> ContainerInfo list \<Rightarrow> 'w \<times> (gerr + unit)" where
  "startAll d w [] = (w, Inr ())"
| "startAll d w (c # cs) = andThen (startOne d w c) (\<lambda>w _. startAll d w cs)"

definition ComposeUp_Run :: "'w Env \<Rightarrow> 'w \<Rightarrow> Params \<Rightarrow> 'w \<times> string \<times> gerr option" where
  "ComposeUp_Run e w p =
     toRun (andThen (composeTargets e w (Params_String p ''project'') (Params_String p ''service'')) (\<lambda>w cs.
            andThen (case ev_Docker e of None \<Rightarrow> (w, Inl errNoDocker) | Some d \<Rightarrow> startAll d w cs) (\<lambda>w _.
              (w, Inr (''Started '' @ Params_String p ''service'' @ '' in project '' @ Params_String p ''project'' @ ''.'')))))"

definition composeHealthPolls :: nat where "composeHealthPolls = 45"
definition composeSettle :: duration where "composeSettle = 5 * second"

text \<open>One look at the containers: the name of the last one whose health check is still starting, or empty.\<close>

fun composeScan :: "ContainerInfo list \<Rightarrow> string \<Rightarrow> gerr + string" where
  "composeScan [] starting = Inr starting"
| "composeScan (c # cs) starting =
     (if ci_State c \<noteq> ''running'' then Inl (failure (ci_Name c @ '' is '' @ ci_State c @ '', not running.''))
      else if ci_Health c = [] \<or> ci_Health c = ''healthy'' then composeScan cs starting
      else if ci_Health c = ''starting'' then composeScan cs (ci_Name c)
      else Inl (failure (ci_Name c @ '' is '' @ ci_Health c @ ''.'')))"

definition composeLook :: "'w Env \<Rightarrow> 'w \<Rightarrow> string \<Rightarrow> string \<Rightarrow> 'w \<times> (gerr + ContainerInfo list \<times> string)" where
  "composeLook e w project service =
     andThen (composeContainers e w project service) (\<lambda>w cs.
       (w, if cs = [] then Inl (failure (''No container found for '' @ service @ ''.''))
           else (case composeScan cs [] of Inl err \<Rightarrow> Inl err | Inr starting \<Rightarrow> Inr (cs, starting))))"

definition restartCounts :: "ContainerInfo list \<Rightarrow> (string \<times> int) list" where
  "restartCounts cs = rev (map (\<lambda>c. (ci_ID c, ci_RestartCount c)) cs)"

definition settledCheck :: "(string \<times> int) list \<Rightarrow> ContainerInfo list \<Rightarrow> gerr + unit" where
  "settledCheck settled cs =
     (case find (\<lambda>c. map_of settled (ci_ID c) \<noteq> Some (ci_RestartCount c)) cs of
        None \<Rightarrow> Inr () | Some c \<Rightarrow> Inl (failure (ci_Name c @ '' keeps restarting.'')))"

text \<open>
  The loop of \<open>ComposeUp.Verify\<close>; \<open>settled\<close> is \<open>None\<close> when the Go map is nil. It ends: \<open>poll\<close> only grows, a
  starting container ends it from poll 45 on, and a settled look is followed by a verdict.
\<close>

function composeVerify ::
    "'w Env \<Rightarrow> string \<Rightarrow> string \<Rightarrow> nat \<Rightarrow> (string \<times> int) list option \<Rightarrow> 'w \<Rightarrow> 'w \<times> (gerr + unit)" where
  "composeVerify e project service poll settled w =
     (case composeLook e w project service of
        (w, Inl err) \<Rightarrow> (w, Inl err)
      | (w, Inr (cs, starting)) \<Rightarrow>
          if starting = [] then
            (case settled of
               Some m \<Rightarrow> (w, settledCheck m cs)
             | None \<Rightarrow>
                 (case sleepCheck e w composeSettle of
                    (w, Inl err) \<Rightarrow> (w, Inl err)
                  | (w, Inr _) \<Rightarrow> composeVerify e project service (Suc poll) (Some (restartCounts cs)) w))
          else if poll \<ge> composeHealthPolls
          then (w, Inl (failure (starting @ '' is still starting its health check.'')))
          else
            (case sleepCheck e w (2 * second) of
               (w, Inl err) \<Rightarrow> (w, Inl err)
             | (w, Inr _) \<Rightarrow> composeVerify e project service (Suc poll) None w))"
  by pat_completeness auto
termination
  by (relation "measure (\<lambda>(_, _, _, poll, settled, _).
        2 * (46 - poll) + (case settled of None \<Rightarrow> 1 | Some _ \<Rightarrow> 0))")
    (auto simp: composeHealthPolls_def split: option.splits)

declare composeVerify.simps [simp del]

definition ComposeUp_Verify :: "'w Env \<Rightarrow> 'w \<Rightarrow> Params \<Rightarrow> 'w \<times> (gerr + unit)" where
  "ComposeUp_Verify e w p =
     composeVerify e (Params_String p ''project'') (Params_String p ''service'') 0 None w"

section \<open>PM2, nginx, PHP-FPM and Supervisor (step.go)\<close>

definition decodePM2 :: "(string \<times> json) list \<Rightarrow> pm2App option" where
  "decodePM2 ms =
     (case (fieldStr ''app'' ms [], fieldStr ''status'' ms [], fieldInt ''restarts'' ms 0) of
        (Some a, Some s, Some r) \<Rightarrow> Some (a, s, r) | _ \<Rightarrow> None)"

definition pm2List :: "'w Env \<Rightarrow> 'w \<Rightarrow> string \<Rightarrow> 'w \<times> (gerr + pm2App list)" where
  "pm2List e w user = readList e w ''pm2-list'' [user] decodePM2 ''Could not read the PM2 app list.''"

definition pm2Find :: "'w Env \<Rightarrow> 'w \<Rightarrow> string \<Rightarrow> string \<Rightarrow> 'w \<times> (gerr + pm2App)" where
  "pm2Find e w user app =
     andThen (pm2List e w user) (\<lambda>w apps.
       (w, case find (\<lambda>a. fst a = app) apps of
             None \<Rightarrow> Inl (refuse (''There is no PM2 app called '' @ app @ '' for user '' @ user @ ''.''))
           | Some a \<Rightarrow> Inr a))"

definition argsOK :: "ID \<Rightarrow> Params \<Rightarrow> gerr + unit" where
  "argsOK i p = (case PrivArgs i p of Inl err \<Rightarrow> Inl err | Inr _ \<Rightarrow> Inr ())"

definition PM2Restart_Validate :: "'w Env \<Rightarrow> 'w \<Rightarrow> Params \<Rightarrow> 'w \<times> (gerr + unit)" where
  "PM2Restart_Validate e w p =
     andThen (w, argsOK PM2RestartID p) (\<lambda>w _.
     andThen (pm2Find e w (Params_String p ''user'') (Params_String p ''app'')) (\<lambda>w _. (w, Inr ())))"

definition PM2Restart_Verify :: "'w Env \<Rightarrow> 'w \<Rightarrow> Params \<Rightarrow> 'w \<times> (gerr + unit)" where
  "PM2Restart_Verify e w p =
     andThen (pm2Find e w (Params_String p ''user'') (Params_String p ''app'')) (\<lambda>w (app1, st1, n1).
     if st1 \<noteq> ''online'' then (w, Inl (failure (app1 @ '' is '' @ st1 @ '', not online.'')))
     else
       andThen (sleepCheck e w (pm2Stable e)) (\<lambda>w _.
       andThen (pm2Find e w (Params_String p ''user'') (Params_String p ''app'')) (\<lambda>w (app2, st2, n2).
         (w, if st2 \<noteq> ''online'' then Inl (failure (app2 @ '' went '' @ st2 @ '' again.''))
             else if n2 \<noteq> n1 then Inl (failure (app2 @ '' keeps restarting.'')) else Inr ()))))"

definition NginxReload_Validate :: "'w Env \<Rightarrow> 'w \<Rightarrow> Params \<Rightarrow> 'w \<times> (gerr + unit)" where
  "NginxReload_Validate e w p =
     (case ev_Units e of None \<Rightarrow> (w, Inl errNoUnits)
      | Some u \<Rightarrow>
          (case un_Status u w ''nginx.service'' of
             (w, Inl _) \<Rightarrow> (w, Inl (refuse ''nginx is not installed on this server.''))
           | (w, Inr st) \<Rightarrow>
               (w, if us_LoadState st \<noteq> ''loaded''
                   then Inl (refuse ''nginx is not installed on this server.'') else Inr ())))"

definition NginxReload_Verify :: "'w Env \<Rightarrow> 'w \<Rightarrow> Params \<Rightarrow> 'w \<times> (gerr + unit)" where
  "NginxReload_Verify e w p =
     andThen (verifyActive e w ''nginx.service'') (\<lambda>w _.
       (case ev_Priv e of None \<Rightarrow> (w, Inl errNoPriv)
        | Some call \<Rightarrow>
            (case call w ''nginx-test'' [] of
               (w, _, Some err) \<Rightarrow>
                 (w, Inl (GErr (is_refused err) (''The nginx settings test failed: '' @ err_msg err)))
             | (w, _, None) \<Rightarrow> (w, Inr ()))))"

definition PHPFPMRestart_Validate :: "'w Env \<Rightarrow> 'w \<Rightarrow> Params \<Rightarrow> 'w \<times> (gerr + unit)" where
  "PHPFPMRestart_Validate e w p =
     andThen (w, fromErr (ValidatePHPUnit (Params_String p ''unit''))) (\<lambda>w _. validateUnitExists e w p)"

definition PHPFPMRestart_Verify :: "'w Env \<Rightarrow> 'w \<Rightarrow> Params \<Rightarrow> 'w \<times> (gerr + unit)" where
  "PHPFPMRestart_Verify e w p = andThen (verifyActive e w (Params_String p ''unit'')) (\<lambda>w _. (w, Inr ()))"

definition decodeProgram :: "(string \<times> json) list \<Rightarrow> supervisorProgram option" where
  "decodeProgram ms =
     (case (fieldStr ''name'' ms [], fieldStr ''state'' ms []) of
        (Some n, Some s) \<Rightarrow> Some (n, s) | _ \<Rightarrow> None)"

definition supervisorList :: "'w Env \<Rightarrow> 'w \<Rightarrow> 'w \<times> (gerr + supervisorProgram list)" where
  "supervisorList e w =
     readList e w ''supervisor-status'' [] decodeProgram ''Could not read the Supervisor program list.''"

definition noProgram :: "string \<Rightarrow> gerr" where
  "noProgram program = refuse (''There is no Supervisor program called '' @ program @ ''.'')"

definition supervisorRunning :: "'w Env \<Rightarrow> 'w \<Rightarrow> string \<Rightarrow> 'w \<times> (gerr + unit)" where
  "supervisorRunning e w program =
     andThen (supervisorList e w) (\<lambda>w list.
       (w, if MatchSupervisor list program = [] then Inl (noProgram program)
           else (case find (\<lambda>s. snd s \<noteq> ''RUNNING'') (MatchSupervisor list program) of
               None \<Rightarrow> Inr () | Some s \<Rightarrow> Inl (failure (fst s @ '' is '' @ snd s @ ''.'')))))"

definition SupervisorRestart_Validate :: "'w Env \<Rightarrow> 'w \<Rightarrow> Params \<Rightarrow> 'w \<times> (gerr + unit)" where
  "SupervisorRestart_Validate e w p =
     andThen (w, argsOK SupervisorRestartID p) (\<lambda>w _.
     andThen (supervisorList e w) (\<lambda>w list.
       (w, if MatchSupervisor list (Params_String p ''program'') = []
           then Inl (noProgram (Params_String p ''program'')) else Inr ())))"

definition SupervisorRestart_Verify :: "'w Env \<Rightarrow> 'w \<Rightarrow> Params \<Rightarrow> 'w \<times> (gerr + unit)" where
  "SupervisorRestart_Verify e w p =
     andThen (supervisorRunning e w (Params_String p ''program'')) (\<lambda>w _.
     andThen (sleepCheck e w (supervisorStable e)) (\<lambda>w _.
       supervisorRunning e w (Params_String p ''program'')))"

section \<open>Disk (step.go)\<close>

definition JournalDir :: string where "JournalDir = ''/var/log/journal''"
definition AptCacheDir :: string where "AptCacheDir = ''/var/cache/apt''"

definition DiskStepPath :: "'w Env \<Rightarrow> 'w \<Rightarrow> ID \<Rightarrow> 'w \<times> (gerr + string)" where
  "DiskStepPath e w i =
     (if i = JournalVacuumID then (w, Inr JournalDir)
      else if i = AptCleanID then (w, Inr AptCacheDir)
      else if i = DockerPruneID then
        (case ev_Docker e of None \<Rightarrow> (w, Inl errNoDocker)
         | Some d \<Rightarrow>
             andThen (dk_RootDir d w) (\<lambda>w dir.
               (w, if dir = [] then Inl (failure ''Docker did not report where it keeps its data.'') else Inr dir)))
      else (w, Inl (failure (i @ '' does not free disk space.''))))"

definition verifyDisk :: "'w Env \<Rightarrow> 'w \<Rightarrow> ID \<Rightarrow> 'w \<times> (gerr + unit)" where
  "verifyDisk e w i =
     (case ev_DiskPercentAt e of None \<Rightarrow> (w, Inl (failure ''Disk usage is not available.''))
      | Some percent \<Rightarrow>
          andThen (DiskStepPath e w i) (\<lambda>w dir.
          andThen (percent w dir) (\<lambda>w pct.
            (w, if pct \<ge> DiskThresholdPercent
                then Inl (failure (''The disk that holds '' @ dir @ '' is still '' @ formatF0 pct @ ''% full.''))
                else Inr ()))))"

definition DockerPrune_Validate :: "'w Env \<Rightarrow> 'w \<Rightarrow> Params \<Rightarrow> 'w \<times> (gerr + unit)" where
  "DockerPrune_Validate e w p = (w, case ev_Docker e of None \<Rightarrow> Inl errNoDocker | Some _ \<Rightarrow> Inr ())"

text \<open>The division truncates toward zero.\<close>

definition megabytes :: "int \<Rightarrow> int" where
  "megabytes n = (if n < 0 then - (- n div 1048576) else n div 1048576)"

definition DockerPrune_Run :: "'w Env \<Rightarrow> 'w \<Rightarrow> Params \<Rightarrow> 'w \<times> string \<times> gerr option" where
  "DockerPrune_Run e w p =
     toRun (case ev_Docker e of None \<Rightarrow> (w, Inl errNoDocker)
       | Some d \<Rightarrow>
           andThen (dk_PruneDangling d w) (\<lambda>w freed.
             (w, Inr (''Freed '' @ Itoa (megabytes freed) @ '' MB of Docker images and build cache.''))))"

section \<open>Certificates (step.go)\<close>

text \<open>
  \<open>time.Time\<close> in JSON: RFC 3339 with an optional fraction (nanoseconds kept) and a zone, \<open>Z\<close> or an offset.
\<close>

definition daysOfCivil :: "int \<Rightarrow> int \<Rightarrow> int \<Rightarrow> int" where
  "daysOfCivil y m d =
     (let y = (if m \<le> 2 then y - 1 else y); era = y div 400; yoe = y - era * 400;
          doy = (153 * (if m > 2 then m - 3 else m + 9) + 2) div 5 + d - 1
      in era * 146097 + yoe * 365 + yoe div 4 - yoe div 100 + doy - 719468)"

definition daysInMonth :: "int \<Rightarrow> int \<Rightarrow> int" where
  "daysInMonth y m =
     (if m = 2 then (if 4 dvd y \<and> (\<not> 100 dvd y \<or> 400 dvd y) then 29 else 28)
      else if m \<in> {4, 6, 9, 11} then 30 else 31)"

definition digitsAt :: "string \<Rightarrow> nat \<Rightarrow> nat \<Rightarrow> int option" where
  "digitsAt s i n =
     (let t = take n (drop i s) in if length t = n \<and> list_all isDigit t then Some (decInt t) else None)"

definition fractionNanos :: "string \<Rightarrow> int" where
  "fractionNanos ds = decInt (take 9 (ds @ ''000000000''))"

definition zoneSeconds :: "string \<Rightarrow> int option" where
  "zoneSeconds s =
     (if s = ''Z'' then Some 0
      else if length s = 6 \<and> s ! 3 = CHR '':'' \<and> (s ! 0 = CHR ''+'' \<or> s ! 0 = CHR ''-'') then
        (case (digitsAt s 1 2, digitsAt s 4 2) of
           (Some h, Some m) \<Rightarrow>
             if h \<le> 23 \<and> m \<le> 59 then Some ((if s ! 0 = CHR ''-'' then - 1 else 1) * (h * 3600 + m * 60)) else None
         | _ \<Rightarrow> None)
      else None)"

definition dateSeconds :: "string \<Rightarrow> int option" where
  "dateSeconds s =
     (if length s < 20 \<or> s ! 4 \<noteq> CHR ''-'' \<or> s ! 7 \<noteq> CHR ''-'' \<or> s ! 10 \<noteq> CHR ''T'' \<or> s ! 13 \<noteq> CHR '':'' \<or> s ! 16 \<noteq> CHR '':''
      then None
      else (case (digitsAt s 0 4, digitsAt s 5 2, digitsAt s 8 2, digitsAt s 11 2, digitsAt s 14 2, digitsAt s 17 2) of
          (Some y, Some mo, Some d, Some h, Some mi, Some sec) \<Rightarrow>
            if 1 \<le> mo \<and> mo \<le> 12 \<and> 1 \<le> d \<and> d \<le> daysInMonth y mo \<and> h \<le> 23 \<and> mi \<le> 59 \<and> sec \<le> 59
            then Some (daysOfCivil y mo d * 86400 + h * 3600 + mi * 60 + sec) else None
        | _ \<Rightarrow> None))"

definition parseTime :: "string \<Rightarrow> time option" where
  "parseTime s =
     (case dateSeconds s of None \<Rightarrow> None
      | Some sec \<Rightarrow>
          (let rest = drop 19 s; ds = takeWhile isDigit (tl rest);
               frac = hd rest = CHR ''.''; zone = (if frac then drop (Suc (length ds)) rest else rest) in
           if frac \<and> ds = [] then None
           else map_option (\<lambda>off. fromUnix (sec - off) + (if frac then fractionNanos ds else 0)) (zoneSeconds zone)))"

fun fieldTime :: "string \<Rightarrow> (string \<times> json) list \<Rightarrow> time \<Rightarrow> time option" where
  "fieldTime f [] t = Some t"
| "fieldTime f ((k, v) # ms) t =
     (if \<not> isField k f then fieldTime f ms t
      else (case v of
          JStr s \<Rightarrow> (case parseTime s of None \<Rightarrow> None | Some t' \<Rightarrow> fieldTime f ms t')
        | JNull \<Rightarrow> fieldTime f ms t | _ \<Rightarrow> None))"

type_synonym certInfo = "string \<times> time"

definition decodeCert :: "(string \<times> json) list \<Rightarrow> certInfo option" where
  "decodeCert ms =
     (case (fieldStr ''name'' ms [], fieldTime ''expiresat'' ms zeroTime) of
        (Some n, Some t) \<Rightarrow> Some (n, t) | _ \<Rightarrow> None)"

definition certList :: "'w Env \<Rightarrow> 'w \<Rightarrow> 'w \<times> (gerr + certInfo list)" where
  "certList e w = readList e w ''certs-list'' [] decodeCert ''Could not read the certificate list.''"

definition noCert :: "string \<Rightarrow> gerr" where
  "noCert name = refuse (''There is no certificate called '' @ name @ '' on this server.'')"

definition CertRenew_Validate :: "'w Env \<Rightarrow> 'w \<Rightarrow> Params \<Rightarrow> 'w \<times> (gerr + unit)" where
  "CertRenew_Validate e w p =
     andThen (w, fromErr (ValidateCertName (Params_String p ''name''))) (\<lambda>w _.
     andThen (certList e w) (\<lambda>w list.
       (w, if Params_String p ''name'' \<in> fst ` set list then Inr () else Inl (noCert (Params_String p ''name'')))))"

definition certDays :: "time \<Rightarrow> time \<Rightarrow> rat" where
  "certDays expires now = of_int (TimeSub expires now) / of_int (24 * 3600 * second)"

definition CertRenew_Verify :: "'w Env \<Rightarrow> 'w \<Rightarrow> Params \<Rightarrow> 'w \<times> (gerr + unit)" where
  "CertRenew_Verify e w p =
     andThen (certList e w) (\<lambda>w list.
       (w, case find (\<lambda>c. fst c = Params_String p ''name'') list of
             None \<Rightarrow> Inl (noCert (Params_String p ''name''))
           | Some c \<Rightarrow>
               if certDays (snd c) (ev_Now e w) \<le> CertMinDays
               then Inl (failure (''The certificate still expires in '' @
                      formatF0 (certDays (snd c) (ev_Now e w)) @ '' days.''))
               else Inr ()))"

section \<open>Processes, firewall and web addresses (step.go)\<close>

definition ProcessStop_Validate :: "'w Env \<Rightarrow> 'w \<Rightarrow> Params \<Rightarrow> 'w \<times> (gerr + unit)" where
  "ProcessStop_Validate e w p =
     (case PrivArgs ProcessStopID p of Inl err \<Rightarrow> (w, Inl err)
      | Inr args \<Rightarrow>
          (w, case ev_Procs e of None \<Rightarrow> Inr ()
            | Some startTime \<Rightarrow>
                (case startTime w (intOrZero (Params_Int p ''pid'')) of
                   None \<Rightarrow> Inl (refuse (''Process '' @ hd args @ '' is not running.''))
                 | Some ticks \<Rightarrow>
                     if ticks \<noteq> intOrZero (Params_Uint p ''start_time'')
                     then Inl (refuse (''Process '' @ hd args @ '' is no longer the same program.'')) else Inr ())))"

definition ProcessStop_Verify :: "'w Env \<Rightarrow> 'w \<Rightarrow> Params \<Rightarrow> 'w \<times> (gerr + unit)" where
  "ProcessStop_Verify e w p =
     (w, case ev_Procs e of None \<Rightarrow> Inl (failure ''Process information is not available.'')
       | Some startTime \<Rightarrow>
           if startTime w (intOrZero (Params_Int p ''pid'')) = Some (intOrZero (Params_Uint p ''start_time''))
           then Inl (failure (''Process '' @ Itoa (intOrZero (Params_Int p ''pid'')) @ '' is still running.''))
           else Inr ())"

type_synonym firewallRule = "int \<times> string"

definition decodeRule :: "(string \<times> json) list \<Rightarrow> firewallRule option" where
  "decodeRule ms =
     (case (fieldInt ''port'' ms 0, fieldStr ''proto'' ms []) of
        (Some p, Some t) \<Rightarrow> Some (p, t) | _ \<Rightarrow> None)"

definition firewallHas :: "'w Env \<Rightarrow> 'w \<Rightarrow> Params \<Rightarrow> 'w \<times> (gerr + bool)" where
  "firewallHas e w p =
     andThen (readList e w ''firewall-rules'' [] decodeRule ''Could not read the firewall rules.'') (\<lambda>w rules.
       (w, Inr ((intOrZero (Params_Int p ''port''), Params_String p ''proto'') \<in> set rules)))"

definition FirewallAllow_Verify :: "'w Env \<Rightarrow> 'w \<Rightarrow> Params \<Rightarrow> 'w \<times> (gerr + unit)" where
  "FirewallAllow_Verify e w p =
     andThen (firewallHas e w p) (\<lambda>w found.
       (w, if \<not> found then Inl (failure ''The firewall rule was not found.'') else Inr ()))"

definition FirewallRemove_Verify :: "'w Env \<Rightarrow> 'w \<Rightarrow> Params \<Rightarrow> 'w \<times> (gerr + unit)" where
  "FirewallRemove_Verify e w p =
     andThen (firewallHas e w p) (\<lambda>w found.
       (w, if found then Inl (failure ''The firewall rule is still there.'') else Inr ()))"

definition CheckHTTP_Validate :: "'w Env \<Rightarrow> 'w \<Rightarrow> Params \<Rightarrow> 'w \<times> (gerr + unit)" where
  "CheckHTTP_Validate e w p =
     (w, case ev_parseURL e (Params_String p ''url'') of
           None \<Rightarrow> Inl (refuse ''That web address is not allowed.'')
         | Some u \<Rightarrow>
             if up_Scheme u \<noteq> ''http'' \<and> up_Scheme u \<noteq> ''https'' \<or> up_Hostname u = [] \<or> up_User u
             then Inl (refuse ''That web address is not allowed.'')
             else (case ev_AllowedURL e of
                 None \<Rightarrow> Inl (refuse ''Rootmote only checks web addresses that belong to this server.'')
               | Some allowed \<Rightarrow>
                   if \<not> allowed w (Params_String p ''url'')
                   then Inl (refuse ''Rootmote only checks web addresses that belong to this server.'') else Inr ()))"

definition CheckHTTP_get :: "'w Env \<Rightarrow> 'w \<Rightarrow> Params \<Rightarrow> 'w \<times> (gerr + int)" where
  "CheckHTTP_get e w p =
     andThen (CheckHTTP_Validate e w p) (\<lambda>w _.
       (case ev_HTTP e of None \<Rightarrow> (w, Inl (failure ''Web checks are not available.''))
        | Some get \<Rightarrow>
            (case get w (Params_String p ''url'') of
               (w, Inl err) \<Rightarrow> (w, Inl (GErr (is_refused err) (''The address did not answer: '' @ err_msg err)))
             | (w, Inr status) \<Rightarrow>
                 (w, if status < 200 \<or> status \<ge> 400
                     then Inl (failure (''The address answered with status '' @ Itoa status @ ''.'')) else Inr status))))"

definition CheckHTTP_Run :: "'w Env \<Rightarrow> 'w \<Rightarrow> Params \<Rightarrow> 'w \<times> string \<times> gerr option" where
  "CheckHTTP_Run e w p =
     toRun (andThen (CheckHTTP_get e w p) (\<lambda>w status.
       (w, Inr (Params_String p ''url'' @ '' answered '' @ Itoa status @ ''.''))))"

definition CheckHTTP_Verify :: "'w Env \<Rightarrow> 'w \<Rightarrow> Params \<Rightarrow> 'w \<times> (gerr + unit)" where
  "CheckHTTP_Verify e w p = andThen (CheckHTTP_get e w p) (\<lambda>w _. (w, Inr ()))"

section \<open>The methods of every step type (step.go)\<close>

fun stepValidate :: "step \<Rightarrow> 'w Env \<Rightarrow> 'w \<Rightarrow> Params \<Rightarrow> 'w \<times> (gerr + unit)" where
  "stepValidate ServiceRestart e w p = validateUnitExists e w p"
| "stepValidate ServiceStart e w p = validateUnitExists e w p"
| "stepValidate ServiceStop e w p = validateUnitExists e w p"
| "stepValidate ServiceReload e w p = validateUnitExists e w p"
| "stepValidate ContainerRestart e w p = ContainerRestart_Validate e w p"
| "stepValidate ComposeUp e w p = ComposeUp_Validate e w p"
| "stepValidate PM2Restart e w p = PM2Restart_Validate e w p"
| "stepValidate NginxReload e w p = NginxReload_Validate e w p"
| "stepValidate PHPFPMRestart e w p = PHPFPMRestart_Validate e w p"
| "stepValidate SupervisorRestart e w p = SupervisorRestart_Validate e w p"
| "stepValidate JournalVacuum e w p = (w, argsOK JournalVacuumID p)"
| "stepValidate DockerPrune e w p = DockerPrune_Validate e w p"
| "stepValidate AptClean e w p = (w, Inr ())"
| "stepValidate CertRenew e w p = CertRenew_Validate e w p"
| "stepValidate ProcessStop e w p = ProcessStop_Validate e w p"
| "stepValidate FirewallAllow e w p = (w, argsOK FirewallAllowID p)"
| "stepValidate FirewallRemove e w p = (w, argsOK FirewallRemoveID p)"
| "stepValidate CheckHTTP e w p = CheckHTTP_Validate e w p"

fun stepRun :: "step \<Rightarrow> 'w Env \<Rightarrow> 'w \<Rightarrow> Params \<Rightarrow> 'w \<times> string \<times> gerr option" where
  "stepRun ServiceRestart e w p = runUnitAction e w p ''restart''"
| "stepRun ServiceStart e w p = runUnitAction e w p ''start''"
| "stepRun ServiceStop e w p = runUnitAction e w p ''stop''"
| "stepRun ServiceReload e w p = runUnitAction e w p ''reload''"
| "stepRun ContainerRestart e w p = ContainerRestart_Run e w p"
| "stepRun ComposeUp e w p = ComposeUp_Run e w p"
| "stepRun PM2Restart e w p = callPriv e w PM2RestartID p"
| "stepRun NginxReload e w p = callPriv e w NginxReloadID p"
| "stepRun PHPFPMRestart e w p = callPriv e w PHPFPMRestartID p"
| "stepRun SupervisorRestart e w p = callPriv e w SupervisorRestartID p"
| "stepRun JournalVacuum e w p = callPriv e w JournalVacuumID p"
| "stepRun DockerPrune e w p = DockerPrune_Run e w p"
| "stepRun AptClean e w p = callPriv e w AptCleanID p"
| "stepRun CertRenew e w p = callPriv e w CertRenewID p"
| "stepRun ProcessStop e w p = callPriv e w ProcessStopID p"
| "stepRun FirewallAllow e w p = callPriv e w FirewallAllowID p"
| "stepRun FirewallRemove e w p = callPriv e w FirewallRemoveID p"
| "stepRun CheckHTTP e w p = CheckHTTP_Run e w p"

fun stepVerify :: "step \<Rightarrow> 'w Env \<Rightarrow> 'w \<Rightarrow> Params \<Rightarrow> 'w \<times> (gerr + unit)" where
  "stepVerify ServiceRestart e w p = ServiceRestart_Verify e w p"
| "stepVerify ServiceStart e w p = ServiceStart_Verify e w p"
| "stepVerify ServiceStop e w p = ServiceStop_Verify e w p"
| "stepVerify ServiceReload e w p = ServiceStart_Verify e w p"
| "stepVerify ContainerRestart e w p = ContainerRestart_Verify e w p"
| "stepVerify ComposeUp e w p = ComposeUp_Verify e w p"
| "stepVerify PM2Restart e w p = PM2Restart_Verify e w p"
| "stepVerify NginxReload e w p = NginxReload_Verify e w p"
| "stepVerify PHPFPMRestart e w p = PHPFPMRestart_Verify e w p"
| "stepVerify SupervisorRestart e w p = SupervisorRestart_Verify e w p"
| "stepVerify JournalVacuum e w p = verifyDisk e w JournalVacuumID"
| "stepVerify DockerPrune e w p = verifyDisk e w DockerPruneID"
| "stepVerify AptClean e w p = verifyDisk e w AptCleanID"
| "stepVerify CertRenew e w p = CertRenew_Verify e w p"
| "stepVerify ProcessStop e w p = ProcessStop_Verify e w p"
| "stepVerify FirewallAllow e w p = FirewallAllow_Verify e w p"
| "stepVerify FirewallRemove e w p = FirewallRemove_Verify e w p"
| "stepVerify CheckHTTP e w p = CheckHTTP_Verify e w p"

section \<open>The runner (runner.go)\<close>

definition runnerStep :: "ID \<Rightarrow> gerr + step" where
  "runnerStep i =
     (case Lookup i of None \<Rightarrow> Inl (refuse ([CHR 0x22] @ i @ [CHR 0x22] @ '' is not a known fix step.'')) | Some s \<Rightarrow> Inr s)"

definition runnerValidate :: "'w Env \<Rightarrow> 'w \<Rightarrow> ID \<Rightarrow> Params \<Rightarrow> 'w \<times> (gerr + unit)" where
  "runnerValidate e w i p = (case runnerStep i of Inl err \<Rightarrow> (w, Inl err) | Inr s \<Rightarrow> stepValidate s e w p)"

definition runnerExecute :: "'w Env \<Rightarrow> 'w \<Rightarrow> ID \<Rightarrow> Params \<Rightarrow> 'w \<times> string \<times> gerr option" where
  "runnerExecute e w i p =
     (case runnerStep i of Inl err \<Rightarrow> (w, [], Some err)
      | Inr s \<Rightarrow>
          (case stepValidate s e w p of
             (w, Inl err) \<Rightarrow> (w, [], Some err)
           | (w, Inr _) \<Rightarrow> stepRun s e w p))"

definition runnerVerify :: "'w Env \<Rightarrow> 'w \<Rightarrow> ID \<Rightarrow> Params \<Rightarrow> 'w \<times> (gerr + unit)" where
  "runnerVerify e w i p = (case runnerStep i of Inl err \<Rightarrow> (w, Inl err) | Inr s \<Rightarrow> stepVerify s e w p)"

section \<open>Mounted disks (disk.go)\<close>

definition pathWithin :: "string \<Rightarrow> string \<Rightarrow> bool" where
  "pathWithin mount path \<longleftrightarrow> mount = ''/'' \<or> path = mount \<or> HasPrefix path (mount @ ''/'')"

definition isOctal :: "char \<Rightarrow> bool" where
  "isOctal c \<longleftrightarrow> 48 \<le> (of_char c :: nat) \<and> (of_char c :: nat) \<le> 55"

definition octalByte :: "char \<Rightarrow> char \<Rightarrow> char \<Rightarrow> char" where
  "octalByte a b c = char_of (((of_char a - 48) * 64 + (of_char b - 48) * 8 + (of_char c - 48)) mod (256 :: nat))"

text \<open>A backslash followed by three octal digits stands for one byte; everything else for itself.\<close>

fun unescapeMountField :: "string \<Rightarrow> string" where
  "unescapeMountField (c # x # y # z # cs) =
     (if c = CHR 0x5C \<and> isOctal x \<and> isOctal y \<and> isOctal z then octalByte x y z # unescapeMountField cs
      else c # unescapeMountField (x # y # z # cs))"
| "unescapeMountField s = s"

definition mountLine :: "string \<Rightarrow> string \<Rightarrow> string option" where
  "mountLine path l =
     (let f = Fields l in
      if length f < 5 then None
      else if pathWithin (unescapeMountField (f ! 4)) path then Some (unescapeMountField (f ! 4)) else None)"

definition betterMount :: "string option \<Rightarrow> string \<Rightarrow> string option" where
  "betterMount best mp =
     (case best of None \<Rightarrow> Some mp | Some b \<Rightarrow> if length mp \<ge> length b then Some mp else Some b)"

definition mountPointFrom :: "string \<Rightarrow> string \<Rightarrow> gerr + string" where
  "mountPointFrom mountinfo path =
     (case foldl betterMount None (List.map_filter (mountLine path) (Split (CHR 0x0A) mountinfo)) of
        None \<Rightarrow> Inl (failure (''Could not find the disk that holds '' @ path @ ''.'')) | Some b \<Rightarrow> Inr b)"

text \<open>\<open>st\<close>: what \<open>statfs\<close> gives, blocks, available blocks and the block size.\<close>

definition statfsPercent :: "string \<Rightarrow> string + 64 word \<times> 64 word \<times> 64 word \<Rightarrow> gerr + rat" where
  "statfsPercent mount st =
     (case st of Inl e \<Rightarrow> Inl (failure (''Could not read disk usage for '' @ mount @ '': '' @ e))
      | Inr (blocks, bavail, bsize) \<Rightarrow>
          (let total = blocks * bsize; avail = bavail * bsize in
           if total = 0 then Inl (failure (''Disk usage for '' @ mount @ '' is not available.''))
           else Inr (of_int (uint (total - avail)) * 100 / of_int (uint total))))"

definition MountPointOf :: "string + string \<Rightarrow> string \<Rightarrow> gerr + string" where
  "MountPointOf mountinfo path =
     (case mountinfo of Inl e \<Rightarrow> Inl (failure (''Could not read the list of mounted disks: '' @ e))
      | Inr raw \<Rightarrow> mountPointFrom raw path)"

definition DiskPercentAtPath ::
    "string + string \<Rightarrow> (string \<Rightarrow> string + 64 word \<times> 64 word \<times> 64 word) \<Rightarrow> string \<Rightarrow> gerr + rat" where
  "DiskPercentAtPath mountinfo statfs path =
     (case MountPointOf mountinfo path of Inl e \<Rightarrow> Inl e | Inr mp \<Rightarrow> statfsPercent mp (statfs mp))"

section \<open>Reaching the helper (priv\_client.go)\<close>

definition HelperPath :: string where "HelperPath = ''/usr/local/bin/rootmote-agent''"

definition PrivCommand :: "bool \<Rightarrow> string \<Rightarrow> string list \<Rightarrow> string list" where
  "PrivCommand asRoot action args =
     (if asRoot then HelperPath # ''priv'' # action # args
      else [''sudo'', ''-n'', HelperPath, ''priv'', action] @ args)"

text \<open>How a process ends: successfully, with an exit status, or not at all by itself (with the text of the error).\<close>

datatype cmdEnd = CmdOk | CmdExit int | CmdErr string

definition cmdError :: "cmdEnd \<Rightarrow> string" where
  "cmdError r = (case r of CmdOk \<Rightarrow> [] | CmdExit n \<Rightarrow> ''exit status '' @ Itoa n | CmdErr e \<Rightarrow> e)"

definition callResult :: "'w \<Rightarrow> string \<Rightarrow> string \<Rightarrow> cmdEnd \<Rightarrow> 'w \<times> string \<times> gerr option" where
  "callResult w stdout stderr r =
     (if r = CmdOk then (w, stdout, None)
      else if r = CmdExit ExitRefused \<and> TrimSpace stderr \<noteq> [] then (w, [], Some (refuse (TrimSpace stderr)))
      else (w, stdout, Some (failure (if TrimSpace stderr = [] then cmdError r else TrimSpace stderr))))"

definition ExecPriv :: "bool \<Rightarrow> ('w \<Rightarrow> string list \<Rightarrow> 'w \<times> string \<times> string \<times> cmdEnd) \<Rightarrow> 'w PrivCaller" where
  "ExecPriv asRoot exec w action args =
     (case exec w (PrivCommand asRoot action args) of (w, stdout, stderr, r) \<Rightarrow> callResult w stdout stderr r)"

text \<open>
  The helper as a process: the arguments after \<open>priv\<close>, its printed texts and documents (\<open>enc\<close> prints a
  document, followed by a line feed), one line of error. A helper that hangs is killed by the caller's timeout.
\<close>

definition outText :: "(json \<Rightarrow> string) \<Rightarrow> outp \<Rightarrow> string" where
  "outText enc x = (case x of Text s \<Rightarrow> s | JSON j \<Rightarrow> enc j @ [CHR 0x0A])"

fun afterPriv :: "string list \<Rightarrow> string list" where
  "afterPriv [] = []"
| "afterPriv (a # as) = (if a = ''priv'' then as else afterPriv as)"

definition helperProcess ::
    "'w Host \<Rightarrow> (json \<Rightarrow> string) \<Rightarrow> 'w \<Rightarrow> string list \<Rightarrow> 'w \<times> string \<times> string \<times> cmdEnd" where
  "helperProcess h enc w argv =
     (case RunPriv h w (afterPriv argv) of
        None \<Rightarrow> (w, [], [], CmdErr ''signal: killed'')
      | Some (w, out, err, code) \<Rightarrow>
          (w, concat (map (outText enc) out), if err = [] then [] else err @ [CHR 0x0A],
           if code = 0 then CmdOk else CmdExit code))"

end
