(* ===== verification/Step_Theorems.thy ===== *)
theory Step_Theorems
  imports Step_Runner Priv_Theorems
begin

text \<open>
  The agent side and the helper side together: the arguments the agent builds are the ones the helper
  accepts; a \<open>process.stop\<close> step, from its parameters to the signal; what a successful verification of a
  Compose service means; the mount table.
\<close>

section \<open>Arguments from the agent to the helper\<close>

lemma digitRe_natString: "n < 10 ^ 20 \<Longrightarrow> digitRe (natString n)"
  using natString_length [of n 20] natString_digits [of n] natString_length_pos [of n]
  by (simp add: digitRe_def Suc_le_eq del: length_greater_0_conv)

lemma Itoa_nat: "0 \<le> n \<Longrightarrow> Itoa n = natString (nat n)"
  by (simp add: Itoa_def)

lemma ParsePID_Itoa: "1 < n \<Longrightarrow> n < 2 ^ 31 \<Longrightarrow> ParsePID (Itoa n) = Inr n"
  using ParseInt_natString [of "nat n" 32] digitRe_natString [of "nat n"]
  by (simp add: ParsePID_def Itoa_nat nat_less_iff)

lemma ParseStartTime_Itoa: "0 < n \<Longrightarrow> n < 2 ^ 64 \<Longrightarrow> ParseStartTime (Itoa n) = Inr n"
  using ParseUint_natString [of "nat n" 64] digitRe_natString [of "nat n"]
  by (simp add: ParseStartTime_def Itoa_nat nat_less_iff)

lemma ParseInt_port: "ValidatePort n = None \<Longrightarrow> ParseInt 32 (Itoa n) = Some n \<and> digitRe (Itoa n)"
  using ParseInt_natString [of "nat n" 32] digitRe_natString [of "nat n"]
  by (simp add: ValidatePort_def Itoa_nat nat_less_iff split: if_splits)

text \<open>The process numbers and start times the agent sends, and the checks that a helper action makes first.\<close>

definition agentArgs :: "ID \<Rightarrow> Params \<Rightarrow> string list \<Rightarrow> bool" where
  "agentArgs i p args \<longleftrightarrow>
     (if i \<in> {ServiceRestartID, ServiceStartID, ServiceStopID, ServiceReloadID}
      then wantArgs args 1 = None \<and> CheckUnitAllowed (hd args) = None
      else if i = PHPFPMRestartID
      then wantArgs args 1 = None \<and> ValidatePHPUnit (hd args) = None \<and> CheckUnitAllowed (hd args) = None
      else if i \<in> {NginxReloadID, AptCleanID} then wantArgs args 0 = None
      else if i = SupervisorRestartID then wantArgs args 1 = None \<and> ValidateName ''program'' (hd args) = None
      else if i = JournalVacuumID then wantArgs args 1 = None \<and> hd args \<in> set journalSizes
      else if i = CertRenewID then length args = 1 \<and> ValidateCertName (hd args) = None
      else if i = PM2RestartID
      then wantArgs args 2 = None \<and> ValidateUser (hd args) = None \<and> ValidateName ''app'' (hd (tl args)) = None
      else if i = ProcessStopID
      then wantArgs args 2 = None \<and> (\<exists>pid start. Params_Int p ''pid'' = Some pid \<and> Params_Uint p ''start_time'' = Some start \<and>
        (pid < 2 ^ 31 \<longrightarrow> ParsePID (hd args) = Inr pid) \<and> (start < 2 ^ 64 \<longrightarrow> ParseStartTime (hd (tl args)) = Inr start))
      else wantArgs args 2 = None \<and> (\<exists>port. Params_Int p ''port'' = Some port \<and> ParseInt 32 (hd args) = Some port \<and>
        digitRe (hd args) \<and> ValidatePort port = None \<and> ValidateProto (hd (tl args)) = None))"

lemma Params_Uint_nonneg: "Params_Uint p n = Some k \<Longrightarrow> map_of p n \<noteq> Some (VUint64 k) \<Longrightarrow> 0 \<le> k"
  by (auto simp: Params_Uint_def ParseUint_def split: option.splits pval.splits if_splits)

lemma privActions_ids:
  "{ServiceRestartID, ServiceStartID, ServiceStopID, ServiceReloadID, PHPFPMRestartID, NginxReloadID, AptCleanID,
    SupervisorRestartID, JournalVacuumID, CertRenewID, PM2RestartID, ProcessStopID, FirewallAllowID, FirewallRemoveID}
   \<subseteq> fst ` set (privActions h)"
  by (simp add: privActions_def step_id_defs)

lemma PrivArgs_action: "PrivArgs i p = Inr args \<Longrightarrow> i \<in> fst ` set (privActions h)"
  by (rule subsetD [OF privActions_ids]) (auto simp: PrivArgs_def split: if_splits)

lemma PrivArgs_ProcessStop:
  "PrivArgs ProcessStopID p =
     (case Params_Int p ''pid'' of None \<Rightarrow> Inl (refuse ''The process number is not valid.'')
      | Some pid \<Rightarrow> if pid \<le> 1 then Inl (refuse ''The process number is not valid.'')
          else (case Params_Uint p ''start_time'' of None \<Rightarrow> Inl (refuse ''The process start time is not valid.'')
            | Some st \<Rightarrow> if st = 0 then Inl (refuse ''The process start time is not valid.'') else Inr [Itoa pid, Itoa st]))"
  by (simp add: PrivArgs_def step_id_defs)

lemma PrivArgs_firewall:
  "i \<in> {FirewallAllowID, FirewallRemoveID} \<Longrightarrow> PrivArgs i p =
     (case Params_Int p ''port'' of None \<Rightarrow> Inl (refuse ''The port must be between 1 and 65535.'')
      | Some port \<Rightarrow> guard (ValidatePort port)
          (guard (ValidateProto (Params_String p ''proto'')) (Inr [Itoa port, Params_String p ''proto''])))"
  by (elim insertE emptyE; simp add: PrivArgs_def step_id_defs Let_def split: option.splits)

lemma PrivArgs_names:
  "i \<in> {ServiceRestartID, ServiceStartID, ServiceStopID, ServiceReloadID} \<Longrightarrow>
     PrivArgs i p = guard (CheckUnitAllowed (Params_String p ''unit'')) (Inr [Params_String p ''unit''])"
  "PrivArgs NginxReloadID p = Inr []" "PrivArgs AptCleanID p = Inr []"
  "PrivArgs PHPFPMRestartID p = guard (ValidatePHPUnit (Params_String p ''unit'')) (Inr [Params_String p ''unit''])"
  "PrivArgs SupervisorRestartID p =
     guard (ValidateName ''program'' (Params_String p ''program'')) (Inr [Params_String p ''program''])"
  "PrivArgs JournalVacuumID p = (if Params_String p ''size'' \<notin> set journalSizes
     then Inl (refuse ''The size must be 100M, 200M or 500M.'') else Inr [Params_String p ''size''])"
  "PrivArgs CertRenewID p = guard (ValidateCertName (Params_String p ''name'')) (Inr [Params_String p ''name''])"
  "PrivArgs PM2RestartID p = guard (ValidateUser (Params_String p ''user''))
     (guard (ValidateName ''app'' (Params_String p ''app'')) (Inr [Params_String p ''user'', Params_String p ''app'']))"
  by (elim insertE emptyE; simp add: PrivArgs_def step_id_defs Let_def) (simp_all add: PrivArgs_def step_id_defs Let_def)

lemma PrivArgs_process:
  assumes "PrivArgs ProcessStopID p = Inr args"
  obtains pid start where "Params_Int p ''pid'' = Some pid" "1 < pid" "Params_Uint p ''start_time'' = Some start"
    "start \<noteq> 0" "args = [Itoa pid, Itoa start]"
  using assms that unfolding PrivArgs_ProcessStop by (auto split: option.splits if_splits)

lemma PrivArgs_port:
  assumes "PrivArgs i p = Inr args" and "i \<in> {FirewallAllowID, FirewallRemoveID}"
  obtains port where "Params_Int p ''port'' = Some port" "ValidatePort port = None"
    "ValidateProto (Params_String p ''proto'') = None" "args = [Itoa port, Params_String p ''proto'']"
  using assms(1) that unfolding PrivArgs_firewall [OF assms(2)] by (auto split: option.splits)

lemma agentArgs_numbers:
  "agentArgs ProcessStopID p args \<longleftrightarrow> wantArgs args 2 = None \<and>
     (\<exists>pid start. Params_Int p ''pid'' = Some pid \<and> Params_Uint p ''start_time'' = Some start \<and>
        (pid < 2 ^ 31 \<longrightarrow> ParsePID (hd args) = Inr pid) \<and> (start < 2 ^ 64 \<longrightarrow> ParseStartTime (hd (tl args)) = Inr start))"
  "i \<in> {FirewallAllowID, FirewallRemoveID} \<Longrightarrow> agentArgs i p args \<longleftrightarrow> wantArgs args 2 = None \<and>
     (\<exists>port. Params_Int p ''port'' = Some port \<and> ParseInt 32 (hd args) = Some port \<and>
        digitRe (hd args) \<and> ValidatePort port = None \<and> ValidateProto (hd (tl args)) = None)"
  by (simp_all add: agentArgs_def step_id_defs) (elim disjE; simp)

lemma agentArgs_names:
  "i \<in> {ServiceRestartID, ServiceStartID, ServiceStopID, ServiceReloadID} \<Longrightarrow>
     agentArgs i p args \<longleftrightarrow> wantArgs args 1 = None \<and> CheckUnitAllowed (hd args) = None"
  "agentArgs NginxReloadID p args \<longleftrightarrow> wantArgs args 0 = None" "agentArgs AptCleanID p args \<longleftrightarrow> wantArgs args 0 = None"
  "agentArgs PHPFPMRestartID p args \<longleftrightarrow>
     wantArgs args 1 = None \<and> ValidatePHPUnit (hd args) = None \<and> CheckUnitAllowed (hd args) = None"
  "agentArgs SupervisorRestartID p args \<longleftrightarrow> wantArgs args 1 = None \<and> ValidateName ''program'' (hd args) = None"
  "agentArgs JournalVacuumID p args \<longleftrightarrow> wantArgs args 1 = None \<and> hd args \<in> set journalSizes"
  "agentArgs CertRenewID p args \<longleftrightarrow> length args = 1 \<and> ValidateCertName (hd args) = None"
  "agentArgs PM2RestartID p args \<longleftrightarrow>
     wantArgs args 2 = None \<and> ValidateUser (hd args) = None \<and> ValidateName ''app'' (hd (tl args)) = None"
  by (simp add: agentArgs_def) (simp_all add: agentArgs_def step_id_defs)

lemma PrivArgs_other:
  assumes "PrivArgs i p = Inr args" and "i \<notin> {ProcessStopID, FirewallAllowID, FirewallRemoveID}"
  shows "agentArgs i p args"
proof -
  consider "i \<in> {ServiceRestartID, ServiceStartID, ServiceStopID, ServiceReloadID}" | "i \<in> {NginxReloadID, AptCleanID}"
    | "i = PHPFPMRestartID" | "i = SupervisorRestartID" | "i = JournalVacuumID" | "i = CertRenewID" | "i = PM2RestartID"
    using assms by (auto simp: PrivArgs_def split: if_splits)
  then show ?thesis
  proof cases
    case 1
    with assms(1) show ?thesis unfolding PrivArgs_names(1) [OF 1] agentArgs_names(1) [OF 1] by (auto simp: wantArgs_def)
  next
    case 2
    with assms(1) show ?thesis by (auto simp: PrivArgs_names(2,3) agentArgs_names(2,3) wantArgs_def)
  qed (use assms(1) ValidatePHPUnit_allowed in
      \<open>auto simp: PrivArgs_names(4-) agentArgs_names(4-) wantArgs_def split: if_splits\<close>)
qed

text \<open>
  The agent and the helper agree: whenever the agent builds arguments for a step, the step is an action of
  the helper and every check the helper makes of those arguments succeeds, numbers being read back as they
  were written (32-bit process numbers, 64-bit start times).
\<close>

theorem helper_accepts_agent_arguments:
  assumes "PrivArgs i p = Inr args" and "\<forall>n. map_of p ''start_time'' = Some (VUint64 n) \<longrightarrow> 0 \<le> n"
  shows "i \<in> fst ` set (privActions h) \<and> agentArgs i p args"
proof -
  have "agentArgs i p args"
  proof (cases "i \<in> {ProcessStopID, FirewallAllowID, FirewallRemoveID}")
    case False
    with assms(1) show ?thesis by (rule PrivArgs_other)
  next
    case True
    show ?thesis
    proof (cases "i = ProcessStopID")
      case process: True
      obtain pid start where a: "Params_Int p ''pid'' = Some pid" "1 < pid" "Params_Uint p ''start_time'' = Some start"
        "start \<noteq> 0" "args = [Itoa pid, Itoa start]"
        using assms(1) unfolding process by (rule PrivArgs_process)
      have "0 < start" using a(3,4) assms(2) Params_Uint_nonneg [OF a(3)] by force
      then show ?thesis using a ParsePID_Itoa [OF a(2)] ParseStartTime_Itoa [of start]
        unfolding process agentArgs_numbers by (simp add: wantArgs_def)
    next
      case False
      with True have i: "i \<in> {FirewallAllowID, FirewallRemoveID}" by simp
      obtain port where "Params_Int p ''port'' = Some port" "ValidatePort port = None"
        "ValidateProto (Params_String p ''proto'') = None" "args = [Itoa port, Params_String p ''proto'']"
        using assms(1) i by (rule PrivArgs_port)
      then show ?thesis using ParseInt_port [of port]
        unfolding agentArgs_numbers(2) [OF i] by (simp add: wantArgs_def)
    qed
  qed
  with PrivArgs_action [OF assms(1)] show ?thesis by simp
qed

section \<open>A process.stop step, end to end\<close>

text \<open>The agent's environment whose helper is the real helper on a host.\<close>

definition wiredTo :: "'w Host \<Rightarrow> 'w Env \<Rightarrow> bool" where
  "wiredTo h e \<longleftrightarrow> (\<exists>asRoot enc. ev_Priv e = Some (ExecPriv asRoot (helperProcess h enc)))"

lemma afterPriv_command: "afterPriv (PrivCommand asRoot action args) = action # args"
  by (simp add: PrivCommand_def HelperPath_def)

lemma callResult_world: "fst (callResult w out err r) = w"
  by (simp add: callResult_def)

lemma callResult_ok: "snd (snd (callResult w out err r)) = None \<longleftrightarrow> r = CmdOk"
  by (simp add: callResult_def)

lemma exitOf_ok: "exitOf (w, out, e) = (w', out', err, 0) \<Longrightarrow> e = HOk"
  by (auto simp: exitOf_def ExitOK_def ExitFailed_def ExitRefused_def split: herr.splits if_splits)

lemma RunPriv_processStop:
  assumes "RunPriv h w (ProcessStopID # args) = Some (w', out, err, code)"
  obtains "w' = fst (hs_Chdir h w ''/'')" and "code \<noteq> 0"
  | out' e where "processStop h (fst (hs_Chdir h w ''/'')) args = Some (w', out', e)" and "code = 0 \<longrightarrow> e = HOk"
proof -
  have m: "map_of (privActions h) ProcessStopID = Some (False, \<lambda>w a. processStop h w a)"
    by (simp add: privActions_def step_id_defs)
  obtain w0 x where c: "hs_Chdir h w ''/'' = (w0, x)" by (cases "hs_Chdir h w ''/''")
  show thesis
  proof (cases x)
    case (Some _)
    with assms c that(1) show ?thesis by (simp add: RunPriv_def ExitFailed_def)
  next
    case None
    with assms c m obtain r where r: "processStop h w0 args = Some r" "exitOf r = (w', out, err, code)"
      by (auto simp: RunPriv_def)
    obtain v out' e where v: "r = (v, out', e)" by (cases r)
    with r(2) have "v = w'" using fst_exitOf [of r] by simp
    with r v c that(2) [of out' e] exitOf_ok [of v out' e w' out err] show ?thesis by auto
  qed
qed

lemma ParseInt_natString_Some: "ParseInt b (natString k) = Some m \<Longrightarrow> m = int k"
proof -
  assume a: "ParseInt b (natString k) = Some m"
  obtain c cs where s: "natString k = c # cs" by (cases "natString k") simp_all
  then have "isDigit c" using natString_digits [of k] by simp
  then have "c \<noteq> CHR ''-''" "c \<noteq> CHR ''+''" using isDigit_not_sign by blast+
  with a s decVal_natString [of k] show ?thesis by (simp add: ParseInt_def Let_def split: if_splits)
qed

lemma ParsePID_Itoa_Some: "1 < n \<Longrightarrow> ParsePID (Itoa n) = Inr m \<Longrightarrow> m = n"
  by (auto simp: ParsePID_def Itoa_nat dest!: ParseInt_natString_Some split: if_splits option.splits)

lemma ParseStartTime_Itoa_Some: "0 < n \<Longrightarrow> ParseStartTime (Itoa n) = Inr m \<Longrightarrow> m = n"
  by (auto simp: ParseStartTime_def ParseUint_def Itoa_nat split: if_splits option.splits)

lemma processStop_step_world:
  assumes "wiredTo h e" and "runnerExecute e w ProcessStopID p = (w', out, err)"
  obtains (early) "w' \<in> {w, fst (hs_Chdir h w ''/'')}" and "err \<noteq> None"
  | (called) args out' x where "PrivArgs ProcessStopID p = Inr args"
      and "processStop h (fst (hs_Chdir h w ''/'')) args = Some (w', out', x)" and "err = None \<longrightarrow> x = HOk"
proof -
  have "Lookup ProcessStopID = Some ProcessStop" using Lookup_Def [of ProcessStop] by simp
  then have r: "runnerStep ProcessStopID = Inr ProcessStop" by (simp add: runnerStep_def)
  have v: "fst (ProcessStop_Validate e w p) = w" by (simp add: ProcessStop_Validate_def split: sum.splits)
  consider (invalid) y where "ProcessStop_Validate e w p = (w, Inl y)" | (valid) "ProcessStop_Validate e w p = (w, Inr ())"
    using v by (cases "ProcessStop_Validate e w p"; cases "snd (ProcessStop_Validate e w p)") auto
  then show thesis
  proof cases
    case invalid
    with assms(2) r have "w' = w" "err = Some y" by (simp_all add: runnerExecute_def)
    with early show ?thesis by simp
  next
    case valid
    then obtain args where args: "PrivArgs ProcessStopID p = Inr args"
      by (auto simp: ProcessStop_Validate_def split: sum.splits)
    obtain asRoot enc where p: "ev_Priv e = Some (ExecPriv asRoot (helperProcess h enc))"
      using assms(1) by (auto simp: wiredTo_def)
    have run: "callPriv e w ProcessStopID p = (w', out, err)"
      using assms(2) r valid by (simp add: runnerExecute_def)
    show ?thesis
    proof (cases "RunPriv h w (ProcessStopID # args)")
      case None
      with run args p have "w' = w" "err \<noteq> None"
        by (auto simp: callPriv_def ExecPriv_def helperProcess_def afterPriv_command callResult_def)
      with early show ?thesis by simp
    next
      case (Some q)
      then obtain v o1 er code where q: "RunPriv h w (ProcessStopID # args) = Some (v, o1, er, code)" by (cases q) auto
      have w': "w' = v" and ok: "err = None \<longleftrightarrow> code = 0"
        using run args p q by (auto simp: callPriv_def ExecPriv_def helperProcess_def afterPriv_command callResult_def split: if_splits)
      show ?thesis
        using q
      proof (cases rule: RunPriv_processStop)
        case 1
        with w' ok early show ?thesis by simp
      next
        case (2 out' x)
        with w' ok args called show ?thesis by simp
      qed
    qed
  qed
qed

text \<open>
  C26. A \<open>process.stop\<close> step from its parameters to the signal: with the agent's helper being the real one on a host, executing
  the step signals only the process that has the pid and the start time of the step's parameters and is not
  protected, and success means that it is gone. Otherwise nothing is signalled and the step fails. The hypothesis on the
  parameters is that an unsigned value is not negative.
\<close>

theorem process_stop_end_to_end:
  assumes "wiredTo (sigLogged h) e" and "runnerExecute e (w, []) ProcessStopID p = ((w', sent), out, err)"
    and "\<forall>n. map_of p ''start_time'' = Some (VUint64 n) \<longrightarrow> 0 \<le> n"
  shows "sent = [] \<and> err \<noteq> None \<or>
    (\<exists>pid start proc w0. Params_Int p ''pid'' = Some pid \<and> Params_Uint p ''start_time'' = Some start \<and>
       w0 = fst (hs_Chdir h w ''/'') \<and> hs_OpenProcess h w0 pid = Some proc \<and> hs_StartTime h w0 pid = Some start \<and>
       protectedPID h w0 pid = Some [] \<and> sent \<in> {[(proc, SIGTERM)], [(proc, SIGTERM), (proc, SIGKILL)]} \<and>
       (err = None \<longrightarrow> hs_StartTime h w' pid \<noteq> Some start))"
proof -
  have cd: "fst (hs_Chdir (sigLogged h) (w, []) ''/'') = (fst (hs_Chdir h w ''/''), [])"
    by (simp add: sigLogged_def split: prod.splits)
  from assms(1,2) show ?thesis
  proof (cases rule: processStop_step_world)
    case early
    with cd show ?thesis by auto
  next
    case (called args out' x)
    obtain pid start where a: "Params_Int p ''pid'' = Some pid" "1 < pid" "Params_Uint p ''start_time'' = Some start"
      "start \<noteq> 0" "args = [Itoa pid, Itoa start]"
      using called(1) by (rule PrivArgs_process)
    have "0 < start" using a(3,4) assms(3) Params_Uint_nonneg [OF a(3)] by force
    then have p: "\<And>m. ParsePID (args ! 0) = Inr m \<Longrightarrow> m = pid" "\<And>m. ParseStartTime (args ! 1) = Inr m \<Longrightarrow> m = start"
      using a(2,5) ParsePID_Itoa_Some ParseStartTime_Itoa_Some by auto
    have "processStop (sigLogged h) (fst (hs_Chdir h w ''/''), []) args = Some ((w', sent), out', x)"
      using called(2) unfolding cd .
    note signals.processStop_sent [OF this]
    then show ?thesis using a(1,3) p called(3) by (auto simp: protectedPID_sigLogged)
  qed
qed

definition demoEnv :: "(nat \<times> (handle \<times> sig) list) Env" where
  "demoEnv = \<lparr>ev_Priv = Some (ExecPriv False (helperProcess (sigLogged demoPriv) (\<lambda>_. []))), ev_Units = None, ev_Docker = None,
     ev_Procs = None, ev_HTTP = None, ev_AllowedURL = None, ev_DiskPercentAt = None, ev_Now = (\<lambda>_. 0),
     ev_Sleep = (\<lambda>w _. w), ev_CtxErr = (\<lambda>_. None), ev_ServiceStable = 0, ev_ContainerStable = 0,
     ev_PM2Stable = 0, ev_SupervisorStable = 0, ev_decodeJSON = (\<lambda>_. None), ev_parseURL = (\<lambda>_. None)\<rparr>"

definition demoParams :: Params where
  "demoParams = [(''pid'', VFloat 900), (''start_time'', VString ''77'')]"

lemma demo_args: "PrivArgs ProcessStopID demoParams = Inr [''900'', ''77'']"
proof -
  have "Itoa 900 = ''900''" "Itoa 77 = ''77''" by code_simp+
  then show ?thesis
    by (simp add: demoParams_def PrivArgs_ProcessStop Params_Int_def Params_Uint_def ParseUint_def decVal_def isDigit_def)
qed

lemma demo_execute:
  "\<exists>out. runnerExecute demoEnv (0, []) ProcessStopID demoParams = ((2, [(5, SIGTERM)]), out, None)"
proof -
  have l: "runnerStep ProcessStopID = Inr ProcessStop" using Lookup_Def [of ProcessStop] by (simp add: runnerStep_def)
  have "hs_Chdir (sigLogged demoPriv) (0, []) ''/'' = ((0, []), None)" by (simp add: sigLogged_def demoPriv_def)
  moreover have "map_of (privActions (sigLogged demoPriv)) ProcessStopID = Some (False, \<lambda>w a. processStop (sigLogged demoPriv) w a)"
    by (simp add: privActions_def step_id_defs)
  ultimately have "RunPriv (sigLogged demoPriv) (0, []) (ProcessStopID # [''900'', ''77'']) =
      Some ((2, [(5, SIGTERM)]), [newlineText (processText 900 ''stopped.'')], [], 0)"
    by (simp add: RunPriv_def demoPriv_stop exitOf_def ExitOK_def)
  then show ?thesis
    by (simp add: runnerExecute_def l ProcessStop_Validate_def demo_args callPriv_def ExecPriv_def helperProcess_def
        afterPriv_command callResult_def) (simp add: demoEnv_def ExecPriv_def helperProcess_def afterPriv_command callResult_def)
qed

theorem process_stop_end_to_end_witness:
  "\<exists>out. runnerExecute demoEnv (0, []) ProcessStopID demoParams = ((2, [(5, SIGTERM)]), out, None) \<and>
     protectedPID demoPriv 0 900 = Some []"
proof -
  obtain out where r: "runnerExecute demoEnv (0, []) ProcessStopID demoParams = ((2, [(5, SIGTERM)]), out, None)"
    using demo_execute by blast
  have "wiredTo (sigLogged demoPriv) demoEnv" by (auto simp: wiredTo_def demoEnv_def)
  moreover have "\<forall>n. map_of demoParams ''start_time'' = Some (VUint64 n) \<longrightarrow> 0 \<le> n" by (simp add: demoParams_def)
  moreover have "Params_Int demoParams ''pid'' = Some 900" "fst (hs_Chdir demoPriv 0 ''/'') = 0"
    by (simp_all add: demoParams_def Params_Int_def demoPriv_def)
  ultimately have "protectedPID demoPriv 0 900 = Some []"
    using process_stop_end_to_end [OF _ r, of demoPriv] by auto
  with r show ?thesis by blast
qed

theorem helper_accepts_agent_arguments_witness:
  "PrivArgs ProcessStopID demoParams = Inr [''900'', ''77''] \<and> agentArgs ProcessStopID demoParams [''900'', ''77'']"
  using helper_accepts_agent_arguments [OF demo_args, of demoPriv] demo_args by (simp add: demoParams_def)

section \<open>Verifying a Compose service\<close>

definition upAndHealthy :: "ContainerInfo \<Rightarrow> bool" where
  "upAndHealthy c \<longleftrightarrow> ci_State c = ''running'' \<and> ci_Health c \<in> {[], ''healthy''}"

lemma composeScan_nonempty: "composeScan cs s = Inr t \<Longrightarrow> s \<noteq> [] \<Longrightarrow> \<forall>c \<in> set cs. ci_Name c \<noteq> [] \<Longrightarrow> t \<noteq> []"
  by (induction cs s rule: composeScan.induct) (auto split: if_splits)

lemma composeScan_settled:
  "composeScan cs [] = Inr [] \<Longrightarrow> \<forall>c \<in> set cs. ci_Name c \<noteq> [] \<Longrightarrow> list_all upAndHealthy cs"
  by (induction cs) (auto simp: upAndHealthy_def dest: composeScan_nonempty split: if_splits)

lemma settledCheck_same:
  assumes "settledCheck (restartCounts cs1) cs2 = Inr ()" and "c \<in> set cs2"
  shows "\<exists>c1 \<in> set cs1. ci_ID c1 = ci_ID c \<and> ci_RestartCount c1 = ci_RestartCount c"
proof -
  have "map_of (restartCounts cs1) (ci_ID c) = Some (ci_RestartCount c)"
    using assms by (auto simp: settledCheck_def find_None_iff split: option.splits)
  then have "(ci_ID c, ci_RestartCount c) \<in> set (restartCounts cs1)" by (rule map_of_SomeD)
  then show ?thesis by (auto simp: restartCounts_def)
qed

text \<open>A verdict of success: two looks in a row, with the settling time between them.\<close>

definition twoLooks :: "'w Env \<Rightarrow> string \<Rightarrow> string \<Rightarrow> 'w \<Rightarrow> bool" where
  "twoLooks e pr sv w' \<longleftrightarrow> (\<exists>v1 v2 v3 cs1 cs2. composeLook e v1 pr sv = (v2, Inr (cs1, [])) \<and>
     sleepCheck e v2 composeSettle = (v3, Inr ()) \<and> composeLook e v3 pr sv = (w', Inr (cs2, [])) \<and>
     settledCheck (restartCounts cs1) cs2 = Inr ())"

lemma composeVerify_twoLooks:
  "composeVerify e pr sv poll settled w = (w', Inr ()) \<Longrightarrow>
   (\<And>m. settled = Some m \<Longrightarrow> \<exists>v1 v2 cs1. composeLook e v1 pr sv = (v2, Inr (cs1, [])) \<and>
      sleepCheck e v2 composeSettle = (w, Inr ()) \<and> m = restartCounts cs1) \<Longrightarrow> twoLooks e pr sv w'"
proof (induction e pr sv poll settled w rule: composeVerify.induct)
  case (1 e pr sv poll settled w)
  note run = 1(3) [unfolded composeVerify.simps [of e pr sv poll settled w]]
  obtain v r where look: "composeLook e w pr sv = (v, r)" by (cases "composeLook e w pr sv")
  with run obtain cs starting where r: "r = Inr (cs, starting)" by (cases r) auto
  show ?case
  proof (cases "starting = []")
    case True
    show ?thesis
    proof (cases settled)
      case (Some m)
      with run look r True have "v = w'" "settledCheck m cs = Inr ()" by auto
      with 1(4) [OF Some] look r True show ?thesis unfolding twoLooks_def by blast
    next
      case None
      obtain v3 x where s: "sleepCheck e v composeSettle = (v3, x)" by (cases "sleepCheck e v composeSettle")
      with run look r True None have x: "x = Inr ()" by (cases x) auto
      have c: "composeVerify e pr sv (Suc poll) (Some (restartCounts cs)) v3 = (w', Inr ())"
        using run look r True None s x by simp
      show ?thesis
        by (rule 1(1) [OF look [symmetric] r refl True None s [symmetric] x c]) (use look r True s x in blast)
    qed
  next
    case False
    obtain v3 x where s: "sleepCheck e v (2 * second) = (v3, x)" by (cases "sleepCheck e v (2 * second)")
    with run look r False have x: "x = Inr ()" and p: "\<not> poll \<ge> composeHealthPolls" by (cases x; auto split: if_splits)+
    have c: "composeVerify e pr sv (Suc poll) None v3 = (w', Inr ())" using run look r False s x p by simp
    show ?thesis by (rule 1(2) [OF look [symmetric] r refl False p s [symmetric] x c]) simp
  qed
qed

lemma composeLook_settled:
  assumes "composeLook e v pr sv = (v', Inr (cs, []))"
  shows "composeContainers e v pr sv = (v', Inr cs) \<and> cs \<noteq> [] \<and> composeScan cs [] = Inr []"
  using assms by (cases "composeContainers e v pr sv"; cases "snd (composeContainers e v pr sv)")
    (auto simp: composeLook_def split: if_splits sum.splits)

lemma composeContainers_named:
  assumes "\<forall>v v' cs. listContainers e v = (v', Inr cs) \<longrightarrow> (\<forall>c \<in> set cs. ci_Name c \<noteq> [])"
    and "composeContainers e v pr sv = (v', Inr cs)"
  shows "\<forall>c \<in> set cs. ci_Name c \<noteq> []"
  using assms by (cases "listContainers e v"; cases "snd (listContainers e v)") (auto simp: composeContainers_def)

lemma sleepCheck_Inr: "sleepCheck e v d = (v', Inr ()) \<Longrightarrow> v' = ev_Sleep e v d"
  by (auto simp: sleepCheck_def split: option.splits)

text \<open>
  When the verification of a Compose service succeeds, its containers were listed twice in a row with the settling
  time between the two looks, and at the second look there are some, all run, none has a failing or unfinished health
  check, and each was there at the first look with the same restart count. The hypothesis is that Docker
  names every container.
\<close>

theorem compose_verify_sound:
  assumes "ComposeUp_Verify e w p = (w', Inr ())"
    and "\<forall>v v' cs. listContainers e v = (v', Inr cs) \<longrightarrow> (\<forall>c \<in> set cs. ci_Name c \<noteq> [])"
  shows "\<exists>v1 v2 cs1 cs2.
    composeContainers e v1 (Params_String p ''project'') (Params_String p ''service'') = (v2, Inr cs1) \<and>
    composeContainers e (ev_Sleep e v2 composeSettle) (Params_String p ''project'') (Params_String p ''service'') = (w', Inr cs2) \<and>
    cs2 \<noteq> [] \<and>
    list_all (\<lambda>c. upAndHealthy c \<and>
      (\<exists>c1 \<in> set cs1. ci_ID c1 = ci_ID c \<and> ci_RestartCount c1 = ci_RestartCount c)) cs2"
proof -
  let ?p = "Params_String p ''project''" and ?s = "Params_String p ''service''"
  have "twoLooks e ?p ?s w'"
    using composeVerify_twoLooks [OF assms(1) [unfolded ComposeUp_Verify_def]] by simp
  then obtain v1 v2 v3 cs1 cs2 where l: "composeLook e v1 ?p ?s = (v2, Inr (cs1, []))"
    "sleepCheck e v2 composeSettle = (v3, Inr ())" "composeLook e v3 ?p ?s = (w', Inr (cs2, []))"
    "settledCheck (restartCounts cs1) cs2 = Inr ()" unfolding twoLooks_def by blast
  note a = composeLook_settled [OF l(1)] and b = composeLook_settled [OF l(3)]
  have "list_all upAndHealthy cs2" using b composeContainers_named [OF assms(2)] composeScan_settled by blast
  with a b l(4) sleepCheck_Inr [OF l(2)] settledCheck_same [OF l(4)] show ?thesis
    by (intro exI [of _ v1] exI [of _ v2] exI [of _ cs1] exI [of _ cs2]) (auto simp: list_all_iff)
qed

definition demoContainer :: ContainerInfo where
  "demoContainer = \<lparr>ci_ID = ''c1'', ci_Name = ''web-1'', ci_State = ''running'', ci_Health = ''healthy'', ci_RestartCount = 3,
     ci_ComposeProject = ''shop'', ci_ComposeService = ''web'', ci_Labels = []\<rparr>"

text \<open>Its health check is still starting at the first look.\<close>

definition demoCompose :: "nat Env" where
  "demoCompose = \<lparr>ev_Priv = None, ev_Units = None,
     ev_Docker = Some \<lparr>dk_Containers = (\<lambda>n. (n, Inr [if n = 0 then demoContainer\<lparr>ci_Health := ''starting''\<rparr> else demoContainer])),
       dk_Restart = (\<lambda>n _. (n, Inr ())), dk_Start = (\<lambda>n _. (n, Inr ())), dk_PruneDangling = (\<lambda>n. (n, Inr 0)),
       dk_RootDir = (\<lambda>n. (n, Inr []))\<rparr>,
     ev_Procs = None, ev_HTTP = None, ev_AllowedURL = None, ev_DiskPercentAt = None, ev_Now = (\<lambda>_. 0),
     ev_Sleep = (\<lambda>n _. Suc n), ev_CtxErr = (\<lambda>_. None), ev_ServiceStable = 0, ev_ContainerStable = 0,
     ev_PM2Stable = 0, ev_SupervisorStable = 0, ev_decodeJSON = (\<lambda>_. None), ev_parseURL = (\<lambda>_. None)\<rparr>"

lemma demoCompose_verify:
  "ComposeUp_Verify demoCompose 0 [(''project'', VString ''shop''), (''service'', VString ''web'')] = (2, Inr ())"
  by code_simp

theorem compose_verify_sound_witness:
  "\<exists>v1 v2 cs1 cs2. composeContainers demoCompose v1 ''shop'' ''web'' = (v2, Inr cs1) \<and>
     composeContainers demoCompose (ev_Sleep demoCompose v2 composeSettle) ''shop'' ''web'' = (2, Inr cs2) \<and> cs2 \<noteq> []"
proof -
  have n: "\<forall>v v' cs. listContainers demoCompose v = (v', Inr cs) \<longrightarrow> (\<forall>c \<in> set cs. ci_Name c \<noteq> [])"
    by (auto simp: listContainers_def demoCompose_def demoContainer_def)
  show ?thesis using compose_verify_sound [OF demoCompose_verify n] by (auto simp: Params_String_def)
qed

section \<open>Mounted disks\<close>

text \<open>The octal escape of the kernel's mount table.\<close>

definition octalChar :: "nat \<Rightarrow> char" where "octalChar n = char_of (48 + n)"

definition escapeChar :: "char \<Rightarrow> string" where
  "escapeChar c =
     (if c \<in> {CHR 0x20, CHR 0x09, CHR 0x0A, CHR 0x5C, CHR 0x23}
      then [CHR 0x5C, octalChar (of_char c div 64), octalChar (of_char c div 8 mod 8), octalChar (of_char c mod 8)]
      else [c])"

definition escapeMountField :: "string \<Rightarrow> string" where
  "escapeMountField s = concat (map escapeChar s)"

lemma unescape_plain: "c \<noteq> CHR 0x5C \<Longrightarrow> unescapeMountField (c # s) = c # unescapeMountField s"
  by (cases s rule: unescapeMountField.cases) (auto split: list.splits)

lemma escaped_bytes:
  "char_of (32 :: nat) = CHR 0x20" "char_of (9 :: nat) = CHR 0x09" "char_of (10 :: nat) = CHR 0x0A"
  "char_of (92 :: nat) = CHR 0x5C" "char_of (35 :: nat) = CHR 0x23"
  by code_simp+

lemma unescape_special:
  "c \<in> {CHR 0x20, CHR 0x09, CHR 0x0A, CHR 0x5C, CHR 0x23} \<Longrightarrow> unescapeMountField (escapeChar c @ s) = c # unescapeMountField s"
  by (elim insertE emptyE) (simp_all add: escapeChar_def octalChar_def isOctal_def octalByte_def escaped_bytes)

text \<open>
  Names of mount points are read back: decoding a field that the kernel escaped (blank, tab, line feed, backslash,
  hash) gives the name.
\<close>

theorem mount_field_roundtrip: "unescapeMountField (escapeMountField s) = s"
proof (induction s)
  case (Cons c s)
  then show ?case
    by (cases "c \<in> {CHR 0x20, CHR 0x09, CHR 0x0A, CHR 0x5C, CHR 0x23}")
      (simp_all add: escapeMountField_def unescape_special, simp add: escapeChar_def unescape_plain)
qed (simp add: escapeMountField_def)

lemma set_map_filter: "set (List.map_filter f xs) = {y. \<exists>x \<in> set xs. f x = Some y}"
  by (induction xs) (auto simp: map_filter_simps split: option.splits)

lemma betterMount_fold:
  "foldl betterMount (Some b) ms = Some m \<Longrightarrow> m \<in> insert b (set ms) \<and> length b \<le> length m \<and> (\<forall>x \<in> set ms. length x \<le> length m)"
  by (induction ms arbitrary: b) (fastforce simp: betterMount_def split: if_splits)+

lemma betterMount_some: "\<exists>m. foldl betterMount (Some b) ms = Some m"
  by (induction ms arbitrary: b) (simp_all add: betterMount_def)

text \<open>
  The disk of a folder: the mount point found is the longest of those in the table that contain the
  folder, and there is an error exactly when none does.
\<close>

theorem mount_point_longest:
  "case mountPointFrom info path of
     Inr mp \<Rightarrow> pathWithin mp path \<and> (\<exists>l \<in> set (Split (CHR 0x0A) info). mountLine path l = Some mp) \<and>
       (\<forall>l \<in> set (Split (CHR 0x0A) info). \<forall>m. mountLine path l = Some m \<longrightarrow> length m \<le> length mp)
   | Inl _ \<Rightarrow> (\<forall>l \<in> set (Split (CHR 0x0A) info). mountLine path l = None)"
proof (cases "List.map_filter (mountLine path) (Split (CHR 0x0A) info)")
  case Nil
  then show ?thesis by (auto simp: mountPointFrom_def List.map_filter_def filter_empty_conv)
next
  case (Cons b ms)
  have set: "m \<in> insert b (set ms) \<longleftrightarrow> (\<exists>l \<in> set (Split (CHR 0x0A) info). mountLine path l = Some m)" for m
    using set_map_filter [of "mountLine path" "Split (CHR 0x0A) info"] unfolding Cons by auto
  obtain mp where f: "foldl betterMount (Some b) ms = Some mp" using betterMount_some by blast
  then have r: "mountPointFrom info path = Inr mp" using Cons by (simp add: mountPointFrom_def betterMount_def)
  have w: "mountLine path l = Some m \<Longrightarrow> pathWithin m path" for l m
    by (auto simp: mountLine_def Let_def split: if_splits)
  have "mp \<in> insert b (set ms)" using betterMount_fold [OF f] by blast
  then obtain l where l: "l \<in> set (Split (CHR 0x0A) info)" "mountLine path l = Some mp" using set by blast
  have "length m \<le> length mp" if "k \<in> set (Split (CHR 0x0A) info)" "mountLine path k = Some m" for k m
  proof -
    have "m \<in> insert b (set ms)" using set that by blast
    then show ?thesis using betterMount_fold [OF f] by auto
  qed
  then show ?thesis using l w [OF l(2)] by (auto simp: r)
qed

definition demoMounts :: string where
  "demoMounts = ''22 1 8:1 / / rw - ext4 /dev/sda1 rw'' @ [CHR 0x0A] @ ''36 22 8:2 / /var rw - ext4 /dev/sdb1 rw'' @ [CHR 0x0A]"

theorem mount_point_longest_witness:
  "mountPointFrom demoMounts ''/var/lib/docker'' = Inr ''/var'' \<and> pathWithin ''/var'' ''/var/lib/docker''"
proof -
  have "mountPointFrom demoMounts ''/var/lib/docker'' = Inr ''/var''" by code_simp
  with mount_point_longest [of demoMounts "''/var/lib/docker''"] show ?thesis by simp
qed

end
