(* ===== verification/Redact.thy ===== *)
theory Redact
  imports Runbook_Model "HOL-Library.Word" "HOL-Library.Product_Lexorder"
begin

unbundle bit_operations_syntax

text \<open>
  Redaction of text before it is shown or sent: \<^verbatim>\<open>internal/diagnose/redact/{redact,placeholders}.go\<close>. The rules
  are data (\<^verbatim>\<open>rules.json\<close>), so the rule file is an argument, as a decoded JSON document (\<open>None\<close> when it does
  not parse). A compiled expression is a record of what \<open>regexp\<close> does with it; \<open>compile\<close> is
  \<open>regexp.Compile\<close> and \<open>parseAddr\<close> is \<open>netip.ParseAddr\<close>. White space is ASCII white space. The entropy of a
  token is compared exactly, on integers.
\<close>

section \<open>Rules (redact.go)\<close>

record regexp =
  re_Replace :: "string \<Rightarrow> string \<Rightarrow> string"
  re_ReplaceLiteral :: "string \<Rightarrow> string \<Rightarrow> string"

record ruleSpec =
  rl_Name :: string
  rl_Kind :: string
  rl_Pattern :: string
  rl_Replacement :: string
  rl_MinLength :: int
  rl_MinBitsPerChar :: rat
  rl_HexMinLength :: int
  rl_HexMinBitsPerChar :: rat

record compiledRule = ruleSpec +
  cr_re :: "regexp option"

definition RuleEnvValue :: string where "RuleEnvValue = ''env_value''"
definition RuleUserPattern :: string where "RuleUserPattern = ''user_pattern''"
definition Placeholder :: string where "Placeholder = ''[REDACTED]''"
definition kindRegex :: string where "kindRegex = ''regex''"
definition kindEntropy :: string where "kindEntropy = ''entropy''"

definition getNum :: "members \<Rightarrow> string \<Rightarrow> rat option" where
  "getNum ms k = (case map_of ms k of None \<Rightarrow> Some 0 | Some JNull \<Rightarrow> Some 0 | Some (JNum r) \<Rightarrow> Some r | _ \<Rightarrow> None)"

definition jsonRuleSpec :: "json \<Rightarrow> ruleSpec option" where
  "jsonRuleSpec j = do {
     ms \<leftarrow> asObj j; n \<leftarrow> getStr ms ''name''; k \<leftarrow> getStr ms ''kind''; p \<leftarrow> getStr ms ''pattern'';
     r \<leftarrow> getStr ms ''replacement''; ml \<leftarrow> getInt ms ''minLength'' 0; mb \<leftarrow> getNum ms ''minBitsPerChar'';
     hl \<leftarrow> getInt ms ''hexMinLength'' 0; hb \<leftarrow> getNum ms ''hexMinBitsPerChar'';
     Some \<lparr>rl_Name = n, rl_Kind = k, rl_Pattern = p, rl_Replacement = r, rl_MinLength = ml,
           rl_MinBitsPerChar = mb, rl_HexMinLength = hl, rl_HexMinBitsPerChar = hb\<rparr> }"

definition jsonRuleFile :: "json \<Rightarrow> (int \<times> ruleSpec list) option" where
  "jsonRuleFile j = do { ms \<leftarrow> asObj j; v \<leftarrow> getInt ms ''version'' 0; rs \<leftarrow> getList ms ''rules'' jsonRuleSpec; Some (v, rs) }"

definition compileSpec :: "(string \<Rightarrow> string + regexp) \<Rightarrow> ruleSpec \<Rightarrow> gerr + compiledRule" where
  "compileSpec compile spec =
     (let cr = ruleSpec.extend spec (compiledRule.fields None); n = Quote (rl_Name spec) in
      if rl_Kind spec = kindRegex then
        (case compile (rl_Pattern spec) of
           Inl e \<Rightarrow> Inl (failure (''redact: rule '' @ n @ '': '' @ e))
         | Inr re \<Rightarrow> Inr (cr\<lparr>cr_re := Some re\<rparr>))
      else if rl_Kind spec = kindEntropy then
        if rl_MinLength spec \<le> 0 \<or> rl_MinBitsPerChar spec \<le> 0
        then Inl (failure (''redact: entropy rule '' @ n @ '' needs positive minLength and minBitsPerChar''))
        else if (rl_HexMinLength spec > 0) \<noteq> (rl_HexMinBitsPerChar spec > 0) \<or> rl_HexMinLength spec < 0 \<or>
          rl_HexMinBitsPerChar spec < 0
        then Inl (failure (''redact: entropy rule '' @ n @ '' needs both hexMinLength and hexMinBitsPerChar, or neither''))
        else Inr cr
      else Inl (failure (''redact: rule '' @ n @ '' has unknown kind '' @ Quote (rl_Kind spec))))"

fun compileRules :: "(string \<Rightarrow> string + regexp) \<Rightarrow> string list \<Rightarrow> nat \<Rightarrow> ruleSpec list \<Rightarrow> gerr + compiledRule list" where
  "compileRules compile seen i [] = Inr []"
| "compileRules compile seen i (spec # specs) =
     (if rl_Name spec = '''' then Inl (failure (''redact: rule '' @ Itoa (int i) @ '' has no name''))
      else if rl_Name spec \<in> set seen then Inl (failure (''redact: duplicate rule name '' @ Quote (rl_Name spec)))
      else case compileSpec compile spec of Inl e \<Rightarrow> Inl e
        | Inr cr \<Rightarrow> map_sum id ((#) cr) (compileRules compile (rl_Name spec # seen) (Suc i) specs))"

definition parseRules :: "(string \<Rightarrow> string + regexp) \<Rightarrow> json option \<Rightarrow> gerr + compiledRule list" where
  "parseRules compile data =
     (case data \<bind> jsonRuleFile of
        None \<Rightarrow> Inl (failure ''redact: parse rules.json'')
      | Some (version, specs) \<Rightarrow>
          if version \<noteq> 1 then Inl (failure (''redact: unsupported rules.json version '' @ Itoa version))
          else compileRules compile [] 0 specs)"

section \<open>Reports\<close>

record Report =
  rp_Applied :: bool
  rp_Rules :: "string list"

definition noReport :: Report where "noReport = \<lparr>rp_Applied = False, rp_Rules = []\<rparr>"

definition sortDedup :: "string list \<Rightarrow> string list" where
  "sortDedup rules = sort (remdups rules)"

definition Report_Merge :: "Report \<Rightarrow> Report \<Rightarrow> Report" where
  "Report_Merge r other =
     \<lparr>rp_Applied = rp_Applied r \<or> rp_Applied other, rp_Rules = sortDedup (rp_Rules r @ rp_Rules other)\<rparr>"

text \<open>\<open>reSecretKey\<close>: the optional endings of "pass" do not change whether a name matches.\<close>

definition dashOpt :: rx where
  "dashOpt = RAlt (RClass (\<lambda>c. c = CHR ''-'' \<or> c = CHR ''_'')) REmpty"

definition reSecretKey :: rx where
  "reSecretKey = rxAlt [iword ''pass'', iword ''secret'', iword ''token'',
     rxSeq [iword ''api'', dashOpt, iword ''key''], rxSeq [iword ''access'', dashOpt, iword ''key''],
     rxSeq [iword ''private'', dashOpt, iword ''key''], iword ''credential'', iword ''auth'']"

section \<open>Entropy\<close>

definition runeCounts :: "string \<Rightarrow> nat list" where
  "runeCounts s = map (count_list (runes s)) (remdups (runes s))"

definition shannonBits :: "string \<Rightarrow> real \<times> nat" where
  "shannonBits s =
     (let n = length (runes s) in
      if n = 0 then (0, 0)
      else (\<Sum>c\<leftarrow>runeCounts s. - (real c / real n * log 2 (real c / real n)), n))"

text \<open>
  Whether the entropy reaches a limit, on integers: with the limit a quotient of \<open>a\<close> by \<open>b\<close>, the counts \<open>c\<close> and
  their sum \<open>n\<close>, the entropy reaches it iff the product of all \<open>c\<close> to the power \<open>b c\<close>, times 2 to the power
  \<open>a n\<close>, is at most \<open>n\<close> to the power \<open>b n\<close>.
\<close>

definition atLeastBits :: "string \<Rightarrow> rat \<Rightarrow> bool" where
  "atLeastBits s m =
     (let n = length (runes s); a = nat (fst (quotient_of m)); b = nat (snd (quotient_of m)) in
      2 ^ (a * n) * (\<Prod>c\<leftarrow>runeCounts s. c ^ (b * c)) \<le> n ^ (b * n))"

definition trimEdges :: string where
  "trimEdges = [CHR 0x22, CHR 0x27, CHR 0x60] @ ''()<>[]{},;''"

definition isHexC :: "char \<Rightarrow> bool" where
  "isHexC c \<longleftrightarrow> isDigit c \<or> c \<in> set ''abcdefABCDEF''"

definition isHex :: "string \<Rightarrow> bool" where
  "isHex s \<longleftrightarrow> s \<noteq> [] \<and> list_all isHexC s"

text \<open>\<open>flush\<close>: the text written for one token, and whether it changed.\<close>

definition highEntropy :: "('a ruleSpec_scheme) \<Rightarrow> string \<Rightarrow> bool" where
  "highEntropy rule core =
     (if rl_HexMinLength rule > 0 \<and> isHex core
      then int (runeCount core) \<ge> rl_HexMinLength rule \<and> atLeastBits core (rl_HexMinBitsPerChar rule)
      else int (runeCount core) \<ge> rl_MinLength rule \<and> atLeastBits core (rl_MinBitsPerChar rule))"

definition entropyToken :: "('a ruleSpec_scheme) \<Rightarrow> string \<Rightarrow> string \<times> bool" where
  "entropyToken rule tok =
     (if Contains tok ''[REDACTED'' then (tok, False)
      else if highEntropy rule (Trim tok trimEdges) then
        (case Index tok (Trim tok trimEdges) of
           None \<Rightarrow> (tok, False)
         | Some i \<Rightarrow> (take i tok @ rl_Replacement rule @ drop (i + length (Trim tok trimEdges)) tok, True))
      else (tok, False))"

text \<open>The loop over the text; \<open>tok\<close> is the current token, reversed. The pieces in order are what is written.\<close>

fun entropyPieces :: "('a ruleSpec_scheme) \<Rightarrow> string \<Rightarrow> string \<Rightarrow> (string \<times> bool) list" where
  "entropyPieces rule tok [] = (if tok = [] then [] else [entropyToken rule (rev tok)])"
| "entropyPieces rule tok (c # cs) =
     (if isSpace c then (if tok = [] then [] else [entropyToken rule (rev tok)]) @ ([c], False) # entropyPieces rule [] cs
      else entropyPieces rule (c # tok) cs)"

definition applyEntropy :: "('a ruleSpec_scheme) \<Rightarrow> string \<Rightarrow> string" where
  "applyEntropy rule s =
     (let ps = entropyPieces rule [] s in if list_ex snd ps then concat (map fst ps) else s)"

section \<open>The redactor\<close>

record Redactor =
  rd_rules :: "compiledRule list"
  rd_userPatterns :: "regexp list"

definition New :: "(string \<Rightarrow> string + regexp) \<Rightarrow> json option \<Rightarrow> string list \<Rightarrow> Redactor option \<times> gerr option" where
  "New compile rulesJSON userPatterns =
     (case parseRules compile rulesJSON of
        Inl e \<Rightarrow> (None, Some e)
      | Inr rules \<Rightarrow>
          (let bad = concat (map (\<lambda>p. case compile p of Inl e \<Rightarrow> [Quote p @ '': '' @ e] | Inr _ \<Rightarrow> []) userPatterns);
               res = concat (map (\<lambda>p. case compile p of Inl _ \<Rightarrow> [] | Inr re \<Rightarrow> [re]) userPatterns) in
           (Some \<lparr>rd_rules = rules, rd_userPatterns = res\<rparr>,
            if bad = [] then None else Some (failure (''redact: invalid user pattern(s): '' @ Join ''; '' bad)))))"

definition applyRule :: "compiledRule \<Rightarrow> string \<Rightarrow> string" where
  "applyRule rule s =
     (case cr_re rule of Some re \<Rightarrow> re_Replace re s (rl_Replacement rule) | None \<Rightarrow> applyEntropy rule s)"

fun runRules :: "compiledRule list \<Rightarrow> string \<times> string list \<Rightarrow> string \<times> string list" where
  "runRules [] st = st"
| "runRules (rule # rules) (out, fired) =
     runRules rules (if applyRule rule out \<noteq> out then (applyRule rule out, fired @ [rl_Name rule]) else (out, fired))"

fun runUser :: "regexp list \<Rightarrow> string \<times> string list \<Rightarrow> string \<times> string list" where
  "runUser [] st = st"
| "runUser (re # res) (out, fired) =
     runUser res (re_ReplaceLiteral re out Placeholder,
       if re_ReplaceLiteral re out Placeholder \<noteq> out then fired @ [RuleUserPattern] else fired)"

definition redactText :: "Redactor \<Rightarrow> string \<Rightarrow> string \<times> Report" where
  "redactText r s =
     (case runUser (rd_userPatterns r) (runRules (rd_rules r) (s, [])) of
        (out, fired) \<Rightarrow> (out, \<lparr>rp_Applied = sortDedup fired \<noteq> [], rp_Rules = sortDedup fired\<rparr>))"

definition Clean :: "Redactor \<Rightarrow> string \<Rightarrow> bool" where
  "Clean r s \<longleftrightarrow> fst (redactText r s) = s"

definition redactValue :: "string \<Rightarrow> string \<times> Report" where
  "redactValue s =
     (if s = '''' then ('''', noReport) else (Placeholder, \<lparr>rp_Applied = True, rp_Rules = [RuleEnvValue]\<rparr>))"

definition redactPair :: "Redactor \<Rightarrow> string \<Rightarrow> string \<Rightarrow> string \<times> Report" where
  "redactPair r k v = (if MatchString reSecretKey k then redactValue v else redactText r v)"

definition redactMap :: "Redactor \<Rightarrow> (string \<times> string) list \<Rightarrow> (string \<times> string) list \<times> Report" where
  "redactMap r m =
     (map (\<lambda>(k, v). (k, fst (redactPair r k v))) m,
      fold (\<lambda>(k, v) rep. Report_Merge rep (snd (redactPair r k v))) m noReport)"

section \<open>Placeholders (placeholders.go)\<close>

text \<open>An address as \<open>netip.Addr\<close> holds it: 32 bits, or 128 bits and a zone.\<close>

datatype addr = V4 "32 word" | V6 "128 word" string

record Placeholders =
  ph_names :: "string list"
  ph_labels :: "(string \<times> string) list"
  ph_short :: "string list"
  ph_ips :: "(addr \<times> string) list"

definition metaChars :: string where
  "metaChars = CHR 0x5C # ''.+*?()|[]{}^$''"

definition QuoteMeta :: "string \<Rightarrow> string" where
  "QuoteMeta s = concat (map (\<lambda>c. if c \<in> set metaChars then [CHR 0x5C, c] else [c]) s)"

text \<open>One host name: its label, and the short form unless another name has that key.\<close>

definition addShort :: "string \<Rightarrow> string \<Rightarrow> Placeholders \<Rightarrow> Placeholders" where
  "addShort h label p =
     (case IndexAny h ''.'' of None \<Rightarrow> p
      | Some i \<Rightarrow> if i < 4 \<or> map_of (ph_labels p) (take i h) \<noteq> None then p
          else p\<lparr>ph_labels := AList.update (take i h) label (ph_labels p), ph_short := take i h # ph_short p\<rparr>)"

definition addHost :: "Placeholders \<times> nat \<Rightarrow> string \<Rightarrow> Placeholders \<times> nat" where
  "addHost st h0 =
     (case st of (p, n) \<Rightarrow>
      let h = ToLower (TrimSpace h0) in
      if h = [] then (p, n)
      else if map_of (ph_labels p) h \<noteq> None \<and> h \<notin> set (ph_short p) then (p, n)
      else (let label = ''host-'' @ Itoa (int (Suc n));
                q = p\<lparr>ph_labels := AList.update h label (ph_labels p),
                      ph_short := filter (\<lambda>x. x \<noteq> h) (ph_short p)\<rparr>
            in (addShort h label q, Suc n)))"

text \<open>The alternatives of \<open>hostRE\<close> in order: the longest quoted name first, then by the quoted text.\<close>

definition hostOrder :: "string list \<Rightarrow> string list" where
  "hostOrder ks = sort_key (\<lambda>k. (- int (length (QuoteMeta k)), QuoteMeta k)) ks"

definition NewPlaceholders :: "string list \<Rightarrow> Placeholders" where
  "NewPlaceholders hostnames =
     (let p = fst (foldl addHost (\<lparr>ph_names = [], ph_labels = [], ph_short = [], ph_ips = []\<rparr>, 0) hostnames)
      in p\<lparr>ph_names := hostOrder (map fst (ph_labels p))\<rparr>)"

definition isHostChar :: "char \<Rightarrow> bool" where
  "isHostChar c \<longleftrightarrow> c = CHR ''-'' \<or> c = CHR ''_'' \<or> isDigit c \<or> isLowerC c \<or> isUpperC c"

text \<open>
  \<open>FindAllStringIndex\<close>: the matches from left to right, at each position the first alternative that fits;
  \<open>k\<close> bytes of the last match are still to be skipped.
\<close>

fun hostLocs :: "string list \<Rightarrow> nat \<Rightarrow> nat \<Rightarrow> string \<Rightarrow> (nat \<times> nat) list" where
  "hostLocs names k i [] = []"
| "hostLocs names (Suc k) i (c # cs) = hostLocs names k (Suc i) cs"
| "hostLocs names 0 i (c # cs) =
     (case find (\<lambda>n. n \<noteq> [] \<and> HasPrefix (ToLower (c # cs)) n) names of
        None \<Rightarrow> hostLocs names 0 (Suc i) cs
      | Some n \<Rightarrow> (i, i + length n) # hostLocs names (length n - 1) (Suc i) cs)"

definition slice :: "string \<Rightarrow> nat \<Rightarrow> nat \<Rightarrow> string" where
  "slice s i j = take (j - i) (drop i s)"

definition insideWord :: "Placeholders \<Rightarrow> string \<Rightarrow> nat \<Rightarrow> nat \<Rightarrow> bool" where
  "insideWord p s start end \<longleftrightarrow>
     start > 0 \<and> (isHostChar (s ! (start - 1)) \<or>
       s ! (start - 1) = CHR ''.'' \<and> ToLower (slice s start end) \<in> set (ph_short p)) \<or>
     end < length s \<and> isHostChar (s ! end)"

definition hostLabel :: "Placeholders \<Rightarrow> string \<Rightarrow> string" where
  "hostLabel p s = (case map_of (ph_labels p) (ToLower s) of Some l \<Rightarrow> l | None \<Rightarrow> '''')"

fun writeHosts :: "Placeholders \<Rightarrow> string \<Rightarrow> nat \<Rightarrow> (nat \<times> nat) list \<Rightarrow> string" where
  "writeHosts p s lst [] = drop lst s"
| "writeHosts p s lst ((start, end) # locs) =
     (if insideWord p s start end then writeHosts p s lst locs
      else slice s lst start @ hostLabel p (slice s start end) @ writeHosts p s end locs)"

definition replaceHosts :: "Placeholders \<Rightarrow> string \<Rightarrow> string" where
  "replaceHosts p s =
     (if ph_names p = [] then s else writeHosts p s 0 (hostLocs (ph_names p) 0 0 s))"

text \<open>Addresses: \<open>Unmap\<close>, the classes of \<open>net/netip\<close> and \<open>isPublic\<close>.\<close>

definition Unmap :: "addr \<Rightarrow> addr" where
  "Unmap a = (case a of V4 _ \<Rightarrow> a
     | V6 w _ \<Rightarrow> if drop_bit 32 w = 0xFFFF then V4 (ucast w) else a)"

definition WithoutZone :: "addr \<Rightarrow> addr" where
  "WithoutZone a = (case a of V4 w \<Rightarrow> V4 w | V6 w _ \<Rightarrow> V6 w '''')"

definition in4 :: "32 word \<Rightarrow> nat \<Rightarrow> 32 word \<Rightarrow> bool" where
  "in4 net bits w \<longleftrightarrow> drop_bit (32 - bits) w = drop_bit (32 - bits) net"

definition in6 :: "128 word \<Rightarrow> nat \<Rightarrow> 128 word \<Rightarrow> bool" where
  "in6 net bits w \<longleftrightarrow> drop_bit (128 - bits) w = drop_bit (128 - bits) net"

fun IsUnspecified :: "addr \<Rightarrow> bool" where
  "IsUnspecified (V4 w) = (w = 0)" | "IsUnspecified (V6 w z) = (w = 0 \<and> z = [])"

fun IsLoopback :: "addr \<Rightarrow> bool" where
  "IsLoopback (V4 w) = in4 0x7F000000 8 w" | "IsLoopback (V6 w z) = (w = 1)"

fun IsPrivate :: "addr \<Rightarrow> bool" where
  "IsPrivate (V4 w) = (in4 0x0A000000 8 w \<or> in4 0xAC100000 12 w \<or> in4 0xC0A80000 16 w)"
| "IsPrivate (V6 w z) = in6 (push_bit 120 0xFC) 7 w"

fun IsLinkLocalUnicast :: "addr \<Rightarrow> bool" where
  "IsLinkLocalUnicast (V4 w) = in4 0xA9FE0000 16 w"
| "IsLinkLocalUnicast (V6 w z) = in6 (push_bit 112 0xFE80) 10 w"

fun IsLinkLocalMulticast :: "addr \<Rightarrow> bool" where
  "IsLinkLocalMulticast (V4 w) = in4 0xE0000000 24 w"
| "IsLinkLocalMulticast (V6 w z) = (drop_bit 112 w AND 0xFF0F = 0xFF02)"

fun IsInterfaceLocalMulticast :: "addr \<Rightarrow> bool" where
  "IsInterfaceLocalMulticast (V4 w) = False"
| "IsInterfaceLocalMulticast (V6 w z) = (drop_bit 112 w AND 0xFF0F = 0xFF01)"

fun IsMulticast :: "addr \<Rightarrow> bool" where
  "IsMulticast (V4 w) = in4 0xE0000000 4 w"
| "IsMulticast (V6 w z) = in6 (push_bit 120 0xFF) 8 w"

definition nonPublic4 :: "(32 word \<times> nat) list" where
  "nonPublic4 = [(0, 8), (0x64400000, 10), (0xC0000000, 24), (0xC0000200, 24), (0xC6120000, 15),
     (0xC6336400, 24), (0xCB007100, 24), (0xF0000000, 4)]"

definition nonPublic6 :: "(128 word \<times> nat) list" where
  "nonPublic6 = [(push_bit 96 0x20010DB8, 32), (push_bit 96 0x0064FF9B, 96), (push_bit 112 0x0100, 64)]"

fun nonPublicPrefixes :: "addr \<Rightarrow> bool" where
  "nonPublicPrefixes (V4 w) = list_ex (\<lambda>(n, b). in4 n b w) nonPublic4"
| "nonPublicPrefixes (V6 w z) = list_ex (\<lambda>(n, b). in6 n b w) nonPublic6"

definition isPublic :: "addr \<Rightarrow> bool" where
  "isPublic a0 =
     (let a = WithoutZone (Unmap a0) in
      \<not> (IsUnspecified a \<or> IsLoopback a \<or> IsPrivate a \<or> IsLinkLocalUnicast a \<or> IsLinkLocalMulticast a \<or>
         IsInterfaceLocalMulticast a \<or> IsMulticast a) \<and> \<not> nonPublicPrefixes a)"

definition ipLabel :: "Placeholders \<Rightarrow> addr \<Rightarrow> Placeholders \<times> string" where
  "ipLabel p a =
     (case map_of (ph_ips p) (Unmap a) of
        Some l \<Rightarrow> (p, l)
      | None \<Rightarrow> (let l = ''ip-'' @ Itoa (int (length (ph_ips p) + 1)) in
          (p\<lparr>ph_ips := ph_ips p @ [(Unmap a, l)]\<rparr>, l)))"

text \<open>
  The matches of the address patterns. \<open>quad n\<close> is the length of \<open>n\<close> groups of one to three digits with a dot
  and one more group, up to a word boundary; \<open>ipv6Cand\<close> prefers a run of address characters with a colon.
  \<open>prev\<close> says whether the byte before is a word character.
\<close>

definition digitsRun :: "string \<Rightarrow> nat" where
  "digitsRun s = length (takeWhile isDigit s)"

fun quad :: "nat \<Rightarrow> string \<Rightarrow> nat option" where
  "quad 0 s = (if 1 \<le> digitsRun s \<and> digitsRun s \<le> 3 \<and> \<not> wordAt s (digitsRun s) then Some (digitsRun s) else None)"
| "quad (Suc n) s =
     (if 1 \<le> digitsRun s \<and> digitsRun s \<le> 3 \<and> digitsRun s < length s \<and> s ! digitsRun s = CHR ''.''
      then map_option (\<lambda>m. Suc (digitsRun s) + m) (quad n (drop (Suc (digitsRun s)) s)) else None)"

definition reIPv4Lit :: "bool \<Rightarrow> string \<Rightarrow> nat option" where
  "reIPv4Lit prev s = (if prev then None else quad 3 s)"

definition ipCandC :: "char \<Rightarrow> bool" where
  "ipCandC c \<longleftrightarrow> isHexC c \<or> c = CHR '':'' \<or> c = CHR ''.''"

definition reIPv6Cand :: "bool \<Rightarrow> string \<Rightarrow> nat option" where
  "reIPv6Cand prev s =
     (if CHR '':'' \<in> set (takeWhile ipCandC s) then Some (length (takeWhile ipCandC s)) else reIPv4Lit prev s)"

text \<open>The text cut into matches (\<open>True\<close>) and single bytes between them, from left to right.\<close>

function segments :: "(bool \<Rightarrow> string \<Rightarrow> nat option) \<Rightarrow> bool \<Rightarrow> string \<Rightarrow> (bool \<times> string) list" where
  "segments m prev [] = []"
| "segments m prev (c # cs) =
     (case m prev (c # cs) of
        Some (Suc k) \<Rightarrow> (True, c # take k cs) # segments m (isWordC (last (c # take k cs))) (drop k cs)
      | _ \<Rightarrow> (False, [c]) # segments m (isWordC c) cs)"
  by pat_completeness auto
termination by (relation "measure (\<lambda>(m, p, s). length s)") auto

text \<open>\<open>ReplaceAllStringFunc\<close> with a function that changes the labels.\<close>

fun replaceFunc :: "('p \<Rightarrow> string \<Rightarrow> 'p \<times> string) \<Rightarrow> 'p \<Rightarrow> (bool \<times> string) list \<Rightarrow> 'p \<times> string" where
  "replaceFunc f p [] = (p, [])"
| "replaceFunc f p ((hit, t) # ts) =
     (case (if hit then f p t else (p, t)) of (p1, u) \<Rightarrow>
        (case replaceFunc f p1 ts of (p2, v) \<Rightarrow> (p2, u @ v)))"

definition ipv4Token :: "(string \<Rightarrow> addr option) \<Rightarrow> Placeholders \<Rightarrow> string \<Rightarrow> Placeholders \<times> string" where
  "ipv4Token parseAddr p tok =
     (case parseAddr tok of None \<Rightarrow> (p, tok) | Some a \<Rightarrow> if \<not> isPublic a then (p, tok) else ipLabel p a)"

definition replaceIPv4 :: "(string \<Rightarrow> addr option) \<Rightarrow> Placeholders \<Rightarrow> string \<Rightarrow> Placeholders \<times> string" where
  "replaceIPv4 parseAddr p s = replaceFunc (ipv4Token parseAddr) p (segments reIPv4Lit False s)"

fun parseTrim :: "(string \<Rightarrow> addr option) \<Rightarrow> string \<Rightarrow> nat \<Rightarrow> (addr \<times> nat) option" where
  "parseTrim parseAddr tok 0 = None"
| "parseTrim parseAddr tok (Suc e) =
     (case parseAddr (take (Suc e) tok) of
        Some a \<Rightarrow> Some (a, Suc e)
      | None \<Rightarrow> if tok ! e \<noteq> CHR ''.'' \<and> tok ! e \<noteq> CHR '':'' then None else parseTrim parseAddr tok e)"

definition ipToken :: "(string \<Rightarrow> addr option) \<Rightarrow> Placeholders \<Rightarrow> string \<Rightarrow> Placeholders \<times> string" where
  "ipToken parseAddr p tok =
     (if count_list tok (CHR '':'') < 2 then replaceIPv4 parseAddr p tok
      else case parseTrim parseAddr tok (length tok) of
          None \<Rightarrow> (p, tok)
        | Some (a, e) \<Rightarrow> if \<not> isPublic a then (p, tok)
            else (case ipLabel p a of (q, l) \<Rightarrow> (q, l @ drop e tok)))"

definition replaceIPs :: "(string \<Rightarrow> addr option) \<Rightarrow> Placeholders \<Rightarrow> string \<Rightarrow> Placeholders \<times> string" where
  "replaceIPs parseAddr p s = replaceFunc (ipToken parseAddr) p (segments reIPv6Cand False s)"

definition Placeholders_Apply :: "(string \<Rightarrow> addr option) \<Rightarrow> Placeholders \<Rightarrow> string \<Rightarrow> Placeholders \<times> string" where
  "Placeholders_Apply parseAddr p s = replaceIPs parseAddr p (replaceHosts p s)"

definition ForRequest ::
    "(string \<Rightarrow> addr option) \<Rightarrow> Redactor \<Rightarrow> Placeholders \<Rightarrow> string \<Rightarrow> Placeholders \<times> string \<times> Report" where
  "ForRequest parseAddr r p s =
     (case Placeholders_Apply parseAddr p s of (q, t) \<Rightarrow> (q, redactText r t))"

end
