(* ===== verification/Redact_Theorems.thy ===== *)
theory Redact_Theorems
  imports Redact
begin

text \<open>
  What redaction guarantees: the entropy test on integers is the Shannon entropy, the entropy rule changes
  nothing on a second pass, reports say what fired, secret-named values never survive, and address labels
  are stable, distinct and given to public addresses only.
\<close>

section \<open>Entropy\<close>

lemma sum_count_list: "(\<Sum>c\<leftarrow>map (count_list xs) (remdups xs). c) = length xs"
proof -
  have "(\<Sum>c\<leftarrow>map (count_list xs) (remdups xs). c) = (\<Sum>x\<in>set xs. count_list xs x)"
    by (simp add: sum_list_distinct_conv_sum_set)
  then show ?thesis using sum_count_set [of xs "set xs"] by simp
qed

lemma runeCounts_sum: "sum_list (runeCounts s) = length (runes s)"
  unfolding runeCounts_def using sum_count_list [of "runes s"] by simp

lemma runeCounts_pos: "c \<in> set (runeCounts s) \<Longrightarrow> 0 < c"
  by (auto simp: runeCounts_def count_list_0_iff intro: gr0I)

lemma powers_pos: "(\<And>c. c \<in> set cs \<Longrightarrow> 0 < c) \<Longrightarrow> (0::nat) < (\<Prod>c\<leftarrow>cs. c ^ (b * c))"
  by (induction cs) auto

lemma log_prod_list:
  "(\<And>c. c \<in> set cs \<Longrightarrow> 0 < c) \<Longrightarrow>
     log 2 (real (\<Prod>c\<leftarrow>cs. c ^ (b * c))) = real b * (\<Sum>c\<leftarrow>cs. real c * log 2 (real c))"
proof (induction cs)
  case (Cons c cs)
  have "(0::nat) < (\<Prod>c\<leftarrow>cs. c ^ (b * c))" using Cons.prems by (intro powers_pos) auto
  then have "0 < real (\<Prod>c\<leftarrow>cs. c ^ (b * c))" by simp
  moreover have "0 < real c ^ (b * c)" using Cons.prems by simp
  ultimately show ?case using Cons
    by (simp add: log_mult_pos log_nat_power algebra_simps)
qed simp

lemma entropy_as_logs:
  assumes "\<And>c. c \<in> set cs \<Longrightarrow> 0 < c" and n: "n = sum_list cs" "0 < n"
  shows "real n * (\<Sum>c\<leftarrow>cs. - (real c / real n * log 2 (real c / real n))) =
    real n * log 2 (real n) - (\<Sum>c\<leftarrow>cs. real c * log 2 (real c))"
proof -
  have "real n * (\<Sum>c\<leftarrow>cs. - (real c / real n * log 2 (real c / real n))) =
      (\<Sum>c\<leftarrow>cs. real c * log 2 (real n) - real c * log 2 (real c))"
    using assms(1) n(2) unfolding sum_list_const_mult [symmetric]
    by (intro arg_cong [of _ _ sum_list] map_cong) (auto simp: log_divide_pos field_simps)
  also have "\<dots> = (\<Sum>c\<leftarrow>cs. real c) * log 2 (real n) - (\<Sum>c\<leftarrow>cs. real c * log 2 (real c))"
    by (simp add: sum_list_subtractf sum_list_mult_const)
  also have "(\<Sum>c\<leftarrow>cs. real c) = real n" unfolding n(1) by (induction cs) auto
  finally show ?thesis by simp
qed

lemma atLeastBits_shannon:
  assumes "0 \<le> m"
  shows "atLeastBits s m \<longleftrightarrow> runes s = [] \<or> of_rat m \<le> fst (shannonBits s)"
proof (cases "runes s = []")
  case True
  then have "remdups (runes s) = []" by simp
  then show ?thesis using True by (simp add: atLeastBits_def runeCounts_def)
next
  case False
  let ?cs = "runeCounts s" and ?n = "length (runes s)"
  let ?h = "\<Sum>c\<leftarrow>?cs. - (real c / real ?n * log 2 (real c / real ?n))"
  let ?L = "\<Sum>c\<leftarrow>?cs. real c * log 2 (real c)"
  obtain i j where q: "quotient_of m = (i, j)" by fastforce
  then have j: "0 < j" and m: "m = of_int i / of_int j" by (auto dest: quotient_of_denom_pos quotient_of_div)
  then have i: "0 \<le> i" using assms by (simp add: zero_le_divide_iff)
  let ?a = "nat i" and ?b = "nat j"
  have n: "0 < ?n" using False by simp
  have h: "real ?n * ?h = real ?n * log 2 (real ?n) - ?L"
    by (rule entropy_as_logs) (use n in \<open>auto simp: runeCounts_sum dest: runeCounts_pos\<close>)
  have pos: "0 < (\<Prod>c\<leftarrow>?cs. c ^ (?b * c))" by (rule powers_pos) (rule runeCounts_pos)
  have "atLeastBits s m \<longleftrightarrow> real (2 ^ (?a * ?n) * (\<Prod>c\<leftarrow>?cs. c ^ (?b * c))) \<le> real (?n ^ (?b * ?n))"
    by (simp only: of_nat_le_iff atLeastBits_def q Let_def fst_conv snd_conv)
  also have "\<dots> \<longleftrightarrow> log 2 (real (2 ^ (?a * ?n) * (\<Prod>c\<leftarrow>?cs. c ^ (?b * c)))) \<le> log 2 (real (?n ^ (?b * ?n)))"
    using pos n by (intro log_le_cancel_iff [symmetric]) (simp_all del: of_nat_mult of_nat_power)
  also have "\<dots> \<longleftrightarrow> real (?a * ?n) + real ?b * ?L \<le> real (?b * ?n) * log 2 (real ?n)"
  proof -
    have "log 2 (real (2 ^ (?a * ?n) * (\<Prod>c\<leftarrow>?cs. c ^ (?b * c)))) = real (?a * ?n) + real ?b * ?L"
      using pos log_prod_list [of ?cs ?b] runeCounts_pos [of _ s] by (simp add: log_mult_pos log_nat_power)
    then show ?thesis using n by (simp add: log_nat_power)
  qed
  also have "\<dots> \<longleftrightarrow> real ?a * real ?n \<le> real ?b * (real ?n * log 2 (real ?n) - ?L)"
    by (simp add: algebra_simps)
  also have "\<dots> \<longleftrightarrow> real ?a \<le> real ?b * ?h"
    unfolding h [symmetric] using n by (simp add: mult.left_commute [of "real ?b"] mult.commute [of "real ?a"])
  also have "\<dots> \<longleftrightarrow> of_rat m \<le> ?h"
    using i j by (simp add: m of_rat_divide divide_le_eq mult.commute)
  finally show ?thesis using False by (simp add: shannonBits_def Let_def)
qed

section \<open>The entropy rule is idempotent\<close>

definition entropyOut :: "('a ruleSpec_scheme) \<Rightarrow> string \<Rightarrow> string \<Rightarrow> string" where
  "entropyOut rule tok s = concat (map fst (entropyPieces rule tok s))"

definition solid :: "string \<Rightarrow> bool" where
  "solid s \<longleftrightarrow> s \<noteq> [] \<and> list_all (\<lambda>c. \<not> isSpace c) s"

lemma entropyToken_same: "\<not> snd (entropyToken rule tok) \<Longrightarrow> fst (entropyToken rule tok) = tok"
  by (auto simp: entropyToken_def split: option.splits if_splits)

lemma entropyPieces_same:
  "\<not> list_ex snd (entropyPieces rule tok s) \<Longrightarrow> concat (map fst (entropyPieces rule tok s)) = rev tok @ s"
proof (induction s arbitrary: tok)
  case (Cons c s)
  then show ?case using Cons.IH [of "[]"] Cons.IH [of "c # tok"] entropyToken_same [of rule "rev tok"]
    by (auto split: if_splits)
qed (auto simp: entropyToken_same)

lemma applyEntropy_out: "applyEntropy rule s = entropyOut rule [] s"
  using entropyPieces_same [of rule "[]" s] by (auto simp: applyEntropy_def entropyOut_def Let_def)

lemma entropyOut_word:
  assumes "list_all (\<lambda>c. \<not> isSpace c) w"
  shows "entropyOut rule tok (w @ r) = entropyOut rule (rev w @ tok) r"
  using assms by (induction w arbitrary: tok) (auto simp: entropyOut_def)

lemma entropyOut_Nil: "tok \<noteq> [] \<Longrightarrow> entropyOut rule tok [] = fst (entropyToken rule (rev tok))"
  by (simp add: entropyOut_def)

lemma entropyOut_space:
  "isSpace c \<Longrightarrow> tok \<noteq> [] \<Longrightarrow>
     entropyOut rule tok (c # r) = fst (entropyToken rule (rev tok)) @ c # entropyOut rule [] r"
  "isSpace c \<Longrightarrow> entropyOut rule [] (c # r) = c # entropyOut rule [] r"
  by (simp_all add: entropyOut_def)

text \<open>A replaced token carries the marker, so the second pass keeps it; a kept token is kept again.\<close>

lemma entropyToken_idem:
  assumes "Contains (rl_Replacement rule) ''[REDACTED''"
  shows "fst (entropyToken rule (fst (entropyToken rule tok))) = fst (entropyToken rule tok)"
proof (cases "snd (entropyToken rule tok)")
  case True
  then obtain i where "fst (entropyToken rule tok) =
      take i tok @ rl_Replacement rule @ drop (i + length (Trim tok trimEdges)) tok"
    by (auto simp: entropyToken_def split: if_splits option.splits)
  then have "Contains (fst (entropyToken rule tok)) ''[REDACTED''"
    using sublist_order.order_trans [OF assms sublist_appendI] by simp
  then show ?thesis by (simp add: entropyToken_def)
qed (simp add: entropyToken_same)

lemma solid_entropyToken:
  assumes "solid tok" and "solid (rl_Replacement rule)"
  shows "solid (fst (entropyToken rule tok))"
  using assms
  by (auto simp: entropyToken_def solid_def list_all_iff dest: in_set_takeD in_set_dropD split: option.splits)

lemma entropyOut_twice:
  assumes r: "Contains (rl_Replacement rule) ''[REDACTED''" "solid (rl_Replacement rule)"
  shows "list_all (\<lambda>c. \<not> isSpace c) tok \<Longrightarrow>
    entropyOut rule [] (entropyOut rule tok s) = entropyOut rule tok s"
proof (induction s arbitrary: tok)
  case Nil
  show ?case
  proof (cases "tok = []")
    case False
    with Nil have "solid (rev tok)" by (simp add: solid_def)
    then have "solid (fst (entropyToken rule (rev tok)))" using r(2) by (rule solid_entropyToken)
    then show ?thesis using False entropyToken_idem [OF r(1)]
        entropyOut_word [of "fst (entropyToken rule (rev tok))" rule "[]" "[]"]
      by (simp add: entropyOut_Nil solid_def)
  qed (simp add: entropyOut_def)
next
  case (Cons c s)
  show ?case
  proof (cases "isSpace c")
    case False
    then have "entropyOut rule tok (c # s) = entropyOut rule (c # tok) s" by (simp add: entropyOut_def)
    with Cons False show ?thesis by simp
  next
    case True
    show ?thesis
    proof (cases "tok = []")
      case False
      let ?t = "fst (entropyToken rule (rev tok))"
      from False Cons.prems have "solid (rev tok)" by (simp add: solid_def)
      then have t: "solid ?t" using r(2) by (rule solid_entropyToken)
      then have "entropyOut rule [] (?t @ c # entropyOut rule [] s) =
          fst (entropyToken rule ?t) @ c # entropyOut rule [] (entropyOut rule [] s)"
        using True by (simp add: entropyOut_word entropyOut_space solid_def)
      then show ?thesis using True False Cons.IH [of "[]"] entropyToken_idem [OF r(1)]
        by (simp add: entropyOut_space)
    qed (use True Cons.IH [of "[]"] in \<open>simp add: entropyOut_space\<close>)
  qed
qed

text \<open>
  The entropy rule changes nothing on its own output, whatever the text, when its replacement is
  one word that carries the marker, as in \<^verbatim>\<open>rules.json\<close>.
\<close>

theorem entropy_rule_idempotent:
  assumes "Contains (rl_Replacement rule) ''[REDACTED''" and "solid (rl_Replacement rule)"
  shows "applyEntropy rule (applyEntropy rule s) = applyEntropy rule s"
  using entropyOut_twice [OF assms, of "[]" s] by (simp add: applyEntropy_out)

section \<open>Reports and maps\<close>

lemma sortDedup_props:
  "sorted (sortDedup xs)" "distinct (sortDedup xs)" "set (sortDedup xs) = set xs" "sortDedup xs = [] \<longleftrightarrow> xs = []"
proof -
  show s: "set (sortDedup xs) = set xs" by (simp add: sortDedup_def)
  then show "sortDedup xs = [] \<longleftrightarrow> xs = []" by (metis set_empty)
qed (simp_all add: sortDedup_def)

lemma runRules_fired:
  "runRules rules (out, fired) = (out', fired') \<Longrightarrow>
     (\<exists>new. fired' = fired @ new \<and> set new \<subseteq> rl_Name ` set rules \<and> (new = [] \<longrightarrow> out' = out))"
proof (induction rules arbitrary: out fired)
  case (Cons rule rules)
  show ?case
  proof (cases "applyRule rule out = out")
    case True
    with Cons show ?thesis by fastforce
  next
    case False
    with Cons.prems Cons.IH [of "applyRule rule out" "fired @ [rl_Name rule]"] show ?thesis by auto
  qed
qed simp

lemma runUser_fired:
  "runUser res (out, fired) = (out', fired') \<Longrightarrow>
     (\<exists>new. fired' = fired @ new \<and> set new \<subseteq> {RuleUserPattern} \<and> (new = [] \<longrightarrow> out' = out))"
proof (induction res arbitrary: out fired)
  case (Cons re res)
  show ?case
  proof (cases "re_ReplaceLiteral re out Placeholder = out")
    case True
    with Cons show ?thesis by simp
  next
    case False
    with Cons.prems Cons.IH [of "re_ReplaceLiteral re out Placeholder" "fired @ [RuleUserPattern]"]
    show ?thesis by auto
  qed
qed simp

text \<open>
  A report is exact about what it says: its rules are sorted, without repetition and names of rules of the
  redactor (or the user patterns); it is marked applied iff it names one; and text whose report is not
  applied is unchanged, so it is clean.
\<close>

theorem report_is_exact:
  "case redactText r s of (out, rep) \<Rightarrow>
     sorted (rp_Rules rep) \<and> distinct (rp_Rules rep) \<and>
     set (rp_Rules rep) \<subseteq> insert RuleUserPattern (rl_Name ` set (rd_rules r)) \<and>
     (rp_Applied rep \<longleftrightarrow> rp_Rules rep \<noteq> []) \<and> (rp_Applied rep \<or> out = s \<and> Clean r s)"
proof -
  obtain o1 f1 where 1: "runRules (rd_rules r) (s, []) = (o1, f1)" by fastforce
  obtain o2 f2 where 2: "runUser (rd_userPatterns r) (o1, f1) = (o2, f2)" by fastforce
  have t: "redactText r s = (o2, \<lparr>rp_Applied = sortDedup f2 \<noteq> [], rp_Rules = sortDedup f2\<rparr>)"
    by (simp add: redactText_def 1 2)
  show ?thesis
    using runRules_fired [OF 1] runUser_fired [OF 2] sortDedup_props [of f2] by (auto simp: t Clean_def)
qed

lemma Report_Merge_Applied: "rp_Applied (Report_Merge a b) \<longleftrightarrow> rp_Applied a \<or> rp_Applied b"
  by (simp add: Report_Merge_def)

theorem secret_values_hidden:
  "(k, v') \<in> set (fst (redactMap r m)) \<Longrightarrow> MatchString reSecretKey k \<Longrightarrow> v' = '''' \<or> v' = Placeholder"
  by (auto simp: redactMap_def redactPair_def redactValue_def split: if_splits)

section \<open>Address labels\<close>

lemma Itoa_inj: "0 \<le> i \<Longrightarrow> 0 \<le> j \<Longrightarrow> Itoa i = Itoa j \<Longrightarrow> i = j"
proof -
  assume a: "0 \<le> i" "0 \<le> j" "Itoa i = Itoa j"
  then have "decVal (natString (nat i)) = decVal (natString (nat j))" by (simp add: Itoa_def)
  with a show "i = j" by simp
qed

definition ipName :: "nat \<Rightarrow> string" where
  "ipName n = ''ip-'' @ Itoa (int (Suc n))"

lemma ipName_inj: "ipName i = ipName j \<Longrightarrow> i = j"
  using Itoa_inj [of "int (Suc i)" "int (Suc j)"] by (simp add: ipName_def)

text \<open>The labels in order of first use, one per address, public addresses only.\<close>

definition labels_ok :: "Placeholders \<Rightarrow> bool" where
  "labels_ok p \<longleftrightarrow> map snd (ph_ips p) = map ipName [0..<length (ph_ips p)] \<and> distinct (map fst (ph_ips p)) \<and>
     (\<forall>a \<in> fst ` set (ph_ips p). isPublic a)"

definition extends :: "Placeholders \<Rightarrow> Placeholders \<Rightarrow> bool" where
  "extends p q \<longleftrightarrow> labels_ok q \<and> (\<exists>new. q = p\<lparr>ph_ips := ph_ips p @ new\<rparr>)"

lemma extends_refl: "labels_ok p \<Longrightarrow> extends p p"
  by (auto simp: extends_def intro: exI [of _ "[]"])

lemma extends_trans: "extends p q \<Longrightarrow> extends q t \<Longrightarrow> extends p t"
  by (auto simp: extends_def)

lemma Unmap_idem [simp]: "Unmap (Unmap a) = Unmap a"
  by (cases a) (auto simp: Unmap_def)

lemma isPublic_Unmap [simp]: "isPublic (Unmap a) = isPublic a"
  by (simp add: isPublic_def)

lemma ipLabel_extends:
  assumes "labels_ok p" and "isPublic a" shows "extends p (fst (ipLabel p a))"
proof (cases "map_of (ph_ips p) (Unmap a)")
  case None
  then have "Unmap a \<notin> fst ` set (ph_ips p)" by (simp add: map_of_eq_None_iff)
  then have "labels_ok (fst (ipLabel p a))"
    using assms None by (auto simp: ipLabel_def labels_ok_def ipName_def Let_def)
  then show ?thesis using None by (auto simp: extends_def ipLabel_def Let_def)
qed (use assms in \<open>simp add: ipLabel_def extends_refl\<close>)

lemma replaceFunc_extends:
  assumes f: "\<And>p t. labels_ok p \<Longrightarrow> extends p (fst (f p t))"
  shows "labels_ok p \<Longrightarrow> extends p (fst (replaceFunc f p ts))"
proof (induction ts arbitrary: p)
  case (Cons x ts)
  obtain hit t where x: "x = (hit, t)" by fastforce
  obtain p1 u where 1: "(if hit then f p t else (p, t)) = (p1, u)" by fastforce
  obtain p2 v where v: "replaceFunc f p1 ts = (p2, v)" by fastforce
  have e: "extends p p1" using 1 f [OF Cons.prems, of t] Cons.prems by (auto simp: extends_refl split: if_splits)
  then have "labels_ok p1" by (simp add: extends_def)
  with Cons.IH [of p1] v have "extends p1 p2" by simp
  with e show ?case using 1 v by (auto simp: x intro: extends_trans)
qed (simp add: extends_refl)

lemma Apply_extends: "labels_ok p \<Longrightarrow> extends p (fst (Placeholders_Apply parseAddr p s))"
proof -
  have four: "\<And>p t. labels_ok p \<Longrightarrow> extends p (fst (ipv4Token parseAddr p t))"
    by (auto simp: ipv4Token_def extends_refl ipLabel_extends split: option.splits)
  have "\<And>p t. labels_ok p \<Longrightarrow> extends p (fst (ipToken parseAddr p t))"
    using ipLabel_extends by (auto simp: ipToken_def replaceIPv4_def extends_refl
        intro!: replaceFunc_extends four split: option.splits prod.splits) (metis fst_conv)
  then show "labels_ok p \<Longrightarrow> extends p (fst (Placeholders_Apply parseAddr p s))"
    by (auto simp: Placeholders_Apply_def replaceIPs_def intro: replaceFunc_extends)
qed

lemma NewPlaceholders_ips: "ph_ips (NewPlaceholders hs) = []"
proof -
  have short: "ph_ips (addShort h l p) = ph_ips p" for h l p
    by (simp add: addShort_def split: option.split)
  have "ph_ips (fst (foldl addHost st hs)) = ph_ips (fst st)" for st
    by (induction hs arbitrary: st) (auto simp: addHost_def Let_def short split: prod.split)
  then show ?thesis by (simp add: NewPlaceholders_def Let_def)
qed

definition applyAll :: "(string \<Rightarrow> addr option) \<Rightarrow> Placeholders \<Rightarrow> string list \<Rightarrow> Placeholders" where
  "applyAll parseAddr p ss = foldl (\<lambda>p s. fst (Placeholders_Apply parseAddr p s)) p ss"

lemma applyAll_extends: "labels_ok p \<Longrightarrow> extends p (applyAll parseAddr p ss)"
proof (induction ss arbitrary: p)
  case (Cons s ss)
  let ?q = "fst (Placeholders_Apply parseAddr p s)"
  have e: "extends p ?q" using Cons.prems by (rule Apply_extends)
  then have "extends ?q (applyAll parseAddr ?q ss)" by (intro Cons.IH) (simp add: extends_def)
  with e show ?case by (auto simp: applyAll_def intro: extends_trans)
qed (simp add: applyAll_def extends_refl)

lemma labels_ok_inj:
  assumes "labels_ok p" and "map_of (ph_ips p) a = Some l" and "map_of (ph_ips p) b = Some l"
  shows "a = b"
proof -
  from assms(2,3) have m: "(a, l) \<in> set (ph_ips p)" "(b, l) \<in> set (ph_ips p)" by (simp_all add: map_of_SomeD)
  then obtain i j where i: "i < length (ph_ips p)" "ph_ips p ! i = (a, l)"
    and j: "j < length (ph_ips p)" "ph_ips p ! j = (b, l)" by (auto simp: in_set_conv_nth)
  have "map snd (ph_ips p) ! k = ipName k" if "k < length (ph_ips p)" for k
    using assms(1) that unfolding labels_ok_def by (metis add_0 length_upt nth_map nth_upt minus_nat.diff_0)
  from this [of i] this [of j] i j have "ipName i = ipName j" by simp
  then have "i = j" by (rule ipName_inj)
  with i j show ?thesis by simp
qed

text \<open>
  Address labels within one request: only public addresses get one, a label once given is never
  changed by later texts, and two addresses never share a label.
\<close>

theorem address_labels_stable:
  "let p = applyAll parseAddr (NewPlaceholders hs) ss; q = applyAll parseAddr p ts in
     (\<forall>a l. map_of (ph_ips p) a = Some l \<longrightarrow> isPublic a \<and> map_of (ph_ips q) a = Some l) \<and>
     (\<forall>a b l. map_of (ph_ips q) a = Some l \<and> map_of (ph_ips q) b = Some l \<longrightarrow> a = b)"
proof -
  let ?init = "NewPlaceholders hs"
  let ?p = "applyAll parseAddr ?init ss"
  let ?q = "applyAll parseAddr ?p ts"
  have "labels_ok ?init" by (simp add: labels_ok_def NewPlaceholders_ips)
  from applyAll_extends [OF this, of parseAddr ss] have p: "labels_ok ?p" unfolding extends_def by blast
  from applyAll_extends [OF this, of parseAddr ts] obtain new
    where q: "labels_ok ?q" and qp: "?q = ?p\<lparr>ph_ips := ph_ips ?p @ new\<rparr>" unfolding extends_def by blast
  have ips: "ph_ips ?q = ph_ips ?p @ new" by (subst qp) simp
  have "isPublic a \<and> map_of (ph_ips ?q) a = Some l" if "map_of (ph_ips ?p) a = Some l" for a l
  proof
    have "(a, l) \<in> set (ph_ips ?p)" using that by (rule map_of_SomeD)
    then show "isPublic a" using p unfolding labels_ok_def by force
    show "map_of (ph_ips ?q) a = Some l" using that by (simp add: ips map_add_Some_iff)
  qed
  then show ?thesis using labels_ok_inj [OF q] by (auto simp: Let_def)
qed

end
