(* ===== verification/Evidence.thy ===== *)
theory Evidence
  imports Redact
begin

text \<open>
  Evidence collection for one incident: \<^verbatim>\<open>internal/diagnose/{evidence,evidence_stack}.go\<close>. The sources are
  records of their answers; within one collection every query is asked at most once, so an answer is a
  function of the query. An error is its text. \<open>co_now\<close> gives the clock at each place that reads it and
  \<open>co_expired\<close> the error of the collection context, if it is over when the host metrics are due. The bundle and
  the id allocator are the state \<open>cst\<close> that every collector function passes on. \<open>float64\<close> values are rationals.
\<close>

section \<open>The bundle\<close>

record Service =
  sv_Name :: string
  sv_Kind :: string
  sv_Status :: string

record Signal =
  sg_ID :: string
  sg_Type :: string
  sg_Value :: rat
  sg_WindowSeconds :: int
  sg_Detail :: string
  sg_Subject :: string

record LogExcerpt =
  lg_ID :: string
  lg_Source :: string
  lg_LineCount :: int
  lg_Truncated :: bool
  lg_Redacted :: bool
  lg_Content :: string

record Component =
  cp_ID :: string
  cp_Kind :: string
  cp_Name :: string
  cp_State :: string
  cp_Health :: string
  cp_Detail :: string
  cp_Owner :: string
  cp_ComposeProject :: string
  cp_ComposeService :: string

record Change =
  ch_ID :: string
  ch_Type :: string
  ch_OccurredAt :: time
  ch_Detail :: string

record Metric =
  mt_ID :: string
  mt_Name :: string
  mt_Value :: rat
  mt_Unit :: string
  mt_Subject :: string

record Bundle =
  bd_IncidentID :: string
  bd_CapturedAt :: time
  bd_Service :: Service
  bd_Redaction :: Report
  bd_Signals :: "Signal list"
  bd_Logs :: "LogExcerpt list"
  bd_Components :: "Component list"
  bd_RecentChanges :: "Change list"
  bd_Metrics :: "Metric list"
  bd_Warnings :: "string list"
  bd_DroppedItems :: int

definition allIDs :: "Bundle \<Rightarrow> string list" where
  "allIDs b = map sg_ID (bd_Signals b) @ map lg_ID (bd_Logs b) @ map cp_ID (bd_Components b) @
     map ch_ID (bd_RecentChanges b) @ map mt_ID (bd_Metrics b)"

definition EvidenceIDs :: "Bundle \<Rightarrow> string list" where
  "EvidenceIDs b = sort (allIDs b)"

section \<open>Budget\<close>

record Budget =
  bg_MaxLogLines :: int
  bg_MaxItemBytes :: int
  bg_MaxItems :: int
  bg_ReadTimeout :: duration
  bg_TotalTimeout :: duration
  bg_ChangeWindow :: duration

definition DefaultMaxLogLines :: int where "DefaultMaxLogLines = 200"
definition DefaultMaxItemBytes :: int where "DefaultMaxItemBytes = 16 * 1024"
definition DefaultMaxItems :: int where "DefaultMaxItems = 32"
definition DefaultReadTimeout :: duration where "DefaultReadTimeout = 10 * second"
definition DefaultTotalTimeout :: duration where "DefaultTotalTimeout = 30 * second"
definition DefaultChangeWindow :: duration where "DefaultChangeWindow = 30 * 60 * second"

definition orDefaultInt :: "int \<Rightarrow> int \<Rightarrow> int" where
  "orDefaultInt v d = (if v \<le> 0 then d else v)"

definition withDefaults :: "Budget \<Rightarrow> Budget" where
  "withDefaults b = \<lparr>bg_MaxLogLines = orDefaultInt (bg_MaxLogLines b) DefaultMaxLogLines,
     bg_MaxItemBytes = orDefaultInt (bg_MaxItemBytes b) DefaultMaxItemBytes,
     bg_MaxItems = orDefaultInt (bg_MaxItems b) DefaultMaxItems,
     bg_ReadTimeout = orDefaultInt (bg_ReadTimeout b) DefaultReadTimeout,
     bg_TotalTimeout = orDefaultInt (bg_TotalTimeout b) DefaultTotalTimeout,
     bg_ChangeWindow = orDefaultInt (bg_ChangeWindow b) DefaultChangeWindow\<rparr>"

section \<open>Sources\<close>

record ContainerSummary =
  dc_ID :: string
  dc_Name :: string
  dc_Status :: string
  dc_State :: string
  dc_Health :: string
  dc_ComposeProject :: string
  dc_ComposeService :: string

record ContainerDetail =
  dd_Status :: string
  dd_RestartCount :: int
  dd_ComposeProject :: string
  dd_EnvironmentVars :: "(string \<times> string) list"

record DockerSource =
  ds_Containers :: "string + ContainerSummary list"
  ds_Container :: "string \<Rightarrow> string + ContainerDetail"
  ds_Logs :: "string \<Rightarrow> int \<Rightarrow> string + string list"

record UnitDetail =
  ud_Name :: string
  ud_LoadState :: string
  ud_ActiveState :: string
  ud_SubState :: string
  ud_FragmentPath :: string
  ud_Following :: string

record SystemdSource =
  ss_Get :: "string \<Rightarrow> string + UnitDetail"
  ss_Logs :: "string \<Rightarrow> int \<Rightarrow> string + string"

record DiskMetric =
  dm_Mountpoint :: string
  dm_Percent :: rat
  dm_InodePercent :: rat
  dm_Available :: bool

text \<open>An unavailable metric is \<open>None\<close>; memory and swap are the total bytes and the percentage.\<close>

record HostMetrics =
  hm_CPU :: "rat option"
  hm_Load :: "rat option"
  hm_Memory :: "(int \<times> rat) option"
  hm_Swap :: "(int \<times> rat) option"
  hm_Disks :: "DiskMetric list"

record OOMEvent =
  oe_PID :: int
  oe_Process :: string

record InfraSource =
  if_Sample :: "string + HostMetrics"
  if_OOMEvents :: "time \<Rightarrow> string + OOMEvent list"

record Instance =
  in_ID :: string
  in_Kind :: string
  in_ActiveState :: string
  in_Hosts :: "string list"

record Snapshot =
  sn_Available :: bool
  sn_Webservers :: "Instance list"
  sn_Warnings :: "string list"

record StackPM2 =
  sp_User :: string
  sp_App :: string
  sp_Status :: string

record StackCert =
  sc_Name :: string
  sc_ExpiresAt :: time

record Stack =
  st_PM2Apps :: "StackPM2 list"
  st_Certs :: "StackCert list"

record DirSize =
  dz_Path :: string
  dz_SizeMB :: rat

record Upstream =
  us_Address :: string
  us_Kind :: string
  us_Name :: string

record ProxySource =
  px_Upstreams :: "string \<Rightarrow> string + Upstream list"
  px_ErrorLog :: "int \<Rightarrow> string + string"

datatype clockRead = AtStart | AtRestart | AtOOM | AtCerts

text \<open>\<open>LargestDirs\<close> may return directories and an error.\<close>

record CollectorConfig =
  co_docker :: "DockerSource option"
  co_systemd :: "SystemdSource option"
  co_infra :: "InfraSource option"
  co_webserver :: "Snapshot option"
  co_stack :: "Stack option"
  co_disk :: "(string \<Rightarrow> int \<Rightarrow> DirSize list \<times> string option) option"
  co_proxy :: "ProxySource option"
  co_Redactor :: "Redactor option"
  co_budget :: Budget
  co_now :: "clockRead \<Rightarrow> time"
  co_expired :: "string option"

record Collector = CollectorConfig +
  co_redactor :: Redactor

text \<open>\<open>fallback\<close> is the redactor that \<open>redact.New(nil)\<close> builds from the embedded rules.\<close>

definition NewCollector :: "Redactor \<Rightarrow> CollectorConfig \<Rightarrow> Collector" where
  "NewCollector fallback cfg =
     CollectorConfig.extend (cfg\<lparr>co_budget := withDefaults (co_budget cfg)\<rparr>)
       (Collector.fields (case co_Redactor cfg of Some r \<Rightarrow> r | None \<Rightarrow> fallback))"

record Target =
  tg_IncidentID :: string
  tg_MonitorKind :: string
  tg_Target :: string
  tg_Summary :: string

section \<open>Ids and texts\<close>

record idAllocator =
  ia_used :: "(string \<times> nat) list"
  ia_change :: "(string \<times> nat) list"

record cst =
  cs_b :: Bundle
  cs_ids :: idAllocator

definition countOf :: "(string \<times> nat) list \<Rightarrow> string \<Rightarrow> nat" where
  "countOf m k = (case map_of m k of Some n \<Rightarrow> n | None \<Rightarrow> 0)"

definition allocID :: "idAllocator \<Rightarrow> string \<Rightarrow> idAllocator \<times> string" where
  "allocID a base =
     (let n = Suc (countOf (ia_used a) base) in
      (a\<lparr>ia_used := AList.update base n (ia_used a)\<rparr>,
       if n = 1 then base else base @ ''_'' @ Itoa (int n)))"

definition changeID :: "idAllocator \<Rightarrow> string \<Rightarrow> idAllocator \<times> string" where
  "changeID a typ =
     (let n = Suc (countOf (ia_change a) typ) in
      (a\<lparr>ia_change := AList.update typ n (ia_change a)\<rparr>, ''chg_'' @ typ @ ''_'' @ Itoa (int n)))"

definition sanitize :: "string \<Rightarrow> string" where
  "sanitize s = map (\<lambda>c. if c \<in> {CHR '':'', CHR ''/'', CHR '' '', CHR 0x09} then CHR ''_'' else c) (ToLower s)"

definition formatEnv :: "(string \<times> string) list \<Rightarrow> string" where
  "formatEnv m = Join '', '' (map (\<lambda>k. k @ ''='' @ (case map_of m k of Some v \<Rightarrow> v | None \<Rightarrow> '''')) (sort (map fst m)))"

text \<open>\<open>keepEnd\<close>: the cut goes to the next line start, or else to the next character.\<close>

fun skipCont :: "string \<Rightarrow> string" where
  "skipCont [] = []"
| "skipCont (c # cs) = (if isRuneStart c then c # cs else skipCont cs)"

definition keepEnd :: "string \<Rightarrow> int \<Rightarrow> string" where
  "keepEnd s mx =
     (let t = drop (length s - nat mx) s in
      case IndexAny t [CHR 0x0A] of
        Some nl \<Rightarrow> if Suc nl < length t then drop (Suc nl) t else skipCont t
      | None \<Rightarrow> skipCont t)"

section \<open>The shared operations of the collectors\<close>

definition onBundle :: "(Bundle \<Rightarrow> Bundle) \<Rightarrow> cst \<Rightarrow> cst" where
  "onBundle f st = st\<lparr>cs_b := f (cs_b st)\<rparr>"

definition warn :: "string \<Rightarrow> cst \<Rightarrow> cst" where
  "warn m = onBundle (\<lambda>b. b\<lparr>bd_Warnings := bd_Warnings b @ [m]\<rparr>)"

definition setStatus :: "string \<Rightarrow> cst \<Rightarrow> cst" where
  "setStatus s = onBundle (\<lambda>b. b\<lparr>bd_Service := (bd_Service b)\<lparr>sv_Status := s\<rparr>\<rparr>)"

definition mergeReport :: "Report \<Rightarrow> cst \<Rightarrow> cst" where
  "mergeReport rep = onBundle (\<lambda>b. b\<lparr>bd_Redaction := Report_Merge (bd_Redaction b) rep\<rparr>)"

definition addDropped :: "int \<Rightarrow> cst \<Rightarrow> cst" where
  "addDropped n = onBundle (\<lambda>b. b\<lparr>bd_DroppedItems := bd_DroppedItems b + n\<rparr>)"

definition items :: "Bundle \<Rightarrow> nat" where
  "items b = length (bd_Signals b) + length (bd_Logs b) + length (bd_Components b) +
     length (bd_RecentChanges b) + length (bd_Metrics b)"

text \<open>\<open>itemBudgetOK\<close> in front of the code it guards: \<open>k\<close> runs when there is room, \<open>full\<close> after counting the loss.\<close>

definition roomFor :: "Budget \<Rightarrow> cst \<Rightarrow> bool" where
  "roomFor bg st \<longleftrightarrow> int (items (cs_b st)) < bg_MaxItems bg"

definition withRoom :: "Budget \<Rightarrow> cst \<Rightarrow> (cst \<Rightarrow> 'a) \<Rightarrow> (cst \<Rightarrow> 'a) \<Rightarrow> 'a" where
  "withRoom bg st k full = (if roomFor bg st then k st else full (addDropped 1 st))"

definition freshID :: "string \<Rightarrow> cst \<Rightarrow> cst \<times> string" where
  "freshID base st = (case allocID (cs_ids st) base of (a, i) \<Rightarrow> (st\<lparr>cs_ids := a\<rparr>, i))"

definition addComponent :: "string \<Rightarrow> Component \<Rightarrow> cst \<Rightarrow> cst" where
  "addComponent base c st = (case freshID base st of (st, i) \<Rightarrow>
     onBundle (\<lambda>b. b\<lparr>bd_Components := bd_Components b @ [c\<lparr>cp_ID := i\<rparr>]\<rparr>) st)"

definition addSignal :: "string \<Rightarrow> Signal \<Rightarrow> cst \<Rightarrow> cst" where
  "addSignal base s st = (case freshID base st of (st, i) \<Rightarrow>
     onBundle (\<lambda>b. b\<lparr>bd_Signals := bd_Signals b @ [s\<lparr>sg_ID := i\<rparr>]\<rparr>) st)"

definition addMetric :: "Budget \<Rightarrow> string \<Rightarrow> string \<Rightarrow> rat \<Rightarrow> string \<Rightarrow> string \<Rightarrow> cst \<Rightarrow> cst" where
  "addMetric bg base name value unit subject st =
     withRoom bg st
       (\<lambda>st. case freshID base st of (st, i) \<Rightarrow>
          onBundle (\<lambda>b. b\<lparr>bd_Metrics := bd_Metrics b @ [\<lparr>mt_ID = i, mt_Name = name, mt_Value = value,
            mt_Unit = unit, mt_Subject = subject\<rparr>]\<rparr>) st)
       id"

definition addChange :: "string \<Rightarrow> time \<Rightarrow> string \<Rightarrow> cst \<Rightarrow> cst" where
  "addChange typ when detail st = (case changeID (cs_ids st) typ of (a, i) \<Rightarrow>
     onBundle (\<lambda>b. b\<lparr>bd_RecentChanges := bd_RecentChanges b @ [\<lparr>ch_ID = i, ch_Type = typ, ch_OccurredAt = when,
       ch_Detail = detail\<rparr>]\<rparr>) (st\<lparr>cs_ids := a\<rparr>))"

definition component :: "string \<Rightarrow> string \<Rightarrow> string \<Rightarrow> string \<Rightarrow> Component" where
  "component kind name state detail = \<lparr>cp_ID = '''', cp_Kind = kind, cp_Name = name, cp_State = state,
     cp_Health = '''', cp_Detail = detail, cp_Owner = '''', cp_ComposeProject = '''', cp_ComposeService = ''''\<rparr>"

definition newSignal :: "string \<Rightarrow> rat \<Rightarrow> string \<Rightarrow> string \<Rightarrow> Signal" where
  "newSignal typ value detail subject = \<lparr>sg_ID = '''', sg_Type = typ, sg_Value = value, sg_WindowSeconds = 0,
     sg_Detail = detail, sg_Subject = subject\<rparr>"

text \<open>\<open>buildLog\<close> and the statements that follow each of its calls.\<close>

definition lastN :: "int \<Rightarrow> 'a list \<Rightarrow> 'a list" where
  "lastN n xs = drop (length xs - nat n) xs"

definition buildLog :: "('a Collector_scheme) \<Rightarrow> string \<Rightarrow> string \<Rightarrow> string list \<Rightarrow> LogExcerpt" where
  "buildLog c i source ls =
     (let over = int (length ls) > bg_MaxLogLines (co_budget c);
          kept = (if over then lastN (bg_MaxLogLines (co_budget c)) ls else ls);
          text = fst (redactText (co_redactor c) (Join [CHR 0x0A] kept));
          long = int (length text) > bg_MaxItemBytes (co_budget c) in
      \<lparr>lg_ID = i, lg_Source = source, lg_LineCount = int (length kept), lg_Truncated = over \<or> long,
       lg_Redacted = True,
       lg_Content = if long then keepEnd text (bg_MaxItemBytes (co_budget c)) else text\<rparr>)"

definition logReport :: "('a Collector_scheme) \<Rightarrow> string list \<Rightarrow> Report" where
  "logReport c ls =
     snd (redactText (co_redactor c) (Join [CHR 0x0A]
       (if int (length ls) > bg_MaxLogLines (co_budget c) then lastN (bg_MaxLogLines (co_budget c)) ls else ls)))"

definition logDropped :: "('a Collector_scheme) \<Rightarrow> string list \<Rightarrow> int" where
  "logDropped c ls =
     (if int (length ls) > bg_MaxLogLines (co_budget c) then int (length ls) - bg_MaxLogLines (co_budget c) else 0)"

definition addLog :: "('a Collector_scheme) \<Rightarrow> string \<Rightarrow> string list \<Rightarrow> cst \<Rightarrow> cst" where
  "addLog c source ls st = (case freshID (''log_'' @ sanitize source) st of (st, i) \<Rightarrow>
     onBundle (\<lambda>b. b\<lparr>bd_Logs := bd_Logs b @ [buildLog c i source ls]\<rparr>)
       (addDropped (logDropped c ls) (mergeReport (logReport c ls) st)))"

text \<open>Text that is redacted, with its report merged.\<close>

definition redacting :: "('a Collector_scheme) \<Rightarrow> string \<Rightarrow> cst \<Rightarrow> (string \<Rightarrow> cst \<Rightarrow> cst) \<Rightarrow> cst" where
  "redacting c text st k =
     (case redactText (co_redactor c) text of (out, rep) \<Rightarrow> k out (mergeReport rep st))"

section \<open>Docker (evidence.go)\<close>

definition restartLoopThreshold :: int where "restartLoopThreshold = 3"

definition dockerStatus :: "ContainerSummary \<Rightarrow> string" where
  "dockerStatus s =
     (if \<not> EqualFold (dc_State s) ''running'' then ''down''
      else if EqualFold (dc_Health s) ''unhealthy'' then ''degraded'' else ''up'')"

definition composeProjectOf :: "ContainerSummary \<Rightarrow> ContainerDetail option \<Rightarrow> string" where
  "composeProjectOf s detail =
     (case detail of Some d \<Rightarrow> if dd_ComposeProject d \<noteq> '''' then dd_ComposeProject d else dc_ComposeProject s
      | None \<Rightarrow> dc_ComposeProject s)"

definition envMap :: "(string \<times> string) list \<Rightarrow> (string \<times> string) list" where
  "envMap vs = fold (\<lambda>(k, v). AList.update k v) vs []"

definition dockerParts :: "('a Collector_scheme) \<Rightarrow> ContainerSummary \<Rightarrow> ContainerDetail option \<Rightarrow> string list \<times> Report" where
  "dockerParts c s detail =
     (case detail of
        None \<Rightarrow> (if dc_Status s \<noteq> '''' then [dc_Status s] else [], noReport)
      | Some d \<Rightarrow>
          (let status = (if dd_Status d \<noteq> '''' then [dd_Status d] else if dc_Status s \<noteq> '''' then [dc_Status s] else []);
               restarts = (if dd_RestartCount d > 0 then [''restarts='' @ Itoa (dd_RestartCount d)] else []);
               env = redactMap (co_redactor c) (envMap (dd_EnvironmentVars d)) in
           if dd_EnvironmentVars d = [] then (status @ restarts, noReport)
           else (status @ restarts @ [''env: '' @ formatEnv (fst env)], Report_Merge noReport (snd env))))"

text \<open>The redacted component and its report; \<open>addComponent\<close> gives it its id.\<close>

definition buildDockerComponent ::
    "('a Collector_scheme) \<Rightarrow> ContainerSummary \<Rightarrow> ContainerDetail option \<Rightarrow> Component \<times> Report" where
  "buildDockerComponent c s detail =
     (case dockerParts c s detail of (parts, rep) \<Rightarrow>
      (case redactText (co_redactor c) (Join ''; '' parts) of (text, textRep) \<Rightarrow>
        ((component ''docker_container'' (dc_Name s) (dc_State s) text)
           \<lparr>cp_Health := dc_Health s, cp_ComposeProject := composeProjectOf s detail,
            cp_ComposeService := dc_ComposeService s\<rparr>,
         Report_Merge rep textRep)))"

definition addContainer :: "('a Collector_scheme) \<Rightarrow> ContainerSummary \<Rightarrow> ContainerDetail option \<Rightarrow> cst \<Rightarrow> cst" where
  "addContainer c s detail st =
     (case buildDockerComponent c s detail of (cmpo, rep) \<Rightarrow>
        addComponent (''cmp_docker_'' @ sanitize (dc_Name s)) cmpo (mergeReport rep st))"

fun addSiblings :: "('a Collector_scheme) \<Rightarrow> ContainerSummary \<Rightarrow> string \<Rightarrow> ContainerSummary list \<Rightarrow> cst \<Rightarrow> cst" where
  "addSiblings c primary project [] st = st"
| "addSiblings c primary project (s # ss) st =
     (if dc_ID s = dc_ID primary \<or> dc_ComposeProject s \<noteq> project then addSiblings c primary project ss st
      else withRoom (co_budget c) st (\<lambda>st. addSiblings c primary project ss (addContainer c s None st)) id)"

definition dockerRestarts :: "('a Collector_scheme) \<Rightarrow> ContainerSummary \<Rightarrow> ContainerDetail \<Rightarrow> cst \<Rightarrow> cst" where
  "dockerRestarts c primary d st0 =
     (let n = dd_RestartCount d;
          st1 = (if n \<ge> restartLoopThreshold
                 then withRoom (co_budget c) st0 (\<lambda>st.
                   redacting c (dc_Name primary @ '' restarted '' @ Itoa n @ '' times'') st (\<lambda>text st.
                     addSignal ''sig_container_restart_loop''
                       (newSignal ''container_restart_loop'' (of_int n) text (dc_Name primary)) st)) id
                 else st0) in
      if n > 0
      then withRoom (co_budget c) st1 (\<lambda>st.
        redacting c (dc_Name primary @ '' restarted ('' @ Itoa n @ '' recorded restarts)'') st (\<lambda>text st.
          addChange ''container_restart'' (co_now c AtRestart) text st)) id
      else st1)"

definition dockerLogs :: "('a Collector_scheme) \<Rightarrow> DockerSource \<Rightarrow> Target \<Rightarrow> ContainerSummary \<Rightarrow> cst \<Rightarrow> cst" where
  "dockerLogs c d t primary st =
     (case ds_Logs d (dc_ID primary) (bg_MaxLogLines (co_budget c)) of
        Inl e \<Rightarrow> warn (''docker logs for '' @ Quote (tg_Target t) @ '' unavailable: '' @ e) st
      | Inr ls \<Rightarrow> withRoom (co_budget c) st (addLog c (''docker:'' @ dc_Name primary) ls) id)"

definition collectDocker :: "('a Collector_scheme) \<Rightarrow> Target \<Rightarrow> cst \<Rightarrow> cst" where
  "collectDocker c t st0 =
     (case co_docker c of None \<Rightarrow> warn ''docker evidence unavailable: no docker source configured'' st0
      | Some d \<Rightarrow>
     (case ds_Containers d of Inl e \<Rightarrow> warn (''docker containers unavailable: '' @ e) st0
      | Inr summaries \<Rightarrow>
     (case find (\<lambda>s. EqualFold (dc_Name s) (tg_Target t)) summaries of
        None \<Rightarrow> warn (''docker container '' @ Quote (tg_Target t) @ '' not found'') st0
      | Some primary \<Rightarrow>
        (let answer = ds_Container d (dc_ID primary);
             detail = (case answer of Inr x \<Rightarrow> Some x | Inl _ \<Rightarrow> None);
             st1 = (case answer of Inr _ \<Rightarrow> st0
               | Inl e \<Rightarrow> warn (''docker container '' @ Quote (tg_Target t) @ '' detail unavailable: '' @ e) st0);
             st2 = setStatus (dockerStatus primary) (withRoom (co_budget c) st1 (addContainer c primary detail) id);
             project = composeProjectOf primary detail;
             st3 = (if project \<noteq> '''' then addSiblings c primary project summaries st2 else st2);
             st4 = dockerLogs c d t primary st3 in
         case detail of None \<Rightarrow> st4 | Some x \<Rightarrow> dockerRestarts c primary x st4))))"

section \<open>systemd\<close>

definition systemdStatus :: "string \<Rightarrow> string" where
  "systemdStatus activeState =
     (let s = ToLower activeState in
      if s = ''active'' then ''up'' else if s = ''activating'' \<or> s = ''reloading'' then ''degraded''
      else if s = '''' then ''unknown'' else ''down'')"

definition named :: "string \<Rightarrow> string \<Rightarrow> string list" where
  "named label v = (if v \<noteq> '''' then [label @ v] else [])"

definition buildSystemdComponent :: "('a Collector_scheme) \<Rightarrow> UnitDetail \<Rightarrow> Component \<times> Report" where
  "buildSystemdComponent c u =
     (case redactText (co_redactor c) (Join ''; '' (named ''sub_state='' (ud_SubState u) @
         named ''load_state='' (ud_LoadState u) @ named ''unit_file='' (ud_FragmentPath u) @
         named ''following='' (ud_Following u))) of (text, rep) \<Rightarrow>
      (component ''systemd_unit'' (ud_Name u) (ud_ActiveState u) text, rep))"

definition collectSystemd :: "('a Collector_scheme) \<Rightarrow> Target \<Rightarrow> cst \<Rightarrow> cst" where
  "collectSystemd c t st0 =
     (case co_systemd c of None \<Rightarrow> warn ''systemd evidence unavailable: no systemd source configured'' st0
      | Some s \<Rightarrow>
     (case ss_Get s (tg_Target t) of
        Inl e \<Rightarrow> warn (''systemd unit '' @ Quote (tg_Target t) @ '' unavailable: '' @ e) st0
      | Inr unit \<Rightarrow>
        (let st1 = withRoom (co_budget c) st0 (\<lambda>st.
               case buildSystemdComponent c unit of (cmpo, rep) \<Rightarrow>
                 addComponent (''cmp_systemd_'' @ sanitize (ud_Name unit)) cmpo (mergeReport rep st)) id;
             st2 = setStatus (systemdStatus (ud_ActiveState unit)) st1 in
         case ss_Logs s (tg_Target t) (bg_MaxLogLines (co_budget c)) of
           Inl e \<Rightarrow> warn (''systemd logs for '' @ Quote (tg_Target t) @ '' unavailable: '' @ e) st2
         | Inr raw \<Rightarrow> withRoom (co_budget c) st2
             (addLog c (''systemd:'' @ tg_Target t) (Split (CHR 0x0A) raw)) id)))"

section \<open>Host metrics and out-of-memory kills\<close>

text \<open>\<open>time.Duration\<close> as text: hours, minutes and seconds, or a smaller unit below one second.\<close>

definition padNine :: "nat \<Rightarrow> int \<Rightarrow> string" where
  "padNine k n = (let s = Itoa n in replicate (k - length s) (CHR ''0'') @ s)"

definition fracText :: "int \<Rightarrow> int \<Rightarrow> nat \<Rightarrow> string" where
  "fracText n scale digits =
     (let f = TrimRight (padNine digits (n mod scale)) ''0'' in
      Itoa (n div scale) @ (if f = [] then [] else CHR ''.'' # f))"

definition durationText :: "duration \<Rightarrow> string" where
  "durationText d =
     (let n = \<bar>d\<bar>; sign = (if d < 0 then ''-'' else '''');
          h = n div (3600 * second); m = n div (60 * second) mod 60; s = n mod (60 * second) in
      if n = 0 then ''0s''
      else if n < 1000 then sign @ Itoa n @ ''ns''
      else if n < 1000000 then sign @ fracText n 1000 3 @ [CHR 0xC2, CHR 0xB5, CHR ''s'']
      else if n < second then sign @ fracText n 1000000 6 @ ''ms''
      else sign @ (if h > 0 then Itoa h @ ''h'' else '''') @
        (if n \<ge> 60 * second then Itoa m @ ''m'' else '''') @ fracText s second 9 @ ''s'')"

definition megabytesOf :: "int \<Rightarrow> rat" where
  "megabytesOf n = of_int n / (1024 * 1024)"

fun addDisks :: "Budget \<Rightarrow> DiskMetric list \<Rightarrow> cst \<Rightarrow> cst" where
  "addDisks bg [] st = st"
| "addDisks bg (d # ds) st =
     (if \<not> dm_Available d then addDisks bg ds st
      else (let mount = sanitize (dm_Mountpoint d) in
        addDisks bg ds
          (addMetric bg (''met_inode_used_percent_'' @ mount) ''inode_used_percent'' (dm_InodePercent d) ''%'' (dm_Mountpoint d)
          (addMetric bg (''met_disk_used_percent_'' @ mount) ''disk_used_percent'' (dm_Percent d) ''%'' (dm_Mountpoint d) st))))"

definition addInfraMetrics :: "Budget \<Rightarrow> HostMetrics \<Rightarrow> cst \<Rightarrow> cst" where
  "addInfraMetrics bg hm st0 =
     (let st1 = (case hm_CPU hm of None \<Rightarrow> st0
            | Some p \<Rightarrow> addMetric bg ''met_cpu_percent'' ''cpu_percent'' p ''%'' '''' st0);
          st2 = (case hm_Memory hm of None \<Rightarrow> st1
            | Some (tot, p) \<Rightarrow>
                addMetric bg ''met_memory_total_mb'' ''memory_total_mb'' (megabytesOf tot) ''MB'' ''''
                (addMetric bg ''met_memory_used_percent'' ''memory_used_percent'' p ''%'' ''''
                (addMetric bg ''met_available_memory_percent'' ''available_memory_percent'' (100 - p) ''%'' '''' st1)));
          st3 = (case hm_Swap hm of None \<Rightarrow> st2
            | Some (tot, p) \<Rightarrow>
                addMetric bg ''met_swap_total_mb'' ''swap_total_mb'' (megabytesOf tot) ''MB'' ''''
                (addMetric bg ''met_swap_used_percent'' ''swap_used_percent'' p ''%'' '''' st2));
          st4 = (case hm_Load hm of None \<Rightarrow> st3
            | Some one \<Rightarrow> addMetric bg ''met_load_one'' ''load_one'' one '''' '''' st3) in
      addDisks bg (hm_Disks hm) st4)"

definition oomText :: "duration \<Rightarrow> OOMEvent list \<Rightarrow> string" where
  "oomText window events =
     Itoa (int (length events)) @ '' OOM kill(s) in the last '' @ durationText window @ '', most recent: pid '' @
     Itoa (oe_PID (last events)) @ '' process '' @ Quote (oe_Process (last events))"

definition collectInfra :: "('a Collector_scheme) \<Rightarrow> cst \<Rightarrow> cst" where
  "collectInfra c st0 =
     (case co_infra c of None \<Rightarrow> warn ''infra evidence unavailable: no infra source configured'' st0
      | Some f \<Rightarrow>
        (let window = bg_ChangeWindow (co_budget c);
             st1 = (case if_Sample f of Inl e \<Rightarrow> warn (''infra metrics unavailable: '' @ e) st0
               | Inr hm \<Rightarrow> addInfraMetrics (co_budget c) hm st0) in
         case if_OOMEvents f (co_now c AtOOM - window) of
           Inl e \<Rightarrow> warn (''oom events unavailable: '' @ e) st1
         | Inr events \<Rightarrow>
             if events = [] then st1
             else withRoom (co_budget c) st1 (\<lambda>st. redacting c (oomText window events) st (\<lambda>text st.
               addSignal ''sig_oom_kill''
                 ((newSignal ''oom_kill'' (of_nat (length events)) text (oe_Process (last events)))
                    \<lparr>sg_WindowSeconds := window div second\<rparr>) st)) id))"

section \<open>Web servers\<close>

fun addWebservers :: "('a Collector_scheme) \<Rightarrow> Instance list \<Rightarrow> cst \<Rightarrow> cst" where
  "addWebservers c [] st = st"
| "addWebservers c (i # is) st =
     withRoom (co_budget c) st (\<lambda>st.
       redacting c (''kind='' @ in_Kind i @ '' domains='' @ Join '','' (in_Hosts i)) st (\<lambda>text st.
         addWebservers c is
           (addComponent (''cmp_webserver_'' @ sanitize (in_ID i))
             (component ''webserver_instance'' (in_ID i) (in_ActiveState i) text) st))) id"

definition collectWebserver :: "('a Collector_scheme) \<Rightarrow> cst \<Rightarrow> cst" where
  "collectWebserver c st =
     (case co_webserver c of None \<Rightarrow> warn ''webserver evidence unavailable: no webserver source configured'' st
      | Some snap \<Rightarrow>
          if \<not> sn_Available snap
          then warn (''webserver evidence unavailable'' @
            (if sn_Warnings snap = [] then '''' else '': '' @ Join ''; '' (sn_Warnings snap))) st
          else addWebservers c (sn_Webservers snap) (fold (\<lambda>w. warn (''webserver: '' @ w)) (sn_Warnings snap) st))"

section \<open>Disks, PM2, certificates and the proxy (evidence\_stack.go)\<close>

definition certExpiringDays :: rat where "certExpiringDays = 30"
definition largestDirCount :: int where "largestDirCount = 5"

definition isStoppedPM2 :: "string \<Rightarrow> bool" where
  "isStoppedPM2 state \<longleftrightarrow> ToLower state \<in> {''stopped'', ''errored'', ''restarting''}"

fun addDirs :: "('a Collector_scheme) \<Rightarrow> DirSize list \<Rightarrow> cst \<Rightarrow> cst" where
  "addDirs c [] st = st"
| "addDirs c (d # ds) st =
     withRoom (co_budget c) st (\<lambda>st. redacting c (dz_Path d) st (\<lambda>path st.
       addDirs c ds
         (addSignal ''sig_large_directory''
           (newSignal ''large_directory'' (mathRound (dz_SizeMB d))
             (path @ '' uses '' @ formatF0 (dz_SizeMB d) @ '' MB'') path) st))) id"

definition mountOf :: "string \<Rightarrow> string" where
  "mountOf s = (if s = '''' then ''/'' else s)"

definition collectDisk :: "('a Collector_scheme) \<Rightarrow> Target \<Rightarrow> cst \<Rightarrow> cst" where
  "collectDisk c t st =
     (case co_disk c of None \<Rightarrow> warn ''disk usage by directory unavailable: no disk source configured'' st
      | Some largest \<Rightarrow>
          (case largest (mountOf (tg_Target t)) largestDirCount of (dirs, err) \<Rightarrow>
            addDirs c dirs (case err of None \<Rightarrow> st
              | Some e \<Rightarrow> warn (''disk usage by directory for '' @ Quote (mountOf (tg_Target t)) @ '' unavailable: '' @ e) st)))"

definition pm2State :: "Target \<Rightarrow> StackPM2 \<Rightarrow> string option" where
  "pm2State t app =
     (let state = ToLower (sp_Status app) in
      if tg_MonitorKind t = ''pm2_app''
      then (if tg_Target t \<noteq> sp_User app @ ''/'' @ sp_App app then None
            else Some (if isStoppedPM2 state then state else ''restarting''))
      else if isStoppedPM2 state then Some state else None)"

fun addPM2 :: "('a Collector_scheme) \<Rightarrow> Target \<Rightarrow> StackPM2 list \<Rightarrow> cst \<Rightarrow> cst" where
  "addPM2 c t [] st = st"
| "addPM2 c t (app # apps) st =
     (case pm2State t app of None \<Rightarrow> addPM2 c t apps st
      | Some state \<Rightarrow> withRoom (co_budget c) st (\<lambda>st.
          addPM2 c t apps
            (addComponent (''cmp_pm2_'' @ sanitize (sp_User app @ ''_'' @ sp_App app))
              ((component ''pm2_app'' (sp_App app) state
                 (''PM2 app '' @ sp_App app @ '' (user '' @ sp_User app @ '') is '' @ state))\<lparr>cp_Owner := sp_User app\<rparr>) st)) id)"

definition collectPM2 :: "('a Collector_scheme) \<Rightarrow> Target \<Rightarrow> cst \<Rightarrow> cst" where
  "collectPM2 c t st =
     (case co_stack c of None \<Rightarrow> warn ''pm2 evidence unavailable: no stack source configured'' st
      | Some s \<Rightarrow> addPM2 c t (st_PM2Apps s) st)"

definition certNameFromPath :: "string \<Rightarrow> string" where
  "certNameFromPath target =
     (let marker = ''/letsencrypt/live/'' in
      case Index target marker of None \<Rightarrow> ''''
      | Some i \<Rightarrow> fst (Cut (drop (i + length marker) target) (CHR ''/'')))"

definition afterScheme :: "string \<Rightarrow> string" where
  "afterScheme t = (case Index t ''://'' of Some i \<Rightarrow> drop (i + 3) t | None \<Rightarrow> t)"

definition beforePath :: "string \<Rightarrow> string" where
  "beforePath t = (case IndexAny t ''/?#'' of Some i \<Rightarrow> take i t | None \<Rightarrow> t)"

definition hostFromTarget :: "string \<Rightarrow> string" where
  "hostFromTarget target =
     (let t = beforePath (afterScheme (TrimSpace target)) in
      ToLower (case LastIndexByte t (CHR '':'') of None \<Rightarrow> t
        | Some i \<Rightarrow> if CHR '']'' \<in> set (drop i t) then t else take i t))"

definition certMatches :: "Target \<Rightarrow> StackCert \<Rightarrow> bool" where
  "certMatches t cert =
     (let host = hostFromTarget (tg_Target t); name = certNameFromPath (tg_Target t) in
      name \<noteq> '''' \<and> sc_Name cert = name \<or>
      host \<noteq> '''' \<and> (EqualFold (sc_Name cert) host \<or> HasSuffix host (CHR ''.'' # ToLower (sc_Name cert))))"

definition certDaysLeft :: "time \<Rightarrow> StackCert \<Rightarrow> rat" where
  "certDaysLeft now cert = of_int (TimeSub (sc_ExpiresAt cert) now) / of_int (3600 * second) / 24"

definition certState :: "time \<Rightarrow> StackCert \<Rightarrow> (string \<times> string) option" where
  "certState now cert =
     (let days = certDaysLeft now cert in
      if days < 0 then Some (''expired'', sc_Name cert @ '' expired '' @ formatF0 (- days) @ '' days ago'')
      else if days \<le> certExpiringDays
      then Some (''expiring'', sc_Name cert @ '' expires in '' @ formatF0 days @ '' days'')
      else None)"

fun addCerts :: "('a Collector_scheme) \<Rightarrow> StackCert list \<Rightarrow> cst \<Rightarrow> cst" where
  "addCerts c [] st = st"
| "addCerts c (cert # certs) st =
     (case certState (co_now c AtCerts) cert of None \<Rightarrow> addCerts c certs st
      | Some (state, detail) \<Rightarrow> withRoom (co_budget c) st (\<lambda>st.
          addCerts c certs
            (addComponent (''cmp_cert_'' @ sanitize (sc_Name cert))
              (component ''certificate'' (sc_Name cert) state detail) st)) id)"

definition collectCerts :: "('a Collector_scheme) \<Rightarrow> Target \<Rightarrow> cst \<Rightarrow> cst" where
  "collectCerts c t st =
     (case co_stack c of None \<Rightarrow> warn ''certificate evidence unavailable: no stack source configured'' st
      | Some s \<Rightarrow>
          (let matched = filter (certMatches t) (st_Certs s) in
           addCerts c (if matched \<noteq> [] then matched else st_Certs s) st))"

definition MonitorSummarySource :: string where "MonitorSummarySource = ''monitor:summary''"

fun addUpstreams :: "('a Collector_scheme) \<Rightarrow> Upstream list \<Rightarrow> cst \<Rightarrow> cst" where
  "addUpstreams c [] st = st"
| "addUpstreams c (u # us) st =
     withRoom (co_budget c) st (\<lambda>st.
       let known = us_Kind u = ''unit'' \<or> us_Kind u = ''container'';
           kind = (if known then ''upstream_'' @ us_Kind u else ''upstream_address'');
           name = (if known then us_Name u else us_Address u) in
       redacting c (''backend '' @ us_Address u) st (\<lambda>detail st.
         addUpstreams c us
           (addComponent (''cmp_'' @ kind @ ''_'' @ sanitize name) (component kind name ''unknown'' detail) st))) id"

definition proxyLog :: "('a Collector_scheme) \<Rightarrow> ProxySource \<Rightarrow> cst \<Rightarrow> cst" where
  "proxyLog c p st =
     (case px_ErrorLog p (bg_MaxLogLines (co_budget c)) of
        Inl e \<Rightarrow> warn (''proxy error log unavailable: '' @ e) st
      | Inr raw \<Rightarrow> if TrimSpace raw = '''' then st
          else withRoom (co_budget c) st
            (addLog c ''proxy:error.log'' (Split (CHR 0x0A) (TrimRight raw [CHR 0x0A]))) id)"

definition collectProxy :: "('a Collector_scheme) \<Rightarrow> Target \<Rightarrow> cst \<Rightarrow> cst" where
  "collectProxy c t st0 =
     (let st1 = (if TrimSpace (tg_Summary t) = '''' then st0
            else withRoom (co_budget c) st0 (addLog c MonitorSummarySource [tg_Summary t]) id) in
      case co_proxy c of None \<Rightarrow> warn ''proxy evidence unavailable: no proxy source configured'' st1
      | Some p \<Rightarrow>
          (case px_Upstreams p (tg_Target t) of
             Inl e \<Rightarrow> warn (''proxy backends for '' @ Quote (tg_Target t) @ '' unavailable: '' @ e) (proxyLog c p st1)
           | Inr ups \<Rightarrow> addUpstreams c ups (proxyLog c p st1)))"

section \<open>Collect\<close>

definition newBundle :: "('a Collector_scheme) \<Rightarrow> Target \<Rightarrow> Bundle" where
  "newBundle c t =
     \<lparr>bd_IncidentID = tg_IncidentID t, bd_CapturedAt = co_now c AtStart,
      bd_Service = \<lparr>sv_Name = tg_Target t, sv_Kind = tg_MonitorKind t, sv_Status = ''unknown''\<rparr>,
      bd_Redaction = noReport, bd_Signals = [], bd_Logs = [], bd_Components = [], bd_RecentChanges = [],
      bd_Metrics = [], bd_Warnings = [], bd_DroppedItems = 0\<rparr>"

definition collectTarget :: "('a Collector_scheme) \<Rightarrow> Target \<Rightarrow> cst \<Rightarrow> cst" where
  "collectTarget c t st =
     (let k = tg_MonitorKind t in
      if k = ''docker_container'' then collectDocker c t st
      else if k = ''systemd_unit'' then collectSystemd c t st
      else if k \<in> {''disk_capacity'', ''inode_capacity'', ''disk_fill_rate''} then collectDisk c t st
      else if k \<in> {''process_running'', ''pm2_app''} then collectPM2 c t st
      else if k \<in> {''cert_expiry'', ''tls_expiry''} then collectCerts c t st
      else if k = ''external_http'' then collectProxy c t st
      else st)"

definition Collect :: "('a Collector_scheme) \<Rightarrow> Target \<Rightarrow> Bundle" where
  "Collect c t =
     (let st = collectTarget c t \<lparr>cs_b = newBundle c t, cs_ids = \<lparr>ia_used = [], ia_change = []\<rparr>\<rparr> in
      case co_expired c of
        Some e \<Rightarrow> cs_b (warn (''collection budget exceeded before host metrics could be gathered: '' @ e) st)
      | None \<Rightarrow> cs_b (collectWebserver c (collectInfra c st)))"

end
