(* ===== verification/Diagnose.thy ===== *)
theory Diagnose
  imports Evidence
begin

text \<open>
  The deterministic checks on a bundle and the assessment made from them:
  \<^verbatim>\<open>internal/diagnose/{signatures,diagnose}.go\<close>. Confidences are rationals; the code's \<open>float64\<close> computations with
  them are taken to be exact.
\<close>

section \<open>Signatures (signatures.go)\<close>

record Signature =
  si_ID :: string
  si_Type :: string
  si_Title :: string
  si_EvidenceIDs :: "string list"
  si_Confidence :: rat
  si_Subject :: string
  si_Detail :: string

definition SigPM2AppStopped :: string where "SigPM2AppStopped = ''pm2_app_stopped''"
definition SigCertExpiring :: string where "SigCertExpiring = ''cert_expiring''"
definition diskExhaustedPercent :: rat where "diskExhaustedPercent = 90"
definition inodeExhaustedPercent :: rat where "inodeExhaustedPercent = 90"
definition memoryPressureAvailPct :: rat where "memoryPressureAvailPct = 10"
definition restartLoopConfidenceLo :: rat where "restartLoopConfidenceLo = 8 / 10"

definition proxyUpstreamErrorRe :: rx where
  "proxyUpstreamErrorRe = rxAlt
     [rxSeq [iword ''502'', spaces1, iword ''bad'', spaces1, iword ''gateway''],
      rxSeq [iword ''bad'', spaces1, iword ''gateway''],
      rxSeq [iword ''upstream'', spaces1, rxAlt
        [rxSeq [iword ''connect'', spaces1, iword ''error''],
         rxSeq [iword ''time'', RAlt (iword ''d'') REmpty, spaces0, iword ''out''],
         rxSeq [iword ''prematurely'', spaces1, iword ''closed''],
         iword ''unavailable'', iword ''refused'']],
      rxSeq [iword ''connect()'', spaces1, iword ''failed'']]"

definition gatewayStatusRe :: rx where
  "gatewayStatusRe = rxSeq [RBound, iword ''50'', RClass (\<lambda>c. c \<in> set ''234''), RBound]"

definition clamp :: "rat \<Rightarrow> rat \<Rightarrow> rat \<Rightarrow> rat" where
  "clamp v lo hi = (if v < lo then lo else if v > hi then hi else v)"

definition restartLoopConfidence :: "rat \<Rightarrow> rat" where
  "restartLoopConfidence restarts =
     (if restarts \<ge> 10 then 95 / 100 else if restarts \<ge> 5 then 9 / 10 else restartLoopConfidenceLo)"

definition overThresholdConfidence :: "rat \<Rightarrow> rat \<Rightarrow> rat" where
  "overThresholdConfidence value threshold =
     clamp (7 / 10 + (value - threshold) / 100 * (5 / 10)) (7 / 10) (95 / 100)"

definition underThresholdConfidence :: "rat \<Rightarrow> rat \<Rightarrow> rat" where
  "underThresholdConfidence value threshold =
     clamp (7 / 10 + (threshold - value) / threshold * (3 / 10)) (7 / 10) (95 / 100)"

definition isDownUnitState :: "string \<Rightarrow> bool" where
  "isDownUnitState state \<longleftrightarrow> ToLower state \<in> {''failed'', ''inactive'', ''deactivating''}"

definition isStoppedState :: "string \<Rightarrow> bool" where
  "isStoppedState state \<longleftrightarrow> ToLower state \<in> {''exited'', ''dead'', ''created'', ''removing''}"

fun upstreamIn :: "Component list \<Rightarrow> string" where
  "upstreamIn [] = ''''"
| "upstreamIn (c # cs) =
     (if cp_Kind c = ''upstream_unit'' then ''unit:'' @ cp_Name c
      else if cp_Kind c = ''upstream_container'' then ''container:'' @ cp_Name c
      else upstreamIn cs)"

definition upstreamSubject :: "Bundle \<Rightarrow> string" where
  "upstreamSubject b = upstreamIn (bd_Components b)"

text \<open>
  One function per loop of \<open>Match\<close>, each giving the signatures of one element without their ids.
\<close>

definition sigOf :: "string \<Rightarrow> string \<Rightarrow> string list \<Rightarrow> rat \<Rightarrow> string \<Rightarrow> string \<Rightarrow> Signature" where
  "sigOf typ title ids conf subject detail = \<lparr>si_ID = '''', si_Type = typ, si_Title = title,
     si_EvidenceIDs = ids, si_Confidence = conf, si_Subject = subject, si_Detail = detail\<rparr>"

definition matchSignal :: "Signal \<Rightarrow> Signature list" where
  "matchSignal s =
     (if sg_Type s = ''container_restart_loop'' then
        [sigOf ''container_restart_loop''
          (''Container restarting repeatedly ('' @ Itoa (Go_Text.truncate (sg_Value s)) @ '' restarts)'')
          [sg_ID s] (restartLoopConfidence (sg_Value s)) (sg_Subject s) (sg_Detail s)]
      else if sg_Type s = ''oom_kill'' then
        [sigOf ''oom_kill'' ''Kernel OOM-killed a process'' [sg_ID s] 1 (sg_Subject s) (sg_Detail s)]
      else [])"

definition matchComponent :: "Component \<Rightarrow> Signature list" where
  "matchComponent c =
     (if cp_Kind c = ''docker_container'' \<and> isStoppedState (cp_State c) then
        [sigOf ''container_stopped'' (cp_Name c @ '' is '' @ cp_State c) [cp_ID c] (85 / 100) (cp_Name c) (cp_Detail c)]
      else if cp_Kind c = ''systemd_unit'' \<and> isDownUnitState (cp_State c) then
        (if EqualFold (cp_State c) ''failed''
         then [sigOf ''unit_failed'' (cp_Name c @ '' failed'') [cp_ID c] (9 / 10) (cp_Name c) (cp_Detail c)]
         else [sigOf ''unit_failed'' (cp_Name c @ '' is '' @ ToLower (cp_State c)) [cp_ID c] (85 / 100) (cp_Name c) (cp_Detail c)])
      else if cp_Kind c = ''pm2_app'' \<and> isStoppedPM2 (cp_State c) then
        [sigOf SigPM2AppStopped (''PM2 app '' @ cp_Name c @ '' is '' @ cp_State c) [cp_ID c] (9 / 10) (cp_Name c) (cp_Detail c)]
      else if cp_Kind c = ''certificate'' \<and> (cp_State c = ''expiring'' \<or> cp_State c = ''expired'') then
        [sigOf SigCertExpiring (''Certificate '' @ cp_Name c @ '' is '' @ cp_State c) [cp_ID c]
          (if cp_State c = ''expired'' then 95 / 100 else 9 / 10) (cp_Name c) (cp_Detail c)]
      else [])"

definition matchMetric :: "Metric \<Rightarrow> Signature list" where
  "matchMetric m =
     (if mt_Name m = ''disk_used_percent'' then
        (if mt_Value m \<ge> diskExhaustedPercent
         then [sigOf ''disk_exhausted'' (''Disk usage at '' @ formatF1 (mt_Value m) @ ''%'') [mt_ID m]
           (overThresholdConfidence (mt_Value m) diskExhaustedPercent) (mt_Subject m) ''''] else [])
      else if mt_Name m = ''inode_used_percent'' then
        (if mt_Value m \<ge> inodeExhaustedPercent
         then [sigOf ''inode_exhausted'' (''Inode usage at '' @ formatF1 (mt_Value m) @ ''%'') [mt_ID m]
           (overThresholdConfidence (mt_Value m) inodeExhaustedPercent) (mt_Subject m) ''''] else [])
      else if mt_Name m = ''available_memory_percent'' then
        (if mt_Value m \<le> memoryPressureAvailPct
         then [sigOf ''memory_pressure'' (''Host memory pressure ('' @ formatF1 (mt_Value m) @ ''% available)'') [mt_ID m]
           (underThresholdConfidence (mt_Value m) memoryPressureAvailPct) '''' ''''] else [])
      else [])"

definition matchChange :: "Change \<Rightarrow> Signature" where
  "matchChange ch = sigOf ''recent_deployment'' (''Recent change: '' @ ch_Detail ch) [ch_ID ch] (1 / 2) '''' (ch_Detail ch)"

definition proxyLogHit :: "LogExcerpt \<Rightarrow> bool" where
  "proxyLogHit l \<longleftrightarrow> MatchString proxyUpstreamErrorRe (lg_Content l) \<or>
     lg_Source l = MonitorSummarySource \<and> MatchString gatewayStatusRe (lg_Content l)"

definition matchLogs :: "Bundle \<Rightarrow> Signature list" where
  "matchLogs b =
     (let ev = map lg_ID (filter proxyLogHit (bd_Logs b)) in
      if ev = [] then []
      else [sigOf ''proxy_upstream_error'' ''Proxy upstream error detected in logs'' ev (8 / 10) (upstreamSubject b) ''''])"

text \<open>\<open>nextID\<close>: ids are numbered per type in the order of the loops.\<close>

fun numberSigs :: "(string \<times> nat) list \<Rightarrow> Signature list \<Rightarrow> Signature list" where
  "numberSigs counts [] = []"
| "numberSigs counts (s # ss) =
     (let n = Suc (countOf counts (si_Type s)) in
      s\<lparr>si_ID := ''sig_'' @ si_Type s @ (if n = 1 then '''' else ''_'' @ Itoa (int n))\<rparr>
        # numberSigs (AList.update (si_Type s) n counts) ss)"

definition rawMatches :: "Bundle \<Rightarrow> Signature list" where
  "rawMatches b =
     concat (map matchSignal (bd_Signals b)) @ concat (map matchComponent (bd_Components b)) @
     concat (map matchMetric (bd_Metrics b)) @ map matchChange (bd_RecentChanges b) @ matchLogs b"

definition Match :: "Bundle \<Rightarrow> Signature list" where
  "Match b = sort_key (\<lambda>s. (- si_Confidence s, si_ID s)) (numberSigs [] (rawMatches b))"

section \<open>Assessment (diagnose.go)\<close>

definition DefaultConfidenceThreshold :: rat where "DefaultConfidenceThreshold = 6 / 10"

record Hypothesis =
  hy_Cause :: string
  hy_Confidence :: rat
  hy_EvidenceIDs :: "string list"

record Assessment =
  as_IncidentID :: string
  as_CapturedAt :: time
  as_Redaction :: Report
  as_Service :: Service
  as_SummaryText :: string
  as_Confidence :: rat
  as_Uncertain :: bool
  as_ProbableCause :: string
  as_Hypotheses :: "Hypothesis list"
  as_Signatures :: "Signature list"

definition Assess :: "Bundle \<Rightarrow> Signature list \<Rightarrow> Assessment" where
  "Assess b sigs =
     (let a = \<lparr>as_IncidentID = bd_IncidentID b, as_CapturedAt = bd_CapturedAt b, as_Redaction = bd_Redaction b,
        as_Service = bd_Service b, as_SummaryText = '''', as_Confidence = 0, as_Uncertain = False,
        as_ProbableCause = '''', as_Hypotheses = [], as_Signatures = sigs\<rparr> in
      case sigs of
        [] \<Rightarrow> a\<lparr>as_SummaryText := ''No known failure signature matched; manual investigation required.''\<rparr>
      | best # _ \<Rightarrow>
          a\<lparr>as_SummaryText := si_Title best, as_ProbableCause := si_Title best, as_Confidence := si_Confidence best,
            as_Hypotheses := map (\<lambda>s. \<lparr>hy_Cause = si_Title s, hy_Confidence = si_Confidence s,
              hy_EvidenceIDs = si_EvidenceIDs s\<rparr>) sigs\<rparr>)"

definition pipelineThreshold :: "rat \<Rightarrow> rat" where
  "pipelineThreshold t = (if t \<le> 0 then DefaultConfidenceThreshold else t)"

definition pipelineRun :: "('a Collector_scheme) \<Rightarrow> rat \<Rightarrow> Target \<Rightarrow> Assessment \<times> Bundle" where
  "pipelineRun c threshold t =
     (let b = Collect c t; a = Assess b (Match b) in
      (a\<lparr>as_Uncertain := as_Confidence a < pipelineThreshold threshold\<rparr>, b))"

end
