(* ===== verification/Diagnose_Theorems.thy ===== *)
theory Diagnose_Theorems
  imports Diagnose Redact_Theorems
begin

text \<open>
  What collection and matching guarantee. \<open>collecting\<close> is the contract between the collectors and the
  operations that add evidence: a property of the state that these operations keep holds of every
  bundle. It is used for the budget and for the redaction of logs.
\<close>

section \<open>Collectors over the operations that add evidence\<close>

lemma roomFor_simps [simp]:
  "roomFor bg (mergeReport rep st) = roomFor bg st"
  by (simp add: roomFor_def mergeReport_def onBundle_def items_def)

locale collecting =
  fixes c :: "'a Collector_scheme" and P :: "cst \<Rightarrow> bool"
  assumes warn: "P st \<Longrightarrow> P (warn m st)"
    and status: "P st \<Longrightarrow> P (setStatus s st)"
    and merge: "P st \<Longrightarrow> P (mergeReport rep st)"
    and dropped: "P st \<Longrightarrow> P (addDropped n st)"
    and comp: "P st \<Longrightarrow> roomFor (co_budget c) st \<Longrightarrow> P (addComponent base x st)"
    and signal: "P st \<Longrightarrow> roomFor (co_budget c) st \<Longrightarrow> P (addSignal base sg st)"
    and logged: "P st \<Longrightarrow> roomFor (co_budget c) st \<Longrightarrow> P (addLog c source ls st)"
    and metric: "P st \<Longrightarrow> P (addMetric (co_budget c) base name v u sub st)"
    and change: "P st \<Longrightarrow> roomFor (co_budget c) st \<Longrightarrow>
      P (addChange typ w (fst (redactText (co_redactor c) raw)) st)"
begin

lemma room:
  assumes "P st" and "\<And>st. P st \<Longrightarrow> roomFor (co_budget c) st \<Longrightarrow> P (k st)" and "\<And>st. P st \<Longrightarrow> P (full st)"
  shows "P (withRoom (co_budget c) st k full)"
  using assms by (simp add: withRoom_def dropped)

lemma redacted:
  assumes "P st" and "roomFor (co_budget c) st"
    and "\<And>st raw. P st \<Longrightarrow> roomFor (co_budget c) st \<Longrightarrow> P (k (fst (redactText (co_redactor c) raw)) st)"
  shows "P (redacting c x st k)"
  using assms(1,2) assms(3) [of "mergeReport (snd (redactText (co_redactor c) x)) st" x]
  by (simp add: redacting_def merge case_prod_unfold)

lemma merged: "P st \<Longrightarrow> roomFor (co_budget c) st \<Longrightarrow> P (addComponent base x (mergeReport rep st))"
  by (simp add: comp merge)

lemma addContainer_P: "P st \<Longrightarrow> roomFor (co_budget c) st \<Longrightarrow> P (addContainer c s d st)"
  by (simp add: addContainer_def merged case_prod_unfold)

lemma addSiblings_P: "P st \<Longrightarrow> P (addSiblings c p project ss st)"
proof (induction ss arbitrary: st project)
  case (Cons x xs)
  show ?case using Cons.prems by (auto intro!: room addContainer_P Cons.IH)
qed simp

lemma dockerRestarts_P: "P st \<Longrightarrow> P (dockerRestarts c p d st)"
  by (auto simp: dockerRestarts_def Let_def intro!: room redacted signal change)

lemma dockerLogs_P: "P st \<Longrightarrow> P (dockerLogs c d t p st)"
  by (auto simp: dockerLogs_def intro!: room logged warn split: sum.split)

lemma collectDocker_P: "P st \<Longrightarrow> P (collectDocker c t st)"
  unfolding collectDocker_def Let_def
  by (auto intro!: warn status dockerRestarts_P dockerLogs_P addSiblings_P room addContainer_P
      split: option.split sum.split)

lemma collectSystemd_P: "P st \<Longrightarrow> P (collectSystemd c t st)"
  unfolding collectSystemd_def Let_def
  by (auto intro!: warn status room logged merged split: option.split sum.split prod.split)

lemma addDisks_P: "P st \<Longrightarrow> P (addDisks (co_budget c) ds st)"
  by (induction ds arbitrary: st) (auto simp: Let_def metric)

lemma addInfraMetrics_P: "P st \<Longrightarrow> P (addInfraMetrics (co_budget c) hm st)"
  unfolding addInfraMetrics_def Let_def by (auto intro!: addDisks_P metric split: option.split)

lemma collectInfra_P: "P st \<Longrightarrow> P (collectInfra c st)"
  unfolding collectInfra_def Let_def
  by (auto intro!: warn addInfraMetrics_P room redacted signal split: option.split sum.split)

lemma addWebservers_P: "P st \<Longrightarrow> P (addWebservers c is st)"
proof (induction "is" arbitrary: st)
  case (Cons x xs)
  show ?case using Cons.prems by (auto intro!: room redacted comp Cons.IH)
qed simp

lemma warnings_P: "P st \<Longrightarrow> P (fold (\<lambda>w. warn (f w)) ws st)"
  by (induction ws arbitrary: st) (auto intro: warn)

lemma collectWebserver_P: "P st \<Longrightarrow> P (collectWebserver c st)"
  unfolding collectWebserver_def by (auto intro!: warn addWebservers_P warnings_P split: option.split)

lemma addDirs_P: "P st \<Longrightarrow> P (addDirs c ds st)"
proof (induction ds arbitrary: st)
  case (Cons x xs)
  show ?case using Cons.prems by (auto intro!: room redacted signal Cons.IH)
qed simp

lemma collectDisk_P: "P st \<Longrightarrow> P (collectDisk c t st)"
  unfolding collectDisk_def by (auto intro!: warn addDirs_P split: option.split prod.split)

lemma addPM2_P: "P st \<Longrightarrow> P (addPM2 c t apps st)"
proof (induction apps arbitrary: st)
  case (Cons x xs)
  show ?case using Cons.prems by (auto intro!: room comp Cons.IH split: option.split)
qed simp

lemma collectPM2_P: "P st \<Longrightarrow> P (collectPM2 c t st)"
  unfolding collectPM2_def by (auto intro!: warn addPM2_P split: option.split)

lemma addCerts_P: "P st \<Longrightarrow> P (addCerts c certs st)"
proof (induction certs arbitrary: st)
  case (Cons x xs)
  show ?case using Cons.prems by (auto intro!: room comp Cons.IH split: option.split)
qed simp

lemma collectCerts_P: "P st \<Longrightarrow> P (collectCerts c t st)"
  unfolding collectCerts_def Let_def by (auto intro!: warn addCerts_P split: option.split)

lemma addUpstreams_P: "P st \<Longrightarrow> P (addUpstreams c us st)"
proof (induction us arbitrary: st)
  case (Cons x xs)
  show ?case using Cons.prems by (auto simp: Let_def intro!: room redacted comp Cons.IH)
qed simp

lemma proxyLog_P: "P st \<Longrightarrow> P (proxyLog c p st)"
  unfolding proxyLog_def by (auto intro!: warn room logged split: sum.split)

lemma collectProxy_P: "P st \<Longrightarrow> P (collectProxy c t st)"
  unfolding collectProxy_def Let_def
  by (auto intro!: warn room logged addUpstreams_P proxyLog_P split: option.split sum.split)

lemma collectTarget_P: "P st \<Longrightarrow> P (collectTarget c t st)"
  unfolding collectTarget_def Let_def
  by (auto intro: collectDocker_P collectSystemd_P collectDisk_P collectPM2_P collectCerts_P collectProxy_P)

lemma Collect_P:
  assumes "P \<lparr>cs_b = newBundle c t, cs_ids = \<lparr>ia_used = [], ia_change = []\<rparr>\<rparr>"
  shows "\<exists>st. P st \<and> Collect c t = cs_b st"
  unfolding Collect_def Let_def
  using collectTarget_P [OF assms, of t] by (auto intro: warn collectWebserver_P collectInfra_P split: option.split)

end

section \<open>Budgets\<close>

lemma length_keepEnd: "0 \<le> mx \<Longrightarrow> int (length (keepEnd s mx)) \<le> mx"
proof -
  assume mx: "0 \<le> mx"
  obtain t where t: "t = drop (length s - nat mx) s" by simp
  have "length (skipCont t) \<le> length t" by (induction t) auto
  then have "length (keepEnd s mx) \<le> length t"
    unfolding keepEnd_def t [symmetric] by (auto simp: Let_def split: option.split)
  moreover have "length t \<le> nat mx" by (simp add: t)
  ultimately show ?thesis using mx by linarith
qed

definition logWithin :: "Budget \<Rightarrow> LogExcerpt \<Rightarrow> bool" where
  "logWithin bg l \<longleftrightarrow> lg_LineCount l \<le> bg_MaxLogLines bg \<and> int (length (lg_Content l)) \<le> bg_MaxItemBytes bg"

definition withinBudget :: "Budget \<Rightarrow> Bundle \<Rightarrow> bool" where
  "withinBudget bg b \<longleftrightarrow> int (items b) \<le> bg_MaxItems bg \<and> list_all (logWithin bg) (bd_Logs b)"

lemma buildLog_within:
  assumes "0 \<le> bg_MaxLogLines (co_budget c)" and "0 \<le> bg_MaxItemBytes (co_budget c)"
  shows "logWithin (co_budget c) (buildLog c i source ls)"
  using assms length_keepEnd [OF assms(2)] by (auto simp: logWithin_def buildLog_def Let_def lastN_def)

lemmas evidence_ops = addComponent_def addSignal_def addLog_def addMetric_def addChange_def freshID_def
  warn_def setStatus_def mergeReport_def addDropped_def onBundle_def

definition budgetKept :: "('a Collector_scheme) \<Rightarrow> cst \<Rightarrow> bool" where
  "budgetKept c st \<longleftrightarrow>
     (0 \<le> bg_MaxLogLines (co_budget c) \<and> 0 \<le> bg_MaxItemBytes (co_budget c) \<longrightarrow> withinBudget (co_budget c) (cs_b st))"

interpretation budget: collecting c "budgetKept c" for c
  by unfold_locales
    (auto simp: evidence_ops budgetKept_def withinBudget_def roomFor_def items_def withRoom_def buildLog_within
      split: prod.split)

lemma NewCollector_fields:
  "co_budget (NewCollector fallback cfg) = withDefaults (co_budget cfg)"
  "co_redactor (NewCollector fallback cfg) = (case co_Redactor cfg of Some r \<Rightarrow> r | None \<Rightarrow> fallback)"
  by (simp_all add: NewCollector_def CollectorConfig.defs Collector.defs)

lemma withDefaults_pos:
  "0 < bg_MaxLogLines (withDefaults b)" "0 < bg_MaxItemBytes (withDefaults b)" "0 < bg_MaxItems (withDefaults b)"
  by (simp_all add: withDefaults_def orDefaultInt_def DefaultMaxLogLines_def DefaultMaxItemBytes_def DefaultMaxItems_def)

text \<open>C28. A bundle never holds more items than its budget, and no log excerpt more lines or bytes than its
  limits, whatever the sources answer; budget values that are not positive are replaced by the defaults.\<close>

theorem bundle_within_budget:
  "withinBudget (withDefaults (co_budget cfg)) (Collect (NewCollector fallback cfg) t)"
proof -
  let ?c = "NewCollector fallback cfg"
  have "budgetKept ?c \<lparr>cs_b = newBundle ?c t, cs_ids = \<lparr>ia_used = [], ia_change = []\<rparr>\<rparr>"
    using withDefaults_pos(3) [of "co_budget cfg"]
    by (simp add: budgetKept_def withinBudget_def newBundle_def items_def NewCollector_fields)
  from budget.Collect_P [OF this] show ?thesis
    using withDefaults_pos [of "co_budget cfg"] by (auto simp: budgetKept_def NewCollector_fields)
qed

section \<open>Logs and changes are redacted\<close>

definition cameRedacted :: "Redactor \<Rightarrow> string \<Rightarrow> bool" where
  "cameRedacted r s \<longleftrightarrow> (\<exists>raw. suffix s (fst (redactText r raw)))"

definition textRedacted :: "('a Collector_scheme) \<Rightarrow> cst \<Rightarrow> bool" where
  "textRedacted c st \<longleftrightarrow> list_all (\<lambda>l. lg_Redacted l \<and> cameRedacted (co_redactor c) (lg_Content l)) (bd_Logs (cs_b st)) \<and>
     list_all (\<lambda>ch. cameRedacted (co_redactor c) (ch_Detail ch)) (bd_RecentChanges (cs_b st))"

lemma keepEnd_suffix: "suffix (keepEnd s mx) s"
proof -
  obtain t where t: "t = drop (length s - nat mx) s" by simp
  have "suffix (skipCont t) t" by (induction t) (auto simp: suffix_ConsI)
  then have "suffix (keepEnd s mx) t"
    unfolding keepEnd_def t [symmetric] by (auto simp: Let_def suffix_drop split: option.split)
  then show ?thesis using suffix_drop [of "length s - nat mx" s] unfolding t by (meson suffix_order.order_trans)
qed

lemma cameRedacted_out [simp]: "cameRedacted r (fst (redactText r raw))"
  by (auto simp: cameRedacted_def)

lemma buildLog_redacted:
  "lg_Redacted (buildLog c i source ls) \<and> cameRedacted (co_redactor c) (lg_Content (buildLog c i source ls))"
  by (auto simp: buildLog_def Let_def cameRedacted_def intro: keepEnd_suffix)

interpretation redaction: collecting c "textRedacted c" for c
  by unfold_locales
    (auto simp: evidence_ops textRedacted_def withRoom_def buildLog_redacted split: prod.split)

text \<open>C20. Every log excerpt and every recent change in a bundle is the end of some text that passed the
  collector's redactor, whatever the sources answer.\<close>

theorem logs_are_redacted:
  "textRedacted c \<lparr>cs_b = Collect c t, cs_ids = ids\<rparr>"
proof -
  have "textRedacted c \<lparr>cs_b = newBundle c t, cs_ids = \<lparr>ia_used = [], ia_change = []\<rparr>\<rparr>"
    by (simp add: textRedacted_def newBundle_def)
  from redaction.Collect_P [OF this] show ?thesis by (auto simp: textRedacted_def)
qed

section \<open>Evidence ids\<close>

text \<open>
  The allocator's ids are not unique: a base that ends like a numbered id of another base meets it. Three
  containers of one project whose names differ in letter case and in a number are an example.
\<close>

theorem evidence_ids_collide:
  "(let (a1, i1) = allocID \<lparr>ia_used = [], ia_change = []\<rparr> (''cmp_docker_'' @ sanitize ''Web'');
        (a2, i2) = allocID a1 (''cmp_docker_'' @ sanitize ''web'');
        (a3, i3) = allocID a2 (''cmp_docker_'' @ sanitize ''web_2'')
    in i2 = i3)"
  by code_simp

section \<open>Signatures\<close>

definition sigTypes :: "string list" where
  "sigTypes = [''container_restart_loop'', ''oom_kill'', ''container_stopped'', ''unit_failed'', SigPM2AppStopped,
     SigCertExpiring, ''disk_exhausted'', ''inode_exhausted'', ''memory_pressure'', ''recent_deployment'',
     ''proxy_upstream_error'']"

definition sigID :: "string \<Rightarrow> nat \<Rightarrow> string" where
  "sigID typ n = ''sig_'' @ typ @ (if n = 1 then '''' else ''_'' @ Itoa (int n))"

lemma natString_no_underscore: "CHR ''_'' \<notin> set (natString n)"
  using natString_digits [of n] by (auto simp: list_all_iff isDigit_def)

lemma last_natString: "isDigit (last (natString n))"
  using natString_digits [of n] by (auto simp: list_all_iff)

lemma sigTypes_end: "typ \<in> set sigTypes \<Longrightarrow> typ \<noteq> [] \<and> \<not> isDigit (last typ)"
  by (auto simp: sigTypes_def SigPM2AppStopped_def SigCertExpiring_def isDigit_def)

lemma split_last_underscore:
  assumes "a @ CHR ''_'' # x = b @ CHR ''_'' # y" and "CHR ''_'' \<notin> set x" and "CHR ''_'' \<notin> set y"
  shows "a = b \<and> x = y"
  using assms by (auto simp: append_eq_append_conv2 append_eq_Cons_conv Cons_eq_append_conv)

lemma sigID_inj:
  assumes t: "t \<in> set sigTypes" "u \<in> set sigTypes" and e: "sigID t m = sigID u n"
  shows "t = u \<and> m = n"
proof -
  have lastc: "isDigit (last (sigID v k)) \<longleftrightarrow> k \<noteq> 1" if "v \<in> set sigTypes" for v k
    using sigTypes_end [OF that] last_natString [of k] by (simp add: sigID_def Itoa_def)
  from lastc [OF t(1), of m] lastc [OF t(2), of n] e have one: "m = 1 \<longleftrightarrow> n = 1" by simp
  show ?thesis
  proof (cases "m = 1")
    case True
    with one e show ?thesis by (simp add: sigID_def)
  next
    case False
    with one e have "t @ CHR ''_'' # natString m = u @ CHR ''_'' # natString n"
      by (simp add: sigID_def Itoa_def)
    then have "t = u \<and> natString m = natString n"
      by (rule split_last_underscore) (rule natString_no_underscore)+
    then show ?thesis by (metis decVal_natString)
  qed
qed

lemma sigOf_fields [simp]:
  "si_Type (sigOf typ title ids conf subject detail) = typ"
  "si_EvidenceIDs (sigOf typ title ids conf subject detail) = ids"
  "si_Confidence (sigOf typ title ids conf subject detail) = conf"
  by (simp_all add: sigOf_def)

definition grounded :: "string set \<Rightarrow> Signature \<Rightarrow> bool" where
  "grounded ids s \<longleftrightarrow> si_Type s \<in> set sigTypes \<and> si_EvidenceIDs s \<noteq> [] \<and> set (si_EvidenceIDs s) \<subseteq> ids"

lemma groundedI: "typ \<in> set sigTypes \<Longrightarrow> i \<in> ids \<Longrightarrow> grounded ids (sigOf typ title [i] conf subject detail)"
  by (simp add: grounded_def)

lemma sigTypes_mem:
  "''container_restart_loop'' \<in> set sigTypes" "''oom_kill'' \<in> set sigTypes" "''container_stopped'' \<in> set sigTypes"
  "''unit_failed'' \<in> set sigTypes" "SigPM2AppStopped \<in> set sigTypes" "SigCertExpiring \<in> set sigTypes"
  "''disk_exhausted'' \<in> set sigTypes" "''inode_exhausted'' \<in> set sigTypes" "''memory_pressure'' \<in> set sigTypes"
  "''recent_deployment'' \<in> set sigTypes" "''proxy_upstream_error'' \<in> set sigTypes"
  by (simp_all add: sigTypes_def)

lemma match_grounded:
  "sg_ID g \<in> ids \<Longrightarrow> list_all (grounded ids) (matchSignal g)"
  "cp_ID c \<in> ids \<Longrightarrow> list_all (grounded ids) (matchComponent c)"
  "mt_ID m \<in> ids \<Longrightarrow> list_all (grounded ids) (matchMetric m)"
  "ch_ID h \<in> ids \<Longrightarrow> grounded ids (matchChange h)"
  "lg_ID ` set (bd_Logs b) \<subseteq> ids \<Longrightarrow> list_all (grounded ids) (matchLogs b)"
proof -
  show "lg_ID ` set (bd_Logs b) \<subseteq> ids \<Longrightarrow> list_all (grounded ids) (matchLogs b)"
    using sigTypes_mem(11) by (auto simp: matchLogs_def Let_def grounded_def)
qed (simp_all add: matchSignal_def matchComponent_def matchMetric_def matchChange_def groundedI sigTypes_mem)

lemma list_all_concat_map: "(\<And>y. y \<in> set ys \<Longrightarrow> list_all Q (f y)) \<Longrightarrow> list_all Q (concat (map f ys))"
  by (auto simp: list_all_iff)

lemma rawMatches_grounded: "list_all (grounded (set (allIDs b))) (rawMatches b)"
  unfolding rawMatches_def list_all_append
proof (intro conjI)
  show "list_all (grounded (set (allIDs b))) (map matchChange (bd_RecentChanges b))"
    by (auto simp: list_all_iff allIDs_def intro!: match_grounded(4))
  show "list_all (grounded (set (allIDs b))) (matchLogs b)"
    by (rule match_grounded(5)) (auto simp: allIDs_def)
qed (rule list_all_concat_map, rule match_grounded, simp add: allIDs_def)+

lemma countOf_update: "countOf (AList.update k n m) j = (if j = k then n else countOf m j)"
  by (simp add: countOf_def)

lemma numberSigs_ids:
  "x \<in> set (numberSigs counts ss) \<Longrightarrow>
     \<exists>s n. s \<in> set ss \<and> countOf counts (si_Type s) < n \<and> x = s\<lparr>si_ID := sigID (si_Type s) n\<rparr>"
proof (induction ss arbitrary: counts)
  case (Cons s ss)
  let ?n = "Suc (countOf counts (si_Type s))"
  let ?c = "AList.update (si_Type s) ?n counts"
  from Cons.prems have "x = s\<lparr>si_ID := sigID (si_Type s) ?n\<rparr> \<or> x \<in> set (numberSigs ?c ss)"
    by (auto simp: Let_def sigID_def)
  then show ?case
  proof
    assume "x \<in> set (numberSigs ?c ss)"
    then obtain s' n where "s' \<in> set ss" "countOf ?c (si_Type s') < n" "x = s'\<lparr>si_ID := sigID (si_Type s') n\<rparr>"
      using Cons.IH by blast
    moreover then have "countOf counts (si_Type s') < n" by (auto simp: countOf_update split: if_splits)
    ultimately show ?thesis by auto
  qed auto
qed simp

lemma numberSigs_distinct:
  "\<forall>s \<in> set ss. si_Type s \<in> set sigTypes \<Longrightarrow> distinct (map si_ID (numberSigs counts ss))"
proof (induction ss arbitrary: counts)
  case (Cons s ss)
  let ?n = "Suc (countOf counts (si_Type s))"
  let ?c = "AList.update (si_Type s) ?n counts"
  have "sigID (si_Type s) ?n \<notin> si_ID ` set (numberSigs ?c ss)"
  proof
    assume "sigID (si_Type s) ?n \<in> si_ID ` set (numberSigs ?c ss)"
    then obtain x where x: "x \<in> set (numberSigs ?c ss)" "si_ID x = sigID (si_Type s) ?n" by auto
    from numberSigs_ids [OF x(1)] obtain s' n where s': "s' \<in> set ss" "countOf ?c (si_Type s') < n"
      "x = s'\<lparr>si_ID := sigID (si_Type s') n\<rparr>" by blast
    with x(2) Cons.prems have "si_Type s' = si_Type s \<and> n = ?n" by (intro sigID_inj) auto
    with s'(2) show False by (simp add: countOf_update)
  qed
  with Cons show ?case by (simp add: Let_def sigID_def)
qed simp

lemma sort_key_fst_mono:
  "sorted (map (\<lambda>s. (f s :: rat, g s :: string)) xs) \<Longrightarrow> sorted (map f xs)"
  by (induction xs) (auto simp: less_eq_prod_def)

text \<open>The signatures of a bundle are ordered by falling confidence, have distinct ids, and every one cites at
  least one evidence id, all of them of the bundle.\<close>

theorem match_grounded_and_ordered:
  "sorted (map (\<lambda>s. - si_Confidence s) (Match b)) \<and> distinct (map si_ID (Match b)) \<and>
   list_all (\<lambda>s. si_EvidenceIDs s \<noteq> [] \<and> set (si_EvidenceIDs s) \<subseteq> set (EvidenceIDs b)) (Match b)"
  unfolding list_all_iff
proof (intro conjI ballI)
  let ?raw = "numberSigs [] (rawMatches b)" and ?key = "\<lambda>s. (- si_Confidence s, si_ID s)"
  have "sorted (map ?key (Match b))" by (simp add: Match_def)
  then show "sorted (map (\<lambda>s. - si_Confidence s) (Match b))" by (rule sort_key_fst_mono)
  have "distinct (map si_ID ?raw)"
    using rawMatches_grounded [of b] by (intro numberSigs_distinct) (auto simp: list_all_iff grounded_def)
  then show "distinct (map si_ID (Match b))" by (simp add: Match_def distinct_map)
  fix s assume "s \<in> set (Match b)"
  then have "s \<in> set ?raw" by (simp add: Match_def)
  from numberSigs_ids [OF this] obtain r n
    where r: "r \<in> set (rawMatches b)" and s: "s = r\<lparr>si_ID := sigID (si_Type r) n\<rparr>" by blast
  from r have "grounded (set (allIDs b)) r" using rawMatches_grounded [of b] by (simp add: list_all_iff)
  then have "grounded (set (allIDs b)) s" by (simp add: grounded_def s)
  then show "si_EvidenceIDs s \<noteq> []" "set (si_EvidenceIDs s) \<subseteq> set (EvidenceIDs b)"
    by (auto simp: grounded_def EvidenceIDs_def)
qed

lemma Match_head_best:
  "Match b = s # ss \<Longrightarrow> x \<in> set (Match b) \<Longrightarrow> si_Confidence x \<le> si_Confidence s"
proof -
  have "sorted (map (\<lambda>s. - si_Confidence s) (Match b))"
    by (rule sort_key_fst_mono [of _ si_ID]) (simp add: Match_def)
  then show "Match b = s # ss \<Longrightarrow> x \<in> set (Match b) \<Longrightarrow> si_Confidence x \<le> si_Confidence s" by auto
qed

end
