(* ===== verification/Playbook.thy ===== *)
theory Playbook
  imports Diagnose
begin

text \<open>
  Playbooks: \<^verbatim>\<open>internal/playbook/{playbook,validate,describe}.go\<close>. A playbook is a list of catalog steps and of
  manual steps; \<open>Check\<close> is the gate every playbook passes before a user sees it, \<open>ToRunbook\<close> makes it the
  runbook that is hashed and approved. The validator of live targets is a computation over a world \<open>'w\<close>
  (\<open>None\<close> is the nil interface). Unicode classes are those of Unicode 15 on decoded UTF-8; only ASCII white space is
  trimmed.
\<close>

section \<open>Types (playbook.go)\<close>

definition MaxSteps :: nat where "MaxSteps = 6"

record PBStep =
  ps_Step :: ID
  ps_Params :: Params

record Manual =
  pm_Text :: string
  pm_Command :: string

record Playbook =
  pb_Title :: string
  pb_Summary :: string
  pb_Source :: string
  pb_ReviewCarefully :: bool
  pb_Steps :: "PBStep list"
  pb_Manual :: "Manual list"

record Inventory =
  iv_Units :: "string list"
  iv_Containers :: "string list"
  iv_ComposeServices :: "(string \<times> string) list"
  iv_PM2Apps :: "(string \<times> string) list"
  iv_SupervisorPrograms :: "string list"
  iv_Certs :: "string list"
  iv_URLs :: "string list"
  iv_Ports :: "int list"

record OSInfo =
  os_Distro :: string
  os_Version :: string

text \<open>\<open>fa_Signatures\<close> is \<open>None\<close> when the slice is nil; the pairs of the inventory are project and service, user and app.\<close>

record Facts =
  fa_Inventory :: Inventory
  fa_Bundle :: Bundle
  fa_Signatures :: "Signature list option"
  fa_OS :: OSInfo
  fa_Target :: string
  fa_DiskMounts :: "(ID \<times> string) list"

definition contains :: "string list \<Rightarrow> string \<Rightarrow> bool" where
  "contains xs s \<longleftrightarrow> s \<in> set xs"

definition hasUnit :: "Inventory \<Rightarrow> string \<Rightarrow> bool" where
  "hasUnit i name = contains (iv_Units i) name"

definition hasContainer :: "Inventory \<Rightarrow> string \<Rightarrow> bool" where
  "hasContainer i name = contains (iv_Containers i) name"

definition hasCompose :: "Inventory \<Rightarrow> string \<Rightarrow> string \<Rightarrow> bool" where
  "hasCompose i project service \<longleftrightarrow> (project, service) \<in> set (iv_ComposeServices i)"

definition lowerBase :: "string \<Rightarrow> string" where
  "lowerBase unit = TrimSuffix (ToLower unit) ''.service''"

definition emptyPlaybook :: Playbook where
  "emptyPlaybook = \<lparr>pb_Title = '''', pb_Summary = '''', pb_Source = '''', pb_ReviewCarefully = False,
     pb_Steps = [], pb_Manual = []\<rparr>"

section \<open>Text cleaning (validate.go)\<close>

definition maxManualSteps :: nat where "maxManualSteps = 10"
definition maxManualText :: nat where "maxManualText = 600"
definition maxManualCommand :: nat where "maxManualCommand = 300"

text \<open>The code point of one character's bytes.\<close>

definition codePoint :: "string \<Rightarrow> int" where
  "codePoint r =
     (case r of [] \<Rightarrow> 0
      | c # cs \<Rightarrow>
          (let lead = (of_char c :: int);
               start = (if lead < 128 then lead else if lead < 224 then lead mod 32
                        else if lead < 240 then lead mod 16 else lead mod 8) in
           foldl (\<lambda>a d. a * 64 + of_char d mod 64) start cs))"

definition isControl :: "int \<Rightarrow> bool" where
  "isControl u \<longleftrightarrow> u < 32 \<or> 127 \<le> u \<and> u < 160"

text \<open>The ranges of the general category Cf.\<close>

definition formatRanges :: "(int \<times> int) list" where
  "formatRanges = [(0xAD, 0xAD), (0x600, 0x605), (0x61C, 0x61C), (0x6DD, 0x6DD), (0x70F, 0x70F), (0x890, 0x891),
     (0x8E2, 0x8E2), (0x180E, 0x180E), (0x200B, 0x200F), (0x202A, 0x202E), (0x2060, 0x2064), (0x2066, 0x206F),
     (0xFEFF, 0xFEFF), (0xFFF9, 0xFFFB), (0x110BD, 0x110BD), (0x110CD, 0x110CD), (0x13430, 0x1343F),
     (0x1BCA0, 0x1BCA3), (0x1D173, 0x1D17A), (0xE0001, 0xE0001), (0xE0020, 0xE007F)]"

definition isFormat :: "int \<Rightarrow> bool" where
  "isFormat u = list_ex (\<lambda>(a, b). a \<le> u \<and> u \<le> b) formatRanges"

definition cleanRune :: "string \<Rightarrow> string" where
  "cleanRune r =
     (let u = codePoint r in
      if u \<in> {0x0A, 0x09, 0x0D, 0x2028, 0x2029} then '' ''
      else if isControl u \<or> isFormat u then ''''
      else r)"

definition cleanText :: "string \<Rightarrow> nat \<Rightarrow> string" where
  "cleanText s mx =
     (let t = TrimSpace (concat (map cleanRune (runes s))) in
      if length t \<le> mx then t else TrimSpace (take (cutAt t mx) t))"

definition suspiciousManual :: rx where
  "suspiciousManual =
     (let b = RBound in rxAlt
       [rxSeq [iword ''|'', spaces0, rxAlt [iword ''sh'', iword ''bash'', iword ''zsh''], b],
        rxSeq [b, iword ''curl'', b], rxSeq [b, iword ''wget'', b], rxSeq [b, iword ''base64'', b],
        rxSeq [b, iword ''rm'', spaces1, iword ''-'', RMany (\<lambda>c. isLowerC (ToLowerC c)), iword ''r''],
        rxSeq [b, iword ''mkfs'', b], rxSeq [b, iword ''dd'', spaces1, iword ''if=''],
        rxSeq [iword ''>'', spaces0, iword ''/dev/sd''], rxSeq [b, iword ''chmod'', spaces1, iword ''-R'', b],
        rxSeq [b, iword ''eval'', b]])"

section \<open>Checking steps\<close>

definition integerMax :: "string \<Rightarrow> int" where
  "integerMax name =
     (if name = ''start_time'' then 2 ^ 63 - 1 else if name = ''port'' then 65535
      else if name = ''pid'' then 2 ^ 22 else 2 ^ 31 - 1)"

definition isText :: "pval \<Rightarrow> bool" where
  "isText v \<longleftrightarrow> (case v of VString _ \<Rightarrow> True | _ \<Rightarrow> False)"

definition checkParam :: "param \<Rightarrow> Params \<Rightarrow> pval \<Rightarrow> gerr option" where
  "checkParam p all raw =
     (if p_Type p = ''integer'' then
        (case Params_Int all (p_Name p) of None \<Rightarrow> Some (failure ''must be a whole number'')
         | Some n \<Rightarrow>
             if isText raw then Some (failure ''must be a number, not text'')
             else if n < 1 \<or> n > integerMax (p_Name p) then Some (failure ''out of range'')
             else None)
      else
        (case raw of
           VString str \<Rightarrow>
             if p_Enum p \<noteq> [] \<and> \<not> contains (p_Enum p) str
             then Some (failure (''must be one of '' @ Join '', '' (p_Enum p)))
             else if p_Pattern p \<noteq> NoPattern \<and> \<not> matchPattern (p_Pattern p) str
             then Some (failure ''has an invalid format'')
             else None
         | _ \<Rightarrow> Some (failure ''must be text'')))"

definition containsInt :: "int list \<Rightarrow> int \<Rightarrow> bool" where
  "containsInt xs n \<longleftrightarrow> n \<in> set xs"

definition noSuch :: "string \<Rightarrow> string \<Rightarrow> gerr" where
  "noSuch name what = failure (Quote name @ '' is not '' @ what @ '' on this server'')"

definition checkNamed :: "Inventory \<Rightarrow> Params \<Rightarrow> param \<Rightarrow> gerr option" where
  "checkNamed ivt p prm =
     (let src = p_Source prm; v = Params_String p (p_Name prm) in
      if src = ''units'' then (if hasUnit ivt v then None else Some (noSuch v ''a service''))
      else if src = ''containers'' then (if hasContainer ivt v then None else Some (noSuch v ''a container''))
      else if src = ''supervisor_programs''
      then (if contains (iv_SupervisorPrograms ivt) v then None else Some (noSuch v ''a Supervisor program''))
      else if src = ''certs'' then (if contains (iv_Certs ivt) v then None else Some (noSuch v ''a certificate''))
      else if src = ''urls'' then (if contains (iv_URLs ivt) v then None else Some (noSuch v ''a web address''))
      else if src = ''ports''
      then (let n = intOrZero (Params_Int p (p_Name prm)) in
            if containsInt (iv_Ports ivt) n then None
            else Some (failure (''nothing listens on port '' @ Itoa n)))
      else None)"

fun firstError :: "('a \<Rightarrow> gerr option) \<Rightarrow> 'a list \<Rightarrow> gerr option" where
  "firstError f [] = None"
| "firstError f (x # xs) = orElse (f x) (firstError f xs)"

definition checkSource :: "Steps_Catalog.def \<Rightarrow> Params \<Rightarrow> Inventory \<Rightarrow> gerr option" where
  "checkSource d p ivt =
     orElse (firstError (checkNamed ivt p) (d_Params d))
       (if d_ID d = ComposeUpID then
          (if hasCompose ivt (Params_String p ''project'') (Params_String p ''service'') then None
           else Some (failure (Quote (Params_String p ''service'') @ '' is not a Compose service of project '' @
             Quote (Params_String p ''project'') @ '' on this server'')))
        else if d_ID d = PM2RestartID then
          (if (Params_String p ''user'', Params_String p ''app'') \<in> set (iv_PM2Apps ivt) then None
           else Some (failure (Quote (Params_String p ''app'') @ '' is not a PM2 app of user '' @
             Quote (Params_String p ''user'') @ '' on this server'')))
        else None)"

definition wrapErr :: "string \<Rightarrow> gerr \<Rightarrow> gerr" where
  "wrapErr pre e = GErr (is_refused e) (pre @ err_msg e)"

definition checkShape :: "Steps_Catalog.def \<Rightarrow> Params \<Rightarrow> gerr option" where
  "checkShape d params =
     orElse (firstError (\<lambda>(name, _). if name \<in> set (map p_Name (d_Params d)) then None
               else Some (failure (''unexpected parameter '' @ Quote name))) params)
       (firstError (\<lambda>p. case map_of params (p_Name p) of
               None \<Rightarrow> Some (failure (''missing parameter '' @ Quote (p_Name p)))
             | Some raw \<Rightarrow> map_option (wrapErr (''parameter '' @ Quote (p_Name p) @ '': '')) (checkParam p params raw))
          (d_Params d))"

type_synonym 'w validator = "'w \<Rightarrow> ID \<Rightarrow> Params \<Rightarrow> 'w \<times> (gerr + unit)"

definition checkStep :: "'w validator option \<Rightarrow> Inventory \<Rightarrow> 'w \<Rightarrow> PBStep \<Rightarrow> 'w \<times> (gerr + unit)" where
  "checkStep v ivt w s =
     (case Lookup (ps_Step s) of None \<Rightarrow> (w, Inl (failure ''not a step this agent can run''))
      | Some st \<Rightarrow>
          (case orElse (checkShape (Def st) (ps_Params s)) (checkSource (Def st) (ps_Params s) ivt) of
             Some e \<Rightarrow> (w, Inl e)
           | None \<Rightarrow> (case v of None \<Rightarrow> (w, Inr ()) | Some val \<Rightarrow> val w (ps_Step s) (ps_Params s))))"

fun checkSteps :: "'w validator option \<Rightarrow> Inventory \<Rightarrow> nat \<Rightarrow> 'w \<Rightarrow> PBStep list \<Rightarrow> 'w \<times> (gerr + unit)" where
  "checkSteps v ivt i w [] = (w, Inr ())"
| "checkSteps v ivt i w (s # ss) =
     (case checkStep v ivt w s of
        (w, Inl e) \<Rightarrow> (w, Inl (wrapErr (''step '' @ Itoa (int (Suc i)) @ '' ('' @ ps_Step s @ ''): '') e))
      | (w, Inr _) \<Rightarrow> checkSteps v ivt (Suc i) w ss)"

definition cleanManual :: "Manual \<Rightarrow> Manual" where
  "cleanManual m = \<lparr>pm_Text = cleanText (pm_Text m) maxManualText, pm_Command = cleanText (pm_Command m) maxManualCommand\<rparr>"

definition riskyManual :: "Playbook \<Rightarrow> Manual \<Rightarrow> bool" where
  "riskyManual pb m \<longleftrightarrow> pm_Command m \<noteq> '''' \<and>
     (pb_Source pb = SourceGenerated \<or> MatchString suspiciousManual (pm_Command m))"

definition cleanPlaybook :: "Playbook \<Rightarrow> Playbook" where
  "cleanPlaybook pb =
     (let ms = filter (\<lambda>m. pm_Text m \<noteq> '''') (map cleanManual (take maxManualSteps (pb_Manual pb))) in
      pb\<lparr>pb_Manual := ms, pb_ReviewCarefully := pb_ReviewCarefully pb \<or> list_ex (riskyManual pb) ms,
         pb_Title := cleanText (pb_Title pb) 120, pb_Summary := cleanText (pb_Summary pb) 600\<rparr>)"

definition Check :: "'w validator option \<Rightarrow> Inventory \<Rightarrow> 'w \<Rightarrow> Playbook \<Rightarrow> 'w \<times> (gerr + Playbook)" where
  "Check v ivt w pb =
     (if length (pb_Steps pb) > MaxSteps
      then (w, Inl (failure (''playbook has '' @ Itoa (int (length (pb_Steps pb))) @ '' steps; at most '' @
             Itoa (int MaxSteps) @ '' are allowed'')))
      else if pb_Steps pb = [] \<and> pb_Manual pb = [] then (w, Inl (failure ''playbook has no steps''))
      else andThen (checkSteps v ivt 0 w (pb_Steps pb)) (\<lambda>w _. (w, Inr (cleanPlaybook pb))))"

section \<open>Descriptions and the runbook (describe.go)\<close>

definition Describe :: "ID \<Rightarrow> Params \<Rightarrow> string" where
  "Describe i p =
     (let v = Params_String p; port = Itoa (intOrZero (Params_Int p ''port'')) in
      if i = ServiceRestartID then ''Restart '' @ v ''unit''
      else if i = ServiceStartID then ''Start '' @ v ''unit''
      else if i = ServiceStopID then ''Stop '' @ v ''unit''
      else if i = ServiceReloadID then ''Reload the settings of '' @ v ''unit''
      else if i = ContainerRestartID then ''Restart the container '' @ v ''container''
      else if i = ComposeUpID then ''Start '' @ v ''service'' @ '' in the Compose project '' @ v ''project''
      else if i = PM2RestartID then ''Restart the PM2 app '' @ v ''app'' @ '' (user '' @ v ''user'' @ '')''
      else if i = NginxReloadID then ''Test the nginx settings, then reload nginx''
      else if i = PHPFPMRestartID then ''Restart PHP-FPM ('' @ v ''unit'' @ '')''
      else if i = SupervisorRestartID then ''Restart the Supervisor program '' @ v ''program''
      else if i = JournalVacuumID then ''Shrink the system logs to '' @ v ''size''
      else if i = DockerPruneID then ''Remove unused Docker images and build cache''
      else if i = AptCleanID then ''Clear the downloaded package files''
      else if i = CertRenewID then ''Renew the certificate '' @ v ''name''
      else if i = ProcessStopID then ''Stop the process''
      else if i = FirewallAllowID then ''Open port '' @ port @ ''/'' @ v ''proto'' @ '' in the firewall''
      else if i = FirewallRemoveID then ''Close port '' @ port @ ''/'' @ v ''proto'' @ '' in the firewall''
      else if i = CheckHTTPID then ''Check that '' @ v ''url'' @ '' answers''
      else case Lookup i of Some s \<Rightarrow> d_Title (Def s) | None \<Rightarrow> i)"

definition RiskL0 :: string where "RiskL0 = ''L0''"
definition RiskL1 :: string where "RiskL1 = ''L1''"
definition RiskL2 :: string where "RiskL2 = ''L2''"

fun riskFrom :: "string \<Rightarrow> PBStep list \<Rightarrow> string" where
  "riskFrom r [] = r"
| "riskFrom r (s # ss) =
     (if ps_Step s = CheckHTTPID then riskFrom r ss
      else if ps_Step s \<in> {FirewallAllowID, FirewallRemoveID, ProcessStopID} then RiskL2
      else riskFrom RiskL1 ss)"

definition risk :: "PBStep list \<Rightarrow> string" where
  "risk ss = riskFrom RiskL0 ss"

definition affectedBy :: "PBStep \<Rightarrow> string" where
  "affectedBy s =
     (let i = ps_Step s; v = Params_String (ps_Params s) in
      if i \<in> {ServiceRestartID, ServiceStartID, ServiceStopID, ServiceReloadID, PHPFPMRestartID} then v ''unit''
      else if i = ContainerRestartID then v ''container''
      else if i = ComposeUpID then v ''project'' @ ''/'' @ v ''service''
      else if i = PM2RestartID then v ''app''
      else if i = SupervisorRestartID then v ''program''
      else if i = NginxReloadID then ''nginx''
      else '''')"

definition addNew :: "string list \<Rightarrow> string \<Rightarrow> string list" where
  "addNew out s = (if s \<noteq> '''' \<and> s \<notin> set out then out @ [s] else out)"

definition affected :: "PBStep list \<Rightarrow> string list" where
  "affected ss = foldl addNew [] (map affectedBy ss)"

fun firstNonEmpty :: "string \<Rightarrow> string list \<Rightarrow> string" where
  "firstNonEmpty d [] = d"
| "firstNonEmpty d (x # xs) = (if x \<noteq> '''' then x else firstNonEmpty d xs)"

definition affectedName :: "PBStep \<Rightarrow> string" where
  "affectedName s = firstNonEmpty (ps_Step s)
     (map (Params_String (ps_Params s)) [''unit'', ''container'', ''app'', ''program'', ''service''])"

definition interrupting :: "PBStep \<Rightarrow> bool" where
  "interrupting s \<longleftrightarrow> ps_Step s \<in> {ServiceRestartID, PHPFPMRestartID, ContainerRestartID, PM2RestartID,
     SupervisorRestartID, ComposeUpID, ServiceStopID}"

definition interruption :: "PBStep list \<Rightarrow> string" where
  "interruption ss =
     (let names = map affectedName (filter interrupting ss) in
      if names = [] then '''' else Join '', '' names @ '' will be unavailable for a few seconds.'')"

definition riskExplanation :: "string \<Rightarrow> string" where
  "riskExplanation r =
     (if r = RiskL0 then ''Nothing on the server changes.''
      else if r = RiskL1 then ''Restarts or cleans up. Nothing is deleted except caches and old logs.''
      else if r = RiskL2 then ''Changes the firewall or stops a process.'' else '''')"

definition runbookStep :: "PBStep \<Rightarrow> Step" where
  "runbookStep s =
     (let d = map_option Def (Lookup (ps_Step s)) in
      \<lparr>rs_Kind = ps_Step s, rs_Params = ps_Params s, rs_Description = Describe (ps_Step s) (ps_Params s),
       rs_Command = Command (ps_Step s) (ps_Params s),
       rs_Verify = (case d of Some x \<Rightarrow> d_Verify x | None \<Rightarrow> ''''),
       rs_Undoable = (case d of Some x \<Rightarrow> d_Undo x \<noteq> '''' | None \<Rightarrow> False)\<rparr>)"

definition rollbackOf :: "PBStep \<Rightarrow> RCommand list" where
  "rollbackOf s =
     (case UndoOf (ps_Step s) (ps_Params s) of None \<Rightarrow> []
      | Some (i, p) \<Rightarrow> [\<lparr>rc_Command = Command i p, rc_RunAs = ''root'',
          rc_Description = ''Undo: '' @ Describe (ps_Step s) (ps_Params s)\<rparr>])"

definition needsRoot :: "PBStep \<Rightarrow> bool" where
  "needsRoot s = (case Lookup (ps_Step s) of Some st \<Rightarrow> d_Root (Def st) | None \<Rightarrow> False)"

definition ToRunbook :: "Playbook \<Rightarrow> string \<Rightarrow> string \<Rightarrow> string \<Rightarrow> Runbook" where
  "ToRunbook pb i incidentID serverID =
     \<lparr>rb_ID = i, rb_SchemaVersion = SchemaVersion, rb_IncidentID = incidentID, rb_DiagnosisID = '''',
      rb_ProviderVersion = pb_Source pb, rb_ServerID = serverID, rb_Title = pb_Title pb, rb_Source = pb_Source pb,
      rb_ReviewCarefully = pb_ReviewCarefully pb, rb_Summary = pb_Summary pb,
      rb_RiskExplanation = riskExplanation (risk (pb_Steps pb)), rb_Risk = risk (pb_Steps pb),
      rb_RunAs = (if list_ex needsRoot (pb_Steps pb) then ''root'' else ''''),
      rb_Steps = map runbookStep (pb_Steps pb),
      rb_ManualSteps = map (\<lambda>m. \<lparr>mn_Text = pm_Text m, mn_Command = pm_Command m\<rparr>) (pb_Manual pb),
      rb_AffectedFiles = [], rb_AffectedServices = affected (pb_Steps pb),
      rb_Interruption = interruption (pb_Steps pb), rb_Rollback = concat (map rollbackOf (pb_Steps pb)),
      rb_Verification = [], rb_ExternalMonitorIDs = [], rb_Blocked = False, rb_BlockedReason = '''',
      rb_ContentHash = '''', rb_CreatedAt = zeroTime\<rparr>"

end
