(* ===== verification/Playbook_Rules.thy ===== *)
theory Playbook_Rules
  imports Playbook
begin

text \<open>
  The fixed rules that turn a signature into a playbook of catalog steps: \<^verbatim>\<open>internal/playbook/rules.go\<close>. A rule
  returns \<open>None\<close> where the code returns false.
\<close>

definition phpFPMUnit :: "string \<Rightarrow> bool" where
  "phpFPMUnit = phpRe"

definition restartStep :: "string \<Rightarrow> PBStep" where
  "restartStep unit =
     \<lparr>ps_Step = (if phpFPMUnit unit then PHPFPMRestartID else ServiceRestartID), ps_Params = [(''unit'', VString unit)]\<rparr>"

definition containerStep :: "string \<Rightarrow> PBStep" where
  "containerStep name = \<lparr>ps_Step = ContainerRestartID, ps_Params = [(''container'', VString name)]\<rparr>"

fun citedBy :: "Component list \<Rightarrow> string \<Rightarrow> string list \<Rightarrow> Component option" where
  "citedBy cs kind [] = None"
| "citedBy cs kind (i # is) =
     (case find (\<lambda>c. cp_ID c = i \<and> cp_Kind c = kind) cs of Some c \<Rightarrow> Some c | None \<Rightarrow> citedBy cs kind is)"

definition componentOf :: "Facts \<Rightarrow> Signature \<Rightarrow> string \<Rightarrow> Component option" where
  "componentOf f sig kind = citedBy (bd_Components (fa_Bundle f)) kind (si_EvidenceIDs sig)"

definition signaturesOf :: "Facts \<Rightarrow> Signature list" where
  "signaturesOf f = (case fa_Signatures f of Some s \<Rightarrow> s | None \<Rightarrow> [])"

definition hasSignature :: "Facts \<Rightarrow> string \<Rightarrow> Signature option" where
  "hasSignature f typ = find (\<lambda>s. si_Type s = typ) (signaturesOf f)"

definition newPlaybook :: "string \<Rightarrow> string \<Rightarrow> PBStep list \<Rightarrow> Manual list \<Rightarrow> Playbook" where
  "newPlaybook title summary ss ms =
     emptyPlaybook\<lparr>pb_Title := title, pb_Summary := summary, pb_Steps := ss, pb_Manual := ms\<rparr>"

section \<open>Containers\<close>

definition firstContainerComponent :: "Facts \<Rightarrow> string \<Rightarrow> Component option" where
  "firstContainerComponent f name =
     find (\<lambda>c. cp_Kind c = ''docker_container'' \<and> cp_Name c = name) (bd_Components (fa_Bundle f))"

definition composeOf :: "Facts \<Rightarrow> string \<Rightarrow> string \<times> string" where
  "composeOf f name =
     (case firstContainerComponent f name of None \<Rightarrow> ('''', '''') | Some c \<Rightarrow> (cp_ComposeProject c, cp_ComposeService c))"

definition restartHint :: "Signature \<Rightarrow> string \<Rightarrow> Manual list" where
  "restartHint sig name =
     (if si_Type sig = ''container_restart_loop''
      then [\<lparr>pm_Text = ''If it keeps restarting, read the last lines of its log to see why it stops.'',
             pm_Command = ''docker logs --tail 100 '' @ name\<rparr>] else [])"

definition deployHint :: "Facts \<Rightarrow> Manual list" where
  "deployHint f =
     (case hasSignature f ''recent_deployment'' of None \<Rightarrow> []
      | Some dep \<Rightarrow> [\<lparr>pm_Text = ''Check the last deploy.'' @ (if si_Detail dep \<noteq> '''' then '' '' @ si_Detail dep @ ''.'' else ''''),
          pm_Command = ''''\<rparr>])"

definition containerPlaybook :: "Signature \<Rightarrow> Facts \<Rightarrow> Playbook option" where
  "containerPlaybook sig f =
     (let name = si_Subject sig in
      if name = '''' \<or> \<not> hasContainer (fa_Inventory f) name then None
      else case composeOf f name of (project, service) \<Rightarrow>
        (let hints = restartHint sig name @ deployHint f in
         if project \<noteq> '''' \<and> service \<noteq> '''' \<and> hasCompose (fa_Inventory f) project service
         then Some (newPlaybook (''Bring '' @ service @ '' back up'') (si_Title sig)
           [\<lparr>ps_Step = ComposeUpID, ps_Params = [(''project'', VString project), (''service'', VString service)]\<rparr>] hints)
         else Some (newPlaybook (''Restart '' @ name) (si_Title sig) [containerStep name] hints)))"

section \<open>Units and killed processes\<close>

definition unitAllowed :: "Facts \<Rightarrow> string \<Rightarrow> bool" where
  "unitAllowed f unit \<longleftrightarrow> hasUnit (fa_Inventory f) unit \<and> CheckUnitAllowed unit = None"

definition unitPlaybook :: "Signature \<Rightarrow> Facts \<Rightarrow> Playbook option" where
  "unitPlaybook sig f =
     (let unit = si_Subject sig in
      if unit = '''' \<or> \<not> unitAllowed f unit then None
      else Some (newPlaybook (''Restart '' @ unit) (si_Title sig) [restartStep unit] []))"

definition processUnitAliases :: "(string \<times> string list) list" where
  "processUnitAliases =
     [(''mysqld'', [''mysql'', ''mysqld'', ''mariadb'']), (''mariadbd'', [''mariadb'', ''mysql'']),
      (''postgres'', [''postgresql'']), (''redis-server'', [''redis-server'', ''redis'']),
      (''apache2'', [''apache2'']), (''httpd'', [''httpd'']), (''mongod'', [''mongod''])]"

definition unitForProcess :: "string \<Rightarrow> Inventory \<Rightarrow> string option" where
  "unitForProcess proc0 ivt =
     (let proc = ToLower (TrimSpace proc0);
          candidates = proc # TrimSuffix proc ''d'' # (case map_of processUnitAliases proc of Some as \<Rightarrow> as | None \<Rightarrow> []);
          found = filter (\<lambda>u. lowerBase u \<in> set candidates \<or> HasPrefix proc ''php-fpm'' \<and> phpFPMUnit u) (iv_Units ivt) in
      if proc = '''' then None else case found of [u] \<Rightarrow> Some u | _ \<Rightarrow> None)"

definition metricValue :: "Bundle \<Rightarrow> string \<Rightarrow> rat option" where
  "metricValue b name = map_option mt_Value (find (\<lambda>m. mt_Name m = name) (bd_Metrics b))"

definition memoryFact :: "Bundle \<Rightarrow> string list" where
  "memoryFact b =
     (case (metricValue b ''memory_used_percent'', metricValue b ''memory_total_mb'') of
        (Some used, Some tot) \<Rightarrow> [''Memory is '' @ formatF0 used @ ''% used out of '' @ formatF0 tot @ '' MB.'']
      | _ \<Rightarrow> [])"

definition swapFact :: "Bundle \<Rightarrow> string list" where
  "swapFact b =
     (case metricValue b ''swap_total_mb'' of None \<Rightarrow> []
      | Some tot \<Rightarrow> if tot = 0 then [''The server has no swap space.'']
          else (case metricValue b ''swap_used_percent'' of None \<Rightarrow> []
                | Some used \<Rightarrow> [''Swap is '' @ formatF0 used @ ''% used out of '' @ formatF0 tot @ '' MB.'']))"

definition oomPlaybook :: "Signature \<Rightarrow> Facts \<Rightarrow> Playbook option" where
  "oomPlaybook sig f =
     (let summary = (if si_Detail sig \<noteq> '''' then si_Detail sig else si_Title sig);
          unit = (case unitForProcess (si_Subject sig) (fa_Inventory f) of
                    Some u \<Rightarrow> if CheckUnitAllowed u = None then Some u else None | None \<Rightarrow> None);
          facts = memoryFact (fa_Bundle f) @ swapFact (fa_Bundle f);
          advice = ''Restarting only frees memory for a while. Find what uses the most memory, and add swap space or move to a server with more memory.'';
          ms = \<lparr>pm_Text = (if facts = [] then advice else Join '' '' facts @ '' '' @ advice),
                pm_Command = ''ps aux --sort=-%mem | head -6''\<rparr>
            # (if metricValue (fa_Bundle f) ''swap_total_mb'' = Some 0
               then [\<lparr>pm_Text = ''To add 1 GB of swap space:'',
                 pm_Command = ''fallocate -l 1G /swapfile && chmod 600 /swapfile && mkswap /swapfile && swapon /swapfile''\<rparr>]
               else []) in
      case unit of
        Some u \<Rightarrow> Some (newPlaybook (''Restart '' @ u @ '' after it ran out of memory'') summary [restartStep u] ms)
      | None \<Rightarrow> Some (newPlaybook ''The server ran out of memory'' summary [] ms))"

section \<open>Disks\<close>

definition diskMountOf :: "Facts \<Rightarrow> ID \<Rightarrow> string" where
  "diskMountOf f i = (case map_of (fa_DiskMounts f) i of Some m \<Rightarrow> m | None \<Rightarrow> '''')"

definition cleanUps :: "Facts \<Rightarrow> PBStep list" where
  "cleanUps f =
     (if hasUnit (fa_Inventory f) ''systemd-journald.service''
      then [\<lparr>ps_Step = JournalVacuumID, ps_Params = [(''size'', VString ''200M'')]\<rparr>] else []) @
     (if iv_Containers (fa_Inventory f) \<noteq> [] then [\<lparr>ps_Step = DockerPruneID, ps_Params = []\<rparr>] else []) @
     (if ToLower (os_Distro (fa_OS f)) \<in> {''ubuntu'', ''debian''} then [\<lparr>ps_Step = AptCleanID, ps_Params = []\<rparr>] else [])"

definition largeDirs :: "Bundle \<Rightarrow> string list" where
  "largeDirs b =
     (let ds = take 5 (filter (\<lambda>s. sg_Type s = ''large_directory'') (bd_Signals b)) in
      map (\<lambda>(i, s). Itoa (int i + 1) @ ''. '' @ sg_Subject s @ '' ('' @ formatF0 (sg_Value s) @ '' MB)'')
        (zip [0..<length ds] ds))"

definition diskPlaybook :: "Signature \<Rightarrow> Facts \<Rightarrow> Playbook option" where
  "diskPlaybook sig f =
     (let mount = mountOf (si_Subject sig);
          here = filter (\<lambda>s. diskMountOf f (ps_Step s) = mount) (cleanUps f);
          elsewhere = list_ex (\<lambda>s. diskMountOf f (ps_Step s) \<noteq> mount) (cleanUps f);
          dirs = largeDirs (fa_Bundle f) in
      Some (newPlaybook
        (if si_Type sig = ''inode_exhausted'' then ''Free up file slots'' else ''Free up disk space'') (si_Title sig) here
        ((if elsewhere \<and> here = []
          then [\<lparr>pm_Text = ''The usual automatic clean-ups (system logs, Docker data, package cache) free space on a different disk than '' @
                  mount @ '', so they would not help here.'', pm_Command = ''''\<rparr>] else []) @
         (if dirs \<noteq> []
          then [\<lparr>pm_Text = ''The biggest folders on '' @ mount @ '' are: '' @ Join ''; '' dirs @ ''. Remove what you no longer need.'',
                 pm_Command = ''''\<rparr>]
          else [\<lparr>pm_Text = ''Find the biggest folders on '' @ mount @ '' and remove what you no longer need.'',
                 pm_Command = ''du -xh --max-depth=2 '' @ mount @ '' 2>/dev/null | sort -rh | head -6''\<rparr>]))))"

section \<open>Certificates, the proxy and PM2\<close>

definition certPlaybook :: "Signature \<Rightarrow> Facts \<Rightarrow> Playbook option" where
  "certPlaybook sig f =
     (let name = si_Subject sig in
      if name = '''' \<or> \<not> contains (iv_Certs (fa_Inventory f)) name then None
      else Some (newPlaybook (''Renew the certificate for '' @ name) (si_Title sig)
        [\<lparr>ps_Step = CertRenewID, ps_Params = [(''name'', VString name)]\<rparr>] []))"

definition hostOf :: "string \<Rightarrow> string" where
  "hostOf target =
     (let t = beforePath (afterScheme (TrimSpace target)) in
      ToLower (case LastIndexByte t (CHR '':'') of None \<Rightarrow> t | Some i \<Rightarrow> take i t))"

definition checkURL :: "Facts \<Rightarrow> string option" where
  "checkURL f =
     (if fa_Target f \<noteq> '''' \<and> contains (iv_URLs (fa_Inventory f)) (fa_Target f) then Some (fa_Target f)
      else if hostOf (fa_Target f) = '''' then None
      else find (\<lambda>u. hostOf u = hostOf (fa_Target f)) (iv_URLs (fa_Inventory f)))"

definition proxyPlaybook :: "Signature \<Rightarrow> Facts \<Rightarrow> Playbook option" where
  "proxyPlaybook sig f =
     (case Cut (si_Subject sig) (CHR '':'') of (kind, name, _) \<Rightarrow>
      (let check = (case checkURL f of None \<Rightarrow> []
             | Some url \<Rightarrow> [\<lparr>ps_Step = CheckHTTPID, ps_Params = [(''url'', VString url)]\<rparr>]) in
       if kind = ''unit'' \<and> unitAllowed f name
       then Some (newPlaybook (''Restart '' @ name) (si_Title sig) (restartStep name # check) [])
       else if kind = ''container'' \<and> hasContainer (fa_Inventory f) name
       then Some (newPlaybook (''Restart '' @ name) (si_Title sig) (containerStep name # check) [])
       else None))"

definition pm2Playbook :: "Signature \<Rightarrow> Facts \<Rightarrow> Playbook option" where
  "pm2Playbook sig f =
     (case componentOf f sig ''pm2_app'' of None \<Rightarrow> None
      | Some c \<Rightarrow>
          if (cp_Owner c, cp_Name c) \<notin> set (iv_PM2Apps (fa_Inventory f)) then None
          else Some (newPlaybook (''Restart '' @ cp_Name c) (si_Title sig)
            [\<lparr>ps_Step = PM2RestartID, ps_Params = [(''app'', VString (cp_Name c)), (''user'', VString (cp_Owner c))]\<rparr>] []))"

section \<open>Choosing the rule\<close>

definition ruleFor :: "Signature \<Rightarrow> Facts \<Rightarrow> Playbook option" where
  "ruleFor sig f =
     (let t = si_Type sig in
      if t \<in> {''container_restart_loop'', ''container_stopped''} then containerPlaybook sig f
      else if t = ''unit_failed'' then unitPlaybook sig f
      else if t = ''oom_kill'' then oomPlaybook sig f
      else if t \<in> {''disk_exhausted'', ''inode_exhausted''} then diskPlaybook sig f
      else if t = SigCertExpiring then certPlaybook sig f
      else if t = ''proxy_upstream_error'' then proxyPlaybook sig f
      else if t = SigPM2AppStopped then pm2Playbook sig f
      else None)"

definition FromSignature :: "Signature \<Rightarrow> Facts \<Rightarrow> Playbook option" where
  "FromSignature sig f =
     (case ruleFor sig f of None \<Rightarrow> None
      | Some pb \<Rightarrow> Some (pb\<lparr>pb_Source := SourceCatalog,
          pb_Summary := if pb_Summary pb = '''' then si_Title sig else pb_Summary pb\<rparr>))"

definition relevantToIncident :: "Signature \<Rightarrow> Service \<Rightarrow> bool" where
  "relevantToIncident sig svc =
     (if sv_Name svc \<noteq> '''' \<and> si_Subject sig = sv_Name svc then True
      else if si_Type sig = ''oom_kill'' then sv_Kind svc = ''memory_pressure''
      else if si_Type sig = ''disk_exhausted'' then sv_Kind svc \<in> {''disk_capacity'', ''disk_fill_rate''}
      else if si_Type sig = ''inode_exhausted'' then sv_Kind svc = ''inode_capacity''
      else True)"

text \<open>The signatures of the facts, or those matched from the bundle.\<close>

definition factSignatures :: "Facts \<Rightarrow> Signature list" where
  "factSignatures f = (case fa_Signatures f of Some s \<Rightarrow> s | None \<Rightarrow> Match (fa_Bundle f))"

fun firstRule :: "Facts \<Rightarrow> Signature list \<Rightarrow> Playbook option" where
  "firstRule f [] = None"
| "firstRule f (s # ss) = (case FromSignature s f of Some pb \<Rightarrow> Some pb | None \<Rightarrow> firstRule f ss)"

definition FromBundle :: "Facts \<Rightarrow> Playbook option" where
  "FromBundle f0 =
     (let sigs = (case fa_Signatures f0 of Some s \<Rightarrow> s | None \<Rightarrow> Match (fa_Bundle f0));
          f = f0\<lparr>fa_Signatures := Some sigs\<rparr>;
          relevant = filter (\<lambda>s. relevantToIncident s (bd_Service (fa_Bundle f))) sigs in
      if relevant \<noteq> [] then firstRule f relevant else firstRule f sigs)"

end
