(* ===== verification/Playbook_Theorems.thy ===== *)
theory Playbook_Theorems
  imports Playbook_Rules
begin

text \<open>
  What the playbook check accepts, stated as a typing judgement on steps that does not mention the
  check; that the fixed rules only make playbooks it accepts; that an incident's own signatures decide;
  what the runbook says of its steps; and what text cleaning leaves.
\<close>

section \<open>Well-formed steps\<close>

text \<open>A value is the whole number \<open>n\<close>; a JSON number is exact up to \<open>2 ^ 53\<close>.\<close>

definition whole :: "pval \<Rightarrow> int \<Rightarrow> bool" where
  "whole v n \<longleftrightarrow>
     (case v of VInt k \<Rightarrow> k = n | VInt64 k \<Rightarrow> k = n | VUint64 k \<Rightarrow> k = n \<and> n < 2 ^ 63
      | VFloat q \<Rightarrow> q = of_int n \<and> \<bar>n\<bar> \<le> 2 ^ 53 | _ \<Rightarrow> False)"

definition conforms :: "param \<Rightarrow> pval \<Rightarrow> bool" where
  "conforms p v \<longleftrightarrow>
     (if p_Type p = ''integer'' then \<exists>n. whole v n \<and> 1 \<le> n \<and> n \<le> integerMax (p_Name p)
      else \<exists>s. v = VString s \<and> (p_Enum p = [] \<or> s \<in> set (p_Enum p)) \<and> matchPattern (p_Pattern p) s)"

definition inventoryOf :: "Inventory \<Rightarrow> string \<Rightarrow> string list option" where
  "inventoryOf ivt src =
     (if src = ''units'' then Some (iv_Units ivt) else if src = ''containers'' then Some (iv_Containers ivt)
      else if src = ''supervisor_programs'' then Some (iv_SupervisorPrograms ivt)
      else if src = ''certs'' then Some (iv_Certs ivt) else if src = ''urls'' then Some (iv_URLs ivt) else None)"

definition refers :: "Inventory \<Rightarrow> param \<Rightarrow> pval \<Rightarrow> bool" where
  "refers ivt p v \<longleftrightarrow>
     (\<forall>names. inventoryOf ivt (p_Source p) = Some names \<longrightarrow> (\<exists>s \<in> set names. v = VString s)) \<and>
     (p_Source p = ''ports'' \<longrightarrow> (\<exists>n \<in> set (iv_Ports ivt). whole v n))"

definition wellFormed :: "Inventory \<Rightarrow> PBStep \<Rightarrow> bool" where
  "wellFormed ivt s \<longleftrightarrow>
     (\<exists>st. Lookup (ps_Step s) = Some st \<and>
       fst ` set (ps_Params s) \<subseteq> p_Name ` set (d_Params (Def st)) \<and>
       (\<forall>p \<in> set (d_Params (Def st)). \<exists>v. map_of (ps_Params s) (p_Name p) = Some v \<and> conforms p v \<and> refers ivt p v)) \<and>
     (ps_Step s = ComposeUpID \<longrightarrow>
       (Params_String (ps_Params s) ''project'', Params_String (ps_Params s) ''service'') \<in> set (iv_ComposeServices ivt)) \<and>
     (ps_Step s = PM2RestartID \<longrightarrow>
       (Params_String (ps_Params s) ''user'', Params_String (ps_Params s) ''app'') \<in> set (iv_PM2Apps ivt))"

lemma firstError_None: "firstError f xs = None \<longleftrightarrow> (\<forall>x \<in> set xs. f x = None)"
  by (induction xs) auto

lemma Params_Int_whole:
  assumes "map_of ps k = Some v" and "\<not> isText v"
  shows "Params_Int ps k = Some n \<longleftrightarrow> whole v n"
proof (cases v)
  case (VFloat q)
  show ?thesis
  proof (cases "q = of_int \<lfloor>q\<rfloor>")
    case True
    then have "\<bar>q\<bar> = of_int \<bar>\<lfloor>q\<rfloor>\<bar>" by (metis of_int_abs)
    then have "\<bar>q\<bar> > 2 ^ 53 \<longleftrightarrow> \<bar>\<lfloor>q\<rfloor>\<bar> > 2 ^ 53"
      by (metis (no_types) of_int_less_iff of_int_numeral of_int_power)
    with True show ?thesis using assms(1) by (auto simp: Params_Int_def whole_def VFloat)
  next
    case False
    then show ?thesis using assms(1) by (auto simp: Params_Int_def whole_def VFloat)
  qed
qed (use assms in \<open>auto simp: Params_Int_def whole_def isText_def\<close>)

lemma whole_not_text: "whole v n \<Longrightarrow> \<not> isText v"
  by (cases v) (auto simp: whole_def isText_def)

lemma whole_unique: "whole v n \<Longrightarrow> whole v m \<Longrightarrow> n = m"
  by (cases v) (auto simp: whole_def)

lemma checkParam_conforms:
  assumes "map_of ps (p_Name p) = Some raw"
  shows "checkParam p ps raw = None \<longleftrightarrow> conforms p raw"
proof (cases "p_Type p = ''integer''")
  case True
  then show ?thesis
    using Params_Int_whole [OF assms] whole_not_text [of raw]
    by (cases "isText raw") (auto simp: checkParam_def conforms_def split: option.split dest: whole_unique)
next
  case False
  then show ?thesis by (auto simp: checkParam_def conforms_def contains_def split: pval.split)
qed

lemma checkShape_None:
  "checkShape d ps = None \<longleftrightarrow>
     fst ` set ps \<subseteq> p_Name ` set (d_Params d) \<and>
     (\<forall>p \<in> set (d_Params d). \<exists>v. map_of ps (p_Name p) = Some v \<and> conforms p v)"
proof -
  have "(case map_of ps (p_Name p) of None \<Rightarrow> Some (failure (''missing parameter '' @ Quote (p_Name p)))
         | Some raw \<Rightarrow> map_option (wrapErr (''parameter '' @ Quote (p_Name p) @ '': '')) (checkParam p ps raw)) = None
      \<longleftrightarrow> (\<exists>v. map_of ps (p_Name p) = Some v \<and> conforms p v)" for p
    by (cases "map_of ps (p_Name p)") (simp_all add: checkParam_conforms)
  moreover have "(\<forall>x \<in> set ps. (case x of (name, _) \<Rightarrow> if name \<in> set (map p_Name (d_Params d)) then None
        else Some (failure (''unexpected parameter '' @ Quote name))) = None) \<longleftrightarrow> fst ` set ps \<subseteq> p_Name ` set (d_Params d)"
    by (force simp: subset_iff split: if_splits)
  ultimately show ?thesis unfolding checkShape_def orElse_None_iff firstError_None by simp
qed

text \<open>In the catalog a parameter that names a port is a number, every other named one is text.\<close>

lemma catalog_sources:
  "p \<in> set (d_Params (Def st)) \<Longrightarrow>
     (p_Source p = ''ports'' \<longleftrightarrow> p_Type p = ''integer'' \<and> p_Source p \<noteq> ''none'') \<and>
     (p_Type p = ''integer'' \<or> p_Type p = ''string'')"
  by (cases st) (auto simp: unitParam_def nameParam_def firewallParams_def portParam_def protoParam_def)

lemma checkNamed_refers:
  assumes p: "p \<in> set (d_Params (Def st))" and v: "map_of ps (p_Name p) = Some v" and c: "conforms p v"
  shows "checkNamed ivt ps p = None \<longleftrightarrow> refers ivt p v"
proof (cases "p_Type p = ''integer''")
  case True
  then obtain n where n: "whole v n" using c by (auto simp: conforms_def)
  have i: "Params_Int ps (p_Name p) = Some n" using Params_Int_whole [OF v] whole_not_text [OF n] n by blast
  have u: "whole v m \<longleftrightarrow> m = n" for m using n whole_unique by blast
  have "p_Source p = ''ports'' \<or> p_Source p = ''none''" using catalog_sources [OF p] True by blast
  then show ?thesis
    by (elim disjE) (simp_all add: checkNamed_def refers_def inventoryOf_def i u intOrZero_def containsInt_def Let_def)
next
  case False
  then obtain s where s: "v = VString s" using c by (auto simp: conforms_def)
  have "Params_String ps (p_Name p) = s" using v by (simp add: Params_String_def s)
  moreover have "p_Source p \<noteq> ''ports''" using catalog_sources [OF p] False by blast
  ultimately show ?thesis
    by (auto simp: checkNamed_def refers_def inventoryOf_def hasUnit_def hasContainer_def contains_def s Let_def)
qed

lemma checkSource_None:
  "checkSource d ps ivt = None \<longleftrightarrow>
     (\<forall>p \<in> set (d_Params d). checkNamed ivt ps p = None) \<and>
     (d_ID d = ComposeUpID \<longrightarrow> (Params_String ps ''project'', Params_String ps ''service'') \<in> set (iv_ComposeServices ivt)) \<and>
     (d_ID d = PM2RestartID \<longrightarrow> (Params_String ps ''user'', Params_String ps ''app'') \<in> set (iv_PM2Apps ivt))"
  by (auto simp: checkSource_def firstError_None hasCompose_def step_id_defs)

lemma checkStep_wellFormed:
  "snd (checkStep None ivt w s) = Inr () \<longleftrightarrow> wellFormed ivt s"
proof (cases "Lookup (ps_Step s)")
  case None
  then show ?thesis by (simp add: checkStep_def wellFormed_def)
next
  case (Some st)
  then have i: "d_ID (Def st) = ps_Step s" by (rule Lookup_ID)
  have "snd (checkStep None ivt w s) = Inr () \<longleftrightarrow>
      checkShape (Def st) (ps_Params s) = None \<and> checkSource (Def st) (ps_Params s) ivt = None"
    by (cases "checkShape (Def st) (ps_Params s)"; cases "checkSource (Def st) (ps_Params s) ivt")
      (simp_all add: checkStep_def Some)
  moreover have "(\<exists>v. map_of (ps_Params s) (p_Name p) = Some v \<and> conforms p v) \<and> checkNamed ivt (ps_Params s) p = None
      \<longleftrightarrow> (\<exists>v. map_of (ps_Params s) (p_Name p) = Some v \<and> conforms p v \<and> refers ivt p v)"
    if "p \<in> set (d_Params (Def st))" for p using checkNamed_refers [OF that] by blast
  ultimately show ?thesis unfolding wellFormed_def Some checkShape_None checkSource_None i option.inject ex_simps by meson
qed

lemma checkStep_sound: "checkStep v ivt w s = (w', Inr u) \<Longrightarrow> wellFormed ivt s"
  using checkStep_wellFormed [of ivt w s] by (auto simp: checkStep_def split: option.splits)

section \<open>The check\<close>

lemma checkSteps_sound:
  "checkSteps v ivt i w ss = (w', Inr u) \<Longrightarrow> list_all (wellFormed ivt) ss"
proof (induction ss arbitrary: i w)
  case (Cons s ss)
  obtain w1 r where c: "checkStep v ivt w s = (w1, r)" by (cases "checkStep v ivt w s")
  with Cons.prems obtain x where r: "r = Inr x" by (cases r) auto
  with c Cons.prems have "checkSteps v ivt (Suc i) w1 ss = (w', Inr u)" by simp
  with Cons.IH checkStep_sound [of v ivt w s w1 x] c r show ?case by simp
qed simp

lemma checkStep_offline: "fst (checkStep None ivt w s) = w"
  by (simp add: checkStep_def split: option.split)

lemma checkSteps_offline:
  "snd (checkSteps None ivt i w ss) = Inr () \<longleftrightarrow> list_all (wellFormed ivt) ss"
proof (induction ss arbitrary: i)
  case (Cons s ss)
  have "fst (checkStep None ivt w s) = w" by (rule checkStep_offline)
  then show ?case using Cons checkStep_wellFormed [of ivt w s]
    by (cases "checkStep None ivt w s"; cases "snd (checkStep None ivt w s)") auto
qed simp

lemma checkSteps_offline_eq:
  "checkSteps None ivt i w ss = (w, Inr ()) \<longleftrightarrow> list_all (wellFormed ivt) ss"
proof -
  have "fst (checkSteps None ivt i w ss) = w"
  proof (induction ss arbitrary: i)
    case (Cons s ss)
    then show ?case using checkStep_offline [of ivt w s]
      by (cases "checkStep None ivt w s"; cases "snd (checkStep None ivt w s)") auto
  qed simp
  then show ?thesis using checkSteps_offline [of ivt i w ss] by (metis prod.collapse snd_conv)
qed

lemma Check_Inr:
  "Check v ivt w pb = (w', Inr pb') \<longleftrightarrow>
     length (pb_Steps pb) \<le> MaxSteps \<and> (pb_Steps pb \<noteq> [] \<or> pb_Manual pb \<noteq> []) \<and>
     checkSteps v ivt 0 w (pb_Steps pb) = (w', Inr ()) \<and> pb' = cleanPlaybook pb"
  by (cases "checkSteps v ivt 0 w (pb_Steps pb)"; cases "snd (checkSteps v ivt 0 w (pb_Steps pb))")
    (auto simp: Check_def andThen_def)

lemma cleanPlaybook_steps [simp]: "pb_Steps (cleanPlaybook pb) = pb_Steps pb" "pb_Source (cleanPlaybook pb) = pb_Source pb"
  by (simp_all add: cleanPlaybook_def Let_def)

lemma cleanPlaybook_manual:
  "pb_Manual (cleanPlaybook pb) = filter (\<lambda>m. pm_Text m \<noteq> '''') (map cleanManual (take maxManualSteps (pb_Manual pb)))"
  "pb_ReviewCarefully (cleanPlaybook pb) \<longleftrightarrow>
     pb_ReviewCarefully pb \<or> list_ex (riskyManual pb) (pb_Manual (cleanPlaybook pb))"
  by (simp_all add: cleanPlaybook_def Let_def)

text \<open>
  C16. A playbook without a live validator is accepted exactly when it has at most six steps, has a step
  or a manual step, and every step is a well-formed catalog step: its name is in the catalog, it has the
  parameters of its type and no others, each of the type, range, enumeration and pattern the catalog
  gives, and every name it uses is in the inventory of this server.
\<close>

theorem Check_decides_wellFormed:
  "(\<exists>pb'. Check None ivt w pb = (w, Inr pb')) \<longleftrightarrow>
     length (pb_Steps pb) \<le> 6 \<and> 0 < length (pb_Steps pb) + length (pb_Manual pb) \<and>
     list_all (wellFormed ivt) (pb_Steps pb)"
  by (auto simp: Check_Inr checkSteps_offline_eq MaxSteps_def)

lemma runes_ascii:
  "r \<in> set (runes s) \<Longrightarrow> c \<in> set r \<Longrightarrow> of_char c < (128::nat) \<Longrightarrow> r = [c]"
proof (induction s arbitrary: r c)
  case (Cons d s)
  show ?case
  proof (cases "runes s")
    case Nil
    then show ?thesis using Cons.prems by simp
  next
    case rs: (Cons q qs)
    then have one: "q = [e]" if "e \<in> set q" "of_char e < (128::nat)" for e using Cons.IH [of q e] that by simp
    have cont: "\<not> of_char e < (128::nat)" if "e \<in> set q" "\<not> isRuneStart (hd q)" for e
      using one [OF that(1)] that(2) by (auto simp: isRuneStart_def)
    have "runes (d # s) = [d] # runes s \<or>
        \<not> of_char d < (128::nat) \<and> \<not> isRuneStart (hd q) \<and> runes (d # s) = (d # q) # qs"
      by (cases q) (simp_all add: rs)
    then show ?thesis
    proof (elim disjE conjE)
      assume "runes (d # s) = [d] # runes s"
      then show ?thesis using Cons.prems Cons.IH [of r c] by auto
    next
      assume "\<not> of_char d < (128::nat)" "\<not> isRuneStart (hd q)" "runes (d # s) = (d # q) # qs"
      then show ?thesis using Cons.prems Cons.IH [of r c] cont [of c] rs by auto
    qed
  qed
qed simp

definition control :: "char \<Rightarrow> bool" where
  "control c \<longleftrightarrow> of_char c < (32::nat) \<or> c = CHR 0x7F"

lemma cleanRune_no_control:
  assumes "r \<in> set (runes s)" and "c \<in> set (cleanRune r)"
  shows "\<not> control c"
proof
  assume c: "control c"
  have sp: "\<not> control (CHR '' '')" by (simp add: control_def)
  from c have a: "of_char c < (128::nat)" by (auto simp: control_def)
  from assms(2) c sp have r: "cleanRune r = r" by (auto simp: cleanRune_def Let_def split: if_splits)
  with assms a have "r = [c]" using runes_ascii by simp
  moreover have "of_char c < (32::int) \<or> of_char c = (127::int)"
  proof (cases "c = CHR 0x7F")
    case False
    with c have "int (of_char c) < 32" by (simp add: control_def del: of_nat_of_char)
    then show ?thesis unfolding of_nat_of_char by blast
  qed simp
  ultimately have "isControl (codePoint r)" by (auto simp: isControl_def codePoint_def)
  with r \<open>r = [c]\<close> c sp show False by (auto simp: cleanRune_def Let_def split: if_splits)
qed

lemma cleanText_bounded: "length (cleanText s mx) \<le> mx"
  using order_trans [OF length_TrimSpace length_take_cutAt] by (auto simp: cleanText_def Let_def)

lemma cleanText_no_control: "list_all (\<lambda>c. \<not> control c) (cleanText s mx)"
proof -
  have "set (cleanText s mx) \<subseteq> set (concat (map cleanRune (runes s)))"
    using TrimSpace_set set_take_subset unfolding cleanText_def Let_def by (smt (verit) order_trans)
  then show ?thesis using cleanRune_no_control by (fastforce simp: list_all_iff)
qed

text \<open>
  Whatever the live validator does, a playbook that passes the check is well typed: its steps are the
  steps that were checked and every one is well formed, there are at most six of them and at most ten
  manual steps, no manual step has an empty text, texts and commands keep to their lengths and hold no
  control characters, and a generated playbook with a command to copy is marked for careful review.
\<close>

theorem Check_well_typed:
  assumes "Check v ivt w pb = (w', Inr pb')"
  shows "pb_Steps pb' = pb_Steps pb \<and> length (pb_Steps pb') \<le> 6 \<and> list_all (wellFormed ivt) (pb_Steps pb') \<and>
    length (pb_Manual pb') \<le> 10 \<and>
    list_all (\<lambda>m. pm_Text m \<noteq> '''' \<and> length (pm_Text m) \<le> 600 \<and> length (pm_Command m) \<le> 300 \<and>
      list_all (\<lambda>c. \<not> control c) (pm_Text m @ pm_Command m)) (pb_Manual pb') \<and>
    (pb_Source pb' = SourceGenerated \<and> list_ex (\<lambda>m. pm_Command m \<noteq> '''') (pb_Manual pb') \<longrightarrow> pb_ReviewCarefully pb')"
proof -
  have c: "checkSteps v ivt 0 w (pb_Steps pb) = (w', Inr ())" "length (pb_Steps pb) \<le> MaxSteps"
    and p: "pb' = cleanPlaybook pb" using assms by (simp_all add: Check_Inr)
  have "length (pb_Manual pb') \<le> 10"
    by (simp add: p cleanPlaybook_manual maxManualSteps_def) (metis (no_types) length_filter_le length_map length_take min.bounded_iff)
  moreover have "list_all (\<lambda>m. pm_Text m \<noteq> '''' \<and> length (pm_Text m) \<le> 600 \<and> length (pm_Command m) \<le> 300 \<and>
      list_all (\<lambda>c. \<not> control c) (pm_Text m @ pm_Command m)) (pb_Manual pb')"
    using cleanText_bounded [of _ maxManualText] cleanText_bounded [of _ maxManualCommand] cleanText_no_control
    by (auto simp: p cleanPlaybook_manual list_all_iff [of _ "filter _ _"] cleanManual_def maxManualText_def maxManualCommand_def)
  ultimately show ?thesis using c(2) checkSteps_sound [OF c(1)]
    by (simp add: p MaxSteps_def cleanPlaybook_manual(2)) (auto simp: riskyManual_def list_ex_iff)
qed

section \<open>The fixed rules\<close>

definition wfInventory :: "Inventory \<Rightarrow> bool" where
  "wfInventory i \<longleftrightarrow> list_all nameRe (iv_Containers i) \<and> list_all certRe (iv_Certs i) \<and> list_all urlRe (iv_URLs i) \<and>
     list_all (\<lambda>(a, b). nameRe a \<and> nameRe b) (iv_ComposeServices i @ iv_PM2Apps i)"

lemma wfInventoryD:
  assumes "wfInventory i"
  shows "c \<in> set (iv_Containers i) \<Longrightarrow> nameRe c" and "n \<in> set (iv_Certs i) \<Longrightarrow> certRe n"
    and "u \<in> set (iv_URLs i) \<Longrightarrow> urlRe u"
    and "(p, q) \<in> set (iv_ComposeServices i) \<Longrightarrow> nameRe p \<and> nameRe q"
    and "(p, q) \<in> set (iv_PM2Apps i) \<Longrightarrow> nameRe p \<and> nameRe q"
  using assms by (auto simp: wfInventory_def list_all_iff)

lemma Lookup_ids:
  "Lookup ServiceRestartID = Some ServiceRestart" "Lookup PHPFPMRestartID = Some PHPFPMRestart"
  "Lookup ContainerRestartID = Some ContainerRestart" "Lookup ComposeUpID = Some ComposeUp"
  "Lookup PM2RestartID = Some PM2Restart" "Lookup JournalVacuumID = Some JournalVacuum"
  "Lookup DockerPruneID = Some DockerPrune" "Lookup AptCleanID = Some AptClean"
  "Lookup CertRenewID = Some CertRenew" "Lookup CheckHTTPID = Some CheckHTTP"
  by (simp_all add: Lookup_iff)

lemma wellFormed_Def:
  assumes "Lookup (ps_Step s) = Some st"
  shows "wellFormed ivt s \<longleftrightarrow>
    fst ` set (ps_Params s) \<subseteq> p_Name ` set (d_Params (Def st)) \<and>
    (\<forall>p \<in> set (d_Params (Def st)). \<exists>v. map_of (ps_Params s) (p_Name p) = Some v \<and> conforms p v \<and> refers ivt p v) \<and>
    (st = ComposeUp \<longrightarrow>
      (Params_String (ps_Params s) ''project'', Params_String (ps_Params s) ''service'') \<in> set (iv_ComposeServices ivt)) \<and>
    (st = PM2Restart \<longrightarrow>
      (Params_String (ps_Params s) ''user'', Params_String (ps_Params s) ''app'') \<in> set (iv_PM2Apps ivt))"
proof -
  have "ps_Step s = d_ID (Def t) \<longleftrightarrow> st = t" for t using Lookup_ID [OF assms] d_ID_inj by metis
  from this [of ComposeUp] this [of PM2Restart] show ?thesis by (simp add: wellFormed_def assms)
qed

lemmas wellFormed_simps =
  wellFormed_Def Lookup_ids conforms_def refers_def inventoryOf_def nameParam_def unitParam_def Params_String_def

lemma restartStep_wellFormed:
  assumes "CheckUnitAllowed u = None" and "hasUnit ivt u"
  shows "wellFormed ivt (restartStep u)"
proof -
  have "nameRe u" using assms(1) by (auto simp: CheckUnitAllowed_def ValidateName_def split: if_splits)
  then show ?thesis using assms(2)
    by (simp add: restartStep_def phpFPMUnit_def wellFormed_simps hasUnit_def contains_def)
qed

definition acceptable :: "Inventory \<Rightarrow> Playbook \<Rightarrow> bool" where
  "acceptable ivt pb \<longleftrightarrow>
     length (pb_Steps pb) \<le> 6 \<and> (pb_Steps pb \<noteq> [] \<or> pb_Manual pb \<noteq> []) \<and> list_all (wellFormed ivt) (pb_Steps pb)"

lemma newPlaybook_simps [simp]:
  "pb_Steps (newPlaybook t s ss ms) = ss" "pb_Manual (newPlaybook t s ss ms) = ms"
  "pb_Summary (newPlaybook t s ss ms) = s" "pb_Title (newPlaybook t s ss ms) = t"
  by (simp_all add: newPlaybook_def)

named_theorems rule_ok \<open>a rule only makes acceptable playbooks\<close>

lemma containerStep_wellFormed:
  "wfInventory ivt \<Longrightarrow> hasContainer ivt name \<Longrightarrow> wellFormed ivt (containerStep name)"
  by (auto simp: containerStep_def wellFormed_simps hasContainer_def contains_def dest: wfInventoryD)

lemma checkURL_wellFormed:
  assumes "wfInventory (fa_Inventory f)" and "checkURL f = Some url"
  shows "wellFormed (fa_Inventory f) \<lparr>ps_Step = CheckHTTPID, ps_Params = [(''url'', VString url)]\<rparr>"
proof -
  have "url \<in> set (iv_URLs (fa_Inventory f))"
    using assms(2) by (auto simp: checkURL_def contains_def find_Some_iff split: if_splits)
  then show ?thesis using assms(1) by (auto simp: wellFormed_simps dest: wfInventoryD)
qed

lemma containerPlaybook_ok [rule_ok]:
  assumes "containerPlaybook sig f = Some pb" and "wfInventory (fa_Inventory f)"
  shows "acceptable (fa_Inventory f) pb"
proof (cases "composeOf f (si_Subject sig)")
  case (Pair project service)
  show ?thesis
    using assms containerStep_wellFormed [of "fa_Inventory f" "si_Subject sig"] wfInventoryD [OF assms(2)]
    by (auto simp: containerPlaybook_def Pair acceptable_def Let_def wellFormed_simps hasCompose_def split: if_splits)
qed

lemma unitPlaybook_ok [rule_ok]:
  "unitPlaybook sig f = Some pb \<Longrightarrow> acceptable (fa_Inventory f) pb"
  by (auto simp: unitPlaybook_def Let_def acceptable_def unitAllowed_def intro: restartStep_wellFormed split: if_splits)

lemma unitForProcess_hasUnit: "unitForProcess p ivt = Some u \<Longrightarrow> hasUnit ivt u"
proof -
  have "filter Q xs = [u] \<Longrightarrow> u \<in> set xs" for Q and xs :: "string list"
    by (metis filter_eq_ConsD in_set_conv_decomp)
  then show "unitForProcess p ivt = Some u \<Longrightarrow> hasUnit ivt u"
    by (auto simp: unitForProcess_def Let_def hasUnit_def contains_def split: if_splits list.splits)
qed

lemma oomPlaybook_ok [rule_ok]:
  assumes "oomPlaybook sig f = Some pb"
  shows "acceptable (fa_Inventory f) pb"
proof -
  define unit where "unit = (case unitForProcess (si_Subject sig) (fa_Inventory f) of
      Some u \<Rightarrow> if CheckUnitAllowed u = None then Some u else None | None \<Rightarrow> None)"
  have u: "unit = Some u \<Longrightarrow> wellFormed (fa_Inventory f) (restartStep u)" for u
    by (auto simp: unit_def intro: restartStep_wellFormed unitForProcess_hasUnit split: option.splits if_splits)
  obtain t d m ms where "pb = newPlaybook t d (case unit of Some u \<Rightarrow> [restartStep u] | None \<Rightarrow> []) (m # ms)"
    using assms unfolding oomPlaybook_def Let_def unit_def [symmetric] by (cases unit) (simp_all only: option.case option.inject, blast+)
  then show ?thesis using u by (auto simp: acceptable_def split: option.split)
qed

lemma cleanUps_ok: "length (cleanUps f) \<le> 3" "list_all (wellFormed (fa_Inventory f)) (cleanUps f)"
  by (simp_all add: cleanUps_def wellFormed_simps)

lemma diskPlaybook_ok [rule_ok]:
  assumes "diskPlaybook sig f = Some pb"
  shows "acceptable (fa_Inventory f) pb"
proof -
  obtain Q where s: "pb_Steps pb = filter Q (cleanUps f)" and m: "pb_Manual pb \<noteq> []"
    using assms by (auto simp: diskPlaybook_def Let_def)
  have "length (filter Q (cleanUps f)) \<le> 6" using cleanUps_ok(1) [of f] length_filter_le [of Q "cleanUps f"] by linarith
  then show ?thesis using cleanUps_ok(2) [of f] by (auto simp: acceptable_def s m list_all_iff)
qed

lemma certPlaybook_ok [rule_ok]:
  "certPlaybook sig f = Some pb \<Longrightarrow> wfInventory (fa_Inventory f) \<Longrightarrow> acceptable (fa_Inventory f) pb"
  by (auto simp: certPlaybook_def Let_def acceptable_def wellFormed_simps contains_def dest: wfInventoryD split: if_splits)

lemma proxyPlaybook_ok [rule_ok]:
  assumes "proxyPlaybook sig f = Some pb" and "wfInventory (fa_Inventory f)"
  shows "acceptable (fa_Inventory f) pb"
  using assms checkURL_wellFormed [OF assms(2)]
  by (auto simp: proxyPlaybook_def Let_def acceptable_def unitAllowed_def
      intro: restartStep_wellFormed containerStep_wellFormed split: if_splits option.splits prod.splits)

lemma pm2Playbook_ok [rule_ok]:
  "pm2Playbook sig f = Some pb \<Longrightarrow> wfInventory (fa_Inventory f) \<Longrightarrow> acceptable (fa_Inventory f) pb"
  by (auto simp: pm2Playbook_def acceptable_def wellFormed_simps dest: wfInventoryD split: if_splits option.splits)


lemma firstRule_Some:
  "firstRule f ss = Some pb \<Longrightarrow> \<exists>s \<in> set ss. FromSignature s f = Some pb"
  by (induction ss) (auto split: option.splits)

lemma FromBundle_cases:
  assumes "FromBundle f = Some pb"
  defines "sigs \<equiv> factSignatures f"
  shows "\<exists>s \<in> set sigs. FromSignature s (f\<lparr>fa_Signatures := Some sigs\<rparr>) = Some pb \<and>
    (list_ex (\<lambda>r. relevantToIncident r (bd_Service (fa_Bundle f))) sigs \<longrightarrow> relevantToIncident s (bd_Service (fa_Bundle f)))"
proof -
  let ?f = "f\<lparr>fa_Signatures := Some sigs\<rparr>"
  let ?rel = "filter (\<lambda>r. relevantToIncident r (bd_Service (fa_Bundle f))) sigs"
  have e: "FromBundle f = (if ?rel \<noteq> [] then firstRule ?f ?rel else firstRule ?f sigs)"
    by (simp add: FromBundle_def sigs_def factSignatures_def Let_def)
  show ?thesis
  proof (cases "?rel = []")
    case True
    then have "\<not> list_ex (\<lambda>r. relevantToIncident r (bd_Service (fa_Bundle f))) sigs"
      by (simp add: filter_empty_conv list_ex_iff)
    then show ?thesis using firstRule_Some [of ?f sigs pb] assms(1) True by (auto simp: e)
  next
    case False
    then show ?thesis using firstRule_Some [of ?f ?rel pb] assms(1) by (auto simp: e)
  qed
qed


text \<open>
  The incident's own signatures decide: the playbook of an incident comes from a signature that was
  found, and from one that is about the incident's service or kind whenever such a signature was found.
\<close>

theorem relevant_signature_decides:
  assumes "FromBundle f = Some pb"
  shows "\<exists>s \<in> set (factSignatures f). FromSignature s (f\<lparr>fa_Signatures := Some (factSignatures f)\<rparr>) = Some pb \<and>
    (list_ex (\<lambda>r. relevantToIncident r (bd_Service (fa_Bundle f))) (factSignatures f) \<longrightarrow>
      relevantToIncident s (bd_Service (fa_Bundle f)))"
  using FromBundle_cases [OF assms] .

section \<open>The runbook\<close>

lemma riskFrom_L2: "riskFrom r ss = RiskL2 \<longleftrightarrow> r = RiskL2 \<and> list_all (\<lambda>s. ps_Step s = CheckHTTPID) ss \<or>
    list_ex (\<lambda>s. ps_Step s \<in> {FirewallAllowID, FirewallRemoveID, ProcessStopID}) ss"
  by (induction ss arbitrary: r) (auto simp: RiskL1_def RiskL2_def step_id_defs)

lemma riskFrom_L0: "riskFrom r ss = RiskL0 \<longleftrightarrow> r = RiskL0 \<and> list_all (\<lambda>s. ps_Step s = CheckHTTPID) ss"
  by (induction ss arbitrary: r) (auto simp: RiskL0_def RiskL1_def RiskL2_def)

lemma riskFrom_values: "r \<in> {RiskL0, RiskL1} \<Longrightarrow> riskFrom r ss \<in> {RiskL0, RiskL1, RiskL2}"
  by (induction ss arbitrary: r) auto

lemma rollbackOf_undo: "rollbackOf s \<noteq> [] \<longleftrightarrow> rs_Undoable (runbookStep s)"
proof (cases "Lookup (ps_Step s)")
  case (Some st)
  have "Undo st (ps_Params s) = None \<longleftrightarrow> d_Undo (Def st) = ''''" by (cases st) (simp_all add: step_id_defs)
  then show ?thesis by (auto simp: rollbackOf_def runbookStep_def UndoOf_def Some split: option.split)
qed (simp add: rollbackOf_def runbookStep_def UndoOf_def)

text \<open>
  The runbook a user approves states its steps: one runbook step per playbook step, with its own
  parameters and the command the catalog shows for it; the lowest risk class means that it only checks
  web addresses, the highest that it changes the firewall or stops a process, and the middle one neither;
  it runs as root exactly when some step needs root; and it has a rollback exactly when some step is undoable.
\<close>

theorem runbook_states_its_steps:
  "let rb = ToRunbook pb i inc srv in
    map (\<lambda>s. (rs_Kind s, rs_Params s, rs_Command s)) (rb_Steps rb) =
      map (\<lambda>s. (ps_Step s, ps_Params s, Command (ps_Step s) (ps_Params s))) (pb_Steps pb) \<and>
    rb_Risk rb \<in> {RiskL0, RiskL1, RiskL2} \<and>
    (rb_Risk rb = RiskL0 \<longleftrightarrow> list_all (\<lambda>s. rs_Kind s = CheckHTTPID) (rb_Steps rb)) \<and>
    (rb_Risk rb = RiskL2 \<longleftrightarrow>
      list_ex (\<lambda>s. rs_Kind s \<in> {FirewallAllowID, FirewallRemoveID, ProcessStopID}) (rb_Steps rb)) \<and>
    (rb_RunAs rb = ''root'' \<longleftrightarrow> list_ex needsRoot (pb_Steps pb)) \<and>
    (rb_Rollback rb = [] \<longleftrightarrow> \<not> list_ex rs_Undoable (rb_Steps rb))"
proof -
  define rb where "rb = ToRunbook pb i inc srv"
  have "rb_Rollback rb = [] \<longleftrightarrow> \<not> list_ex rs_Undoable (rb_Steps rb)"
    using rollbackOf_undo by (auto simp: rb_def ToRunbook_def list_ex_iff)
  moreover have "risk ss \<in> {RiskL0, RiskL1, RiskL2}" for ss
    unfolding risk_def by (rule riskFrom_values) simp
  moreover have "RiskL0 \<noteq> RiskL2" by (simp add: RiskL0_def RiskL2_def)
  moreover have k: "rs_Kind (runbookStep s) = ps_Step s" for s by (simp add: runbookStep_def Let_def)
  ultimately show ?thesis unfolding rb_def [symmetric] Let_def
    by (simp add: rb_def ToRunbook_def runbookStep_def Let_def risk_def riskFrom_L0 riskFrom_L2 list_all_iff list_ex_iff)
qed

section \<open>A server with a failed unit\<close>

definition exInventory :: Inventory where
  "exInventory = \<lparr>iv_Units = [''nginx.service'', ''cron.service''], iv_Containers = [''web''],
     iv_ComposeServices = [(''shop'', ''db'')], iv_PM2Apps = [(''deploy'', ''api'')], iv_SupervisorPrograms = [],
     iv_Certs = [''example.com''], iv_URLs = [''https://example.com/''], iv_Ports = [443]\<rparr>"

definition exSignature :: "string \<Rightarrow> string \<Rightarrow> Signature" where
  "exSignature typ subject = \<lparr>si_ID = typ, si_Type = typ, si_Title = ''Found '' @ typ, si_EvidenceIDs = [''e1''],
     si_Confidence = 1, si_Subject = subject, si_Detail = ''''\<rparr>"

definition exFacts :: Facts where
  "exFacts = \<lparr>fa_Inventory = exInventory,
     fa_Bundle = \<lparr>bd_IncidentID = ''inc'', bd_CapturedAt = 0,
       bd_Service = \<lparr>sv_Name = ''nginx.service'', sv_Kind = ''systemd_unit'', sv_Status = ''unknown''\<rparr>,
       bd_Redaction = noReport, bd_Signals = [], bd_Logs = [], bd_Components = [], bd_RecentChanges = [],
       bd_Metrics = [], bd_Warnings = [], bd_DroppedItems = 0\<rparr>,
     fa_Signatures = Some [exSignature ''oom_kill'' ''cron'', exSignature ''unit_failed'' ''nginx.service''],
     fa_OS = \<lparr>os_Distro = ''debian'', os_Version = ''12''\<rparr>, fa_Target = ''nginx.service'', fa_DiskMounts = []\<rparr>"

definition exPlaybook :: Playbook where
  "exPlaybook = \<lparr>pb_Title = ''Restart nginx.service'', pb_Summary = ''Found unit_failed'', pb_Source = SourceCatalog,
     pb_ReviewCarefully = False, pb_Steps = [restartStep ''nginx.service''], pb_Manual = []\<rparr>"

lemma exFacts_FromBundle: "FromBundle exFacts = Some exPlaybook"
  by code_simp


definition exDraft :: Playbook where
  "exDraft = exPlaybook\<lparr>pb_Source := SourceGenerated,
     pb_Manual := [\<lparr>pm_Text = ''Read'' @ CHR 0x0A # ''the log'', pm_Command = ''journalctl -u nginx''\<rparr>, \<lparr>pm_Text = ''  '', pm_Command = ''ls''\<rparr>]\<rparr>"

theorem Check_well_typed_witness:
  "Check (None :: unit validator option) exInventory () exDraft = ((), Inr (cleanPlaybook exDraft)) \<and>
   length (pb_Manual (cleanPlaybook exDraft)) = 1 \<and> pb_ReviewCarefully (cleanPlaybook exDraft) \<and>
   list_all (wellFormed exInventory) (pb_Steps exDraft)"
proof -
  have c: "Check (None :: unit validator option) exInventory () exDraft = ((), Inr (cleanPlaybook exDraft))" by code_simp
  have l: "length (pb_Manual (cleanPlaybook exDraft)) = 1"
    "list_ex (\<lambda>m. pm_Command m \<noteq> '''') (pb_Manual (cleanPlaybook exDraft))" by code_simp+
  from Check_well_typed [OF c] c l show ?thesis by (simp add: exDraft_def)
qed


theorem relevant_signature_decides_witness:
  "FromBundle exFacts = Some exPlaybook \<and>
   (\<exists>s \<in> set (factSignatures exFacts). FromSignature s exFacts = Some exPlaybook \<and>
     relevantToIncident s (bd_Service (fa_Bundle exFacts)))"
proof -
  have "list_ex (\<lambda>r. relevantToIncident r (bd_Service (fa_Bundle exFacts))) (factSignatures exFacts)" by code_simp
  moreover have "exFacts\<lparr>fa_Signatures := Some (factSignatures exFacts)\<rparr> = exFacts"
    by (simp add: exFacts_def factSignatures_def)
  ultimately show ?thesis using relevant_signature_decides [OF exFacts_FromBundle] exFacts_FromBundle by auto
qed

end
