(* ===== verification/Playbook_Service.thy ===== *)
theory Playbook_Service
  imports Playbook_Rules Remediation Relay_Client
begin

text \<open>
  Asking for playbooks and proposing them: \<^verbatim>\<open>internal/playbook/{generate,service}.go\<close>, the request and its answer in
  \<^verbatim>\<open>internal/watchtower/playbook.go\<close> and \<open>Inventory.wire\<close> of \<^verbatim>\<open>playbook.go\<close>. The service passes on one state \<open>'w sv\<close>: the
  remediation manager (with its store and world), the relay client, the set of incidents being prepared and
  the answers of \<open>crypto/rand\<close>. Evidence, inventory and disk mounts are functions of the world, as in the
  code. The background work that \<open>IncidentOpened\<close> starts is \<open>prepareOpened\<close>, a step of its own.
\<close>

section \<open>The request (watchtower/playbook.go)\<close>

definition PlaybookOK :: string where "PlaybookOK = ''ok''"
definition PlaybookNone :: string where "PlaybookNone = ''no_playbook''"
definition PlaybookLimitReached :: string where "PlaybookLimitReached = ''limit_reached''"
definition PlaybookConsentRequired :: string where "PlaybookConsentRequired = ''consent_required''"
definition PlaybookUnavailable :: string where "PlaybookUnavailable = ''unavailable''"

record PlaybookSignature =
  qs_ID :: string
  qs_Title :: string
  qs_Detail :: string

record PlaybookInventory =
  qi_Units :: "string list"
  qi_Containers :: "string list"
  qi_ComposeServices :: "(string \<times> string) list"
  qi_PM2Apps :: "(string \<times> string) list"
  qi_SupervisorPrograms :: "string list"
  qi_Certs :: "string list"
  qi_URLs :: "string list"
  qi_Ports :: "int list"

record PlaybookMetrics =
  qm_CPUPercent :: rat
  qm_MemPercent :: rat
  qm_DiskPercent :: rat
  qm_InodePercent :: rat
  qm_Load1 :: rat
  qm_MemTotalMB :: rat
  qm_SwapTotalMB :: rat

record PlaybookRequest =
  qr_IncidentID :: string
  qr_Kind :: string
  qr_Severity :: string
  qr_Signatures :: "PlaybookSignature list"
  qr_Inventory :: PlaybookInventory
  qr_Metrics :: PlaybookMetrics
  qr_OS :: "string \<times> string"
  qr_Logs :: "string list"
  qr_CatalogVersion :: int
  qr_UserRequested :: bool

record PlaybookDraft =
  dr_Title :: string
  dr_Summary :: string
  dr_ReviewCarefully :: bool
  dr_Steps :: "(string \<times> Params) list"
  dr_Manual :: "(string \<times> string) list"

record PlaybookResponse =
  ps_Status :: string
  ps_Message :: string
  ps_Playbook :: "PlaybookDraft option"

definition strs :: "string list \<Rightarrow> json" where
  "strs xs = JArr (map JStr xs)"

definition pairJson :: "string \<Rightarrow> string \<Rightarrow> string \<times> string \<Rightarrow> json" where
  "pairJson a b p = JObj [(a, JStr (fst p)), (b, JStr (snd p))]"

definition inventoryJson :: "PlaybookInventory \<Rightarrow> json" where
  "inventoryJson i = JObj
     [(''units'', strs (qi_Units i)), (''containers'', strs (qi_Containers i)),
      (''compose_services'', JArr (map (pairJson ''project'' ''service'') (qi_ComposeServices i))),
      (''pm2_apps'', JArr (map (pairJson ''user'' ''app'') (qi_PM2Apps i))),
      (''supervisor_programs'', strs (qi_SupervisorPrograms i)), (''certs'', strs (qi_Certs i)),
      (''urls'', strs (qi_URLs i)), (''ports'', JArr (map (\<lambda>n. JNum (of_int n)) (qi_Ports i)))]"

definition metricsJson :: "PlaybookMetrics \<Rightarrow> json" where
  "metricsJson m = JObj
     [(''cpuPercent'', JNum (qm_CPUPercent m)), (''memPercent'', JNum (qm_MemPercent m)),
      (''diskPercent'', JNum (qm_DiskPercent m)), (''inodePercent'', JNum (qm_InodePercent m)),
      (''load1'', JNum (qm_Load1 m)), (''memTotalMB'', JNum (qm_MemTotalMB m)), (''swapTotalMB'', JNum (qm_SwapTotalMB m))]"

definition requestJson :: "PlaybookRequest \<Rightarrow> json" where
  "requestJson r = JObj
     [(''incidentId'', JStr (qr_IncidentID r)), (''kind'', JStr (qr_Kind r)), (''severity'', JStr (qr_Severity r)),
      (''signatures'', JArr (map (\<lambda>s. JObj [(''id'', JStr (qs_ID s)), (''title'', JStr (qs_Title s)),
         (''detail'', JStr (qs_Detail s))]) (qr_Signatures r))),
      (''inventory'', inventoryJson (qr_Inventory r)), (''metrics'', metricsJson (qr_Metrics r)),
      (''os'', pairJson ''distro'' ''version'' (qr_OS r)), (''logs'', strs (qr_Logs r)),
      (''catalogVersion'', JNum (of_int (qr_CatalogVersion r))), (''userRequested'', JBool (qr_UserRequested r))]"

definition jsonDraftStep :: "json \<Rightarrow> (string \<times> Params) option" where
  "jsonDraftStep j = do { ms \<leftarrow> asObj j; s \<leftarrow> getStr ms ''step''; p \<leftarrow> getParams ms ''params''; Some (s, p) }"

definition jsonDraftManual :: "json \<Rightarrow> (string \<times> string) option" where
  "jsonDraftManual j = do { ms \<leftarrow> asObj j; t \<leftarrow> getStr ms ''text''; c \<leftarrow> getStr ms ''command''; Some (t, c) }"

definition jsonDraft :: "json \<Rightarrow> PlaybookDraft option" where
  "jsonDraft j = do {
     ms \<leftarrow> asObj j; t \<leftarrow> getStr ms ''title''; s \<leftarrow> getStr ms ''summary''; r \<leftarrow> getBool ms ''reviewCarefully'';
     ss \<leftarrow> getList ms ''steps'' jsonDraftStep; m \<leftarrow> getList ms ''manual'' jsonDraftManual;
     Some \<lparr>dr_Title = t, dr_Summary = s, dr_ReviewCarefully = r, dr_Steps = ss, dr_Manual = m\<rparr> }"

definition jsonResponse :: "json \<Rightarrow> PlaybookResponse option" where
  "jsonResponse j = do {
     ms \<leftarrow> asObj j; s \<leftarrow> getStr ms ''status''; m \<leftarrow> getStr ms ''message'';
     p \<leftarrow> (case map_of ms ''playbook'' of None \<Rightarrow> Some None | Some JNull \<Rightarrow> Some None
            | Some d \<Rightarrow> map_option Some (jsonDraft d));
     Some \<lparr>ps_Status = s, ps_Message = m, ps_Playbook = p\<rparr> }"

definition RequestPlaybook ::
    "(json \<Rightarrow> string) \<Rightarrow> (string \<Rightarrow> string \<Rightarrow> string) \<Rightarrow> wt \<Rightarrow> PlaybookRequest \<Rightarrow> wt \<times> (werr + PlaybookResponse)" where
  "RequestPlaybook sha hmac c req =
     andThen (post sha hmac c ''/v1/agents/playbooks'' (requestJson req)) (\<lambda>c body.
       (c, case jsonResponse body of None \<Rightarrow> Inl WDecode | Some r \<Rightarrow> Inr r))"

section \<open>Building the request (generate.go)\<close>

definition maxLogLines :: nat where "maxLogLines = 100"
definition maxLogBytes :: nat where "maxLogBytes = 8 * 1024"
definition maxLogLineBytes :: nat where "maxLogLineBytes = 1024"
definition maxSignatures :: nat where "maxSignatures = 20"
definition CatalogVersion :: int where "CatalogVersion = 1"

text \<open>The host names as the alternatives of the pattern; an empty list is the nil pattern.\<close>

definition hostnamePattern :: "string list \<Rightarrow> string list" where
  "hostnamePattern names = map ToLower (filter (\<lambda>n. 3 \<le> length n) (map TrimSpace names))"

fun spliceHosts :: "string \<Rightarrow> nat \<Rightarrow> (nat \<times> nat) list \<Rightarrow> string" where
  "spliceHosts s lst [] = drop lst s"
| "spliceHosts s lst ((a, b) # locs) = slice s lst a @ ''host-1'' @ spliceHosts s b locs"

definition replaceHostnames :: "string list \<Rightarrow> string \<Rightarrow> string" where
  "replaceHostnames names s = spliceHosts s 0 (hostLocs names 0 0 s)"

record Generator =
  ge_Client :: bool
  ge_Redactor :: Redactor
  ge_Hostnames :: "string list"
  ge_parseAddr :: "string \<Rightarrow> addr option"

text \<open>\<open>sanitize\<close> and \<open>clean\<close> of \<open>BuildRequest\<close>; both pass on the placeholders.\<close>

definition sanitizeText :: "Generator \<Rightarrow> Placeholders \<Rightarrow> string \<Rightarrow> Placeholders \<times> string \<times> bool" where
  "sanitizeText g ph s =
     (case ForRequest (ge_parseAddr g) (ge_Redactor g) ph s of (ph, out0, _) \<Rightarrow>
      (let names = hostnamePattern (ge_Hostnames g);
           out = (if names = [] then out0 else replaceHostnames names out0) in
       (ph, out, out \<noteq> '''' \<and> Clean (ge_Redactor g) out)))"

definition cleanName :: "Generator \<Rightarrow> Placeholders \<Rightarrow> string \<Rightarrow> Placeholders \<times> bool" where
  "cleanName g ph s =
     (case ForRequest (ge_parseAddr g) (ge_Redactor g) ph s of (ph, out, _) \<Rightarrow>
      (let names = hostnamePattern (ge_Hostnames g) in
       (ph, out = s \<and> (names = [] \<or> hostLocs names 0 0 s = []))))"

fun keepClean :: "('p \<Rightarrow> string \<Rightarrow> 'p \<times> bool) \<Rightarrow> 'p \<Rightarrow> string list \<Rightarrow> 'p \<times> string list" where
  "keepClean clean p [] = (p, [])"
| "keepClean clean p (s # ss) =
     (if s = '''' then keepClean clean p ss
      else (case clean p s of (p, ok) \<Rightarrow> (case keepClean clean p ss of (p, ks) \<Rightarrow> (p, if ok then s # ks else ks))))"

fun keepPairs :: "('p \<Rightarrow> string \<Rightarrow> 'p \<times> bool) \<Rightarrow> 'p \<Rightarrow> (string \<times> string) list \<Rightarrow> 'p \<times> (string \<times> string) list" where
  "keepPairs clean p [] = (p, [])"
| "keepPairs clean p ((a, b) # xs) =
     (case clean p a of
        (p, False) \<Rightarrow> keepPairs clean p xs
      | (p, True) \<Rightarrow> (case clean p b of (p, ok) \<Rightarrow>
          (case keepPairs clean p xs of (p, ks) \<Rightarrow> (p, if ok then (a, b) # ks else ks))))"

definition wire :: "('p \<Rightarrow> string \<Rightarrow> 'p \<times> bool) \<Rightarrow> 'p \<Rightarrow> Inventory \<Rightarrow> 'p \<times> PlaybookInventory" where
  "wire clean p i =
     (case keepClean clean p (iv_Units i) of (p, units) \<Rightarrow>
      (case keepClean clean p (iv_Containers i) of (p, containers) \<Rightarrow>
      (case keepClean clean p (iv_SupervisorPrograms i) of (p, progs) \<Rightarrow>
      (case keepClean clean p (iv_Certs i) of (p, certs) \<Rightarrow>
      (case keepClean clean p (iv_URLs i) of (p, urls) \<Rightarrow>
      (case keepPairs clean p (iv_ComposeServices i) of (p, compose) \<Rightarrow>
      (case keepPairs clean p (iv_PM2Apps i) of (p, pm2) \<Rightarrow>
        (p, \<lparr>qi_Units = sort units, qi_Containers = sort containers, qi_ComposeServices = compose,
             qi_PM2Apps = pm2, qi_SupervisorPrograms = sort progs, qi_Certs = sort certs, qi_URLs = sort urls,
             qi_Ports = sort (iv_Ports i)\<rparr>))))))))"

fun wireSignatures :: "Generator \<Rightarrow> Placeholders \<Rightarrow> nat \<Rightarrow> Signature list \<Rightarrow> Placeholders \<times> PlaybookSignature list" where
  "wireSignatures g ph n [] = (ph, [])"
| "wireSignatures g ph n (s # ss) =
     (if n \<ge> maxSignatures then (ph, [])
      else (case sanitizeText g ph (si_Title s) of (ph, title, ok) \<Rightarrow>
        if \<not> ok then wireSignatures g ph n ss
        else (case sanitizeText g ph (si_Detail s) of (ph, detail, _) \<Rightarrow>
          (case wireSignatures g ph (Suc n) ss of (ph, rest) \<Rightarrow>
            (ph, \<lparr>qs_ID = si_ID s, qs_Title = title, qs_Detail = detail\<rparr> # rest)))))"

definition cutBytes :: "string \<Rightarrow> nat \<Rightarrow> string" where
  "cutBytes s n = (if length s \<le> n then s else take (cutAt s n) s)"

fun sanitizeLines :: "Generator \<Rightarrow> Placeholders \<Rightarrow> string list \<Rightarrow> Placeholders \<times> string list" where
  "sanitizeLines g ph [] = (ph, [])"
| "sanitizeLines g ph (l # ls) =
     (let line = TrimRight l [CHR 0x0D, CHR '' ''] in
      if TrimSpace line = '''' then sanitizeLines g ph ls
      else (case sanitizeText g ph (cutBytes line maxLogLineBytes) of (ph, out, ok) \<Rightarrow>
        (case sanitizeLines g ph ls of (ph, rest) \<Rightarrow> (ph, if ok then out # rest else rest))))"

text \<open>The newest lines that fit: from the end, until the count or the bytes run out.\<close>

fun pickLines :: "nat \<Rightarrow> nat \<Rightarrow> string list \<Rightarrow> string list" where
  "pickLines n used [] = []"
| "pickLines n used (l # ls) =
     (if n \<ge> maxLogLines \<or> used + length l > maxLogBytes then [] else l # pickLines (Suc n) (used + length l) ls)"

definition logLines :: "Generator \<Rightarrow> Placeholders \<Rightarrow> Bundle \<Rightarrow> Placeholders \<times> string list" where
  "logLines g ph b =
     (case sanitizeLines g ph (concat (map (\<lambda>l. Split (CHR 0x0A) (lg_Content l)) (bd_Logs b))) of
        (ph, all) \<Rightarrow> (ph, rev (pickLines 0 0 (rev all))))"

fun worstFrom :: "string \<Rightarrow> rat \<Rightarrow> Metric list \<Rightarrow> rat" where
  "worstFrom name worst [] = worst"
| "worstFrom name worst (x # xs) =
     (if mt_Name x \<noteq> name then worstFrom name worst xs
      else if mt_Subject x = ''/'' then mt_Value x
      else worstFrom name (if mt_Value x > worst then mt_Value x else worst) xs)"

definition worstDisk :: "Bundle \<Rightarrow> string \<Rightarrow> rat" where
  "worstDisk b name = worstFrom name 0 (bd_Metrics b)"

definition metricOr0 :: "Bundle \<Rightarrow> string \<Rightarrow> rat" where
  "metricOr0 b name = (case metricValue b name of Some v \<Rightarrow> v | None \<Rightarrow> 0)"

definition metricsOf :: "Bundle \<Rightarrow> PlaybookMetrics" where
  "metricsOf b =
     \<lparr>qm_CPUPercent = metricOr0 b ''cpu_percent'', qm_MemPercent = metricOr0 b ''memory_used_percent'',
      qm_DiskPercent = worstDisk b ''disk_used_percent'', qm_InodePercent = worstDisk b ''inode_used_percent'',
      qm_Load1 = metricOr0 b ''load_one'', qm_MemTotalMB = metricOr0 b ''memory_total_mb'',
      qm_SwapTotalMB = metricOr0 b ''swap_total_mb''\<rparr>"

record Incident =
  ic_ID :: string
  ic_Kind :: string
  ic_Target :: string
  ic_Severity :: string
  ic_UserRequested :: bool

definition BuildRequest :: "Generator \<Rightarrow> Incident \<Rightarrow> Facts \<Rightarrow> PlaybookRequest" where
  "BuildRequest g inc f =
     (case wire (cleanName g) (NewPlaceholders (ge_Hostnames g)) (fa_Inventory f) of (ph, ivt) \<Rightarrow>
      (case wireSignatures g ph 0 (factSignatures f) of (ph, sigs) \<Rightarrow>
        \<lparr>qr_IncidentID = ic_ID inc, qr_Kind = ic_Kind inc, qr_Severity = ic_Severity inc, qr_Signatures = sigs,
         qr_Inventory = ivt, qr_Metrics = metricsOf (fa_Bundle f), qr_OS = (os_Distro (fa_OS f), os_Version (fa_OS f)),
         qr_Logs = snd (logLines g ph (fa_Bundle f)), qr_CatalogVersion = CatalogVersion,
         qr_UserRequested = ic_UserRequested inc\<rparr>))"

section \<open>Generate\<close>

definition MsgTurnOnMonitoring :: string where
  "MsgTurnOnMonitoring = ''Turn on monitoring to generate playbooks.''"
definition msgUnreachable :: string where
  "msgUnreachable = ''Could not reach the playbook service. Try again in a minute.''"
definition msgBadPlaybook :: string where
  "msgBadPlaybook = ''The playbook service returned a fix that did not pass the safety check, so it was not used.''"
definition msgNoPlaybook :: string where "msgNoPlaybook = ''No playbook could be generated.''"

datatype pberr =
    PErr (pe_Status: string) (pe_Message: string) (pe_Findings: "(string \<times> string) list")
  | PStore store_err
  | PPropose rem_err
  | PRand

definition findings :: "Facts \<Rightarrow> (string \<times> string) list" where
  "findings f = map (\<lambda>s. (si_Title s, si_Detail s)) (factSignatures f)"

definition orDefault :: "string \<Rightarrow> string \<Rightarrow> string" where
  "orDefault s d = (if TrimSpace s = '''' then d else s)"

definition fromDraft :: "PlaybookDraft \<Rightarrow> Playbook" where
  "fromDraft d =
     \<lparr>pb_Title = dr_Title d, pb_Summary = dr_Summary d, pb_Source = SourceGenerated,
      pb_ReviewCarefully = dr_ReviewCarefully d,
      pb_Steps = map (\<lambda>(s, p). \<lparr>ps_Step = s, ps_Params = p\<rparr>) (dr_Steps d),
      pb_Manual = map (\<lambda>(t, c). \<lparr>pm_Text = t, pm_Command = c\<rparr>) (dr_Manual d)\<rparr>"

definition fullMounts :: "Facts \<Rightarrow> string list" where
  "fullMounts f = map (\<lambda>s. mountOf (si_Subject s))
     (filter (\<lambda>s. si_Type s = ''disk_exhausted'' \<or> si_Type s = ''inode_exhausted'') (signaturesOf f))"

definition wrongDisk :: "Facts \<Rightarrow> PBStep \<Rightarrow> bool" where
  "wrongDisk f s \<longleftrightarrow> ps_Step s \<in> {JournalVacuumID, DockerPruneID, AptCleanID} \<and>
     diskMountOf f (ps_Step s) \<notin> set (fullMounts f)"

definition dropWrongDisk :: "Facts \<Rightarrow> Playbook \<Rightarrow> Playbook" where
  "dropWrongDisk f pb =
     (if fullMounts f = [] then pb
      else pb\<lparr>pb_Steps := filter (\<lambda>s. \<not> wrongDisk f s) (pb_Steps pb),
        pb_Manual := pb_Manual pb @ (if list_ex (wrongDisk f) (pb_Steps pb)
          then [\<lparr>pm_Text = ''Some automatic clean-ups were left out because they free space on a different disk than the one that is full.'',
                 pm_Command = ''''\<rparr>] else [])\<rparr>)"

text \<open>What the answer of the playbook service means before the local check.\<close>

definition readAnswer :: "Facts \<Rightarrow> werr + PlaybookResponse \<Rightarrow> pberr + PlaybookDraft" where
  "readAnswer f ans =
     (case ans of
        Inl e \<Rightarrow> Inl (PErr PlaybookUnavailable (if e = ErrNotEnrolled then MsgTurnOnMonitoring else msgUnreachable) [])
      | Inr r \<Rightarrow>
          if ps_Status r = PlaybookOK then
            (case ps_Playbook r of None \<Rightarrow> Inl (PErr PlaybookUnavailable msgUnreachable []) | Some d \<Rightarrow> Inr d)
          else if ps_Status r \<in> {PlaybookConsentRequired, PlaybookLimitReached, PlaybookUnavailable}
          then Inl (PErr (ps_Status r) (orDefault (ps_Message r) msgUnreachable) [])
          else if ps_Status r = PlaybookNone
          then Inl (PErr PlaybookNone (orDefault (ps_Message r) msgNoPlaybook) (findings f))
          else Inl (PErr PlaybookUnavailable msgUnreachable []))"

definition generate ::
    "(json \<Rightarrow> string) \<Rightarrow> (string \<Rightarrow> string \<Rightarrow> string) \<Rightarrow> Generator \<Rightarrow> 'w validator option \<Rightarrow>
     'w \<Rightarrow> wt \<Rightarrow> Incident \<Rightarrow> Facts \<Rightarrow> 'w \<times> wt \<times> (pberr + Playbook)" where
  "generate sha hmac g v w c inc f =
     (if \<not> ge_Client g then (w, c, Inl (PErr PlaybookUnavailable MsgTurnOnMonitoring []))
      else (case RequestPlaybook sha hmac c (BuildRequest g inc f) of (c, ans) \<Rightarrow>
       (case readAnswer f ans of
          Inl e \<Rightarrow> (w, c, Inl e)
        | Inr d \<Rightarrow>
            (case Check v (fa_Inventory f) w (dropWrongDisk f (fromDraft d)) of
               (w, Inl e) \<Rightarrow> (w, c, Inl (PErr PlaybookNone (msgBadPlaybook @ '' ('' @ err_msg e @ '')'') (findings f)))
             | (w, Inr pb) \<Rightarrow> (w, c, Inr pb)))))"

section \<open>The service (service.go)\<close>

record 'w svc =
  vc_deps :: "'w deps"
  vc_Generator :: Generator
  vc_Validator :: "'w validator option"
  vc_Collect :: "'w \<Rightarrow> Target \<Rightarrow> 'w \<times> Bundle"
  vc_Inventory :: "'w \<Rightarrow> 'w \<times> Inventory \<times> OSInfo"
  vc_DiskMounts :: "('w \<Rightarrow> 'w \<times> (ID \<times> string) list) option"
  vc_ServerID :: "string option"
  vc_MonitoringOn :: "bool option"
  vc_hmac :: "string \<Rightarrow> string \<Rightarrow> string"

record 'w sv =
  sy_mgr :: "'w mgr"
  sy_wt :: wt
  sy_preparing :: "string list"
  sy_rand :: "string option list"

record Request =
  rq_IncidentID :: string
  rq_MonitorKind :: string
  rq_Target :: string
  rq_Severity :: string

definition svStore :: "'w sv \<Rightarrow> (store \<Rightarrow> store \<times> (store_err + 'a)) \<Rightarrow> 'w sv \<times> (pberr + 'a)" where
  "svStore y f = (case f (m_store (sy_mgr y)) of
      (s, Inl e) \<Rightarrow> (y\<lparr>sy_mgr := (sy_mgr y)\<lparr>m_store := s\<rparr>\<rparr>, Inl (PStore e))
    | (s, Inr x) \<Rightarrow> (y\<lparr>sy_mgr := (sy_mgr y)\<lparr>m_store := s\<rparr>\<rparr>, Inr x))"

definition setWorld :: "'w \<Rightarrow> 'w sv \<Rightarrow> 'w sv" where
  "setWorld w y = y\<lparr>sy_mgr := (sy_mgr y)\<lparr>m_world := w\<rparr>\<rparr>"

definition newID :: "string \<Rightarrow> 'w sv \<Rightarrow> 'w sv \<times> (pberr + string)" where
  "newID pre y = (case sy_rand y of
      [] \<Rightarrow> (y, Inl PRand) | None # xs \<Rightarrow> (y\<lparr>sy_rand := xs\<rparr>, Inl PRand)
    | Some h # xs \<Rightarrow> (y\<lparr>sy_rand := xs\<rparr>, Inr (pre @ ''_'' @ h)))"

definition orSeverity :: "string \<Rightarrow> string" where
  "orSeverity s = (if s \<in> {''critical'', ''warning'', ''info''} then s else ''warning'')"

definition svBegin :: "string \<Rightarrow> 'w sv \<Rightarrow> 'w sv \<times> bool" where
  "svBegin i y = (if i \<in> set (sy_preparing y) then (y, False) else (y\<lparr>sy_preparing := i # sy_preparing y\<rparr>, True))"

definition svEnd :: "string \<Rightarrow> 'w sv \<Rightarrow> 'w sv" where
  "svEnd i y = y\<lparr>sy_preparing := filter (\<lambda>x. x \<noteq> i) (sy_preparing y)\<rparr>"

definition activeExecution :: "string \<Rightarrow> 'w sv \<Rightarrow> 'w sv \<times> (pberr + string option)" where
  "activeExecution i y =
     andThen (svStore y (\<lambda>s. ExecutionsForIncident s i)) (\<lambda>y es.
       (y, Inr (map_option re_ID (find (\<lambda>e. re_Status e \<noteq> RemediationDeclined) es))))"

definition svPropose :: "'w svc \<Rightarrow> time \<Rightarrow> string \<Rightarrow> Playbook \<Rightarrow> 'w sv \<Rightarrow> 'w sv \<times> (pberr + string)" where
  "svPropose d now incidentID pb y =
     andThen (newID ''exe'' y) (\<lambda>y execID.
     andThen (newID ''rb'' y) (\<lambda>y rbID.
       (case Propose (vc_deps d) now (sy_mgr y) execID incidentID
          (ToRunbook pb rbID incidentID (case vc_ServerID d of Some s \<Rightarrow> s | None \<Rightarrow> '''')) of
          (m, Inl e) \<Rightarrow> (y\<lparr>sy_mgr := m\<rparr>, Inl (PPropose e))
        | (m, Inr _) \<Rightarrow> (y\<lparr>sy_mgr := m\<rparr>, Inr execID))))"

definition gatherFacts :: "'w svc \<Rightarrow> IncidentBinding \<Rightarrow> 'w sv \<Rightarrow> 'w sv \<times> Facts" where
  "gatherFacts d b y =
     (case vc_Collect d (m_world (sy_mgr y)) \<lparr>tg_IncidentID = ib_IncidentID b, tg_MonitorKind = ib_MonitorKind b,
        tg_Target = ib_Target b, tg_Summary = ib_Summary b\<rparr> of (w, bundle) \<Rightarrow>
      (case vc_Inventory d w of (w, ivt, os) \<Rightarrow>
      (case (case vc_DiskMounts d of None \<Rightarrow> (w, []) | Some f \<Rightarrow> f w) of (w, mounts) \<Rightarrow>
        (setWorld w y, \<lparr>fa_Inventory = ivt, fa_Bundle = bundle, fa_Signatures = Some (Match bundle), fa_OS = os,
           fa_Target = ib_Target b, fa_DiskMounts = mounts\<rparr>))))"

definition fromCatalog :: "'w svc \<Rightarrow> Facts \<Rightarrow> 'w sv \<Rightarrow> 'w sv \<times> Playbook option" where
  "fromCatalog d f y =
     (case FromBundle f of None \<Rightarrow> (y, None)
      | Some pb \<Rightarrow> (case Check (vc_Validator d) (fa_Inventory f) (m_world (sy_mgr y)) pb of
            (w, Inl _) \<Rightarrow> (setWorld w y, None)
          | (w, Inr pb) \<Rightarrow> (setWorld w y, Some pb)))"

text \<open>A catalog playbook is preferred; a generated one is asked for on request or for a critical incident.\<close>

definition afterFacts :: "'w svc \<Rightarrow> time \<Rightarrow> IncidentBinding \<Rightarrow> bool \<Rightarrow> Facts \<Rightarrow> 'w sv \<Rightarrow> 'w sv \<times> (pberr + string)" where
  "afterFacts d now b u f y =
     (case fromCatalog d f y of
        (y, Some pb) \<Rightarrow> svPropose d now (ib_IncidentID b) pb y
      | (y, None) \<Rightarrow>
          if \<not> u \<and> ib_Severity b \<noteq> ''critical''
          then (y, Inl (PErr PlaybookNone ''No catalog playbook fits and the incident is not critical.'' []))
          else
            (case generate (d_sha (vc_deps d)) (vc_hmac d) (vc_Generator d) (vc_Validator d) (m_world (sy_mgr y)) (sy_wt y)
               \<lparr>ic_ID = ib_IncidentID b, ic_Kind = ib_MonitorKind b, ic_Target = ib_Target b,
                ic_Severity = orSeverity (ib_Severity b), ic_UserRequested = u\<rparr> f of
               (w, c, Inl e) \<Rightarrow> ((setWorld w y)\<lparr>sy_wt := c\<rparr>, Inl e)
             | (w, c, Inr pb) \<Rightarrow> svPropose d now (ib_IncidentID b) pb ((setWorld w y)\<lparr>sy_wt := c\<rparr>)))"

definition prepareBody :: "'w svc \<Rightarrow> time \<Rightarrow> IncidentBinding \<Rightarrow> bool \<Rightarrow> 'w sv \<Rightarrow> 'w sv \<times> (pberr + string)" where
  "prepareBody d now b u y =
     andThen (activeExecution (ib_IncidentID b) y) (\<lambda>y active.
       case active of Some i \<Rightarrow> (y, Inr i)
       | None \<Rightarrow> (case gatherFacts d b y of (y, f) \<Rightarrow> afterFacts d now b u f y))"

definition prepare :: "'w svc \<Rightarrow> time \<Rightarrow> IncidentBinding \<Rightarrow> bool \<Rightarrow> 'w sv \<Rightarrow> 'w sv \<times> (pberr + string)" where
  "prepare d now b userRequested y =
     (case svBegin (ib_IncidentID b) y of
        (y, False) \<Rightarrow> (y, Inl (PErr PlaybookUnavailable ''A playbook is already being prepared for this incident.'' []))
      | (y, True) \<Rightarrow> (case prepareBody d now b userRequested y of (y, r) \<Rightarrow> (svEnd (ib_IncidentID b) y, r)))"

definition svGenerate :: "'w svc \<Rightarrow> time \<Rightarrow> Request \<Rightarrow> 'w sv \<Rightarrow> 'w sv \<times> (pberr + string)" where
  "svGenerate d now req y =
     (if vc_MonitoringOn d = Some False then (y, Inl (PErr PlaybookUnavailable MsgTurnOnMonitoring []))
      else (case svStore y (\<lambda>s. GetIncidentBinding s (rq_IncidentID req)) of
          (y, Inr b) \<Rightarrow> prepare d now b True y
        | (y, Inl e) \<Rightarrow>
            if e \<noteq> PStore ErrNotFound then (y, Inl e)
            else if rq_MonitorKind req = ''''
            then (y, Inl (PErr PlaybookUnavailable ''This server has no details about that incident yet. Open it again in a minute.'' []))
            else prepare d now \<lparr>ib_IncidentID = rq_IncidentID req, ib_MonitorKind = rq_MonitorKind req,
                   ib_Target = rq_Target req, ib_Severity = rq_Severity req, ib_Summary = '''', ib_EventID = '''',
                   ib_CreatedAt = zeroTime\<rparr> True y))"

text \<open>\<open>IncidentOpened\<close>: the binding to prepare in the background, if this incident is new.\<close>

definition bindingOf :: "MonitorEvent \<Rightarrow> string \<Rightarrow> IncidentBinding" where
  "bindingOf ev incidentID =
     \<lparr>ib_IncidentID = incidentID, ib_MonitorKind = me_MonitorKind ev, ib_Target = me_Target ev,
      ib_Severity = me_Severity ev, ib_Summary = me_Summary ev, ib_EventID = me_EventID ev, ib_CreatedAt = zeroTime\<rparr>"

definition IncidentOpened :: "MonitorEvent \<Rightarrow> string \<Rightarrow> 'w sv \<Rightarrow> 'w sv \<times> IncidentBinding option" where
  "IncidentOpened ev incidentID y =
     (case svStore y (\<lambda>s. PutIncidentBinding s (bindingOf ev incidentID)) of
        (y, Inr True) \<Rightarrow> (y, Some (bindingOf ev incidentID))
      | (y, _) \<Rightarrow> (y, None))"

definition prepareOpened :: "'w svc \<Rightarrow> time \<Rightarrow> IncidentBinding \<Rightarrow> 'w sv \<Rightarrow> 'w sv" where
  "prepareOpened d now b y = fst (prepare d now b False y)"

end
