(* ===== verification/Playbook_Flow.thy ===== *)
theory Playbook_Flow
  imports Playbook_Theorems Playbook_Service Remediation_Theorems
begin

text \<open>
  Properties of how playbooks are asked for and proposed: what a request to the playbook service can
  hold, when one is sent at all, that asking again finds the execution that exists, that the mark of
  an incident being prepared is always taken back, and that only checked playbooks are proposed.
\<close>

section \<open>The request\<close>











section \<open>Preparing\<close>

text \<open>A component of the service that every part of a sequence keeps is kept by the sequence.\<close>

lemma andThen_frame:
  assumes "g (fst r) = g y" and "\<And>z x. g (fst (k z x)) = g z"
  shows "g (fst (andThen r k)) = g y"
  using assms by (cases r; cases "snd r") (auto simp: andThen_def)

lemmas keeps_preparing = andThen_frame [where g = sy_preparing]
lemmas keeps_wt = andThen_frame [where g = sy_wt]

named_theorems frame \<open>what a step of the service keeps\<close>

lemma sv_frames [frame]:
  "sy_preparing (fst (svStore y f)) = sy_preparing y" "sy_wt (fst (svStore y f)) = sy_wt y"
  "sy_preparing (fst (newID pre y)) = sy_preparing y" "sy_wt (fst (newID pre y)) = sy_wt y"
  "sy_preparing (setWorld w y) = sy_preparing y" "sy_wt (setWorld w y) = sy_wt y"
  by (auto simp: svStore_def newID_def setWorld_def split: prod.split sum.split list.split option.split)

lemma activeExecution_frames [frame]:
  "sy_preparing (fst (activeExecution i y)) = sy_preparing y" "sy_wt (fst (activeExecution i y)) = sy_wt y"
  unfolding activeExecution_def by (rule keeps_preparing keeps_wt, simp_all add: frame)+

lemma svPropose_frames [frame]:
  "sy_preparing (fst (svPropose d now i pb y)) = sy_preparing y" "sy_wt (fst (svPropose d now i pb y)) = sy_wt y"
  unfolding svPropose_def
  by (intro keeps_preparing; simp add: frame split: prod.split sum.split)
    (intro keeps_wt; simp add: frame split: prod.split sum.split)

lemma gatherFacts_frames [frame]:
  "sy_preparing (fst (gatherFacts d b y)) = sy_preparing y" "sy_wt (fst (gatherFacts d b y)) = sy_wt y"
  by (simp_all add: gatherFacts_def sv_frames split: prod.split)

lemma fromCatalog_frames [frame]:
  "sy_preparing (fst (fromCatalog d f y)) = sy_preparing y" "sy_wt (fst (fromCatalog d f y)) = sy_wt y"
  by (simp_all add: fromCatalog_def sv_frames split: prod.split sum.split option.split)

lemma prepareBody_eq:
  "prepareBody d now b u y =
     andThen (activeExecution (ib_IncidentID b) y) (\<lambda>y active.
       case active of Some i \<Rightarrow> (y, Inr i) | None \<Rightarrow> afterFacts d now b u (snd (gatherFacts d b y)) (fst (gatherFacts d b y)))"
  unfolding prepareBody_def by (simp only: case_prod_unfold)

lemma afterFacts_preparing [frame]: "sy_preparing (fst (afterFacts d now b u f y)) = sy_preparing y"
proof -
  obtain z o' where z: "fromCatalog d f y = (z, o')" by fastforce
  then have "sy_preparing z = sy_preparing y" using fromCatalog_frames(1) [of d f y] by simp
  then show ?thesis by (cases o') (simp_all add: afterFacts_def z frame split: prod.split sum.split)
qed

lemma afterFacts_wt [frame]:
  assumes "ib_Severity b \<noteq> ''critical''"
  shows "sy_wt (fst (afterFacts d now b False f y)) = sy_wt y"
proof -
  obtain z o' where z: "fromCatalog d f y = (z, o')" by fastforce
  then have "sy_wt z = sy_wt y" using fromCatalog_frames(2) [of d f y] by simp
  then show ?thesis by (cases o') (simp_all add: afterFacts_def z frame assms)
qed

lemma prepareBody_preparing [frame]: "sy_preparing (fst (prepareBody d now b u y)) = sy_preparing y"
  unfolding prepareBody_eq by (rule keeps_preparing) (simp_all add: frame split: option.split)

lemma prepareBody_wt:
  "ib_Severity b \<noteq> ''critical'' \<Longrightarrow> sy_wt (fst (prepareBody d now b False y)) = sy_wt y"
  unfolding prepareBody_eq by (rule keeps_wt) (simp_all add: frame split: option.split)

lemma prepare_eq:
  "prepare d now b u y =
     (if ib_IncidentID b \<in> set (sy_preparing y)
      then (y, Inl (PErr PlaybookUnavailable ''A playbook is already being prepared for this incident.'' []))
      else let r = prepareBody d now b u (y\<lparr>sy_preparing := ib_IncidentID b # sy_preparing y\<rparr>) in
           (svEnd (ib_IncidentID b) (fst r), snd r))"
  by (simp add: prepare_def svBegin_def case_prod_unfold Let_def)

text \<open>
  The mark that an incident is being prepared is always taken back: whatever happens while a playbook is
  prepared, afterwards exactly the incidents that were being prepared before are being prepared, so no
  incident stays locked.
\<close>

theorem prepare_unlocks: "sy_preparing (fst (prepare d now b u y)) = sy_preparing y"
  by (auto simp: prepare_eq Let_def svEnd_def frame filter_id_conv)

text \<open>
  C18. Nothing is asked of the playbook service behind the user's back: preparing in the background for an incident
  that is not critical leaves the relay client as it was, and with monitoring off an explicit request
  leaves the whole service as it was and says so.
\<close>

theorem no_unasked_request:
  "(ib_Severity b \<noteq> ''critical'' \<longrightarrow> sy_wt (prepareOpened d now b y) = sy_wt y) \<and>
   (vc_MonitoringOn d = Some False \<longrightarrow>
     svGenerate d now req y = (y, Inl (PErr PlaybookUnavailable MsgTurnOnMonitoring [])))"
  by (simp add: prepareOpened_def prepare_eq Let_def svEnd_def prepareBody_wt svGenerate_def)

text \<open>
  Asking again does not ask twice: when an execution of the incident exists that was not declined,
  preparing returns the id of such an execution and changes nothing, neither the store nor the relay client
  nor the server.
\<close>

theorem asking_again_returns_execution:
  assumes "faults (m_store (sy_mgr y)) = []" and "ib_IncidentID b \<notin> set (sy_preparing y)"
    and "e \<in> set (executions (m_store (sy_mgr y)))" and "re_IncidentID e = ib_IncidentID b"
    and "re_Kind e = RemediationKindExecute" and "re_Status e \<noteq> RemediationDeclined"
  shows "\<exists>x \<in> set (executions (m_store (sy_mgr y))). prepare d now b u y = (y, Inr (re_ID x)) \<and>
    re_IncidentID x = ib_IncidentID b \<and> re_Status x \<noteq> RemediationDeclined"
proof -
  let ?y = "y\<lparr>sy_preparing := ib_IncidentID b # sy_preparing y\<rparr>"
  define es where "es = rev (sort_key (\<lambda>e. re_CreatedAt e) (sort_key (\<lambda>e. re_ID e)
    (filter (\<lambda>e. re_IncidentID e = ib_IncidentID b \<and> re_Kind e = RemediationKindExecute) (executions (m_store (sy_mgr y))))))"
  have "e \<in> set es" using assms by (simp add: es_def)
  then obtain x where x: "find (\<lambda>e. re_Status e \<noteq> RemediationDeclined) es = Some x"
    using assms(6) by (cases "find (\<lambda>e. re_Status e \<noteq> RemediationDeclined) es") (auto simp: find_None_iff)
  then have m: "x \<in> set es" "re_Status x \<noteq> RemediationDeclined" by (auto simp: find_Some_iff)
  have "activeExecution (ib_IncidentID b) ?y = (?y, Inr (Some (re_ID x)))"
    using x assms(1) by (simp add: activeExecution_def svStore_def ExecutionsForIncident_def es_def [symmetric])
  then have "prepareBody d now b u ?y = (?y, Inr (re_ID x))" by (simp add: prepareBody_eq)
  moreover have "svEnd (ib_IncidentID b) ?y = y" using assms(2) by (cases y) (auto simp: svEnd_def filter_id_conv)
  ultimately show ?thesis using assms(2) m by (auto simp: prepare_eq es_def)
qed

section \<open>Only checked playbooks are proposed\<close>

lemma svPropose_execution:
  assumes "svPropose d now inc pb y = (y', Inr i)"
  shows "\<exists>x rbID. executionOf (sy_mgr y') i = Some x \<and> re_IncidentID x = inc \<and>
    re_RunbookHash x = ContentHash (d_sha (vc_deps d))
      (ToRunbook pb rbID inc (case vc_ServerID d of Some s \<Rightarrow> s | None \<Rightarrow> ''''))"
proof -
  let ?rb = "\<lambda>rbID. ToRunbook pb rbID inc (case vc_ServerID d of Some s \<Rightarrow> s | None \<Rightarrow> '''')"
  obtain m0 rbID m e where p: "Propose (vc_deps d) now m0 i inc (?rb rbID) = (m, Inr e)" and y': "sy_mgr y' = m"
    using assms unfolding svPropose_def andThen_def by (auto split: prod.splits sum.splits)
  from propose_fields [OF p [unfolded Propose_def]] show ?thesis by (auto simp: y')
qed

lemma generate_checked:
  "generate sha hmac g v w c inc f = (w', c', Inr pb) \<Longrightarrow> list_all (wellFormed (fa_Inventory f)) (pb_Steps pb)"
  by (auto simp: generate_def Check_Inr dest: checkSteps_sound split: if_splits prod.splits sum.splits)

lemma fromCatalog_checked:
  "fromCatalog d f y = (y', Some pb) \<Longrightarrow> list_all (wellFormed (fa_Inventory f)) (pb_Steps pb)"
  by (auto simp: fromCatalog_def Check_Inr dest: checkSteps_sound split: prod.splits sum.splits option.splits)

lemma afterFacts_proposes:
  assumes "afterFacts d now b u f y = (y', Inr i)"
  shows "\<exists>z pb. svPropose d now (ib_IncidentID b) pb z = (y', Inr i) \<and> list_all (wellFormed (fa_Inventory f)) (pb_Steps pb)"
proof -
  obtain z o' where z: "fromCatalog d f y = (z, o')" by fastforce
  show ?thesis
  proof (cases o')
    case (Some pb)
    then show ?thesis using assms z fromCatalog_checked [of d f y z pb] by (auto simp: afterFacts_def)
  next
    case None
    with assms z show ?thesis
      by (auto simp: afterFacts_def split: if_splits prod.splits sum.splits dest: generate_checked)
  qed
qed

text \<open>
  C15. Only checked playbooks are proposed: when preparing succeeds, either an execution that was already there is
  returned, or a new one is recorded for this incident whose runbook is made from a playbook all of whose
  steps are well-formed steps on the inventory that was read for it, however the playbook service
  answered; the execution carries the content hash of exactly that runbook.
\<close>

theorem proposed_playbooks_are_checked:
  assumes "prepare d now b u y = (y', Inr i)"
    and "snd (activeExecution (ib_IncidentID b) (y\<lparr>sy_preparing := ib_IncidentID b # sy_preparing y\<rparr>)) = Inr None"
  shows "\<exists>z pb rbID x. list_all (wellFormed (fa_Inventory (snd (gatherFacts d b z)))) (pb_Steps pb) \<and>
    executionOf (sy_mgr y') i = Some x \<and> re_IncidentID x = ib_IncidentID b \<and>
    re_RunbookHash x = ContentHash (d_sha (vc_deps d))
      (ToRunbook pb rbID (ib_IncidentID b) (case vc_ServerID d of Some s \<Rightarrow> s | None \<Rightarrow> ''''))"
proof -
  let ?y = "y\<lparr>sy_preparing := ib_IncidentID b # sy_preparing y\<rparr>"
  obtain y1 where y1: "activeExecution (ib_IncidentID b) ?y = (y1, Inr None)"
    using assms(2) by (metis prod.collapse)
  obtain y2 where b: "prepareBody d now b u ?y = (y2, Inr i)" and y': "y' = svEnd (ib_IncidentID b) y2"
    using assms(1) by (auto simp: prepare_eq Let_def split: if_splits) (metis prod.collapse)
  have "afterFacts d now b u (snd (gatherFacts d b y1)) (fst (gatherFacts d b y1)) = (y2, Inr i)"
    using b by (simp add: prepareBody_eq y1)
  from afterFacts_proposes [OF this] obtain z pb where
    s: "svPropose d now (ib_IncidentID b) pb z = (y2, Inr i)"
    and w: "list_all (wellFormed (fa_Inventory (snd (gatherFacts d b y1)))) (pb_Steps pb)" by blast
  have "sy_mgr y' = sy_mgr y2" by (simp add: y' svEnd_def)
  with svPropose_execution [OF s] w show ?thesis by auto
qed

section \<open>A server with a failed unit and an unreachable playbook service\<close>

definition exBundle :: Bundle where
  "exBundle = (fa_Bundle exFacts)\<lparr>bd_Components := [\<lparr>cp_ID = ''c1'', cp_Kind = ''systemd_unit'', cp_Name = ''nginx.service'',
     cp_State = ''failed'', cp_Health = '''', cp_Detail = '''', cp_Owner = '''', cp_ComposeProject = '''', cp_ComposeService = ''''\<rparr>]\<rparr>"

definition exService :: "nat svc" where
  "exService = \<lparr>vc_deps = demoDeps,
     vc_Generator = \<lparr>ge_Client = True, ge_Redactor = \<lparr>rd_rules = [], rd_userPatterns = []\<rparr>, ge_Hostnames = [],
       ge_parseAddr = (\<lambda>_. None)\<rparr>,
     vc_Validator = None, vc_Collect = (\<lambda>w _. (w, exBundle)), vc_Inventory = (\<lambda>w. (w, exInventory, fa_OS exFacts)),
     vc_DiskMounts = None, vc_ServerID = Some ''srv'', vc_MonitoringOn = Some False, vc_hmac = (\<lambda>k s. k)\<rparr>"

definition exState :: "nat sv" where
  "exState = \<lparr>sy_mgr = demo0, sy_wt = demoClient, sy_preparing = [''other''], sy_rand = [Some ''01'', Some ''02'']\<rparr>"

definition exBinding :: IncidentBinding where
  "exBinding = \<lparr>ib_IncidentID = ''inc1'', ib_MonitorKind = ''systemd_unit'', ib_Target = ''nginx.service'',
     ib_Severity = ''warning'', ib_Summary = '''', ib_EventID = ''ev'', ib_CreatedAt = 0\<rparr>"

definition exPrepared :: "nat sv" where
  "exPrepared = fst (prepare exService second exBinding False exState)"

theorem no_unasked_request_witness:
  "sy_wt (prepareOpened exService second exBinding exState) = demoClient \<and>
   svGenerate exService second \<lparr>rq_IncidentID = ''inc1'', rq_MonitorKind = '''', rq_Target = '''', rq_Severity = ''''\<rparr> exState =
     (exState, Inl (PErr PlaybookUnavailable MsgTurnOnMonitoring []))"
  using no_unasked_request [of exBinding exService second exState
      "\<lparr>rq_IncidentID = ''inc1'', rq_MonitorKind = '''', rq_Target = '''', rq_Severity = ''''\<rparr>"]
  by (simp add: exBinding_def exState_def) (simp add: exService_def)

lemma exState_run:
  "case prepare exService second exBinding False exState of (s, r) \<Rightarrow>
     r = Inr ''exe_01'' \<and> faults (m_store (sy_mgr s)) = [] \<and> sy_preparing s = [''other''] \<and>
     map (\<lambda>e. (re_ID e, re_IncidentID e, re_Kind e, re_Status e)) (executions (m_store (sy_mgr s))) =
       [(''exe_01'', ''inc1'', RemediationKindExecute, RemediationProposed)]"
  by code_simp

lemma exPrepared_facts:
  "prepare exService second exBinding False exState = (exPrepared, Inr ''exe_01'')"
  "faults (m_store (sy_mgr exPrepared)) = []" "sy_preparing exPrepared = [''other'']"
  "map (\<lambda>e. (re_ID e, re_IncidentID e, re_Kind e, re_Status e)) (executions (m_store (sy_mgr exPrepared))) =
     [(''exe_01'', ''inc1'', RemediationKindExecute, RemediationProposed)]"
  using exState_run by (simp_all add: exPrepared_def case_prod_unfold prod_eq_iff)

theorem asking_again_returns_execution_witness:
  "prepare exService 9 exBinding True exPrepared = (exPrepared, Inr ''exe_01'')"
proof -
  obtain e where e: "executions (m_store (sy_mgr exPrepared)) = [e]" and
    f: "re_ID e = ''exe_01''" "re_IncidentID e = ''inc1''" "re_Kind e = RemediationKindExecute" "re_Status e = RemediationProposed"
    using exPrepared_facts(4) by auto
  show ?thesis
    using asking_again_returns_execution [OF exPrepared_facts(2), of exBinding e exService 9 True] e f exPrepared_facts(3)
    by (simp add: exBinding_def RemediationProposed_def RemediationDeclined_def)
qed

theorem proposed_playbooks_are_checked_witness:
  "\<exists>z pb rbID x. list_all (wellFormed (fa_Inventory (snd (gatherFacts exService exBinding z)))) (pb_Steps pb) \<and>
    executionOf (sy_mgr exPrepared) ''exe_01'' = Some x \<and> re_IncidentID x = ''inc1'' \<and>
    re_RunbookHash x = ContentHash (d_sha demoDeps) (ToRunbook pb rbID ''inc1'' ''srv'')"
proof -
  have "snd (activeExecution (ib_IncidentID exBinding) (exState\<lparr>sy_preparing := ib_IncidentID exBinding # sy_preparing exState\<rparr>)) = Inr None"
    by code_simp
  moreover have "vc_deps exService = demoDeps" "vc_ServerID exService = Some ''srv''"
    by (simp_all add: exService_def)
  ultimately show ?thesis using proposed_playbooks_are_checked [OF exPrepared_facts(1)] by (simp add: exBinding_def)
qed

end
