(* ===== verification/Monitor_Checks.thy ===== *)
theory Monitor_Checks
  imports Monitor_Manager Go_Text
begin

text \<open>
  The evaluators of host-wide and container monitors: \<^verbatim>\<open>internal/monitor/{evaluators,checks}.go\<close>, the parameters of
  definitions (\<^verbatim>\<open>params.go\<close>) and \<open>IgnoredForFailureAlerts\<close> of \<^verbatim>\<open>internal/systemd/systemd.go\<close>. In one evaluation every query
  of a source is asked at most once, so a \<open>Tick\<close> holds the answers as functions of the query; what an evaluator
  remembers between ticks is passed explicitly. \<open>float64\<close> values are rationals; an error is its text.
\<close>

section \<open>Durations and numbers\<close>

definition minute :: duration where "minute = 60 * second"
definition hour :: duration where "hour = 60 * minute"

definition seconds :: "duration \<Rightarrow> rat" where "seconds d = of_int d / of_int second"

definition formatF2 :: "rat \<Rightarrow> string" where
  "formatF2 q = signed q (\<lambda>q. let n = roundEven (q * 100) in
     Itoa (n div 100) @ ''.'' @ Itoa (n div 10 mod 10) @ Itoa (n mod 10))"

text \<open>\<open>Duration.String\<close>: a fraction without its trailing zeros, the largest unit that fits.\<close>

definition padZeros :: "nat \<Rightarrow> string \<Rightarrow> string" where
  "padZeros n s = replicate (n - length s) (CHR ''0'') @ s"

definition fraction :: "nat \<Rightarrow> int \<Rightarrow> string" where
  "fraction p u =
     (let digits = TrimRight (padZeros p (Itoa (u mod 10 ^ p))) ''0'' in
      Itoa (u div 10 ^ p) @ (if digits = '''' then '''' else ''.'' @ digits))"

definition durationString :: "duration \<Rightarrow> string" where
  "durationString d =
     (let u = \<bar>d\<bar>; secs = u div second in
      (if d < 0 then ''-'' else '''') @
      (if u = 0 then ''0s''
       else if u < 1000 then Itoa u @ ''ns''
       else if u < 1000000 then fraction 3 u @ [CHR 0xC2, CHR 0xB5, CHR ''s'']
       else if u < second then fraction 6 u @ ''ms''
       else (if secs \<ge> 3600 then Itoa (secs div 3600) @ ''h'' else '''') @
            (if secs \<ge> 60 then Itoa (secs div 60 mod 60) @ ''m'' else '''') @
            fraction 9 (secs mod 60 * second + u mod second) @ ''s''))"

definition maxDuration :: duration where "maxDuration = 2 ^ 63 - 1"
definition minDuration :: duration where "minDuration = - (2 ^ 63)"

definition roundDuration :: "duration \<Rightarrow> duration \<Rightarrow> duration" where
  "roundDuration d m =
     (if m \<le> 0 then d
      else let r = \<bar>d\<bar> mod m in
        if d < 0 then (if r + r < m then d + r else max minDuration (d - m + r))
        else (if r + r < m then d - r else min maxDuration (d + m - r)))"

text \<open>\<open>strconv.ParseFloat\<close> on decimal numbers with an optional exponent; the special words and hexadecimal forms are not numbers here.\<close>

definition exponentOf :: "string \<Rightarrow> int option" where
  "exponentOf s =
     (case s of [] \<Rightarrow> Some 0
      | e # t \<Rightarrow> if ToLowerC e \<noteq> CHR ''e'' then None
          else (case (if t \<noteq> [] \<and> hd t \<in> set ''+-'' then (hd t = CHR ''-'', tl t) else (False, t)) of (neg, ds) \<Rightarrow>
            if ds = [] \<or> \<not> list_all isDigit ds then None
            else Some (if neg then - int (decVal ds) else int (decVal ds))))"

text \<open>The digits before and after the point, and what follows.\<close>

definition splitNumber :: "string \<Rightarrow> string \<times> string \<times> string" where
  "splitNumber s =
     (let r = dropWhile isDigit s in
      if r \<noteq> [] \<and> hd r = CHR ''.'' then (takeWhile isDigit s, takeWhile isDigit (tl r), dropWhile isDigit (tl r))
      else (takeWhile isDigit s, [], r))"

lemma splitNumber_rest: "length (snd (snd (splitNumber s))) \<le> length s"
  using length_dropWhile_le [of isDigit s] length_dropWhile_le [of isDigit "tl (dropWhile isDigit s)"]
  by (auto simp: splitNumber_def Let_def)

definition unsignedFloat :: "string \<Rightarrow> rat option" where
  "unsignedFloat s =
     (case splitNumber s of (w, fr, r) \<Rightarrow>
      if w = [] \<and> fr = [] then None
      else (case exponentOf r of None \<Rightarrow> None
        | Some e \<Rightarrow> (let v = of_nat (decVal (w @ fr)) / 10 ^ length fr in
            Some (if e < 0 then v / 10 ^ nat (- e) else v * 10 ^ nat e))))"

definition ParseFloat :: "string \<Rightarrow> rat option" where
  "ParseFloat s =
     (case s of [] \<Rightarrow> None
      | c # t \<Rightarrow> if c = CHR ''-'' then map_option uminus (unsignedFloat t)
          else if c = CHR ''+'' then unsignedFloat t else unsignedFloat s)"

text \<open>\<open>time.ParseDuration\<close>: a sign and numbers with units; a value above \<open>2 ^ 63\<close> is an error.\<close>

definition unitMap :: "(string \<times> int) list" where
  "unitMap = [(''ns'', 1), (''us'', 1000), ([CHR 0xC2, CHR 0xB5, CHR ''s''], 1000), ([CHR 0xCE, CHR 0xBC, CHR ''s''], 1000),
     (''ms'', 1000000), (''s'', second), (''m'', minute), (''h'', hour)]"

definition numberC :: "char \<Rightarrow> bool" where
  "numberC c \<longleftrightarrow> isDigit c \<or> c = CHR ''.''"

definition durationPart :: "string \<Rightarrow> (int \<times> string) option" where
  "durationPart s =
     (case splitNumber s of (w, fr, r) \<Rightarrow>
      (let n = int (decVal w); u = takeWhile (\<lambda>c. \<not> numberC c) r; rest = dropWhile (\<lambda>c. \<not> numberC c) r in
       if w = [] \<and> fr = [] \<or> u = [] then None
       else (case map_of unitMap u of None \<Rightarrow> None
         | Some unit \<Rightarrow>
             if n > 2 ^ 63 div unit then None
             else (let v = n * unit + \<lfloor>(of_nat (decVal fr) * of_int unit / 10 ^ length fr :: rat)\<rfloor> in
               if v > 2 ^ 63 then None else Some (v, rest)))))"

lemma durationPart_shorter:
  assumes "durationPart s = Some (v, rest)"
  shows "length rest < length s"
proof -
  obtain w fr r where n: "splitNumber s = (w, fr, r)" by (cases "splitNumber s") auto
  let ?u = "takeWhile (\<lambda>c. \<not> numberC c) r"
  have u: "?u \<noteq> []" "rest = dropWhile (\<lambda>c. \<not> numberC c) r"
    using assms by (auto simp: durationPart_def n Let_def split: if_splits option.splits)
  have "length ?u + length rest = length r" unfolding u(2) by (metis length_append takeWhile_dropWhile_id)
  moreover have "length r \<le> length s" using splitNumber_rest [of s] by (simp add: n)
  moreover have "0 < length ?u" using u(1) by blast
  ultimately show ?thesis by linarith
qed

function durationParts :: "int \<Rightarrow> string \<Rightarrow> int option" where
  "durationParts acc s =
     (if s = [] then Some acc
      else (case durationPart s of None \<Rightarrow> None
        | Some (v, rest) \<Rightarrow> if acc + v > 2 ^ 63 then None else durationParts (acc + v) rest))"
  by pat_completeness auto
termination by (relation "measure (length \<circ> snd)") (auto dest: durationPart_shorter)

declare durationParts.simps [simp del]

definition ParseDuration :: "string \<Rightarrow> duration option" where
  "ParseDuration s0 =
     (let signed = s0 \<noteq> [] \<and> hd s0 \<in> set ''+-''; neg = signed \<and> hd s0 = CHR ''-''; s = (if signed then tl s0 else s0) in
      if s = ''0'' then Some 0 else if s = [] then None
      else (case durationParts 0 s of None \<Rightarrow> None
        | Some d \<Rightarrow> if neg then Some (- d) else if d > maxDuration then None else Some d))"

section \<open>Parameters (params.go)\<close>

definition defParam :: "Definition \<Rightarrow> string \<Rightarrow> string" where
  "defParam d k = TrimSpace (case map_of (md_Params d) k of Some v \<Rightarrow> v | None \<Rightarrow> '''')"

definition paramFloat :: "Definition \<Rightarrow> string \<Rightarrow> rat \<Rightarrow> rat" where
  "paramFloat d k dflt = (case ParseFloat (defParam d k) of Some v \<Rightarrow> if v \<le> 0 then dflt else v | None \<Rightarrow> dflt)"

definition paramInt :: "Definition \<Rightarrow> string \<Rightarrow> int \<Rightarrow> int" where
  "paramInt d k dflt = (case ParseInt 64 (defParam d k) of Some v \<Rightarrow> if v \<le> 0 then dflt else v | None \<Rightarrow> dflt)"

text \<open>The float conversion of the days to a duration drops the fraction of a nanosecond.\<close>

definition ParseAge :: "string \<Rightarrow> duration option" where
  "ParseAge s0 =
     (let s = TrimSpace s0 in
      if s = '''' then None
      else (case Index s ''d'' of
          None \<Rightarrow> ParseDuration s
        | Some i \<Rightarrow>
            (case ParseFloat (take i s) of None \<Rightarrow> None
             | Some days \<Rightarrow>
                 if days < 0 then None
                 else (let tot = Go_Text.truncate (days * of_int (24 * hour)); rest = drop (Suc i) s in
                   if rest = '''' then Some tot
                   else map_option (\<lambda>r. wrap64 (tot + r)) (ParseDuration rest)))))"

definition paramDuration :: "Definition \<Rightarrow> string \<Rightarrow> duration \<Rightarrow> duration" where
  "paramDuration d k dflt = (case ParseAge (defParam d k) of Some v \<Rightarrow> if v \<le> 0 then dflt else v | None \<Rightarrow> dflt)"

section \<open>What a tick reads\<close>

record Disk =
  di_Mountpoint :: string
  di_Available :: bool
  di_Percent :: rat
  di_InodePercent :: rat
  di_TotalBytes :: nat
  di_UsedBytes :: nat
  di_AvailableBytes :: nat

text \<open>An unavailable collector is \<open>None\<close>; an unavailable swap reports zero percent, as in the code.\<close>

record HostSample =
  hs_CPU :: "rat option"
  hs_Load5 :: "rat option"
  hs_Memory :: "rat option"
  hs_Swap :: rat
  hs_Disks :: "Disk list"

record Container =
  ct_ID :: string
  ct_Name :: string
  ct_State :: string
  ct_Health :: string

record Inspect =
  cn_RestartCount :: int
  cn_ExitCode :: int
  cn_OOMKilled :: bool
  cn_RestartPolicy :: string

definition noInspect :: Inspect where
  "noInspect = \<lparr>cn_RestartCount = 0, cn_ExitCode = 0, cn_OOMKilled = False, cn_RestartPolicy = ''''\<rparr>"

record Unit =
  un_Name :: string
  un_ActiveState :: string
  un_SubState :: string
  un_Type :: string

record Tick =
  tk_now :: time
  tk_defs :: DefinitionSet
  tk_held :: "Kind \<Rightarrow> string \<Rightarrow> bool"
  tk_Sample :: HostSample
  tk_OOMEvents :: "time \<Rightarrow> string + (string \<times> string) list"
  tk_Cores :: int
  tk_Containers :: "string + Container list"
  tk_Container :: "string \<Rightarrow> string + Inspect"
  tk_Systemd :: bool
  tk_Units :: "string + Unit list"
  tk_ReadFrom :: "string \<Rightarrow> int \<Rightarrow> int \<Rightarrow> string + (string \<times> int)"
  tk_Run :: "string list \<Rightarrow> string + string"
  tk_compile :: "string \<Rightarrow> (string \<Rightarrow> bool) option"

definition resolveAt :: "('a Tick_scheme) \<Rightarrow> Kind \<Rightarrow> string \<Rightarrow> Definition option" where
  "resolveAt t kind target = (case Resolve (tk_defs t) kind target of (d, e) \<Rightarrow> if e then Some d else None)"

definition hold :: "string \<Rightarrow> Observation" where
  "hold target = \<lparr>ob_Target = target, ob_Failing = False, ob_Severity = '''', ob_Summary = '''', ob_Attributes = [], ob_Hold = True\<rparr>"

definition observe :: "string \<Rightarrow> bool \<Rightarrow> string \<Rightarrow> string \<Rightarrow> (string \<times> string) list \<Rightarrow> Observation" where
  "observe target failing severity summary attrs =
     \<lparr>ob_Target = target, ob_Failing = failing, ob_Severity = severity, ob_Summary = summary, ob_Attributes = attrs, ob_Hold = False\<rparr>"

definition valueAttrs :: "rat \<Rightarrow> rat \<Rightarrow> string \<Rightarrow> (string \<times> string) list" where
  "valueAttrs observed threshold unit =
     [(''observed'', formatF1 observed), (''threshold'', formatF1 threshold), (''unit'', unit)]"

definition severityOr :: "Definition \<Rightarrow> string \<Rightarrow> string" where
  "severityOr d fallback = (if md_Severity d \<noteq> '''' then md_Severity d else fallback)"

section \<open>Thresholds, disks and memory (evaluators.go)\<close>

definition evalThreshold :: "rat \<Rightarrow> rat \<Rightarrow> rat \<Rightarrow> bool \<Rightarrow> bool" where
  "evalThreshold v firing recov inEp = (if inEp then v \<ge> recov else v \<ge> firing)"

definition addMounts :: "Disk list \<Rightarrow> string list \<Rightarrow> string list" where
  "addMounts ds targets =
     foldl (\<lambda>ts d. if di_Available d \<and> di_Mountpoint d \<notin> set ts then ts @ [di_Mountpoint d] else ts) targets ds"

text \<open>The last disk with a mount point wins, as in the map the code fills.\<close>

definition byMount :: "Disk list \<Rightarrow> string \<Rightarrow> Disk option" where
  "byMount ds m = find (\<lambda>d. di_Mountpoint d = m) (rev ds)"

definition diskObservation :: "('a Tick_scheme) \<Rightarrow> Kind \<Rightarrow> string \<Rightarrow> Definition \<Rightarrow> Observation" where
  "diskObservation t kind target def =
     (case byMount (hs_Disks (tk_Sample t)) target of None \<Rightarrow> hold target
      | Some d \<Rightarrow>
          if \<not> di_Available d then hold target
          else (let inode = (kind = KindInodeCapacity); v = (if inode then di_InodePercent d else di_Percent d);
                    label = (if inode then ''inodes'' else ''disk'') in
            observe target (evalThreshold v (md_FiringThreshold def) (md_RecoveryValue def) (tk_held t kind target))
              (md_Severity def)
              (label @ '' '' @ target @ '' at '' @ formatF0 v @ ''% (fires >='' @ formatF0 (md_FiringThreshold def) @ ''%)'')
              (valueAttrs v (md_FiringThreshold def) ''%'' @ [(''percent'', formatF1 v)])))"

definition observeAll :: "('a Tick_scheme) \<Rightarrow> Kind \<Rightarrow> (string \<Rightarrow> Definition \<Rightarrow> Observation) \<Rightarrow> string list \<Rightarrow> Observation list" where
  "observeAll t kind f targets =
     concat (map (\<lambda>g. case resolveAt t kind g of None \<Rightarrow> [] | Some d \<Rightarrow> [f g d]) targets)"

definition DiskEvaluate :: "Kind \<Rightarrow> ('a Tick_scheme) \<Rightarrow> string + Observation list" where
  "DiskEvaluate kind t =
     (let targets = Targets (tk_defs t) kind;
          all = (if kind = KindDiskCapacity then addMounts (hs_Disks (tk_Sample t)) targets else targets) in
      Inr (observeAll t kind (diskObservation t kind) all))"

definition oomWindow :: duration where "oomWindow = 5 * minute"

definition memoryAttrs :: "rat \<Rightarrow> rat \<Rightarrow> rat \<Rightarrow> Definition \<Rightarrow> (string \<times> string) list" where
  "memoryAttrs v mem swap def = valueAttrs v (md_FiringThreshold def) ''%'' @
     [(''percent'', formatF1 v), (''memory_percent'', formatF1 mem), (''swap_percent'', formatF1 swap)]"

definition MemoryEvaluate :: "('a Tick_scheme) \<Rightarrow> string + Observation list" where
  "MemoryEvaluate t =
     (case resolveAt t KindMemoryPressure '''' of None \<Rightarrow> Inr []
      | Some def \<Rightarrow>
          (case hs_Memory (tk_Sample t) of None \<Rightarrow> Inr [hold '''']
           | Some mem \<Rightarrow>
               (let swap = hs_Swap (tk_Sample t); v = max mem swap;
                    failing = evalThreshold v (md_FiringThreshold def) (md_RecoveryValue def) (tk_held t KindMemoryPressure '''');
                    pre = ''memory '' @ formatF0 mem @ ''%, swap '' @ formatF0 swap @ ''%'' in
                case tk_OOMEvents t (tk_now t - oomWindow) of
                  Inl e \<Rightarrow> Inl (''monitor: memory_pressure: OOMEvents: '' @ e)
                | Inr [] \<Rightarrow> Inr [observe '''' failing (md_Severity def)
                    (pre @ '' (fires >='' @ formatF0 (md_FiringThreshold def) @ ''%)'') (memoryAttrs v mem swap def)]
                | Inr es \<Rightarrow> (case last es of (proc, cont) \<Rightarrow>
                    Inr [observe '''' True (md_Severity def) (pre @ ''; OOM kill in last '' @ durationString oomWindow)
                      (memoryAttrs v mem swap def @ (if proc \<noteq> '''' then [(''oomProcess'', proc)] else []) @
                       (if cont \<noteq> '''' then [(''oomContainer'', cont)] else []))]))))"

section \<open>Containers\<close>

definition crashLoopWindow :: duration where "crashLoopWindow = 5 * minute"
definition crashLoopRestarts :: nat where "crashLoopRestarts = 3"
definition exitSigterm :: int where "exitSigterm = 143"
definition exitSigkill :: int where "exitSigkill = 137"

record restartTrack =
  rt_lastCount :: int
  rt_increases :: "time list"

record DockerState =
  dk_restarts :: "(string \<times> restartTrack) list"
  dk_ran :: "string list"

definition containerDown :: "string \<Rightarrow> Inspect \<Rightarrow> bool \<Rightarrow> bool" where
  "containerDown state d ranBefore =
     (let s = ToLower state in
      if s \<in> {''running'', ''created'', ''paused''} then False
      else if s = ''restarting'' then True
      else if cn_OOMKilled d then True
      else if cn_ExitCode d \<in> {0, exitSigterm, exitSigkill} then False
      else ranBefore \<or> cn_RestartPolicy d \<in> {''always'', ''unless-stopped'', ''on-failure''})"

definition trackRestarts :: "restartTrack \<Rightarrow> int \<Rightarrow> time \<Rightarrow> restartTrack" where
  "trackRestarts tr count now =
     (let delta = count - rt_lastCount tr;
          tr1 = (if delta > 0 then tr\<lparr>rt_increases := rt_increases tr @ replicate (nat delta) now, rt_lastCount := count\<rparr> else tr) in
      tr1\<lparr>rt_increases := filter (\<lambda>x. x > now - crashLoopWindow) (rt_increases tr1)\<rparr>)"

definition trackCrashLoop :: "DockerState \<Rightarrow> string \<Rightarrow> int \<Rightarrow> time \<Rightarrow> DockerState \<times> bool" where
  "trackCrashLoop st i count now =
     (let tr0 = (case map_of (dk_restarts st) i of Some tr \<Rightarrow> tr | None \<Rightarrow> \<lparr>rt_lastCount = count, rt_increases = []\<rparr>);
          tr = trackRestarts tr0 count now in
      (st\<lparr>dk_restarts := AList.update i tr (dk_restarts st)\<rparr>, length (rt_increases tr) \<ge> crashLoopRestarts))"

definition containerSummary :: "Container \<Rightarrow> Inspect \<Rightarrow> bool \<Rightarrow> bool \<Rightarrow> bool \<Rightarrow> string" where
  "containerSummary s detail crashLoop unhealthy down =
     (let n = ct_Name s in
      if crashLoop then n @ '' is crash-looping ('' @ Itoa (int crashLoopRestarts) @ '' restarts/'' @ durationString crashLoopWindow @ '')''
      else if unhealthy then n @ '' is unhealthy''
      else if down \<and> cn_OOMKilled detail then n @ '' was OOM-killed ('' @ ct_State s @ '')''
      else if down \<and> \<not> EqualFold (ct_State s) ''running'' \<and> \<not> EqualFold (ct_State s) ''restarting''
      then n @ '' exited with code '' @ Itoa (cn_ExitCode detail)
      else n @ '' is '' @ ct_State s)"

definition containerObserve :: "('a Tick_scheme) \<Rightarrow> DockerState \<Rightarrow> Container \<Rightarrow> Definition \<Rightarrow> DockerState \<times> Observation" where
  "containerObserve t st s def =
     (let running = EqualFold (ct_State s) ''running'';
          st = (if running \<and> ct_ID s \<notin> set (dk_ran st) then st\<lparr>dk_ran := ct_ID s # dk_ran st\<rparr> else st);
          answer = tk_Container t (ct_ID s) in
      if isl answer \<and> \<not> running \<and> \<not> EqualFold (ct_State s) ''restarting'' then (st, hold (ct_Name s))
      else
        let detail = (case answer of Inl _ \<Rightarrow> noInspect | Inr d \<Rightarrow> d) in
        (case trackCrashLoop st (ct_ID s) (cn_RestartCount detail) (tk_now t) of (st, crashLoop) \<Rightarrow>
          let unhealthy = EqualFold (ct_Health s) ''unhealthy'';
              down = containerDown (ct_State s) detail (ct_ID s \<in> set (dk_ran st)) in
          (st, observe (ct_Name s) (down \<or> unhealthy \<or> crashLoop) (md_Severity def)
             (containerSummary s detail crashLoop unhealthy down)
             [(''state'', ct_State s), (''health'', ct_Health s), (''restart_count'', Itoa (cn_RestartCount detail)),
              (''exit_code'', Itoa (cn_ExitCode detail)), (''restart_policy'', cn_RestartPolicy detail)])))"

fun containerObserves :: "('a Tick_scheme) \<Rightarrow> DockerState \<Rightarrow> Container list \<Rightarrow> DockerState \<times> Observation list" where
  "containerObserves t st [] = (st, [])"
| "containerObserves t st (s # ss) =
     (case resolveAt t KindDockerContainer (ct_Name s) of None \<Rightarrow> containerObserves t st ss
      | Some def \<Rightarrow> (case containerObserve t st s def of (st, ob) \<Rightarrow>
          (case containerObserves t st ss of (st, obs) \<Rightarrow> (st, ob # obs))))"

definition DockerEvaluate :: "('a Tick_scheme) \<Rightarrow> DockerState \<Rightarrow> DockerState \<times> (string + Observation list)" where
  "DockerEvaluate t st =
     (case tk_Containers t of Inl e \<Rightarrow> (st, Inl e)
      | Inr ss \<Rightarrow>
          (let seen = map ct_ID (filter (\<lambda>s. resolveAt t KindDockerContainer (ct_Name s) \<noteq> None) ss) in
           case containerObserves t st ss of (st, obs) \<Rightarrow>
             (\<lparr>dk_restarts = filter (\<lambda>(i, _). i \<in> set seen) (dk_restarts st), dk_ran = filter (\<lambda>i. i \<in> set seen) (dk_ran st)\<rparr>,
              Inr obs)))"

section \<open>Units\<close>

definition IgnoredForFailureAlerts :: "Unit \<Rightarrow> bool" where
  "IgnoredForFailureAlerts u \<longleftrightarrow> EqualFold (un_Type u) ''oneshot'' \<or>
     HasSuffix (ToLower (un_Name u)) ''.scope'' \<or> HasPrefix (ToLower (un_Name u)) ''run-''"

definition unitFailing :: "string list \<Rightarrow> Unit \<Rightarrow> bool" where
  "unitFailing named u \<longleftrightarrow> EqualFold (un_ActiveState u) ''failed'' \<or> EqualFold (un_SubState u) ''failed'' \<or>
     un_Name u \<in> set named \<and> EqualFold (un_ActiveState u) ''inactive''"

definition SystemdEvaluate :: "('a Tick_scheme) \<Rightarrow> string + Observation list" where
  "SystemdEvaluate t =
     (if \<not> tk_Systemd t then Inl ''monitor: collector unavailable''
      else (case tk_Units t of Inl e \<Rightarrow> Inl e
        | Inr us \<Rightarrow> Inr (concat (map (\<lambda>u. case resolveAt t KindSystemdUnit (un_Name u) of None \<Rightarrow> []
            | Some def \<Rightarrow> if IgnoredForFailureAlerts u then []
                else [observe (un_Name u) (unitFailing (Targets (tk_defs t) KindSystemdUnit) u) (md_Severity def)
                  (un_Name u @ '' is '' @ un_ActiveState u) [(''active_state'', un_ActiveState u)]]) us))))"

section \<open>CPU and load (checks.go)\<close>

definition defaultCPUFire :: rat where "defaultCPUFire = 95"
definition defaultCPURecover :: rat where "defaultCPURecover = 80"
definition defaultLoadFire :: rat where "defaultLoadFire = 2"
definition defaultLoadRecover :: rat where "defaultLoadRecover = 3 / 2"

definition CPUEvaluate :: "('a Tick_scheme) \<Rightarrow> string + Observation list" where
  "CPUEvaluate t =
     (case resolveAt t KindCPUPressure '''' of None \<Rightarrow> Inr []
      | Some def \<Rightarrow>
          (case hs_CPU (tk_Sample t) of None \<Rightarrow> Inr [hold '''']
           | Some p \<Rightarrow>
               (case thresholds def defaultCPUFire defaultCPURecover True of (fire, recov) \<Rightarrow>
                 Inr [observe '''' (evalThreshold p fire recov (tk_held t KindCPUPressure '''')) (severityOr def ''warning'')
                   (''CPU at '' @ formatF0 p @ ''% (fires >='' @ formatF0 fire @ ''%)'') (valueAttrs p fire ''%'')])))"

definition LoadEvaluate :: "('a Tick_scheme) \<Rightarrow> string + Observation list" where
  "LoadEvaluate t =
     (case resolveAt t KindLoadPerCore '''' of None \<Rightarrow> Inr []
      | Some def \<Rightarrow>
          (case hs_Load5 (tk_Sample t) of None \<Rightarrow> Inr [hold '''']
           | Some five \<Rightarrow>
               (let cores = max 1 (tk_Cores t); perCore = five / of_int cores in
                case thresholds def defaultLoadFire defaultLoadRecover True of (fire, recov) \<Rightarrow>
                 Inr [observe '''' (evalThreshold perCore fire recov (tk_held t KindLoadPerCore '''')) (severityOr def ''warning'')
                   (''5-min load '' @ formatF2 five @ '' on '' @ Itoa cores @ '' cores = '' @ formatF2 perCore @
                    '' per core (fires >='' @ formatF1 fire @ '')'')
                   (valueAttrs perCore fire ''x per core'' @ [(''load5'', formatF1 five), (''cores'', Itoa cores)])])))"

section \<open>Disk fill rate\<close>

definition defaultFillWarnHours :: rat where "defaultFillWarnHours = 24"
definition defaultFillRecoverHours :: rat where "defaultFillRecoverHours = 36"
definition defaultFillCriticalHours :: rat where "defaultFillCriticalHours = 4"
definition defaultFillMinWindow :: duration where "defaultFillMinWindow = 30 * minute"
definition fillSampleEvery :: duration where "fillSampleEvery = minute"
definition fillWindowMax :: duration where "fillWindowMax = 3 * hour"
definition fillMinR2 :: rat where "fillMinR2 = 6 / 10"
definition fillMinGrowthBytes :: rat where "fillMinGrowthBytes = 67108864"
definition fillMinGrowthFraction :: rat where "fillMinGrowthFraction = 2 / 1000"
definition fillResetDropFraction :: rat where "fillResetDropFraction = 2 / 100"

type_synonym fillSample = "time \<times> rat"

record fillWindow =
  fw_samples :: "fillSample list"
  fw_reset :: bool

fun dropOld :: "time \<Rightarrow> fillSample list \<Rightarrow> fillSample list" where
  "dropOld now [] = []"
| "dropOld now [s] = [s]"
| "dropOld now (s # ss) = (if TimeSub now (fst s) > fillWindowMax then dropOld now ss else s # ss)"

definition appendSample :: "time \<Rightarrow> rat \<Rightarrow> fillWindow \<Rightarrow> fillWindow" where
  "appendSample now used w = w\<lparr>fw_samples := dropOld now (fw_samples w @ [(now, used)])\<rparr>"

definition recordFill :: "fillWindow \<Rightarrow> Disk \<Rightarrow> time \<Rightarrow> fillWindow" where
  "recordFill w d now =
     (let used = of_nat (di_UsedBytes d) in
      if fw_samples w = [] then appendSample now used w
      else (case last (fw_samples w) of (t, u) \<Rightarrow>
        if u - used > fillResetDropFraction * of_nat (di_TotalBytes d)
        then appendSample now used (w\<lparr>fw_samples := [], fw_reset := True\<rparr>)
        else if TimeSub now t < fillSampleEvery then w
        else appendSample now used w))"

text \<open>The least-squares slope and the squared correlation, without the square root the code takes before it squares.\<close>

definition fitSlope :: "fillSample list \<Rightarrow> rat \<times> rat" where
  "fitSlope ss =
     (let t0 = fst (hd ss); n = of_nat (length ss);
          xs = map (\<lambda>s. seconds (TimeSub (fst s) t0)) ss; ys = map snd ss;
          sx = sum_list xs; sy = sum_list ys; sxx = sum_list (map (\<lambda>x. x * x) xs);
          sxy = sum_list (map (\<lambda>(x, y). x * y) (zip xs ys)); syy = sum_list (map (\<lambda>y. y * y) ys);
          den = n * sxx - sx * sx in
      if den = 0 then (0, 0)
      else let c = n * sxy - sx * sy; varY = n * syy - sy * sy in
        if varY \<le> 0 then (c / den, 0) else (c / den, c * c / (den * varY)))"

definition spanOf :: "fillSample list \<Rightarrow> duration" where
  "spanOf ss = (if length ss > 1 then TimeSub (fst (last ss)) (fst (hd ss)) else 0)"

text \<open>\<open>None\<close> when there is no sustained growth.\<close>

definition timeToFull :: "fillSample list \<Rightarrow> rat \<Rightarrow> rat \<Rightarrow> rat option" where
  "timeToFull ss avail tot =
     (if length ss < 4 then None
      else case fitSlope ss of (slope, r2) \<Rightarrow>
        if slope \<le> 0 \<or> r2 < fillMinR2 then None
        else if slope * seconds (spanOf ss) < max fillMinGrowthBytes (fillMinGrowthFraction * tot) then None
        else let mid = length ss div 2 in
          if fst (fitSlope (take (Suc mid) ss)) \<le> 0 then None
          else if fst (fitSlope (drop mid ss)) \<le> 0 then None
          else Some (avail / slope / 3600))"

definition humanHours :: "rat \<Rightarrow> string" where
  "humanHours h = (if h < 1 then formatF0 (h * 60) @ ''m'' else formatF1 h @ ''h'')"

definition trendObservation :: "('a Tick_scheme) \<Rightarrow> string \<Rightarrow> Definition \<Rightarrow> Disk \<Rightarrow> rat \<Rightarrow> Observation" where
  "trendObservation t target def d hours =
     (case thresholds def defaultFillWarnHours defaultFillRecoverHours False of (fire, recov) \<Rightarrow>
      (let failing = hours < (if tk_held t KindDiskFillRate target then recov else fire) in
       observe target failing
         (if failing \<and> hours < paramFloat def ''critical_hours'' defaultFillCriticalHours then ''critical'' else severityOr def ''warning'')
         (''disk '' @ target @ '' full in ~'' @ humanHours hours @ '' at current growth (alerts <'' @ formatF0 fire @ ''h)'')
         (valueAttrs hours fire ''hours'' @ [(''percent'', formatF1 (di_Percent d))])))"

definition minWindow :: "Definition \<Rightarrow> duration" where
  "minWindow def = Go_Text.truncate (paramFloat def ''min_window_minutes'' (of_int defaultFillMinWindow / of_int minute) * of_int minute)"

definition fillObservation :: "('a Tick_scheme) \<Rightarrow> string \<Rightarrow> Definition \<Rightarrow> Disk \<Rightarrow> fillWindow \<Rightarrow> fillWindow \<times> Observation" where
  "fillObservation t target def d w0 =
     (let w = recordFill w0 d (tk_now t) in
      if spanOf (fw_samples w) < minWindow def then
        (w, if fw_reset w
            then observe target False (severityOr def ''warning'') (''disk '' @ target @ '' usage dropped; fill-rate history restarted'') []
            else hold target)
      else
        let w = w\<lparr>fw_reset := False\<rparr> in
        (w, case timeToFull (fw_samples w) (of_nat (di_AvailableBytes d)) (of_nat (di_TotalBytes d)) of
            None \<Rightarrow> observe target False (severityOr def ''warning'') (''disk '' @ target @ '' has no sustained growth trend'') []
          | Some hours \<Rightarrow> trendObservation t target def d hours))"

type_synonym FillState = "(string \<times> fillWindow) list"

definition newWindow :: fillWindow where "newWindow = \<lparr>fw_samples = [], fw_reset = False\<rparr>"

fun fillTargets :: "('a Tick_scheme) \<Rightarrow> FillState \<Rightarrow> string list \<Rightarrow> FillState \<times> Observation list" where
  "fillTargets t st [] = (st, [])"
| "fillTargets t st (g # gs) =
     (case resolveAt t KindDiskFillRate g of None \<Rightarrow> fillTargets t st gs
      | Some def \<Rightarrow>
          (case (case byMount (hs_Disks (tk_Sample t)) g of None \<Rightarrow> (st, hold g)
             | Some d \<Rightarrow> if \<not> di_Available d \<or> di_TotalBytes d = 0 then (st, hold g)
                 else (case fillObservation t g def d (case map_of st g of Some w \<Rightarrow> w | None \<Rightarrow> newWindow) of
                         (w, ob) \<Rightarrow> (AList.update g w st, ob))) of
             (st, ob) \<Rightarrow> (case fillTargets t st gs of (st, obs) \<Rightarrow> (st, ob # obs))))"

definition DiskFillEvaluate :: "('a Tick_scheme) \<Rightarrow> FillState \<Rightarrow> FillState \<times> (string + Observation list)" where
  "DiskFillEvaluate t st = (case fillTargets t st (Targets (tk_defs t) KindDiskFillRate) of (st, obs) \<Rightarrow> (st, Inr obs))"

section \<open>Log error spikes\<close>

definition defaultLogPattern :: string where "defaultLogPattern = ''(?i)error|fatal|panic''"
definition defaultLogFire :: rat where "defaultLogFire = 50"
definition defaultLogMultiplier :: rat where "defaultLogMultiplier = 3"
definition logWindow :: duration where "logWindow = 5 * minute"
definition logReadEvery :: duration where "logReadEvery = minute"
definition logBaselineMin :: nat where "logBaselineMin = 3"
definition logBaselineMax :: nat where "logBaselineMax = 12"
definition logReadMaxBytes :: int where "logReadMaxBytes = 4194304"
definition logJournalMaxRow :: int where "logJournalMaxRow = 20000"

record logTrack =
  lt_lastRead :: time
  lt_boundary :: int
  lt_offset :: int
  lt_started :: bool
  lt_events :: "(time \<times> nat) list"
  lt_history :: "nat list"
  lt_lastHistory :: time

definition newLogTrack :: logTrack where
  "newLogTrack = \<lparr>lt_lastRead = zeroTime, lt_boundary = 0, lt_offset = 0, lt_started = False, lt_events = [],
     lt_history = [], lt_lastHistory = zeroTime\<rparr>"

definition countMatches :: "string \<Rightarrow> (string \<Rightarrow> bool) \<Rightarrow> nat" where
  "countMatches s re = length (filter (\<lambda>l. l \<noteq> '''' \<and> re l) (Split (CHR 0x0A) s))"

definition journalArgs :: "string \<Rightarrow> int \<Rightarrow> int \<Rightarrow> string list" where
  "journalArgs unit since till = [''journalctl'', ''-u'', unit, ''--no-pager'', ''-q'', ''-o'', ''cat'', ''--since'', ''@'' @ Itoa since,
     ''--until'', ''@'' @ Itoa till, ''-n'', Itoa logJournalMaxRow]"

definition readLog :: "('a Tick_scheme) \<Rightarrow> string \<Rightarrow> (string \<Rightarrow> bool) \<Rightarrow> logTrack \<Rightarrow> string + (logTrack \<times> nat)" where
  "readLog t target re tr =
     (if HasPrefix target ''/'' then
        (case tk_ReadFrom t target (lt_offset tr) (if lt_started tr then logReadMaxBytes else 0) of
           Inl e \<Rightarrow> Inl e
         | Inr (content, sz) \<Rightarrow> Inr (tr\<lparr>lt_offset := sz, lt_started := True\<rparr>, countMatches content re))
      else
        (let till = unixSec (tk_now t);
             since = (if lt_started tr then lt_boundary tr else till - 300) in
         case tk_Run t (journalArgs target since till) of
           Inl e \<Rightarrow> Inl e
         | Inr out \<Rightarrow> Inr (tr\<lparr>lt_boundary := till, lt_started := True\<rparr>, countMatches out re)))"

text \<open>Reading the log when a read is due; the events of the trailing window; the baseline.\<close>

definition pollLog :: "('a Tick_scheme) \<Rightarrow> string \<Rightarrow> (string \<Rightarrow> bool) \<Rightarrow> logTrack \<Rightarrow> string + logTrack" where
  "pollLog t target re tr =
     (if TimeSub (tk_now t) (lt_lastRead tr) \<ge> logReadEvery then
        (case readLog t target re tr of Inl e \<Rightarrow> Inl e
         | Inr (tr, n) \<Rightarrow> Inr (tr\<lparr>lt_lastRead := tk_now t,
             lt_events := (if n > 0 then lt_events tr @ [(tk_now t, n)] else lt_events tr)\<rparr>))
      else Inr tr)"

definition pruneLog :: "time \<Rightarrow> logTrack \<Rightarrow> logTrack" where
  "pruneLog now tr = tr\<lparr>lt_events := filter (\<lambda>e. fst e > now - logWindow) (lt_events tr)\<rparr>"

definition logCount :: "logTrack \<Rightarrow> nat" where
  "logCount tr = sum_list (map snd (lt_events tr))"

definition lastN :: "nat \<Rightarrow> 'a list \<Rightarrow> 'a list" where
  "lastN n xs = drop (length xs - n) xs"

definition noteHistory :: "time \<Rightarrow> logTrack \<Rightarrow> logTrack" where
  "noteHistory now tr =
     (if IsZero (lt_lastHistory tr) \<or> TimeSub now (lt_lastHistory tr) \<ge> logWindow
      then tr\<lparr>lt_history := lastN logBaselineMax (lt_history tr @ [logCount tr]), lt_lastHistory := now\<rparr> else tr)"

definition baselineOf :: "logTrack \<Rightarrow> rat" where
  "baselineOf tr = (if lt_history tr = [] then 0
     else of_nat (sum_list (lt_history tr)) / of_nat (length (lt_history tr)))"

definition logFailing :: "Definition \<Rightarrow> bool \<Rightarrow> nat \<Rightarrow> rat \<Rightarrow> bool" where
  "logFailing def held count baseline =
     (case thresholds def defaultLogFire (defaultLogFire / 2) True of (fire, recov) \<Rightarrow>
      if held then of_nat count \<ge> recov
      else of_nat count > fire \<and> of_nat count > paramFloat def ''multiplier'' defaultLogMultiplier * max baseline 1)"

definition logObservation :: "('a Tick_scheme) \<Rightarrow> string \<Rightarrow> Definition \<Rightarrow> nat \<Rightarrow> rat \<Rightarrow> Observation" where
  "logObservation t target def count baseline =
     (let fire = fst (thresholds def defaultLogFire (defaultLogFire / 2) True);
          mult = paramFloat def ''multiplier'' defaultLogMultiplier in
      observe target (logFailing def (tk_held t KindLogErrorSpike target) count baseline) (severityOr def ''warning'')
        (target @ '' logged '' @ Itoa (int count) @ '' matching lines in 5m (baseline '' @ formatF0 baseline @ '', fires >'' @
         formatF0 fire @ '' and >'' @ formatF0 mult @ ''x baseline)'')
        (valueAttrs (of_nat count) fire ''count'' @ [(''baseline'', formatF1 baseline)]))"

type_synonym LogState = "(string \<times> logTrack) list"

definition logPattern :: "Definition \<Rightarrow> string" where
  "logPattern def = (let p = defParam def ''pattern'' in if p = '''' then defaultLogPattern else p)"

text \<open>One target: the new tracks, the observation if there is one, and the error of its read.\<close>

definition logTarget :: "('a Tick_scheme) \<Rightarrow> LogState \<Rightarrow> string \<Rightarrow> Definition \<Rightarrow> LogState \<times> (string + Observation)" where
  "logTarget t st g def =
     (case tk_compile t (logPattern def) of None \<Rightarrow> (st, Inr (hold g))
      | Some re \<Rightarrow>
          (let tr0 = (case map_of st g of Some tr \<Rightarrow> tr | None \<Rightarrow> newLogTrack) in
           case pollLog t g re tr0 of
             Inl e \<Rightarrow> (AList.update g tr0 st, Inl (''monitor: log_error_spike '' @ g @ '': '' @ e))
           | Inr tr1 \<Rightarrow>
               (let tr = pruneLog (tk_now t) tr1; count = logCount tr; ready = length (lt_history tr) \<ge> logBaselineMin;
                    st = AList.update g (noteHistory (tk_now t) tr) st in
                (st, Inr (if ready then logObservation t g def count (baselineOf tr) else hold g)))))"

fun logTargets :: "('a Tick_scheme) \<Rightarrow> LogState \<Rightarrow> string list \<Rightarrow> LogState \<times> Observation list \<times> string option" where
  "logTargets t st [] = (st, [], None)"
| "logTargets t st (g # gs) =
     (case resolveAt t KindLogErrorSpike g of None \<Rightarrow> logTargets t st gs
      | Some def \<Rightarrow>
          (case logTarget t st g def of
             (st, Inl e) \<Rightarrow> (case logTargets t st gs of (st, obs, _) \<Rightarrow> (st, obs, Some e))
           | (st, Inr ob) \<Rightarrow> (case logTargets t st gs of (st, obs, e) \<Rightarrow> (st, ob # obs, e))))"

definition LogSpikeEvaluate :: "('a Tick_scheme) \<Rightarrow> LogState \<Rightarrow> LogState \<times> (string + Observation list)" where
  "LogSpikeEvaluate t st =
     (case logTargets t st (Targets (tk_defs t) KindLogErrorSpike) of
        (st, obs, Some e) \<Rightarrow> (st, Inl e) | (st, obs, None) \<Rightarrow> (st, Inr obs))"

end
