(* ===== verification/Monitor_Targets.thy ===== *)
theory Monitor_Targets
  imports Monitor_Checks Firewall
begin

text \<open>
  The evaluators of monitors with a target: \<^verbatim>\<open>internal/monitor/{checks_targets,pm2}.go\<close>. The answers of the host
  extend the \<open>Tick\<close> of the other evaluators. PEM decoding, certificate parsing and IP address parsing are functions
  of the tick: \<open>tk_pem\<close> lists the blocks of a file as type and bytes, \<open>tk_parseIP\<close> gives the 16-byte form as a number.
\<close>

record PM2App =
  pa_Name :: string
  pa_Status :: string
  pa_Restarts :: int

record ProcessInfo =
  pi_Command :: string
  pi_ExePath :: string

record TargetTick = Tick +
  tk_ReadFile :: "string \<Rightarrow> string + string"
  tk_pem :: "string \<Rightarrow> (string \<times> string) list"
  tk_parseCert :: "string \<Rightarrow> string + time"
  tk_CertNotAfter :: "string \<Rightarrow> string \<Rightarrow> string + time"
  tk_Glob :: "string \<Rightarrow> string + string list"
  tk_Stat :: "string \<Rightarrow> (time \<times> int) option"
  tk_Listening :: "string + Socket list"
  tk_parseIP :: "string \<Rightarrow> nat option"
  tk_Running :: "string + ProcessInfo list"
  tk_BootID :: "string + string"
  tk_Apps :: "string \<Rightarrow> string + PM2App list"

section \<open>Paths and addresses\<close>

definition pathBase :: "string \<Rightarrow> string" where
  "pathBase p =
     (if p = '''' then ''.''
      else let s = TrimRight p ''/'' in
        if s = '''' then ''/'' else rev (takeWhile (\<lambda>c. c \<noteq> CHR ''/'') (rev s)))"

definition SplitHostPort :: "string \<Rightarrow> (string \<times> string) option" where
  "SplitHostPort s =
     (case LastIndexByte s (CHR '':'') of None \<Rightarrow> None
      | Some i \<Rightarrow>
          if hd s = CHR ''['' then
            (case Index s '']'' of None \<Rightarrow> None
             | Some e \<Rightarrow>
                 if Suc e \<noteq> i \<or> CHR ''['' \<in> set (drop 1 s) \<or> CHR '']'' \<in> set (drop (Suc e) s) then None
                 else Some (take (e - 1) (drop 1 s), drop (Suc i) s))
          else if CHR '':'' \<in> set (take i s) \<or> CHR ''['' \<in> set s \<or> CHR '']'' \<in> set s then None
          else Some (take i s, drop (Suc i) s))"

definition JoinHostPort :: "string \<Rightarrow> string \<Rightarrow> string" where
  "JoinHostPort host port = (if CHR '':'' \<in> set host then ''['' @ host @ '']:'' @ port else host @ '':'' @ port)"

section \<open>Certificates\<close>

definition defaultCertWarnDays :: rat where "defaultCertWarnDays = 14"
definition defaultCertCriticalDays :: rat where "defaultCertCriticalDays = 3"
definition certCheckEvery :: duration where "certCheckEvery = hour"
definition certRetryEvery :: duration where "certRetryEvery = 5 * minute"

record certCache =
  cc_notAfter :: "time option"
  cc_checkedAt :: time
  cc_failed :: bool

definition newCertCache :: certCache where
  "newCertCache = \<lparr>cc_notAfter = None, cc_checkedAt = zeroTime, cc_failed = False\<rparr>"

definition isCertFile :: "string \<Rightarrow> bool" where "isCertFile target = HasPrefix target ''/''"

definition certAddr :: "string \<Rightarrow> Definition \<Rightarrow> string \<times> string" where
  "certAddr target def =
     ((case SplitHostPort target of Some _ \<Rightarrow> target | None \<Rightarrow> JoinHostPort (Trim target ''[]'') ''443''), defParam def ''server_name'')"

definition fileNotAfter :: "('a TargetTick_scheme) \<Rightarrow> string \<Rightarrow> string + time" where
  "fileNotAfter t file =
     (case tk_ReadFile t file of Inl e \<Rightarrow> Inl e
      | Inr content \<Rightarrow>
          (case find (\<lambda>b. fst b = ''CERTIFICATE'') (tk_pem t content) of
             None \<Rightarrow> Inl ''no PEM certificate found'' | Some b \<Rightarrow> tk_parseCert t (snd b)))"

definition certDial :: "('a TargetTick_scheme) \<Rightarrow> string \<Rightarrow> Definition \<Rightarrow> certCache \<Rightarrow> certCache" where
  "certDial t target def c =
     (let interval = (if cc_failed c then certRetryEvery else certCheckEvery) in
      if IsZero (cc_checkedAt c) \<or> TimeSub (tk_now t) (cc_checkedAt c) \<ge> interval then
        (case certAddr target def of (addr, sni) \<Rightarrow>
          (case tk_CertNotAfter t addr sni of
             Inl _ \<Rightarrow> c\<lparr>cc_checkedAt := tk_now t, cc_failed := True\<rparr>
           | Inr na \<Rightarrow> c\<lparr>cc_checkedAt := tk_now t, cc_failed := False, cc_notAfter := Some na\<rparr>))
      else c)"

definition certObservation :: "('a TargetTick_scheme) \<Rightarrow> string \<Rightarrow> Definition \<Rightarrow> time \<Rightarrow> Observation" where
  "certObservation t target def notAfter =
     (let days = seconds (TimeSub notAfter (tk_now t)) / 3600 / 24 in
      case thresholds def defaultCertWarnDays (defaultCertWarnDays + 1) False of (warn, recov) \<Rightarrow>
        (let failing = days < (if tk_held t KindCertExpiry target then recov else warn) in
         observe target failing
           (if failing \<and> days < paramFloat def ''critical_days'' defaultCertCriticalDays then ''critical'' else severityOr def ''warning'')
           (if days \<le> 0
            then ''certificate '' @ target @ '' expired '' @ durationString (roundDuration (TimeSub (tk_now t) notAfter) minute) @ '' ago''
            else ''certificate '' @ target @ '' expires in '' @ formatF0 days @ '' days (warns <'' @ formatF0 warn @ '')'')
           (valueAttrs days warn ''days'' @ [(''not_after'', formatRFC3339 notAfter)])))"

type_synonym CertState = "(string \<times> certCache) list"

definition certTarget :: "('a TargetTick_scheme) \<Rightarrow> CertState \<Rightarrow> string \<Rightarrow> Definition \<Rightarrow> CertState \<times> Observation" where
  "certTarget t st target def =
     (if isCertFile target then
        (st, case fileNotAfter t target of
            Inl e \<Rightarrow> observe target True (severityOr def ''warning'') (''cannot read certificate '' @ target @ '': '' @ e) []
          | Inr na \<Rightarrow> certObservation t target def na)
      else
        (let c = certDial t target def (case map_of st target of Some c \<Rightarrow> c | None \<Rightarrow> newCertCache) in
         (AList.update target c st, case cc_notAfter c of None \<Rightarrow> hold target | Some na \<Rightarrow> certObservation t target def na)))"

fun certTargets :: "('a TargetTick_scheme) \<Rightarrow> CertState \<Rightarrow> string list \<Rightarrow> CertState \<times> Observation list" where
  "certTargets t st [] = (st, [])"
| "certTargets t st (g # gs) =
     (case resolveAt t KindCertExpiry g of None \<Rightarrow> certTargets t st gs
      | Some def \<Rightarrow> (case certTarget t st g def of (st, ob) \<Rightarrow> (case certTargets t st gs of (st, obs) \<Rightarrow> (st, ob # obs))))"

definition CertEvaluate :: "('a TargetTick_scheme) \<Rightarrow> CertState \<Rightarrow> CertState \<times> (string + Observation list)" where
  "CertEvaluate t st = (case certTargets t st (Targets (tk_defs t) KindCertExpiry) of (st, obs) \<Rightarrow> (st, Inr obs))"

section \<open>Timers\<close>

definition maxTimers :: nat where "maxTimers = 200"

type_synonym props = "(string \<times> string) list"

definition propOf :: "props \<Rightarrow> string \<Rightarrow> string" where
  "propOf p k = (case map_of p k of Some v \<Rightarrow> v | None \<Rightarrow> '''')"

definition flushBlock :: "props \<Rightarrow> (string \<times> props) list \<Rightarrow> (string \<times> props) list" where
  "flushBlock cur out = (if propOf cur ''Id'' \<noteq> '''' then AList.update (propOf cur ''Id'') cur out else out)"

fun showLines :: "props \<Rightarrow> (string \<times> props) list \<Rightarrow> string list \<Rightarrow> (string \<times> props) list" where
  "showLines cur out [] = flushBlock cur out"
| "showLines cur out (l # ls) =
     (let line = TrimSpace l in
      if line = '''' then showLines [] (flushBlock cur out) ls
      else (case Cut line (CHR ''='') of (k, v, ok) \<Rightarrow> showLines (if ok then AList.update k v cur else cur) out ls))"

definition parseSystemctlShow :: "string \<Rightarrow> (string \<times> props) list" where
  "parseSystemctlShow raw = showLines [] [] (Split (CHR 0x0A) raw)"

definition showArgs :: "string list \<Rightarrow> string list \<Rightarrow> string list" where
  "showArgs units ps = [''systemctl'', ''show'', ''--no-pager'', ''-p'', ''Id''] @ concat (map (\<lambda>p. [''-p'', p]) ps) @ units"

definition timerShow :: "('a TargetTick_scheme) \<Rightarrow> string list \<Rightarrow> string list \<Rightarrow> string + (string \<times> props) list" where
  "timerShow t units ps =
     (case tk_Run t (showArgs units ps) of
        Inl e \<Rightarrow> Inl (''monitor: systemd_timer_failed: systemctl show: '' @ e) | Inr out \<Rightarrow> Inr (parseSystemctlShow out))"

definition timerLine :: "('a TargetTick_scheme) \<Rightarrow> string \<Rightarrow> (string \<times> Definition) list" where
  "timerLine t line =
     (case Fields line of [] \<Rightarrow> []
      | f # _ \<Rightarrow> if \<not> HasSuffix f ''.timer'' then []
          else (case resolveAt t KindSystemdTimerFailed f of None \<Rightarrow> [] | Some def \<Rightarrow> [(f, def)]))"

definition listTimers :: "('a TargetTick_scheme) \<Rightarrow> string \<Rightarrow> (string \<times> Definition) list" where
  "listTimers t out = take maxTimers (concat (map (timerLine t) (Split (CHR 0x0A) out)))"

definition timerService :: "(string \<times> props) list \<Rightarrow> string \<Rightarrow> string" where
  "timerService ps timer =
     (let svc = (case map_of ps timer of Some p \<Rightarrow> propOf p ''Unit'' | None \<Rightarrow> '''') in
      if svc = '''' then TrimSuffix timer ''.timer'' @ ''.service'' else svc)"

definition timerObservation :: "(string \<times> props) list \<Rightarrow> string \<Rightarrow> string \<Rightarrow> Definition \<Rightarrow> Observation" where
  "timerObservation svcProps timer svc def =
     (case map_of svcProps svc of None \<Rightarrow> hold timer
      | Some p \<Rightarrow>
          (let state = propOf p ''ActiveState''; result = propOf p ''Result'';
               failing = (state = ''failed'' \<or> state = ''inactive'' \<and> result \<noteq> '''' \<and> result \<noteq> ''success'') in
           observe timer failing (severityOr def ''warning'')
             (if failing then timer @ '': last run of '' @ svc @ '' failed ('' @ (if result \<noteq> '''' then result else state) @ '')''
              else timer @ '': last run of '' @ svc @ '' succeeded'')
             [(''service'', svc), (''active_state'', state), (''result'', result)]))"

definition listTimersArgs :: "string list" where
  "listTimersArgs = [''systemctl'', ''list-units'', ''--type=timer'', ''--all'', ''--no-legend'', ''--plain'', ''--no-pager'']"

definition TimerEvaluate :: "('a TargetTick_scheme) \<Rightarrow> string + Observation list" where
  "TimerEvaluate t =
     (if \<not> tk_Systemd t then Inl ''monitor: collector unavailable''
      else case tk_Run t listTimersArgs of
        Inl e \<Rightarrow> Inl (''monitor: systemd_timer_failed: list timers: '' @ e)
      | Inr out \<Rightarrow>
          (let timers = listTimers t out in
           if timers = [] then Inr []
           else case timerShow t (map fst timers) [''Unit''] of Inl e \<Rightarrow> Inl e
           | Inr tp \<Rightarrow>
               (case timerShow t (map (timerService tp \<circ> fst) timers) [''ActiveState'', ''Result''] of Inl e \<Rightarrow> Inl e
                | Inr sp \<Rightarrow> Inr (map (\<lambda>(timer, def). timerObservation sp timer (timerService tp timer) def) timers))))"

section \<open>Job freshness\<close>

definition defaultJobMaxAge :: duration where "defaultJobMaxAge = 25 * hour"

definition newest :: "('a TargetTick_scheme) \<Rightarrow> string list \<Rightarrow> (string \<times> time \<times> int) option" where
  "newest t paths =
     foldl (\<lambda>best p. case tk_Stat t p of None \<Rightarrow> best
        | Some (modT, sz) \<Rightarrow> (case best of None \<Rightarrow> Some (p, modT, sz)
            | Some (_, m, _) \<Rightarrow> if modT > m then Some (p, modT, sz) else best)) None paths"

definition jobObservation :: "('a TargetTick_scheme) \<Rightarrow> string \<Rightarrow> Definition \<Rightarrow> string list \<Rightarrow> Observation" where
  "jobObservation t target def paths =
     (let maxAge = paramDuration def ''max_age'' defaultJobMaxAge; minSize = paramInt def ''min_size_bytes'' 0;
          severity = severityOr def ''critical'' in
      case newest t paths of
        None \<Rightarrow> observe target True severity (target @ '' is missing'') []
      | Some (p, modT, sz) \<Rightarrow>
          (let age = TimeSub (tk_now t) modT; ago = durationString (roundDuration age minute);
               attrs = valueAttrs (seconds age) (seconds maxAge) ''seconds'' @ [(''file'', pathBase p)] in
           if age > maxAge
           then observe target True severity (p @ '' last updated '' @ ago @ '' ago (max '' @ durationString maxAge @ '')'') attrs
           else if sz < minSize
           then observe target True severity (p @ '' is only '' @ Itoa sz @ '' bytes (min '' @ Itoa minSize @ '')'') attrs
           else observe target False severity (p @ '' updated '' @ ago @ '' ago (max '' @ durationString maxAge @ '')'') attrs))"

fun jobTargets :: "('a TargetTick_scheme) \<Rightarrow> string list \<Rightarrow> string + Observation list" where
  "jobTargets t [] = Inr []"
| "jobTargets t (g # gs) =
     (case resolveAt t KindJobFreshness g of None \<Rightarrow> jobTargets t gs
      | Some def \<Rightarrow>
          (case (if IndexAny g ''*?['' \<noteq> None then tk_Glob t g else Inr [g]) of
             Inl e \<Rightarrow> Inl (''monitor: job_freshness '' @ g @ '': '' @ e)
           | Inr paths \<Rightarrow> (case jobTargets t gs of Inl e \<Rightarrow> Inl e | Inr obs \<Rightarrow> Inr (jobObservation t g def paths # obs))))"

definition JobFreshnessEvaluate :: "('a TargetTick_scheme) \<Rightarrow> string + Observation list" where
  "JobFreshnessEvaluate t = jobTargets t (Targets (tk_defs t) KindJobFreshness)"

section \<open>Ports\<close>

definition ParsePortTarget :: "string \<Rightarrow> (string \<times> int) option" where
  "ParsePortTarget target =
     (let s = TrimSpace target in
      case (if CHR '':'' \<in> set s then SplitHostPort s else Some ('''', s)) of None \<Rightarrow> None
      | Some (host, p) \<Rightarrow> (case ParseInt 64 p of None \<Rightarrow> None
          | Some n \<Rightarrow> if n < 1 \<or> n > 65535 then None else Some (host, n)))"

definition normAddr :: "string \<Rightarrow> string" where
  "normAddr a = takeWhile (\<lambda>c. c \<noteq> CHR ''%'') (Trim a ''[]'')"

definition isWildcardAddr :: "string \<Rightarrow> bool" where
  "isWildcardAddr a \<longleftrightarrow> normAddr a \<in> {''*'', ''0.0.0.0'', ''::'', ''''}"

definition socketMatchesHost :: "(string \<Rightarrow> nat option) \<Rightarrow> string \<Rightarrow> string \<Rightarrow> bool" where
  "socketMatchesHost parseIP sockAddr host =
     (if host = '''' \<or> isWildcardAddr sockAddr then True
      else let sa = normAddr sockAddr; h = normAddr host in
        if h = ''localhost'' then sa = ''127.0.0.1'' \<or> sa = ''::1''
        else case parseIP h of None \<Rightarrow> True | Some want \<Rightarrow> parseIP sa = Some want)"

definition portObservation :: "('a TargetTick_scheme) \<Rightarrow> Socket list \<Rightarrow> string \<Rightarrow> Definition \<Rightarrow> Observation" where
  "portObservation t socks target def =
     (case ParsePortTarget target of None \<Rightarrow> hold target
      | Some (host, port) \<Rightarrow>
          (let p = ToLower (defParam def ''protocol''); proto = (if p = '''' then ''tcp'' else p);
               listening = list_ex (\<lambda>s. sk_Port s = port \<and> (proto = ''any'' \<or> sk_Protocol s = proto) \<and>
                 socketMatchesHost (tk_parseIP t) (sk_Address s) host) socks in
           observe target (\<not> listening) (severityOr def ''critical'')
             (if listening then target @ '' is listening'' else ''nothing is listening on '' @ target @ '' ('' @ proto @ '')'') []))"

definition PortEvaluate :: "('a TargetTick_scheme) \<Rightarrow> string + Observation list" where
  "PortEvaluate t =
     (let targets = Targets (tk_defs t) KindPortListening in
      if targets = [] then Inr []
      else case tk_Listening t of Inl e \<Rightarrow> Inl (''monitor: port_listening: '' @ e)
        | Inr socks \<Rightarrow> Inr (observeAll t KindPortListening (portObservation t socks) targets))"

section \<open>Processes\<close>

definition processMatches :: "ProcessInfo \<Rightarrow> string \<Rightarrow> bool \<Rightarrow> bool" where
  "processMatches p name contains =
     (if contains then Contains (pi_Command p) name \<or> Contains (pi_ExePath p) name
      else if pi_ExePath p \<noteq> '''' \<and> pathBase (pi_ExePath p) = name then True
      else let first = (case Fields (pi_Command p) of [] \<Rightarrow> pi_Command p | f # _ \<Rightarrow> f) in
        pathBase (TrimSuffix first '':'') = name \<or> pi_Command p = name)"

definition processObservation :: "ProcessInfo list \<Rightarrow> string \<Rightarrow> Definition \<Rightarrow> Observation" where
  "processObservation procs target def =
     (let count = length (filter (\<lambda>p. processMatches p target (EqualFold (defParam def ''match'') ''contains'')) procs) in
      observe target (count = 0) (severityOr def ''critical'')
        (if count = 0 then ''no process named '' @ target @ '' is running'' else target @ '' is running ('' @ Itoa (int count) @ '')'')
        [(''count'', Itoa (int count))])"

definition ProcessEvaluate :: "('a TargetTick_scheme) \<Rightarrow> string + Observation list" where
  "ProcessEvaluate t =
     (let targets = Targets (tk_defs t) KindProcessRunning in
      if targets = [] then Inr []
      else case tk_Running t of Inl e \<Rightarrow> Inl (''monitor: process_running: '' @ e)
        | Inr procs \<Rightarrow> Inr (observeAll t KindProcessRunning (processObservation procs) targets))"

section \<open>Reboots\<close>

definition bootIDKey :: string where "bootIDKey = ''monitor.boot_id''"

definition rebootObservation :: "Definition \<Rightarrow> string \<Rightarrow> Observation" where
  "rebootObservation def announce =
     (if announce \<noteq> '''' then observe '''' True (severityOr def ''warning'') ''host rebooted'' [(''boot_id'', announce)]
      else observe '''' False (severityOr def ''warning'') ''host is up; no reboot since last check'' [])"

text \<open>The state is the store and the boot id to announce; a store error is reported without its text.\<close>

definition RebootEvaluate :: "('a TargetTick_scheme) \<Rightarrow> store \<Rightarrow> string \<Rightarrow> store \<times> string \<times> (string + Observation list)" where
  "RebootEvaluate t s announce =
     (case resolveAt t KindRebootDetected '''' of None \<Rightarrow> (s, announce, Inr [])
      | Some def \<Rightarrow>
          (case tk_BootID t of Inl e \<Rightarrow> (s, announce, Inl (''monitor: reboot_detected: boot id: '' @ e))
           | Inr i \<Rightarrow>
               (case GetAgentSetting s bootIDKey of
                  (s, Inl e) \<Rightarrow>
                    if e = ErrNotFound then
                      (case PutAgentSetting s bootIDKey i of
                         (s, Inl _) \<Rightarrow> (s, announce, Inl ''monitor: reboot_detected: persist boot id'')
                       | (s, Inr _) \<Rightarrow> (s, '''', Inr [rebootObservation def announce]))
                    else (s, announce, Inl ''monitor: reboot_detected: load boot id'')
                | (s, Inr prev) \<Rightarrow>
                    if prev = i then (s, '''', Inr [rebootObservation def announce])
                    else (case PutAgentSetting s bootIDKey i of
                         (s, Inl _) \<Rightarrow> (s, announce, Inl ''monitor: reboot_detected: persist boot id'')
                       | (s, Inr _) \<Rightarrow> (s, '''', Inr [rebootObservation def i])))))"

section \<open>PM2 apps (pm2.go)\<close>

definition KindPM2App :: Kind where "KindPM2App = ''pm2_app''"
definition pm2LoopRestarts :: nat where "pm2LoopRestarts = 3"
definition pm2LoopWindow :: duration where "pm2LoopWindow = 5 * minute"
definition pm2LoopQuiet :: duration where "pm2LoopQuiet = 60 * second"

definition ParsePM2Target :: "string \<Rightarrow> (string \<times> string) option" where
  "ParsePM2Target target =
     (case Cut target (CHR ''/'') of (user, app, ok) \<Rightarrow> if \<not> ok \<or> user = '''' \<or> app = '''' then None else Some (user, app))"

record pm2Track =
  pt_lastCount :: int
  pt_increases :: "time list"
  pt_looping :: bool
  pt_lastIncrease :: time

definition pm2Count :: "int \<Rightarrow> time \<Rightarrow> pm2Track \<Rightarrow> pm2Track" where
  "pm2Count count now tr0 =
     (let tr = (if count < pt_lastCount tr0 then tr0\<lparr>pt_lastCount := count, pt_increases := []\<rparr> else tr0);
          delta = count - pt_lastCount tr in
      if delta > 0
      then tr\<lparr>pt_increases := pt_increases tr @ replicate (nat delta) now, pt_lastCount := count, pt_lastIncrease := now\<rparr>
      else tr)"

definition pm2Observe :: "int \<Rightarrow> time \<Rightarrow> pm2Track \<Rightarrow> pm2Track \<times> bool" where
  "pm2Observe count now tr0 =
     (let tr1 = pm2Count count now tr0;
          tr2 = tr1\<lparr>pt_increases := filter (\<lambda>x. x > now - pm2LoopWindow) (pt_increases tr1)\<rparr>;
          tr3 = (if length (pt_increases tr2) \<ge> pm2LoopRestarts then tr2\<lparr>pt_looping := True\<rparr> else tr2);
          tr4 = (if pt_looping tr3 \<and> TimeSub now (pt_lastIncrease tr3) \<ge> pm2LoopQuiet
                 then tr3\<lparr>pt_looping := False, pt_increases := []\<rparr> else tr3) in
      (tr4, pt_looping tr4))"

type_synonym PM2State = "(string \<times> pm2Track) list"

definition pm2AppStep :: "('a TargetTick_scheme) \<Rightarrow> PM2State \<Rightarrow> string \<Rightarrow> Definition \<Rightarrow> string \<Rightarrow> PM2App option \<Rightarrow> PM2State \<times> Observation" where
  "pm2AppStep t st target def user found =
     (case found of
        None \<Rightarrow> (AList.delete target st, observe target True (severityOr def ''critical'')
          (case ParsePM2Target target of Some (_, name) \<Rightarrow> ''PM2 app '' @ name @ '' (user '' @ user @ '') is missing'' | None \<Rightarrow> '''')
          [(''status'', ''missing'')])
      | Some app \<Rightarrow>
          (case pm2Observe (pa_Restarts app) (tk_now t)
             (case map_of st target of Some tr \<Rightarrow> tr
              | None \<Rightarrow> \<lparr>pt_lastCount = pa_Restarts app, pt_increases = [], pt_looping = False, pt_lastIncrease = zeroTime\<rparr>) of
             (tr, loop) \<Rightarrow>
               (let status = ToLower (pa_Status app); down = (status = ''stopped'' \<or> status = ''errored'');
                    pre = ''PM2 app '' @ pa_Name app @ '' (user '' @ user @ '') '' in
                (AList.update target tr st,
                 observe target (down \<or> loop) (severityOr def ''critical'')
                   (if \<not> down \<and> loop
                    then pre @ ''keeps restarting ('' @ Itoa (int pm2LoopRestarts) @ '' restarts within '' @ durationString pm2LoopWindow @ '')''
                    else pre @ ''is '' @ status)
                   [(''status'', status), (''restarts'', Itoa (pa_Restarts app))]))))"

fun pm2Targets :: "('a TargetTick_scheme) \<Rightarrow> PM2State \<Rightarrow> string list \<Rightarrow> PM2State \<times> Observation list" where
  "pm2Targets t st [] = (st, [])"
| "pm2Targets t st (g # gs) =
     (case (resolveAt t KindPM2App g, ParsePM2Target g) of
        (Some def, Some (user, name)) \<Rightarrow>
          (case (case tk_Apps t user of Inl _ \<Rightarrow> (st, hold g)
             | Inr apps \<Rightarrow> pm2AppStep t st g def user (find (\<lambda>a. pa_Name a = name) apps)) of
             (st, ob) \<Rightarrow> (case pm2Targets t st gs of (st, obs) \<Rightarrow> (st, ob # obs)))
      | _ \<Rightarrow> pm2Targets t st gs)"

definition PM2Evaluate :: "('a TargetTick_scheme) \<Rightarrow> PM2State \<Rightarrow> PM2State \<times> (string + Observation list)" where
  "PM2Evaluate t st =
     (let targets = sort (Targets (tk_defs t) KindPM2App);
          live = filter (\<lambda>g. resolveAt t KindPM2App g \<noteq> None \<and> ParsePM2Target g \<noteq> None) targets in
      if targets = [] then ([], Inr [])
      else (case pm2Targets t st targets of (st, obs) \<Rightarrow> (filter (\<lambda>(g, _). g \<in> set live) st, Inr obs)))"

end
