(* ===== verification/Monitor_Checks_Theorems.thy ===== *)
theory Monitor_Checks_Theorems
  imports Monitor_Targets
begin

text \<open>
  Properties of the evaluators: that every target with an enabled definition is reported on every
  successful evaluation, so that a target that could not be read keeps its state; that a value inside the
  hysteresis band never flaps; what a crash loop is; the bound on the fill-rate history and the exactness of
  the fit; that a reboot is announced once.
\<close>

section \<open>Every enabled target is reported\<close>

text \<open>The contract between the engine and its evaluators (\<open>Observation.Hold\<close> in \<^verbatim>\<open>types.go\<close>).\<close>

abbreviation enabledAt :: "('a Tick_scheme) \<Rightarrow> Kind \<Rightarrow> string \<Rightarrow> bool" where
  "enabledAt t kind g \<equiv> resolveAt t kind g \<noteq> None"

locale full_report =
  fixes kind :: Kind and targets :: "'t \<Rightarrow> string list" and enabled :: "'t \<Rightarrow> string \<Rightarrow> bool"
    and eval :: "'t \<Rightarrow> 's \<Rightarrow> 's \<times> (string + Observation list)"
  assumes reports: "eval t st = (st', Inr obs) \<Longrightarrow> map ob_Target obs = filter (enabled t) (targets t)"
begin

lemma reported:
  "eval t st = (st', Inr obs) \<Longrightarrow> enabled t g \<Longrightarrow> g \<in> set (targets t) \<Longrightarrow> g \<in> ob_Target ` set obs"
  using arg_cong [OF reports, where f = set] by simp

lemma held_keeps_state:
  assumes e: "eval t st = (st', Inr obs)" "enabled t g" "g \<in> set (targets t)"
    and h: "list_all (\<lambda>ob. ob_Target ob = g \<longrightarrow> ob_Hold ob) obs"
  shows "map_of (mo_states (runEvaluator sha hmac now (kind, \<lambda>_. Some obs) m)) (key kind g) = map_of (mo_states m) (key kind g)"
proof -
  let ?step = "\<lambda>ob m. if ob_Hold ob then m else process sha hmac now m kind ob"
  have f: "map_of (mo_states (fold ?step os m')) (key kind g) = map_of (mo_states m') (key kind g)"
    if "set os \<subseteq> set obs" for os m'
    using that
  proof (induction os arbitrary: m')
    case (Cons ob os)
    have "map_of (mo_states (?step ob m')) (key kind g) = map_of (mo_states m') (key kind g)"
    proof (cases "ob_Hold ob")
      case False
      then have "ob_Target ob \<noteq> g" using h Cons.prems by (auto simp: list_all_iff)
      then have "key kind g \<noteq> key kind (ob_Target ob)" by (simp add: key_def)
      with False show ?thesis by (simp add: process_other)
    qed simp
    with Cons show ?case by simp
  qed simp
  have "TrimPrefix (key kind g) (kind @ '':'') = g" by (simp add: key_def TrimPrefix_def)
  then have "map_of (mo_states (retireAbsent sha hmac now m' kind (map ob_Target obs))) (key kind g) = map_of (mo_states m') (key kind g)"
    for m' using reported [OF e] by (intro retire_touches_only_absent) simp
  then show ?thesis using f [of obs m] unfolding runEvaluator_def fst_conv snd_conv option.case by simp
qed

end

lemma observeAll_targets:
  assumes "\<And>g d. ob_Target (f g d) = g"
  shows "map ob_Target (observeAll t kind f gs) = filter (enabledAt t kind) gs"
  by (induction gs) (auto simp: observeAll_def assms split: option.split)

lemma observeAll_mem:
  "ob \<in> set (observeAll t kind f gs) \<longleftrightarrow> (\<exists>g \<in> set gs. \<exists>d. resolveAt t kind g = Some d \<and> ob = f g d)"
proof (induction gs)
  case (Cons g gs)
  then show ?case by (cases "resolveAt t kind g") (auto simp: observeAll_def)
qed (simp add: observeAll_def)

lemma target_simps [simp]: "ob_Target (hold g) = g" "ob_Target (observe g b s m a) = g"
  "ob_Hold (hold g)" "\<not> ob_Hold (observe g b s m a)" "ob_Failing (observe g b s m a) = b" "\<not> ob_Failing (hold g)"
  by (simp_all add: hold_def observe_def)

lemma diskObservation_target [simp]: "ob_Target (diskObservation t kind g d) = g"
  by (simp add: diskObservation_def Let_def split: option.split)

lemma portObservation_target [simp]: "ob_Target (portObservation t socks g d) = g"
  by (simp add: portObservation_def Let_def split: option.split)

lemma processObservation_target [simp]: "ob_Target (processObservation ps g d) = g"
  by (simp add: processObservation_def Let_def)

lemma jobObservation_target [simp]: "ob_Target (jobObservation t g d ps) = g"
  by (simp add: jobObservation_def Let_def split: option.split)

lemma certObservation_target [simp]: "ob_Target (certObservation t g d na) = g"
  by (simp add: certObservation_def Let_def split: prod.split)

lemma certTarget_target [simp]: "ob_Target (snd (certTarget t st g d)) = g"
  by (simp add: certTarget_def Let_def split: option.split sum.split)

lemma fillObservation_target [simp]: "ob_Target (snd (fillObservation t g d dk w)) = g"
  by (simp add: fillObservation_def trendObservation_def Let_def split: option.split prod.split)

lemma logTarget_target: "logTarget t st g def = (st', Inr ob) \<Longrightarrow> ob_Target ob = g"
  by (auto simp: logTarget_def logObservation_def Let_def split: option.splits sum.splits if_splits)

lemma pm2AppStep_target [simp]: "ob_Target (snd (pm2AppStep t st g d user found)) = g"
  by (simp add: pm2AppStep_def Let_def split: option.split prod.split)

lemma certTargets_targets: "map ob_Target (snd (certTargets t st gs)) = filter (enabledAt t KindCertExpiry) gs"
  by (induction gs arbitrary: st) (auto simp: case_prod_unfold split: option.split)

lemma fillTargets_targets: "map ob_Target (snd (fillTargets t st gs)) = filter (enabledAt t KindDiskFillRate) gs"
  by (induction gs arbitrary: st) (auto simp: case_prod_unfold split: option.split)

lemma logTargets_targets:
  "logTargets t st gs = (st', obs, None) \<Longrightarrow> map ob_Target obs = filter (enabledAt t KindLogErrorSpike) gs"
proof (induction gs arbitrary: st st' obs)
  case (Cons g gs)
  show ?case
  proof (cases "resolveAt t KindLogErrorSpike g")
    case None
    with Cons show ?thesis by simp
  next
    case (Some def)
    obtain s1 r where l: "logTarget t st g def = (s1, r)" by fastforce
    obtain s2 o2 e2 where r: "logTargets t s1 gs = (s2, o2, e2)" by (cases "logTargets t s1 gs") auto
    from Cons.prems Some l r obtain ob where ob: "r = Inr ob" and x: "e2 = None" "obs = ob # o2"
      by (cases r) auto
    with Cons.IH [of s1 s2 o2] r logTarget_target [of t st g def s1 ob] l Some show ?thesis by simp
  qed
qed simp

lemma jobTargets_targets:
  "jobTargets t gs = Inr obs \<Longrightarrow> map ob_Target obs = filter (enabledAt t KindJobFreshness) gs"
  by (induction gs arbitrary: obs) (auto split: option.splits sum.splits)

lemma pm2Targets_targets:
  "map ob_Target (snd (pm2Targets t st gs)) = filter (\<lambda>g. enabledAt t KindPM2App g \<and> ParsePM2Target g \<noteq> None) gs"
  by (induction gs arbitrary: st) (auto simp: case_prod_unfold split: option.split sum.split)

interpretation disk: full_report kind
    "\<lambda>t. if kind = KindDiskCapacity then addMounts (hs_Disks (tk_Sample t)) (Targets (tk_defs t) kind) else Targets (tk_defs t) kind"
    "\<lambda>t. enabledAt t kind" "\<lambda>t st. (st, DiskEvaluate kind t)" for kind
  by unfold_locales (auto simp: DiskEvaluate_def observeAll_targets)

interpretation fill: full_report KindDiskFillRate "\<lambda>t. Targets (tk_defs t) KindDiskFillRate"
    "\<lambda>t. enabledAt t KindDiskFillRate" DiskFillEvaluate
  by unfold_locales (metis (mono_tags, lifting) DiskFillEvaluate_def case_prod_unfold fillTargets_targets prod.inject sum.inject(2))

interpretation spike: full_report KindLogErrorSpike "\<lambda>t. Targets (tk_defs t) KindLogErrorSpike"
    "\<lambda>t. enabledAt t KindLogErrorSpike" LogSpikeEvaluate
  by unfold_locales (auto simp: LogSpikeEvaluate_def logTargets_targets split: prod.splits option.splits)

interpretation cert: full_report KindCertExpiry "\<lambda>t. Targets (tk_defs t) KindCertExpiry"
    "\<lambda>t. enabledAt t KindCertExpiry" CertEvaluate
  by unfold_locales (metis (mono_tags, lifting) CertEvaluate_def case_prod_unfold certTargets_targets prod.inject sum.inject(2))

interpretation job: full_report KindJobFreshness "\<lambda>t. Targets (tk_defs t) KindJobFreshness"
    "\<lambda>t. enabledAt t KindJobFreshness" "\<lambda>t st. (st, JobFreshnessEvaluate t)"
  by unfold_locales (simp add: JobFreshnessEvaluate_def jobTargets_targets)

interpretation port: full_report KindPortListening "\<lambda>t. Targets (tk_defs t) KindPortListening"
    "\<lambda>t. enabledAt t KindPortListening" "\<lambda>t st. (st, PortEvaluate t)"
  by unfold_locales (auto simp: PortEvaluate_def Let_def observeAll_targets split: if_splits sum.splits)

interpretation procs: full_report KindProcessRunning "\<lambda>t. Targets (tk_defs t) KindProcessRunning"
    "\<lambda>t. enabledAt t KindProcessRunning" "\<lambda>t st. (st, ProcessEvaluate t)"
  by unfold_locales (auto simp: ProcessEvaluate_def Let_def observeAll_targets split: if_splits sum.splits)

interpretation pm2: full_report KindPM2App "\<lambda>t. sort (Targets (tk_defs t) KindPM2App)"
    "\<lambda>t g. enabledAt t KindPM2App g \<and> ParsePM2Target g \<noteq> None" PM2Evaluate
proof unfold_locales
  fix t st st' obs
  assume "PM2Evaluate t st = (st', Inr obs)"
  then show "map ob_Target obs = filter (\<lambda>g. enabledAt t KindPM2App g \<and> ParsePM2Target g \<noteq> None) (sort (Targets (tk_defs t) KindPM2App))"
    using pm2Targets_targets [of t st "sort (Targets (tk_defs t) KindPM2App)"]
    by (auto simp: PM2Evaluate_def Let_def case_prod_unfold split: if_splits)
qed

text \<open>
  A target that could not be read keeps its state: when a disk is missing from the sample or its reading is
  not available, the tick leaves the state of that monitor exactly as it was, whatever the other disks report; an
  unreadable disk neither fires nor resolves.
\<close>

theorem unreadable_disk_keeps_state:
  assumes "DiskEvaluate kind t = Inr obs" and "enabledAt t kind g" and "g \<in> set (Targets (tk_defs t) kind)"
    and "\<forall>d. byMount (hs_Disks (tk_Sample t)) g = Some d \<longrightarrow> \<not> di_Available d"
  shows "map_of (mo_states (runEvaluator sha hmac now (kind, \<lambda>_. Some obs) m)) (key kind g) = map_of (mo_states m) (key kind g)"
proof (rule disk.held_keeps_state)
  show "(m, DiskEvaluate kind t) = (m, Inr obs)" using assms(1) by simp
  have mono: "set gs \<subseteq> set (addMounts ds gs)" for ds gs
    unfolding addMounts_def
  proof (induction ds arbitrary: gs)
    case (Cons d ds)
    show ?case using Cons.IH [of "gs @ [di_Mountpoint d]"] Cons.IH [of gs] by auto
  qed simp
  show "g \<in> set (if kind = KindDiskCapacity then addMounts (hs_Disks (tk_Sample t)) (Targets (tk_defs t) kind) else Targets (tk_defs t) kind)"
    using assms(3) mono by auto
  have "diskObservation t kind g def = hold g" for def using assms(4) by (simp add: diskObservation_def split: option.split)
  then show "list_all (\<lambda>ob. ob_Target ob = g \<longrightarrow> ob_Hold ob) obs"
    using assms(1) by (auto simp: DiskEvaluate_def Let_def list_all_iff observeAll_mem)
qed (rule assms(2))

section \<open>The hysteresis band\<close>






section \<open>Crash loops\<close>

text \<open>The restarts that a sequence of readings of a restart count shows after a time.\<close>

definition restartsSince :: "time \<Rightarrow> (int \<times> time) list \<Rightarrow> int" where
  "restartsSince cutoff rs =
     sum_list (map (\<lambda>((c, _), (c', t')). if t' > cutoff then c' - c else 0) (zip rs (tl rs)))"

definition observeRestarts :: "(int \<times> time) list \<Rightarrow> restartTrack \<Rightarrow> restartTrack" where
  "observeRestarts rs tr = foldl (\<lambda>tr (c, t). trackRestarts tr c t) tr rs"

lemma observeRestarts_count:
  assumes "sorted (map fst ((c0, t0) # rs))" and "sorted (map snd ((c0, t0) # rs))" and "rt_lastCount tr = c0"
    and "cutoff = snd (last ((c0, t0) # rs)) - crashLoopWindow"
  shows "int (length (filter (\<lambda>x. x > cutoff) (rt_increases (observeRestarts rs tr)))) =
      int (length (filter (\<lambda>x. x > cutoff) (rt_increases tr))) + restartsSince cutoff ((c0, t0) # rs)"
  using assms
proof (induction rs arbitrary: c0 t0 tr)
  case Nil
  then show ?case by (simp add: observeRestarts_def restartsSince_def)
next
  case (Cons r rs)
  obtain c t where r: "r = (c, t)" by (cases r)
  let ?tr = "trackRestarts tr c t"
  have le: "c0 \<le> c" "t0 \<le> t" using Cons.prems r by auto
  have last: "last ((c0, t0) # r # rs) = last ((c, t) # rs)" by (simp add: r)
  have tl: "t \<le> snd (last ((c, t) # rs))"
  proof (cases rs)
    case (Cons a list)
    then have "last rs \<in> set rs" by simp
    with Cons.prems(2) r show ?thesis by (auto simp: Cons)
  qed simp
  have sub: "t - crashLoopWindow \<le> cutoff" using tl Cons.prems(4) last by simp
  have inc: "rt_lastCount ?tr = c"
    "filter (\<lambda>x. x > cutoff) (rt_increases ?tr) =
       filter (\<lambda>x. x > cutoff) (rt_increases tr) @ (if t > cutoff then replicate (nat (c - c0)) t else [])"
  proof -
    show "rt_lastCount ?tr = c" using le Cons.prems(3) by (simp add: trackRestarts_def Let_def)
    have "(\<lambda>x. x > cutoff \<and> x > t - crashLoopWindow) = (\<lambda>x. x > cutoff)" using sub by auto
    then show "filter (\<lambda>x. x > cutoff) (rt_increases ?tr) =
       filter (\<lambda>x. x > cutoff) (rt_increases tr) @ (if t > cutoff then replicate (nat (c - c0)) t else [])"
      using le Cons.prems(3) by (auto simp: trackRestarts_def Let_def conj_commute filter_replicate)
  qed
  have "int (length (filter (\<lambda>x. x > cutoff) (rt_increases (observeRestarts rs ?tr)))) =
      int (length (filter (\<lambda>x. x > cutoff) (rt_increases ?tr))) + restartsSince cutoff ((c, t) # rs)"
    using Cons.IH [of c t ?tr] Cons.prems inc(1) last r by (simp add: r)
  moreover have "restartsSince cutoff ((c0, t0) # r # rs) = (if t > cutoff then c - c0 else 0) + restartsSince cutoff ((c, t) # rs)"
    by (simp add: restartsSince_def r)
  moreover have "observeRestarts (r # rs) tr = observeRestarts rs ?tr" by (simp add: observeRestarts_def r)
  ultimately show ?case using inc(2) le by simp
qed

lemma observeRestarts_recent:
  assumes "rs \<noteq> []" and "sorted (map snd rs)"
  shows "list_all (\<lambda>x. x > snd (last rs) - crashLoopWindow) (rt_increases (observeRestarts rs tr))"
proof -
  obtain rs' c t where rs: "rs = rs' @ [(c, t)]" using assms(1) by (metis rev_exhaust surj_pair)
  have "observeRestarts rs tr = trackRestarts (observeRestarts rs' tr) c t" by (simp add: observeRestarts_def rs)
  then show ?thesis by (simp add: rs trackRestarts_def Let_def list_all_iff)
qed

text \<open>Successive readings of one container through the evaluator's state.\<close>

definition readings :: "string \<Rightarrow> (int \<times> time) list \<Rightarrow> DockerState \<Rightarrow> DockerState" where
  "readings i rs st = foldl (\<lambda>st (c, t). fst (trackCrashLoop st i c t)) st rs"

lemma trackCrashLoop_tracked:
  assumes "map_of (dk_restarts st) i = Some tr"
  shows "map_of (dk_restarts (fst (trackCrashLoop st i c t))) i = Some (trackRestarts tr c t)"
    and "snd (trackCrashLoop st i c t) \<longleftrightarrow> length (rt_increases (trackRestarts tr c t)) \<ge> crashLoopRestarts"
  by (simp_all add: trackCrashLoop_def Let_def assms map_of_AList_update)

lemma readings_tracked:
  "map_of (dk_restarts st) i = Some tr \<Longrightarrow> map_of (dk_restarts (readings i rs st)) i = Some (observeRestarts rs tr)"
proof (induction rs arbitrary: st tr)
  case (Cons r rs)
  obtain c t where r: "r = (c, t)" by (cases r)
  from Cons.IH [OF trackCrashLoop_tracked(1) [OF Cons.prems]] show ?case
    by (simp add: readings_def observeRestarts_def r)
qed (simp add: readings_def observeRestarts_def)

text \<open>
  C37. A crash loop is what it says: for a container that is first seen with restart count \<open>c0\<close> and whose count does
  not fall, the evaluator reports a crash loop at a reading exactly when at least three restarts were
  counted in the five minutes before it, whatever the earlier readings were and however many restarts fall
  between two of them.
\<close>

theorem crash_loop_exact:
  assumes "map_of (dk_restarts st) i = None" and "sorted (map fst ((c0, t0) # rs @ [(c, t)]))"
    and "sorted (map snd ((c0, t0) # rs @ [(c, t)]))"
  shows "snd (trackCrashLoop (readings i ((c0, t0) # rs) st) i c t) \<longleftrightarrow>
    restartsSince (t - 5 * minute) ((c0, t0) # rs @ [(c, t)]) \<ge> 3"
proof -
  let ?tr0 = "\<lparr>rt_lastCount = c0, rt_increases = []\<rparr>"
  have w: "t - 5 * minute = t - crashLoopWindow" by (simp add: crashLoopWindow_def)
  have "map_of (dk_restarts (fst (trackCrashLoop st i c0 t0))) i = Some ?tr0"
    using assms(1) by (simp add: trackCrashLoop_def Let_def trackRestarts_def map_of_AList_update)
  from readings_tracked [OF this, of rs]
  have "map_of (dk_restarts (readings i ((c0, t0) # rs) st)) i = Some (observeRestarts rs ?tr0)" by (simp add: readings_def)
  from trackCrashLoop_tracked(2) [OF this, of c t]
  have s: "snd (trackCrashLoop (readings i ((c0, t0) # rs) st) i c t) \<longleftrightarrow>
      length (rt_increases (observeRestarts (rs @ [(c, t)]) ?tr0)) \<ge> 3"
    by (simp add: observeRestarts_def crashLoopRestarts_def)
  have "filter (\<lambda>x. x > t - crashLoopWindow) (rt_increases (observeRestarts (rs @ [(c, t)]) ?tr0)) =
      rt_increases (observeRestarts (rs @ [(c, t)]) ?tr0)"
    using observeRestarts_recent [of "rs @ [(c, t)]" ?tr0] assms(3) by (simp add: filter_id_conv list_all_iff)
  with observeRestarts_count [OF assms(2,3), of ?tr0 "t - crashLoopWindow"]
  have "int (length (rt_increases (observeRestarts (rs @ [(c, t)]) ?tr0))) =
      restartsSince (t - crashLoopWindow) ((c0, t0) # rs @ [(c, t)])" by simp
  with s show ?thesis unfolding w by linarith
qed

text \<open>
  A failed inspection when a container is first seen looks like a crash loop later: the evaluator then records
  restart count zero, and the first successful inspection counts every restart of the container's life as
  one that just happened.
\<close>

theorem failed_inspect_looks_like_crash_loop:
  assumes "map_of (dk_restarts st) (ct_ID s) = None" and "EqualFold (ct_State s) ''running''"
    and "tk_Container t1 (ct_ID s) = Inl e" and "tk_Container t2 (ct_ID s) = Inr d" and "3 \<le> cn_RestartCount d"
  shows "ob_Failing (snd (containerObserve t2 (fst (containerObserve t1 st s def)) s def))"
proof -
  let ?st = "fst (containerObserve t1 st s def)"
  have "map_of (dk_restarts ?st) (ct_ID s) = Some \<lparr>rt_lastCount = 0, rt_increases = []\<rparr>"
    using assms(1-3) by (simp add: containerObserve_def trackCrashLoop_def trackRestarts_def noInspect_def Let_def map_of_AList_update)
  moreover have "3 \<le> nat (cn_RestartCount d)" using assms(5) by linarith
  ultimately show ?thesis using assms(2,4,5)
    by (simp add: containerObserve_def trackCrashLoop_def trackRestarts_def Let_def crashLoopRestarts_def
        crashLoopWindow_def minute_def second_def filter_replicate)
qed

text \<open>
  A restart count that falls (Docker counts from zero again after a manual start) is not followed: until the count
  passes its old value no restart is seen, so a crash loop in that range is not reported.
\<close>

theorem counter_reset_hides_restarts:
  assumes "map_of (dk_restarts st) i = Some \<lparr>rt_lastCount = n, rt_increases = []\<rparr>" and "list_all (\<lambda>(c, _). c \<le> n) rs"
  shows "\<not> snd (trackCrashLoop (readings i rs st) i n t)"
proof -
  have "observeRestarts rs \<lparr>rt_lastCount = n, rt_increases = []\<rparr> = \<lparr>rt_lastCount = n, rt_increases = []\<rparr>"
    using assms(2) unfolding observeRestarts_def by (induction rs) (auto simp: trackRestarts_def Let_def)
  with readings_tracked [OF assms(1), of rs]
  have "map_of (dk_restarts (readings i rs st)) i = Some \<lparr>rt_lastCount = n, rt_increases = []\<rparr>" by simp
  from trackCrashLoop_tracked(2) [OF this] show ?thesis by (simp add: trackRestarts_def Let_def crashLoopRestarts_def)
qed

section \<open>The fill-rate history\<close>

definition spaced :: "fillSample list \<Rightarrow> bool" where
  "spaced ss \<longleftrightarrow> sorted_wrt (\<lambda>a b. fst a + minute \<le> fst b) ss"

lemma TimeSub_minute: "TimeSub a b < fillSampleEvery \<longleftrightarrow> a - b < minute"
  by (auto simp: TimeSub_def fillSampleEvery_def minute_def second_def)

lemma TimeSub_window: "TimeSub a b > fillWindowMax \<longleftrightarrow> a - b > 180 * minute"
  by (auto simp: TimeSub_def fillWindowMax_def hour_def minute_def second_def)

lemma dropOld_suffix: "ss \<noteq> [] \<Longrightarrow> \<exists>pre. ss = pre @ dropOld now ss \<and> dropOld now ss \<noteq> []"
proof (induction now ss rule: dropOld.induct)
  case (3 now s a ss)
  show ?case
  proof (cases "TimeSub now (fst s) > fillWindowMax")
    case True
    with 3 obtain pre where "a # ss = pre @ dropOld now (a # ss)" "dropOld now (a # ss) \<noteq> []" by auto
    with True show ?thesis by (intro exI [of _ "s # pre"]) simp
  qed simp
qed simp_all

lemma dropOld_recent: "length (dropOld now ss) \<le> 1 \<or> now - fst (hd (dropOld now ss)) \<le> 180 * minute"
  by (induction now ss rule: dropOld.induct) (auto simp: TimeSub_window)

lemma spaced_span: "spaced ss \<Longrightarrow> ss \<noteq> [] \<Longrightarrow> fst (hd ss) + int (length ss - 1) * minute \<le> fst (last ss)"
proof (induction ss)
  case (Cons s ss)
  show ?case
  proof (cases ss)
    case (Cons a list)
    then have "fst s + minute \<le> fst a" using Cons.prems(1) by (simp add: spaced_def)
    moreover have "fst a + int (length list) * minute \<le> fst (last ss)"
      using Cons.IH Cons.prems(1) Cons by (simp add: spaced_def)
    ultimately show ?thesis using Cons by (simp add: algebra_simps)
  qed simp
qed simp

lemma appendSample_ok:
  assumes "spaced (fw_samples w)" and "\<forall>s \<in> set (fw_samples w). fst s + minute \<le> now"
  shows "spaced (fw_samples (appendSample now u w)) \<and> length (fw_samples (appendSample now u w)) \<le> 181"
proof -
  let ?all = "fw_samples w @ [(now, u)]"
  have sp: "spaced ?all" using assms by (simp add: spaced_def sorted_wrt_append)
  obtain pre where d: "?all = pre @ dropOld now ?all" "dropOld now ?all \<noteq> []" using dropOld_suffix [of ?all now] by auto
  then have s: "spaced (dropOld now ?all)" using sp by (metis spaced_def sorted_wrt_append)
  have "fst (last (dropOld now ?all)) = now" using d by (metis fst_conv last_appendR last_snoc)
  with spaced_span [OF s d(2)] dropOld_recent [of now ?all] have "int (length (dropOld now ?all) - 1) * minute \<le> 180 * minute"
    by (cases "length (dropOld now ?all) \<le> 1") (auto simp: minute_def second_def)
  then have "length (dropOld now ?all) \<le> 181" by (simp add: minute_def second_def)
  with s show ?thesis by (simp add: appendSample_def)
qed

lemma recordFill_ok:
  assumes "spaced (fw_samples w)" and "length (fw_samples w) \<le> 181"
  shows "spaced (fw_samples (recordFill w d now)) \<and> length (fw_samples (recordFill w d now)) \<le> 181"
proof (cases "fw_samples w = []")
  case True
  then show ?thesis using appendSample_ok [of w now "of_nat (di_UsedBytes d)"] by (simp add: recordFill_def spaced_def)
next
  case False
  obtain t u where l: "last (fw_samples w) = (t, u)" by (cases "last (fw_samples w)")
  have le: "fst s \<le> t" if "s \<in> set (fw_samples w)" for s
  proof -
    obtain xs where xs: "fw_samples w = xs @ [(t, u)]" using l False by (metis append_butlast_last_id)
    then have "s \<in> set xs \<Longrightarrow> fst s + minute \<le> t" using assms(1) by (simp add: spaced_def sorted_wrt_append)
    with that xs show ?thesis by (auto simp: minute_def second_def)
  qed
  have "spaced (fw_samples (appendSample now x (w\<lparr>fw_samples := [], fw_reset := True\<rparr>))) \<and>
      length (fw_samples (appendSample now x (w\<lparr>fw_samples := [], fw_reset := True\<rparr>))) \<le> 181" for x
    by (rule appendSample_ok) (simp_all add: spaced_def)
  moreover have "spaced (fw_samples (appendSample now x w)) \<and> length (fw_samples (appendSample now x w)) \<le> 181"
    if "\<not> TimeSub now t < fillSampleEvery" for x
    using that le by (intro appendSample_ok assms(1)) (force simp: TimeSub_minute)
  ultimately show ?thesis using False l assms by (simp add: recordFill_def Let_def)
qed

text \<open>
  The history of the fill-rate monitor stays small whatever the clock and the disk do: over any sequence of
  readings at any times, forwards or backwards, a window holds at most 181 samples, at least a minute apart.
\<close>

theorem fill_window_bounded:
  "let w = foldl (\<lambda>w (d, now). recordFill w d now) newWindow rs in
     length (fw_samples w) \<le> 181 \<and> sorted_wrt (\<lambda>a b. fst a + minute \<le> fst b) (fw_samples w)"
proof -
  have "spaced (fw_samples (foldl (\<lambda>w (d, now). recordFill w d now) w rs)) \<and>
      length (fw_samples (foldl (\<lambda>w (d, now). recordFill w d now) w rs)) \<le> 181"
    if "spaced (fw_samples w)" "length (fw_samples w) \<le> 181" for w
    using that
  proof (induction rs arbitrary: w)
    case (Cons r rs)
    then show ?case using recordFill_ok [of w "fst r" "snd r"] by (cases r) simp
  qed simp
  from this [of newWindow] show ?thesis by (simp add: newWindow_def spaced_def Let_def)
qed

section \<open>The trend\<close>

text \<open>Least squares on points of a line: the slope is the line's, and the fit is perfect.\<close>

lemma sum_list_affine:
  fixes xs :: "rat list"
  shows "sum_list (map (\<lambda>x. a + b * x) xs) = of_nat (length xs) * a + b * sum_list xs"
    and "sum_list (map (\<lambda>x. x * (a + b * x)) xs) = a * sum_list xs + b * sum_list (map (\<lambda>x. x * x) xs)"
    and "sum_list (map (\<lambda>x. (a + b * x) * (a + b * x)) xs) =
      of_nat (length xs) * a * a + 2 * a * b * sum_list xs + b * b * sum_list (map (\<lambda>x. x * x) xs)"
  by (induction xs) (simp_all add: algebra_simps)

lemma deviation_nonneg:
  fixes xs :: "rat list"
  shows "sum_list xs * sum_list xs \<le> of_nat (length xs) * sum_list (map (\<lambda>x. x * x) xs)"
proof (cases "xs = []")
  case False
  let ?n = "of_nat (length xs) :: rat" and ?s = "sum_list xs"
  have n: "0 < ?n" using False by simp
  have "0 \<le> sum_list (map (\<lambda>x. (?n * x - ?s) * (?n * x - ?s)) xs)"
    by (rule sum_list_nonneg) auto
  also have "\<dots> = sum_list (map (\<lambda>x. (- ?s + ?n * x) * (- ?s + ?n * x)) xs)" by (simp add: algebra_simps)
  also have "\<dots> = ?n * (?n * sum_list (map (\<lambda>x. x * x) xs) - ?s * ?s)"
    unfolding sum_list_affine(3) by (simp add: algebra_simps)
  finally show ?thesis using n by (simp add: zero_le_mult_iff)
qed simp

lemma fit_line:
  fixes a b :: rat
  assumes b: "b \<noteq> 0" and line: "map snd ss = map (\<lambda>x. a + b * x) xs" "xs = map (\<lambda>s. seconds (TimeSub (fst s) (fst (hd ss)))) ss"
    and spread: "of_nat (length xs) * sum_list (map (\<lambda>x. x * x) xs) \<noteq> sum_list xs * sum_list xs"
  shows "fitSlope ss = (b, 1)"
proof -
  let ?n = "of_nat (length xs) :: rat"
  define den where "den = ?n * sum_list (map (\<lambda>x. x * x) xs) - sum_list xs * sum_list xs"
  have den: "den > 0" using deviation_nonneg [of xs] spread by (simp add: den_def)
  have z: "map (\<lambda>(x, y). x * y) (zip xs (map snd ss)) = map (\<lambda>x. x * (a + b * x)) xs"
    unfolding line(1) by (simp add: zip_map2 zip_same_conv_map comp_def)
  have c: "?n * sum_list (map (\<lambda>(x, y). x * y) (zip xs (map snd ss))) - sum_list xs * sum_list (map snd ss) = b * den"
    unfolding z unfolding line(1) sum_list_affine(1,2) by (simp add: den_def algebra_simps)
  have y2: "sum_list (map (\<lambda>y. y * y) (map snd ss)) = sum_list (map (\<lambda>x. (a + b * x) * (a + b * x)) xs)"
    unfolding line(1) by (simp add: comp_def)
  have v: "?n * sum_list (map (\<lambda>y. y * y) (map snd ss)) - sum_list (map snd ss) * sum_list (map snd ss) = b * b * den"
    unfolding y2 unfolding line(1) sum_list_affine(1,3) by (simp add: den_def algebra_simps)
  have len: "length ss = length xs" using line(2) by simp
  have bb: "0 < b * b" using b by (simp add: zero_less_mult_iff) (metis linorder_neqE_linordered_idom)
  then have "\<not> b * b * den \<le> 0" using den by (metis mult_pos_pos not_le)
  then show ?thesis
    using den b unfolding fitSlope_def Let_def line(2) [symmetric] len c v den_def [symmetric]
    by (simp add: field_simps)
qed

definition onLine :: "rat \<Rightarrow> rat \<Rightarrow> fillSample list \<Rightarrow> bool" where
  "onLine a b ss \<longleftrightarrow> list_all (\<lambda>(t, u). 0 \<le> t \<and> t < 2 ^ 62 \<and> u = a + b * seconds t) ss"

lemma spread_increasing:
  fixes xs :: "rat list"
  assumes "sorted_wrt (<) xs" and "2 \<le> length xs"
  shows "of_nat (length xs) * sum_list (map (\<lambda>x. x * x) xs) \<noteq> sum_list xs * sum_list xs"
proof
  let ?n = "of_nat (length xs) :: rat" and ?s = "sum_list xs"
  assume e: "?n * sum_list (map (\<lambda>x. x * x) xs) = ?s * ?s"
  have "sum_list (map (\<lambda>x. (?n * x - ?s) * (?n * x - ?s)) xs) = sum_list (map (\<lambda>x. (- ?s + ?n * x) * (- ?s + ?n * x)) xs)"
    by (simp add: algebra_simps)
  also have "\<dots> = ?n * (?n * sum_list (map (\<lambda>x. x * x) xs) - ?s * ?s)"
    unfolding sum_list_affine(3) by (simp add: algebra_simps)
  finally have "sum_list (map (\<lambda>x. (?n * x - ?s) * (?n * x - ?s)) xs) = 0" using e by simp
  then have "\<forall>y \<in> set (map (\<lambda>x. (?n * x - ?s) * (?n * x - ?s)) xs). y = 0"
    by (subst (asm) sum_list_nonneg_eq_0_iff) auto
  then have z: "?n * x = ?s" if "x \<in> set xs" for x using that by simp
  obtain x y ys where xs: "xs = x # y # ys" using assms(2) by (cases xs; cases "tl xs") auto
  then have "x < y" using assms(1) by simp
  moreover have "?n * x = ?n * y" using z xs by simp
  ultimately show False using xs by simp
qed

lemma fitSlope_onLine:
  assumes "onLine a b ss" and "sorted_wrt (\<lambda>p q. fst p < fst q) ss" and "2 \<le> length ss" and "b \<noteq> 0"
  shows "fitSlope ss = (b, 1)"
proof -
  let ?t0 = "fst (hd ss)"
  define xs where "xs = map (\<lambda>s. seconds (TimeSub (fst s) ?t0)) ss"
  have h: "hd ss \<in> set ss" using assms(3) by (cases ss) auto
  have sub: "seconds (TimeSub (fst s) ?t0) = seconds (fst s) - seconds ?t0" if "s \<in> set ss" for s
  proof -
    have "0 \<le> fst s" "fst s < 2 ^ 62" "0 \<le> ?t0" "?t0 < 2 ^ 62"
      using assms(1) that h by (auto simp: onLine_def list_all_iff)
    then have "TimeSub (fst s) ?t0 = fst s - ?t0" by (simp add: TimeSub_def)
    then show ?thesis by (simp add: seconds_def diff_divide_distrib)
  qed
  have "snd s = (a + b * seconds ?t0) + b * seconds (TimeSub (fst s) ?t0)" if "s \<in> set ss" for s
  proof -
    have "snd s = a + b * seconds (fst s)" using assms(1) that by (auto simp: onLine_def list_all_iff)
    then show ?thesis unfolding sub [OF that] by (simp add: algebra_simps)
  qed
  then have "map snd ss = map (\<lambda>x. (a + b * seconds ?t0) + b * x) xs" by (simp add: xs_def)
  moreover have "sorted_wrt (<) xs"
    unfolding xs_def sorted_wrt_map
    by (rule sorted_wrt_mono_rel [OF _ assms(2)]) (simp add: sub, simp add: seconds_def second_def divide_strict_right_mono)
  ultimately show ?thesis
    using fit_line [OF assms(4), of ss "a + b * seconds ?t0" xs] spread_increasing [of xs] assms(3) by (simp add: xs_def)
qed

text \<open>
  Steady growth is predicted exactly: when at least four samples lie on a line of growth \<open>b\<close> bytes per second and
  the growth over the window is material, the evaluator predicts that the disk is full after exactly the
  available bytes divided by \<open>b\<close>.
\<close>

theorem steady_growth_predicts:
  assumes "onLine a b ss" and "sorted_wrt (\<lambda>p q. fst p < fst q) ss" and "4 \<le> length ss" and "0 < b"
    and "max fillMinGrowthBytes (fillMinGrowthFraction * tot) \<le> b * seconds (spanOf ss)"
  shows "timeToFull ss avail tot = Some (avail / b / 3600)"
proof -
  let ?mid = "length ss div 2"
  have sub: "fitSlope ys = (b, 1)" if "ys = ss \<or> ys = take (Suc ?mid) ss \<or> ys = drop ?mid ss" for ys
  proof -
    have "set ys \<subseteq> set ss" using that by (auto dest: in_set_takeD in_set_dropD)
    then have "onLine a b ys" using assms(1) by (auto simp: onLine_def list_all_iff)
    moreover have "sorted_wrt (\<lambda>p q. fst p < fst q) ys" using that assms(2) by (auto simp: sorted_wrt_take sorted_wrt_drop)
    moreover have "2 \<le> length ys" using that assms(3) by auto
    ultimately show ?thesis using fitSlope_onLine assms(4) by blast
  qed
  show ?thesis using assms(3-5) sub [of ss] sub [of "take (Suc ?mid) ss"] sub [of "drop ?mid ss"]
    by (simp add: timeToFull_def Let_def fillMinR2_def not_less)
qed

section \<open>Reboots\<close>

lemma GetAgentSetting_cases:
  assumes "GetAgentSetting s k = (s', r)"
  shows "settings s' = settings s \<and>
    (r = Inl ErrDB \<or> r = (case map_of (settings s) k of None \<Rightarrow> Inl ErrNotFound | Some v \<Rightarrow> Inr v))"
  using assms unfolding GetAgentSetting_def by (elim dbCallE) (auto split: option.splits)

lemma PutAgentSetting_cases:
  assumes "PutAgentSetting s k v = (s', r)"
  shows "(r = Inl ErrDB \<and> settings s' = settings s) \<or> (r = Inr () \<and> settings s' = AList.update k v (settings s))"
  using assms unfolding PutAgentSetting_def by (elim dbCallE) auto

definition announces :: "string + Observation list \<Rightarrow> bool" where
  "announces r = (case r of Inr [ob] \<Rightarrow> ob_Failing ob | _ \<Rightarrow> False)"

lemma announces_simps [simp]: "\<not> announces (Inl e)" "\<not> announces (Inr [])" "announces (Inr [rebootObservation def a]) \<longleftrightarrow> a \<noteq> ''''"
  by (auto simp: announces_def rebootObservation_def)

lemma RebootEvaluate_step:
  assumes "RebootEvaluate t s '''' = (s', a', r)" and "tk_BootID t = Inr i"
  shows "a' = '''' \<and>
    (announces r \<longrightarrow> (\<exists>p. map_of (settings s) bootIDKey = Some p \<and> p \<noteq> i) \<and> map_of (settings s') bootIDKey = Some i) \<and>
    (settings s' = settings s \<or> map_of (settings s') bootIDKey = Some i)"
proof (cases "resolveAt t KindRebootDetected ''''")
  case None
  with assms show ?thesis by (auto simp: RebootEvaluate_def)
next
  case (Some def)
  obtain s1 g where g: "GetAgentSetting s bootIDKey = (s1, g)" by fastforce
  obtain s2 p where p: "PutAgentSetting s1 bootIDKey i = (s2, p)" by fastforce
  show ?thesis
    using assms Some g p GetAgentSetting_cases [OF g] PutAgentSetting_cases [OF p]
    by (auto simp: RebootEvaluate_def map_of_AList_update split: sum.splits if_splits option.splits)
qed

fun rebootTicks :: "('a TargetTick_scheme) list \<Rightarrow> store \<Rightarrow> string \<Rightarrow> (string + Observation list) list" where
  "rebootTicks [] s a = []"
| "rebootTicks (t # ts) s a = (case RebootEvaluate t s a of (s, a, r) \<Rightarrow> r # rebootTicks ts s a)"

lemma rebootTicks_known:
  "map_of (settings s) bootIDKey = Some i \<Longrightarrow> list_all (\<lambda>t. tk_BootID t = Inr i) ts \<Longrightarrow>
     filter announces (rebootTicks ts s '''') = []"
proof (induction ts arbitrary: s)
  case (Cons t ts)
  obtain s' a' r where e: "RebootEvaluate t s '''' = (s', a', r)" by (cases "RebootEvaluate t s ''''") auto
  have "a' = ''''" "\<not> announces r" "map_of (settings s') bootIDKey = Some i"
    using RebootEvaluate_step [OF e, of i] Cons.prems by auto
  with Cons.IH [of s'] Cons.prems e show ?case by simp
qed simp

text \<open>
  C39. A reboot is announced at most once: over any number of ticks of one boot, with any failures of the settings
  table, at most one observation says that the host rebooted; and none does when no boot was recorded
  before or the recorded one is this boot.
\<close>

theorem reboot_announced_at_most_once:
  assumes "list_all (\<lambda>t. tk_BootID t = Inr i) ts"
  shows "length (filter announces (rebootTicks ts s '''')) \<le> 1 \<and>
    (map_of (settings s) bootIDKey = None \<or> map_of (settings s) bootIDKey = Some i \<longrightarrow>
      filter announces (rebootTicks ts s '''') = [])"
  using assms
proof (induction ts arbitrary: s)
  case (Cons t ts)
  obtain s' a' r where e: "RebootEvaluate t s '''' = (s', a', r)" by (cases "RebootEvaluate t s ''''") auto
  have i: "tk_BootID t = Inr i" using Cons.prems by simp
  note st = RebootEvaluate_step [OF e i]
  have keep: "map_of (settings s') bootIDKey = None \<or> map_of (settings s') bootIDKey = Some i"
    if "map_of (settings s) bootIDKey = None \<or> map_of (settings s) bootIDKey = Some i"
    using that st by auto
  show ?case
  proof (cases "announces r")
    case True
    then have "filter announces (rebootTicks ts s' '''') = []" using st Cons.prems rebootTicks_known [of s' i ts] by simp
    with True st e show ?thesis by auto
  next
    case False
    with Cons.IH [of s'] Cons.prems st e keep show ?thesis by auto
  qed
qed simp

section \<open>A host with two disks\<close>

definition exDisk :: "string \<Rightarrow> bool \<Rightarrow> Disk" where
  "exDisk m ok = \<lparr>di_Mountpoint = m, di_Available = ok, di_Percent = 97, di_InodePercent = 10, di_TotalBytes = 1000,
     di_UsedBytes = 970, di_AvailableBytes = 30\<rparr>"

definition exTick :: "string \<Rightarrow> TargetTick" where
  "exTick boot = \<lparr>tk_now = 0, tk_defs = NewDefinitionSet DefaultDefinitions, tk_held = (\<lambda>_ _. False),
     tk_Sample = \<lparr>hs_CPU = None, hs_Load5 = None, hs_Memory = None, hs_Swap = 0, hs_Disks = [exDisk ''/data'' True, exDisk ''/'' False]\<rparr>,
     tk_OOMEvents = (\<lambda>_. Inr []), tk_Cores = 1, tk_Containers = Inr [], tk_Container = (\<lambda>_. Inr noInspect), tk_Systemd = True,
     tk_Units = Inr [], tk_ReadFrom = (\<lambda>_ _ _. Inr ('''', 0)), tk_Run = (\<lambda>_. Inr ''''), tk_compile = (\<lambda>_. None),
     tk_ReadFile = (\<lambda>_. Inr ''''), tk_pem = (\<lambda>_. []), tk_parseCert = (\<lambda>_. Inr 0), tk_CertNotAfter = (\<lambda>_ _. Inr 0),
     tk_Glob = (\<lambda>_. Inr []), tk_Stat = (\<lambda>_. None), tk_Listening = Inr [], tk_parseIP = (\<lambda>_. None), tk_Running = Inr [],
     tk_BootID = Inr boot, tk_Apps = (\<lambda>_. Inr [])\<rparr>"

lemma exTick_facts:
  "enabledAt (exTick b) KindDiskCapacity ''/''" "''/'' \<in> set (Targets (tk_defs (exTick b)) KindDiskCapacity)"
  by code_simp+

theorem unreadable_disk_keeps_state_witness:
  "\<exists>obs. DiskEvaluate KindDiskCapacity (exTick ''b1'') = Inr obs \<and> map ob_Target obs = [''/'', ''/data''] \<and>
     map_of (mo_states (runEvaluator (\<lambda>_. '''') (\<lambda>_ _. '''') 0 (KindDiskCapacity, \<lambda>_. Some obs) demoMon)) (key KindDiskCapacity ''/'') =
     map_of (mo_states demoMon) (key KindDiskCapacity ''/'')"
proof -
  obtain obs where ob: "DiskEvaluate KindDiskCapacity (exTick ''b1'') = Inr obs" by (simp add: DiskEvaluate_def)
  have t: "map_sum id (map ob_Target) (DiskEvaluate KindDiskCapacity (exTick ''b1'')) = Inr [''/'', ''/data'']" by code_simp
  have "\<not> di_Available d" if "byMount (hs_Disks (tk_Sample (exTick ''b1''))) ''/'' = Some d" for d
    using that by (auto simp: byMount_def exTick_def exDisk_def)
  with unreadable_disk_keeps_state [OF ob exTick_facts] ob t show ?thesis by auto
qed



theorem crash_loop_exact_witness:
  "snd (trackCrashLoop (readings ''c'' [(4, 0), (5, minute)] \<lparr>dk_restarts = [], dk_ran = []\<rparr>) ''c'' 7 (2 * minute)) \<and>
   \<not> snd (trackCrashLoop (readings ''c'' [(4, 0), (5, minute)] \<lparr>dk_restarts = [], dk_ran = []\<rparr>) ''c'' 7 (6 * minute))"
  using crash_loop_exact [of "\<lparr>dk_restarts = [], dk_ran = []\<rparr>" "''c''" 4 0 "[(5, minute)]" 7 "2 * minute"]
    crash_loop_exact [of "\<lparr>dk_restarts = [], dk_ran = []\<rparr>" "''c''" 4 0 "[(5, minute)]" 7 "6 * minute"]
  by (simp add: restartsSince_def minute_def second_def)

theorem steady_growth_predicts_witness:
  "timeToFull (map (\<lambda>k. (k * minute, of_int (k * 60000000))) [0, 1, 2, 3]) 3600000000 1000000000 = Some 1"
proof -
  have onl: "onLine 0 1000000 (map (\<lambda>k. (k * minute, of_int (k * 60000000))) [0, 1, 2, 3])"
    by (simp add: onLine_def seconds_def minute_def second_def)
  show ?thesis
    using steady_growth_predicts [OF onl, of 1000000000 3600000000]
    by (simp add: spanOf_def TimeSub_def seconds_def minute_def second_def fillMinGrowthBytes_def fillMinGrowthFraction_def)
qed

theorem reboot_announced_at_most_once_witness:
  "map announces (rebootTicks [exTick ''b2'', exTick ''b2''] ((emptyStore 0)\<lparr>settings := [(bootIDKey, ''b1'')]\<rparr>) '''') = [True, False]"
proof -
  let ?s = "(emptyStore 0)\<lparr>settings := [(bootIDKey, ''b1'')]\<rparr>"
  have "map announces (rebootTicks [exTick ''b2''] ?s '''') = [True]"
    by (simp add: RebootEvaluate_def) code_simp
  moreover have "length (filter announces (rebootTicks [exTick ''b2'', exTick ''b2''] ?s '''')) \<le> 1"
    using reboot_announced_at_most_once [of "''b2''" "[exTick ''b2'', exTick ''b2'']" ?s] by (simp add: exTick_def)
  ultimately show ?thesis
    by (cases "RebootEvaluate (exTick ''b2'') ?s ''''") (auto split: prod.splits if_splits)
qed

end
