(* ===== verification/Remediation_Wire.thy ===== *)
theory Remediation_Wire
  imports Remediation_Theorems Relay_Client
begin

text \<open>
  What the relay is told about a remediation (\<^verbatim>\<open>internal/watchtower/remediation.go\<close>): the translation of a stored
  event, the projector and the signed request. The lookup of an execution is an argument, the answer of
  the database at that moment. The theorems at the end connect the projector with the remediation manager:
  the output of a step never influences what is sent.
\<close>

section \<open>Types\<close>

record RemediationWireEvent =
  rw_EventID :: string
  rw_Kind :: string
  rw_Actor :: string
  rw_Detail :: string
  rw_OccurredAt :: string
  rw_RunbookID :: string
  rw_ExecutionID :: string
  rw_ContentHash :: string
  rw_Risk :: string
  rw_DiagnosisID :: string
  rw_ProviderVersion :: string
  rw_TokenID :: string
  rw_ResultSummary :: string
  rw_MonitorIDs :: "string list"
  rw_StabilitySeconds :: int

definition bareWire :: "string \<Rightarrow> RemediationWireEvent" where
  "bareWire kind =
     \<lparr>rw_EventID = '''', rw_Kind = kind, rw_Actor = '''', rw_Detail = '''', rw_OccurredAt = '''', rw_RunbookID = '''',
      rw_ExecutionID = '''', rw_ContentHash = '''', rw_Risk = '''', rw_DiagnosisID = '''', rw_ProviderVersion = '''',
      rw_TokenID = '''', rw_ResultSummary = '''', rw_MonitorIDs = [], rw_StabilitySeconds = 0\<rparr>"

record remediationEventData =
  rd_Passed :: "bool option"
  rd_Detail :: string
  rd_Error :: string
  rd_FailedStep :: "int option"
  rd_Reason :: string
  rd_Risk :: string
  rd_DiagnosisID :: string
  rd_ProviderVersion :: string
  rd_ContentHash :: string
  rd_TokenID :: string
  rd_Steps :: "int option"
  rd_MonitorIDs :: "string list"
  rd_StabilitySeconds :: "int option"

text \<open>
  The best-effort decoding: a member of the wrong type leaves a string empty, and a pointer allocated with the
  zero value.
\<close>

definition looseStr :: "members \<Rightarrow> string \<Rightarrow> string" where
  "looseStr ms k = (case map_of ms k of Some (JStr s) \<Rightarrow> s | _ \<Rightarrow> '''')"

definition int64 :: "rat \<Rightarrow> bool" where
  "int64 r \<longleftrightarrow> r = of_int \<lfloor>r\<rfloor> \<and> - (2 ^ 63) \<le> \<lfloor>r\<rfloor> \<and> \<lfloor>r\<rfloor> < 2 ^ 63"

definition ptrInt :: "members \<Rightarrow> string \<Rightarrow> int option" where
  "ptrInt ms k = (case map_of ms k of None \<Rightarrow> None | Some JNull \<Rightarrow> None
     | Some (JNum r) \<Rightarrow> Some (if int64 r then \<lfloor>r\<rfloor> else 0) | Some _ \<Rightarrow> Some 0)"

definition ptrBool :: "members \<Rightarrow> string \<Rightarrow> bool option" where
  "ptrBool ms k = (case map_of ms k of None \<Rightarrow> None | Some JNull \<Rightarrow> None
     | Some (JBool b) \<Rightarrow> Some b | Some _ \<Rightarrow> Some False)"

definition looseStrs :: "members \<Rightarrow> string \<Rightarrow> string list" where
  "looseStrs ms k = (case map_of ms k of
     Some (JArr xs) \<Rightarrow> map (\<lambda>j. case j of JStr s \<Rightarrow> s | _ \<Rightarrow> '''') xs | _ \<Rightarrow> [])"

definition decodeData :: "json \<Rightarrow> remediationEventData" where
  "decodeData j =
     (let ms = (case j of JObj ms \<Rightarrow> ms | _ \<Rightarrow> []) in
      \<lparr>rd_Passed = ptrBool ms ''passed'', rd_Detail = looseStr ms ''detail'', rd_Error = looseStr ms ''error'',
       rd_FailedStep = ptrInt ms ''failed_step'', rd_Reason = looseStr ms ''reason'', rd_Risk = looseStr ms ''risk'',
       rd_DiagnosisID = looseStr ms ''diagnosis_id'', rd_ProviderVersion = looseStr ms ''provider_version'',
       rd_ContentHash = looseStr ms ''content_hash'', rd_TokenID = looseStr ms ''token_id'',
       rd_Steps = ptrInt ms ''steps'', rd_MonitorIDs = looseStrs ms ''monitor_ids'',
       rd_StabilitySeconds = ptrInt ms ''stability_seconds''\<rparr>)"

section \<open>Translation\<close>

definition stepsText :: "int \<Rightarrow> string" where
  "stepsText n = Itoa n @ '' step(s)''"

definition proposedDetail :: "remediationEventData \<Rightarrow> string" where
  "proposedDetail d =
     (case rd_Steps d of
        Some n \<Rightarrow> if rd_Risk d \<noteq> '''' then rd_Risk d @ '' runbook, '' @ stepsText n else stepsText n
      | None \<Rightarrow> if rd_Risk d \<noteq> '''' then rd_Risk d @ '' runbook'' else ''runbook proposed'')"

definition translateRemediationEvent :: "RemediationEvent \<Rightarrow> RemediationWireEvent option" where
  "translateRemediationEvent ev =
     (let d = decodeData (ev_Data ev); t = ev_Type ev in
      if t = ''runbook_proposed'' then
        Some ((bareWire ''runbook_proposed'')\<lparr>rw_Detail := proposedDetail d, rw_Risk := rd_Risk d,
          rw_DiagnosisID := rd_DiagnosisID d, rw_ProviderVersion := rd_ProviderVersion d\<rparr>)
      else if t = ''runbook_blocked'' then
        Some ((bareWire ''runbook_blocked'')\<lparr>
          rw_Detail := (if rd_Reason d = '''' then ''destructive runbook blocked by default'' else rd_Reason d),
          rw_Risk := rd_Risk d\<rparr>)
      else if t = ''runbook_approved'' then Some ((bareWire ''runbook_approved'')\<lparr>rw_TokenID := rd_TokenID d\<rparr>)
      else if t = ''runbook_declined'' then Some ((bareWire ''runbook_declined'')\<lparr>rw_Detail := rd_Reason d\<rparr>)
      else if t = ''execution_started'' then
        Some ((bareWire ''execution_started'')\<lparr>
          rw_Detail := (case rd_Steps d of Some n \<Rightarrow> stepsText n | None \<Rightarrow> ''''), rw_TokenID := rd_TokenID d\<rparr>)
      else if t = ''verification_started'' then
        Some ((bareWire ''verification_started'')\<lparr>rw_MonitorIDs := rd_MonitorIDs d,
          rw_StabilitySeconds := (case rd_StabilitySeconds d of Some n \<Rightarrow> n | None \<Rightarrow> 0)\<rparr>)
      else if t = ''remediation_failed'' then
        Some ((bareWire ''execution_failed'')\<lparr>rw_Detail :=
          (if rd_Reason d \<noteq> '''' then rd_Reason d
           else case rd_FailedStep d of Some n \<Rightarrow> ''step '' @ Itoa n @ '' failed'' | None \<Rightarrow> ''remediation failed'')\<rparr>)
      else if t = ''internal_verification'' then
        Some ((bareWire (if rd_Passed d = Some True then ''internal_verification_passed'' else ''internal_verification_failed''))\<lparr>
          rw_Detail := (if rd_Error d = '''' then rd_Detail d
             else if rd_Detail d \<noteq> '''' then rd_Detail d @ '': '' @ rd_Error d else rd_Error d),
          rw_ResultSummary := rd_Detail d\<rparr>)
      else None)"

section \<open>The request\<close>

definition omitInt :: "string \<Rightarrow> int \<Rightarrow> members" where
  "omitInt k n = (if n = 0 then [] else [(k, JInt n)])"

definition wireEventMembers :: "RemediationWireEvent \<Rightarrow> members" where
  "wireEventMembers e =
     [(''eventId'', JStr (rw_EventID e)), (''kind'', JStr (rw_Kind e))] @ omitStr ''actor'' (rw_Actor e) @
     omitStr ''detail'' (rw_Detail e) @ omitStr ''occurredAt'' (rw_OccurredAt e) @
     omitStr ''runbookId'' (rw_RunbookID e) @ omitStr ''executionId'' (rw_ExecutionID e) @
     omitStr ''contentHash'' (rw_ContentHash e) @ omitStr ''risk'' (rw_Risk e) @
     omitStr ''diagnosisId'' (rw_DiagnosisID e) @ omitStr ''providerVersion'' (rw_ProviderVersion e) @
     omitStr ''tokenId'' (rw_TokenID e) @ omitStr ''resultSummary'' (rw_ResultSummary e) @
     omitList ''monitorIds'' JStr (rw_MonitorIDs e) @ omitInt ''stabilitySeconds'' (rw_StabilitySeconds e)"

definition remediationEventPayload :: "string \<Rightarrow> RemediationWireEvent \<Rightarrow> json" where
  "remediationEventPayload incidentID e =
     JObj [(''kind'', JStr ''remediation_event''), (''incidentId'', JStr incidentID), (''event'', JObj (wireEventMembers e))]"

definition SendRemediationEvent ::
    "(json \<Rightarrow> string) \<Rightarrow> (string \<Rightarrow> string \<Rightarrow> string) \<Rightarrow> wt \<Rightarrow> string \<Rightarrow> RemediationWireEvent \<Rightarrow> wt \<times> (werr + unit)" where
  "SendRemediationEvent sha hmac c incidentID e =
     andThen (post sha hmac c (''/v1/incidents/'' @ incidentID @ ''/remediation-events'') (remediationEventPayload incidentID e))
       (\<lambda>c _. (c, Inr ()))"

section \<open>The projector\<close>

text \<open>\<open>client\<close> and \<open>lookup\<close> are \<open>None\<close> when the projector was built without them.\<close>

definition fillIdentity :: "RemediationEvent \<Rightarrow> RemediationExecution \<Rightarrow> RemediationWireEvent \<Rightarrow> RemediationWireEvent" where
  "fillIdentity ev exec w =
     w\<lparr>rw_EventID := ev_ExecutionID ev @ ''#'' @ Itoa (ev_Seq ev), rw_Actor := ''agent'',
       rw_OccurredAt := formatRFC3339 (ev_CreatedAt ev), rw_RunbookID := re_RunbookID exec,
       rw_ExecutionID := ev_ExecutionID ev,
       rw_ContentHash := (if rw_ContentHash w = '''' then re_RunbookHash exec else rw_ContentHash w)\<rparr>"

definition Project ::
    "(json \<Rightarrow> string) \<Rightarrow> (string \<Rightarrow> string \<Rightarrow> string) \<Rightarrow> (string \<Rightarrow> store_err + RemediationExecution) option \<Rightarrow>
     wt option \<Rightarrow> RemediationEvent \<Rightarrow> wt option \<times> (werr + unit)" where
  "Project sha hmac lookup client ev =
     (case client of None \<Rightarrow> (client, Inr ())
      | Some c \<Rightarrow>
          if wt_creds c = None then (client, Inr ())
          else (case translateRemediationEvent ev of None \<Rightarrow> (client, Inr ())
            | Some w \<Rightarrow>
                (case lookup of None \<Rightarrow> (client, Inr ())
                 | Some look \<Rightarrow>
                     (case look (ev_ExecutionID ev) of Inl _ \<Rightarrow> (client, Inr ())
                      | Inr exec \<Rightarrow>
                          (case SendRemediationEvent sha hmac c (re_IncidentID exec) (fillIdentity ev exec w) of
                             (c, r) \<Rightarrow> (Some c, r))))))"

section \<open>The vocabulary of the relay\<close>

definition relayKinds :: "string list" where
  "relayKinds = [''runbook_proposed'', ''runbook_blocked'', ''runbook_approved'', ''runbook_declined'', ''execution_started'',
     ''execution_failed'', ''verification_started'', ''internal_verification_passed'', ''internal_verification_failed'']"

lemma translate_kind: "translateRemediationEvent ev = Some w \<Longrightarrow> rw_Kind w \<in> set relayKinds \<and> ev_Type ev \<noteq> ''step_result''"
  by (auto simp: translateRemediationEvent_def bareWire_def relayKinds_def Let_def split: if_splits)

text \<open>A step result is never projected, whatever the lookup would answer.\<close>

lemma Project_step_result [simp]: "ev_Type ev = ''step_result'' \<Longrightarrow> Project sha hmac lookup client ev = (client, Inr ())"
  by (auto simp: Project_def translateRemediationEvent_def split: option.splits)

section \<open>Stores that differ only in what a step printed\<close>

definition scrubEvent :: "RemediationEvent \<Rightarrow> RemediationEvent" where
  "scrubEvent ev = (if ev_Type ev = ''step_result'' then ev\<lparr>ev_Data := JNull\<rparr> else ev)"

definition scrubAudit :: "AuditEntry \<Rightarrow> AuditEntry" where
  "scrubAudit e = (if ae_Type e = ''remediation.step.result'' then e\<lparr>ae_Data := JNull\<rparr> else e)"

definition scrub :: "store \<Rightarrow> store" where
  "scrub s = s\<lparr>events := map scrubEvent (events s), audits := map scrubAudit (audits s)\<rparr>"

lemma scrub_fields [simp]:
  "executions (scrub s) = executions s" "runbooks (scrub s) = runbooks s" "faults (scrub s) = faults s"
  "wallClock (scrub s) = wallClock s" "length (audits (scrub s)) = length (audits s)"
  "(scrub s)\<lparr>faults := fs\<rparr> = scrub (s\<lparr>faults := fs\<rparr>)" "(scrub s)\<lparr>executions := es\<rparr> = scrub (s\<lparr>executions := es\<rparr>)"
  by (simp_all add: scrub_def)

lemma scrubEvent_fields [simp]: "ev_Seq (scrubEvent e) = ev_Seq e" "ev_Type (scrubEvent e) = ev_Type e" "ev_ExecutionID (scrubEvent e) = ev_ExecutionID e"
  by (simp_all add: scrubEvent_def)

lemma nextSeq_scrub [simp]: "nextSeq (scrub s) i = nextSeq s i"
  by (cases "filter (\<lambda>e. ev_ExecutionID e = i) (events s)")
    (simp_all add: nextSeq_def scrub_def filter_map comp_def image_image)

text \<open>A store operation that does not look at those texts.\<close>

definition blind :: "(store \<Rightarrow> store \<times> 'a) \<Rightarrow> bool" where
  "blind f \<longleftrightarrow> (\<forall>s. f (scrub s) = apfst scrub (f s))"

lemma blind_dbCall: "blind k \<Longrightarrow> blind (\<lambda>s. dbCall s k)"
  by (auto simp: blind_def dbCall_def split: list.splits bool.splits)

lemma blind_get [simp]: "blind (\<lambda>s. GetExecution s i)" "blind (\<lambda>s. GetRunbook s i)"
  unfolding GetExecution_def GetRunbook_def by (rule blind_dbCall; simp add: blind_def split: option.split)+

lemma blind_transition [simp]: "blind (\<lambda>s. TransitionExecution s i a b ts)"
proof (cases "b \<in> set remediationStatuses")
  case True
  then show ?thesis unfolding TransitionExecution_def by simp (rule blind_dbCall, simp add: blind_def Let_def)
qed (simp add: TransitionExecution_def blind_def)

section \<open>Runs that differ only in what a step printed\<close>

definition alike :: "'w mgr \<Rightarrow> 'w mgr \<Rightarrow> bool" where
  "alike m m' \<longleftrightarrow> scrub (m_store m) = scrub (m_store m') \<and> m_world m = m_world m' \<and> m_ran m = m_ran m' \<and>
     m_approvals m = m_approvals m'"

definition lockstep :: "'w mgr \<times> (rem_err + 'a) \<Rightarrow> 'w mgr \<times> (rem_err + 'a) \<Rightarrow> bool" where
  "lockstep r r' \<longleftrightarrow> alike (fst r) (fst r') \<and> snd r = snd r'"

lemma lockstep_pair [simp]: "lockstep (m, x) (m', x') \<longleftrightarrow> alike m m' \<and> x = x'"
  by (simp add: lockstep_def)

lemma lockstep_andThen:
  assumes "lockstep r r'" and "\<And>m m' x. alike m m' \<Longrightarrow> lockstep (k m x) (k' m' x)"
  shows "lockstep (andThen r k) (andThen r' k')"
  using assms by (cases r; cases r'; cases "snd r") (auto simp: lockstep_def)

lemma lockstep_onStore:
  assumes "blind f" and "alike m m'"
  shows "lockstep (onStore m f) (onStore m' f)"
proof -
  obtain s r where f: "f (m_store m) = (s, r)" by (cases "f (m_store m)")
  obtain s' r' where f': "f (m_store m') = (s', r')" by (cases "f (m_store m')")
  have "apfst scrub (f (m_store m)) = apfst scrub (f (m_store m'))"
    using assms by (metis alike_def blind_def)
  then have "scrub s = scrub s'" "r = r'" using f f' by auto
  with f f' assms(2) show ?thesis by (cases r) (auto simp: onStore_def alike_def lockstep_def)
qed

lemmas lockstep_rules = lockstep_andThen lockstep_onStore

text \<open>A call whose value the manager ignores: only the state and the error are compared.\<close>

definition errOf :: "'e + 'a \<Rightarrow> 'e option" where
  "errOf r = (case r of Inl e \<Rightarrow> Some e | Inr _ \<Rightarrow> None)"

lemma errOf_simps [simp]: "errOf (Inl e) = Some e" "errOf (Inr x) = None"
  by (simp_all add: errOf_def)

lemma lockstep_ignore:
  assumes "alike (fst r) (fst r')" and "errOf (snd r) = errOf (snd r')"
    and "\<And>m m'. alike m m' \<Longrightarrow> lockstep (k m) (k' m')"
  shows "lockstep (andThen r (\<lambda>m _. k m)) (andThen r' (\<lambda>m _. k' m))"
proof -
  obtain m x m' x' where "r = (m, x)" "r' = (m', x')" by fastforce
  with assms show ?thesis by (cases x; cases x') simp_all
qed

lemma dbCall_alike:
  assumes "scrub s = scrub t" and "\<And>fs. scrub (fst (k (s\<lparr>faults := fs\<rparr>))) = scrub (fst (k' (t\<lparr>faults := fs\<rparr>)))"
    and "\<And>fs. F (snd (k (s\<lparr>faults := fs\<rparr>))) = F (snd (k' (t\<lparr>faults := fs\<rparr>)))"
  shows "scrub (fst (dbCall s k)) = scrub (fst (dbCall t k'))" "F (snd (dbCall s k)) = F (snd (dbCall t k'))"
proof -
  have f: "faults t = faults s" using assms(1) by (metis scrub_fields(3))
  have u: "s\<lparr>faults := faults s\<rparr> = s" "t\<lparr>faults := faults s\<rparr> = t" by (simp, simp add: f [symmetric])
  have r: "scrub (s\<lparr>faults := fs\<rparr>) = scrub (t\<lparr>faults := fs\<rparr>)" for fs using assms(1) by (metis scrub_fields(6))
  show "scrub (fst (dbCall s k)) = scrub (fst (dbCall t k'))"
    using f r assms(2) assms(2) [of "faults s"] u by (auto simp: dbCall_def split: list.splits bool.splits)
  show "F (snd (dbCall s k)) = F (snd (dbCall t k'))"
    using f assms(3) assms(3) [of "faults s"] u by (auto simp: dbCall_def split: list.splits bool.splits)
qed

lemma scrub_eq_iff:
  "scrub s = scrub t \<longleftrightarrow> map scrubEvent (events s) = map scrubEvent (events t) \<and> map scrubAudit (audits s) = map scrubAudit (audits t) \<and>
     tokens s = tokens t \<and> runbooks s = runbooks t \<and> executions s = executions t \<and> silences s = silences t \<and> acks s = acks t \<and>
     monitorStates s = monitorStates t \<and> settings s = settings t \<and> bindings s = bindings t \<and> wallClock s = wallClock t \<and>
     faults s = faults t"
  by (cases s; cases t) (auto simp: scrub_def)

lemma nextSeq_alike: "scrub s = scrub t \<Longrightarrow> nextSeq (s\<lparr>faults := fs\<rparr>) i = nextSeq (t\<lparr>faults := fs\<rparr>) i"
  by (metis nextSeq_scrub scrub_fields(6))

text \<open>Appending an event or an audit row; the data may differ when it is the result of a step.\<close>

lemma onStore_alike:
  assumes "alike m m'" and "scrub (fst (f (m_store m))) = scrub (fst (g (m_store m')))"
    and "errOf (snd (f (m_store m))) = errOf (snd (g (m_store m')))"
  shows "alike (fst (onStore m f)) (fst (onStore m' g))" "errOf (snd (onStore m f)) = errOf (snd (onStore m' g))"
proof -
  obtain s x t y where e: "f (m_store m) = (s, x)" "g (m_store m') = (t, y)" by fastforce
  with assms show "alike (fst (onStore m f)) (fst (onStore m' g))" "errOf (snd (onStore m f)) = errOf (snd (onStore m' g))"
    by (cases x; cases y; simp add: onStore_def alike_def)+
qed

lemma AppendAudit_alike:
  assumes "scrub s = scrub t" and "scrubAudit e = scrubAudit e'"
  shows "scrub (fst (AppendAudit s e)) = scrub (fst (AppendAudit t e'))"
    "errOf (snd (AppendAudit s e)) = errOf (snd (AppendAudit t e'))"
proof -
  have w: "wallClock s = wallClock t" and l: "length (audits s) = length (audits t)"
    using assms(1) by (simp add: scrub_eq_iff, metis length_map scrub_eq_iff)
  have f: "ae_CreatedAt e = ae_CreatedAt e'" "scrubAudit (e\<lparr>ae_CreatedAt := x, ae_ID := n\<rparr>) = scrubAudit (e'\<lparr>ae_CreatedAt := x, ae_ID := n\<rparr>)"
    "scrubAudit (e\<lparr>ae_ID := n, ae_CreatedAt := x\<rparr>) = scrubAudit (e'\<lparr>ae_ID := n, ae_CreatedAt := x\<rparr>)" for x n
    using assms(2) by (cases e; cases e'; simp add: scrubAudit_def split: if_splits)+
  show "scrub (fst (AppendAudit s e)) = scrub (fst (AppendAudit t e'))"
    unfolding AppendAudit_def Let_def
    by (rule dbCall_alike(1) [OF assms(1), where F = errOf]) (use assms(1) in \<open>simp_all add: scrub_eq_iff w l f\<close>)
  show "errOf (snd (AppendAudit s e)) = errOf (snd (AppendAudit t e'))"
    unfolding AppendAudit_def Let_def
    by (rule dbCall_alike(2) [OF assms(1)]) (use assms(1) in \<open>simp_all add: scrub_eq_iff w l f\<close>)
qed

lemma appendAudit_alike:
  assumes "alike m m'" and "x = x' \<or> typ = ''remediation.step.result''"
  shows "lockstep (appendAudit now m exec typ x) (appendAudit now m' exec typ x')"
  unfolding appendAudit_def
proof (rule lockstep_ignore)
  let ?e = "\<lambda>x. \<lparr>ae_ID = 0, ae_Type = typ, ae_ProjectID = re_ID exec, ae_SessionID = re_IncidentID exec,
         ae_Actor = ''remediation'', ae_Summary = typ, ae_Data = x, ae_CreatedAt = now\<rparr>"
  have s: "scrub (m_store m) = scrub (m_store m')" using assms(1) by (simp add: alike_def)
  have e: "scrubAudit (?e x) = scrubAudit (?e x')" using assms(2) by (auto simp: scrubAudit_def)
  show "alike (fst (onStore m (\<lambda>s. AppendAudit s (?e x)))) (fst (onStore m' (\<lambda>s. AppendAudit s (?e x'))))"
    by (rule onStore_alike(1) [OF assms(1)]) (rule AppendAudit_alike [OF s e])+
  show "errOf (snd (onStore m (\<lambda>s. AppendAudit s (?e x)))) = errOf (snd (onStore m' (\<lambda>s. AppendAudit s (?e x'))))"
    by (rule onStore_alike(2) [OF assms(1)]) (rule AppendAudit_alike [OF s e])+
qed simp

lemma AppendRemediationEvent_alike:
  assumes "scrub s = scrub t" and "scrubEvent e = scrubEvent e'"
  shows "scrub (fst (AppendRemediationEvent s e)) = scrub (fst (AppendRemediationEvent t e'))"
    "map_sum id scrubEvent (snd (AppendRemediationEvent s e)) = map_sum id scrubEvent (snd (AppendRemediationEvent t e'))"
proof -
  have w: "wallClock s = wallClock t" and x: "executions s = executions t" using assms(1) by (simp_all add: scrub_eq_iff)
  have f: "ev_CreatedAt e = ev_CreatedAt e'" "ev_ExecutionID e = ev_ExecutionID e'"
    "scrubEvent (e\<lparr>ev_Seq := n\<rparr>) = scrubEvent (e'\<lparr>ev_Seq := n\<rparr>)"
    "scrubEvent (e\<lparr>ev_Seq := n, ev_CreatedAt := c\<rparr>) = scrubEvent (e'\<lparr>ev_Seq := n, ev_CreatedAt := c\<rparr>)"
    "scrubEvent (e\<lparr>ev_CreatedAt := c, ev_Seq := n\<rparr>) = scrubEvent (e'\<lparr>ev_CreatedAt := c, ev_Seq := n\<rparr>)" for c n
    using assms(2) by (cases e; cases e'; simp add: scrubEvent_def split: if_splits)+
  show "scrub (fst (AppendRemediationEvent s e)) = scrub (fst (AppendRemediationEvent t e'))"
    unfolding AppendRemediationEvent_def Let_def
    by (rule dbCall_alike(1) [OF assms(1), where F = "map_sum id scrubEvent"])
      (use assms(1) nextSeq_alike [OF assms(1)] in \<open>simp_all add: scrub_eq_iff w x f\<close>)
  show "map_sum id scrubEvent (snd (AppendRemediationEvent s e)) = map_sum id scrubEvent (snd (AppendRemediationEvent t e'))"
    unfolding AppendRemediationEvent_def Let_def
    by (rule dbCall_alike(2) [OF assms(1)])
      (use assms(1) nextSeq_alike [OF assms(1)] in \<open>simp_all add: scrub_eq_iff w x f\<close>)
qed

section \<open>Managers that differ only in what their steps print\<close>

definition silent :: "'w \<times> StepResult \<times> string option \<Rightarrow> 'w \<times> int \<times> bool" where
  "silent r = (case r of (w, res, err) \<Rightarrow> (w, sr_ExitCode res, err = None))"

locale discreet =
  fixes d d' :: "'w deps"
  assumes same_hash: "d_sha d = d_sha d'" and same_verify: "d_verify d = d_verify d'"
    and same_steps: "silent (d_exec d w s) = silent (d_exec d' w s)"
    and projector: "scrubEvent ev = scrubEvent ev' \<Longrightarrow> d_project d w ev = d_project d' w ev'"
begin

lemma appendEvent_alike:
  assumes "alike m m'" and "x = x' \<or> typ = ''step_result''"
  shows "alike (fst (appendEvent d now m i typ x)) (fst (appendEvent d' now m' i typ x'))"
    "errOf (snd (appendEvent d now m i typ x)) = errOf (snd (appendEvent d' now m' i typ x'))"
proof -
  let ?e = "\<lambda>x. \<lparr>ev_ExecutionID = i, ev_Seq = 0, ev_Type = typ, ev_Data = x, ev_CreatedAt = now\<rparr>"
  let ?r = "AppendRemediationEvent (m_store m) (?e x)" and ?r' = "AppendRemediationEvent (m_store m') (?e x')"
  have s: "scrub (m_store m) = scrub (m_store m')" using assms(1) by (simp add: alike_def)
  have e: "scrubEvent (?e x) = scrubEvent (?e x')" using assms(2) by (auto simp: scrubEvent_def)
  obtain t r t' r' where c: "?r = (t, r)" "?r' = (t', r')" by fastforce
  have "scrub t = scrub t'" "map_sum id scrubEvent r = map_sum id scrubEvent r'"
    using AppendRemediationEvent_alike [OF s e] c by simp_all
  moreover have "d_project d w ev = d_project d' w ev'" if "r = Inr ev" "r' = Inr ev'" for w ev ev'
    using that calculation(2) by (intro projector) simp
  ultimately show "alike (fst (appendEvent d now m i typ x)) (fst (appendEvent d' now m' i typ x'))"
    "errOf (snd (appendEvent d now m i typ x)) = errOf (snd (appendEvent d' now m' i typ x'))"
    using assms(1) c by (cases r; cases r'; simp add: appendEvent_def onStore_def alike_def)+
qed

lemma appendEvent_lockstep:
  assumes "alike m m'" and "x = x' \<or> typ = ''step_result''" and "\<And>m m'. alike m m' \<Longrightarrow> lockstep (k m) (k' m')"
  shows "lockstep (andThen (appendEvent d now m i typ x) (\<lambda>m _. k m)) (andThen (appendEvent d' now m' i typ x') (\<lambda>m _. k' m))"
  by (rule lockstep_ignore) (use appendEvent_alike [OF assms(1,2)] assms(3) in auto)

lemma runSteps_lockstep: "alike m m' \<Longrightarrow> lockstep (runSteps d now exec i steps m) (runSteps d' now exec i steps m')"
proof (induction steps arbitrary: i m m')
  case (Cons s steps)
  obtain w r e w' r' e' where x: "d_exec d (m_world m) s = (w, r, e)" "d_exec d' (m_world m') s = (w', r', e')"
    by (metis prod_cases3)
  have "m_world m = m_world m'" using Cons.prems by (simp add: alike_def)
  with same_steps [of "m_world m" s] x have k: "w = w'" "sr_ExitCode r = sr_ExitCode r'" "(e = None) = (e' = None)"
    by (simp_all add: silent_def)
  then have ok: "stepOk r e = stepOk r' e'" by (simp add: stepOk_def)
  show ?case unfolding runSteps.simps x prod.case Let_def ok k(1)
    by (intro appendEvent_lockstep lockstep_andThen [OF appendAudit_alike] lockstep_andThen [OF lockstep_onStore] blind_transition)
      (use Cons in \<open>auto simp: alike_def intro!: appendEvent_lockstep lockstep_andThen [OF appendAudit_alike]
         lockstep_andThen [OF lockstep_onStore]\<close>)
qed simp

lemma validateHash_lockstep: "alike m m' \<Longrightarrow> lockstep (validateHash d m exec h) (validateHash d' m' exec h)"
  unfolding validateHash_def same_hash
  by (intro lockstep_andThen [OF lockstep_onStore] lockstep_andThen) (auto simp: Let_def)

lemma appendVerifications_lockstep:
  "alike m m' \<Longrightarrow> lockstep (appendVerifications d now i svs m) (appendVerifications d' now i svs m')"
  by (induction svs arbitrary: m m') (auto intro: appendEvent_lockstep)

lemma finishExecute_lockstep: "alike m m' \<Longrightarrow> lockstep (finishExecute d now m exec rb) (finishExecute d' now m' exec rb)"
  unfolding finishExecute_def Let_def same_verify
proof (intro lockstep_andThen [OF lockstep_onStore] lockstep_andThen [OF appendAudit_alike] appendEvent_lockstep, goal_cases)
  case (7 m1 m1' u m2 m2' v m3 m3')
  then have w: "m_world m3 = m_world m3'" by (simp add: alike_def)
  obtain w res e where "d_verify d' (m_world m3') rb = (w, res, e)" by (metis prod_cases3)
  then show ?case unfolding w using 7
    by (auto simp: alike_def intro!: lockstep_andThen [OF appendVerifications_lockstep] appendEvent_lockstep)
qed auto

lemma runApproved_lockstep: "alike m m' \<Longrightarrow> lockstep (runApproved d now m exec rb) (runApproved d' now m' exec rb)"
  unfolding runApproved_def Let_def
  by (intro lockstep_andThen [OF appendAudit_alike] appendEvent_lockstep lockstep_andThen [OF runSteps_lockstep])
    (auto intro: finishExecute_lockstep split: option.split)

lemma startApproved_lockstep: "alike m m' \<Longrightarrow> lockstep (startApproved d now m exec) (startApproved d' now m' exec)"
  unfolding startApproved_def
proof (intro lockstep_andThen [OF lockstep_onStore] lockstep_andThen, goal_cases)
  case (4 m1 m1' row m2 m2' rb)
  let ?f = "\<lambda>s. TransitionExecution s (re_ID exec) RemediationApproved RemediationExecuting now"
  obtain m3 r m3' where t: "onStore m2 ?f = (m3, r)" "onStore m2' ?f = (m3', r)" "alike m3 m3'"
    using lockstep_onStore [OF blind_transition 4(3), of "re_ID exec" RemediationApproved RemediationExecuting now]
    by (cases "onStore m2 ?f"; cases "onStore m2' ?f") (auto simp: lockstep_def)
  then show ?case by (cases r) (auto intro: runApproved_lockstep lockstep_onStore)
qed auto

lemma Execute_lockstep: "alike m m' \<Longrightarrow> lockstep (Execute d now m i h) (Execute d' now m' i h)"
  unfolding Execute_def
  by (intro lockstep_andThen [OF lockstep_onStore] lockstep_andThen [OF validateHash_lockstep])
    (auto intro: startApproved_lockstep)

end

section \<open>The manager with the projector\<close>

text \<open>
  The wiring of the agent: the host and the relay client side by side, steps and verification on the host, the
  projector on the client. \<open>look\<close> is what the database answers for an execution.
\<close>

definition wiredDeps ::
    "(json \<Rightarrow> string) \<Rightarrow> (string \<Rightarrow> string \<Rightarrow> string) \<Rightarrow> (string \<Rightarrow> store_err + RemediationExecution) \<Rightarrow> 'w deps \<Rightarrow>
     ('w \<times> wt option) deps" where
  "wiredDeps sha hmac look d =
     \<lparr>d_sha = d_sha d, d_validate = d_validate d,
      d_exec = (\<lambda>(w, c) s. case d_exec d w s of (w, res, err) \<Rightarrow> ((w, c), res, err)),
      d_verify = (\<lambda>(w, c) rb. case d_verify d w rb of (w, res, err) \<Rightarrow> ((w, c), res, err)),
      d_project = (\<lambda>(w, c) ev. (w, fst (Project sha hmac (Some look) c ev)))\<rparr>"

lemma Project_scrub:
  assumes "scrubEvent ev = scrubEvent ev'"
  shows "Project sha hmac look c ev = Project sha hmac look c ev'"
proof -
  have "ev_Type ev = ev_Type ev'" using assms by (metis scrubEvent_fields(2))
  with assms show ?thesis by (cases "ev_Type ev = ''step_result''") (simp, simp add: scrubEvent_def)
qed

text \<open>The same executor with every text removed.\<close>

definition muted :: "('w \<Rightarrow> Step \<Rightarrow> 'w \<times> StepResult \<times> string option) \<Rightarrow> 'w \<Rightarrow> Step \<Rightarrow> 'w \<times> StepResult \<times> string option" where
  "muted e w s = (case silent (e w s) of (w, code, fine) \<Rightarrow>
     (w, \<lparr>sr_Output = [], sr_ExitCode = code\<rparr>, if fine then None else Some []))"

lemma silent_muted [simp]: "silent (muted e w s) = silent (e w s)"
  by (auto simp: muted_def silent_def split: prod.split)

interpretation wired: discreet "wiredDeps sha hmac look d" "wiredDeps sha hmac look (d\<lparr>d_exec := muted (d_exec d)\<rparr>)"
  for sha hmac look and d :: "'w deps"
proof
  show "silent (d_exec (wiredDeps sha hmac look d) w s) =
      silent (d_exec (wiredDeps sha hmac look (d\<lparr>d_exec := muted (d_exec d)\<rparr>)) w s)" for w s
  proof (cases w)
    case (Pair w1 c)
    with silent_muted [of "d_exec d" w1 s] show ?thesis
      by (cases "d_exec d w1 s"; cases "muted (d_exec d) w1 s") (auto simp: wiredDeps_def silent_def)
  qed
qed (auto simp: wiredDeps_def intro: arg_cong [where f = fst] Project_scrub)

text \<open>
  C9. What a step prints never leaves the server: two executors that do the same to the host and report the same exit
  codes, but print different texts and different error messages, lead \<open>Execute\<close> to the same answer and to
  exactly the same requests to the relay, under any schedule of database, file and network failures.
\<close>

theorem step_output_never_leaves:
  assumes "\<And>w s. silent (d_exec d w s) = silent (e w s)"
    and "Execute (wiredDeps sha hmac look d) now m i h = (m1, r1)"
    and "Execute (wiredDeps sha hmac look (d\<lparr>d_exec := e\<rparr>)) now m i h = (m2, r2)"
  shows "snd (m_world m1) = snd (m_world m2) \<and> r1 = r2"
proof -
  have "muted (d_exec d) = muted e" using assms(1) by (auto simp: muted_def [abs_def])
  then have "lockstep (Execute (wiredDeps sha hmac look d) now m i h) (Execute (wiredDeps sha hmac look (d\<lparr>d_exec := muted e\<rparr>)) now m i h)"
    "lockstep (Execute (wiredDeps sha hmac look (d\<lparr>d_exec := e\<rparr>)) now m i h) (Execute (wiredDeps sha hmac look (d\<lparr>d_exec := muted e\<rparr>)) now m i h)"
    using wired.Execute_lockstep [of m m sha hmac look d now i h] wired.Execute_lockstep [of m m sha hmac look "d\<lparr>d_exec := e\<rparr>" now i h]
    by (simp_all add: alike_def)
  with assms(2,3) show ?thesis by (simp add: lockstep_def alike_def)
qed

text \<open>
  An executor with a long and one with a short output on the demonstration runbook; the client ends in the same
  state.
\<close>

definition chatty :: "nat \<Rightarrow> Step \<Rightarrow> nat \<times> StepResult \<times> string option" where
  "chatty w step = (Suc w, \<lparr>sr_Output = ''password=hunter2'', sr_ExitCode = 0\<rparr>, None)"

definition demoLook :: "string \<Rightarrow> store_err + RemediationExecution" where
  "demoLook i = snd (GetExecution (m_store demo2) i)"

definition demoWired :: "(nat \<times> wt option) mgr" where
  "demoWired = \<lparr>m_store = m_store demo2, m_world = (0, Some demoClient), m_ran = [], m_approvals = m_approvals demo2\<rparr>"

theorem step_output_never_leaves_witness:
  "let m1 = fst (Execute (wiredDeps (\<lambda>_. ''h'') (\<lambda>_ _. ''m'') demoLook demoDeps) second demoWired ''x1'' ''h'');
       m2 = fst (Execute (wiredDeps (\<lambda>_. ''h'') (\<lambda>_ _. ''m'') demoLook (demoDeps\<lparr>d_exec := chatty\<rparr>)) second demoWired ''x1'' ''h'') in
   snd (m_world m1) = snd (m_world m2)"
proof -
  have s: "silent (d_exec demoDeps w s) = silent (chatty w s)" for w s
    by (simp add: demoDeps_def serverDeps_def demoHost_def chatty_def silent_def)
  from step_output_never_leaves [OF s prod.collapse [symmetric] prod.collapse [symmetric]] show ?thesis by (simp add: Let_def)
qed

section \<open>What a request to the relay says\<close>

definition wireKeys :: "string list" where
  "wireKeys = [''eventId'', ''kind'', ''actor'', ''detail'', ''occurredAt'', ''runbookId'', ''executionId'', ''contentHash'', ''risk'',
     ''diagnosisId'', ''providerVersion'', ''tokenId'', ''resultSummary'', ''monitorIds'', ''stabilitySeconds'']"

lemma subseq_omit:
  "subseq (map fst (omitStr k s)) [k]" "subseq (map fst (omitList k f xs)) [k]" "subseq (map fst (omitInt k n)) [k]"
  by (simp_all add: omitStr_def omitList_def omitInt_def)

lemma wireEventMembers_subseq: "subseq (map fst (wireEventMembers e)) wireKeys"
proof -
  have k: "wireKeys = [''eventId'', ''kind''] @ [''actor''] @ [''detail''] @ [''occurredAt''] @ [''runbookId''] @ [''executionId''] @
      [''contentHash''] @ [''risk''] @ [''diagnosisId''] @ [''providerVersion''] @ [''tokenId''] @ [''resultSummary''] @ [''monitorIds''] @
      [''stabilitySeconds'']" by (simp add: wireKeys_def)
  show ?thesis unfolding k wireEventMembers_def map_append by (intro list_emb_append_mono subseq_omit) simp
qed

lemma wireEventMembers_keys: "set (map fst (wireEventMembers e)) \<subseteq> set wireKeys" "distinct (map fst (wireEventMembers e))"
proof -
  show "set (map fst (wireEventMembers e)) \<subseteq> set wireKeys"
    using list_emb_set [OF wireEventMembers_subseq] by blast
  have "distinct wireKeys" by (simp add: wireKeys_def)
  then show "distinct (map fst (wireEventMembers e))" using wireEventMembers_subseq [of e] by (metis distinct_nthsI subseq_conv_nths)
qed

lemma post_sent:
  assumes "post sha hmac c path payload = (c', r)"
  shows "wt_sent c' = wt_sent c \<or> (\<exists>url env. wt_sent c' = wt_sent c @ [(url, env)] \<and> en_Payload env = payload)"
proof -
  obtain c1 r1 where 1: "reserveSeq c = (c1, r1)" by (cases "reserveSeq c")
  have s1: "wt_sent c1 = wt_sent c" using reserveSeq_cases [OF 1] by simp
  show ?thesis
  proof (cases r1)
    case (Inr cr)
    obtain c2 r2 where 2: "buildEnvelope sha hmac c1 cr payload = (c2, r2)" by (cases "buildEnvelope sha hmac c1 cr payload")
    then have "wt_sent c2 = wt_sent c1 \<and> (\<forall>env. r2 = Inr env \<longrightarrow> en_Payload env = payload)"
      by (auto simp: buildEnvelope_def randHex_def Sign_def Let_def andThen_def split: list.splits option.splits sum.splits if_splits)
    with assms s1 1 2 Inr show ?thesis
      by (cases r2) (auto simp: post_def transmit_def Let_def split: list.splits answer.splits if_splits)
  qed (use assms 1 s1 in \<open>auto simp: post_def\<close>)
qed

text \<open>
  C14. The relay is told nothing but milestones, about the right execution: whatever the stored event says, one
  projection sends at most one request; its event has only members of a fixed list (none for a command, an output
  or an exit code), each once, a kind of a fixed list, an id made of the execution and the sequence number of the
  event, and the incident is that of the execution's own row; the result of a step is never projected.
\<close>

theorem projection_is_redacted:
  assumes "Project sha hmac (Some look) (Some c) ev = (Some c', r)" and "wt_sent c' \<noteq> wt_sent c"
  shows "\<exists>url env exec ms. wt_sent c' = wt_sent c @ [(url, env)] \<and> look (ev_ExecutionID ev) = Inr exec \<and>
    en_Payload env = JObj [(''kind'', JStr ''remediation_event''), (''incidentId'', JStr (re_IncidentID exec)), (''event'', JObj ms)] \<and>
    set (map fst ms) \<subseteq> set wireKeys \<and> distinct (map fst ms) \<and>
    list_ex (\<lambda>k. map_of ms ''kind'' = Some (JStr k)) relayKinds \<and> ev_Type ev \<noteq> ''step_result'' \<and>
    map_of ms ''eventId'' = Some (JStr (ev_ExecutionID ev @ ''#'' @ Itoa (ev_Seq ev)))"
proof -
  obtain w exec where w: "translateRemediationEvent ev = Some w" and e: "look (ev_ExecutionID ev) = Inr exec"
    and s: "SendRemediationEvent sha hmac c (re_IncidentID exec) (fillIdentity ev exec w) = (c', r)"
    using assms by (auto simp: Project_def split: if_splits option.splits sum.splits prod.splits)
  let ?w = "fillIdentity ev exec w"
  obtain r1 where "post sha hmac c (''/v1/incidents/'' @ re_IncidentID exec @ ''/remediation-events'')
      (remediationEventPayload (re_IncidentID exec) ?w) = (c', r1)"
    using s by (auto simp: SendRemediationEvent_def andThen_def split: prod.splits sum.splits)
  from post_sent [OF this] assms(2) obtain url env
    where "wt_sent c' = wt_sent c @ [(url, env)]" "en_Payload env = remediationEventPayload (re_IncidentID exec) ?w" by auto
  moreover have "map_of (wireEventMembers ?w) ''kind'' = Some (JStr (rw_Kind w))"
    "map_of (wireEventMembers ?w) ''eventId'' = Some (JStr (ev_ExecutionID ev @ ''#'' @ Itoa (ev_Seq ev)))"
    by (simp_all add: wireEventMembers_def fillIdentity_def)
  ultimately show ?thesis using e translate_kind [OF w] wireEventMembers_keys [of ?w]
    by (auto simp: remediationEventPayload_def list_ex_iff intro!: exI [of _ "wireEventMembers ?w"])
qed

definition demoApproved :: RemediationEvent where
  "demoApproved = \<lparr>ev_ExecutionID = ''x1'', ev_Seq = 2, ev_Type = ''runbook_approved'', ev_Data = JObj [(''token_id'', JStr ''t'')],
     ev_CreatedAt = second\<rparr>"

lemma demo_projection:
  "\<exists>c' r. Project (\<lambda>_. ''h'') (\<lambda>_ _. ''m'') (Some demoLook) (Some demoClient) demoApproved = (Some c', r) \<and>
     length (wt_sent c') = 1 \<and> wt_sent demoClient = []"
proof -
  have "map_option (length \<circ> wt_sent) (fst (Project (\<lambda>_. ''h'') (\<lambda>_ _. ''m'') (Some demoLook) (Some demoClient) demoApproved)) = Some 1"
    by code_simp
  then show ?thesis
    by (cases "Project (\<lambda>_. ''h'') (\<lambda>_ _. ''m'') (Some demoLook) (Some demoClient) demoApproved") (auto simp: demoClient_def Let_def)
qed

theorem projection_is_redacted_witness:
  "\<exists>url env exec ms. wt_sent (the (fst (Project (\<lambda>_. ''h'') (\<lambda>_ _. ''m'') (Some demoLook) (Some demoClient) demoApproved))) = [(url, env)] \<and>
    demoLook ''x1'' = Inr exec \<and> set (map fst ms) \<subseteq> set wireKeys \<and> map_of ms ''eventId'' = Some (JStr ''x1#2'') \<and>
    en_Payload env = JObj [(''kind'', JStr ''remediation_event''), (''incidentId'', JStr (re_IncidentID exec)), (''event'', JObj ms)]"
proof -
  obtain c' r where p: "Project (\<lambda>_. ''h'') (\<lambda>_ _. ''m'') (Some demoLook) (Some demoClient) demoApproved = (Some c', r)"
    and s: "length (wt_sent c') = 1" "wt_sent demoClient = []" using demo_projection by auto
  from s have n: "wt_sent c' \<noteq> wt_sent demoClient" by auto
  have "Itoa 2 = ''2''" by code_simp
  with projection_is_redacted [OF p n] s(2) p show ?thesis by (auto simp: demoApproved_def)
qed

end
