(* ===== verification/Remediation_Stream.thy ===== *)
theory Remediation_Stream
  imports Remediation "HOL-Library.Multiset"
begin

text \<open>
  The live event stream of an execution (\<open>fanout\<close> and \<open>Subscribe\<close> of \<^verbatim>\<open>internal/remediation/remediation.go\<close>). Appending
  an event and fanning it out are two separate actions of the writer; a subscriber registers and reads its
  snapshot under the manager's lock, and its goroutine first replays the snapshot and then forwards what the
  channel holds. A full channel delays the writer and loses nothing, so channels are queues without a bound.
  The step relation interleaves writers, subscribers and goroutines in every order.
\<close>

section \<open>Subscribers\<close>

text \<open>\<open>sb_after\<close> is the argument of \<open>Subscribe\<close>; \<open>sb_max\<close> is \<open>maxReplayed\<close>, \<open>sb_out\<close> what was sent to the client.\<close>

record subscriber =
  sb_exec :: string
  sb_after :: int
  sb_ch :: "RemediationEvent list"
  sb_replay :: "RemediationEvent list"
  sb_max :: int
  sb_out :: "RemediationEvent list"
  sb_done :: bool

definition fanout :: "string \<Rightarrow> RemediationEvent \<Rightarrow> subscriber list \<Rightarrow> subscriber list" where
  "fanout executionID ev subs =
     map (\<lambda>sb. if sb_exec sb = executionID \<and> \<not> sb_done sb then sb\<lparr>sb_ch := sb_ch sb @ [ev]\<rparr> else sb) subs"

definition Subscribe ::
    "store \<Rightarrow> subscriber list \<Rightarrow> string \<Rightarrow> int \<Rightarrow> store \<times> subscriber list \<times> store_err option" where
  "Subscribe s subs executionID afterSeq =
     (case GetExecution s executionID of
        (s, Inl e) \<Rightarrow> (s, subs, Some e)
      | (s, Inr _) \<Rightarrow>
          (case RemediationEventsAfter s executionID afterSeq of
             (s, Inl e) \<Rightarrow> (s, subs, Some e)
           | (s, Inr replay) \<Rightarrow>
               (s, subs @ [\<lparr>sb_exec = executionID, sb_after = afterSeq, sb_ch = [], sb_replay = replay, sb_max = afterSeq,
                  sb_out = [], sb_done = False\<rparr>], None)))"

text \<open>One turn of the forwarding goroutine.\<close>

definition forward :: "subscriber \<Rightarrow> subscriber" where
  "forward sb =
     (if sb_done sb then sb
      else case sb_replay sb of
          ev # evs \<Rightarrow> sb\<lparr>sb_replay := evs, sb_max := (if ev_Seq ev > sb_max sb then ev_Seq ev else sb_max sb),
                          sb_out := sb_out sb @ [ev]\<rparr>
        | [] \<Rightarrow>
            (case sb_ch sb of [] \<Rightarrow> sb
             | ev # evs \<Rightarrow>
                 if ev_Seq ev > 0 \<and> ev_Seq ev \<le> sb_max sb then sb\<lparr>sb_ch := evs\<rparr>
                 else sb\<lparr>sb_ch := evs, sb_out := sb_out sb @ [ev]\<rparr>))"

definition cancel :: "subscriber \<Rightarrow> subscriber" where
  "cancel sb = sb\<lparr>sb_done := True\<rparr>"

section \<open>Writers, subscribers and goroutines together\<close>

text \<open>\<open>lv_fan\<close>: events that are appended and not yet fanned out, by any number of writers.\<close>

record live =
  lv_store :: store
  lv_fan :: "RemediationEvent list"
  lv_subs :: "subscriber list"

inductive lstep :: "live \<Rightarrow> live \<Rightarrow> bool" where
  append: "AppendRemediationEvent (lv_store l) ev0 = (s, Inr ev) \<Longrightarrow> lstep l (l\<lparr>lv_store := s, lv_fan := lv_fan l @ [ev]\<rparr>)"
| fan: "lv_fan l = xs @ ev # ys \<Longrightarrow>
    lstep l (l\<lparr>lv_fan := xs @ ys, lv_subs := fanout (ev_ExecutionID ev) ev (lv_subs l)\<rparr>)"
| subscribe: "Subscribe (lv_store l) (lv_subs l) i a = (s, subs, err) \<Longrightarrow> lstep l (l\<lparr>lv_store := s, lv_subs := subs\<rparr>)"
| forward: "n < length (lv_subs l) \<Longrightarrow> lstep l (l\<lparr>lv_subs := (lv_subs l)[n := forward (lv_subs l ! n)]\<rparr>)"
| cancel: "n < length (lv_subs l) \<Longrightarrow> lstep l (l\<lparr>lv_subs := (lv_subs l)[n := cancel (lv_subs l ! n)]\<rparr>)"
| other: "wf_store s \<Longrightarrow> events s = events (lv_store l) \<Longrightarrow> lstep l (l\<lparr>lv_store := s\<rparr>)"

inductive_cases lstepE: "lstep l l'"


section \<open>Every event is delivered once\<close>

text \<open>The sequence numbers a subscriber asked for.\<close>

definition wanted :: "store \<Rightarrow> subscriber \<Rightarrow> int list" where
  "wanted s sb = filter (\<lambda>q. q > sb_after sb) (map ev_Seq (eventsOf s (sb_exec sb)))"










lemma wanted_events: "events t = events s \<Longrightarrow> wanted t sb = wanted s sb" "events t = events s \<Longrightarrow> eventsOf t i = eventsOf s i"
  by (simp_all add: wanted_def eventsOf_def)


lemma wanted_fields [simp]: "wanted s (sb\<lparr>sb_replay := a, sb_max := b, sb_out := c\<rparr>) = wanted s sb"
  "wanted s (sb\<lparr>sb_ch := d, sb_out := c\<rparr>) = wanted s sb" "wanted s (sb\<lparr>sb_ch := d\<rparr>) = wanted s sb"
  "wanted s (sb\<lparr>sb_done := b'\<rparr>) = wanted s sb"
  by (simp_all add: wanted_def)





















end
