(* ===== verification/Control_Plane.thy ===== *)
theory Control_Plane
  imports Playbook_Service Remediation_Wire Remediation_Stream Monitor_Manager Step_Runner
begin

text \<open>
  The control plane the phone talks to (\<^verbatim>\<open>internal/server/{server,remediation,playbook_rpc}.go\<close>): pairing, the window of
  request ids, the outbound queue of a connection, the dispatch of a frame to its handler, the handlers of
  the remediation lifecycle with their background work, and the executor and verifier the server gives to the
  remediation manager.

  A handler maps the server and a frame to the server and the replies it queues. A frame that does not decode
  arrives as the decoder's error text. Goroutines that a handler starts are entries of \<open>cp_runs\<close> and \<open>cp_gens\<close>, run by
  steps of their own at any later time. Replies carry typed values; the error of a failed call is the value
  itself. Host metrics and the inventory report are documents the host answers with.
\<close>

section \<open>Frames and replies\<close>

record Frame =
  fm_ID :: string
  fm_Kind :: string
  fm_Payload :: "json option"

datatype body =
    BReplay
  | BHealth string int
  | BToken string string int
  | BAudit "AuditEntry list"
  | BDocument json
  | BSilence "time option"
  | BAcked
  | BEnrolled string string
  | BStatus "Creds option"
  | BAssessment Assessment
  | BBundle Bundle
  | BRunbook RemediationExecution Runbook
  | BExecution RemediationExecution
  | BSubscribed string
  | BVerification RemediationExecution json
  | BRollback RemediationExecution
  | BPlaybook string

datatype emsg = MText string | MRem rem_err | MReview review_err | MStore store_err | MRelay werr | MPlaybook pberr

datatype reply =
    ROk (rp_id: string) (rp_kind: string) body
  | RErr (rp_id: string) (rp_kind: string) emsg

section \<open>Pairing\<close>

text \<open>The comparison is in constant time; its result is equality.\<close>

definition pairingAuthorized :: "string \<Rightarrow> string \<Rightarrow> bool" where
  "pairingAuthorized controlPlaneKey header =
     (if controlPlaneKey = '''' then False
      else if \<not> HasPrefix header ''Bearer '' then False
      else TrimSpace (TrimPrefix header ''Bearer '') = controlPlaneKey)"

section \<open>The outbound queue of a connection\<close>

text \<open>\<open>cw_sent\<close> is what the writer goroutine wrote to the socket, \<open>cw_stopped\<close> whether it has returned.\<close>

record 'b connWriter =
  cw_send :: "'b list"
  cw_done :: bool
  cw_sent :: "'b list"
  cw_stopped :: bool

definition sendCap :: nat where "sendCap = 1024"

definition newConnWriter :: "'b connWriter" where
  "newConnWriter = \<lparr>cw_send = [], cw_done = False, cw_sent = [], cw_stopped = False\<rparr>"

definition shutdown :: "'b connWriter \<Rightarrow> 'b connWriter" where
  "shutdown w = w\<lparr>cw_done := True\<rparr>"

text \<open>When the queue has room and the connection is shut down, the select takes either case: \<open>pick\<close> says which.\<close>

definition enqueue :: "bool \<Rightarrow> 'b \<Rightarrow> 'b connWriter \<Rightarrow> 'b connWriter" where
  "enqueue pick b w =
     (if length (cw_send w) < sendCap \<and> (\<not> cw_done w \<or> pick) then w\<lparr>cw_send := cw_send w @ [b]\<rparr>
      else if cw_done w then w
      else shutdown w)"

text \<open>
  One turn of the writer loop: it takes a frame, and \<open>ok\<close> is whether the socket took it, or it sees that the
  connection is over. A shutdown cancels the context of the writes, so no write succeeds after one.
\<close>

datatype writerTurn = TurnFrame bool | TurnOver

fun writerLoop :: "writerTurn \<Rightarrow> 'b connWriter \<Rightarrow> 'b connWriter" where
  "writerLoop (TurnFrame ok) w =
     (if cw_stopped w then w
      else case cw_send w of [] \<Rightarrow> w
        | b # bs \<Rightarrow>
            if ok \<and> \<not> cw_done w then w\<lparr>cw_send := bs, cw_sent := cw_sent w @ [b]\<rparr>
            else shutdown (w\<lparr>cw_send := bs, cw_stopped := True\<rparr>))"
| "writerLoop TurnOver w = w\<lparr>cw_stopped := True\<rparr>"

section \<open>Request ids\<close>

record idSet =
  ix_seen :: "(string \<times> time) list"
  ix_cap :: nat
  ix_ttl :: duration
  ix_lastGC :: time

definition replayWindow :: duration where "replayWindow = 5 * 60 * second"

definition newIDSet :: "nat \<Rightarrow> duration \<Rightarrow> idSet" where
  "newIDSet cap ttl = \<lparr>ix_seen = [], ix_cap = cap, ix_ttl = ttl, ix_lastGC = zeroTime\<rparr>"

definition sweep :: "time \<Rightarrow> idSet \<Rightarrow> idSet" where
  "sweep now s =
     (if length (ix_seen s) \<ge> ix_cap s \<or> TimeSub now (ix_lastGC s) > ix_ttl s
      then s\<lparr>ix_seen := filter (\<lambda>(_, t). \<not> TimeSub now t > ix_ttl s) (ix_seen s), ix_lastGC := now\<rparr>
      else s)"

text \<open>The search for the oldest entry visits the map in the order \<open>arr\<close> gives.\<close>

definition oldest :: "(string \<times> time) list \<Rightarrow> string" where
  "oldest entries =
     fst (foldl (\<lambda>(k0, t0) (k, t). if k0 = '''' \<or> t < t0 then (k, t) else (k0, t0)) ('''', zeroTime) entries)"

definition idAdd ::
    "((string \<times> time) list \<Rightarrow> (string \<times> time) list) \<Rightarrow> time \<Rightarrow> string \<Rightarrow> idSet \<Rightarrow> idSet \<times> bool" where
  "idAdd arr now i s0 =
     (let s = sweep now s0 in
      if (case map_of (ix_seen s) i of Some t \<Rightarrow> TimeSub now t \<le> ix_ttl s | None \<Rightarrow> False)
      then (s\<lparr>ix_seen := AList.update i now (ix_seen s)\<rparr>, True)
      else
        let s = (if length (ix_seen s) \<ge> ix_cap s
                 then s\<lparr>ix_seen := AList.delete (oldest (arr (ix_seen s))) (ix_seen s)\<rparr> else s) in
        (s\<lparr>ix_seen := AList.update i now (ix_seen s)\<rparr>, False))"

section \<open>The step executor and the verifier of the server\<close>

text \<open>A refusal or a failed command is a step with exit code one, never a failure of the executor.\<close>

definition serverExecuteStep :: "'w Env \<Rightarrow> 'w \<Rightarrow> Step \<Rightarrow> 'w \<times> StepResult \<times> string option" where
  "serverExecuteStep e w step =
     (case runnerExecute e w (rs_Kind step) (rs_Params step) of
        (w, out, Some err) \<Rightarrow> (w, \<lparr>sr_Output = err_msg err, sr_ExitCode = 1\<rparr>, None)
      | (w, out, None) \<Rightarrow> (w, \<lparr>sr_Output = out, sr_ExitCode = 0\<rparr>, None))"

fun verifySteps ::
    "'w Env \<Rightarrow> nat \<Rightarrow> Step list \<Rightarrow> 'w \<Rightarrow> 'w \<times> StepVerification list \<times> string list" where
  "verifySteps e i [] w = (w, [], [])"
| "verifySteps e i (st # sts) w =
     (case runnerVerify e w (rs_Kind st) (rs_Params st) of (w, r) \<Rightarrow>
      (let (sv, failures) =
         (case r of
            Inl err \<Rightarrow> (\<lparr>sv_Index = i, sv_Kind = rs_Kind st, sv_Passed = False, sv_Detail = err_msg err\<rparr>,
              [''step '' @ Itoa (int i + 1) @ '' ('' @ rs_Kind st @ ''): '' @ err_msg err])
          | Inr _ \<Rightarrow> (\<lparr>sv_Index = i, sv_Kind = rs_Kind st, sv_Passed = True, sv_Detail = ''passed''\<rparr>, []))
       in case verifySteps e (Suc i) sts w of (w, svs, fs) \<Rightarrow> (w, sv # svs, failures @ fs)))"

definition runCheck :: "'w Units option \<Rightarrow> 'w \<Rightarrow> VerificationCheck \<Rightarrow> 'w \<times> string option" where
  "runCheck units w chk =
     (if vc_Kind chk = ''service_active'' \<or> vc_Kind chk = ''service_inactive'' then
        (case units of None \<Rightarrow> (w, Some ''systemd subsystem not configured'')
         | Some u \<Rightarrow>
             (case un_Status u w (vc_Target chk) of
                (w, Inl err) \<Rightarrow> (w, Some (err_msg err))
              | (w, Inr st) \<Rightarrow>
                  if (vc_Kind chk = ''service_active'') \<noteq> (us_ActiveState st = ''active'')
                  then (w, Some (''active_state='' @ Quote (us_ActiveState st))) else (w, None)))
      else (w, Some (''unsupported verification kind '' @ Quote (vc_Kind chk))))"

fun runChecks :: "'w Units option \<Rightarrow> VerificationCheck list \<Rightarrow> 'w \<Rightarrow> 'w \<times> string list" where
  "runChecks units [] w = (w, [])"
| "runChecks units (chk # chks) w =
     (case runCheck units w chk of (w, r) \<Rightarrow>
      (case runChecks units chks w of (w, fs) \<Rightarrow>
        (w, (case r of None \<Rightarrow> fs | Some err \<Rightarrow> (vc_ID chk @ '': '' @ err) # fs))))"

definition serverVerify :: "'w Env \<Rightarrow> 'w Units option \<Rightarrow> 'w \<Rightarrow> Runbook \<Rightarrow> 'w \<times> VerificationResult \<times> string option" where
  "serverVerify e units w rb =
     (let n = length (rb_Steps rb) + length (rb_Verification rb) in
      if n = 0 then (w, \<lparr>vr_Passed = True, vr_Detail = ''no verification checks configured'', vr_Steps = []\<rparr>, None)
      else case verifySteps e 0 (rb_Steps rb) w of (w, perStep, failed) \<Rightarrow>
        (case runChecks units (rb_Verification rb) w of (w, failedChecks) \<Rightarrow>
          (let failures = failed @ failedChecks in
           if failures \<noteq> [] then (w, \<lparr>vr_Passed = False, vr_Detail = Join ''; '' failures, vr_Steps = perStep\<rparr>, None)
           else (w, \<lparr>vr_Passed = True, vr_Detail = Itoa (int n) @ '' check(s) passed'', vr_Steps = perStep\<rparr>, None))))"

section \<open>The server\<close>

record 'w cpcfg =
  cg_sha :: "string \<Rightarrow> string"
  cg_Review :: bool
  cg_Infra :: "('w \<Rightarrow> 'w \<times> json) option"
  cg_Monitor :: bool
  cg_Inventory :: "'w \<Rightarrow> 'w \<times> json"
  cg_Watchtower :: bool
  cg_Diagnose :: "('w \<Rightarrow> 'w \<times> Collector) option"
  cg_Threshold :: rat
  cg_Store :: bool
  cg_Remediation :: "'w deps option"
  cg_Playbooks :: "'w svc option"
  cg_Version :: string
  cg_startAt :: time
  cg_life :: bool
  cg_Key :: string
  cg_RequirePairing :: bool
  cg_arr :: "(string \<times> time) list \<Rightarrow> (string \<times> time) list"

text \<open>\<open>cp_tokens\<close> are the answers of the random source of the token minter, \<open>None\<close> for a failed read.\<close>

record 'w server =
  cp_sv :: "'w sv"
  cp_mon :: mon
  cp_seen :: idSet
  cp_bundles :: "(string \<times> Bundle) list"
  cp_subs :: "subscriber list"
  cp_runs :: "(string \<times> string) list"
  cp_gens :: "(string \<times> Request) list"
  cp_tokens :: "string option list"
  cp_heartbeat :: bool

abbreviation mgrOf :: "'w server \<Rightarrow> 'w mgr" where "mgrOf y \<equiv> sy_mgr (cp_sv y)"

definition setMgr :: "'w mgr \<Rightarrow> 'w server \<Rightarrow> 'w server" where
  "setMgr m y = y\<lparr>cp_sv := (cp_sv y)\<lparr>sy_mgr := m\<rparr>\<rparr>"

definition setStore :: "store \<Rightarrow> 'w server \<Rightarrow> 'w server" where
  "setStore s y = setMgr ((mgrOf y)\<lparr>m_store := s\<rparr>) y"

definition setHost :: "'w \<Rightarrow> 'w server \<Rightarrow> 'w server" where
  "setHost w y = setMgr ((mgrOf y)\<lparr>m_world := w\<rparr>) y"

abbreviation okReply :: "Frame \<Rightarrow> string \<Rightarrow> body \<Rightarrow> reply list" where "okReply f kind b \<equiv> [ROk (fm_ID f) kind b]"
abbreviation errReply :: "Frame \<Rightarrow> string \<Rightarrow> emsg \<Rightarrow> reply list" where "errReply f kind m \<equiv> [RErr (fm_ID f) (''error.'' @ kind) m]"

definition payloadOf :: "Frame \<Rightarrow> members option" where
  "payloadOf f = (case fm_Payload f of None \<Rightarrow> None | Some j \<Rightarrow> asObj j)"

section \<open>Error kinds\<close>

definition storeErrKind :: "store_err \<Rightarrow> string" where
  "storeErrKind e = (case e of ErrNotFound \<Rightarrow> ''not_found'' | ErrConflict \<Rightarrow> ''conflict'' | _ \<Rightarrow> ''internal'')"

fun reviewErrKind :: "review_err \<Rightarrow> string" where
  "reviewErrKind ErrTokenInvalid = ''token_invalid''"
| "reviewErrKind ErrTokenUsed = ''token_used''"
| "reviewErrKind ErrTokenExpired = ''token_expired''"
| "reviewErrKind ErrTokenMismatch = ''token_mismatch''"
| "reviewErrKind (ReviewStore e) = (if e = ErrNotFound then ''not_found'' else ''internal'')"

fun remediationErrKind :: "rem_err \<Rightarrow> string" where
  "remediationErrKind ErrHashMismatch = ''hash_mismatch''"
| "remediationErrKind ErrBlockedL3 = ''blocked_l3''"
| "remediationErrKind (ErrInvalidState _) = ''invalid_state''"
| "remediationErrKind ErrNoRollbackPlan = ''no_rollback_plan''"
| "remediationErrKind ErrRollbackUnsupported = ''rollback_unsupported''"
| "remediationErrKind (RApproval (ApReview (ReviewStore e))) = storeErrKind e"
| "remediationErrKind (RApproval (ApReview r)) = reviewErrKind r"
| "remediationErrKind (RApproval (ApStore e)) = storeErrKind e"
| "remediationErrKind (RStore e) = storeErrKind e"
| "remediationErrKind ErrDecode = ''internal''"

abbreviation remErr :: "Frame \<Rightarrow> rem_err \<Rightarrow> reply list" where "remErr f e \<equiv> errReply f (remediationErrKind e) (MRem e)"

section \<open>Review, monitor, relay and diagnosis handlers (server.go)\<close>

definition looseInt :: "members \<Rightarrow> string \<Rightarrow> int" where
  "looseInt ms k = (case ptrInt ms k of Some n \<Rightarrow> n | None \<Rightarrow> 0)"

definition getInt64 :: "members \<Rightarrow> string \<Rightarrow> int option" where
  "getInt64 ms k = (case getInt ms k 0 of Some n \<Rightarrow> if - (2 ^ 63) \<le> n \<and> n < 2 ^ 63 then Some n else None | None \<Rightarrow> None)"

definition zeroToken :: string where "zeroToken = replicate 64 (CHR ''0'')"

definition nextToken :: "'w server \<Rightarrow> 'w server \<times> string" where
  "nextToken y = (case cp_tokens y of [] \<Rightarrow> (y, zeroToken)
     | t # ts \<Rightarrow> (y\<lparr>cp_tokens := ts\<rparr>, case t of Some h \<Rightarrow> h | None \<Rightarrow> zeroToken))"

definition authConfirm :: "'w cpcfg \<Rightarrow> time \<Rightarrow> Frame \<Rightarrow> 'w server \<Rightarrow> 'w server \<times> reply list" where
  "authConfirm c now f y =
     (case do { ms \<leftarrow> payloadOf f; action \<leftarrow> getStr ms ''action''; project \<leftarrow> getStr ms ''project_id'';
                files \<leftarrow> getList ms ''files'' jsonStr; comment \<leftarrow> getStr ms ''comment'';
                Some (action, project, files, comment) } of
        None \<Rightarrow> (y, errReply f ''bad_payload'' (MText ''action and project_id required''))
      | Some (action, project, files, comment) \<Rightarrow>
          if action = '''' \<or> project = '''' then (y, errReply f ''bad_payload'' (MText ''action and project_id required''))
          else case nextToken y of (y, rnd) \<Rightarrow>
            (case MintConfirmationToken (cg_sha c) now rnd (m_store (mgrOf y)) action project files comment of
               (s, Inl e) \<Rightarrow> (setStore s y, errReply f (reviewErrKind (ReviewStore e)) (MStore e))
             | (s, Inr tok) \<Rightarrow> (setStore s y, okReply f ''auth.confirm'' (BToken (ct_Token tok) (ct_ActionHash tok) (unixSec (ct_ExpiresAt tok))))))"

definition auditList :: "Frame \<Rightarrow> 'w server \<Rightarrow> 'w server \<times> reply list" where
  "auditList f y =
     (let ms = (case fm_Payload f of Some (JObj ms) \<Rightarrow> ms | _ \<Rightarrow> []) in
      case ListAudit (m_store (mgrOf y)) (looseStr ms ''type'') (looseStr ms ''project_id'') (looseInt ms ''limit'') of
        (s, Inl e) \<Rightarrow> (setStore s y, errReply f (reviewErrKind (ReviewStore e)) (MStore e))
      | (s, Inr es) \<Rightarrow> (setStore s y, okReply f ''audit.list'' (BAudit es)))"

definition dispatchReview :: "'w cpcfg \<Rightarrow> time \<Rightarrow> Frame \<Rightarrow> 'w server \<Rightarrow> 'w server \<times> reply list" where
  "dispatchReview c now f y =
     (if \<not> cg_Review c then (y, errReply f ''unavailable'' (MText ''review subsystem not configured''))
      else if fm_Kind f = ''auth.confirm'' then authConfirm c now f y
      else auditList f y)"

definition dispatchInfra :: "'w cpcfg \<Rightarrow> Frame \<Rightarrow> 'w server \<Rightarrow> 'w server \<times> reply list" where
  "dispatchInfra c f y =
     (case cg_Infra c of None \<Rightarrow> (y, errReply f ''unavailable'' (MText ''infra subsystem not configured''))
      | Some sample \<Rightarrow> (case sample (m_world (mgrOf y)) of (w, j) \<Rightarrow> (setHost w y, okReply f ''infra.metrics.sample'' (BDocument j))))"

text \<open>The monitor engine works on the store of the agent.\<close>

definition onMonitor :: "'w server \<Rightarrow> (mon \<Rightarrow> mon \<times> 'a) \<Rightarrow> 'w server \<times> 'a" where
  "onMonitor y g = (case g ((cp_mon y)\<lparr>mo_store := m_store (mgrOf y)\<rparr>) of
     (m, r) \<Rightarrow> ((setStore (mo_store m) y)\<lparr>cp_mon := m\<rparr>, r))"

definition millisecond :: duration where "millisecond = 1000000"

definition monitorSilence :: "time \<Rightarrow> Frame \<Rightarrow> 'w server \<Rightarrow> 'w server \<times> reply list" where
  "monitorSilence now f y =
     (case do { ms \<leftarrow> payloadOf f; rule \<leftarrow> getStr ms ''rule''; target \<leftarrow> getStr ms ''target''; d \<leftarrow> getInt64 ms ''duration_ms'';
                Some (rule, target, d) } of
        None \<Rightarrow> (y, errReply f ''bad_payload'' (MText ''rule required''))
      | Some (rule, target, d) \<Rightarrow>
          if rule = '''' then (y, errReply f ''bad_payload'' (MText ''rule required''))
          else (case onMonitor y (\<lambda>m. Silence now m rule target (wrap64 (d * millisecond))) of
             (y, Inl e) \<Rightarrow> (y, errReply f ''alerts_error'' (MStore e))
           | (y, Inr until) \<Rightarrow> (y, okReply f ''monitor.silence'' (BSilence (if IsZero until then None else Some until)))))"

definition monitorAck :: "Frame \<Rightarrow> 'w server \<Rightarrow> 'w server \<times> reply list" where
  "monitorAck f y =
     (case do { ms \<leftarrow> payloadOf f; k \<leftarrow> getStr ms ''key''; t \<leftarrow> getInt64 ms ''fired_at''; Some (k, t) } of
        None \<Rightarrow> (y, errReply f ''bad_payload'' (MText ''key required''))
      | Some (k, t) \<Rightarrow>
          if k = '''' then (y, errReply f ''bad_payload'' (MText ''key required''))
          else (case onMonitor y (\<lambda>m. Ack m k (fromUnix t)) of
             (y, Inl e) \<Rightarrow> (y, errReply f ''alerts_error'' (MStore e))
           | (y, Inr _) \<Rightarrow> (y, okReply f ''monitor.ack'' BAcked)))"

definition dispatchMonitor :: "'w cpcfg \<Rightarrow> time \<Rightarrow> Frame \<Rightarrow> 'w server \<Rightarrow> 'w server \<times> reply list" where
  "dispatchMonitor c now f y =
     (if \<not> cg_Monitor c then (y, errReply f ''unavailable'' (MText ''monitoring is not enabled''))
      else if fm_Kind f = ''monitor.silence'' then monitorSilence now f y
      else monitorAck f y)"

definition dispatchInventory :: "'w cpcfg \<Rightarrow> Frame \<Rightarrow> 'w server \<Rightarrow> 'w server \<times> reply list" where
  "dispatchInventory c f y =
     (case cg_Inventory c (m_world (mgrOf y)) of (w, j) \<Rightarrow> (setHost w y, okReply f ''inventory.discover'' (BDocument j)))"

definition watchtowerEnable :: "Frame \<Rightarrow> 'w server \<Rightarrow> 'w server \<times> reply list" where
  "watchtowerEnable f y =
     (case do { ms \<leftarrow> payloadOf f; u \<leftarrow> getStr ms ''relayUrl''; k \<leftarrow> getStr ms ''enrollmentCode''; Some (u, k) } of
        None \<Rightarrow> (y, errReply f ''bad_payload'' (MText ''relayUrl and enrollmentCode required''))
      | Some (u, k) \<Rightarrow>
          if u = '''' \<or> k = '''' then (y, errReply f ''bad_payload'' (MText ''relayUrl and enrollmentCode required''))
          else (case Enroll (sy_wt (cp_sv y)) u k of
             (w, Inl e) \<Rightarrow> (y\<lparr>cp_sv := (cp_sv y)\<lparr>sy_wt := w\<rparr>\<rparr>, errReply f ''watchtower_error'' (MRelay e))
           | (w, Inr cr) \<Rightarrow> (y\<lparr>cp_sv := (cp_sv y)\<lparr>sy_wt := w\<rparr>, cp_heartbeat := True\<rparr>,
               okReply f ''watchtower.enable'' (BEnrolled (cr_ServerID cr) (cr_AgentID cr)))))"

definition dispatchWatchtower :: "'w cpcfg \<Rightarrow> Frame \<Rightarrow> 'w server \<Rightarrow> 'w server \<times> reply list" where
  "dispatchWatchtower c f y =
     (if \<not> cg_Watchtower c then (y, errReply f ''unavailable'' (MText ''watchtower not configured''))
      else if fm_Kind f = ''watchtower.enable'' then watchtowerEnable f y
      else (y, okReply f ''watchtower.status'' (BStatus (wt_creds (sy_wt (cp_sv y))))))"

definition setDiagnoseBundle :: "string \<Rightarrow> Bundle \<Rightarrow> 'w server \<Rightarrow> 'w server" where
  "setDiagnoseBundle i b y = y\<lparr>cp_bundles := AList.update i b (cp_bundles y)\<rparr>"

definition diagnoseTarget :: "'w cpcfg \<Rightarrow> string \<Rightarrow> string \<Rightarrow> string \<Rightarrow> 'w server \<Rightarrow> 'w server \<times> Target" where
  "diagnoseTarget c i kind target y =
     (let t = \<lparr>tg_IncidentID = i, tg_MonitorKind = kind, tg_Target = target, tg_Summary = ''''\<rparr> in
      if \<not> cg_Store c then (y, t)
      else (case GetIncidentBinding (m_store (mgrOf y)) i of
          (s, Inl _) \<Rightarrow> (setStore s y, t)
        | (s, Inr b) \<Rightarrow> (setStore s y, t\<lparr>tg_Summary := ib_Summary b\<rparr>)))"

definition dispatchDiagnose :: "'w cpcfg \<Rightarrow> Frame \<Rightarrow> 'w server \<Rightarrow> 'w server \<times> reply list" where
  "dispatchDiagnose c f y =
     (case cg_Diagnose c of
        None \<Rightarrow> (y, errReply f ''unavailable'' (MText ''diagnose subsystem not configured''))
      | Some build \<Rightarrow>
          (case do { ms \<leftarrow> payloadOf f; i \<leftarrow> getStr ms ''incidentId''; k \<leftarrow> getStr ms ''monitorKind''; t \<leftarrow> getStr ms ''target'';
                     Some (i, k, t) } of
             None \<Rightarrow> (y, errReply f ''bad_payload'' (MText ''incidentId required''))
           | Some (i, k, t) \<Rightarrow>
               if i = '''' then (y, errReply f ''bad_payload'' (MText ''incidentId required''))
               else case diagnoseTarget c i k t y of (y, target) \<Rightarrow>
                 if fm_Kind f = ''incident.diagnose'' then
                   (case build (m_world (mgrOf y)) of (w, coll) \<Rightarrow>
                     (case pipelineRun coll (cg_Threshold c) target of (a, b) \<Rightarrow>
                       (setDiagnoseBundle i b (setHost w y), okReply f ''incident.diagnose'' (BAssessment a))))
                 else (case map_of (cp_bundles y) i of
                     Some b \<Rightarrow> (y, okReply f ''incident.evidence'' (BBundle b))
                   | None \<Rightarrow> (case build (m_world (mgrOf y)) of (w, coll) \<Rightarrow>
                       (let b = Collect coll target in
                        (setDiagnoseBundle i b (setHost w y), okReply f ''incident.evidence'' (BBundle b)))))))"

section \<open>The remediation handlers (server/remediation.go)\<close>

definition executionIDOf :: "Frame \<Rightarrow> string option" where
  "executionIDOf f =
     (case do { ms \<leftarrow> payloadOf f; getStr ms ''execution_id'' } of Some i \<Rightarrow> if i = '''' then None else Some i | None \<Rightarrow> None)"

definition needExecutionID :: "Frame \<Rightarrow> reply list" where
  "needExecutionID f = errReply f ''bad_payload'' (MText ''execution_id required'')"

definition handleRemediationGet :: "Frame \<Rightarrow> 'w server \<Rightarrow> 'w server \<times> reply list" where
  "handleRemediationGet f y =
     (case executionIDOf f of None \<Rightarrow> (y, needExecutionID f)
      | Some i \<Rightarrow>
          (case onStore (mgrOf y) (\<lambda>s. GetExecution s i) of
             (m, Inl e) \<Rightarrow> (setMgr m y, remErr f e)
           | (m, Inr exec) \<Rightarrow>
               (case loadRunbook m (re_RunbookID exec) of
                  (m, Inl e) \<Rightarrow> (setMgr m y, remErr f e)
                | (m, Inr rb) \<Rightarrow> (setMgr m y, okReply f ''incident.runbook.get'' (BRunbook exec rb)))))"

definition handleRemediationDecline :: "'w deps \<Rightarrow> time \<Rightarrow> Frame \<Rightarrow> 'w server \<Rightarrow> 'w server \<times> reply list" where
  "handleRemediationDecline d now f y =
     (case do { ms \<leftarrow> payloadOf f; i \<leftarrow> getStr ms ''execution_id''; reason \<leftarrow> getStr ms ''reason''; Some (i, reason) } of
        None \<Rightarrow> (y, needExecutionID f)
      | Some (i, reason) \<Rightarrow>
          if i = '''' then (y, needExecutionID f)
          else (case Decline d now (mgrOf y) i reason of
             (m, Inl e) \<Rightarrow> (setMgr m y, remErr f e)
           | (m, Inr exec) \<Rightarrow> (setMgr m y, okReply f ''incident.runbook.decline'' (BExecution exec))))"

text \<open>The run is started on the lifetime of the server; before \<open>Serve\<close> there is none and it is refused.\<close>

definition runRemediationExecute :: "'w cpcfg \<Rightarrow> string \<Rightarrow> string \<Rightarrow> 'w server \<Rightarrow> 'w server" where
  "runRemediationExecute c executionID contentHash y =
     (if \<not> cg_life c then y else y\<lparr>cp_runs := cp_runs y @ [(executionID, contentHash)]\<rparr>)"

record execRequest =
  xr_ExecutionID :: string
  xr_IncidentID :: string
  xr_RunbookID :: string
  xr_ContentHash :: string
  xr_Token :: string

definition execRequestOf :: "Frame \<Rightarrow> execRequest option" where
  "execRequestOf f =
     do { ms \<leftarrow> payloadOf f; i \<leftarrow> getStr ms ''execution_id''; inc \<leftarrow> getStr ms ''incident_id''; rb \<leftarrow> getStr ms ''runbook_id'';
          h \<leftarrow> getStr ms ''content_hash''; t \<leftarrow> getStr ms ''confirmation_token'';
          Some \<lparr>xr_ExecutionID = i, xr_IncidentID = inc, xr_RunbookID = rb, xr_ContentHash = h, xr_Token = t\<rparr> }"

definition approveAndAckExecute ::
    "'w cpcfg \<Rightarrow> 'w deps \<Rightarrow> time \<Rightarrow> Frame \<Rightarrow> execRequest \<Rightarrow> string \<Rightarrow> 'w server \<Rightarrow> 'w server \<times> reply list" where
  "approveAndAckExecute c d now f q ackKind y =
     (case onStore (mgrOf y) (\<lambda>s. GetExecution s (xr_ExecutionID q)) of
        (m, Inl e) \<Rightarrow> (setMgr m y, remErr f e)
      | (m, Inr exec) \<Rightarrow>
          if (xr_IncidentID q \<noteq> '''' \<and> xr_IncidentID q \<noteq> re_IncidentID exec) \<or>
             (xr_RunbookID q \<noteq> '''' \<and> xr_RunbookID q \<noteq> re_RunbookID exec)
          then (setMgr m y, errReply f ''execution_mismatch'' (MText ''incident_id or runbook_id does not match execution''))
          else if re_Status exec = RemediationProposed then
            (case Approve d now m (xr_ExecutionID q) (xr_ContentHash q) (xr_Token q) of
               (m, Inl e) \<Rightarrow> (setMgr m y, remErr f e)
             | (m, Inr exec) \<Rightarrow>
                 (runRemediationExecute c (xr_ExecutionID q) (xr_ContentHash q) (setMgr m y), okReply f ackKind (BExecution exec)))
          else if re_Status exec \<in> {RemediationExecuting, RemediationVerifying, RemediationResolved, RemediationRemediationFailed} then
            (runRemediationExecute c (xr_ExecutionID q) (xr_ContentHash q) (setMgr m y), okReply f ackKind (BExecution exec))
          else if re_Status exec = RemediationBlockedL3 then (setMgr m y, remErr f ErrBlockedL3)
          else (setMgr m y, remErr f (ErrInvalidState '''')))"

definition handleRemediationExecute :: "'w cpcfg \<Rightarrow> 'w deps \<Rightarrow> time \<Rightarrow> Frame \<Rightarrow> 'w server \<Rightarrow> 'w server \<times> reply list" where
  "handleRemediationExecute c d now f y =
     (case execRequestOf f of
        None \<Rightarrow> (y, errReply f ''bad_payload'' (MText ''execution_id and content_hash required''))
      | Some q \<Rightarrow>
          if xr_ExecutionID q = '''' \<or> xr_ContentHash q = ''''
          then (y, errReply f ''bad_payload'' (MText ''execution_id and content_hash required''))
          else approveAndAckExecute c d now f q ''incident.runbook.execute'' y)"

definition handleRemediationSubscribe :: "Frame \<Rightarrow> 'w server \<Rightarrow> 'w server \<times> reply list" where
  "handleRemediationSubscribe f y =
     (case do { ms \<leftarrow> payloadOf f; i \<leftarrow> getStr ms ''execution_id''; a \<leftarrow> getInt64 ms ''after_seq''; Some (i, a) } of
        None \<Rightarrow> (y, needExecutionID f)
      | Some (i, a) \<Rightarrow>
          if i = '''' then (y, needExecutionID f)
          else (case Subscribe (m_store (mgrOf y)) (cp_subs y) i a of
             (s, subs, Some e) \<Rightarrow> ((setStore s y)\<lparr>cp_subs := subs\<rparr>, remErr f (RStore e))
           | (s, subs, None) \<Rightarrow> ((setStore s y)\<lparr>cp_subs := subs\<rparr>, okReply f ''incident.execution.subscribe'' (BSubscribed i))))"

definition verificationOf :: "RemediationEvent list \<Rightarrow> json" where
  "verificationOf evs =
     (case find (\<lambda>ev. ev_Type ev = ''internal_verification'') (rev evs) of
        Some ev \<Rightarrow> (case ev_Data ev of JObj ms \<Rightarrow> JObj ms | _ \<Rightarrow> JNull) | None \<Rightarrow> JNull)"

definition handleRemediationVerify :: "Frame \<Rightarrow> 'w server \<Rightarrow> 'w server \<times> reply list" where
  "handleRemediationVerify f y =
     (case executionIDOf f of None \<Rightarrow> (y, needExecutionID f)
      | Some i \<Rightarrow>
          (case onStore (mgrOf y) (\<lambda>s. GetExecution s i) of
             (m, Inl e) \<Rightarrow> (setMgr m y, remErr f e)
           | (m, Inr exec) \<Rightarrow>
               (case onStore m (\<lambda>s. RemediationEventsAfter s i 0) of
                  (m, Inl e) \<Rightarrow> (setMgr m y, remErr f e)
                | (m, Inr evs) \<Rightarrow> (setMgr m y, okReply f ''incident.verify'' (BVerification exec (verificationOf evs))))))"

definition handleRemediationRollback :: "'w cpcfg \<Rightarrow> 'w deps \<Rightarrow> time \<Rightarrow> Frame \<Rightarrow> 'w server \<Rightarrow> 'w server \<times> reply list" where
  "handleRemediationRollback c d now f y =
     (case execRequestOf f of None \<Rightarrow> (y, needExecutionID f)
      | Some q \<Rightarrow>
          if xr_ExecutionID q = '''' then (y, needExecutionID f)
          else if xr_Token q = '''' then
            (case DeriveRollback d now (mgrOf y) (xr_ExecutionID q) of
               (m, Inl e) \<Rightarrow> (setMgr m y, remErr f e)
             | (m, Inr exec) \<Rightarrow> (setMgr m y, okReply f ''incident.rollback'' (BRollback exec)))
          else if xr_ContentHash q = '''' then (y, errReply f ''bad_payload'' (MText ''content_hash required''))
          else (case onStore (mgrOf y) (\<lambda>s. GetExecution s (xr_ExecutionID q)) of
             (m, Inl e) \<Rightarrow> (setMgr m y, remErr f e)
           | (m, Inr target) \<Rightarrow>
               if re_Kind target \<noteq> RemediationKindRollback
               then (setMgr m y, errReply f ''bad_payload'' (MText ''execution_id must be a rollback execution id from phase A''))
               else approveAndAckExecute c d now f q ''incident.rollback'' (setMgr m y)))"

section \<open>Playbook generation (playbook\_rpc.go)\<close>

definition handlePlaybookGenerate :: "'w cpcfg \<Rightarrow> Frame \<Rightarrow> 'w server \<Rightarrow> 'w server \<times> reply list" where
  "handlePlaybookGenerate c f y =
     (case do { ms \<leftarrow> payloadOf f; i \<leftarrow> getStr ms ''incidentId''; k \<leftarrow> getStr ms ''monitorKind''; t \<leftarrow> getStr ms ''target'';
                s \<leftarrow> getStr ms ''severity'';
                Some \<lparr>rq_IncidentID = i, rq_MonitorKind = k, rq_Target = t, rq_Severity = s\<rparr> } of
        None \<Rightarrow> (y, errReply f ''bad_payload'' (MText ''incidentId required''))
      | Some req \<Rightarrow>
          if rq_IncidentID req = '''' then (y, errReply f ''bad_payload'' (MText ''incidentId required''))
          else if Option.is_none (cg_Playbooks c) then (y, errReply f ''unavailable'' (MText MsgTurnOnMonitoring))
          else (y\<lparr>cp_gens := cp_gens y @ [(fm_ID f, req)]\<rparr>, []))"

definition playbookErrKind :: "pberr \<Rightarrow> string" where
  "playbookErrKind e = (case e of PErr status _ _ \<Rightarrow> status | _ \<Rightarrow> ''internal'')"

definition dispatchRemediation :: "'w cpcfg \<Rightarrow> time \<Rightarrow> Frame \<Rightarrow> 'w server \<Rightarrow> 'w server \<times> reply list" where
  "dispatchRemediation c now f y =
     (case cg_Remediation c of
        None \<Rightarrow> (y, errReply f ''unavailable'' (MText ''remediation subsystem not configured''))
      | Some d \<Rightarrow>
          (let k = fm_Kind f in
           if k = ''incident.runbook.get'' then handleRemediationGet f y
           else if k = ''incident.runbook.decline'' then handleRemediationDecline d now f y
           else if k = ''incident.runbook.execute'' then handleRemediationExecute c d now f y
           else if k = ''incident.execution.subscribe'' then handleRemediationSubscribe f y
           else if k = ''incident.verify'' then handleRemediationVerify f y
           else if k = ''incident.rollback'' then handleRemediationRollback c d now f y
           else handlePlaybookGenerate c f y))"

section \<open>Dispatch, the read loop and the background work\<close>

definition wholeSeconds :: "duration \<Rightarrow> int" where
  "wholeSeconds d = (if d < 0 then - ((- d) div second) else d div second)"

definition dispatch :: "'w cpcfg \<Rightarrow> time \<Rightarrow> Frame \<Rightarrow> 'w server \<Rightarrow> 'w server \<times> reply list" where
  "dispatch c now f y =
     (let k = fm_Kind f in
      if k = ''server.health'' then
        (y, okReply f ''server.health'' (BHealth (cg_Version c) (wholeSeconds (TimeSub now (cg_startAt c)))))
      else if k \<in> {''auth.confirm'', ''audit.list''} then dispatchReview c now f y
      else if k = ''infra.metrics.sample'' then dispatchInfra c f y
      else if k \<in> {''monitor.silence'', ''monitor.ack''} then dispatchMonitor c now f y
      else if k = ''inventory.discover'' then dispatchInventory c f y
      else if k \<in> {''watchtower.enable'', ''watchtower.status''} then dispatchWatchtower c f y
      else if k \<in> {''incident.diagnose'', ''incident.evidence''} then dispatchDiagnose c f y
      else if k \<in> {''incident.runbook.get'', ''incident.runbook.decline'', ''incident.runbook.execute'',
          ''incident.execution.subscribe'', ''incident.verify'', ''incident.rollback'', ''incident.playbook.generate''}
        then dispatchRemediation c now f y
      else (y, errReply f ''unknown_kind'' (MText k)))"

text \<open>One message of a connection that was let in.\<close>

definition handleMessage :: "'w cpcfg \<Rightarrow> time \<Rightarrow> string + Frame \<Rightarrow> 'w server \<Rightarrow> 'w server \<times> reply list" where
  "handleMessage c now msg y =
     (case msg of
        Inl err \<Rightarrow> (y, [RErr '''' ''error.bad_frame'' (MText err)])
      | Inr f \<Rightarrow>
          if fm_ID f \<noteq> '''' then
            (case idAdd (cg_arr c) now (fm_ID f) (cp_seen y) of
               (seen, True) \<Rightarrow> (y\<lparr>cp_seen := seen\<rparr>, [ROk (fm_ID f) (fm_Kind f) BReplay])
             | (seen, False) \<Rightarrow> dispatch c now f (y\<lparr>cp_seen := seen\<rparr>))
          else dispatch c now f y)"

text \<open>The upgrade of a connection is checked once; \<open>header\<close> is its \<open>Authorization\<close> header.\<close>

definition handleWS :: "'w cpcfg \<Rightarrow> string \<Rightarrow> time \<Rightarrow> string + Frame \<Rightarrow> 'w server \<Rightarrow> 'w server \<times> reply list" where
  "handleWS c header now msg y =
     (if cg_RequirePairing c \<and> \<not> pairingAuthorized (cg_Key c) header then (y, []) else handleMessage c now msg y)"

definition dropNth :: "nat \<Rightarrow> 'a list \<Rightarrow> 'a list" where
  "dropNth n xs = take n xs @ drop (Suc n) xs"

text \<open>The goroutine of an execution; its error is only logged.\<close>

definition runExecute :: "'w cpcfg \<Rightarrow> nat \<Rightarrow> time \<Rightarrow> 'w server \<Rightarrow> 'w server \<times> reply list" where
  "runExecute c n now y =
     (case cg_Remediation c of None \<Rightarrow> (y, [])
      | Some d \<Rightarrow>
          if n < length (cp_runs y) then
            (case cp_runs y ! n of (i, h) \<Rightarrow>
              (setMgr (fst (Execute d now (mgrOf y) i h)) (y\<lparr>cp_runs := dropNth n (cp_runs y)\<rparr>), []))
          else (y, []))"

definition runGenerate :: "'w cpcfg \<Rightarrow> nat \<Rightarrow> time \<Rightarrow> 'w server \<Rightarrow> 'w server \<times> reply list" where
  "runGenerate c n now y =
     (case cg_Playbooks c of None \<Rightarrow> (y, [])
      | Some svc \<Rightarrow>
          if n < length (cp_gens y) then
            (case cp_gens y ! n of (i, req) \<Rightarrow>
              (case svGenerate svc now req (cp_sv y) of
                 (sv, Inl e) \<Rightarrow> (y\<lparr>cp_sv := sv, cp_gens := dropNth n (cp_gens y)\<rparr>, [RErr i (''error.'' @ playbookErrKind e) (MPlaybook e)])
               | (sv, Inr execID) \<Rightarrow>
                   (y\<lparr>cp_sv := sv, cp_gens := dropNth n (cp_gens y)\<rparr>, [ROk i ''incident.playbook.generate'' (BPlaybook execID)])))
          else (y, []))"

datatype serverEvent = Receive string time "string + Frame" | RunExecute nat time | RunGenerate nat time

fun serverStep :: "'w cpcfg \<Rightarrow> serverEvent \<Rightarrow> 'w server \<Rightarrow> 'w server \<times> reply list" where
  "serverStep c (Receive header now msg) y = handleWS c header now msg y"
| "serverStep c (RunExecute n now) y = runExecute c n now y"
| "serverStep c (RunGenerate n now) y = runGenerate c n now y"

definition serverRun :: "'w cpcfg \<Rightarrow> serverEvent list \<Rightarrow> 'w server \<Rightarrow> 'w server" where
  "serverRun c ss y = fold (\<lambda>s y. fst (serverStep c s y)) ss y"

end
