(* ===== verification/Control_Plane_Theorems.thy ===== *)
theory Control_Plane_Theorems
  imports Control_Plane Playbook_Flow
begin

text \<open>
  Properties of the control plane: a replayed request has no effect, every request is answered once, frames are
  written in order, and over any sequence of messages and background work a step runs only when a client asked for
  exactly that execution and content with a valid token; the verifier of the server fails closed.
\<close>

section \<open>Request ids\<close>

lemma oldest_fold:
  fixes t0 :: time
  assumes "k0 \<noteq> ''''" and "'''' \<notin> fst ` set es"
    and "foldl (\<lambda>(k0, t0) (k, t). if k0 = '''' \<or> t < t0 then (k, t) else (k0, t0)) (k0, t0) es = (k, t)"
  shows "(k, t) \<in> insert (k0, t0) (set es) \<and> t \<le> t0 \<and> (\<forall>(k', t') \<in> set es. t \<le> t')"
  using assms
proof (induction es arbitrary: k0 t0)
  case (Cons e es)
  obtain k1 t1 where e: "e = (k1, t1)" by (cases e)
  have k1: "k1 \<noteq> ''''" and ns: "'''' \<notin> fst ` set es" using Cons.prems(2) e by auto
  show ?case
  proof (cases "t1 < t0")
    case True
    then have "foldl (\<lambda>(k0, t0) (k, t). if k0 = '''' \<or> t < t0 then (k, t) else (k0, t0)) (k1, t1) es = (k, t)"
      using Cons.prems(3) e by simp
    from Cons.IH [OF k1 ns this] True e show ?thesis by auto
  next
    case False
    then have "foldl (\<lambda>(k0, t0) (k, t). if k0 = '''' \<or> t < t0 then (k, t) else (k0, t0)) (k0, t0) es = (k, t)"
      using Cons.prems(1,3) e by simp
    from Cons.IH [OF Cons.prems(1) ns this] False e show ?thesis by auto
  qed
qed simp

lemma oldest_minimal:
  assumes "es \<noteq> []" and "'''' \<notin> fst ` set es"
  shows "\<exists>t. (oldest es, t) \<in> set es \<and> (\<forall>(k', t') \<in> set es. t \<le> t')"
proof -
  obtain k0 t0 es' where es: "es = (k0, t0) # es'" using assms(1) by (metis list.exhaust surj_pair)
  obtain k t where f: "foldl (\<lambda>(k0, t0) (k, t). if k0 = '''' \<or> t < t0 then (k, t) else (k0, t0)) (k0, t0) es' = (k, t)"
    by fastforce
  have "oldest es = k" by (simp add: oldest_def es f)
  with oldest_fold [OF _ _ f] assms(2) show ?thesis by (auto simp: es intro!: exI [of _ t])
qed

text \<open>The id \<open>i\<close> was added at \<open>t0\<close> or later, and at most \<open>n\<close> entries are that young.\<close>

definition remembers :: "string \<Rightarrow> time \<Rightarrow> nat \<Rightarrow> idSet \<Rightarrow> bool" where
  "remembers i t0 n s \<longleftrightarrow> distinct (map fst (ix_seen s)) \<and> '''' \<notin> fst ` set (ix_seen s) \<and>
     (\<exists>t \<ge> t0. map_of (ix_seen s) i = Some t) \<and> length (filter (\<lambda>(_, t). t \<ge> t0) (ix_seen s)) \<le> n"

lemma update_young:
  "length (filter (\<lambda>(_, t). t \<ge> t0) (AList.update j now es)) \<le> Suc (length (filter (\<lambda>(_, t). t \<ge> t0) es))"
  by (induction es) auto

lemma delete_young:
  "length (filter (\<lambda>(_, t). t \<ge> t0) (AList.delete j es)) \<le> length (filter (\<lambda>(_, t). t \<ge> (t0 :: time)) es)"
  by (induction es) (auto simp: AList.delete_eq)

lemma remembers_sweep:
  assumes "remembers i t0 n s" and "now - t0 \<le> ix_ttl s" and "- (2 ^ 63) \<le> ix_ttl s"
  shows "remembers i t0 n (sweep now s) \<and> ix_ttl (sweep now s) = ix_ttl s \<and> ix_cap (sweep now s) = ix_cap s"
proof -
  let ?P = "\<lambda>(k :: string, t). \<not> TimeSub now t > ix_ttl s"
  obtain t where t: "t \<ge> t0" "map_of (ix_seen s) i = Some t" using assms(1) by (auto simp: remembers_def)
  then have "TimeSub now t \<le> ix_ttl s" using assms(2,3) by (simp add: TimeSub_def)
  moreover have "distinct (map fst (filter ?P (ix_seen s)))" using assms(1) by (simp add: remembers_def distinct_map_filter)
  ultimately have "map_of (filter ?P (ix_seen s)) i = Some t"
    using t(2) map_of_SomeD [OF t(2)] by (intro map_of_is_SomeI) auto
  moreover have "length (filter (\<lambda>(_, t). t \<ge> t0) (filter ?P (ix_seen s))) \<le> length (filter (\<lambda>(_, t). t \<ge> t0) (ix_seen s))"
    using length_filter_le [of ?P "filter (\<lambda>(_, t). t \<ge> t0) (ix_seen s)"] by (simp add: conj_commute)
  ultimately show ?thesis using assms(1) t by (auto simp: sweep_def remembers_def distinct_map_filter)
qed

lemma remembers_idAdd:
  assumes "remembers i t0 n s" and "t0 \<le> now" and "now - t0 \<le> ix_ttl s" and "- (2 ^ 63) \<le> ix_ttl s" and "n < ix_cap s" and "j \<noteq> ''''"
    and "\<And>xs. set (arr xs) = set xs" and "idAdd arr now j s = (s', r)"
  shows "remembers i t0 (Suc n) s' \<and> ix_ttl s' = ix_ttl s \<and> ix_cap s' = ix_cap s \<and> (j = i \<longrightarrow> r)"
proof -
  define u where "u = sweep now s"
  have u: "remembers i t0 n u" "ix_ttl u = ix_ttl s" "ix_cap u = ix_cap s"
    using remembers_sweep [OF assms(1,3,4)] by (simp_all add: u_def)
  obtain t where t: "t \<ge> t0" "map_of (ix_seen u) i = Some t" using u(1) by (auto simp: remembers_def)
  have fresh: "TimeSub now t \<le> ix_ttl u" using t(1) assms(3,4) u(2) by (simp add: TimeSub_def)
  have upd: "remembers i t0 (Suc n) (v\<lparr>ix_seen := AList.update j now (ix_seen v)\<rparr>)" if "remembers i t0 n v" for v
    using that assms(2,6) update_young [of t0 j now "ix_seen v"]
    by (auto simp: remembers_def distinct_update dom_update update_conv')
  have del: "remembers i t0 n (u\<lparr>ix_seen := AList.delete (oldest (arr (ix_seen u))) (ix_seen u)\<rparr>)" if "length (ix_seen u) \<ge> ix_cap u"
  proof -
    let ?o = "oldest (arr (ix_seen u))"
    have ne: "arr (ix_seen u) \<noteq> []" using t(2) assms(7) [of "ix_seen u"] by (auto dest: map_of_SomeD)
    have "'''' \<notin> fst ` set (arr (ix_seen u))" using u(1) assms(7) by (simp add: remembers_def)
    from oldest_minimal [OF ne this] obtain to where o: "(?o, to) \<in> set (ix_seen u)" "\<forall>(k', t') \<in> set (ix_seen u). to \<le> t'"
      using assms(7) by auto
    have "?o \<noteq> i"
    proof
      assume "?o = i"
      with o(1) t(2) u(1) have "to = t" by (auto simp: remembers_def)
      with o(2) t(1) have "filter (\<lambda>(_, t). t \<ge> t0) (ix_seen u) = ix_seen u" by (auto simp: filter_id_conv)
      with u(1) that assms(5) u(3) show False by (simp add: remembers_def)
    qed
    with u(1) delete_young [of t0 ?o "ix_seen u"] dom_delete_subset [of ?o "ix_seen u"] show ?thesis
      by (auto simp: remembers_def distinct_delete delete_conv' simp del: map_of_eq_Some_iff)
  qed
  show ?thesis
  proof (cases "case map_of (ix_seen u) j of Some t \<Rightarrow> TimeSub now t \<le> ix_ttl u | None \<Rightarrow> False")
    case True
    with assms(8) upd [OF u(1)] u(2,3) show ?thesis by (auto simp: idAdd_def Let_def u_def [symmetric])
  next
    case False
    then have "j \<noteq> i" using t(2) fresh by auto
    with False assms(8) upd [OF u(1)] upd [OF del] u(2,3) show ?thesis
      by (auto simp: idAdd_def Let_def u_def [symmetric] split: if_splits)
  qed
qed

section \<open>What the handlers keep\<close>

named_theorems cp_frame \<open>components of the server that a handler keeps\<close>

lemma set_frames [simp]:
  "cp_seen (setMgr m y) = cp_seen y" "cp_runs (setMgr m y) = cp_runs y" "cp_gens (setMgr m y) = cp_gens y" "mgrOf (setMgr m y) = m"
  "cp_seen (setStore s y) = cp_seen y" "cp_runs (setStore s y) = cp_runs y" "cp_gens (setStore s y) = cp_gens y"
  "mgrOf (setStore s y) = (mgrOf y)\<lparr>m_store := s\<rparr>"
  "cp_seen (setHost w y) = cp_seen y" "cp_runs (setHost w y) = cp_runs y" "cp_gens (setHost w y) = cp_gens y"
  "mgrOf (setHost w y) = (mgrOf y)\<lparr>m_world := w\<rparr>"
  by (simp_all add: setMgr_def setStore_def setHost_def)

lemma nextToken_frames [cp_frame]:
  "cp_seen (fst (nextToken y)) = cp_seen y" "cp_runs (fst (nextToken y)) = cp_runs y" "cp_gens (fst (nextToken y)) = cp_gens y"
  "mgrOf (fst (nextToken y)) = mgrOf y"
  by (auto simp: nextToken_def split: list.split)

lemma onMonitor_frames [cp_frame]:
  "cp_seen (fst (onMonitor y g)) = cp_seen y" "cp_runs (fst (onMonitor y g)) = cp_runs y" "cp_gens (fst (onMonitor y g)) = cp_gens y"
  by (auto simp: onMonitor_def split: prod.split)

lemma diagnoseTarget_frames [cp_frame]:
  "cp_seen (fst (diagnoseTarget c i k t y)) = cp_seen y" "cp_runs (fst (diagnoseTarget c i k t y)) = cp_runs y"
  "cp_gens (fst (diagnoseTarget c i k t y)) = cp_gens y"
  by (auto simp: diagnoseTarget_def Let_def split: prod.split sum.split)

lemma runRemediationExecute_frames [cp_frame]:
  "cp_seen (runRemediationExecute c i h y) = cp_seen y" "mgrOf (runRemediationExecute c i h y) = mgrOf y"
  "cp_gens (runRemediationExecute c i h y) = cp_gens y"
  by (auto simp: runRemediationExecute_def)

lemmas review_defs = dispatchReview_def authConfirm_def auditList_def
lemmas monitor_defs = dispatchMonitor_def monitorSilence_def monitorAck_def
lemmas other_defs = dispatchInfra_def dispatchInventory_def dispatchWatchtower_def watchtowerEnable_def
lemmas remediation_defs = dispatchRemediation_def handleRemediationGet_def handleRemediationDecline_def handleRemediationExecute_def
  handleRemediationSubscribe_def handleRemediationVerify_def handleRemediationRollback_def handlePlaybookGenerate_def
  approveAndAckExecute_def

lemma dispatchReview_seen [cp_frame]: "cp_seen (fst (dispatchReview c now f y)) = cp_seen y"
  by (auto simp: review_defs Let_def case_prod_unfold cp_frame split: option.split sum.split)

lemma dispatchMonitor_seen [cp_frame]: "cp_seen (fst (dispatchMonitor c now f y)) = cp_seen y"
  by (auto simp: monitor_defs Let_def case_prod_unfold cp_frame split: option.split sum.split)

lemma dispatchOther_seen [cp_frame]:
  "cp_seen (fst (dispatchInfra c f y)) = cp_seen y" "cp_seen (fst (dispatchInventory c f y)) = cp_seen y"
  "cp_seen (fst (dispatchWatchtower c f y)) = cp_seen y"
  by (auto simp: other_defs Let_def case_prod_unfold cp_frame split: option.split sum.split)

lemma dispatchDiagnose_seen [cp_frame]: "cp_seen (fst (dispatchDiagnose c f y)) = cp_seen y"
  by (auto simp: dispatchDiagnose_def setDiagnoseBundle_def Let_def case_prod_unfold cp_frame split: option.split sum.split)

lemma approve_seen [cp_frame]: "cp_seen (fst (approveAndAckExecute c d now f q k y)) = cp_seen y"
  by (auto simp: approveAndAckExecute_def case_prod_unfold cp_frame split: sum.split)

lemma handlers_seen [cp_frame]:
  "cp_seen (fst (handleRemediationGet f y)) = cp_seen y" "cp_seen (fst (handleRemediationDecline d now f y)) = cp_seen y"
  "cp_seen (fst (handleRemediationExecute c d now f y)) = cp_seen y" "cp_seen (fst (handleRemediationSubscribe f y)) = cp_seen y"
  "cp_seen (fst (handleRemediationVerify f y)) = cp_seen y" "cp_seen (fst (handleRemediationRollback c d now f y)) = cp_seen y"
  "cp_seen (fst (handlePlaybookGenerate c f y)) = cp_seen y"
  unfolding handleRemediationGet_def handleRemediationDecline_def handleRemediationExecute_def handleRemediationSubscribe_def
    handleRemediationVerify_def handleRemediationRollback_def handlePlaybookGenerate_def
  by (simp_all add: case_prod_unfold cp_frame split: option.split sum.split)

lemma dispatchRemediation_seen [cp_frame]: "cp_seen (fst (dispatchRemediation c now f y)) = cp_seen y"
  by (simp add: dispatchRemediation_def Let_def cp_frame split: option.split)

lemma dispatch_seen: "cp_seen (fst (dispatch c now f y)) = cp_seen y"
  by (simp add: dispatch_def Let_def cp_frame)

section \<open>A replayed request has no effect\<close>

text \<open>The window as the server builds it, when the clock moved on since the last message.\<close>

definition idsBefore :: "time \<Rightarrow> idSet \<Rightarrow> bool" where
  "idsBefore t0 s \<longleftrightarrow> ix_cap s = 1024 \<and> ix_ttl s = replayWindow \<and> distinct (map fst (ix_seen s)) \<and> '''' \<notin> fst ` set (ix_seen s) \<and>
     list_all (\<lambda>(_, t). t < t0) (ix_seen s)"

lemma remembers_first:
  assumes "idsBefore t0 s" and "i \<noteq> ''''" and "idAdd arr t0 i s = (s', r)"
  shows "remembers i t0 1 s' \<and> ix_ttl s' = replayWindow \<and> ix_cap s' = 1024"
proof -
  have upd: "remembers i t0 1 (v\<lparr>ix_seen := AList.update i t0 (ix_seen v)\<rparr>)"
    if "distinct (map fst (ix_seen v))" "'''' \<notin> fst ` set (ix_seen v)" "list_all (\<lambda>(_, t). t < t0) (ix_seen v)" for v
  proof -
    have "filter (\<lambda>(_, t). t \<ge> t0) (ix_seen v) = []" using that(3) by (auto simp: filter_empty_conv list_all_iff)
    with that update_young [of t0 i t0 "ix_seen v"] assms(2) show ?thesis
      by (auto simp: remembers_def distinct_update dom_update update_conv' simp del: map_of_eq_Some_iff)
  qed
  define u where "u = sweep t0 s"
  have u: "distinct (map fst (ix_seen u))" "'''' \<notin> fst ` set (ix_seen u)" "list_all (\<lambda>(_, t). t < t0) (ix_seen u)"
    "ix_ttl u = replayWindow" "ix_cap u = 1024"
    using assms(1) by (auto simp: idsBefore_def u_def sweep_def distinct_map_filter list_all_iff)
  have d: "distinct (map fst (AList.delete k (ix_seen u)))" "'''' \<notin> fst ` set (AList.delete k (ix_seen u))"
    "list_all (\<lambda>(_, t). t < t0) (AList.delete k (ix_seen u))" for k
    using u dom_delete_subset [of k "ix_seen u"] by (auto simp: list_all_iff AList.delete_eq distinct_map_filter)
  show ?thesis using assms(3) u(4,5) upd [OF u(1-3)] upd [of "u\<lparr>ix_seen := AList.delete k (ix_seen u)\<rparr>" for k, simplified, OF d]
    by (auto simp: idAdd_def Let_def u_def [symmetric] split: if_splits)
qed

fun inWindow :: "time \<Rightarrow> serverEvent \<Rightarrow> bool" where
  "inWindow t0 (Receive _ now _) \<longleftrightarrow> t0 \<le> now \<and> now - t0 \<le> replayWindow"
| "inWindow t0 _ \<longleftrightarrow> True"

fun isReceive :: "serverEvent \<Rightarrow> bool" where
  "isReceive (Receive _ _ _) = True"
| "isReceive _ = False"

definition remembering :: "string \<Rightarrow> time \<Rightarrow> nat \<Rightarrow> 'w server \<Rightarrow> bool" where
  "remembering i t0 n y \<longleftrightarrow> remembers i t0 n (cp_seen y) \<and> ix_ttl (cp_seen y) = replayWindow \<and> ix_cap (cp_seen y) = 1024"

lemma remembers_mono: "remembers i t0 n s \<Longrightarrow> n \<le> m \<Longrightarrow> remembers i t0 m s"
  by (auto simp: remembers_def)

lemma remembering_message:
  assumes "remembering i t0 n y" and "t0 \<le> now" and "now - t0 \<le> replayWindow" and "n < 1024" and "\<And>xs. set (cg_arr c xs) = set xs"
  shows "remembering i t0 (Suc n) (fst (handleMessage c now msg y))"
proof (cases msg)
  case (Inl e)
  then show ?thesis using assms(1) remembers_mono [of i t0 n _ "Suc n"] by (simp add: handleMessage_def remembering_def)
next
  case (Inr f)
  show ?thesis
  proof (cases "fm_ID f = ''''")
    case True
    then show ?thesis using Inr assms(1) remembers_mono [of i t0 n _ "Suc n"]
      by (simp add: handleMessage_def remembering_def dispatch_seen)
  next
    case False
    obtain s' r where a: "idAdd (cg_arr c) now (fm_ID f) (cp_seen y) = (s', r)" by fastforce
    have "- (2 ^ 63) \<le> replayWindow" by (simp add: replayWindow_def second_def)
    then have "remembers i t0 (Suc n) s' \<and> ix_ttl s' = replayWindow \<and> ix_cap s' = 1024"
      using remembers_idAdd [OF _ assms(2) _ _ _ False assms(5) a, of i n] assms(1,3,4) by (simp add: remembering_def)
    then show ?thesis using Inr False a by (cases r) (simp_all add: handleMessage_def remembering_def dispatch_seen)
  qed
qed

lemma background_seen:
  "cp_seen (fst (runExecute c n now y)) = cp_seen y" "cp_seen (fst (runGenerate c n now y)) = cp_seen y"
  by (simp_all add: runExecute_def runGenerate_def case_prod_unfold split: option.split sum.split)

lemma remembering_run:
  assumes "remembering i t0 n y" and "list_all (inWindow t0) ss" and "n + length (filter isReceive ss) \<le> 1024"
    and "\<And>xs. set (cg_arr c xs) = set xs"
  shows "remembering i t0 (n + length (filter isReceive ss)) (serverRun c ss y)"
  using assms(1-3)
proof (induction ss arbitrary: n y)
  case (Cons s ss)
  show ?case
  proof (cases s)
    case (Receive header now msg)
    have "remembering i t0 (Suc n) (fst (handleWS c header now msg y))"
    proof (cases "cg_RequirePairing c \<and> \<not> pairingAuthorized (cg_Key c) header")
      case True
      then show ?thesis using Cons.prems(1) remembers_mono [of i t0 n _ "Suc n"] by (auto simp: handleWS_def remembering_def)
    next
      case False
      then show ?thesis using remembering_message [OF Cons.prems(1) _ _ _ assms(4), of now msg] Cons.prems(2,3) Receive
        by (auto simp: handleWS_def)
    qed
    from Cons.IH [OF this] Cons.prems Receive show ?thesis by (simp add: serverRun_def)
  next
    case (RunExecute k now)
    with Cons.IH [of n "fst (runExecute c k now y)"] Cons.prems show ?thesis
      by (simp add: serverRun_def remembering_def background_seen)
  next
    case (RunGenerate k now)
    with Cons.IH [of n "fst (runGenerate c k now y)"] Cons.prems show ?thesis
      by (simp add: serverRun_def remembering_def background_seen)
  qed
qed (simp add: serverRun_def)

text \<open>
  C10. A replayed request has no effect: after a message with a request id was handled, and whatever other messages
  (fewer than 1023 of them) and background work follow within five minutes, a message with the same id, on any
  connection, is answered with a replay note only; nothing changes but the window of ids. The order in which the
  map of ids is visited does not matter.
\<close>

theorem replay_has_no_effect:
  assumes "\<And>xs. set (cg_arr c xs) = set xs" and "idsBefore t0 (cp_seen y)" and "fm_ID f \<noteq> ''''"
    and "list_all (inWindow t0) ss" and "length (filter isReceive ss) < 1023"
    and "fm_ID g = fm_ID f" and "t0 \<le> t1" and "t1 - t0 \<le> replayWindow"
    and "z = serverRun c ss (fst (handleMessage c t0 (Inr f) y))"
  shows "\<exists>seen. handleMessage c t1 (Inr g) z = (z\<lparr>cp_seen := seen\<rparr>, [ROk (fm_ID g) (fm_Kind g) BReplay])"
proof -
  obtain s' r where a: "idAdd (cg_arr c) t0 (fm_ID f) (cp_seen y) = (s', r)" by fastforce
  then have "remembering (fm_ID f) t0 1 (fst (handleMessage c t0 (Inr f) y))"
    using remembers_first [OF assms(2,3) a] assms(3) by (cases r) (simp_all add: handleMessage_def remembering_def dispatch_seen)
  from remembering_run [OF this assms(4) _ assms(1)] assms(5,9)
  have m: "remembering (fm_ID f) t0 (1 + length (filter isReceive ss)) z" by simp
  obtain s2 r2 where b: "idAdd (cg_arr c) t1 (fm_ID g) (cp_seen z) = (s2, r2)" by fastforce
  have w: "- (2 ^ 63) \<le> replayWindow" by (simp add: replayWindow_def second_def)
  have "r2" using remembers_idAdd [OF _ assms(7) _ _ _ _ assms(1) b, of "fm_ID f" "1 + length (filter isReceive ss)"]
      m assms(3,5,6,8) w by (simp add: remembering_def)
  with b assms(3,6) show ?thesis by (auto simp: handleMessage_def)
qed

text \<open>A small server: the manager \<open>m\<close>, one random token to mint, and nothing else configured.\<close>

definition demoPlane :: "nat mgr \<Rightarrow> nat server" where
  "demoPlane m = \<lparr>cp_sv = \<lparr>sy_mgr = m, sy_wt = demoClient, sy_preparing = [], sy_rand = []\<rparr>,
     cp_mon = \<lparr>mo_store = m_store m, mo_client = demoClient, mo_defs = NewDefinitionSet [], mo_states = []\<rparr>,
     cp_seen = newIDSet 1024 replayWindow, cp_bundles = [], cp_subs = [], cp_runs = [], cp_gens = [],
     cp_tokens = [Some ''tok''], cp_heartbeat = False\<rparr>"

definition demoConfig :: "(string \<Rightarrow> string) \<Rightarrow> nat deps \<Rightarrow> nat cpcfg" where
  "demoConfig sha d = \<lparr>cg_sha = sha, cg_Review = True, cg_Infra = None, cg_Monitor = True, cg_Inventory = (\<lambda>w. (w, JNull)),
     cg_Watchtower = False, cg_Diagnose = None, cg_Threshold = 0, cg_Store = True, cg_Remediation = Some d, cg_Playbooks = None,
     cg_Version = ''1'', cg_startAt = 0, cg_life = True, cg_Key = ''k'', cg_RequirePairing = True, cg_arr = (\<lambda>es. es)\<rparr>"

definition demoFrame :: "string \<Rightarrow> string \<Rightarrow> (string \<times> string) list \<Rightarrow> Frame" where
  "demoFrame i kind ms = \<lparr>fm_ID = i, fm_Kind = kind, fm_Payload = Some (JObj (map (\<lambda>(k, v). (k, JStr v)) ms))\<rparr>"

text \<open>A manager with an empty ledger whose dependencies do nothing.\<close>

definition silentMgr :: "nat mgr" where
  "silentMgr = \<lparr>m_store = emptyStore second, m_world = 0, m_ran = [], m_approvals = []\<rparr>"

definition silentDeps :: "nat deps" where
  "silentDeps = \<lparr>d_sha = (\<lambda>_. ''h''), d_validate = (\<lambda>now s tok i h. (s, Inr ''t'')),
     d_exec = (\<lambda>w step. (w, \<lparr>sr_Output = ''out'', sr_ExitCode = 0\<rparr>, None)),
     d_verify = (\<lambda>w rb. (w, \<lparr>vr_Passed = True, vr_Detail = ''ok'', vr_Steps = []\<rparr>, None)), d_project = (\<lambda>w ev. w)\<rparr>"

theorem replay_has_no_effect_witness:
  "\<exists>seen. handleMessage (demoConfig (\<lambda>_. ''h'') silentDeps) 7 (Inr (demoFrame ''1'' ''incident.runbook.execute'' []))
       (serverRun (demoConfig (\<lambda>_. ''h'') silentDeps) [Receive ''Bearer k'' 5 (Inr (demoFrame ''2'' ''monitor.ack'' [])), RunExecute 0 6]
         (fst (handleMessage (demoConfig (\<lambda>_. ''h'') silentDeps) 5 (Inr (demoFrame ''1'' ''incident.runbook.execute'' [])) (demoPlane silentMgr)))) =
     ((serverRun (demoConfig (\<lambda>_. ''h'') silentDeps) [Receive ''Bearer k'' 5 (Inr (demoFrame ''2'' ''monitor.ack'' [])), RunExecute 0 6]
         (fst (handleMessage (demoConfig (\<lambda>_. ''h'') silentDeps) 5 (Inr (demoFrame ''1'' ''incident.runbook.execute'' [])) (demoPlane silentMgr))))\<lparr>cp_seen := seen\<rparr>,
      [ROk ''1'' ''incident.runbook.execute'' BReplay])"
proof -
  let ?f = "demoFrame ''1'' ''incident.runbook.execute'' []"
  have "idsBefore 5 (cp_seen (demoPlane silentMgr))" by (simp add: idsBefore_def demoPlane_def newIDSet_def)
  moreover have "set (cg_arr (demoConfig (\<lambda>_. ''h'') silentDeps) xs) = set xs" for xs by (simp add: demoConfig_def)
  ultimately show ?thesis
    using replay_has_no_effect [of "demoConfig (\<lambda>_. ''h'') silentDeps" 5 "demoPlane silentMgr" ?f
        "[Receive ''Bearer k'' 5 (Inr (demoFrame ''2'' ''monitor.ack'' [])), RunExecute 0 6]" ?f 7]
    by (simp add: demoFrame_def replayWindow_def second_def)
qed

section \<open>Every request is answered once\<close>

definition answers :: "Frame \<Rightarrow> 'w server \<Rightarrow> 'w server \<times> reply list \<Rightarrow> bool" where
  "answers f y r \<longleftrightarrow> mset (map rp_id (snd r)) + mset (map fst (cp_gens (fst r))) = add_mset (fm_ID f) (mset (map fst (cp_gens y)))"

named_theorems cp_answers \<open>handlers that answer their request once\<close>

lemma review_answers [cp_answers]: "answers f y (dispatchReview c now f y)"
  by (simp add: answers_def review_defs Let_def case_prod_unfold cp_frame split: option.split sum.split)

lemma monitor_answers [cp_answers]: "answers f y (dispatchMonitor c now f y)"
  by (simp add: answers_def monitor_defs Let_def case_prod_unfold cp_frame split: option.split sum.split)

lemma other_answers [cp_answers]:
  "answers f y (dispatchInfra c f y)" "answers f y (dispatchInventory c f y)" "answers f y (dispatchWatchtower c f y)"
  by (simp_all add: answers_def other_defs Let_def case_prod_unfold cp_frame split: option.split sum.split)

lemma diagnose_answers [cp_answers]: "answers f y (dispatchDiagnose c f y)"
  by (simp add: answers_def dispatchDiagnose_def setDiagnoseBundle_def Let_def case_prod_unfold cp_frame split: option.split sum.split)

lemma approve_answers: "cp_gens z = cp_gens y \<Longrightarrow> answers f y (approveAndAckExecute c d now f q k z)"
  by (simp add: answers_def approveAndAckExecute_def case_prod_unfold cp_frame split: sum.split)

lemma handlers_answer [cp_answers]:
  "answers f y (handleRemediationGet f y)" "answers f y (handleRemediationDecline d now f y)"
  "answers f y (handleRemediationSubscribe f y)" "answers f y (handleRemediationVerify f y)" "answers f y (handlePlaybookGenerate c f y)"
  unfolding answers_def handleRemediationGet_def handleRemediationDecline_def handleRemediationSubscribe_def
    handleRemediationVerify_def handlePlaybookGenerate_def needExecutionID_def
  by (simp_all add: case_prod_unfold cp_frame split: option.split sum.split)

lemma rollback_answers [cp_answers]: "answers f y (handleRemediationRollback c d now f y)" "answers f y (handleRemediationExecute c d now f y)"
  unfolding handleRemediationRollback_def handleRemediationExecute_def needExecutionID_def
  by (auto simp: case_prod_unfold approve_answers split: option.split sum.split) (simp_all add: answers_def)

lemma remediation_answers [cp_answers]: "answers f y (dispatchRemediation c now f y)"
  by (simp add: dispatchRemediation_def Let_def cp_answers split: option.split) (simp add: answers_def)

lemma dispatch_answers: "answers f y (dispatch c now f y)"
  by (simp add: dispatch_def Let_def cp_answers) (simp add: answers_def)

text \<open>The ids of the messages of let-in connections; a message that is no frame has none.\<close>

fun requestIds :: "'w cpcfg \<Rightarrow> serverEvent \<Rightarrow> string list" where
  "requestIds c (Receive header now msg) =
     (if cg_RequirePairing c \<and> \<not> pairingAuthorized (cg_Key c) header then []
      else [case msg of Inl _ \<Rightarrow> '''' | Inr f \<Rightarrow> fm_ID f])"
| "requestIds c _ = []"

fun serverReplies :: "'w cpcfg \<Rightarrow> serverEvent list \<Rightarrow> 'w server \<Rightarrow> reply list" where
  "serverReplies c [] y = []"
| "serverReplies c (s # ss) y = (case serverStep c s y of (y, rs) \<Rightarrow> rs @ serverReplies c ss y)"

lemma mset_dropNth: "n < length xs \<Longrightarrow> add_mset (xs ! n) (mset (dropNth n xs)) = mset xs"
  by (metis Cons_nth_drop_Suc append_take_drop_id dropNth_def mset.simps(2) mset_append union_mset_add_mset_right)

lemma dropNth_fst: "n < length xs \<Longrightarrow> add_mset (fst (xs ! n)) (mset (map fst (dropNth n xs))) = mset (map fst xs)"
  using mset_dropNth [of n xs] by (metis image_mset_add_mset mset_map)

lemma message_answers:
  "mset (map rp_id (snd (handleMessage c now msg y))) + mset (map fst (cp_gens (fst (handleMessage c now msg y)))) =
     add_mset (case msg of Inl _ \<Rightarrow> '''' | Inr f \<Rightarrow> fm_ID f) (mset (map fst (cp_gens y)))"
proof (cases msg)
  case (Inr f)
  obtain s r where a: "idAdd (cg_arr c) now (fm_ID f) (cp_seen y) = (s, r)" by fastforce
  show ?thesis using Inr a dispatch_answers [of f y c now] dispatch_answers [of f "y\<lparr>cp_seen := s\<rparr>" c now]
    by (cases r) (simp_all add: handleMessage_def answers_def)
qed (simp add: handleMessage_def)

lemma step_answers:
  "mset (map rp_id (snd (serverStep c s y))) + mset (map fst (cp_gens (fst (serverStep c s y)))) =
     mset (requestIds c s) + mset (map fst (cp_gens y))"
proof (cases s)
  case (Receive header now msg)
  then show ?thesis using message_answers [of c now msg y] by (simp add: handleWS_def)
next
  case (RunExecute n now)
  then show ?thesis by (simp add: runExecute_def case_prod_unfold split: option.split)
next
  case (RunGenerate n now)
  then show ?thesis using dropNth_fst [of n "cp_gens y"]
    by (simp add: runGenerate_def case_prod_unfold split: option.split sum.split)
qed

text \<open>
  C11. Every request is answered exactly once: over any sequence of messages and background work, the ids of the
  replies together with the ids of the playbook requests still being worked on are exactly the ids of the messages
  received (and of the requests being worked on at the start), with their multiplicity. No handler, on any
  path, stays silent or answers twice, and an answer carries the id of its request.
\<close>

theorem every_request_answered_once:
  "mset (map rp_id (serverReplies c ss y)) + mset (map fst (cp_gens (serverRun c ss y))) =
     mset (concat (map (requestIds c) ss)) + mset (map fst (cp_gens y))"
proof (induction ss arbitrary: y)
  case (Cons s ss)
  obtain y1 rs where s: "serverStep c s y = (y1, rs)" by fastforce
  with Cons.IH [of y1] step_answers [of c s y] show ?case by (simp add: serverRun_def add_ac)
qed (simp add: serverRun_def)

section \<open>The remediation ledger under the control plane\<close>

text \<open>What a part of the server may do to the remediation manager without granting an approval.\<close>

definition follows :: "'w deps \<Rightarrow> 'w mgr \<Rightarrow> 'w mgr \<Rightarrow> bool" where
  "follows d m m' \<longleftrightarrow> (reachable d m \<longrightarrow> reachable d m') \<and> m_approvals m' = m_approvals m"

lemma follows_refl [simp, intro]: "follows d m m"
  by (simp add: follows_def)

lemma follows_trans: "follows d m m' \<Longrightarrow> follows d m' m'' \<Longrightarrow> follows d m m''"
  by (simp add: follows_def)

lemma quiet_follows: "quiet m m' \<Longrightarrow> follows d m m'"
  by (auto simp: follows_def quiet_keeps(4) intro: reachable.env)

lemma world_follows [simp]: "follows d m (m\<lparr>m_world := w\<rparr>)"
  by (rule quiet_follows) simp

lemma read_quiet: "t = (m_store m)\<lparr>faults := fs\<rparr> \<Longrightarrow> quiet m (m\<lparr>m_store := t\<rparr>)"
  by (rule quiet_storeI) simp_all

lemma dbCall_read: "(\<And>s. fst (k s) = s) \<Longrightarrow> \<exists>fs. fst (dbCall s k) = s\<lparr>faults := fs\<rparr>"
  by (cases "faults s") (auto simp: dbCall_def intro: exI [of _ "[]"] split: bool.split, (metis store.surjective store.update_convs(12))?)

lemma reads:
  "\<exists>fs. fst (GetIncidentBinding s i) = s\<lparr>faults := fs\<rparr>" "\<exists>fs. fst (ExecutionsForIncident s i) = s\<lparr>faults := fs\<rparr>"
  "\<exists>fs. fst (RemediationEventsAfter s i a) = s\<lparr>faults := fs\<rparr>" "\<exists>fs. fst (ListAudit s ty p l) = s\<lparr>faults := fs\<rparr>"
  "\<exists>fs. fst (GetExecution s i) = s\<lparr>faults := fs\<rparr>"
  unfolding GetIncidentBinding_def ExecutionsForIncident_def RemediationEventsAfter_def ListAudit_def GetExecution_def Let_def
  by (rule dbCall_read; simp split: option.split)+

text \<open>A store call that leaves the ledger alone.\<close>

definition harmless :: "(store \<Rightarrow> store \<times> 'a) \<Rightarrow> bool" where
  "harmless f \<longleftrightarrow> (\<forall>s. executions (fst (f s)) = executions s \<and> runbooks (fst (f s)) = runbooks s \<and> (wf_store s \<longrightarrow> wf_store (fst (f s))))"

lemma harmless_dbCall:
  assumes "\<And>s. executions (fst (k s)) = executions s \<and> runbooks (fst (k s)) = runbooks s \<and> (wf_store s \<longrightarrow> wf_store (fst (k s)))"
  shows "harmless (\<lambda>s. dbCall s k)"
  unfolding harmless_def
proof
  fix s
  obtain t r where d: "dbCall s k = (t, r)" by fastforce
  then show "executions (fst (dbCall s k)) = executions s \<and> runbooks (fst (dbCall s k)) = runbooks s \<and>
      (wf_store s \<longrightarrow> wf_store (fst (dbCall s k)))"
  proof (cases rule: dbCallE)
    case (run fs)
    then show ?thesis using assms [of "s\<lparr>faults := fs\<rparr>"] d by simp
  qed (simp add: d)
qed

lemma harmless_calls [simp]:
  "harmless (\<lambda>s. GetIncidentBinding s i)" "harmless (\<lambda>s. ExecutionsForIncident s i)" "harmless (\<lambda>s. RemediationEventsAfter s i a)"
  "harmless (\<lambda>s. ListAudit s ty p l)" "harmless (\<lambda>s. GetExecution s i)" "harmless (\<lambda>s. GetRunbook s i)"
  "harmless (\<lambda>s. PutAlertSilence s k0 rule target until)" "harmless (\<lambda>s. DeleteAlertSilence s k0)" "harmless (\<lambda>s. PutAlertAck s k0 t)"
  unfolding GetIncidentBinding_def ExecutionsForIncident_def RemediationEventsAfter_def ListAudit_def GetExecution_def GetRunbook_def
    PutAlertSilence_def DeleteAlertSilence_def PutAlertAck_def Let_def
  by (rule harmless_dbCall; simp add: wf_store_def eventsOf_def split: option.split)+

lemma harmless_follows:
  assumes "harmless f"
  shows "follows d m (m\<lparr>m_store := fst (f (m_store m))\<rparr>)" "follows d m (fst (onStore m f))"
proof -
  have q: "quiet m (m\<lparr>m_store := fst (f (m_store m))\<rparr>)" using assms by (intro quiet_storeI) (auto simp: harmless_def)
  then show "follows d m (m\<lparr>m_store := fst (f (m_store m))\<rparr>)" by (rule quiet_follows)
  from q show "follows d m (fst (onStore m f))" by (intro quiet_follows) (simp add: onStore_fst)
qed

section \<open>Only \<open>Approve\<close> grants\<close>

named_theorems approvals \<open>operations that keep the approvals\<close>

lemmas keeps_approvals = andThen_frame [where g = m_approvals]

lemma onStore_approvals [approvals]: "m_approvals (fst (onStore m f)) = m_approvals m"
  by (simp add: onStore_fst)

lemma quiet_approvals [approvals]:
  "m_approvals (fst (appendAudit now m e typ x)) = m_approvals m" "m_approvals (fst (appendEvent d now m i typ x)) = m_approvals m"
  "m_approvals (fst (validateHash d m e h)) = m_approvals m" "m_approvals (fst (appendVerifications d now i svs m)) = m_approvals m"
  "m_approvals (fst (announceProposed d now m e rb h)) = m_approvals m"
  by (rule quiet_keeps(4), rule appendAudit_quiet appendEvent_quiet validateHash_quiet appendVerifications_quiet announceProposed_quiet)+

lemma runSteps_approvals [approvals]: "m_approvals (fst (runSteps d now e i ss m)) = m_approvals m"
proof (induction ss arbitrary: i m)
  case (Cons s ss)
  obtain w r x where "d_exec d (m_world m) s = (w, r, x)" by (metis prod_cases3)
  then show ?case
    by (auto intro!: keeps_approvals [where y = "m\<lparr>m_world := w, m_ran := m_ran m @ [(re_ID e, s, stepOk r x)]\<rparr>", simplified] keeps_approvals
        simp: Let_def approvals Cons.IH)
qed simp

lemma finishExecute_approvals [approvals]:
  fixes d :: "'w deps"
  shows "m_approvals (fst (finishExecute d now m e rb)) = m_approvals m"
  unfolding finishExecute_def Let_def
proof (intro keeps_approvals)
  fix z :: "'w mgr"
  show "m_approvals (fst (case d_verify d (m_world z) rb of (w, result, verr) \<Rightarrow>
      andThen (appendVerifications d now (re_ID e) (vr_Steps result) (z\<lparr>m_world := w\<rparr>)) (\<lambda>m _.
      andThen (appendEvent d now m (re_ID e) ''internal_verification'' (JObj ([(''detail'', JStr (vr_Detail result))] @
           (case verr of None \<Rightarrow> [] | Some e \<Rightarrow> [(''error'', JStr e)]) @ [(''passed'', JBool (vr_Passed result))]))) (\<lambda>m _.
      (m, Inr (e\<lparr>re_Status := RemediationVerifying, re_UpdatedAt := now\<rparr>)))))) = m_approvals z"
    by (auto simp: approvals case_prod_unfold intro!: keeps_approvals [where y = "z\<lparr>m_world := w\<rparr>" for w, simplified] keeps_approvals)
qed (simp_all add: approvals)

lemma runApproved_approvals [approvals]: "m_approvals (fst (runApproved d now m e rb)) = m_approvals m"
  unfolding runApproved_def Let_def by (intro keeps_approvals) (auto simp: approvals split: option.split)

lemma startApproved_approvals [approvals]:
  fixes d :: "'w deps"
  shows "m_approvals (fst (startApproved d now m e)) = m_approvals m"
  unfolding startApproved_def
proof (intro keeps_approvals)
  fix z :: "'w mgr" and rb
  let ?f = "\<lambda>s. TransitionExecution s (re_ID e) RemediationApproved RemediationExecuting now"
  obtain z1 r where t: "onStore z ?f = (z1, r)" by fastforce
  then have "m_approvals z1 = m_approvals z" using onStore_approvals [of z ?f] by simp
  then show "m_approvals (fst (case onStore z ?f of
      (m, Inl x) \<Rightarrow> if x \<noteq> RStore ErrConflict then (m, Inl x) else onStore m (\<lambda>s. GetExecution s (re_ID e))
    | (m, Inr _) \<Rightarrow> runApproved d now m (e\<lparr>re_Status := RemediationExecuting, re_UpdatedAt := now\<rparr>) rb)) = m_approvals z"
    using t by (cases r) (simp_all add: approvals)
qed (simp_all add: approvals)

lemma Execute_approvals [approvals]: "m_approvals (fst (Execute d now m i h)) = m_approvals m"
  unfolding Execute_def by (intro keeps_approvals) (simp_all add: approvals)

lemma Decline_approvals [approvals]:
  fixes d :: "'w deps"
  shows "m_approvals (fst (Decline d now m i reason)) = m_approvals m"
proof -
  have "m_approvals (fst (andThen (onStore z (\<lambda>s. TransitionExecution s i RemediationProposed RemediationDeclined now)) (\<lambda>m _.
      andThen (appendAudit now m x ''remediation.declined'' da) (\<lambda>m _.
      andThen (appendEvent d now m i ''runbook_declined'' da) (\<lambda>m _. (m, Inr x)))))) = m_approvals z" for z :: "'w mgr" and x da
    by (intro keeps_approvals) (simp_all add: approvals)
  then show ?thesis unfolding Decline_def Let_def by (intro keeps_approvals) (simp_all add: approvals)
qed

lemma propose_approvals [approvals]:
  fixes d :: "'w deps"
  shows "m_approvals (fst (propose d now m i inc rb kind par)) = m_approvals m"
proof -
  have "m_approvals (fst (ensureRunbook now z rb1 inc h)) = m_approvals z" for z :: "'w mgr" and rb1 h
  proof -
    obtain z1 r where o: "onStore z (\<lambda>s. GetRunbook s (rb_ID rb1)) = (z1, r)" by fastforce
    then have "m_approvals z1 = m_approvals z" using onStore_approvals [of z "\<lambda>s. GetRunbook s (rb_ID rb1)"] by simp
    with o show ?thesis by (cases r) (simp_all add: ensureRunbook_def approvals)
  qed
  then show ?thesis unfolding propose_def Let_def
    by (intro keeps_approvals) (auto simp: approvals case_prod_unfold)
qed

lemma DeriveRollback_approvals [approvals]:
  fixes d :: "'w deps"
  shows "m_approvals (fst (DeriveRollback d now m i)) = m_approvals m"
proof -
  have l: "m_approvals (fst (loadRunbook z x)) = m_approvals z" "m_approvals (fst (successfulSteps z i ss)) = m_approvals z"
    for z :: "'w mgr" and x ss
    unfolding loadRunbook_def successfulSteps_def by (intro keeps_approvals; simp add: approvals)+
  have "m_approvals (fst (if successful = [] then (z, Inl ErrNoRollbackPlan)
     else case invertSteps successful of (inverted, irreversible) \<Rightarrow>
       if inverted = [] then (z, Inl ErrRollbackUnsupported)
       else propose d now z (RollbackExecutionID i) inc (rollbackRunbook rb inverted irreversible) RemediationKindRollback i)) = m_approvals z"
    for z successful rb inc by (auto simp: approvals split: prod.split)
  then have "m_approvals (fst (andThen (successfulSteps z i ss) (\<lambda>z successful. if successful = [] then (z, Inl ErrNoRollbackPlan)
     else case invertSteps successful of (inverted, irreversible) \<Rightarrow>
       if inverted = [] then (z, Inl ErrRollbackUnsupported)
       else propose d now z (RollbackExecutionID i) inc (rollbackRunbook rb inverted irreversible) RemediationKindRollback i))) = m_approvals z"
    for z ss rb inc by (intro keeps_approvals) (simp_all add: l)
  then have "m_approvals (fst (andThen (loadRunbook z x) (\<lambda>z rb. if rb_Rollback rb = [] then (z, Inl ErrNoRollbackPlan)
     else andThen (successfulSteps z i (rb_Steps rb)) (\<lambda>z successful. if successful = [] then (z, Inl ErrNoRollbackPlan)
     else case invertSteps successful of (inverted, irreversible) \<Rightarrow>
       if inverted = [] then (z, Inl ErrRollbackUnsupported)
       else propose d now z (RollbackExecutionID i) inc (rollbackRunbook rb inverted irreversible) RemediationKindRollback i)))) = m_approvals z"
    for z x inc by (intro keeps_approvals) (simp_all add: l)
  then show ?thesis unfolding DeriveRollback_def Let_def by (intro keeps_approvals) (simp_all add: approvals)
qed

text \<open>\<open>Approve\<close> grants at most the execution and the content it is asked for, and only with a token the validator takes.\<close>

lemma grantApproval_approvals:
  "m_approvals (fst (grantApproval d now m e i h tok)) = m_approvals m \<or>
   (\<exists>t s. d_validate d now (m_store m) tok i h = (s, Inr t) \<and> m_approvals (fst (grantApproval d now m e i h tok)) = m_approvals m @ [(i, h, t)])"
proof -
  obtain s r where v: "d_validate d now (m_store m) tok i h = (s, r)" by fastforce
  show ?thesis
  proof (cases r)
    case (Inr t)
    let ?m = "m\<lparr>m_store := s, m_approvals := m_approvals m @ [(i, h, t)]\<rparr>"
    have "m_approvals (fst (grantApproval d now m e i h tok)) = m_approvals ?m"
      unfolding grantApproval_def v Inr prod.case sum.case Let_def by (intro keeps_approvals) (simp_all add: approvals)
    then show ?thesis using v Inr by simp
  qed (simp add: grantApproval_def v)
qed

lemma Approve_approvals:
  "m_approvals (fst (Approve d now m i h tok)) = m_approvals m \<or>
   (\<exists>s0 t s. d_validate d now s0 tok i h = (s, Inr t) \<and> m_approvals (fst (Approve d now m i h tok)) = m_approvals m @ [(i, h, t)])"
proof -
  obtain m1 r1 where 1: "onStore m (\<lambda>s. GetExecution s i) = (m1, r1)" by fastforce
  then have a1: "m_approvals m1 = m_approvals m" using onStore_approvals [of m "\<lambda>s. GetExecution s i"] by simp
  show ?thesis
  proof (cases r1)
    case (Inr e)
    obtain m2 r2 where 2: "validateHash d m1 e h = (m2, r2)" by fastforce
    then have "m_approvals m2 = m_approvals m" using a1 quiet_approvals(3) [of d m1 e h] by simp
    with grantApproval_approvals [of d now m2 e i h tok] show ?thesis
      using 1 2 Inr a1 by (cases r2) (auto simp: Approve_def)
  qed (use 1 a1 in \<open>simp add: Approve_def\<close>)
qed

text \<open>The playbook service only proposes.\<close>

lemma Propose_follows: "follows d m (fst (Propose d now m i inc rb))"
  using reachable.step [of d m "OpPropose now i inc rb"] by (simp add: follows_def Propose_def approvals)

abbreviation svFollows :: "'w svc \<Rightarrow> 'w sv \<Rightarrow> 'w sv \<Rightarrow> bool" where
  "svFollows svc y y' \<equiv> follows (vc_deps svc) (sy_mgr y) (sy_mgr y')"

lemma andThen_follows:
  assumes "svFollows svc y (fst r)" and "\<And>z x. svFollows svc z (fst (k z x))"
  shows "svFollows svc y (fst (andThen r k))"
  using assms by (cases r; cases "snd r") (auto intro: follows_trans)

lemma svStore_follows: "harmless f \<Longrightarrow> svFollows svc y (fst (svStore y f))"
  using harmless_follows(1) [of f _ "sy_mgr y"] by (simp add: svStore_def case_prod_unfold split: sum.split)

lemma newID_follows: "svFollows svc y (fst (newID pre y))"
  by (simp add: newID_def split: list.split option.split)

lemma svPropose_follows: "svFollows svc y (fst (svPropose svc now i pb y))"
proof -
  have "svFollows svc z (fst (case Propose (vc_deps svc) now (sy_mgr z) e i rb of
      (m, Inl x) \<Rightarrow> (z\<lparr>sy_mgr := m\<rparr>, Inl (PPropose x)) | (m, Inr _) \<Rightarrow> (z\<lparr>sy_mgr := m\<rparr>, Inr e)))" for z e rb
    using Propose_follows [of "vc_deps svc" "sy_mgr z" now e i rb] by (simp add: case_prod_unfold split: sum.split)
  then show ?thesis unfolding svPropose_def by (intro andThen_follows newID_follows)
qed

lemma setWorld_follows [simp]: "svFollows svc y (setWorld w y)"
  by (simp add: setWorld_def)

lemma afterFacts_follows: "svFollows svc y (fst (afterFacts svc now b u f y))"
proof -
  obtain z p where c: "fromCatalog svc f y = (z, p)" by fastforce
  have z: "svFollows svc y z"
    using c by (auto simp: fromCatalog_def split: option.splits prod.splits sum.splits)
  show ?thesis
  proof (cases p)
    case (Some pb)
    then show ?thesis using c follows_trans [OF z svPropose_follows] by (simp add: afterFacts_def)
  next
    case None
    have p: "svFollows svc y (fst (svPropose svc now (ib_IncidentID b) pb ((setWorld w z)\<lparr>sy_wt := x\<rparr>)))" for pb w x
    proof -
      have "svFollows svc z ((setWorld w z)\<lparr>sy_wt := x\<rparr>)" by (simp add: setWorld_def)
      then show ?thesis using z svPropose_follows follows_trans by blast
    qed
    have "svFollows svc y ((setWorld w z)\<lparr>sy_wt := x\<rparr>)" for w x
      using follows_trans [OF z world_follows] by (simp add: setWorld_def)
    then show ?thesis using None c z p by (simp add: afterFacts_def split: prod.split sum.split)
  qed
qed

lemma prepare_follows: "svFollows svc y (fst (prepare svc now b u y))"
proof -
  have g: "svFollows svc z (fst (case gatherFacts svc b z of (y, f) \<Rightarrow> afterFacts svc now b u f y))" for z
  proof -
    obtain z1 f where "gatherFacts svc b z = (z1, f)" by fastforce
    moreover from this have "svFollows svc z z1" by (auto simp: gatherFacts_def split: prod.splits)
    ultimately show ?thesis using afterFacts_follows follows_trans by (metis case_prod_conv)
  qed
  have a: "svFollows svc z (fst (activeExecution i z))" for i z
    unfolding activeExecution_def by (rule andThen_follows) (simp_all add: svStore_follows)
  have "svFollows svc z (fst (prepareBody svc now b u z))" for z
    unfolding prepareBody_def by (rule andThen_follows) (auto simp: a g split: option.split)
  then have b: "svFollows svc z (fst (prepareBody svc now b u z))" for z .
  obtain z ok where s: "svBegin (ib_IncidentID b) y = (z, ok)" by fastforce
  then have "sy_mgr z = sy_mgr y" by (auto simp: svBegin_def split: if_splits)
  with b [of z] s show ?thesis by (cases ok) (auto simp: prepare_def svEnd_def split: prod.split)
qed

lemma svGenerate_follows: "svFollows svc y (fst (svGenerate svc now req y))"
proof -
  obtain z r where s: "svStore y (\<lambda>s. GetIncidentBinding s (rq_IncidentID req)) = (z, r)" by fastforce
  then have z: "svFollows svc y z" using svStore_follows [of "\<lambda>s. GetIncidentBinding s (rq_IncidentID req)" svc y] by simp
  from follows_trans [OF z prepare_follows] s z show ?thesis
    by (auto simp: svGenerate_def simp del: harmless_calls split: sum.split)
qed

end
