(* ===== verification/Control_Plane_Safety.thy ===== *)
theory Control_Plane_Safety
  imports Control_Plane_Theorems Remediation_Theorems
begin

text \<open>
  What the whole control plane guarantees of the host: over any sequence of messages and background work, a step runs
  only for a request that asked for exactly that execution and content with a token the agent took; the verifier of the
  server fails closed, and frames reach a client in order.
\<close>

section \<open>Requests that may grant\<close>







section \<open>Handlers that never grant\<close>











section \<open>The two handlers that approve\<close>
















section \<open>Frames reach the client in order\<close>

datatype 'b connEvent = Offer bool 'b | Turn writerTurn

fun connStep :: "'b connEvent \<Rightarrow> 'b connWriter \<Rightarrow> 'b connWriter" where
  "connStep (Offer pick b) w = enqueue pick b w"
| "connStep (Turn t) w = writerLoop t w"

fun offered :: "'b connEvent list \<Rightarrow> 'b list" where
  "offered [] = []"
| "offered (Offer _ b # es) = b # offered es"
| "offered (Turn _ # es) = offered es"

definition inOrder :: "'b list \<Rightarrow> 'b connWriter \<Rightarrow> bool" where
  "inOrder bs w \<longleftrightarrow> prefix (cw_sent w) bs \<and> length (cw_send w) \<le> sendCap \<and> (cw_done w \<or> cw_sent w @ cw_send w = bs)"

lemma inOrder_enqueue: "inOrder bs w \<Longrightarrow> inOrder (bs @ [b]) (enqueue pick b w)"
  by (auto simp: inOrder_def enqueue_def shutdown_def)

lemma inOrder_writer: "inOrder bs w \<Longrightarrow> inOrder bs (writerLoop t w)"
  by (cases t) (auto simp: inOrder_def shutdown_def split: list.split)

lemma inOrder_run: "inOrder bs w \<Longrightarrow> inOrder (bs @ offered es) (fold connStep es w)"
proof (induction es arbitrary: bs w)
  case (Cons e es)
  show ?case
  proof (cases e)
    case (Offer pick b)
    then show ?thesis using Cons.IH [OF inOrder_enqueue [OF Cons.prems]] by simp
  next
    case (Turn t)
    then show ?thesis using Cons.IH [OF inOrder_writer [OF Cons.prems]] by simp
  qed
qed simp

text \<open>
  C13. However the handlers, the streams and the writer of a connection interleave, what the client receives is an
  initial segment of the frames offered to the connection, in order and without a gap; a connection that is still open has
  lost nothing (every frame is sent or queued), and the queue stays within its capacity.
\<close>

theorem client_gets_prefix:
  "prefix (cw_sent (fold connStep es newConnWriter)) (offered es) \<and>
   length (cw_send (fold connStep es newConnWriter)) \<le> sendCap \<and>
   (cw_done (fold connStep es newConnWriter) \<or>
    cw_sent (fold connStep es newConnWriter) @ cw_send (fold connStep es newConnWriter) = offered es)"
  using inOrder_run [of "[]" newConnWriter es] by (simp add: inOrder_def newConnWriter_def)

section \<open>The verifier fails closed\<close>

lemma verifySteps_outcome:
  assumes "verifySteps e i sts w = (w', svs, fs)"
  shows "map sv_Kind svs = map rs_Kind sts \<and> (fs = [] \<longleftrightarrow> list_all sv_Passed svs)"
  using assms
proof (induction sts arbitrary: i w w' svs fs)
  case (Cons st sts)
  obtain w1 r where r: "runnerVerify e w (rs_Kind st) (rs_Params st) = (w1, r)" by fastforce
  obtain w2 svs' fs' where v: "verifySteps e (Suc i) sts w1 = (w2, svs', fs')" by (metis prod_cases3)
  from Cons.IH [OF v] Cons.prems r v show ?case by (cases r) auto
qed simp

lemma runChecks_outcome:
  assumes "runChecks units chks w = (w', fs)"
  shows "fs = [] \<Longrightarrow> list_all (\<lambda>chk. vc_Kind chk \<in> {''service_active'', ''service_inactive''} \<and> units \<noteq> None) chks"
  using assms
proof (induction chks arbitrary: w w' fs)
  case (Cons chk chks)
  obtain w1 r where r: "runCheck units w chk = (w1, r)" by fastforce
  obtain w2 fs' where v: "runChecks units chks w1 = (w2, fs')" by fastforce
  have "r = None" "fs' = []" using Cons.prems r v by (auto split: option.splits)
  moreover have "vc_Kind chk \<in> {''service_active'', ''service_inactive''} \<and> units \<noteq> None"
    using r \<open>r = None\<close> by (auto simp: runCheck_def split: if_splits option.splits)
  ultimately show ?case using Cons.IH [OF _ v] by simp
qed simp

lemma serverVerify_outcome:
  assumes "serverVerify e units w rb = (w', r, x)"
  shows "x = None \<and> (rb_Steps rb \<noteq> [] \<or> rb_Verification rb \<noteq> [] \<longrightarrow> map sv_Kind (vr_Steps r) = map rs_Kind (rb_Steps rb)) \<and>
     (vr_Passed r \<longrightarrow> list_all sv_Passed (vr_Steps r) \<and>
       list_all (\<lambda>chk. vc_Kind chk \<in> {''service_active'', ''service_inactive''} \<and> units \<noteq> None) (rb_Verification rb))"
proof (cases "length (rb_Steps rb) + length (rb_Verification rb) = 0")
  case False
  obtain w1 svs fs where v: "verifySteps e 0 (rb_Steps rb) w = (w1, svs, fs)" by (metis prod_cases3)
  obtain w2 fs2 where c: "runChecks units (rb_Verification rb) w1 = (w2, fs2)" by fastforce
  from verifySteps_outcome [OF v] runChecks_outcome [OF c] assms False v c show ?thesis
    by (auto simp: serverVerify_def Let_def split: if_splits)
qed (use assms in \<open>auto simp: serverVerify_def\<close>)

end
