(* ===== verification/Docker_Engine.thy ===== *)
theory Docker_Engine
  imports Step_Runner Go_Text Runbook_Model
begin

text \<open>
  The Docker module (\<^verbatim>\<open>internal/docker/docker.go\<close>): the manager over the client interface, and the client that speaks
  HTTP over the Unix socket, with the decoding of every answer it uses, the log framing and the statistics. The
  HTTP client is a function of the world; the text of an answer becomes a document through the parameter
  \<open>dh_decode\<close> (the JSON decoder). Percentages are rationals, counters are 64-bit words. The order in which a map is
  visited is a parameter where it is visible.
\<close>

section \<open>Errors and types\<close>

datatype dkerr = ErrNotInstalled string | ErrDaemonDown string | ErrPermissionDenied string | DkErr string

definition dkMsg :: "dkerr \<Rightarrow> string" where
  "dkMsg e = (case e of
       ErrNotInstalled m \<Rightarrow> ''docker: not installed'' @ m
     | ErrDaemonDown m \<Rightarrow> ''docker: daemon unreachable'' @ m
     | ErrPermissionDenied m \<Rightarrow> ''docker: permission denied'' @ m
     | DkErr m \<Rightarrow> m)"

definition classifyDocker :: "dkerr \<Rightarrow> string" where
  "classifyDocker e = (case e of ErrNotInstalled _ \<Rightarrow> ''not_installed'' | ErrPermissionDenied _ \<Rightarrow> ''permission_denied''
     | ErrDaemonDown _ \<Rightarrow> ''daemon_down'' | DkErr _ \<Rightarrow> ''unknown'')"

record VersionInfo =
  vi_Version :: string
  vi_APIVersion :: string

record PruneResult =
  pn_FreedBytes :: int
  pn_Count :: int

record DockerStatus =
  ds_Available :: bool
  ds_Version :: string
  ds_APIVersion :: string
  ds_UnavailableReason :: string
  ds_UnavailableMessage :: string

record PortSummary =
  pt_PrivatePort :: int
  pt_PublicPort :: int
  pt_Type :: string
  pt_IP :: string

record MountSummary =
  mt_Type :: string
  mt_Source :: string
  mt_Destination :: string
  mt_ReadOnly :: bool

record EnvSummary =
  ey_Key :: string
  ey_Value :: string
  ey_Redacted :: bool

type_synonym labels = "(string \<times> string) list"

record ContainerSummary =
  cs_ID :: string
  cs_Name :: string
  cs_Image :: string
  cs_Status :: string
  cs_State :: string
  cs_Health :: string
  cs_PortsSummary :: string
  cs_Labels :: labels
  cs_ComposeProject :: string
  cs_ComposeService :: string
  cs_Managed :: bool
  cs_ProjectID :: string
  cs_Mounts :: "MountSummary list"

record ContainerDetail =
  cd_ID :: string
  cd_Name :: string
  cd_Image :: string
  cd_Command :: string
  cd_Status :: string
  cd_State :: string
  cd_Health :: string
  cd_Ports :: "PortSummary list"
  cd_Mounts :: "MountSummary list"
  cd_RestartPolicy :: string
  cd_RestartCount :: int
  cd_ExitCode :: int
  cd_OOMKilled :: bool
  cd_Labels :: labels
  cd_ComposeProject :: string
  cd_ComposeService :: string
  cd_Managed :: bool
  cd_ProjectID :: string
  cd_EnvironmentVars :: "EnvSummary list"

record ImageSummary =
  im_ID :: string
  im_Tags :: "string list"
  im_Digests :: "string list"
  im_Created :: int
  im_Size :: int
  im_Labels :: labels
  im_Containers :: int

record ImageDetail =
  id_Image :: ImageSummary
  id_Architecture :: string
  id_OS :: string
  id_Author :: string
  id_Comment :: string
  id_ParentID :: string
  id_RepoDigests :: "string list"

record VolumeSummary =
  vo_Name :: string
  vo_Driver :: string
  vo_Mountpoint :: string
  vo_Scope :: string
  vo_CreatedAt :: string
  vo_Labels :: labels
  vo_InUseCount :: int

record NetworkSummary =
  nw_ID :: string
  nw_Name :: string
  nw_Driver :: string
  nw_Scope :: string
  nw_Internal :: bool
  nw_Labels :: labels
  nw_AttachedCount :: int

record DaemonInfo =
  di_Containers :: int
  di_ContainersRunning :: int
  di_ContainersPaused :: int
  di_ContainersStopped :: int
  di_Images :: int
  di_ServerVersion :: string
  di_OperatingSystem :: string
  di_Architecture :: string
  di_KernelVersion :: string
  di_RootDir :: string

record LogEntry =
  le_ContainerID :: string
  le_Stream :: string
  le_Timestamp :: string
  le_Line :: string

record StatsCPU =
  sc_TotalUsage :: "64 word"
  sc_PercpuUsage :: "64 word list"
  sc_SystemCPUUsage :: "64 word"
  sc_OnlineCPUs :: "32 word"

record StatsMemory =
  sy_Usage :: "64 word"
  sy_Limit :: "64 word"
  sy_Stats :: "(string \<times> 64 word) list"

record StatsSample =
  sp_Read :: string
  sp_CPU :: StatsCPU
  sp_PreCPU :: StatsCPU
  sp_Memory :: StatsMemory
  sp_Networks :: "(string \<times> 64 word \<times> 64 word) list"

record StatsSnapshot =
  sn_ContainerID :: string
  sn_Timestamp :: string
  sn_Available :: bool
  sn_UnavailableReason :: string
  sn_CPUPercent :: rat
  sn_MemUsageBytes :: "64 word"
  sn_MemLimitBytes :: "64 word"
  sn_MemPercent :: rat
  sn_NetRxBytes :: "64 word"
  sn_NetTxBytes :: "64 word"

section \<open>The manager\<close>

definition allowedContainerActions :: "string list" where
  "allowedContainerActions = [''start'', ''stop'', ''restart'', ''pause'', ''unpause'']"

record 'w DockerClient =
  dc_Version :: "'w \<Rightarrow> 'w \<times> (dkerr + VersionInfo)"
  dc_Containers :: "'w \<Rightarrow> 'w \<times> (dkerr + ContainerSummary list)"
  dc_Container :: "'w \<Rightarrow> string \<Rightarrow> 'w \<times> (dkerr + ContainerDetail)"
  dc_Images :: "'w \<Rightarrow> 'w \<times> (dkerr + ImageSummary list)"
  dc_Image :: "'w \<Rightarrow> string \<Rightarrow> 'w \<times> (dkerr + ImageDetail)"
  dc_Volumes :: "'w \<Rightarrow> 'w \<times> (dkerr + VolumeSummary list)"
  dc_Networks :: "'w \<Rightarrow> 'w \<times> (dkerr + NetworkSummary list)"
  dc_Info :: "'w \<Rightarrow> 'w \<times> (dkerr + DaemonInfo)"
  dc_Logs :: "'w \<Rightarrow> string \<Rightarrow> int \<Rightarrow> 'w \<times> LogEntry list \<times> dkerr option"
  dc_Stats :: "'w \<Rightarrow> string \<Rightarrow> 'w \<times> (dkerr + StatsSample)"
  dc_Action :: "'w \<Rightarrow> string \<Rightarrow> string \<Rightarrow> 'w \<times> (dkerr + unit)"
  dc_PruneImages :: "'w \<Rightarrow> 'w \<times> (dkerr + PruneResult)"
  dc_PruneBuildCache :: "'w \<Rightarrow> 'w \<times> (dkerr + PruneResult)"

record 'w DockerManager =
  dm_client :: "'w DockerClient"
  dm_projectRoot :: string

definition labelOf :: "labels \<Rightarrow> string \<Rightarrow> string" where
  "labelOf ls k = (case map_of ls k of Some v \<Rightarrow> v | None \<Rightarrow> '''')"

definition composeProject :: "labels \<Rightarrow> string" where "composeProject ls = labelOf ls ''com.docker.compose.project''"
definition composeService :: "labels \<Rightarrow> string" where "composeService ls = labelOf ls ''com.docker.compose.service''"

fun mountProject :: "string \<Rightarrow> MountSummary list \<Rightarrow> string" where
  "mountProject pre [] = ''''"
| "mountProject pre (m # ms) =
     (if HasPrefix (mt_Source m) pre then
        (let rest = TrimPrefix (mt_Source m) pre in
         case Cut rest (CHR ''/'') of (i, _, ok) \<Rightarrow>
           if ok \<and> i \<noteq> '''' then i else if rest \<noteq> '''' then rest else mountProject pre ms)
      else mountProject pre ms)"

definition projectID :: "labels \<Rightarrow> string \<Rightarrow> MountSummary list \<Rightarrow> string" where
  "projectID ls rootDir mounts =
     (if labelOf ls ''rootmote.project_id'' \<noteq> '''' then labelOf ls ''rootmote.project_id''
      else if labelOf ls ''com.rootmote.project_id'' \<noteq> '''' then labelOf ls ''com.rootmote.project_id''
      else if TrimRight rootDir ''/'' = '''' then ''''
      else mountProject (TrimRight rootDir ''/'' @ ''/'') mounts)"

definition enrichSummary :: "string \<Rightarrow> ContainerSummary \<Rightarrow> ContainerSummary" where
  "enrichSummary rootDir c =
     c\<lparr>cs_ComposeProject := composeProject (cs_Labels c), cs_ComposeService := composeService (cs_Labels c),
       cs_Managed := (composeProject (cs_Labels c) \<noteq> '''' \<or> composeService (cs_Labels c) \<noteq> ''''),
       cs_ProjectID := projectID (cs_Labels c) rootDir (cs_Mounts c)\<rparr>"

definition enrichDetail :: "string \<Rightarrow> ContainerDetail \<Rightarrow> ContainerDetail" where
  "enrichDetail rootDir d =
     d\<lparr>cd_ComposeProject := composeProject (cd_Labels d), cd_ComposeService := composeService (cd_Labels d),
       cd_Managed := (composeProject (cd_Labels d) \<noteq> '''' \<or> composeService (cd_Labels d) \<noteq> ''''),
       cd_ProjectID := projectID (cd_Labels d) rootDir (cd_Mounts d)\<rparr>"

definition managerStatus :: "'w DockerManager \<Rightarrow> 'w \<Rightarrow> 'w \<times> DockerStatus" where
  "managerStatus m w =
     (case dc_Version (dm_client m) w of
        (w, Inr v) \<Rightarrow> (w, \<lparr>ds_Available = True, ds_Version = vi_Version v, ds_APIVersion = vi_APIVersion v,
           ds_UnavailableReason = '''', ds_UnavailableMessage = ''''\<rparr>)
      | (w, Inl e) \<Rightarrow> (w, \<lparr>ds_Available = False, ds_Version = '''', ds_APIVersion = '''',
           ds_UnavailableReason = classifyDocker e, ds_UnavailableMessage = dkMsg e\<rparr>))"

definition dockerContainers :: "'w DockerManager \<Rightarrow> 'w \<Rightarrow> 'w \<times> (dkerr + ContainerSummary list)" where
  "dockerContainers m w =
     (case dc_Containers (dm_client m) w of
        (w, Inl e) \<Rightarrow> (w, Inl e) | (w, Inr cs) \<Rightarrow> (w, Inr (map (enrichSummary (dm_projectRoot m)) cs)))"

definition needID :: "'w \<Rightarrow> string \<Rightarrow> string \<Rightarrow> 'w \<times> (dkerr + 'a) \<Rightarrow> 'w \<times> (dkerr + 'a)" where
  "needID w what i r = (if TrimSpace i = '''' then (w, Inl (DkErr (''docker: '' @ what @ '' id required''))) else r)"

definition dockerContainer :: "'w DockerManager \<Rightarrow> 'w \<Rightarrow> string \<Rightarrow> 'w \<times> (dkerr + ContainerDetail)" where
  "dockerContainer m w i = needID w ''container'' i
     (case dc_Container (dm_client m) w i of
        (w, Inl e) \<Rightarrow> (w, Inl e) | (w, Inr d) \<Rightarrow> (w, Inr (enrichDetail (dm_projectRoot m) d)))"

definition dockerAction :: "'w DockerManager \<Rightarrow> 'w \<Rightarrow> string \<Rightarrow> string \<Rightarrow> 'w \<times> (dkerr + unit)" where
  "dockerAction m w i action = needID w ''container'' i
     (if action \<notin> set allowedContainerActions
      then (w, Inl (DkErr (''docker: unsupported container action '' @ Quote action)))
      else dc_Action (dm_client m) w i action)"

definition dockerPruneImages :: "'w DockerManager \<Rightarrow> 'w \<Rightarrow> 'w \<times> (dkerr + PruneResult)" where
  "dockerPruneImages m w = dc_PruneImages (dm_client m) w"

definition dockerPruneBuildCache :: "'w DockerManager \<Rightarrow> 'w \<Rightarrow> 'w \<times> (dkerr + PruneResult)" where
  "dockerPruneBuildCache m w = dc_PruneBuildCache (dm_client m) w"

definition dockerImage :: "'w DockerManager \<Rightarrow> 'w \<Rightarrow> string \<Rightarrow> 'w \<times> (dkerr + ImageDetail)" where
  "dockerImage m w i = needID w ''image'' i (dc_Image (dm_client m) w i)"

definition dockerInfo :: "'w DockerManager \<Rightarrow> 'w \<Rightarrow> 'w \<times> (dkerr + DaemonInfo)" where
  "dockerInfo m w = dc_Info (dm_client m) w"

definition DefaultLogTail :: int where "DefaultLogTail = 200"
definition MaxLogTail :: int where "MaxLogTail = 500"

definition managerLogs :: "'w DockerManager \<Rightarrow> 'w \<Rightarrow> string \<Rightarrow> int \<Rightarrow> 'w \<times> LogEntry list \<times> dkerr option" where
  "managerLogs m w i n =
     (if TrimSpace i = '''' then (w, [], Some (DkErr ''docker: container id required''))
      else
        let n = (if n \<le> 0 then DefaultLogTail else n);
            n = (if n > MaxLogTail then MaxLogTail else n)
        in dc_Logs (dm_client m) w i n)"

section \<open>Statistics\<close>

definition memUsed :: "StatsMemory \<Rightarrow> 64 word" where
  "memUsed y =
     (let used = sy_Usage y in
      case map_of (sy_Stats y) ''cache'' of
        Some cache \<Rightarrow>
          if cache \<le> used then used - cache
          else (case map_of (sy_Stats y) ''inactive_file'' of Some i \<Rightarrow> if i \<le> used then used - i else used | None \<Rightarrow> used)
      | None \<Rightarrow> (case map_of (sy_Stats y) ''inactive_file'' of Some i \<Rightarrow> if i \<le> used then used - i else used | None \<Rightarrow> used))"

definition cpuShare :: "StatsSample \<Rightarrow> rat" where
  "cpuShare s =
     (let cpuDelta = rat_of_int (uint (sc_TotalUsage (sp_CPU s))) - rat_of_int (uint (sc_TotalUsage (sp_PreCPU s)));
          sysDelta = rat_of_int (uint (sc_SystemCPUUsage (sp_CPU s))) - rat_of_int (uint (sc_SystemCPUUsage (sp_PreCPU s)));
          online = rat_of_int (uint (sc_OnlineCPUs (sp_CPU s)));
          online = (if online = 0 then rat_of_int (int (length (sc_PercpuUsage (sp_CPU s)))) else online);
          online = (if online = 0 then 1 else online)
      in if cpuDelta > 0 \<and> sysDelta > 0 then (cpuDelta / sysDelta) * online * 100 else 0)"

definition computeStatsSnapshot :: "string \<Rightarrow> StatsSample \<Rightarrow> StatsSnapshot" where
  "computeStatsSnapshot i s =
     (let snap = \<lparr>sn_ContainerID = i, sn_Timestamp = sp_Read s, sn_Available = True, sn_UnavailableReason = '''', sn_CPUPercent = 0,
        sn_MemUsageBytes = 0, sn_MemLimitBytes = 0, sn_MemPercent = 0, sn_NetRxBytes = 0, sn_NetTxBytes = 0\<rparr> in
      if sy_Limit (sp_Memory s) = 0 then snap\<lparr>sn_Available := False, sn_UnavailableReason := ''stopped''\<rparr>
      else
        snap\<lparr>sn_CPUPercent := cpuShare s, sn_MemUsageBytes := memUsed (sp_Memory s), sn_MemLimitBytes := sy_Limit (sp_Memory s),
          sn_MemPercent := rat_of_int (uint (memUsed (sp_Memory s))) / rat_of_int (uint (sy_Limit (sp_Memory s))) * 100,
          sn_NetRxBytes := sum_list (map (fst \<circ> snd) (sp_Networks s)), sn_NetTxBytes := sum_list (map (snd \<circ> snd) (sp_Networks s))\<rparr>)"

definition dockerStats :: "'w DockerManager \<Rightarrow> 'w \<Rightarrow> string \<Rightarrow> 'w \<times> (dkerr + StatsSnapshot)" where
  "dockerStats m w i = needID w ''container'' i
     (case dc_Stats (dm_client m) w i of (w, Inl e) \<Rightarrow> (w, Inl e) | (w, Inr s) \<Rightarrow> (w, Inr (computeStatsSnapshot i s)))"

end
