(* ===== verification/Docker_Client.thy ===== *)
theory Docker_Client
  imports Docker_Engine
begin

text \<open>
  The socket client of \<^verbatim>\<open>internal/docker/docker.go\<close>: requests, answers and their decoding, pruning, actions and the log stream.
\<close>

section \<open>HTTP over the socket\<close>

text \<open>A failed exchange: the request could not be built, or the socket failed with a class of error and its text.\<close>

datatype dialErr = DialRequest string | DialPermission string | DialRefused string | DialOther string

datatype statRes = StatSocket | StatDir | StatPermission string | StatMissing | StatOther string

record 'w dockerHost =
  dh_socketPath :: string
  dh_Stat :: "'w \<Rightarrow> statRes"
  dh_LookPath :: "'w \<Rightarrow> bool"
  dh_Get :: "'w \<Rightarrow> string \<Rightarrow> 'w \<times> (dialErr + int \<times> string)"
  dh_Post :: "'w \<Rightarrow> string \<Rightarrow> 'w \<times> (dialErr + int \<times> string)"
  dh_decode :: "string \<Rightarrow> json option"

definition translateDialError :: "dialErr \<Rightarrow> dkerr" where
  "translateDialError e = (case e of
       DialRequest m \<Rightarrow> DkErr m
     | DialPermission m \<Rightarrow> ErrPermissionDenied ('': '' @ m)
     | DialRefused m \<Rightarrow> ErrDaemonDown ('': '' @ m)
     | DialOther m \<Rightarrow>
         if Contains m ''permission denied'' then ErrPermissionDenied ('': '' @ m)
         else if Contains m ''no such file'' \<or> Contains m ''connection refused'' then ErrDaemonDown ('': '' @ m)
         else DkErr m)"

definition statusErr :: "int \<Rightarrow> dkerr option" where
  "statusErr code =
     (if code = 403 \<or> code = 401 then Some (ErrPermissionDenied ('': docker returned '' @ Itoa code))
      else if code \<ge> 500 then Some (ErrDaemonDown ('': docker returned '' @ Itoa code))
      else if code \<ge> 400 then Some (DkErr (''docker: unexpected status '' @ Itoa code))
      else None)"

definition getJSON :: "'w dockerHost \<Rightarrow> 'w \<Rightarrow> string \<Rightarrow> (json \<Rightarrow> 'a option) \<Rightarrow> 'w \<times> (dkerr + 'a)" where
  "getJSON h w path dec =
     (case dh_Get h w path of
        (w, Inl e) \<Rightarrow> (w, Inl (translateDialError e))
      | (w, Inr (code, txt)) \<Rightarrow>
          (case statusErr code of Some e \<Rightarrow> (w, Inl e)
           | None \<Rightarrow>
               (case Option.bind (dh_decode h txt) dec of
                  None \<Rightarrow> (w, Inl (DkErr (''docker: decode '' @ path))) | Some x \<Rightarrow> (w, Inr x))))"

section \<open>Decoding into Go values\<close>

text \<open>
  A member sets the field whose name it matches ignoring case, in the order of the document; \<open>null\<close> leaves a
  value alone, a value of another type is an error.
\<close>

fun member :: "string \<Rightarrow> (json \<Rightarrow> 'a \<Rightarrow> 'a option) \<Rightarrow> members \<Rightarrow> 'a \<Rightarrow> 'a option" where
  "member f d [] x = Some x"
| "member f d ((k, v) # ms) x = (if isField k f then Option.bind (d v x) (member f d ms) else member f d ms x)"

definition decStr :: "json \<Rightarrow> string \<Rightarrow> string option" where
  "decStr v x = (case v of JStr s \<Rightarrow> Some s | JNull \<Rightarrow> Some x | _ \<Rightarrow> None)"

definition decBool :: "json \<Rightarrow> bool \<Rightarrow> bool option" where
  "decBool v x = (case v of JBool b \<Rightarrow> Some b | JNull \<Rightarrow> Some x | _ \<Rightarrow> None)"

definition decInt :: "json \<Rightarrow> int \<Rightarrow> int option" where
  "decInt v x = (case v of
       JNum q \<Rightarrow> if of_int \<lfloor>q\<rfloor> = q \<and> - (2 ^ 63) \<le> \<lfloor>q\<rfloor> \<and> \<lfloor>q\<rfloor> < 2 ^ 63 then Some \<lfloor>q\<rfloor> else None
     | JNull \<Rightarrow> Some x | _ \<Rightarrow> None)"

definition decWord :: "json \<Rightarrow> ('n::len) word \<Rightarrow> 'n word option" where
  "decWord v x = (case v of
       JNum q \<Rightarrow> if of_int \<lfloor>q\<rfloor> = q \<and> 0 \<le> \<lfloor>q\<rfloor> \<and> \<lfloor>q\<rfloor> < 2 ^ LENGTH('n) then Some (word_of_int \<lfloor>q\<rfloor>) else None
     | JNull \<Rightarrow> Some x | _ \<Rightarrow> None)"

definition decStruct :: "(members \<Rightarrow> 'a \<Rightarrow> 'a option) \<Rightarrow> json \<Rightarrow> 'a \<Rightarrow> 'a option" where
  "decStruct d v x = (case v of JObj ms \<Rightarrow> d ms x | JNull \<Rightarrow> Some x | _ \<Rightarrow> None)"

definition decList :: "(json \<Rightarrow> 'a \<Rightarrow> 'a option) \<Rightarrow> 'a \<Rightarrow> json \<Rightarrow> 'a list \<Rightarrow> 'a list option" where
  "decList d z v x = (case v of JArr js \<Rightarrow> mapOpt (\<lambda>j. d j z) js | JNull \<Rightarrow> Some [] | _ \<Rightarrow> None)"

fun decEntries :: "(json \<Rightarrow> 'a \<Rightarrow> 'a option) \<Rightarrow> 'a \<Rightarrow> members \<Rightarrow> (string \<times> 'a) list \<Rightarrow> (string \<times> 'a) list option" where
  "decEntries d z [] m = Some m"
| "decEntries d z ((k, v) # ms) m = Option.bind (d v z) (\<lambda>x. decEntries d z ms (AList.update k x m))"

definition decMap :: "(json \<Rightarrow> 'a \<Rightarrow> 'a option) \<Rightarrow> 'a \<Rightarrow> json \<Rightarrow> (string \<times> 'a) list \<Rightarrow> (string \<times> 'a) list option" where
  "decMap d z v x = (case v of JObj ms \<Rightarrow> decEntries d z ms x | JNull \<Rightarrow> Some [] | _ \<Rightarrow> None)"

definition decPtr :: "(json \<Rightarrow> 'a \<Rightarrow> 'a option) \<Rightarrow> 'a \<Rightarrow> json \<Rightarrow> 'a option \<Rightarrow> 'a option option" where
  "decPtr d z v x = (case v of JNull \<Rightarrow> Some None | _ \<Rightarrow> map_option Some (d v (case x of Some y \<Rightarrow> y | None \<Rightarrow> z)))"

abbreviation fStr :: "members \<Rightarrow> string \<Rightarrow> string option" where "fStr ms f \<equiv> member f decStr ms ''''"
abbreviation fInt :: "members \<Rightarrow> string \<Rightarrow> int option" where "fInt ms f \<equiv> member f decInt ms 0"
abbreviation fBool :: "members \<Rightarrow> string \<Rightarrow> bool option" where "fBool ms f \<equiv> member f decBool ms False"
abbreviation fStrs :: "members \<Rightarrow> string \<Rightarrow> string list option" where "fStrs ms f \<equiv> member f (decList decStr '''') ms []"
abbreviation fLabels :: "members \<Rightarrow> string \<Rightarrow> labels option" where "fLabels ms f \<equiv> member f (decMap decStr '''') ms []"
abbreviation fObj :: "members \<Rightarrow> string \<Rightarrow> members option" where "fObj ms f \<equiv> member f (decStruct (\<lambda>m x. Some (x @ m))) ms []"

section \<open>Version\<close>

definition dockerVersion :: "'w dockerHost \<Rightarrow> 'w \<Rightarrow> 'w \<times> (dkerr + VersionInfo)" where
  "dockerVersion h w =
     (let path = dh_socketPath h in
      case dh_Stat h w of
        StatPermission m \<Rightarrow> (w, Inl (ErrPermissionDenied ('': stat '' @ path @ '': '' @ m)))
      | StatMissing \<Rightarrow>
          (w, Inl (if \<not> dh_LookPath h w then ErrNotInstalled ('': '' @ path @ '' missing and docker binary not found'')
                   else ErrDaemonDown ('': '' @ path @ '' missing (daemon likely stopped)'')))
      | StatOther m \<Rightarrow> (w, Inl (DkErr m))
      | StatDir \<Rightarrow> (w, Inl (ErrNotInstalled ('': '' @ path @ '' is a directory'')))
      | StatSocket \<Rightarrow>
          getJSON h w ''/version'' (\<lambda>j. do { ms \<leftarrow> asObj j; v \<leftarrow> fStr ms ''version''; a \<leftarrow> fStr ms ''apiversion'';
            Some \<lparr>vi_Version = v, vi_APIVersion = a\<rparr> }))"

section \<open>Containers\<close>

definition firstName :: "string list \<Rightarrow> string" where
  "firstName names = (case names of [] \<Rightarrow> '''' | n # _ \<Rightarrow> TrimPrefix n ''/'')"

definition keptLabels :: "string list" where
  "keptLabels = [''com.docker.compose.project'', ''com.docker.compose.service'', ''com.docker.compose.oneoff'',
     ''com.docker.compose.project.working_dir'', ''com.docker.compose.project.config_files'', ''com.docker.compose.config-hash'',
     ''rootmote.project_id'', ''com.rootmote.project_id'']"

definition composeLabels :: "labels \<Rightarrow> labels" where
  "composeLabels ls = map (\<lambda>k. (k, labelOf ls k)) (filter (\<lambda>k. labelOf ls k \<noteq> '''') keptLabels)"

definition portText :: "PortSummary \<Rightarrow> string" where
  "portText p =
     (let target = Itoa (pt_PrivatePort p) @ ''/'' @ pt_Type p in
      if pt_PublicPort p > 0 then Itoa (pt_PublicPort p) @ ''->'' @ target else target)"

definition portsSummary :: "PortSummary list \<Rightarrow> string" where
  "portsSummary ps = Join '', '' (map portText ps)"

definition healthFromStatus :: "string \<Rightarrow> string" where
  "healthFromStatus status =
     (let short = (if Contains status ''(healthy)'' then ''healthy'' else if Contains status ''(unhealthy)'' then ''unhealthy'' else '''')
      in case Go_Text.Index status ''(health: '' of
          None \<Rightarrow> short
        | Some n \<Rightarrow>
            (let rest = drop (n + 9) status in
             case Go_Text.Index rest '')'' of None \<Rightarrow> short | Some k \<Rightarrow> take k rest))"

text \<open>The members are matched with the names of the Go struct's own tags.\<close>

definition decPort :: "members \<Rightarrow> PortSummary \<Rightarrow> PortSummary option" where
  "decPort ms p =
     do { a \<leftarrow> member ''private_port'' decInt ms (pt_PrivatePort p); b \<leftarrow> member ''public_port'' decInt ms (pt_PublicPort p);
          t \<leftarrow> member ''type'' decStr ms (pt_Type p); i \<leftarrow> member ''ip'' decStr ms (pt_IP p);
          Some \<lparr>pt_PrivatePort = a, pt_PublicPort = b, pt_Type = t, pt_IP = i\<rparr> }"

definition zeroPort :: PortSummary where
  "zeroPort = \<lparr>pt_PrivatePort = 0, pt_PublicPort = 0, pt_Type = '''', pt_IP = ''''\<rparr>"

text \<open>A mount of the answer; \<open>RW\<close> is absent as false.\<close>

definition decMount :: "members \<Rightarrow> MountSummary \<Rightarrow> MountSummary option" where
  "decMount ms m =
     do { t \<leftarrow> member ''type'' decStr ms (mt_Type m); s \<leftarrow> member ''source'' decStr ms (mt_Source m);
          d \<leftarrow> member ''destination'' decStr ms (mt_Destination m); rw \<leftarrow> member ''rw'' decBool ms (\<not> mt_ReadOnly m);
          Some \<lparr>mt_Type = t, mt_Source = s, mt_Destination = d, mt_ReadOnly = \<not> rw\<rparr> }"

definition zeroMount :: MountSummary where
  "zeroMount = \<lparr>mt_Type = '''', mt_Source = '''', mt_Destination = '''', mt_ReadOnly = True\<rparr>"

abbreviation fMounts :: "members \<Rightarrow> MountSummary list option" where
  "fMounts ms \<equiv> member ''mounts'' (decList (decStruct decMount) zeroMount) ms []"

definition decSummary :: "members \<Rightarrow> ContainerSummary option" where
  "decSummary ms =
     do { i \<leftarrow> fStr ms ''id''; names \<leftarrow> fStrs ms ''names''; image \<leftarrow> fStr ms ''image''; cmd \<leftarrow> fStr ms ''command'';
          state \<leftarrow> fStr ms ''state''; status \<leftarrow> fStr ms ''status'';
          ports \<leftarrow> member ''ports'' (decList (decStruct decPort) zeroPort) ms []; mounts \<leftarrow> fMounts ms; ls \<leftarrow> fLabels ms ''labels'';
          Some \<lparr>cs_ID = i, cs_Name = firstName names, cs_Image = image, cs_Status = status, cs_State = state,
            cs_Health = healthFromStatus status, cs_PortsSummary = portsSummary ports, cs_Labels = composeLabels ls,
            cs_ComposeProject = '''', cs_ComposeService = '''', cs_Managed = False, cs_ProjectID = '''', cs_Mounts = mounts\<rparr> }"

definition arrayOf :: "(members \<Rightarrow> 'a option) \<Rightarrow> json \<Rightarrow> 'a list option" where
  "arrayOf d j = (case j of JArr js \<Rightarrow> mapOpt (\<lambda>j. Option.bind (asObj j) d) js | JNull \<Rightarrow> Some [] | _ \<Rightarrow> None)"

definition socketContainers :: "'w dockerHost \<Rightarrow> 'w \<Rightarrow> 'w \<times> (dkerr + ContainerSummary list)" where
  "socketContainers h w = getJSON h w ''/containers/json?all=1'' (arrayOf decSummary)"

text \<open>The first digits of a text as a number, with the wrap-around of \<open>int\<close>.\<close>

fun atoiFrom :: "int \<Rightarrow> string \<Rightarrow> int" where
  "atoiFrom n [] = n"
| "atoiFrom n (c # cs) = (if isDigit c then atoiFrom (wrap64 (n * 10 + int (of_char c) - 48)) cs else n)"

abbreviation atoi :: "string \<Rightarrow> int" where "atoi s \<equiv> atoiFrom 0 s"

definition parsePortKey :: "string \<Rightarrow> int \<times> string" where
  "parsePortKey key = (case Cut key (CHR ''/'') of (port, typ, _) \<Rightarrow> (atoi port, typ))"

definition secretNeedles :: "string list" where
  "secretNeedles = [''SECRET'', ''TOKEN'', ''PASSWORD'', ''PASS'', ''KEY'', ''CREDENTIAL'', ''URL'', ''URI'', ''DSN'', ''AUTH'', ''BEARER'',
     ''JWT'', ''COOKIE'', ''SESSION'', ''SALT'', ''PRIVATE'']"

definition isSecretKey :: "string \<Rightarrow> bool" where
  "isSecretKey key \<longleftrightarrow> list_ex (Contains (ToUpper key)) secretNeedles"

definition envEntry :: "string \<Rightarrow> EnvSummary" where
  "envEntry item =
     (case Cut item (CHR ''='') of (key, val, _) \<Rightarrow>
        \<lparr>ey_Key = key, ey_Value = (if isSecretKey key then ''REDACTED'' else val), ey_Redacted = isSecretKey key\<rparr>)"

definition redactEnv :: "string list \<Rightarrow> EnvSummary list" where
  "redactEnv env = map envEntry env"

text \<open>The bindings of one port of the answer.\<close>

definition decBinding :: "members \<Rightarrow> string \<times> string \<Rightarrow> (string \<times> string) option" where
  "decBinding ms b = do { ip \<leftarrow> member ''hostip'' decStr ms (fst b); p \<leftarrow> member ''hostport'' decStr ms (snd b); Some (ip, p) }"

definition portsOf :: "(string \<times> (string \<times> string) list) list \<Rightarrow> PortSummary list" where
  "portsOf m = concat (map (\<lambda>(key, bindings). case parsePortKey key of (private, typ) \<Rightarrow>
     if bindings = [] then [zeroPort\<lparr>pt_PrivatePort := private, pt_Type := typ\<rparr>]
     else map (\<lambda>(ip, p). \<lparr>pt_PrivatePort = private, pt_PublicPort = atoi p, pt_Type = typ, pt_IP = ip\<rparr>) bindings) m)"

definition decDetail ::
    "((string \<times> (string \<times> string) list) list \<Rightarrow> (string \<times> (string \<times> string) list) list) \<Rightarrow> members \<Rightarrow> ContainerDetail option" where
  "decDetail arr ms =
     do { i \<leftarrow> fStr ms ''id''; name \<leftarrow> fStr ms ''name''; restarts \<leftarrow> fInt ms ''restartcount'';
          cfg \<leftarrow> fObj ms ''config''; image \<leftarrow> fStr cfg ''image''; cmd \<leftarrow> fStrs cfg ''cmd''; env \<leftarrow> fStrs cfg ''env''; ls \<leftarrow> fLabels cfg ''labels'';
          st \<leftarrow> fObj ms ''state''; exit \<leftarrow> fInt st ''exitcode''; oom \<leftarrow> fBool st ''oomkilled''; status \<leftarrow> fStr st ''status'';
          health \<leftarrow> member ''health'' (decPtr (decStruct (\<lambda>m. member ''status'' decStr m)) '''') st None;
          net \<leftarrow> fObj ms ''networksettings'';
          ports \<leftarrow> member ''ports'' (decMap (decList (decStruct decBinding) ('''', '''')) []) net [];
          mounts \<leftarrow> fMounts ms; hc \<leftarrow> fObj ms ''hostconfig''; rp \<leftarrow> fObj hc ''restartpolicy''; policy \<leftarrow> fStr rp ''name'';
          Some \<lparr>cd_ID = i, cd_Name = TrimPrefix name ''/'', cd_Image = image, cd_Command = Join '' '' cmd, cd_Status = status,
            cd_State = status, cd_Health = (case health of Some x \<Rightarrow> x | None \<Rightarrow> ''''), cd_Ports = portsOf (arr ports), cd_Mounts = mounts,
            cd_RestartPolicy = policy, cd_RestartCount = restarts, cd_ExitCode = exit, cd_OOMKilled = oom,
            cd_Labels = composeLabels ls, cd_ComposeProject = '''', cd_ComposeService = '''', cd_Managed = False, cd_ProjectID = '''',
            cd_EnvironmentVars = redactEnv env\<rparr> }"

definition socketContainer ::
    "'w dockerHost \<Rightarrow> ((string \<times> (string \<times> string) list) list \<Rightarrow> (string \<times> (string \<times> string) list) list) \<Rightarrow>
     'w \<Rightarrow> string \<Rightarrow> 'w \<times> (dkerr + ContainerDetail)" where
  "socketContainer h arr w i = getJSON h w (''/containers/'' @ i @ ''/json'') (\<lambda>j. Option.bind (asObj j) (decDetail arr))"

section \<open>Times of answers and log lines\<close>

text \<open>
  \<open>time.Parse(time.RFC3339Nano, s)\<close>: the hour may have one digit, the seconds a fraction after a period or a comma of
  which nine digits count, and the zone is \<open>Z\<close> or an offset.
\<close>

definition digitOf :: "char \<Rightarrow> int" where "digitOf c = int (of_char c) - 48"

fun getnum :: "bool \<Rightarrow> string \<Rightarrow> (int \<times> string) option" where
  "getnum fixed (a # b # s) =
     (if \<not> isDigit a then None
      else if isDigit b then Some (digitOf a * 10 + digitOf b, s)
      else if fixed then None else Some (digitOf a, b # s))"
| "getnum fixed [a] = (if isDigit a \<and> \<not> fixed then Some (digitOf a, []) else None)"
| "getnum fixed [] = None"

definition expect :: "char \<Rightarrow> string \<Rightarrow> string option" where
  "expect c s = (case s of d # ds \<Rightarrow> if d = c then Some ds else None | [] \<Rightarrow> None)"

definition inRange :: "int \<Rightarrow> int \<Rightarrow> int \<times> string \<Rightarrow> (int \<times> string) option" where
  "inRange a b x = (if a \<le> fst x \<and> fst x \<le> b then Some x else None)"

definition isLeap :: "int \<Rightarrow> bool" where "isLeap y \<longleftrightarrow> y mod 4 = 0 \<and> (y mod 100 \<noteq> 0 \<or> y mod 400 = 0)"

definition daysIn :: "int \<Rightarrow> int \<Rightarrow> int" where
  "daysIn m y = (if m = 2 then (if isLeap y then 29 else 28) else if m \<in> {4, 6, 9, 11} then 30 else 31)"

text \<open>Days since the epoch of a civil date; years are counted from March.\<close>

definition daysFromCivil :: "int \<Rightarrow> int \<Rightarrow> int \<Rightarrow> int" where
  "daysFromCivil y0 m d =
     (let y = (if m \<le> 2 then y0 - 1 else y0); era = y div 400; yoe = y - era * 400;
          doy = (153 * (if m > 2 then m - 3 else m + 9) + 2) div 5 + d - 1;
          doe = yoe * 365 + yoe div 4 - yoe div 100 + doy
      in era * 146097 + doe - 719468)"

definition fraction :: "string \<Rightarrow> int \<times> string" where
  "fraction s = (case s of
       p # a # r \<Rightarrow>
         if (p = CHR ''.'' \<or> p = CHR '','') \<and> isDigit a
         then (let ds = takeWhile isDigit (a # r); nine = take 9 ds in
               (int (decVal nine) * 10 ^ (9 - length nine), dropWhile isDigit (a # r)))
         else (0, s)
     | _ \<Rightarrow> (0, s))"

definition zoneOffset :: "string \<Rightarrow> (int \<times> string) option" where
  "zoneOffset s = (case s of [] \<Rightarrow> None
     | z # r \<Rightarrow>
         if z = CHR ''Z'' then Some (0, r)
         else if z \<noteq> CHR ''+'' \<and> z \<noteq> CHR ''-'' then None
         else do { (hh, s1) \<leftarrow> getnum True r; s2 \<leftarrow> expect (CHR '':'') s1; (mm, s3) \<leftarrow> getnum True s2;
                   if hh > 24 \<or> mm > 60 then None
                   else Some ((if z = CHR ''-'' then -1 else 1) * (hh * 60 + mm) * 60, s3) })"

definition parseNano :: "string \<Rightarrow> time option" where
  "parseNano s =
     (if length s < 4 \<or> \<not> list_all isDigit (take 4 s) then None
      else do { let y = int (decVal (take 4 s)); s \<leftarrow> expect (CHR ''-'') (drop 4 s);
           x \<leftarrow> getnum True s; (mo, s) \<leftarrow> inRange 1 12 x; s \<leftarrow> expect (CHR ''-'') s;
           (d, s) \<leftarrow> getnum True s; s \<leftarrow> expect (CHR ''T'') s;
           x \<leftarrow> getnum False s; (h, s) \<leftarrow> inRange 0 23 x; s \<leftarrow> expect (CHR '':'') s;
           x \<leftarrow> getnum True s; (mi, s) \<leftarrow> inRange 0 59 x; s \<leftarrow> expect (CHR '':'') s;
           x \<leftarrow> getnum True s; (sec, s) \<leftarrow> inRange 0 59 x;
           let (ns, s) = fraction s;
           (off, s) \<leftarrow> zoneOffset s;
           if s \<noteq> [] \<or> d < 1 \<or> d > daysIn mo y then None
           else Some ((((daysFromCivil y mo d * 24 + h) * 60 + mi) * 60 + sec - off) * second + ns) })"

section \<open>Images, volumes, networks, the daemon\<close>

definition dropNoneTags :: "string list \<Rightarrow> string list" where
  "dropNoneTags tags = filter (\<lambda>t. t \<noteq> ''<none>:<none>'' \<and> t \<noteq> '''') tags"

definition decImage :: "members \<Rightarrow> ImageSummary option" where
  "decImage ms =
     do { i \<leftarrow> fStr ms ''id''; tags \<leftarrow> fStrs ms ''repotags''; digests \<leftarrow> fStrs ms ''repodigests''; created \<leftarrow> fInt ms ''created'';
          sz \<leftarrow> fInt ms ''size''; ls \<leftarrow> fLabels ms ''labels''; n \<leftarrow> fInt ms ''containers'';
          Some \<lparr>im_ID = i, im_Tags = dropNoneTags tags, im_Digests = digests, im_Created = created, im_Size = sz, im_Labels = ls,
            im_Containers = n\<rparr> }"

definition socketImages :: "'w dockerHost \<Rightarrow> 'w \<Rightarrow> 'w \<times> (dkerr + ImageSummary list)" where
  "socketImages h w = getJSON h w ''/images/json?all=1'' (arrayOf decImage)"

definition decImageDetail :: "members \<Rightarrow> ImageDetail option" where
  "decImageDetail ms =
     do { i \<leftarrow> fStr ms ''id''; tags \<leftarrow> fStrs ms ''repotags''; digests \<leftarrow> fStrs ms ''repodigests''; par \<leftarrow> fStr ms ''parent'';
          com \<leftarrow> fStr ms ''comment''; created \<leftarrow> fStr ms ''created''; author \<leftarrow> fStr ms ''author''; arch \<leftarrow> fStr ms ''architecture'';
          os \<leftarrow> fStr ms ''os''; sz \<leftarrow> fInt ms ''size''; cfg \<leftarrow> fObj ms ''config''; ls \<leftarrow> fLabels cfg ''labels'';
          Some \<lparr>id_Image = \<lparr>im_ID = i, im_Tags = dropNoneTags tags, im_Digests = digests,
              im_Created = unixSec (case parseNano created of Some t \<Rightarrow> t | None \<Rightarrow> zeroTime), im_Size = sz, im_Labels = ls,
              im_Containers = 0\<rparr>,
            id_Architecture = arch, id_OS = os, id_Author = author, id_Comment = com, id_ParentID = par, id_RepoDigests = digests\<rparr> }"

definition socketImage :: "'w dockerHost \<Rightarrow> 'w \<Rightarrow> string \<Rightarrow> 'w \<times> (dkerr + ImageDetail)" where
  "socketImage h w i = getJSON h w (''/images/'' @ i @ ''/json'') (\<lambda>j. Option.bind (asObj j) decImageDetail)"

definition decVolume :: "members \<Rightarrow> VolumeSummary \<Rightarrow> VolumeSummary option" where
  "decVolume ms _ =
     do { n \<leftarrow> fStr ms ''name''; dr \<leftarrow> fStr ms ''driver''; mp \<leftarrow> fStr ms ''mountpoint''; ca \<leftarrow> fStr ms ''createdat''; sc \<leftarrow> fStr ms ''scope'';
          ls \<leftarrow> fLabels ms ''labels''; u \<leftarrow> member ''usagedata'' (decPtr (decStruct (\<lambda>m. member ''refcount'' decInt m)) 0) ms None;
          Some \<lparr>vo_Name = n, vo_Driver = dr, vo_Mountpoint = mp, vo_Scope = sc, vo_CreatedAt = ca, vo_Labels = ls,
            vo_InUseCount = (case u of Some k \<Rightarrow> k | None \<Rightarrow> -1)\<rparr> }"

definition zeroVolume :: VolumeSummary where
  "zeroVolume = \<lparr>vo_Name = '''', vo_Driver = '''', vo_Mountpoint = '''', vo_Scope = '''', vo_CreatedAt = '''', vo_Labels = [], vo_InUseCount = -1\<rparr>"

definition socketVolumes :: "'w dockerHost \<Rightarrow> 'w \<Rightarrow> 'w \<times> (dkerr + VolumeSummary list)" where
  "socketVolumes h w = getJSON h w ''/volumes'' (\<lambda>j. do { ms \<leftarrow> asObj j; member ''volumes'' (decList (decStruct decVolume) zeroVolume) ms [] })"

definition decNetwork :: "members \<Rightarrow> NetworkSummary option" where
  "decNetwork ms =
     do { i \<leftarrow> fStr ms ''id''; n \<leftarrow> fStr ms ''name''; dr \<leftarrow> fStr ms ''driver''; sc \<leftarrow> fStr ms ''scope''; int \<leftarrow> fBool ms ''internal'';
          ls \<leftarrow> fLabels ms ''labels''; cs \<leftarrow> member ''containers'' (decMap (\<lambda>v _. Some v) JNull) ms [];
          Some \<lparr>nw_ID = i, nw_Name = n, nw_Driver = dr, nw_Scope = sc, nw_Internal = int, nw_Labels = ls,
            nw_AttachedCount = of_nat (length cs)\<rparr> }"

definition socketNetworks :: "'w dockerHost \<Rightarrow> 'w \<Rightarrow> 'w \<times> (dkerr + NetworkSummary list)" where
  "socketNetworks h w = getJSON h w ''/networks'' (arrayOf decNetwork)"

definition decInfo :: "members \<Rightarrow> DaemonInfo option" where
  "decInfo ms =
     do { c \<leftarrow> fInt ms ''containers''; r \<leftarrow> fInt ms ''containersrunning''; p \<leftarrow> fInt ms ''containerspaused''; s \<leftarrow> fInt ms ''containersstopped'';
          i \<leftarrow> fInt ms ''images''; v \<leftarrow> fStr ms ''serverversion''; os \<leftarrow> fStr ms ''operatingsystem''; a \<leftarrow> fStr ms ''architecture'';
          k \<leftarrow> fStr ms ''kernelversion''; rd \<leftarrow> fStr ms ''dockerrootdir'';
          Some \<lparr>di_Containers = c, di_ContainersRunning = r, di_ContainersPaused = p, di_ContainersStopped = s, di_Images = i,
            di_ServerVersion = v, di_OperatingSystem = os, di_Architecture = a, di_KernelVersion = k, di_RootDir = rd\<rparr> }"

definition socketInfo :: "'w dockerHost \<Rightarrow> 'w \<Rightarrow> 'w \<times> (dkerr + DaemonInfo)" where
  "socketInfo h w = getJSON h w ''/info'' (\<lambda>j. Option.bind (asObj j) decInfo)"

section \<open>Statistics\<close>

definition decCPU :: "members \<Rightarrow> StatsCPU \<Rightarrow> StatsCPU option" where
  "decCPU ms c =
     do { u \<leftarrow> fObj ms ''cpu_usage''; t \<leftarrow> member ''total_usage'' decWord u (sc_TotalUsage c);
          p \<leftarrow> member ''percpu_usage'' (decList decWord 0) u (sc_PercpuUsage c);
          s \<leftarrow> member ''system_cpu_usage'' decWord ms (sc_SystemCPUUsage c); o' \<leftarrow> member ''online_cpus'' decWord ms (sc_OnlineCPUs c);
          Some \<lparr>sc_TotalUsage = t, sc_PercpuUsage = p, sc_SystemCPUUsage = s, sc_OnlineCPUs = o'\<rparr> }"

definition zeroCPU :: StatsCPU where
  "zeroCPU = \<lparr>sc_TotalUsage = 0, sc_PercpuUsage = [], sc_SystemCPUUsage = 0, sc_OnlineCPUs = 0\<rparr>"

definition decMemory :: "members \<Rightarrow> StatsMemory \<Rightarrow> StatsMemory option" where
  "decMemory ms m =
     do { u \<leftarrow> member ''usage'' decWord ms (sy_Usage m); l \<leftarrow> member ''limit'' decWord ms (sy_Limit m);
          s \<leftarrow> member ''stats'' (decMap decWord 0) ms (sy_Stats m); Some \<lparr>sy_Usage = u, sy_Limit = l, sy_Stats = s\<rparr> }"

definition decNet :: "members \<Rightarrow> 64 word \<times> 64 word \<Rightarrow> (64 word \<times> 64 word) option" where
  "decNet ms x = do { r \<leftarrow> member ''rx_bytes'' decWord ms (fst x); t \<leftarrow> member ''tx_bytes'' decWord ms (snd x); Some (r, t) }"

definition decSample :: "members \<Rightarrow> StatsSample option" where
  "decSample ms =
     do { r \<leftarrow> fStr ms ''read''; c \<leftarrow> member ''cpu_stats'' (decStruct decCPU) ms zeroCPU; p \<leftarrow> member ''precpu_stats'' (decStruct decCPU) ms zeroCPU;
          m \<leftarrow> member ''memory_stats'' (decStruct decMemory) ms \<lparr>sy_Usage = 0, sy_Limit = 0, sy_Stats = []\<rparr>;
          n \<leftarrow> member ''networks'' (decMap (decStruct decNet) (0, 0)) ms [];
          Some \<lparr>sp_Read = r, sp_CPU = c, sp_PreCPU = p, sp_Memory = m, sp_Networks = n\<rparr> }"

definition socketStats :: "'w dockerHost \<Rightarrow> 'w \<Rightarrow> string \<Rightarrow> 'w \<times> (dkerr + StatsSample)" where
  "socketStats h w i = getJSON h w (''/containers/'' @ i @ ''/stats?stream=0&one-shot=1'') (\<lambda>j. Option.bind (asObj j) decSample)"

section \<open>Actions and pruning\<close>

definition upperHex :: "nat \<Rightarrow> char" where "upperHex n = ''0123456789ABCDEF'' ! (n mod 16)"

definition pathSafe :: "char \<Rightarrow> bool" where
  "pathSafe c \<longleftrightarrow> isAlnum c \<or> c \<in> set ''-_.~$&+=:@''"

definition PathEscapeC :: "char \<Rightarrow> string" where
  "PathEscapeC c =
     (if pathSafe c then [c]
      else [CHR ''%'', upperHex (of_char c div 16), upperHex (of_char c mod 16)])"

definition PathEscape :: "string \<Rightarrow> string" where "PathEscape s = concat (map PathEscapeC s)"

definition changeErr :: "int \<Rightarrow> string \<Rightarrow> dkerr option" where
  "changeErr code txt =
     (if code = 403 \<or> code = 401 then Some (ErrPermissionDenied ('': docker returned '' @ Itoa code))
      else if code \<ge> 500 then Some (ErrDaemonDown ('': docker returned '' @ Itoa code))
      else if code < 200 \<or> code \<ge> 300 then
        (let msg = TrimSpace (take 512 txt) in
         Some (DkErr (''docker: '' @ (if msg = '''' then ''docker returned '' @ Itoa code else msg))))
      else None)"

definition actionPath :: "string \<Rightarrow> string \<Rightarrow> string" where
  "actionPath i action =
     ''/containers/'' @ PathEscape i @ ''/'' @ action @ (if action = ''stop'' \<or> action = ''restart'' then ''?t=20'' else '''')"

definition socketAction :: "'w dockerHost \<Rightarrow> 'w \<Rightarrow> string \<Rightarrow> string \<Rightarrow> 'w \<times> (dkerr + unit)" where
  "socketAction h w i action =
     (case dh_Post h w (actionPath i action) of
        (w, Inl e) \<Rightarrow> (w, Inl (translateDialError e))
      | (w, Inr (code, txt)) \<Rightarrow> (w, case changeErr code txt of Some e \<Rightarrow> Inl e | None \<Rightarrow> Inr ()))"

definition postPrune :: "'w dockerHost \<Rightarrow> 'w \<Rightarrow> string \<Rightarrow> string \<Rightarrow> 'w \<times> (dkerr + PruneResult)" where
  "postPrune h w path deletedField =
     (case dh_Post h w path of
        (w, Inl e) \<Rightarrow> (w, Inl (translateDialError e))
      | (w, Inr (code, txt)) \<Rightarrow>
          (case changeErr code txt of Some e \<Rightarrow> (w, Inl e)
           | None \<Rightarrow>
               (case Option.bind (dh_decode h txt) asObj of
                  None \<Rightarrow> (w, Inl (DkErr (''docker: decode '' @ path)))
                | Some ms \<Rightarrow>
                    (let raw = fold (\<lambda>(k, v). AList.update k v) ms [];
                         reclaimed = (case map_of raw ''SpaceReclaimed'' of
                           Some v \<Rightarrow> (case decInt v 0 of Some n \<Rightarrow> n | None \<Rightarrow> 0) | None \<Rightarrow> 0);
                         n = (if deletedField = '''' then 0 else (case map_of raw deletedField of Some (JArr js) \<Rightarrow> int (length js) | _ \<Rightarrow> 0))
                     in (w, Inr \<lparr>pn_FreedBytes = reclaimed, pn_Count = n\<rparr>)))))"

definition socketPruneImages :: "'w dockerHost \<Rightarrow> 'w \<Rightarrow> 'w \<times> (dkerr + PruneResult)" where
  "socketPruneImages h w = postPrune h w ''/images/prune'' ''ImagesDeleted''"

definition socketPruneBuildCache :: "'w dockerHost \<Rightarrow> 'w \<Rightarrow> 'w \<times> (dkerr + PruneResult)" where
  "socketPruneBuildCache h w = postPrune h w ''/build/prune'' ''CachesDeleted''"

section \<open>Logs\<close>

definition streamName :: "char \<Rightarrow> string" where
  "streamName c = (if of_char c = (1::nat) then ''stdout'' else if of_char c = (2::nat) then ''stderr'' else '''')"

definition logLine :: "string \<Rightarrow> string \<Rightarrow> string \<Rightarrow> LogEntry" where
  "logLine i stream txt =
     (case Cut txt (CHR '' '') of (ts, rest, ok) \<Rightarrow>
        if ok \<and> parseNano ts \<noteq> None then \<lparr>le_ContainerID = i, le_Stream = stream, le_Timestamp = ts, le_Line = rest\<rparr>
        else \<lparr>le_ContainerID = i, le_Stream = stream, le_Timestamp = '''', le_Line = txt\<rparr>)"

text \<open>\<open>strings.SplitAfter(chunk, "\n")\<close>: only its last part can be empty, and an empty part is no entry.\<close>

definition emitLogChunk :: "string \<Rightarrow> string \<Rightarrow> string \<Rightarrow> LogEntry list" where
  "emitLogChunk i stream chunk = map (logLine i stream) (dropFinalEmpty (Split (CHR 0x0A) chunk))"

text \<open>The answer's text, and the error its reading ends with, if any.\<close>

definition decodeRawLogLines :: "string \<Rightarrow> string \<Rightarrow> string \<Rightarrow> string option \<Rightarrow> LogEntry list \<times> dkerr option" where
  "decodeRawLogLines i stream d e =
     (concat (map (\<lambda>l. emitLogChunk i stream (l @ [CHR 0x0A])) (scanLines d)),
      if list_all (\<lambda>l. length l < 65536) (dropFinalEmpty (Split (CHR 0x0A) d)) then map_option DkErr e
      else Some (DkErr ''bufio.Scanner: token too long''))"

definition bigEndian :: "string \<Rightarrow> nat" where
  "bigEndian s = foldl (\<lambda>n c. n * 256 + of_char c) 0 s"

function decodeDockerLogs :: "string \<Rightarrow> string \<Rightarrow> string option \<Rightarrow> LogEntry list \<times> dkerr option" where
  "decodeDockerLogs i d e =
     (if length d < 8 then (case e of None \<Rightarrow> ([], None) | Some _ \<Rightarrow> decodeRawLogLines i ''stdout'' d e)
      else
        let stream = streamName (hd d); n = bigEndian (take 4 (drop 4 d)) in
        if stream = '''' \<or> n = 0 then decodeRawLogLines i ''stdout'' d e
        else if length d < 8 + n then ([], Some (DkErr (case e of Some m \<Rightarrow> m | None \<Rightarrow> if length d = 8 then ''EOF'' else ''unexpected EOF'')))
        else (case decodeDockerLogs i (drop (8 + n) d) e of (es, r) \<Rightarrow> (emitLogChunk i stream (take n (drop 8 d)) @ es, r)))"
  by pat_completeness auto
termination by (relation "measure (\<lambda>(i, d, e). length d)") auto

definition logQuery :: "int \<Rightarrow> bool \<Rightarrow> time \<Rightarrow> string" where
  "logQuery n follow since =
     (if follow
      then ''follow=1'' @ (if IsZero since then '''' else ''&since='' @ Itoa (unixSec since)) @ ''&stderr=1&stdout=1&timestamps=1''
      else ''stderr=1&stdout=1&tail='' @ Itoa n @ ''&timestamps=1'')"

definition readLogs :: "'w dockerHost \<Rightarrow> 'w \<Rightarrow> string \<Rightarrow> string \<Rightarrow> 'w \<times> LogEntry list \<times> dkerr option" where
  "readLogs h w i query =
     (case dh_Get h w (''/containers/'' @ i @ ''/logs?'' @ query) of
        (w, Inl e) \<Rightarrow> (w, [], Some (translateDialError e))
      | (w, Inr (code, txt)) \<Rightarrow>
          (case statusErr code of Some e \<Rightarrow> (w, [], Some e) | None \<Rightarrow> (w, decodeDockerLogs i txt None)))"

definition socketLogs :: "'w dockerHost \<Rightarrow> 'w \<Rightarrow> string \<Rightarrow> int \<Rightarrow> 'w \<times> LogEntry list \<times> dkerr option" where
  "socketLogs h w i n = readLogs h w i (logQuery n False zeroTime)"

definition SocketClient ::
    "'w dockerHost \<Rightarrow> ((string \<times> (string \<times> string) list) list \<Rightarrow> (string \<times> (string \<times> string) list) list) \<Rightarrow> 'w DockerClient" where
  "SocketClient h arr =
     \<lparr>dc_Version = dockerVersion h, dc_Containers = socketContainers h, dc_Container = socketContainer h arr, dc_Images = socketImages h,
      dc_Image = socketImage h, dc_Volumes = socketVolumes h, dc_Networks = socketNetworks h, dc_Info = socketInfo h,
      dc_Logs = socketLogs h, dc_Stats = socketStats h, dc_Action = socketAction h, dc_PruneImages = socketPruneImages h,
      dc_PruneBuildCache = socketPruneBuildCache h\<rparr>"

end
