(* ===== verification/Services.thy ===== *)
theory Services
  imports Step_Runner Go_Text
begin

text \<open>
  The service manager (\<^verbatim>\<open>internal/systemd/systemd.go\<close>) with its two clients, systemctl (\<^verbatim>\<open>systemctl_client.go\<close>) and
  launchctl (\<^verbatim>\<open>launchctl_client.go\<close>), and their parsers. A command of the agent is a function of the world that gives the
  output and how the process ended; the helper is called through a \<open>PrivCaller\<close>. A timeout is an end of the process.
\<close>

section \<open>Types (systemd.go)\<close>

record ServiceUnit =
  su_Name :: string
  su_Description :: string
  su_LoadState :: string
  su_ActiveState :: string
  su_SubState :: string
  su_Type :: string
  su_EnabledOnBoot :: string
  su_Protected :: bool
  su_ProtectReason :: string

record ServiceDetail =
  sd_Unit :: ServiceUnit
  sd_FragmentPath :: string
  sd_Following :: string
  sd_NRestarts :: int

record ServiceStatus =
  ss_Available :: bool
  ss_UnavailableReason :: string
  ss_UnavailableMessage :: string

datatype sderr = ErrNotSystemd | ErrUnsupportedAction | ProtectedUnitError string string string | SdErr gerr

definition sdMsg :: "sderr \<Rightarrow> string" where
  "sdMsg e = (case e of
       ErrNotSystemd \<Rightarrow> ''systemd: host is not running systemd''
     | ErrUnsupportedAction \<Rightarrow> ''systemd: unsupported action''
     | ProtectedUnitError unit action reason \<Rightarrow> ''systemd: '' @ action @ '' refused on protected unit '' @ Quote unit @ '': '' @ reason
     | SdErr g \<Rightarrow> err_msg g)"

definition ReasonNotSystemd :: string where "ReasonNotSystemd = ''not_systemd''"
definition ReasonPermissionDenied :: string where "ReasonPermissionDenied = ''permission_denied''"
definition ReasonUnknown :: string where "ReasonUnknown = ''unknown''"

definition allowedActions :: "string list" where
  "allowedActions = [''start'', ''stop'', ''restart'', ''reload'', ''enable'', ''disable'']"

record 'w ServiceClient =
  cl_Available :: "'w \<Rightarrow> 'w \<times> (sderr + unit)"
  cl_List :: "'w \<Rightarrow> 'w \<times> (sderr + ServiceUnit list)"
  cl_Get :: "'w \<Rightarrow> string \<Rightarrow> 'w \<times> (sderr + ServiceDetail)"
  cl_Action :: "'w \<Rightarrow> string \<Rightarrow> string \<Rightarrow> 'w \<times> (sderr + unit)"

record 'w ServiceManager =
  sm_client :: "'w ServiceClient"
  sm_protected :: "(string \<times> string) list"

section \<open>The manager\<close>

definition baseProtected :: "(string \<times> string) list" where
  "baseProtected =
     [(''sshd.service'', ''SSH daemon is the transport into the agent''),
      (''ssh.service'', ''SSH daemon is the transport into the agent''),
      (''com.openssh.sshd'', ''SSH daemon is the transport into the agent''),
      (''rootmote-agent.service'', ''Rootmote agent supervises itself; refuse self-shutdown''),
      (''com.rockclaver.rootmote-agent'', ''Rootmote agent supervises itself; refuse self-shutdown''),
      (''caddy.service'', ''Caddy terminates TLS for preview tunnels''),
      (''homebrew.mxcl.caddy'', ''Caddy terminates TLS for preview tunnels''),
      (''init.scope'', ''pid-1/init must never be stopped'')]"

definition NewServiceManager :: "'w ServiceClient option \<Rightarrow> string list \<Rightarrow> gerr + 'w ServiceManager" where
  "NewServiceManager client extra =
     (case client of None \<Rightarrow> Inl (failure ''systemd: Client is required'')
      | Some c \<Rightarrow>
          Inr \<lparr>sm_client = c,
            sm_protected = fold (\<lambda>n p. if TrimSpace n = '''' then p else AList.update (TrimSpace n) ''protected by host configuration'' p)
              extra baseProtected\<rparr>)"

definition protectedReason :: "'w ServiceManager \<Rightarrow> string \<Rightarrow> string option" where
  "protectedReason m name =
     (case map_of (sm_protected m) name of
        Some reason \<Rightarrow> Some reason
      | None \<Rightarrow> if \<not> Contains name ''.'' then map_of (sm_protected m) (name @ ''.service'') else None)"

definition IsProtected :: "'w ServiceManager \<Rightarrow> string \<Rightarrow> bool" where
  "IsProtected m name \<longleftrightarrow> protectedReason m name \<noteq> None"

definition decorate :: "'w ServiceManager \<Rightarrow> ServiceUnit \<Rightarrow> ServiceUnit" where
  "decorate m u = (case protectedReason m (su_Name u) of
     Some reason \<Rightarrow> u\<lparr>su_Protected := True, su_ProtectReason := reason\<rparr> | None \<Rightarrow> u)"

definition classifyService :: "sderr \<Rightarrow> string" where
  "classifyService e = (case e of
       ErrNotSystemd \<Rightarrow> ReasonNotSystemd
     | _ \<Rightarrow> if Contains (ToLower (sdMsg e)) ''permission denied'' then ReasonPermissionDenied else ReasonUnknown)"

definition serviceStatus :: "'w ServiceManager \<Rightarrow> 'w \<Rightarrow> 'w \<times> ServiceStatus" where
  "serviceStatus m w =
     (case cl_Available (sm_client m) w of
        (w, Inl e) \<Rightarrow> (w, \<lparr>ss_Available = False, ss_UnavailableReason = classifyService e, ss_UnavailableMessage = sdMsg e\<rparr>)
      | (w, Inr _) \<Rightarrow> (w, \<lparr>ss_Available = True, ss_UnavailableReason = '''', ss_UnavailableMessage = ''''\<rparr>))"

definition serviceList :: "'w ServiceManager \<Rightarrow> 'w \<Rightarrow> 'w \<times> (sderr + ServiceUnit list)" where
  "serviceList m w =
     (case cl_List (sm_client m) w of (w, Inl e) \<Rightarrow> (w, Inl e) | (w, Inr us) \<Rightarrow> (w, Inr (map (decorate m) us)))"

definition serviceGet :: "'w ServiceManager \<Rightarrow> 'w \<Rightarrow> string \<Rightarrow> 'w \<times> (sderr + ServiceDetail)" where
  "serviceGet m w name =
     (if name = '''' then (w, Inl (SdErr (failure ''systemd: unit name required'')))
      else (case cl_Get (sm_client m) w name of
          (w, Inl e) \<Rightarrow> (w, Inl e)
        | (w, Inr d) \<Rightarrow> (w, Inr (d\<lparr>sd_Unit := decorate m (sd_Unit d)\<rparr>))))"

definition managerAction :: "'w ServiceManager \<Rightarrow> 'w \<Rightarrow> string \<Rightarrow> string \<Rightarrow> 'w \<times> (sderr + unit)" where
  "managerAction m w name action =
     (if name = '''' then (w, Inl (SdErr (failure ''systemd: unit name required'')))
      else if action \<notin> set allowedActions then (w, Inl ErrUnsupportedAction)
      else (case protectedReason m name of
          Some reason \<Rightarrow>
            if action = ''stop'' \<or> action = ''disable'' then (w, Inl (ProtectedUnitError name action reason))
            else cl_Action (sm_client m) w name action
        | None \<Rightarrow> cl_Action (sm_client m) w name action))"

section \<open>The systemctl client\<close>

text \<open>
  Commands as the agent runs them: \<open>sx_Output\<close> gives the standard output, \<open>sx_Combined\<close> both streams.
\<close>

record 'w systemctl =
  sx_LookPath :: "'w \<Rightarrow> string \<Rightarrow> bool"
  sx_RunDir :: "'w \<Rightarrow> bool"
  sx_Output :: "'w \<Rightarrow> string list \<Rightarrow> 'w \<times> string \<times> cmdEnd"
  sx_Combined :: "'w \<Rightarrow> string list \<Rightarrow> 'w \<times> string \<times> cmdEnd"
  sx_Root :: bool
  sx_Priv :: "'w PrivCaller"
  sx_Binary :: string

definition systemctlBin :: "'w systemctl \<Rightarrow> string" where
  "systemctlBin c = (if sx_Binary c \<noteq> '''' then sx_Binary c else ''systemctl'')"

definition systemctlAvailable :: "'w systemctl \<Rightarrow> 'w \<Rightarrow> 'w \<times> (sderr + unit)" where
  "systemctlAvailable c w =
     (if \<not> sx_LookPath c w (systemctlBin c) then (w, Inl ErrNotSystemd)
      else if \<not> sx_RunDir c w then (w, Inl ErrNotSystemd)
      else (case sx_Combined c w [systemctlBin c, ''is-system-running''] of (w, out, end) \<Rightarrow>
        if TrimSpace out = ''offline'' then (w, Inl ErrNotSystemd)
        else if end \<noteq> CmdOk \<and> TrimSpace out = ''''
          then (w, Inl (SdErr (failure (''systemctl is-system-running: '' @ cmdError end))))
        else (w, Inr ())))"

definition blankUnit :: "string \<Rightarrow> ServiceUnit" where
  "blankUnit name = \<lparr>su_Name = name, su_Description = '''', su_LoadState = '''', su_ActiveState = '''', su_SubState = '''',
     su_Type = '''', su_EnabledOnBoot = '''', su_Protected = False, su_ProtectReason = ''''\<rparr>"

definition parseListUnit :: "string \<Rightarrow> ServiceUnit option" where
  "parseListUnit l =
     (let line = TrimSpace l in
      if line = '''' then None
      else case Fields line of
          name # load # active # sub # desc \<Rightarrow>
            Some ((blankUnit name)\<lparr>su_LoadState := load, su_ActiveState := active, su_SubState := sub,
              su_Description := Join '' '' desc\<rparr>)
        | _ \<Rightarrow> None)"

definition parseListUnits :: "string \<Rightarrow> ServiceUnit list" where
  "parseListUnits s = List.map_filter parseListUnit (scanLines s)"

definition parseUnitFile :: "string \<Rightarrow> (string \<times> string) option" where
  "parseUnitFile l = (case Fields l of name # state # _ \<Rightarrow> Some (name, state) | _ \<Rightarrow> None)"

definition unitFileStates :: "'w systemctl \<Rightarrow> 'w \<Rightarrow> 'w \<times> (cmdEnd + (string \<times> string) list)" where
  "unitFileStates c w =
     (case sx_Output c w [systemctlBin c, ''list-unit-files'', ''--type=service'', ''--no-legend'', ''--no-pager''] of
        (w, out, end) \<Rightarrow>
          if end \<noteq> CmdOk then (w, Inl end)
          else (w, Inr (fold (\<lambda>(k, v). AList.update k v) (List.map_filter parseUnitFile (scanLines out)) [])))"

text \<open>\<open>flush\<close> stores the block read so far; the accumulator is the table, the id and the type.\<close>

definition flushType :: "(string \<times> string) list \<times> string \<times> string \<Rightarrow> (string \<times> string) list \<times> string \<times> string" where
  "flushType a = (case a of (ts, i, t) \<Rightarrow> (if i \<noteq> '''' then AList.update i t ts else ts, '''', ''''))"

fun unitTypeLine ::
    "string \<Rightarrow> (string \<times> string) list \<times> string \<times> string \<Rightarrow> (string \<times> string) list \<times> string \<times> string" where
  "unitTypeLine line (ts, i, t) =
     (if line = '''' then flushType (ts, i, t)
      else if HasPrefix line ''Id='' then (ts, TrimPrefix line ''Id='', t)
      else if HasPrefix line ''Type='' then (ts, i, TrimPrefix line ''Type='')
      else (ts, i, t))"

definition parseUnitTypes :: "string \<Rightarrow> (string \<times> string) list" where
  "parseUnitTypes s = fst (flushType (fold unitTypeLine (scanLines s) ([], '''', '''')))"

definition unitTypes :: "'w systemctl \<Rightarrow> 'w \<Rightarrow> 'w \<times> (cmdEnd + (string \<times> string) list)" where
  "unitTypes c w =
     (case sx_Output c w [systemctlBin c, ''show'', ''*.service'', ''--property=Id,Type'', ''--no-pager''] of
        (w, out, end) \<Rightarrow> if end \<noteq> CmdOk then (w, Inl end) else (w, Inr (parseUnitTypes out)))"

definition systemctlList :: "'w systemctl \<Rightarrow> 'w \<Rightarrow> 'w \<times> (sderr + ServiceUnit list)" where
  "systemctlList c w =
     (case sx_Output c w [systemctlBin c, ''list-units'', ''--type=service'', ''--all'', ''--no-legend'', ''--plain'', ''--no-pager''] of
        (w, out, end) \<Rightarrow>
          if end \<noteq> CmdOk then (w, Inl (SdErr (failure (''systemctl list-units: '' @ cmdError end))))
          else
            (case unitFileStates c w of (w, enabled) \<Rightarrow>
              (case unitTypes c w of (w, types) \<Rightarrow>
                (let units = parseListUnits out;
                     units = (case enabled of Inl _ \<Rightarrow> units
                       | Inr m \<Rightarrow> map (\<lambda>u. case map_of m (su_Name u) of Some st \<Rightarrow> u\<lparr>su_EnabledOnBoot := st\<rparr> | None \<Rightarrow> u) units);
                     units = (case types of Inl _ \<Rightarrow> units
                       | Inr m \<Rightarrow> map (\<lambda>u. u\<lparr>su_Type := (case map_of m (su_Name u) of Some t \<Rightarrow> t | None \<Rightarrow> '''')\<rparr>) units)
                 in (w, Inr units)))))"

definition showProperty :: "string \<Rightarrow> (string \<times> string) option" where
  "showProperty line = (case Cut line (CHR ''='') of (k, v, found) \<Rightarrow> if found \<and> k \<noteq> '''' then Some (k, v) else None)"

definition parseShowProperties :: "string \<Rightarrow> (string \<times> string) list" where
  "parseShowProperties s = fold (\<lambda>(k, v). AList.update k v) (List.map_filter showProperty (scanLines s)) []"

definition atoiOr0 :: "string \<Rightarrow> int" where
  "atoiOr0 s = (case ParseInt 64 (TrimSpace s) of Some n \<Rightarrow> if n < 0 then 0 else n | None \<Rightarrow> 0)"

definition propOf :: "(string \<times> string) list \<Rightarrow> string \<Rightarrow> string" where
  "propOf m k = (case map_of m k of Some v \<Rightarrow> v | None \<Rightarrow> '''')"

definition systemctlGet :: "'w systemctl \<Rightarrow> 'w \<Rightarrow> string \<Rightarrow> 'w \<times> (sderr + ServiceDetail)" where
  "systemctlGet c w name =
     (case sx_Output c w [systemctlBin c, ''show'', name,
        ''--property=Id,Description,LoadState,ActiveState,SubState,UnitFileState,FragmentPath,Following,NRestarts''] of
        (w, out, end) \<Rightarrow>
          if end \<noteq> CmdOk then (w, Inl (SdErr (failure (''systemctl show '' @ name @ '': '' @ cmdError end))))
          else
            (let props = parseShowProperties out; i = propOf props ''Id'' in
             (w, Inr \<lparr>sd_Unit = (blankUnit (if i = '''' then name else i))\<lparr>su_Description := propOf props ''Description'',
                  su_LoadState := propOf props ''LoadState'', su_ActiveState := propOf props ''ActiveState'',
                  su_SubState := propOf props ''SubState'', su_EnabledOnBoot := propOf props ''UnitFileState''\<rparr>,
                sd_FragmentPath = propOf props ''FragmentPath'', sd_Following = propOf props ''Following'',
                sd_NRestarts = atoiOr0 (propOf props ''NRestarts'')\<rparr>)))"

definition systemctlAction :: "'w systemctl \<Rightarrow> 'w \<Rightarrow> string \<Rightarrow> string \<Rightarrow> 'w \<times> (sderr + unit)" where
  "systemctlAction c w name action =
     (if action \<in> {''start'', ''stop'', ''restart'', ''reload''} \<and> \<not> sx_Root c then
        (case sx_Priv c w (''service.'' @ action) [name] of
           (w, _, Some e) \<Rightarrow> (w, Inl (SdErr e)) | (w, _, None) \<Rightarrow> (w, Inr ()))
      else
        (case sx_Combined c w [systemctlBin c, action, name] of (w, out, end) \<Rightarrow>
           if end \<noteq> CmdOk
           then (w, Inl (SdErr (failure (if TrimSpace out = '''' then cmdError end else TrimSpace out))))
           else (w, Inr ())))"

definition SystemctlClient :: "'w systemctl \<Rightarrow> 'w ServiceClient" where
  "SystemctlClient c = \<lparr>cl_Available = systemctlAvailable c, cl_List = systemctlList c, cl_Get = systemctlGet c,
     cl_Action = systemctlAction c\<rparr>"

section \<open>The launchctl client\<close>

record 'w launchctl =
  lx_LookPath :: "'w \<Rightarrow> string \<Rightarrow> bool"
  lx_Run :: "'w \<Rightarrow> string list \<Rightarrow> 'w \<times> string \<times> cmdEnd"
  lx_UID :: string
  lx_CurrentUID :: "'w \<Rightarrow> string option"
  lx_Binary :: string

definition launchctlBin :: "'w launchctl \<Rightarrow> string" where
  "launchctlBin c = (if lx_Binary c \<noteq> '''' then lx_Binary c else ''launchctl'')"

definition launchctlAvailable :: "'w launchctl \<Rightarrow> 'w \<Rightarrow> 'w \<times> (sderr + unit)" where
  "launchctlAvailable c w = (w, if lx_LookPath c w (launchctlBin c) then Inr () else Inl ErrNotSystemd)"

text \<open>\<open>strconv.Atoi\<close> with its error ignored: a number that is out of range is the nearest one.\<close>

definition atoiAny :: "string \<Rightarrow> int" where
  "atoiAny s = (case ParseInt 64 s of Some n \<Rightarrow> n
     | None \<Rightarrow>
         (let ds = (if HasPrefix s ''-'' \<or> HasPrefix s ''+'' then tl s else s) in
          if ds = [] \<or> \<not> list_all isDigit ds then 0 else if HasPrefix s ''-'' then - (2 ^ 63) else 2 ^ 63 - 1))"

definition parseLaunchctlLine :: "string \<Rightarrow> ServiceUnit option" where
  "parseLaunchctlLine l =
     (let line = TrimSpace l in
      if line = '''' \<or> HasPrefix line ''PID'' then None
      else case Fields line of
          pidf # status # lab # _ \<Rightarrow>
            (let pid = (if pidf \<noteq> ''-'' then atoiAny pidf else 0);
                 (active, sub) = (if pid > 0 then (''active'', ''running'')
                   else if status \<noteq> ''0'' then (''failed'', ''exited'') else (''inactive'', ''exited''))
             in Some ((blankUnit lab)\<lparr>su_Description := lab, su_LoadState := ''loaded'', su_ActiveState := active,
                  su_SubState := sub, su_EnabledOnBoot := ''loaded''\<rparr>))
        | _ \<Rightarrow> None)"

definition parseLaunchctlList :: "string \<Rightarrow> ServiceUnit list" where
  "parseLaunchctlList raw = List.map_filter parseLaunchctlLine (scanLines raw)"

definition launchctlList :: "'w launchctl \<Rightarrow> 'w \<Rightarrow> 'w \<times> (sderr + ServiceUnit list)" where
  "launchctlList c w =
     (case lx_Run c w [launchctlBin c, ''list''] of (w, out, end) \<Rightarrow>
        if end \<noteq> CmdOk then (w, Inl (SdErr (failure (''launchctl list: '' @ cmdError end))))
        else (w, Inr (parseLaunchctlList out)))"

definition domain :: "'w launchctl \<Rightarrow> 'w \<Rightarrow> string" where
  "domain c w =
     (let uid = (if lx_UID c = '''' then (case lx_CurrentUID c w of Some u \<Rightarrow> u | None \<Rightarrow> '''') else lx_UID c) in
      ''gui/'' @ (if uid = '''' then ''501'' else uid))"

definition launchctlGet :: "'w launchctl \<Rightarrow> 'w \<Rightarrow> string \<Rightarrow> 'w \<times> (sderr + ServiceDetail)" where
  "launchctlGet c w name =
     (if TrimSpace name = '''' then (w, Inl (SdErr (failure ''launchctl: service name required'')))
      else (case launchctlList c w of (w, r) \<Rightarrow>
        (case find (\<lambda>u. su_Name u = name) (case r of Inl _ \<Rightarrow> [] | Inr us \<Rightarrow> us) of
           Some u \<Rightarrow> (w, Inr \<lparr>sd_Unit = u, sd_FragmentPath = domain c w @ ''/'' @ name, sd_Following = '''', sd_NRestarts = 0\<rparr>)
         | None \<Rightarrow> (w, Inl (SdErr (failure (''launchctl: unknown service '' @ Quote name)))))))"

definition launchctlAction :: "'w launchctl \<Rightarrow> 'w \<Rightarrow> string \<Rightarrow> string \<Rightarrow> 'w \<times> (sderr + unit)" where
  "launchctlAction c w name action =
     (if TrimSpace name = '''' then (w, Inl (SdErr (failure ''launchctl: service name required'')))
      else
        (let target = domain c w @ ''/'' @ name;
             args = (if action = ''start'' then Some [''kickstart'', target]
               else if action = ''restart'' then Some [''kickstart'', ''-k'', target]
               else if action = ''stop'' then Some [''kill'', ''TERM'', target] else None)
         in case args of
            None \<Rightarrow> (w, Inl (SdErr (failure (''launchctl: action '' @ Quote action @ '' is not supported on macOS''))))
          | Some as \<Rightarrow>
              (case lx_Run c w (launchctlBin c # as) of (w, out, end) \<Rightarrow>
                 if end \<noteq> CmdOk
                 then (w, Inl (SdErr (failure (if TrimSpace out = '''' then cmdError end else TrimSpace out))))
                 else (w, Inr ()))))"

definition LaunchctlClient :: "'w launchctl \<Rightarrow> 'w ServiceClient" where
  "LaunchctlClient c = \<lparr>cl_Available = launchctlAvailable c, cl_List = launchctlList c, cl_Get = launchctlGet c,
     cl_Action = launchctlAction c\<rparr>"

end
