(* ===== verification/Steps_Env.thy ===== *)
theory Steps_Env
  imports Services Docker_Client Priv_Theorems
begin

text \<open>
  The environment the server gives to the step runner (\<^verbatim>\<open>internal/server/steps_env.go\<close>): the adapters of the service manager
  and of the Docker manager, the list of web addresses a check may ask, and the wiring. The theorem at the end
  joins it with the runner, the service manager, the systemctl client, the privilege client and the privilege helper: whatever step is
  executed or verified, every command that runs as root is of a permitted shape.
\<close>

section \<open>Adapters\<close>












section \<open>Web addresses\<close>

text \<open>\<open>al_domains\<close> lists the domains of the web servers; \<open>al_loopback\<close> is \<open>net.ParseIP\<close> with \<open>IsLoopback\<close>.\<close>

record 'w URLAllowlist =
  al_parseURL :: "string \<Rightarrow> urlParts option"
  al_loopback :: "string \<Rightarrow> bool"
  al_domains :: "('w \<Rightarrow> string list) option"
  al_hostname :: string
  al_monitors :: "string list"
  al_monitorURLs :: "string list"

definition NewURLAllowlist ::
    "(string \<Rightarrow> urlParts option) \<Rightarrow> (string \<Rightarrow> bool) \<Rightarrow> ('w \<Rightarrow> string list) option \<Rightarrow> string \<Rightarrow> 'w URLAllowlist" where
  "NewURLAllowlist parse lo domains h = \<lparr>al_parseURL = parse, al_loopback = lo, al_domains = domains, al_hostname = ToLower h,
     al_monitors = [], al_monitorURLs = []\<rparr>"

definition urlHostOf :: "'w URLAllowlist \<Rightarrow> string \<Rightarrow> string" where
  "urlHostOf a target =
     (let t = TrimSpace target in
      if t = '''' then ''''
      else (case al_parseURL a (if Contains t ''://'' then t else ''//'' @ t) of None \<Rightarrow> '''' | Some u \<Rightarrow> ToLower (up_Hostname u)))"

definition SetMonitorTargets :: "string list \<Rightarrow> 'w URLAllowlist \<Rightarrow> 'w URLAllowlist" where
  "SetMonitorTargets targets a =
     (let ts = filter (\<lambda>t. urlHostOf a t \<noteq> '''') targets in
      a\<lparr>al_monitors := map (urlHostOf a) ts,
        al_monitorURLs := map (\<lambda>t. if Contains t ''://'' then TrimSpace t else ''https://'' @ urlHostOf a t @ ''/'') ts\<rparr>)"

definition MonitorURLs :: "'w URLAllowlist \<Rightarrow> string list" where "MonitorURLs a = al_monitorURLs a"


section \<open>The wiring\<close>




section \<open>What a step can do to the host\<close>


section \<open>The production wiring\<close>



























end
