(* ===== verification/Web_Servers.thy ===== *)
theory Web_Servers
  imports Services Monitor_Targets "HOL-Library.Product_Lexorder"
begin

text \<open>
  The inventory of web servers (\<^verbatim>\<open>internal/webserver/webserver.go\<close>): the configuration files of Caddy, nginx and Apache, one
  level of includes, the domains named in them and the units of the service manager. Nothing is written; the
  file system is a record of its answers during one listing. A file is its contents and the error that ended reading.
\<close>

section \<open>Data\<close>

definition KindCaddy :: string where "KindCaddy = ''caddy''"
definition KindNginx :: string where "KindNginx = ''nginx''"
definition KindApache :: string where "KindApache = ''apache''"




record 'w WebSystemd =
  ws_Status :: "'w \<Rightarrow> 'w \<times> ServiceStatus"
  ws_List :: "'w \<Rightarrow> 'w \<times> (sderr + ServiceUnit list)"



record 'w WebManager =
  wm_systemd :: "'w WebSystemd"
  wm_paths :: "(string \<times> string list) list"

definition defaultPaths :: "(string \<times> string list) list" where
  "defaultPaths =
     [(KindCaddy,
        [''/etc/caddy/Caddyfile'', ''/etc/caddy/*.caddy'', ''/etc/caddy/conf.d/*.caddy'', ''/etc/caddy/rootmote/*.caddy'',
         ''/opt/homebrew/etc/Caddyfile'', ''/opt/homebrew/etc/caddy/Caddyfile'', ''/opt/homebrew/etc/caddy/*.caddy'',
         ''/opt/homebrew/etc/caddy/conf.d/*.caddy'', ''/usr/local/etc/Caddyfile'', ''/usr/local/etc/caddy/Caddyfile'',
         ''/usr/local/etc/caddy/*.caddy'', ''/usr/local/etc/caddy/conf.d/*.caddy'']),
      (KindNginx,
        [''/etc/nginx/sites-enabled/*'', ''/etc/nginx/conf.d/*.conf'', ''/opt/homebrew/etc/nginx/servers/*.conf'',
         ''/opt/homebrew/etc/nginx/conf.d/*.conf'', ''/usr/local/etc/nginx/servers/*.conf'', ''/usr/local/etc/nginx/conf.d/*.conf'']),
      (KindApache,
        [''/etc/apache2/sites-enabled/*'', ''/etc/httpd/conf.d/*.conf'', ''/opt/homebrew/etc/httpd/extra/httpd-vhosts.conf'',
         ''/usr/local/etc/httpd/extra/httpd-vhosts.conf''])]"

definition NewWebManager :: "'w WebSystemd option \<Rightarrow> (string \<times> string list) list \<Rightarrow> gerr + 'w WebManager" where
  "NewWebManager systemd paths =
     (case systemd of None \<Rightarrow> Inl (failure ''webserver: Systemd is required'')
      | Some s \<Rightarrow> Inr \<lparr>wm_systemd = s, wm_paths = fold (\<lambda>(k, v) ps. AList.update k v ps) paths defaultPaths\<rparr>)"



section \<open>Unique strings\<close>




section \<open>Hosts\<close>









section \<open>Paths\<close>










section \<open>Files\<close>
















section \<open>Listing\<close>





section \<open>Unique and trimmed strings\<close>








section \<open>Domains have clean hosts\<close>












section \<open>Nothing is lost and nothing is listed twice\<close>














section \<open>The snapshot\<close>
















end
