(* ===== verification/Spec2Isabelle.thy ===== *)
theory Spec2Isabelle
  imports Remediation_Theorems Approval_Theorems Monitor_Manager Firewall_Safety Priv_Theorems Step_Theorems Redact_Theorems Diagnose_Theorems Playbook_Flow Monitor_Checks_Theorems Control_Plane_Safety
    Docker_Theorems Steps_Env Web_Servers
begin

text \<open>
  Verification of the Rootmote agent, a program that watches a Linux server, reports incidents to a relay and
  runs fixes that a person approved on the phone. The sources are Go files under \<^verbatim>\<open>internal/\<close>; each group of
  definitions below translates the functions it names, in the order of the source.

  \<^bold>\<open>The parts and how they interact.\<close> The monitor engine turns observations of the host into transitions of one
  state machine per target and queues firing and resolved events; the relay client sends them with a sequence
  number and a signature. When an incident opens, evidence is collected and redacted and signatures are matched; a fixed
  rule or the playbook service gives a playbook, which is checked against the step catalog and the inventory.
  A playbook becomes a runbook with a content hash; the remediation manager stores it,
  approves it with a one-time confirmation token bound to the hash, executes it step by step and records every step.
  A step runs through the step runner; what needs root goes to the privilege helper, a separate process that
  validates its arguments again. The control plane takes the messages of the phone, checks the pairing key and the
  request id, and calls all of these. The helper changes the firewall through the firewall manager, which never
  closes the SSH port.

  \<^bold>\<open>Theories.\<close>
  \<^item> \<open>Go_Prelude\<close>: the parts of Go and of its library that the sources use (errors, early return, strings, numbers,
    times and durations with 64-bit wrap-around, JSON documents) and the shared lemmas. \<open>Go_Text\<close>: searching and trimming of
    text, its characters, quoted and rounded output, and the regular expressions of the sources.
  \<^item> \<open>Steps_Catalog\<close>: \<^verbatim>\<open>steps/{catalog,params,validate,privargs}.go\<close>. The catalog is a bijection between ids and step types;
    accepted names are single safe words; undo is an involution.
  \<^item> \<open>Runbook_Model\<close>: \<^verbatim>\<open>runbook/runbook.go\<close>, documents as JSON trees, canonical form, content hash.
  \<^item> \<open>State_Store\<close>: the tables of \<^verbatim>\<open>store/store.go\<close> that the other parts use, as lists of rows in a record with a schedule of
    database failures (every call may fail); guarded updates are compare-and-set.
  \<^item> \<open>Review_Tokens\<close>, \<open>Approval_Theorems\<close>: \<^verbatim>\<open>review/review.go\<close> and the token validator of \<^verbatim>\<open>server/remediation.go\<close>; tokens are
    single-use and bound to incident, kind and content.
  \<^item> \<open>Remediation\<close>, \<open>Remediation_Safety\<close>, \<open>Remediation_Theorems\<close>: \<^verbatim>\<open>remediation/remediation.go\<close>. Every operation refines an abstract
    machine of ticks; its invariant holds in every reachable state, whatever calls fail and whatever the executor
    answers; steps run only when approved, in order, at most once.
  \<^item> \<open>Monitor_Machine\<close>, \<open>Monitor_Manager\<close>: \<^verbatim>\<open>monitor/{statemachine,definitions,types,params,manager,silence}.go\<close>. Thresholds,
    cooldown, alternation of events, and that a transition is queued before it is recorded.
  \<^item> \<open>Monitor_Checks\<close>, \<open>Monitor_Targets\<close>, \<open>Monitor_Checks_Theorems\<close>: \<^verbatim>\<open>monitor/{evaluators,checks,checks_targets,pm2,params}.go\<close>. What a
    tick reads is a record. Every enabled target is reported, so an unreadable one keeps its state; values in the
    band never flap, a crash loop is three restarts in five minutes, the fill-rate history stays small and predicts
    steady growth exactly, a boot is announced once.
  \<^item> \<open>Relay_Client\<close>, \<open>Event_Queue\<close>: \<^verbatim>\<open>watchtower/{watchtower,monitor_events}.go\<close>. Sequence numbers under crashes and lost
    answers, the queue file, condensing, flushing with concurrent enqueues.
  \<^item> \<open>Firewall\<close>, \<open>Firewall_Safety\<close>: \<^verbatim>\<open>firewall/{firewall,backends}.go\<close>, with the commands the host runs recorded in a log.
  \<^item> \<open>Priv_Helper\<close>, \<open>Priv_Safety\<close>, \<open>Priv_Theorems\<close>: \<^verbatim>\<open>steps/{helper,helper_weberrors}.go\<close>. Every command the helper runs is of a
    permitted shape; signals go to one pinned, checked process; the protection check ends.
  \<^item> \<open>Step_Runner\<close>, \<open>Step_Theorems\<close>: \<^verbatim>\<open>steps/{step,env,disk,runner,priv_client}.go\<close>, and the agent and the helper together.
  \<^item> \<open>Services\<close>: \<^verbatim>\<open>systemd/{systemd,systemctl_client,launchctl_client}.go\<close>, the service manager with its protected units and its two
    clients. \<open>Docker_Engine\<close>, \<open>Docker_Client\<close>, \<open>Docker_Theorems\<close>: \<^verbatim>\<open>docker/docker.go\<close>, the manager and the client of the daemon's socket.
    The framing of logs is decoded exactly, an action is one post to one segment, secrets of the environment are hidden.
  \<^item> \<open>Steps_Env\<close>: \<^verbatim>\<open>server/steps_env.go\<close>, the production environment of the steps, with the allowlist of addresses. Composed with the
    runner and the helper: whatever step runs, every command with the rights of root is of a permitted shape.
  \<^item> \<open>Web_Servers\<close>: \<^verbatim>\<open>webserver/webserver.go\<close>, the inventory of web servers from their configuration files and units. It lists exactly
    the domains of the files read, each once, in order, with clean names.
  \<^item> \<open>Redact\<close>, \<open>Redact_Theorems\<close>: \<^verbatim>\<open>diagnose/redact/{redact,placeholders}.go\<close>. Reports are exact, the entropy rule is idempotent
    and decides the Shannon entropy, address labels are stable and never shared.
  \<^item> \<open>Evidence\<close>, \<open>Diagnose\<close>, \<open>Diagnose_Theorems\<close>: \<^verbatim>\<open>diagnose/{evidence,evidence_stack,signatures,diagnose}.go\<close>. Bundles keep to
    their budget and hold only redacted text where text is redacted; signatures cite evidence of the bundle.
  \<^item> \<open>Playbook\<close>, \<open>Playbook_Rules\<close>, \<open>Playbook_Theorems\<close>: \<^verbatim>\<open>playbook/{playbook,validate,describe,rules}.go\<close>. The check decides a typing
    judgement on steps, the fixed rules only make playbooks it accepts, the runbook states its steps.
  \<^item> \<open>Playbook_Service\<close>, \<open>Playbook_Flow\<close>: \<^verbatim>\<open>playbook/{generate,service}.go\<close> and \<^verbatim>\<open>watchtower/playbook.go\<close>: what a request holds, when
    one is sent, and that only checked playbooks reach the remediation manager.
  \<^item> \<open>Remediation_Wire\<close>, \<open>Remediation_Stream\<close>: \<^verbatim>\<open>watchtower/remediation.go\<close> and the event stream of \<^verbatim>\<open>remediation/remediation.go\<close>. What the
    relay is told about a run, that the output of a step never influences it, and that a subscriber sees every event
    once across the boundary of replay and live delivery.
  \<^item> \<open>Control_Plane\<close>, \<open>Control_Plane_Theorems\<close>, \<open>Control_Plane_Safety\<close>: \<^verbatim>\<open>server/{server,remediation,playbook_rpc}.go\<close>, the handlers of every
    message over the components above, with background work as steps of their own. Replays have no effect, every
    request is answered once, frames arrive in order, and over any run of the whole server a step runs only for a
    request with an accepted token for exactly that content.

  \<^bold>\<open>Interfaces.\<close> Contracts between components are locales, interpreted on the definitions of the model: the
  compare-and-set of the store (\<open>State_Store\<close>), the firewall backends and manager (\<open>fw_backend\<close>, \<open>fw_manager\<close>), the host of the
  helper (\<open>guarded_host\<close>, \<open>signal_host\<close>), the environment of a step (\<open>guarded_env\<close>), what every step of evidence collection keeps
  (\<open>collecting\<close>), dependencies of the remediation manager that reveal no output (\<open>discreet\<close>), and that an evaluator reports every target it is asked about (\<open>full_report\<close>).

  \<^bold>\<open>State and effects.\<close> Stateful code passes its state explicitly; errors are values of a sum or option type, and every
  early return is a branch. The outside world is a type parameter: a host is a record of functions over it, so that
  theorems hold for every behaviour of commands, files, database and network. Loops are structural recursion, with
  the bounds of the code (64 ancestors, 40 and 12 polls, 45 health polls, 64 KiB scanner lines) as numbers; the search in the process tree is a
  partial function, proved to end when the parent relation has no cycle; the Compose loop is a function with a
  termination proof.

  \<^bold>\<open>Parameters.\<close> The digest and the HMAC, the JSON text decoder and encoder, \<open>url.Parse\<close> and the X.509 parser are
  arguments; where a theorem needs a law of theirs it is a hypothesis of the theorem.

  \<^bold>\<open>Not modelled.\<close> System calls behind the host interfaces (\<^verbatim>\<open>steps/helper_host*.go\<close>, \<^verbatim>\<open>process\<close>), sampling of metrics and
  discovery (\<^verbatim>\<open>infra\<close>, \<^verbatim>\<open>inventory\<close>, \<^verbatim>\<open>monitor/{host,sources}.go\<close>), the
  websocket itself, the live streams of \<^verbatim>\<open>docker/docker.go\<close>, the adapters of \<^verbatim>\<open>server/diagnose_sources.go\<close>, flag parsing: they read the
  host or wire components together. Goroutines are interleavings of whole operations; contexts and timeouts are answers of the
  host; white space is ASCII white space, a string is its bytes.
\<close>

end
